(* ===== verification/Prelude.thy ===== *)
theory Prelude
  imports Main "HOL-Library.Sublist"
begin

text \<open>
  Shared vocabulary of the development: the Go string functions the server uses, the shape of
  an HTTP reply, and tables of rows.

  \<^item> Strings are lists of bytes (\<open>char list\<close>), as Go strings are.  White space and letter case
    are those of ASCII: \<open>strings.TrimSpace\<close> and \<open>strings.ToLower\<close> are modelled on the ASCII
    range and leave every other byte alone.
  \<^item> A reply is the status code with either a body or the machine readable error code of
    \<open>httpx.WriteAPIError\<close> (pkg/httpx/httpx.go); the human readable message is left out.
  \<^item> A table is the list of its rows in insertion order; the SQL statements of the server are
    selections, guarded updates and deletions over it.
\<close>

named_theorems go_simps \<open>evaluation of the string and table functions\<close>
named_theorems tbl_simps \<open>look-ups and keys after a table statement\<close>

section \<open>Strings\<close>

definition is_space :: "char \<Rightarrow> bool" where
  "is_space c \<longleftrightarrow> c = CHR '' '' \<or> c = CHR 0x09 \<or> c = CHR 0x0A \<or> c = CHR 0x0B \<or> c = CHR 0x0C \<or> c = CHR 0x0D"

definition trim :: "string \<Rightarrow> string" where
  "trim s = rev (dropWhile is_space (rev (dropWhile is_space s)))"

definition lower_char :: "char \<Rightarrow> char" where
  "lower_char c = (if 65 \<le> (of_char c :: nat) \<and> (of_char c :: nat) \<le> 90 then char_of (of_char c + 32 :: nat) else c)"

definition to_lower :: "string \<Rightarrow> string" where
  "to_lower s = map lower_char s"

fun split_on :: "char \<Rightarrow> string \<Rightarrow> string list" where
  "split_on c [] = [[]]"
| "split_on c (x # xs) =
     (if x = c then [] # split_on c xs
      else (case split_on c xs of [] \<Rightarrow> [[x]] | y # ys \<Rightarrow> (x # y) # ys))"

fun join_with :: "string \<Rightarrow> string list \<Rightarrow> string" where
  "join_with sep [] = []"
| "join_with sep [x] = x"
| "join_with sep (x # y # ys) = x @ sep @ join_with sep (y # ys)"

definition has_prefix :: "string \<Rightarrow> string \<Rightarrow> bool" where
  "has_prefix p s \<longleftrightarrow> take (length p) s = p"

definition has_suffix :: "string \<Rightarrow> string \<Rightarrow> bool" where
  "has_suffix p s \<longleftrightarrow> has_prefix (rev p) (rev s)"

fun contains_sub :: "string \<Rightarrow> string \<Rightarrow> bool" where
  "contains_sub p [] = (p = [])"
| "contains_sub p (c # s) = (has_prefix p (c # s) \<or> contains_sub p s)"

text \<open>\<open>strings.EqualFold\<close> on ASCII.\<close>

definition equal_fold :: "string \<Rightarrow> string \<Rightarrow> bool" where
  "equal_fold a b \<longleftrightarrow> to_lower a = to_lower b"

lemma trim_Nil [simp]: "trim [] = []"
  by (simp add: trim_def)

lemma dropWhile_id: "xs = [] \<or> \<not> P (hd xs) \<Longrightarrow> dropWhile P xs = xs"
  by (cases xs) auto

lemma trim_hd: "trim s \<noteq> [] \<Longrightarrow> \<not> is_space (hd (trim s))"
proof -
  assume ne: "trim s \<noteq> []"
  define d where "d = dropWhile is_space s"
  define t where "t = takeWhile is_space (rev d)"
  have d: "d = trim s @ rev t"
    using takeWhile_dropWhile_id [of is_space "rev d"]
    unfolding t_def d_def trim_def by (metis rev_append rev_rev_ident)
  with ne have "d \<noteq> []" "hd d = hd (trim s)" by auto
  then show ?thesis
    unfolding d_def by (metis hd_dropWhile)
qed

lemma trim_last: "trim s \<noteq> [] \<Longrightarrow> \<not> is_space (last (trim s))"
  by (simp add: trim_def last_rev hd_dropWhile)

lemma trim_idem [simp]: "trim (trim s) = trim s"
proof (cases "trim s = []")
  case False
  have 1: "dropWhile is_space (trim s) = trim s"
    using trim_hd [OF False] False by (simp add: dropWhile_id)
  have "hd (rev (trim s)) = last (trim s)"
    using False by (simp add: hd_rev)
  then have "dropWhile is_space (rev (trim s)) = rev (trim s)"
    using trim_last [OF False] False by (simp add: dropWhile_id)
  then show ?thesis
    unfolding trim_def [of "trim s"] 1 by simp
qed simp

lemma trim_id: "\<forall>c\<in>set s. \<not> is_space c \<Longrightarrow> trim s = s"
proof -
  assume ns: "\<forall>c\<in>set s. \<not> is_space c"
  have d: "dropWhile is_space xs = xs" if "set xs = set s" for xs
  proof (rule dropWhile_id)
    have "hd xs \<in> set xs" if "xs \<noteq> []" using that by simp
    then show "xs = [] \<or> \<not> is_space (hd xs)" using ns \<open>set xs = set s\<close> by blast
  qed
  show ?thesis by (simp add: trim_def d)
qed

text \<open>Texts without blanks at their ends.\<close>

definition trimmed :: "string \<Rightarrow> bool" where
  "trimmed s \<longleftrightarrow> s \<noteq> [] \<and> \<not> is_space (hd s) \<and> \<not> is_space (last s)"

lemma trimmed_trim: "trimmed s \<Longrightarrow> trim s = s"
  unfolding trimmed_def trim_def by (simp add: dropWhile_id hd_rev)

lemma trimmed_of_trim: "trim s \<noteq> [] \<Longrightarrow> trimmed (trim s)"
  using trim_hd trim_last by (simp add: trimmed_def)

lemma length_split_on: "split_on c s \<noteq> []"
  by (cases s) (auto split: list.splits)

lemma join_split [simp]: "join_with [c] (split_on c s) = s"
proof (induction s)
  case (Cons x xs)
  then show ?case
    using length_split_on [of c xs] by (cases "split_on c xs"; cases "tl (split_on c xs)") auto
qed simp

lemma split_on_notin: "c \<notin> set s \<Longrightarrow> split_on c s = [s]"
  by (induction s) auto

lemma split_on_append:
  "c \<notin> set a \<Longrightarrow> split_on c (a @ c # b) = a # split_on c b"
  by (induction a) auto

lemma split_join:
  "xs \<noteq> [] \<Longrightarrow> \<forall>x\<in>set xs. c \<notin> set x \<Longrightarrow> split_on c (join_with [c] xs) = xs"
  by (induction "[c]" xs rule: join_with.induct) (auto simp: split_on_notin split_on_append)

lemma split_on_parts: "\<forall>p\<in>set (split_on c s). c \<notin> set p"
  by (induction s) (auto split: list.splits)

lemma has_prefix_iff: "has_prefix p s \<longleftrightarrow> (\<exists>r. s = p @ r)"
  unfolding has_prefix_def by (metis append_eq_conv_conj append_take_drop_id)

lemma has_prefix_append [simp]: "has_prefix p (p @ r)"
  by (simp add: has_prefix_def)

lemma has_suffix_iff: "has_suffix p s \<longleftrightarrow> (\<exists>r. s = r @ p)"
  unfolding has_suffix_def has_prefix_iff by (metis rev_append rev_rev_ident)

lemma lower_char_idem [simp]: "lower_char (lower_char c) = lower_char c"
  by (auto simp: lower_char_def)

lemma to_lower_idem [simp]: "to_lower (to_lower s) = to_lower s"
  by (simp add: to_lower_def)

lemma length_to_lower [simp]: "length (to_lower s) = length s"
  by (simp add: to_lower_def)

section \<open>Decimal numbers\<close>

definition is_digit :: "char \<Rightarrow> bool" where
  "is_digit c \<longleftrightarrow> 48 \<le> (of_char c :: nat) \<and> (of_char c :: nat) \<le> 57"

fun decimal :: "nat \<Rightarrow> string" where
  "decimal n = (if n < 10 then [char_of (48 + n)] else decimal (n div 10) @ [char_of (48 + n mod 10)])"

declare decimal.simps [simp del]

lemma decimal_digits: "set (decimal n) \<subseteq> char_of ` {48 ..< 58 :: nat}"
proof (induction n rule: decimal.induct)
  case (1 n)
  have d: "char_of (48 + k) \<in> char_of ` {48 ..< 58 :: nat}" if "k < 10" for k :: nat
    by (rule imageI) (use that in simp)
  show ?case
  proof (cases "n < 10")
    case True
    then show ?thesis using d [of n] by (simp add: decimal.simps [of n])
  next
    case False
    then show ?thesis using 1 d [of "n mod 10"] by (simp add: decimal.simps [of n])
  qed
qed

definition nat_of_digits :: "string \<Rightarrow> nat" where
  "nat_of_digits ds = foldl (\<lambda>v c. 10 * v + (of_char c - 48)) 0 ds"

lemma of_char_digit: "k < 10 \<Longrightarrow> (of_char (char_of (48 + k :: nat) :: char) :: nat) = 48 + k"
  by (simp add: of_char_of)

lemma nat_of_decimal [simp]: "nat_of_digits (decimal n) = n"
proof (induction n rule: decimal.induct)
  case (1 n)
  show ?case
  proof (cases "n < 10")
    case True
    then show ?thesis using of_char_digit [OF True] by (simp add: decimal.simps [of n] nat_of_digits_def)
  next
    case False
    have "n mod 10 < 10" by simp
    then show ?thesis using 1 False of_char_digit [of "n mod 10"]
      by (simp add: decimal.simps [of n] nat_of_digits_def)
  qed
qed

lemma decimal_is_digit: "c \<in> set (decimal n) \<Longrightarrow> is_digit c"
proof -
  assume "c \<in> set (decimal n)"
  then obtain k where "k \<in> {48 ..< 58 :: nat}" "c = char_of k" using decimal_digits [of n] by blast
  then show ?thesis by (auto simp: is_digit_def of_char_of)
qed

lemma decimal_ne [simp]: "decimal n \<noteq> []"
  by (simp add: decimal.simps [of n])

lemma decimal_hd: "0 < n \<Longrightarrow> (of_char (hd (decimal n)) :: nat) \<noteq> 48"
proof (induction n rule: decimal.induct)
  case (1 n)
  show ?case
  proof (cases "n < 10")
    case True
    then show ?thesis using 1 of_char_digit [OF True] by (simp add: decimal.simps [of n])
  next
    case False
    then show ?thesis using 1 by (simp add: decimal.simps [of n])
  qed
qed

lemmas string_defs = trim_def is_space_def to_lower_def lower_char_def has_prefix_def has_suffix_def
  equal_fold_def

section \<open>Replies\<close>

datatype 'a resp = Reply nat 'a | Fail nat string

primrec is_reply :: "'a resp \<Rightarrow> bool" where
  "is_reply (Reply _ _) = True"
| "is_reply (Fail _ _) = False"

section \<open>Normalising a list of identifiers\<close>

text \<open>
  The loop shared by \<open>uniqueStrings\<close> (internal/sharing/store.go) and the group loops of
  internal/users/store.go: trim, skip blanks, skip what was seen.
\<close>

fun unique_from :: "string list \<Rightarrow> string list \<Rightarrow> string list" where
  "unique_from seen [] = []"
| "unique_from seen (v # vs) =
     (let v' = trim v in
      if v' = [] then unique_from seen vs
      else if v' \<in> set seen then unique_from seen vs
      else v' # unique_from (v' # seen) vs)"

lemma set_unique_from: "set (unique_from seen vs) = (trim ` set vs) - {[]} - set seen"
  by (induction seen vs rule: unique_from.induct) (auto simp: Let_def)

lemma distinct_unique_from: "distinct (unique_from seen vs)"
  by (induction seen vs rule: unique_from.induct) (auto simp: Let_def set_unique_from)

section \<open>Tables\<close>

definition tbl_upd :: "('r \<Rightarrow> bool) \<Rightarrow> ('r \<Rightarrow> 'r) \<Rightarrow> 'r list \<Rightarrow> 'r list" where
  "tbl_upd p f t = map (\<lambda>r. if p r then f r else r) t"

lemma map_tbl_upd: "(\<And>r. key (f r) = key r) \<Longrightarrow> map key (tbl_upd p f t) = map key t"
  by (simp add: tbl_upd_def)

lemma image_tbl_upd:
  assumes "\<And>r. key (f r) = key r" shows "key ` set (tbl_upd p f t) = key ` set t"
  using arg_cong [OF map_tbl_upd [where key = key and f = f, OF assms], of set p t] by simp

definition tbl_del :: "('r \<Rightarrow> bool) \<Rightarrow> 'r list \<Rightarrow> 'r list" where
  "tbl_del p t = filter (\<lambda>r. \<not> p r) t"

definition tbl_rows :: "('r \<Rightarrow> bool) \<Rightarrow> 'r list \<Rightarrow> nat" where
  "tbl_rows p t = length (filter p t)"

definition tbl_get :: "('r \<Rightarrow> 'k) \<Rightarrow> 'k \<Rightarrow> 'r list \<Rightarrow> 'r option" where
  "tbl_get key k t = find (\<lambda>r. key r = k) t"

lemma tbl_upd_Nil [simp]: "tbl_upd p f [] = []"
  and tbl_upd_Cons [simp]: "tbl_upd p f (r # t) = (if p r then f r else r) # tbl_upd p f t"
  and tbl_upd_append [simp]: "tbl_upd p f (t @ u) = tbl_upd p f t @ tbl_upd p f u"
  by (simp_all add: tbl_upd_def)

lemma length_tbl_upd [simp]: "length (tbl_upd p f t) = length t"
  by (simp add: tbl_upd_def)

lemma tbl_del_Nil [simp]: "tbl_del p [] = []"
  and tbl_del_Cons [simp]: "tbl_del p (r # t) = (if p r then tbl_del p t else r # tbl_del p t)"
  by (simp_all add: tbl_del_def)

lemma set_tbl_del [simp]: "set (tbl_del p t) = {r \<in> set t. \<not> p r}"
  by (auto simp: tbl_del_def)

lemma set_tbl_upd: "set (tbl_upd p f t) = {r \<in> set t. \<not> p r} \<union> f ` {r \<in> set t. p r}"
  by (auto simp: tbl_upd_def)

lemma tbl_get_Nil [simp]: "tbl_get key k [] = None"
  and tbl_get_Cons [simp]: "tbl_get key k (r # t) = (if key r = k then Some r else tbl_get key k t)"
  by (simp_all add: tbl_get_def)

lemma tbl_get_Some: "tbl_get key k t = Some r \<Longrightarrow> r \<in> set t \<and> key r = k"
  by (induction t) (auto split: if_splits)

lemma tbl_get_key: "tbl_get key k t = Some r \<Longrightarrow> key r = k"
  by (drule tbl_get_Some) simp

lemma tbl_get_None: "tbl_get key k t = None \<longleftrightarrow> k \<notin> key ` set t"
  by (induction t) auto

lemma tbl_get_append [tbl_simps]:
  "tbl_get key k (t @ u) = (case tbl_get key k t of None \<Rightarrow> tbl_get key k u | Some r \<Rightarrow> Some r)"
  by (induction t) auto

lemma tbl_get_upd_all:
  assumes "\<And>r. key (f r) = key r"
  shows "tbl_get key k (tbl_upd p f t) = map_option (\<lambda>r. if p r then f r else r) (tbl_get key k t)"
  by (induction t) (simp_all add: assms)

lemma tbl_get_upd [tbl_simps]:
  assumes "\<And>r. key (f r) = key r"
  shows "tbl_get key k (tbl_upd (\<lambda>r. key r = i \<and> q r) f t) =
    (case tbl_get key k t of None \<Rightarrow> None | Some r \<Rightarrow> Some (if k = i \<and> q r then f r else r))"
proof (induction t)
  case (Cons r t)
  then show ?case by (cases "key r = i \<and> q r"; cases "key r = k") (simp_all add: assms, auto split: option.split)
qed simp

lemma tbl_get_del [tbl_simps]:
  "tbl_get key k (tbl_del (\<lambda>r. key r = i) t) = (if k = i then None else tbl_get key k t)"
  by (induction t) auto

lemma keys_tbl_upd [tbl_simps]:
  assumes "\<And>r. key (f r) = key r"
  shows "map key (tbl_upd p f t) = map key t"
  by (induction t) (auto simp: assms)

lemma distinct_tbl_del: "distinct (map key t) \<Longrightarrow> distinct (map key (tbl_del p t))"
  by (induction t) auto

lemma tbl_get_distinct:
  "distinct (map key t) \<Longrightarrow> r \<in> set t \<Longrightarrow> tbl_get key (key r) t = Some r"
  by (induction t) (auto simp: image_iff rev_image_eqI)

lemma tbl_rows_0: "tbl_rows p t = 0 \<longleftrightarrow> (\<forall>r\<in>set t. \<not> p r)"
  by (simp add: tbl_rows_def filter_empty_conv)

end
