(* ===== verification/Go_Path.thy ===== *)
theory Go_Path
  imports Prelude
begin

text \<open>
  The functions of Go's \<open>path/filepath\<close> the server calls (Unix rules), and
  \<open>isPathWithinRoot\<close> of internal/files/paths.go, the guard of every file operation.

  A path is normalised to a pair: is it rooted, and which name segments remain once empty
  segments, \<open>.\<close> and \<open>..\<close> are resolved.  \<open>Clean\<close> renders that pair again.  The theorems
  show that \<open>Clean\<close> is idempotent, that the guard is exactly the prefix order on segments for
  a rooted storage root, and what \<open>validFileName\<close> accepts.
\<close>

section \<open>Lexical path processing\<close>

definition slash :: char where "slash = CHR ''/''"

definition dotdot :: string where "dotdot = ''..''"

type_synonym npath = "bool \<times> string list"

definition rooted :: "string \<Rightarrow> bool" where
  "rooted p \<longleftrightarrow> (case p of [] \<Rightarrow> False | c # _ \<Rightarrow> c = slash)"

text \<open>The stack of resolved segments is kept reversed, as \<open>lazybuf\<close> grows at its end.\<close>

fun clean_segs :: "bool \<Rightarrow> string list \<Rightarrow> string list \<Rightarrow> string list" where
  "clean_segs r acc [] = rev acc"
| "clean_segs r acc (s # ss) =
     (if s = [] \<or> s = ''.'' then clean_segs r acc ss
      else if s = dotdot then
        (case acc of
           [] \<Rightarrow> clean_segs r (if r then [] else [dotdot]) ss
         | x # xs \<Rightarrow> clean_segs r (if x = dotdot then dotdot # x # xs else xs) ss)
      else clean_segs r (s # acc) ss)"

definition norm :: "string \<Rightarrow> npath" where
  "norm p = (rooted p, clean_segs (rooted p) [] (split_on slash p))"

definition render :: "npath \<Rightarrow> string" where
  "render n = (if fst n then slash # join_with [slash] (snd n)
               else if snd n = [] then ''.'' else join_with [slash] (snd n))"

definition Clean :: "string \<Rightarrow> string" where
  "Clean p = render (norm p)"

definition IsAbs :: "string \<Rightarrow> bool" where
  "IsAbs p = rooted p"

fun Join :: "string list \<Rightarrow> string" where
  "Join [] = []"
| "Join (e # es) = (if e = [] then Join es else Clean (join_with [slash] (e # es)))"

definition strip_slashes :: "string \<Rightarrow> string" where
  "strip_slashes p = rev (dropWhile (\<lambda>c. c = slash) (rev p))"

definition after_slash :: "string \<Rightarrow> string" where
  "after_slash p = rev (takeWhile (\<lambda>c. c \<noteq> slash) (rev p))"

definition Base :: "string \<Rightarrow> string" where
  "Base p = (if p = [] then ''.''
             else (let b = after_slash (strip_slashes p) in if b = [] then [slash] else b))"

definition Dir :: "string \<Rightarrow> string" where
  "Dir p = Clean (rev (dropWhile (\<lambda>c. c \<noteq> slash) (rev p)))"

definition Ext :: "string \<Rightarrow> string" where
  "Ext p = (let b = rev (after_slash p); e = takeWhile (\<lambda>c. c \<noteq> CHR ''.'') b
            in if length e < length b then CHR ''.'' # rev e else [])"

text \<open>The segments left of both paths once their common prefix is dropped.\<close>

fun strip_common :: "string list \<Rightarrow> string list \<Rightarrow> string list \<times> string list" where
  "strip_common (b # bs) (t # ts) = (if b = t then strip_common bs ts else (b # bs, t # ts))"
| "strip_common bs ts = (bs, ts)"

definition Rel :: "string \<Rightarrow> string \<Rightarrow> string option" where
  "Rel base targ =
     (if Clean base = Clean targ then Some ''.''
      else if fst (norm base) \<noteq> fst (norm targ) then None
      else (case strip_common (snd (norm base)) (snd (norm targ)) of
              (rb, rt) \<Rightarrow>
                (if rb \<noteq> [] \<and> hd rb = dotdot then None
                 else Some (join_with [slash] (replicate (length rb) dotdot @ rt)))))"

definition isPathWithinRoot :: "string \<Rightarrow> string \<Rightarrow> bool" where
  "isPathWithinRoot root target =
     (case Rel (Clean root) (Clean target) of
        None \<Rightarrow> False
      | Some rel \<Rightarrow> rel = ''.'' \<or> (rel \<noteq> dotdot \<and> \<not> has_prefix (dotdot @ [slash]) rel))"

definition validFileName :: "string \<Rightarrow> bool" where
  "validFileName name \<longleftrightarrow> name \<noteq> [] \<and> name \<noteq> ''.'' \<and> name \<noteq> ''..'' \<and> name = Base name"

section \<open>Normal segments\<close>

definition plain_seg :: "string \<Rightarrow> bool" where
  "plain_seg s \<longleftrightarrow> s \<noteq> [] \<and> s \<noteq> ''.'' \<and> s \<noteq> dotdot \<and> slash \<notin> set s"

definition canon :: "npath \<Rightarrow> bool" where
  "canon n \<longleftrightarrow> (\<exists>k ps. snd n = replicate k dotdot @ ps \<and> (fst n \<longrightarrow> k = 0) \<and> (\<forall>s\<in>set ps. plain_seg s))"

lemma dotdot_neq [simp]: "dotdot \<noteq> []" "dotdot \<noteq> ''.''" "slash \<notin> set dotdot"
  by (simp_all add: dotdot_def slash_def)

lemma slash_dot [simp]: "slash \<notin> set ''.''"
  by (simp add: slash_def)

lemma clean_segs_canon:
  assumes "rev acc = replicate k dotdot @ ps" "r \<longrightarrow> k = 0" "\<forall>s\<in>set ps. plain_seg s"
    "\<forall>s\<in>set ss. slash \<notin> set s"
  shows "canon (r, clean_segs r acc ss)"
  using assms
proof (induction r acc ss arbitrary: k ps rule: clean_segs.induct)
  case (1 r acc)
  then show ?case by (auto simp: canon_def)
next
  case (2 r acc s ss)
  consider "s = [] \<or> s = ''.''" | "s = dotdot" | "plain_seg s"
    using "2.prems"(4) by (auto simp: plain_seg_def)
  then show ?case
  proof cases
    case 1
    have "canon (r, clean_segs r acc ss)"
      using "2.prems" 1 by (intro "2.IH"(1)) auto
    with 1 show ?thesis by simp
  next
    case 2
    show ?thesis
    proof (cases acc)
      case Nil
      have "canon (r, clean_segs r (if r then [] else [dotdot]) ss)"
        using "2.prems"(4) 2 Nil
        by (intro "2.IH"(2) [where k = "if r then 0 else 1" and ps = "[]"]) auto
      with 2 Nil show ?thesis by simp
    next
      case (Cons x xs)
      show ?thesis
      proof (cases "ps = []")
        case True
        with "2.prems"(1) Cons have *: "rev xs @ [x] = replicate k dotdot" by simp
        then have x: "x = dotdot"
          by (metis in_set_conv_decomp in_set_replicate)
        from * x have "rev (dotdot # x # xs) = replicate (Suc k) dotdot @ []"
          by (metis append_Nil2 replicate_append_same rev.simps(2) replicate_Suc)
        moreover from * have "k \<noteq> 0" by (cases k) auto
        ultimately have "canon (r, clean_segs r (dotdot # x # xs) ss)"
          using "2.prems"(2,4) 2 Cons x
          by (intro "2.IH"(3) [of x xs "Suc k" "[]", unfolded if_P [OF x]]) auto
        with 2 Cons x show ?thesis by simp
      next
        case False
        then have "rev xs = replicate k dotdot @ butlast ps" "x = last ps"
          using "2.prems"(1) Cons by (metis butlast_append butlast_snoc rev.simps(2), metis last_appendR last_snoc rev.simps(2))
        moreover have "plain_seg x"
          using "2.prems"(3) False calculation(2) by simp
        then have "x \<noteq> dotdot" by (simp add: plain_seg_def)
        ultimately have "canon (r, clean_segs r xs ss)"
          using "2.prems"(2,3,4) 2 Cons
          by (intro "2.IH"(3) [of x xs k "butlast ps", unfolded if_not_P [OF \<open>x \<noteq> dotdot\<close>]])
            (auto simp: plain_seg_def dest: in_set_butlastD split: if_splits)
        with 2 Cons \<open>plain_seg x\<close> show ?thesis by (simp add: plain_seg_def)
      qed
    qed
  next
    case 3
    then have "canon (r, clean_segs r (s # acc) ss)"
      using "2.prems" by (intro "2.IH"(4) [where k = k and ps = "ps @ [s]"]) (auto simp: plain_seg_def)
    with 3 show ?thesis by (simp add: plain_seg_def)
  qed
qed

lemma canon_norm: "canon (norm p)"
  using clean_segs_canon [of "[]" 0 "[]" "rooted p" "split_on slash p"] split_on_parts [of slash p]
  by (simp add: norm_def)

lemma canon_segs:
  assumes "canon n" "s \<in> set (snd n)"
  shows "s \<noteq> [] \<and> s \<noteq> ''.'' \<and> slash \<notin> set s"
proof -
  from assms have "s = dotdot \<or> plain_seg s" unfolding canon_def by auto
  then show ?thesis
  proof
    assume "s = dotdot"
    then show ?thesis by (simp only: dotdot_neq) simp
  qed (simp add: plain_seg_def)
qed

lemma clean_segs_plain:
  "\<forall>s\<in>set ss. plain_seg s \<Longrightarrow> clean_segs r acc (ss @ us) = clean_segs r (rev ss @ acc) us"
proof (induction ss arbitrary: acc)
  case (Cons s ss)
  then have "clean_segs r acc ((s # ss) @ us) = clean_segs r (s # acc) (ss @ us)"
    by (simp add: plain_seg_def)
  with Cons show ?case by simp
qed simp

lemma clean_segs_dots:
  "clean_segs False (replicate j dotdot) (replicate k dotdot @ us) =
    clean_segs False (replicate (j + k) dotdot) us"
proof (induction k arbitrary: j)
  case (Suc k)
  have "clean_segs False (replicate j dotdot) (dotdot # replicate k dotdot @ us) =
      clean_segs False (replicate (Suc j) dotdot) (replicate k dotdot @ us)"
    by (cases j) auto
  then show ?case using Suc [of "Suc j"] by simp
qed simp

lemma clean_segs_id: "canon (r, ss) \<Longrightarrow> clean_segs r [] ss = ss"
proof -
  assume "canon (r, ss)"
  then obtain k ps where s: "ss = replicate k dotdot @ ps" "r \<longrightarrow> k = 0" "\<forall>s\<in>set ps. plain_seg s"
    by (auto simp: canon_def)
  have p: "clean_segs r' acc ps = rev acc @ ps" for r' acc
    using clean_segs_plain [of ps r' acc "[]"] s(3) by simp
  show ?thesis
  proof (cases r)
    case True
    with s p show ?thesis by simp
  next
    case False
    with clean_segs_dots [of 0 k ps] s(1) p show ?thesis by simp
  qed
qed

lemma hd_join_with: "xs \<noteq> [] \<Longrightarrow> hd xs \<noteq> [] \<Longrightarrow> hd (join_with sep xs) = hd (hd xs) \<and> join_with sep xs \<noteq> []"
  by (cases xs; cases "tl xs") auto

lemma norm_render:
  assumes "canon n" shows "norm (render n) = n"
proof -
  obtain r ss where n: "n = (r, ss)" by force
  have sl: "\<forall>s\<in>set ss. slash \<notin> set s" and ne: "\<forall>s\<in>set ss. s \<noteq> []"
    using canon_segs [OF assms] n by auto
  have id: "clean_segs r [] ss = ss"
    using assms n by (simp add: clean_segs_id)
  show ?thesis
  proof (cases "ss = []")
    case True
    then show ?thesis using n by (cases r) (auto simp: norm_def render_def rooted_def slash_def)
  next
    case False
    with sl have sp: "split_on slash (join_with [slash] ss) = ss"
      by (intro split_join)
    have h: "hd (join_with [slash] ss) \<noteq> slash" "join_with [slash] ss \<noteq> []"
      using hd_join_with [of ss "[slash]"] False ne sl hd_in_set
      by (metis, metis hd_in_set)
    show ?thesis
    proof (cases r)
      case True
      with n sp id show ?thesis by (simp add: norm_def render_def rooted_def)
    next
      case False
      with n sp id h \<open>ss \<noteq> []\<close> show ?thesis
        by (cases "join_with [slash] ss") (auto simp: norm_def render_def rooted_def)
    qed
  qed
qed

lemma norm_Clean [simp]: "norm (Clean p) = norm p"
  by (simp add: Clean_def norm_render canon_norm)

text \<open>Claim-free corollaries used by the clients.\<close>

lemma Clean_idem [simp]: "Clean (Clean p) = Clean p"
  by (simp add: Clean_def norm_render canon_norm)

lemma Clean_eq_iff: "Clean p = Clean q \<longleftrightarrow> norm p = norm q"
  by (metis Clean_def norm_Clean)

lemma rooted_norm: "fst (norm p) = rooted p"
  by (simp add: norm_def)

lemma rooted_Clean [simp]: "rooted (Clean p) = rooted p"
  using norm_Clean [of p] by (simp add: norm_def)

definition segs :: "string \<Rightarrow> string list" where
  "segs p = snd (norm p)"

lemma segs_Clean [simp]: "segs (Clean p) = segs p"
  by (simp add: segs_def)

lemma norm_segs: "norm p = (rooted p, segs p)"
  by (simp add: segs_def prod_eq_iff rooted_norm)

lemma segs_plain: "rooted p \<Longrightarrow> s \<in> set (segs p) \<Longrightarrow> plain_seg s"
  using canon_norm [of p] unfolding canon_def norm_segs by auto


lemma segs_rooted: "rooted p \<Longrightarrow> norm p = (True, segs p)"
  by (simp add: norm_segs)

lemma segs_eq_Clean: "rooted p \<Longrightarrow> rooted q \<Longrightarrow> segs p = segs q \<longleftrightarrow> Clean p = Clean q"
  by (simp add: Clean_eq_iff norm_segs)

section \<open>The root guard\<close>

lemma strip_common_spec:
  "strip_common b t = (rb, rt) \<Longrightarrow>
    \<exists>c. b = c @ rb \<and> t = c @ rt \<and> (rb = [] \<or> rt = [] \<or> hd rb \<noteq> hd rt)"
proof (induction b t rule: strip_common.induct)
  case (1 b bs t ts)
  show ?case
  proof (cases "b = t")
    case True
    with 1 obtain c where "bs = c @ rb" "ts = c @ rt" "rb = [] \<or> rt = [] \<or> hd rb \<noteq> hd rt" by auto
    then show ?thesis using True by (intro exI [of _ "b # c"]) simp
  next
    case False
    with 1 show ?thesis by auto
  qed
qed auto

lemma join_prefix_hd:
  assumes "L \<noteq> []" "\<forall>x\<in>set L. slash \<notin> set x" "slash \<notin> set p"
    "has_prefix (p @ [slash]) (join_with [slash] L)"
  shows "hd L = p"
proof -
  from assms(4) obtain r where "join_with [slash] L = p @ slash # r"
    by (auto simp: has_prefix_iff)
  then have "split_on slash (join_with [slash] L) = p # split_on slash r"
    using assms(3) by (simp add: split_on_append)
  with split_join [OF assms(1,2)] have "L = p # split_on slash r" by (rule subst)
  then show ?thesis by simp
qed

lemma join_eq_single:
  assumes "L \<noteq> []" "\<forall>x\<in>set L. slash \<notin> set x" "slash \<notin> set p" "join_with [slash] L = p"
  shows "L = [p]"
  using split_join [OF assms(1,2)] assms(3,4) by (simp add: split_on_notin)

lemma prefix_stripped:
  "rb = [] \<or> rt = [] \<or> hd rb \<noteq> hd rt \<Longrightarrow> c @ rb \<noteq> c @ rt \<Longrightarrow> prefix (c @ rb) (c @ rt) \<longleftrightarrow> rb = []"
  by (cases rb; cases rt) auto

lemma within_iff:
  assumes root: "rooted root"
  shows "isPathWithinRoot root target \<longleftrightarrow> rooted target \<and> prefix (segs root) (segs target)"
proof (cases "rooted target")
  case False
  then have "Clean root \<noteq> Clean target"
    using root by (auto simp: Clean_eq_iff norm_segs)
  with False root show ?thesis
    by (simp add: isPathWithinRoot_def Rel_def norm_segs)
next
  case True
  show ?thesis
  proof (cases "segs root = segs target")
    case eq: True
    then have "Clean root = Clean target" using root True by (simp add: Clean_eq_iff norm_segs)
    with eq True show ?thesis by (simp add: isPathWithinRoot_def Rel_def)
  next
    case neq: False
    then have cl: "Clean root \<noteq> Clean target" using root True by (auto simp: Clean_eq_iff norm_segs)
    obtain rb rt where sc: "strip_common (segs root) (segs target) = (rb, rt)" by force
    from strip_common_spec [OF sc] obtain c where c: "segs root = c @ rb" "segs target = c @ rt"
      "rb = [] \<or> rt = [] \<or> hd rb \<noteq> hd rt" by blast
    have prt: "\<forall>x\<in>set rt. plain_seg x" and prb: "\<forall>x\<in>set rb. plain_seg x"
      using segs_plain [OF True] segs_plain [OF root] c by auto
    let ?L = "replicate (length rb) dotdot @ rt"
    have "slash \<notin> set dotdot" by (simp add: slash_def dotdot_def)
    moreover have "\<forall>x\<in>set rt. slash \<notin> set x" using prt by (simp add: plain_seg_def)
    ultimately have ns: "\<forall>x\<in>set ?L. slash \<notin> set x"
      by (metis Un_iff in_set_replicate set_append)
    have ne: "?L \<noteq> []" using neq c by auto
    have "rb = [] \<or> hd rb \<noteq> dotdot" using prb by (cases rb) (auto simp: plain_seg_def)
    then have R: "Rel (Clean root) (Clean target) = Some (join_with [slash] ?L)"
      using cl root True sc by (auto simp: Rel_def norm_segs)
    have dot: "join_with [slash] ?L \<noteq> ''.''"
    proof
      assume "join_with [slash] ?L = ''.''"
      with join_eq_single [OF ne ns slash_dot] have "?L = [''.'']" by simp
      then have "''.'' \<in> set ?L" by simp
      then show False using prt by (auto simp: plain_seg_def dotdot_def)
    qed
    have pre: "prefix (segs root) (segs target) \<longleftrightarrow> rb = []"
      using prefix_stripped [OF c(3)] neq unfolding c(1,2) by blast
    show ?thesis
    proof (cases "rb = []")
      case True
      then have h: "hd ?L \<noteq> dotdot" using prt ne by (cases rt) (auto simp: plain_seg_def)
      have "join_with [slash] ?L \<noteq> dotdot"
        using join_eq_single [OF ne ns, of dotdot] h by auto
      moreover have "\<not> has_prefix (dotdot @ [slash]) (join_with [slash] ?L)"
        using join_prefix_hd [OF ne ns, of dotdot] h by auto
      ultimately show ?thesis using R pre True \<open>rooted target\<close> by (simp add: isPathWithinRoot_def)
    next
      case False
      then obtain m where m: "length rb = Suc m" by (cases rb) auto
      have "join_with [slash] ?L = dotdot \<or> has_prefix (dotdot @ [slash]) (join_with [slash] ?L)"
      proof (cases "replicate m dotdot @ rt")
        case Nil
        with m show ?thesis by simp
      next
        case (Cons y ys)
        with m show ?thesis by (simp add: has_prefix_iff)
      qed
      then show ?thesis using R pre False dot by (simp add: isPathWithinRoot_def)
    qed
  qed
qed


section \<open>Joining, parents and base names\<close>

lemma split_on_app_sep: "split_on c (a @ c # b) = split_on c a @ split_on c b"
proof (induction a)
  case (Cons x a)
  then show ?case
    using length_split_on [of c a] by (cases "split_on c a") auto
qed simp

lemma clean_segs_append:
  "clean_segs r acc (xs @ ys) = clean_segs r (rev (clean_segs r acc xs)) ys"
proof (induction r acc xs rule: clean_segs.induct)
  case (2 r acc s ss)
  then show ?case by (cases "s = [] \<or> s = ''.''"; cases "s = dotdot"; cases acc) auto
qed simp

lemma segs_join:
  assumes "rooted a"
  shows "rooted (a @ slash # b)" "segs (a @ slash # b) = clean_segs True (rev (segs a)) (split_on slash b)"
proof -
  show r: "rooted (a @ slash # b)" using assms by (cases a) (auto simp: rooted_def)
  show "segs (a @ slash # b) = clean_segs True (rev (segs a)) (split_on slash b)"
    using assms r by (simp add: segs_def norm_def split_on_app_sep clean_segs_append)
qed

lemma rooted_nonempty: "rooted a \<Longrightarrow> a \<noteq> []"
  by (auto simp: rooted_def)

lemma Join_rooted:
  assumes "rooted a"
  shows "rooted (Join [a, b])" "segs (Join [a, b]) = clean_segs True (rev (segs a)) (split_on slash b)"
    "Clean (Join [a, b]) = Join [a, b]"
  using segs_join [OF assms, of b] rooted_nonempty [OF assms] by simp_all

lemma plain_split: "plain_seg b \<Longrightarrow> split_on slash b = [b]"
  by (simp add: plain_seg_def split_on_notin)

lemma segs_Join_plain:
  assumes "rooted a" "plain_seg b"
  shows "segs (Join [a, b]) = segs a @ [b]"
  using Join_rooted(2) [OF assms(1), of b] assms(2) by (simp add: plain_split) (simp add: plain_seg_def)

lemma segs_Join_slash:
  assumes "rooted a"
  shows "segs (Join [a, [slash]]) = segs a"
  using Join_rooted(2) [OF assms, of "[slash]"] by simp

lemma clean_segs_rooted_prefix:
  "\<forall>s\<in>set ss. s \<noteq> dotdot \<Longrightarrow> prefix (rev acc) (clean_segs True acc ss)"
proof (induction ss arbitrary: acc)
  case (Cons s ss)
  have "prefix (rev acc) (clean_segs True (s # acc) ss)"
    using Cons.IH [of "s # acc"] Cons.prems by (auto simp: prefix_def)
  with Cons show ?case by simp
qed simp

lemma last_part:
  assumes "slash \<in> set p"
  obtains a b where "p = a @ slash # b" "slash \<notin> set b"
  using split_list_last [OF assms] by blast

lemma Dir_parts:
  assumes "slash \<notin> set b"
  shows "Dir (a @ slash # b) = Clean (a @ [slash])"
proof -
  have "dropWhile (\<lambda>c. c \<noteq> slash) (rev b @ slash # rev a) = slash # rev a"
    using assms by (subst dropWhile_append2) auto
  then show ?thesis by (simp add: Dir_def)
qed

lemma segs_trailing:
  "rooted (a @ [slash]) \<Longrightarrow> segs (a @ slash # b) = clean_segs True (rev (segs (a @ [slash]))) (split_on slash b)"
proof -
  assume r: "rooted (a @ [slash])"
  then have r': "rooted (a @ slash # b)" by (cases a) (auto simp: rooted_def)
  show ?thesis using r r'
    by (simp add: segs_def norm_def split_on_app_sep clean_segs_append)
qed

text \<open>The parent of a cleaned rooted path other than \<open>/\<close> drops its last segment.\<close>

lemma segs_Dir:
  assumes "rooted p" "Clean p = p" "segs p \<noteq> []"
  shows "rooted (Dir p)" "segs (Dir p) = butlast (segs p)" "Base p = last (segs p)"
proof -
  define ss where "ss = segs p"
  have pl: "\<forall>s\<in>set ss. plain_seg s" using segs_plain [OF assms(1)] by (auto simp: ss_def)
  have p: "p = slash # join_with [slash] ss"
    using assms(1,2) by (simp add: Clean_def render_def norm_segs ss_def)
  obtain b xs where ss: "ss = xs @ [b]" using assms(3) by (metis rev_exhaust ss_def)
  define a where "a = (if xs = [] then [] else slash # join_with [slash] xs)"
  have j: "join_with [slash] (ys @ [b]) = (if ys = [] then b else join_with [slash] ys @ slash # b)" for ys
    by (induction "[slash]" ys rule: join_with.induct) auto
  have pa: "p = a @ slash # b" using p ss j [of xs] by (simp add: a_def)
  have b: "plain_seg b" "slash \<notin> set b" using pl ss by (auto simp: plain_seg_def)
  have ra: "rooted (a @ [slash])" by (auto simp: a_def rooted_def)
  have D: "Dir p = Clean (a @ [slash])" using Dir_parts b(2) pa by simp
  show "rooted (Dir p)" using ra D by simp
  have sp: "segs p = segs (a @ [slash]) @ [b]"
    using segs_trailing [OF ra, of b] pa b by (simp add: plain_split) (simp add: plain_seg_def)
  show "segs (Dir p) = butlast (segs p)" using D sp by simp
  have "strip_slashes p = p"
    using pa b by (cases b rule: rev_cases) (auto simp: strip_slashes_def plain_seg_def)
  moreover have "after_slash p = b"
  proof -
    have "takeWhile (\<lambda>c. c \<noteq> slash) (rev b @ slash # rev a) = rev b"
      using b(2) by (subst takeWhile_append2) auto
    then show ?thesis by (simp add: after_slash_def pa)
  qed
  ultimately show "Base p = last (segs p)"
    using b(1) sp assms(1) by (auto simp: Base_def Let_def plain_seg_def rooted_def)
qed

lemma after_slash_noslash: "slash \<notin> set (after_slash p)"
  unfolding after_slash_def using set_takeWhileD [of slash "\<lambda>c. c \<noteq> slash" "rev p"] by auto

lemma Base_plain: "slash \<notin> set b \<Longrightarrow> b \<noteq> [] \<Longrightarrow> Base b = b"
proof -
  assume b: "slash \<notin> set b" "b \<noteq> []"
  have "strip_slashes b = b"
    unfolding strip_slashes_def using b by (cases b rule: rev_cases) auto
  moreover have "takeWhile (\<lambda>c. c \<noteq> slash) (rev b) = rev b"
    using b by (subst takeWhile_eq_all_conv) auto
  then have "after_slash b = b"
    unfolding after_slash_def by (simp only: rev_rev_ident)
  ultimately show ?thesis using b by (simp add: Base_def)
qed

text \<open>
  A base name is one segment, or the single slash: \<open>filepath.Base("/")\<close> is \<open>"/"\<close>, so the
  comparison \<open>name == filepath.Base(name)\<close> lets the name \<open>"/"\<close> through.
\<close>

lemma Base_cases: "Base p = [slash] \<or> slash \<notin> set (Base p)"
  using after_slash_noslash by (auto simp: Base_def Let_def slash_def)

lemma validFileName_iff: "validFileName name \<longleftrightarrow> plain_seg name \<or> name = [slash]"
proof
  assume v: "validFileName name"
  then have "name = [slash] \<or> slash \<notin> set name"
    using Base_cases [of name] by (auto simp: validFileName_def)
  with v show "plain_seg name \<or> name = [slash]"
    by (auto simp: validFileName_def plain_seg_def dotdot_def)
next
  have "Base [slash] = [slash]"
    by (simp add: Base_def strip_slashes_def after_slash_def)
  moreover assume "plain_seg name \<or> name = [slash]"
  ultimately show "validFileName name"
    using Base_plain [of name]
    by (auto simp: validFileName_def plain_seg_def dotdot_def slash_def)
qed

section \<open>The interface of the file components\<close>

text \<open>
  What the file handlers rely on: a guard on paths that is closed under the joins they form.
  The storage root is the first argument of the guard.
\<close>

locale path_guard =
  fixes within :: "string \<Rightarrow> string \<Rightarrow> bool"
    and join :: "string \<Rightarrow> string \<Rightarrow> string"
    and root_ok :: "string \<Rightarrow> bool"
    and name_ok :: "string \<Rightarrow> bool"
  assumes within_refl: "root_ok r \<Longrightarrow> within r r"
    and within_trans: "root_ok r \<Longrightarrow> within r p \<Longrightarrow> within p q \<Longrightarrow> within r q"
    and within_root_ok: "root_ok r \<Longrightarrow> within r p \<Longrightarrow> root_ok p"
    and within_join: "root_ok p \<Longrightarrow> name_ok n \<Longrightarrow> within p (join p n)"
    and join_root_ok: "root_ok p \<Longrightarrow> root_ok (join p n)"
begin

lemma join_stays: "root_ok r \<Longrightarrow> within r p \<Longrightarrow> name_ok n \<Longrightarrow> within r (join p n)"
  using within_join within_root_ok within_trans by blast

lemma join_within_self: "root_ok r \<Longrightarrow> name_ok n \<Longrightarrow> name_ok m \<Longrightarrow> within r (join (join r n) m)"
  by (meson join_root_ok join_stays within_join)

end

interpretation fp: path_guard isPathWithinRoot "\<lambda>a b. Join [a, b]" rooted plain_seg
proof
  fix r p n
  assume "rooted p" "plain_seg n"
  then show "isPathWithinRoot p (Join [p, n])"
    using Join_rooted(1) [of p n] segs_Join_plain [of p n] by (simp add: within_iff del: Join.simps)
next
  fix r p q
  assume "rooted r" "isPathWithinRoot r p" "isPathWithinRoot p q"
  then show "isPathWithinRoot r q"
    by (auto simp: within_iff intro: prefix_order.trans)
qed (auto simp: within_iff Join_rooted(1) simp del: Join.simps)

end
