(* ===== verification/Base64.thy ===== *)
theory Base64
  imports Prelude
begin

text \<open>
  Go's \<open>encoding/base64\<close> as the server uses it: \<open>URLEncoding\<close> for file ids
  (internal/files/paths.go), \<open>StdEncoding\<close> for tus metadata (internal/files/uploads.go) and
  \<open>RawStdEncoding\<close> for password hashes (internal/users/password.go).

  The decoder drops carriage returns and line feeds, reads groups of four characters, accepts
  padding only at the end and ignores the trailing bits of a short group, as the non-strict Go
  decoder does.
\<close>

definition std_alphabet :: string where
  "std_alphabet = ''ABCDEFGHIJKLMNOPQRSTUVWXYZabcdefghijklmnopqrstuvwxyz0123456789+/''"

definition url_alphabet :: string where
  "url_alphabet = ''ABCDEFGHIJKLMNOPQRSTUVWXYZabcdefghijklmnopqrstuvwxyz0123456789-_''"

definition b64_val :: "string \<Rightarrow> char \<Rightarrow> nat option" where
  "b64_val al c = (let i = length (takeWhile (\<lambda>x. x \<noteq> c) al) in if i < length al then Some i else None)"

definition pad_with :: "bool \<Rightarrow> nat \<Rightarrow> string" where
  "pad_with pad n = (if pad then replicate n (CHR ''='') else [])"

abbreviation byte_val :: "char \<Rightarrow> nat" where "byte_val c \<equiv> of_char c"

fun b64_enc :: "string \<Rightarrow> bool \<Rightarrow> string \<Rightarrow> string" where
  "b64_enc al pad (a # b # c # r) =
     al ! (byte_val a div 4) # al ! (byte_val a mod 4 * 16 + byte_val b div 16) #
     al ! (byte_val b mod 16 * 4 + byte_val c div 64) # al ! (byte_val c mod 64) # b64_enc al pad r"
| "b64_enc al pad [a, b] =
     [al ! (byte_val a div 4), al ! (byte_val a mod 4 * 16 + byte_val b div 16),
      al ! (byte_val b mod 16 * 4)] @ pad_with pad 1"
| "b64_enc al pad [a] = [al ! (byte_val a div 4), al ! (byte_val a mod 4 * 16)] @ pad_with pad 2"
| "b64_enc al pad [] = []"

definition b1 :: "nat \<Rightarrow> nat \<Rightarrow> char" where "b1 x y = char_of (x * 4 + y div 16)"
definition b2 :: "nat \<Rightarrow> nat \<Rightarrow> char" where "b2 y z = char_of (y mod 16 * 16 + z div 4)"
definition b3 :: "nat \<Rightarrow> nat \<Rightarrow> char" where "b3 z w = char_of (z mod 4 * 64 + w)"

definition dec2 :: "string \<Rightarrow> char \<Rightarrow> char \<Rightarrow> string option" where
  "dec2 al a b = (case (b64_val al a, b64_val al b) of
     (Some x, Some y) \<Rightarrow> Some [b1 x y] | _ \<Rightarrow> None)"

definition dec3 :: "string \<Rightarrow> char \<Rightarrow> char \<Rightarrow> char \<Rightarrow> string option" where
  "dec3 al a b c = (case (b64_val al a, b64_val al b, b64_val al c) of
     (Some x, Some y, Some z) \<Rightarrow> Some [b1 x y, b2 y z] | _ \<Rightarrow> None)"

definition dec4 :: "string \<Rightarrow> char \<Rightarrow> char \<Rightarrow> char \<Rightarrow> char \<Rightarrow> string option" where
  "dec4 al a b c d = (case (b64_val al a, b64_val al b, b64_val al c, b64_val al d) of
     (Some x, Some y, Some z, Some w) \<Rightarrow> Some [b1 x y, b2 y z, b3 z w] | _ \<Rightarrow> None)"

fun b64_groups :: "string \<Rightarrow> bool \<Rightarrow> string \<Rightarrow> string option" where
  "b64_groups al pad [] = Some []"
| "b64_groups al pad (a # b # c # d # r) =
     (if pad \<and> d = CHR ''='' then
        (if r \<noteq> [] then None
         else if c = CHR ''='' then dec2 al a b else dec3 al a b c)
      else (case dec4 al a b c d of None \<Rightarrow> None
            | Some g \<Rightarrow> map_option ((@) g) (b64_groups al pad r)))"
| "b64_groups al pad [a, b, c] = (if pad then None else dec3 al a b c)"
| "b64_groups al pad [a, b] = (if pad then None else dec2 al a b)"
| "b64_groups al pad [a] = None"

definition b64_dec :: "string \<Rightarrow> bool \<Rightarrow> string \<Rightarrow> string option" where
  "b64_dec al pad s = b64_groups al pad (filter (\<lambda>c. c \<noteq> CHR 0x0A \<and> c \<noteq> CHR 0x0D) s)"

section \<open>Decoding an encoding\<close>

definition alphabet_ok :: "string \<Rightarrow> bool" where
  "alphabet_ok al \<longleftrightarrow> length al = 64 \<and> distinct al \<and> CHR ''='' \<notin> set al \<and> CHR 0x0A \<notin> set al
     \<and> CHR 0x0D \<notin> set al"

lemma alphabets_ok [simp]: "alphabet_ok std_alphabet" "alphabet_ok url_alphabet"
  by (simp_all add: alphabet_ok_def std_alphabet_def url_alphabet_def)

lemma takeWhile_nth:
  "distinct xs \<Longrightarrow> n < length xs \<Longrightarrow> length (takeWhile (\<lambda>x. x \<noteq> xs ! n) xs) = n"
proof (induction xs arbitrary: n)
  case (Cons x xs)
  then show ?case by (cases n) auto
qed simp

lemma b64_val_nth: "alphabet_ok al \<Longrightarrow> n < 64 \<Longrightarrow> b64_val al (al ! n) = Some n"
  by (simp add: b64_val_def alphabet_ok_def takeWhile_nth)

lemma nth_alphabet:
  assumes "alphabet_ok al" "n < 64"
  shows "al ! n \<noteq> CHR ''=''" "al ! n \<noteq> CHR 0x0A" "al ! n \<noteq> CHR 0x0D" "al ! n \<in> set al"
proof -
  show mem: "al ! n \<in> set al" using assms by (intro nth_mem) (simp add: alphabet_ok_def)
  with assms(1) show "al ! n \<noteq> CHR ''=''" "al ! n \<noteq> CHR 0x0A" "al ! n \<noteq> CHR 0x0D"
    unfolding alphabet_ok_def by metis+
qed

lemma of_char_less [simp]: "(of_char c :: nat) < 256"
  by simp

lemma byte_parts:
  "(of_char a :: nat) div 4 < 64" "(of_char a :: nat) mod 4 \<le> 3"
  "(of_char a :: nat) div 16 \<le> 15" "(of_char a :: nat) mod 16 \<le> 15"
  "(of_char a :: nat) div 64 \<le> 3" "(of_char a :: nat) mod 64 < 64"
proof -
  have "(of_char a :: nat) < 256" by simp
  then show "(of_char a :: nat) div 4 < 64" "(of_char a :: nat) div 16 \<le> 15" "(of_char a :: nat) div 64 \<le> 3"
    by linarith+
  show "(of_char a :: nat) mod 4 \<le> 3" "(of_char a :: nat) mod 16 \<le> 15" "(of_char a :: nat) mod 64 < 64"
    by (simp_all add: le_simps flip: less_Suc_eq_le)
qed

lemma six_bits:
  "(of_char a :: nat) div 4 < 64"
  "(of_char a :: nat) mod 4 * 16 + of_char b div 16 < 64"
  "(of_char b :: nat) mod 16 * 4 + of_char c div 64 < 64"
  "(of_char c :: nat) mod 64 < 64"
  "(of_char a :: nat) mod 4 * 16 < 64" "(of_char b :: nat) mod 16 * 4 < 64"
  using byte_parts [of a] byte_parts [of b] byte_parts [of c] by linarith+

lemma split16: "(q :: nat) \<le> 15 \<Longrightarrow> (r * 16 + q) div 16 = r \<and> (r * 16 + q) mod 16 = q"
  by (simp add: mod_less)

lemma split4: "(q :: nat) \<le> 3 \<Longrightarrow> (r * 4 + q) div 4 = r \<and> (r * 4 + q) mod 4 = q"
  by (simp add: mod_less)

lemma byte_join:
  "b1 (of_char a div 4) (of_char a mod 4 * 16 + of_char b div 16) = a"
  "b2 (of_char a mod 4 * 16 + of_char b div 16) (of_char b mod 16 * 4 + of_char c div 64) = b"
  "b3 (of_char b mod 16 * 4 + of_char c div 64) (of_char c mod 64) = c"
  "b1 (of_char a div 4) (of_char a mod 4 * 16) = a"
  "b2 (of_char a mod 4 * 16 + of_char b div 16) (of_char b mod 16 * 4) = b"
proof -
  note s16 = split16 [OF byte_parts(3) [of b], of "of_char a mod 4"]
  note s4 = split4 [OF byte_parts(5) [of c], of "of_char b mod 16"]
  show "b1 (of_char a div 4) (of_char a mod 4 * 16 + of_char b div 16) = a"
    using s16 by (simp add: b1_def)
  show "b2 (of_char a mod 4 * 16 + of_char b div 16) (of_char b mod 16 * 4 + of_char c div 64) = b"
    using s16 s4 by (simp add: b2_def)
  show "b3 (of_char b mod 16 * 4 + of_char c div 64) (of_char c mod 64) = c"
    using s4 by (simp add: b3_def)
  show "b1 (of_char a div 4) (of_char a mod 4 * 16) = a"
    by (simp add: b1_def)
  show "b2 (of_char a mod 4 * 16 + of_char b div 16) (of_char b mod 16 * 4) = b"
    using s16 by (simp add: b2_def)
qed

lemma set_b64_enc:
  "alphabet_ok al \<Longrightarrow> set (b64_enc al pad s) \<subseteq> set al \<union> {CHR ''=''}"
  by (induction al pad s rule: b64_enc.induct)
    (auto simp: pad_with_def six_bits intro: nth_alphabet(4))

lemma b64_groups_enc:
  "alphabet_ok al \<Longrightarrow> b64_groups al pad (b64_enc al pad s) = Some s"
proof (induction al pad s rule: b64_enc.induct)
  case (1 al pad a b c r)
  then show ?case
    by (simp add: dec4_def b64_val_nth six_bits byte_join nth_alphabet)
next
  case (2 al pad a b)
  then show ?case
    by (cases pad) (simp_all add: dec3_def b64_val_nth six_bits byte_join nth_alphabet pad_with_def)
next
  case (3 al pad a)
  then show ?case
    by (cases pad) (simp_all add: dec2_def b64_val_nth six_bits byte_join pad_with_def
        numeral_2_eq_2)
qed simp

lemma b64_dec_enc: "alphabet_ok al \<Longrightarrow> b64_dec al pad (b64_enc al pad s) = Some s"
proof -
  assume al: "alphabet_ok al"
  have "filter (\<lambda>c. c \<noteq> CHR 0x0A \<and> c \<noteq> CHR 0x0D) (b64_enc al pad s) = b64_enc al pad s"
    using set_b64_enc [OF al, of pad s] al by (auto simp: filter_id_conv alphabet_ok_def)
  then show ?thesis by (simp add: b64_dec_def b64_groups_enc [OF al])
qed

end
