(* ===== verification/Schedule.thy ===== *)
theory Schedule
  imports Prelude
begin

text \<open>
  The automatic snapshot calendar: \<open>normalizeWeeklySchedule\<close>, \<open>weekdayFromDigit\<close>,
  \<open>NextAutoSnapshotTime\<close>, \<open>normalizeAutoSnapshot\<close> and \<open>initialAutoSnapshotNextRun\<close> of
  internal/storagepool/create.go, and \<open>nextAutoSnapshotAfter\<close> of internal/jobs/jobs.go.

  An instant is an \<open>int\<close>, the seconds since 1970-01-01 UTC; a local calendar day is its number
  since 1970-01-01.  The server's \<open>time.Local\<close> is the parameter \<open>zone\<close>: the local day and clock of
  an instant, and the instant \<open>time.Date\<close> finds for a day and a clock, also one that the clocks skip.
  The locale \<open>local_zone\<close> states what the calendar code needs of it; every fixed offset satisfies it,
  and so does a zone east of Greenwich whose clocks skip a midnight.  It gives the interface
  \<open>snapshot_clock\<close> the job worker relies on: the next run lies strictly in the future.
\<close>

section \<open>The weekly schedule\<close>

datatype sched_err = SchedRequired | SchedBadChar | SchedEmpty

abbreviation code :: "char \<Rightarrow> nat" where "code c \<equiv> of_char c"

definition weekday_digits :: string where "weekday_digits = ''1234567''"

text \<open>The inner loop, for one digit; \<open>seen\<close> is the map and \<open>out\<close> the builder.\<close>

fun scan_digit :: "char \<Rightarrow> string \<Rightarrow> string \<Rightarrow> string \<Rightarrow> sched_err + string \<times> string" where
  "scan_digit d [] seen out = Inr (seen, out)"
| "scan_digit d (c # cs) seen out =
     (if code c < code (CHR ''1'') \<or> code c > code (CHR ''7'') then Inl SchedBadChar
      else if c \<noteq> d then scan_digit d cs seen out
      else if c \<in> set seen then scan_digit d cs seen out
      else scan_digit d cs (c # seen) (out @ [c]))"

fun scan_digits :: "string \<Rightarrow> string \<Rightarrow> string \<Rightarrow> string \<Rightarrow> sched_err + string" where
  "scan_digits [] value seen out = Inr out"
| "scan_digits (d # ds) value seen out =
     (case scan_digit d value seen out of
        Inl e \<Rightarrow> Inl e
      | Inr (seen', out') \<Rightarrow> scan_digits ds value seen' out')"

definition normalizeWeeklySchedule :: "string \<Rightarrow> sched_err + string" where
  "normalizeWeeklySchedule schedule =
     (let value = trim schedule in
      if value = [] then Inl SchedRequired
      else (case scan_digits weekday_digits value [] [] of
              Inl e \<Rightarrow> Inl e
            | Inr out \<Rightarrow> if out = [] then Inl SchedEmpty else Inr out))"

definition normalizeAutoSnapshot :: "bool \<Rightarrow> string \<Rightarrow> sched_err + string" where
  "normalizeAutoSnapshot enabled schedule =
     (if \<not> enabled then Inr []
      else (case normalizeWeeklySchedule schedule of Inl e \<Rightarrow> Inl e | Inr value \<Rightarrow> Inr value))"

definition good_digit :: "char \<Rightarrow> bool" where
  "good_digit c \<longleftrightarrow> 49 \<le> code c \<and> code c \<le> 55"

lemma weekday_digits_image: "set weekday_digits = char_of ` {49 ..< 56 :: nat}"
proof -
  have "map code weekday_digits = [49 ..< 56]"
    by (simp add: weekday_digits_def upt_rec)
  then have "code ` set weekday_digits = {49 ..< 56}"
    by (metis atLeastLessThan_upt set_map)
  then have "char_of ` {49 ..< 56 :: nat} = char_of ` code ` set weekday_digits" by simp
  then show ?thesis by (simp add: image_image)
qed

lemma good_digit_iff: "good_digit c \<longleftrightarrow> c \<in> set weekday_digits"
proof -
  have "good_digit c \<longleftrightarrow> code c \<in> {49 ..< 56}" by (auto simp: good_digit_def)
  also have "\<dots> \<longleftrightarrow> c \<in> set weekday_digits"
    unfolding weekday_digits_image by (force simp: image_iff of_char_of)
  finally show ?thesis .
qed

lemma scan_digit_spec:
  "scan_digit d cs seen out =
    (if \<forall>c\<in>set cs. good_digit c then
       Inr (if d \<in> set cs \<and> d \<notin> set seen then (d # seen, out @ [d]) else (seen, out))
     else Inl SchedBadChar)"
  by (induction d cs seen out rule: scan_digit.induct) (auto simp: good_digit_def)

lemma scan_digits_spec:
  "\<forall>c\<in>set value. good_digit c \<Longrightarrow> distinct ds \<Longrightarrow> set ds \<inter> set seen = {} \<Longrightarrow>
   scan_digits ds value seen out = Inr (out @ filter (\<lambda>d. d \<in> set value) ds)"
  by (induction ds arbitrary: seen out) (auto simp: scan_digit_spec)

lemma scan_digits_bad:
  "\<not> (\<forall>c\<in>set value. good_digit c) \<Longrightarrow> ds \<noteq> [] \<Longrightarrow> scan_digits ds value seen out = Inl SchedBadChar"
  by (cases ds) (auto simp: scan_digit_spec)

text \<open>The loop nest computes the sorted set of the digits that occur.\<close>

lemma normalizeWeeklySchedule_eq:
  "normalizeWeeklySchedule s =
    (if trim s = [] then Inl SchedRequired
     else if \<forall>c\<in>set (trim s). c \<in> set weekday_digits
       then Inr (filter (\<lambda>d. d \<in> set (trim s)) weekday_digits)
     else Inl SchedBadChar)"
proof (cases "trim s = []")
  case False
  show ?thesis
  proof (cases "\<forall>c\<in>set (trim s). good_digit c")
    case True
    then have sc: "scan_digits weekday_digits (trim s) [] [] = Inr (filter (\<lambda>d. d \<in> set (trim s)) weekday_digits)"
      by (subst scan_digits_spec) (simp_all add: weekday_digits_def)
    have "hd (trim s) \<in> set (trim s)" using False by simp
    with True have "filter (\<lambda>d. d \<in> set (trim s)) weekday_digits \<noteq> []"
      by (auto simp: filter_empty_conv good_digit_iff)
    with False True sc show ?thesis
      by (simp add: normalizeWeeklySchedule_def Let_def good_digit_iff)
  next
    case bad: False
    then have "scan_digits weekday_digits (trim s) [] [] = Inl SchedBadChar"
      by (intro scan_digits_bad) (simp_all add: weekday_digits_def)
    with False bad show ?thesis
      by (auto simp: normalizeWeeklySchedule_def Let_def good_digit_iff)
  qed
qed (simp add: normalizeWeeklySchedule_def)

lemma trim_digits: "set s \<subseteq> set weekday_digits \<Longrightarrow> trim s = s"
proof -
  assume s: "set s \<subseteq> set weekday_digits"
  have ns: "\<not> is_space c" if "c \<in> set s" for c
  proof
    assume "is_space c"
    then have "code c \<le> 32" by (auto simp: is_space_def)
    moreover have "good_digit c" using s that by (auto simp: good_digit_iff)
    ultimately show False by (simp add: good_digit_def)
  qed
  have "s = [] \<or> \<not> is_space (hd s)" using ns [of "hd s"] by (cases "s = []") simp_all
  then have "dropWhile is_space s = s" by (rule dropWhile_id)
  moreover have "rev s = [] \<or> \<not> is_space (hd (rev s))"
    using ns [of "last s"] by (cases "s = []") (simp_all add: hd_rev)
  then have "dropWhile is_space (rev s) = rev s" by (rule dropWhile_id)
  ultimately show ?thesis by (simp add: trim_def)
qed

lemma normalizeWeeklySchedule_idem:
  assumes "normalizeWeeklySchedule s = Inr v"
  shows "normalizeWeeklySchedule v = Inr v" "v \<noteq> []" "set v = set (trim s)" "trim v = v"
proof -
  from assms have v: "v = filter (\<lambda>d. d \<in> set (trim s)) weekday_digits" "trim s \<noteq> []"
    "\<forall>c\<in>set (trim s). c \<in> set weekday_digits"
    by (auto simp: normalizeWeeklySchedule_eq split: if_splits)
  then show sv: "set v = set (trim s)" by auto
  with v(2) show ne: "v \<noteq> []" by auto
  show tv: "trim v = v" using v(1) by (intro trim_digits) auto
  have "filter (\<lambda>d. d \<in> set v) weekday_digits = v" using v(1) sv by simp
  then show "normalizeWeeklySchedule v = Inr v"
    using ne tv v(1) by (auto simp: normalizeWeeklySchedule_eq)
qed

section \<open>The local calendar\<close>

text \<open>\<open>z_date d c\<close> is \<open>time.Date\<close> of the day \<open>d\<close>, \<open>c\<close> seconds after midnight by the clock.\<close>

record zone =
  z_date :: "int \<Rightarrow> int \<Rightarrow> int"
  z_day :: "int \<Rightarrow> int"
  z_clock :: "int \<Rightarrow> int"

definition z_midnight :: "zone \<Rightarrow> int \<Rightarrow> int" where
  "z_midnight z d = z_date z d 0"

definition fixed_zone :: "int \<Rightarrow> zone" where
  "fixed_zone off = \<lparr>z_date = (\<lambda>d c. d * 86400 + c - off), z_day = (\<lambda>t. (t + off) div 86400), z_clock = (\<lambda>t. (t + off) mod 86400)\<rparr>"

text \<open>
  Two zones whose clocks go one hour ahead at midnight of the day \<open>D\<close>: from two to three hours east of
  Greenwich, where \<open>time.Date\<close> takes the skipped midnight for one o'clock of that day, and from four to
  three hours west, where it takes it for eleven of the evening before.
\<close>

definition east_zone :: "int \<Rightarrow> zone" where
  "east_zone D =
     (let off = (\<lambda>t. if t < D * 86400 - 7200 then 7200 else 10800) in
      \<lparr>z_date = (\<lambda>d c. d * 86400 + c - (if d < D \<or> d = D \<and> c < 3600 then 7200 else 10800)),
       z_day = (\<lambda>t. (t + off t) div 86400), z_clock = (\<lambda>t. (t + off t) mod 86400)\<rparr>)"

definition west_zone :: "int \<Rightarrow> zone" where
  "west_zone D =
     (let off = (\<lambda>t. if t < D * 86400 + 14400 then - 14400 else - 10800) in
      \<lparr>z_date = (\<lambda>d c. d * 86400 + c + (if d < D then 14400 else 10800)),
       z_day = (\<lambda>t. (t + off t) div 86400), z_clock = (\<lambda>t. (t + off t) mod 86400)\<rparr>)"

text \<open>\<open>time.Weekday\<close>: Sunday is 0; 1970-01-01 was a Thursday.\<close>

definition weekday :: "int \<Rightarrow> int" where
  "weekday d = (d + 4) mod 7"

text \<open>The switch of \<open>weekdayFromDigit\<close>: its cases, and Sunday by default.\<close>

definition weekdayFromDigit :: "char \<Rightarrow> int" where
  "weekdayFromDigit c = (case map_of (zip ''1234567'' [1, 2, 3, 4, 5, 6, 0]) c of Some d \<Rightarrow> d | None \<Rightarrow> 0)"

text \<open>The day of the month of a day number (proleptic Gregorian calendar).\<close>

definition day_of_month :: "int \<Rightarrow> int" where
  "day_of_month d =
     (let doe = (d + 719468) mod 146097;
          yoe = (doe - doe div 1460 + doe div 36524 - doe div 146096) div 365;
          doy = doe - (365 * yoe + yoe div 4 - yoe div 100);
          mp = (5 * doy + 2) div 153
      in doy - (153 * mp + 2) div 5 + 1)"

text \<open>\<open>time.Date(y, m+1, 1, ...)\<close>: the first day after \<open>d\<close> that opens a month.\<close>

definition next_month_first :: "int \<Rightarrow> int" where
  "next_month_first d =
     (case find (\<lambda>k. day_of_month (d + k) = 1) [1..31] of Some k \<Rightarrow> d + k | None \<Rightarrow> d + 32)"

fun first_allowed :: "zone \<Rightarrow> int \<Rightarrow> int list \<Rightarrow> int list \<Rightarrow> int option" where
  "first_allowed z base allowed [] = None"
| "first_allowed z base allowed (off # offs) =
     (let dayStart = z_midnight z (z_day z base);
          candidate = z_date z (z_day z dayStart + off) (z_clock z dayStart) in
      if \<not> candidate > base then first_allowed z base allowed offs
      else if weekday (z_day z candidate) \<in> set allowed then Some candidate
      else first_allowed z base allowed offs)"

declare first_allowed.simps [simp del]

lemmas first_allowed_simps = first_allowed.simps

definition next_by_name :: "zone \<Rightarrow> int \<Rightarrow> string \<Rightarrow> int" where
  "next_by_name z base schedule =
     (let name = to_lower (trim schedule) in
      if name = ''hourly'' then base - base mod 3600 + 3600
      else if name = ''daily'' then z_midnight z (z_day z base + 1)
      else if name = ''monthly'' then z_midnight z (next_month_first (z_day z base))
      else z_midnight z (z_day z base + 1))"

definition NextAutoSnapshotTime :: "zone \<Rightarrow> int \<Rightarrow> string \<Rightarrow> int" where
  "NextAutoSnapshotTime z base schedule =
     (case normalizeWeeklySchedule schedule of
        Inr normalized \<Rightarrow>
          (case first_allowed z base (map weekdayFromDigit normalized) [0..7] of
             Some t \<Rightarrow> t
           | None \<Rightarrow> next_by_name z base schedule)
      | Inl _ \<Rightarrow> next_by_name z base schedule)"

definition initialAutoSnapshotNextRun :: "zone \<Rightarrow> bool \<Rightarrow> string \<Rightarrow> int \<Rightarrow> int option" where
  "initialAutoSnapshotNextRun z enabled schedule now =
     (if \<not> enabled \<or> trim schedule = [] then None else Some (NextAutoSnapshotTime z now schedule))"

section \<open>Catching up with a schedule\<close>

text \<open>The loop of \<open>nextAutoSnapshotAfter\<close>: step until the run lies after \<open>now\<close>.\<close>

partial_function (option) catch_up :: "(int \<Rightarrow> int) \<Rightarrow> int \<Rightarrow> int \<Rightarrow> int option" where
  "catch_up nxt t now = (if t > now then Some t else catch_up nxt (nxt t) now)"

text \<open>The zero \<open>time.Time\<close>, 0001-01-01 UTC.\<close>

definition zero_time :: int where "zero_time = - 62135596800"

definition nextAutoSnapshotAfter :: "zone \<Rightarrow> int option \<Rightarrow> string \<Rightarrow> int \<Rightarrow> int option" where
  "nextAutoSnapshotAfter z lastScheduledAt schedule now =
     (let base = (case lastScheduledAt of Some t \<Rightarrow> if t = zero_time then now else t | None \<Rightarrow> now)
      in catch_up (\<lambda>t. NextAutoSnapshotTime z t schedule) (NextAutoSnapshotTime z base schedule) now)"

locale snapshot_clock =
  fixes nxt :: "int \<Rightarrow> int"
  assumes nxt_later: "t < nxt t"
begin

lemma catch_up_returns: "\<exists>n r. catch_up nxt t now = Some r \<and> r > now \<and> r = (nxt ^^ n) t \<and>
    (\<forall>m<n. (nxt ^^ m) t \<le> now)"
proof (induction "nat (now + 1 - t)" arbitrary: t rule: less_induct)
  case less
  show ?case
  proof (cases "t > now")
    case True
    then have "catch_up nxt t now = Some t" by (subst catch_up.simps) simp
    with True show ?thesis by (intro exI [of _ 0] exI [of _ t]) simp
  next
    case False
    then have "nat (now + 1 - nxt t) < nat (now + 1 - t)" using nxt_later [of t] by simp
    from less [OF this] obtain n r where r: "catch_up nxt (nxt t) now = Some r" "r > now"
      "r = (nxt ^^ n) (nxt t)" "\<forall>m<n. (nxt ^^ m) (nxt t) \<le> now" by blast
    have "\<forall>m<Suc n. (nxt ^^ m) t \<le> now"
    proof (intro allI impI)
      fix m assume "m < Suc n"
      then show "(nxt ^^ m) t \<le> now" using r(4) False by (cases m) (simp_all add: funpow_swap1)
    qed
    with r False show ?thesis
      by (intro exI [of _ "Suc n"] exI [of _ r]) (subst catch_up.simps, simp add: funpow_swap1)
  qed
qed

end

text \<open>The instant of a day at the clock time at which the base day begins.\<close>

definition next_start :: "zone \<Rightarrow> int \<Rightarrow> int \<Rightarrow> int" where
  "next_start z base d = z_date z d (z_clock z (z_midnight z (z_day z base)))"

locale local_zone =
  fixes z :: zone
  assumes midnight_mono: "z_midnight z d < z_midnight z (d + 1)"
    and day_iff: "z_day z t = d \<longleftrightarrow> z_midnight z d \<le> t \<and> t < z_midnight z (d + 1)"
    and date_day: "z_day z (z_date z d (z_clock z (z_midnight z b))) = d"
    and date_again: "z_date z d (z_clock z (z_midnight z d)) = z_midnight z d"
begin

lemma day_midnight [simp]: "z_day z (z_midnight z d) = d"
  using midnight_mono by (simp add: day_iff)

lemma midnight_day_le: "z_midnight z (z_day z t) \<le> t" "t < z_midnight z (z_day z t + 1)"
  using day_iff [of t "z_day z t"] by simp_all

lemma midnight_less_iff: "z_midnight z a < z_midnight z b \<longleftrightarrow> a < b"
proof -
  have up: "z_midnight z a < z_midnight z (a + 1 + int n)" for a n
  proof (induction n)
    case (Suc n)
    then show ?case using midnight_mono [of "a + 1 + int n"] by (simp add: algebra_simps)
  qed (use midnight_mono in simp)
  have "z_midnight z a < z_midnight z b" if "a < b" for a b
    using up [of a "nat (b - a - 1)"] that by simp
  then show ?thesis by (metis less_asym linorder_less_linear)
qed

lemma later_midnight_iff: "t < z_midnight z d \<longleftrightarrow> z_day z t < d"
proof
  assume "t < z_midnight z d"
  then have "z_midnight z (z_day z t) < z_midnight z d" using midnight_day_le(1) [of t] by simp
  then show "z_day z t < d" by (simp add: midnight_less_iff)
next
  assume "z_day z t < d"
  then have "z_midnight z (z_day z t + 1) \<le> z_midnight z d"
    using midnight_less_iff [of "z_day z t + 1" d] by (cases "z_day z t + 1 = d") auto
  then show "t < z_midnight z d" using midnight_day_le(2) [of t] by simp
qed

lemma day_less: "z_day z s < z_day z t \<Longrightarrow> s < t"
  using later_midnight_iff [of s "z_day z t"] midnight_day_le(1) [of t] by simp

lemma day_start [simp]: "z_day z (next_start z base d) = d"
  by (simp add: next_start_def date_day)

lemma start_later: "z_day z base \<le> d \<Longrightarrow> base < next_start z base d \<longleftrightarrow> z_day z base < d"
  using day_less [of base "next_start z base d"] midnight_day_le(1) [of base] date_again [of "z_day z base"] date_day [of d "z_day z base"]
  by (cases "d = z_day z base") (auto simp: next_start_def)

lemma first_allowed_find:
  "\<forall>off\<in>set offs. 0 \<le> off \<Longrightarrow> first_allowed z base allowed offs =
    map_option (\<lambda>off. next_start z base (z_day z base + off)) (find (\<lambda>off. 0 < off \<and> weekday (z_day z base + off) \<in> set allowed) offs)"
proof (induction offs)
  case (Cons off offs)
  then show ?case
    using start_later [of base "z_day z base + off"] day_start [of base "z_day z base + off"]
    by (simp add: first_allowed_simps Let_def next_start_def)
qed (simp add: first_allowed_simps)

lemma weekday_within_week:
  assumes "0 \<le> w" "w < 7" shows "\<exists>off\<in>{1, 2, 3, 4, 5, 6, 7}. weekday (d + off) = w"
proof -
  define off where "off = (w - d - 5) mod 7 + 1"
  have "(d + 5 + (w - d - 5) mod 7) mod 7 = w mod 7"
    by (subst mod_add_right_eq) simp
  then have "weekday (d + off) = w"
    using assms by (simp add: weekday_def off_def algebra_simps)
  moreover have "1 \<le> off" "off \<le> 7"
    using pos_mod_sign [of 7 "w - d - 5"] pos_mod_bound [of 7 "w - d - 5"] by (simp_all add: off_def)
  moreover from this have "off \<in> {1, 2, 3, 4, 5, 6, 7}" by auto
  ultimately show ?thesis by blast
qed

lemma weekdayFromDigit_range: "0 \<le> weekdayFromDigit c" "weekdayFromDigit c < 7"
  by (simp_all add: weekdayFromDigit_def)

lemma weekly_found:
  assumes "v \<noteq> []"
  obtains off where "first_allowed z base (map weekdayFromDigit v) [0..7] = Some (next_start z base (z_day z base + off))"
    "0 < off" "off \<le> 7" "weekday (z_day z base + off) \<in> weekdayFromDigit ` set v"
    "\<forall>k. 0 < k \<and> k < off \<longrightarrow> weekday (z_day z base + k) \<notin> weekdayFromDigit ` set v"
proof -
  let ?P = "\<lambda>off. 0 < off \<and> weekday (z_day z base + off) \<in> set (map weekdayFromDigit v)"
  obtain k where k: "k \<in> {1, 2, 3, 4, 5, 6, 7}" "weekday (z_day z base + k) = weekdayFromDigit (hd v)"
    using weekday_within_week [OF weekdayFromDigit_range, of "z_day z base"] by blast
  then have "?P k" "k \<in> set [0..7]" using assms by auto
  then have "find ?P [0..7] \<noteq> None" by (metis (mono_tags, lifting) find_None_iff)
  then obtain off where off: "find ?P [0..7] = Some off" by blast
  then obtain i where i: "i < length [0..7 :: int]" "?P ([0..7] ! i)" "off = [0..7] ! i" "\<forall>j<i. \<not> ?P ([0..7] ! j)"
    unfolding find_Some_iff by blast
  then have o: "off = int i" "i < 8" by (simp_all add: nth_upto del: upto.simps)
  have "\<not> ?P k" if "0 < k" "k < off" for k
    using i(4) [rule_format, of "nat k"] that o by (simp add: nth_upto del: upto.simps)
  moreover have "first_allowed z base (map weekdayFromDigit v) [0..7] = Some (next_start z base (z_day z base + off))"
    using off by (subst first_allowed_find) simp_all
  ultimately show ?thesis using that [of off] i(2,3) o by simp
qed

lemma next_by_name_later: "base < next_by_name z base s"
proof -
  have "1 \<le> k" if "find (\<lambda>k. day_of_month (z_day z base + k) = 1) [1..31] = Some k" for k
    using that by (metis (mono_tags, lifting) atLeastAtMost_iff find_Some_iff nth_mem set_upto)
  then have "base < z_midnight z (next_month_first (z_day z base))"
    by (fastforce simp: later_midnight_iff next_month_first_def split: option.splits)
  moreover have "base < base - base mod 3600 + 3600"
    using pos_mod_bound [of 3600 base] by simp
  ultimately show ?thesis by (simp add: next_by_name_def Let_def later_midnight_iff)
qed

lemma NextAutoSnapshotTime_weekly:
  assumes "normalizeWeeklySchedule s = Inr v"
  shows "\<exists>d. NextAutoSnapshotTime z base s = next_start z base d \<and> z_day z base < d \<and> d \<le> z_day z base + 7 \<and>
    weekday d \<in> weekdayFromDigit ` set v \<and>
    (\<forall>d'. z_day z base < d' \<and> d' < d \<longrightarrow> weekday d' \<notin> weekdayFromDigit ` set v)"
proof -
  obtain off where off: "first_allowed z base (map weekdayFromDigit v) [0..7] = Some (next_start z base (z_day z base + off))"
    "0 < off" "off \<le> 7" "weekday (z_day z base + off) \<in> weekdayFromDigit ` set v"
    "\<forall>k. 0 < k \<and> k < off \<longrightarrow> weekday (z_day z base + k) \<notin> weekdayFromDigit ` set v"
    using weekly_found [OF normalizeWeeklySchedule_idem(2) [OF assms]] by blast
  have "weekday d' \<notin> weekdayFromDigit ` set v" if "z_day z base < d'" "d' < z_day z base + off" for d'
    using off(5) [rule_format, of "d' - z_day z base"] that by simp
  with off(1-4) assms show ?thesis
    by (intro exI [of _ "z_day z base + off"]) (simp add: NextAutoSnapshotTime_def)
qed

lemma NextAutoSnapshotTime_later: "base < NextAutoSnapshotTime z base s"
proof (cases "normalizeWeeklySchedule s")
  case (Inr v)
  from NextAutoSnapshotTime_weekly [OF this] obtain d where "NextAutoSnapshotTime z base s = next_start z base d" "z_day z base < d"
    by blast
  then show ?thesis using day_less [of base "next_start z base d"] by simp
qed (simp add: NextAutoSnapshotTime_def next_by_name_later)

end

sublocale local_zone \<subseteq> clock: snapshot_clock "\<lambda>t. NextAutoSnapshotTime z t s" for s
  by unfold_locales (rule NextAutoSnapshotTime_later)

interpretation fixed: local_zone "fixed_zone off" for off
proof
  fix t d
  show "(z_day (fixed_zone off) t = d) =
      (z_midnight (fixed_zone off) d \<le> t \<and> t < z_midnight (fixed_zone off) (d + 1))"
    unfolding fixed_zone_def z_midnight_def using div_mult_mod_eq [of "t + off" 86400]
      pos_mod_sign [of 86400 "t + off"] pos_mod_bound [of 86400 "t + off"]
    by (auto simp: algebra_simps)
qed (simp_all add: fixed_zone_def z_midnight_def)

interpretation east: local_zone "east_zone D" for D
proof
  fix t d
  let ?off = "if t < D * 86400 - 7200 then 7200 else 10800 :: int"
  have "(t + ?off) div 86400 = d \<longleftrightarrow> d * 86400 \<le> t + ?off \<and> t + ?off < (d + 1) * 86400"
    using div_mult_mod_eq [of "t + ?off" 86400] pos_mod_sign [of 86400 "t + ?off"] pos_mod_bound [of 86400 "t + ?off"]
    by (auto simp: algebra_simps)
  then show "(z_day (east_zone D) t = d) =
      (z_midnight (east_zone D) d \<le> t \<and> t < z_midnight (east_zone D) (d + 1))"
    by (auto simp: east_zone_def z_midnight_def Let_def)
next
  fix d b
  have clock: "z_clock (east_zone D) (z_midnight (east_zone D) b) = (if b = D then 3600 else 0)" for b
  proof -
    have "(b * 86400 + 0) mod 86400 = 0" "(b * 86400 + 3600) mod 86400 = (3600 :: int)" by simp_all
    then show ?thesis by (auto simp: east_zone_def z_midnight_def Let_def)
  qed
  have "(d * 86400 + 3600) div 86400 = d" "(d * 86400 + 7200) div 86400 = (d :: int)" by (simp_all add: div_add1_eq)
  then show "z_day (east_zone D) (z_date (east_zone D) d (z_clock (east_zone D) (z_midnight (east_zone D) b))) = d"
    unfolding clock by (auto simp: east_zone_def Let_def)
  show "z_date (east_zone D) d (z_clock (east_zone D) (z_midnight (east_zone D) d)) = z_midnight (east_zone D) d"
    unfolding clock by (auto simp: east_zone_def z_midnight_def Let_def)
qed (auto simp: east_zone_def z_midnight_def Let_def)

text \<open>
  West of Greenwich the locale's laws fail: the skipped midnight of a day is an instant of the day before,
  and a weekly snapshot of that day is found there again and again.  The loop of \<open>nextAutoSnapshotAfter\<close>
  never ends.
\<close>

lemma catch_up_stuck:
  assumes "nxt t = t" "t \<le> now"
  shows "catch_up nxt t now = None"
proof -
  have "nxt t = t \<longrightarrow> now < t" if "catch_up nxt t now = Some r" for r
    using that by (rule catch_up.raw_induct [where P = "\<lambda>nxt t now r. nxt t = t \<longrightarrow> now < t", rotated]) (auto split: if_splits)
  with assms show ?thesis by (metis not_None_eq not_less)
qed

end
