(* ===== verification/Stores.thy ===== *)
theory Stores
  imports Prelude "HOL-Library.List_Lexorder" "HOL-Library.Char_ord" "HOL-Library.Product_Lexorder"
begin

text \<open>
  The tables \<open>storage\<close> (internal/storage/store.go) and \<open>storage_pool\<close>,
  \<open>storage_pool_device\<close>, \<open>storage_pool_snapshot\<close> (internal/storagepool/store.go) with their SQL
  statements, over the constraints of database/init.sql, and the audit trail.

  Every statement takes a flag \<open>up\<close> that says whether the statement reaches the database; a
  statement that does not is the error \<open>DbFail\<close> and changes nothing.  A single row query that
  finds no row is \<open>NoRows\<close> (\<open>sql.ErrNoRows\<close>), a violated key or foreign key is \<open>Constraint\<close>.
  Instants are seconds since the epoch.
\<close>

datatype db_err = NoRows | Constraint | DbFail

definition sel_one :: "bool \<Rightarrow> ('r \<Rightarrow> 'k) \<Rightarrow> 'k \<Rightarrow> 'r list \<Rightarrow> db_err + 'r" where
  "sel_one up key k t =
     (if \<not> up then Inl DbFail
      else (case tbl_get key k t of None \<Rightarrow> Inl NoRows | Some r \<Rightarrow> Inr r))"

definition sel_all :: "bool \<Rightarrow> 'r list \<Rightarrow> db_err + 'r list" where
  "sel_all up rows = (if up then Inr rows else Inl DbFail)"

definition exec :: "bool \<Rightarrow> 'r list \<Rightarrow> db_err + 'r list" where
  "exec up t = (if up then Inr t else Inl DbFail)"

definition insert_row :: "bool \<Rightarrow> ('r \<Rightarrow> 'r \<Rightarrow> bool) \<Rightarrow> 'r \<Rightarrow> 'r list \<Rightarrow> db_err + 'r list" where
  \<comment> \<open>\<open>clash r q\<close>: rows \<open>r\<close> and \<open>q\<close> agree on a unique key.\<close>
  "insert_row up clash r t =
     (if \<not> up then Inl DbFail else if \<exists>q\<in>set t. clash r q then Inl Constraint else Inr (t @ [r]))"

definition order_desc :: "('r \<Rightarrow> int) \<Rightarrow> 'r list \<Rightarrow> 'r list" where
  "order_desc key t = sort_key (\<lambda>r. - key r) t"

lemma set_order_desc [simp]: "set (order_desc key t) = set t"
  by (simp add: order_desc_def)

lemma length_order_desc [simp]: "length (order_desc key t) = length t"
  by (simp add: order_desc_def)

lemma sel_one_Inr: "sel_one up key k t = Inr r \<longleftrightarrow> up \<and> tbl_get key k t = Some r"
  by (auto simp: sel_one_def split: option.splits)

lemma sel_one_up: "sel_one True key k t = (case tbl_get key k t of None \<Rightarrow> Inl NoRows | Some r \<Rightarrow> Inr r)"
  by (simp add: sel_one_def)

section \<open>Storages\<close>

datatype storage_type = Local | Cloud | SMB | FTP | WebDAV | NFS | S3 | Google | Dropbox

datatype storage_status = Online | Offline | StError

record storage =
  st_id :: string
  st_name :: string
  st_location :: string
  st_mount :: string
  st_type :: storage_type
  st_provider :: string
  st_host :: string
  st_port :: int
  st_url :: string
  st_username :: string
  st_password :: string
  st_token :: string
  st_domain :: string
  st_share :: string
  st_root :: string
  st_extra :: string
  st_status :: storage_status
  st_total :: int
  st_free :: int
  st_updated :: int

definition storage_List :: "bool \<Rightarrow> storage list \<Rightarrow> db_err + storage list" where
  "storage_List up t = sel_all up t"

definition storage_Get :: "bool \<Rightarrow> string \<Rightarrow> storage list \<Rightarrow> db_err + storage" where
  "storage_Get up i t = sel_one up st_id i t"

definition storage_Add :: "bool \<Rightarrow> string \<Rightarrow> storage \<Rightarrow> storage list \<Rightarrow> db_err + string \<times> storage list" where
  "storage_Add up newid item t =
     (let item' = (if st_id item = [] then item\<lparr>st_id := newid\<rparr> else item) in
      case insert_row up (\<lambda>r q. st_id r = st_id q \<or> st_mount r = st_mount q) item' t of
        Inl e \<Rightarrow> Inl e
      | Inr t' \<Rightarrow> Inr (st_id item', t'))"

definition storage_GetByMountPath :: "bool \<Rightarrow> string \<Rightarrow> storage list \<Rightarrow> db_err + storage option" where
  "storage_GetByMountPath up m t =
     (case sel_one up st_mount m t of
        Inl NoRows \<Rightarrow> Inr None
      | Inl e \<Rightarrow> Inl e
      | Inr r \<Rightarrow> Inr (Some r))"

definition storage_Delete :: "bool \<Rightarrow> string \<Rightarrow> storage list \<Rightarrow> db_err + storage list" where
  "storage_Delete up i t = exec up (tbl_del (\<lambda>r. st_id r = i) t)"

definition storage_UpdateRuntime ::
  "bool \<Rightarrow> int \<Rightarrow> string \<Rightarrow> string \<Rightarrow> storage_status \<Rightarrow> int \<Rightarrow> int \<Rightarrow> string \<Rightarrow> storage list \<Rightarrow> db_err + storage list" where
  "storage_UpdateRuntime up now i m s tot fre extra t =
     (if \<not> up then Inl DbFail
      else if i \<in> st_id ` set t \<and> (\<exists>q\<in>set t. st_id q \<noteq> i \<and> st_mount q = m) then Inl Constraint
      else Inr (tbl_upd (\<lambda>r. st_id r = i)
       (\<lambda>r. r\<lparr>st_mount := m, st_status := s, st_total := tot, st_free := fre, st_extra := extra,
             st_updated := now\<rparr>) t))"

definition storage_UpdateIdentity :: "bool \<Rightarrow> int \<Rightarrow> string \<Rightarrow> string \<Rightarrow> storage list \<Rightarrow> db_err + storage list" where
  "storage_UpdateIdentity up now i user t =
     exec up (tbl_upd (\<lambda>r. st_id r = i) (\<lambda>r. r\<lparr>st_username := user, st_updated := now\<rparr>) t)"

section \<open>Storage pools\<close>

record pool_device =
  pd_id :: string
  pd_pool :: string
  pd_path :: string
  pd_name :: string
  pd_kernel :: string
  pd_parent :: string
  pd_size :: int
  pd_human :: string
  pd_model :: string
  pd_serial :: string
  pd_vendor :: string
  pd_transport :: string
  pd_role :: string

text \<open>Speeds are kept in whole bytes per second.\<close>

record pool =
  sp_id :: string
  sp_storage :: string
  sp_name :: string
  sp_fs :: string
  sp_raid :: string
  sp_mount :: string
  sp_data :: string
  sp_auto :: bool
  sp_schedule :: string
  sp_last :: "int option"
  sp_next :: "int option"
  sp_cache :: string
  sp_read_speed :: int
  sp_write_speed :: int
  sp_tested :: "int option"
  sp_created :: int
  sp_updated :: "int option"

record snapshot_row =
  sn_id :: string
  sn_pool :: string
  sn_name :: string
  sn_path :: string
  sn_source :: string
  sn_readonly :: bool
  sn_description :: string
  sn_created_by :: string
  sn_system :: int
  sn_generation :: int
  sn_created :: int
  sn_updated :: "int option"

definition pool_clash :: "pool \<Rightarrow> pool \<Rightarrow> bool" where
  "pool_clash r q \<longleftrightarrow> sp_id r = sp_id q \<or> sp_storage r = sp_storage q \<or> sp_name r = sp_name q \<or> sp_mount r = sp_mount q"

definition pool_List :: "bool \<Rightarrow> pool list \<Rightarrow> db_err + pool list" where
  "pool_List up t = sel_all up (order_desc sp_created t)"

definition pool_Get :: "bool \<Rightarrow> string \<Rightarrow> pool list \<Rightarrow> db_err + pool" where
  "pool_Get up i t = sel_one up sp_id i t"

definition pool_GetByName :: "bool \<Rightarrow> string \<Rightarrow> pool list \<Rightarrow> db_err + pool option" where
  "pool_GetByName up n t =
     (case sel_one up sp_name n t of
        Inl NoRows \<Rightarrow> Inr None
      | Inl e \<Rightarrow> Inl e
      | Inr r \<Rightarrow> Inr (Some r))"

definition listDevices :: "bool \<Rightarrow> string \<Rightarrow> pool_device list \<Rightarrow> db_err + pool_device list" where
  "listDevices up i t = sel_all up (sort_key (\<lambda>d. (pd_role d, pd_path d)) (filter (\<lambda>d. pd_pool d = i) t))"

definition UpdateDevice :: "bool \<Rightarrow> pool_device \<Rightarrow> pool_device list \<Rightarrow> db_err + pool_device list" where
  "UpdateDevice up d t =
     (if \<not> up then Inl DbFail
      else if (\<exists>r\<in>set t. pd_id r = pd_id d \<and> pd_pool r = pd_pool d) \<and>
        (\<exists>q\<in>set t. pd_id q \<noteq> pd_id d \<and> pd_pool q = pd_pool d \<and> pd_path q = pd_path d) then Inl Constraint
      else Inr (tbl_upd (\<lambda>r. pd_id r = pd_id d \<and> pd_pool r = pd_pool d) (\<lambda>_. d) t))"

definition HasDevice :: "bool \<Rightarrow> string \<Rightarrow> pool_device list \<Rightarrow> db_err + bool" where
  "HasDevice up p t = (if up then Inr (tbl_rows (\<lambda>d. pd_path d = p) t > 0) else Inl DbFail)"

definition pool_DeleteByID :: "bool \<Rightarrow> string \<Rightarrow> pool list \<Rightarrow> db_err + pool list" where
  "pool_DeleteByID up i t = exec up (tbl_del (\<lambda>r. sp_id r = i) t)"

definition UpdateAutoSnapshotQueued :: "bool \<Rightarrow> int \<Rightarrow> string \<Rightarrow> int \<Rightarrow> pool list \<Rightarrow> db_err + pool list" where
  "UpdateAutoSnapshotQueued up now i nxt t =
     exec up (tbl_upd (\<lambda>r. sp_id r = i) (\<lambda>r. r\<lparr>sp_next := Some nxt, sp_updated := Some now\<rparr>) t)"

definition UpdateAutoSnapshotSuccess :: "bool \<Rightarrow> int \<Rightarrow> string \<Rightarrow> int \<Rightarrow> int \<Rightarrow> pool list \<Rightarrow> db_err + pool list" where
  "UpdateAutoSnapshotSuccess up now i lastrun nxt t =
     exec up (tbl_upd (\<lambda>r. sp_id r = i)
       (\<lambda>r. r\<lparr>sp_last := Some lastrun, sp_next := Some nxt, sp_updated := Some now\<rparr>) t)"

definition UpdateAutoSnapshotConfig ::
  "bool \<Rightarrow> string \<Rightarrow> bool \<Rightarrow> string \<Rightarrow> int option \<Rightarrow> int \<Rightarrow> pool list \<Rightarrow> db_err + pool list" where
  "UpdateAutoSnapshotConfig up i enabled schedule nxt now t =
     (if \<not> up then Inl DbFail
      else if tbl_rows (\<lambda>r. sp_id r = i) t = 0 then Inl NoRows
      else Inr (tbl_upd (\<lambda>r. sp_id r = i)
        (\<lambda>r. r\<lparr>sp_auto := enabled, sp_schedule := schedule, sp_next := nxt, sp_updated := Some now\<rparr>) t))"

definition UpdateBenchmarkResult :: "bool \<Rightarrow> string \<Rightarrow> int \<Rightarrow> int \<Rightarrow> int \<Rightarrow> pool list \<Rightarrow> db_err + pool list" where
  "UpdateBenchmarkResult up i readSpeed writeSpeed testedAt t =
     exec up (tbl_upd (\<lambda>r. sp_id r = i)
       (\<lambda>r. r\<lparr>sp_read_speed := readSpeed, sp_write_speed := writeSpeed, sp_tested := Some testedAt,
             sp_updated := Some testedAt\<rparr>) t)"

definition ResetBenchmarkResult :: "bool \<Rightarrow> string \<Rightarrow> int \<Rightarrow> pool list \<Rightarrow> db_err + pool list" where
  "ResetBenchmarkResult up i now t =
     exec up (tbl_upd (\<lambda>r. sp_id r = i)
       (\<lambda>r. r\<lparr>sp_read_speed := 0, sp_write_speed := 0, sp_tested := None, sp_updated := Some now\<rparr>) t)"

definition AddSnapshot :: "bool \<Rightarrow> string \<Rightarrow> snapshot_row \<Rightarrow> snapshot_row list \<Rightarrow> db_err + snapshot_row list" where
  "AddSnapshot up newid r t =
     insert_row up (\<lambda>a b. sn_id a = sn_id b \<or> (sn_pool a = sn_pool b \<and> sn_path a = sn_path b))
       (if sn_id r = [] then r\<lparr>sn_id := newid\<rparr> else r) t"

definition ListSnapshotRecords :: "bool \<Rightarrow> string \<Rightarrow> snapshot_row list \<Rightarrow> db_err + snapshot_row list" where
  "ListSnapshotRecords up i t = sel_all up (order_desc sn_created (filter (\<lambda>r. sn_pool r = i) t))"

definition GetSnapshotRecord :: "bool \<Rightarrow> string \<Rightarrow> string \<Rightarrow> snapshot_row list \<Rightarrow> db_err + snapshot_row" where
  "GetSnapshotRecord up p i t = sel_one up (\<lambda>r. (sn_pool r, sn_id r)) (p, i) t"

definition DeleteSnapshotRecord :: "bool \<Rightarrow> string \<Rightarrow> string \<Rightarrow> snapshot_row list \<Rightarrow> db_err + snapshot_row list" where
  "DeleteSnapshotRecord up p i t = exec up (tbl_del (\<lambda>r. sn_pool r = p \<and> sn_id r = i) t)"

definition DeleteSnapshotRecordsByPool :: "bool \<Rightarrow> string \<Rightarrow> snapshot_row list \<Rightarrow> db_err + snapshot_row list" where
  "DeleteSnapshotRecordsByPool up p t = exec up (tbl_del (\<lambda>r. sn_pool r = p) t)"

definition UpdateSnapshotSystemFields :: "bool \<Rightarrow> int \<Rightarrow> string \<Rightarrow> int \<Rightarrow> int \<Rightarrow> snapshot_row list \<Rightarrow> db_err + snapshot_row list" where
  "UpdateSnapshotSystemFields up now i sys gen t =
     exec up (tbl_upd (\<lambda>r. sn_id r = i)
       (\<lambda>r. r\<lparr>sn_system := sys, sn_generation := gen, sn_updated := Some now\<rparr>) t)"

section \<open>Which storages are remote\<close>

definition isCloudProvider :: "string \<Rightarrow> bool" where
  "isCloudProvider p \<longleftrightarrow> trim p = ''google_drive'' \<or> trim p = ''onedrive'' \<or> trim p = ''dropbox''"

definition isCloudStorage :: "storage \<Rightarrow> bool" where
  "isCloudStorage item \<longleftrightarrow> st_type item = Cloud \<or> isCloudProvider (st_provider item)"

section \<open>The audit trail\<close>

text \<open>An entry: event, action, success, resource type and resource id of \<open>audit.UserAction\<close>.\<close>

datatype audit = Audit string string bool string string

section \<open>Locale of a keyed table\<close>

text \<open>What the handlers rely on when they look a row up, change it and look it up again.\<close>

locale keyed_table =
  fixes key :: "'r \<Rightarrow> string"
    and get :: "bool \<Rightarrow> string \<Rightarrow> 'r list \<Rightarrow> db_err + 'r"
    and del :: "bool \<Rightarrow> string \<Rightarrow> 'r list \<Rightarrow> db_err + 'r list"
  assumes get_found: "get up k t = Inr r \<Longrightarrow> r \<in> set t \<and> key r = k"
    and get_missing: "k \<notin> key ` set t \<Longrightarrow> get True k t = Inl NoRows"
    and get_hit: "r \<in> set t \<Longrightarrow> distinct (map key t) \<Longrightarrow> get True (key r) t = Inr r"
    and del_rows: "del up k t = Inr t' \<Longrightarrow> set t' = {r \<in> set t. key r \<noteq> k}"
begin

lemma get_after_del: "del up k t = Inr t' \<Longrightarrow> get True k t' = Inl NoRows"
  using del_rows by (intro get_missing) fastforce

lemma get_unchanged:
  assumes "del up k t = Inr t'" "distinct (map key t')" "get up' j t = Inr r" "j \<noteq> k"
  shows "get True j t' = Inr r"
proof -
  have "r \<in> set t" "key r = j" using get_found [OF assms(3)] by simp_all
  then have "r \<in> set t'" using del_rows [OF assms(1)] assms(4) by simp
  then show ?thesis using get_hit [OF _ assms(2)] \<open>key r = j\<close> by blast
qed

end

interpretation storage_tbl: keyed_table st_id storage_Get storage_Delete
  by unfold_locales
    (auto simp: storage_Get_def storage_Delete_def sel_one_Inr sel_one_up exec_def tbl_get_distinct
      split: option.splits if_splits dest: tbl_get_Some iff: tbl_get_None)

interpretation pool_tbl: keyed_table sp_id pool_Get pool_DeleteByID
  by unfold_locales
    (auto simp: pool_Get_def pool_DeleteByID_def sel_one_Inr sel_one_up exec_def tbl_get_distinct
      split: option.splits if_splits dest: tbl_get_Some iff: tbl_get_None)

end
