(* ===== verification/Jobs_Data.thy ===== *)
theory Jobs_Data
  imports Stores Go_Path Schedule
begin

text \<open>
  The job queue's data (internal/jobs/jobs.go): the table \<open>jobs\<close>, its status and payloads, the
  guarded \<open>UPDATE\<close> statements that move a job from one status to the next, the registry of
  running jobs with their stop reasons, the local cache files of the upload jobs, and the texts
  a job shows.

  RFC 3339 UTC texts are modelled by the instant they denote; they are ordered as their instants
  are.  A text that does not parse is \<open>None\<close>.  One operation reads the clock once.
  What the environment decides is the record \<open>jenv\<close>: the clock, the local time zone, fresh
  identifiers, which database statements fail, and what the file system refuses.
\<close>

section \<open>Texts\<close>

definition utf8 :: "nat list \<Rightarrow> string" where
  "utf8 bs = map char_of bs"

function replace_all :: "string \<Rightarrow> string \<Rightarrow> string \<Rightarrow> string" where
  "replace_all old new [] = []"
| "replace_all old new (c # cs) =
     (if old \<noteq> [] \<and> has_prefix old (c # cs) then new @ replace_all old new (drop (length old) (c # cs))
      else c # replace_all old new cs)"
  by pat_completeness auto
termination
  by (relation "measure (\<lambda>(old, new, s). length s)") auto

definition legacy_texts :: "(string \<times> string) list" where
  "legacy_texts = [
    (utf8 [229,144,140,230,173,165,229,136,176,32,71,111,111,103,108,101,32,68,114,105,118,101],
     ''Sync to Google Drive''),
    (utf8 [231,173,137,229,190,133,229,144,140,230,173,165],
     ''Waiting to sync''),
    (utf8 [230,173,163,229,156,168,229,144,140,230,173,165,229,136,176,228,186,145,231,155,152],
     ''Syncing to cloud storage''),
    (utf8 [230,173,163,229,156,168,228,184,138,228,188,160,229,136,176,32,71,111,111,103,108,
       101,32,68,114,105,118,101],
     ''Uploading to Google Drive''),
    (utf8 [229,144,140,230,173,165,228,187,187,229,138,161,229,183,178,229,129,156,230,173,162],
     ''Sync job stopped''),
    (utf8 [229,144,140,230,173,165,229,164,177,232,180,165],
     ''Sync failed''),
    (utf8 [229,144,140,230,173,165,229,174,140,230,136,144],
     ''Sync completed''),
    (utf8 [228,184,141,230,148,175,230,140,129,231,154,132,228,187,187,229,138,161,231,177,187,
       229,158,139],
     ''Unsupported job type''),
    (utf8 [228,186,145,229,173,152,229,130,168,228,184,141,229,173,152,229,156,168],
     ''Cloud storage not found'')]"

definition legacy_replacements :: "(string \<times> string) list" where
  "legacy_replacements = [
    (utf8 [232,167,163,230,158,144,229,144,140,230,173,165,228,187,187,229,138,161,229,164,177,
       232,180,165],
     ''Failed to decode sync job payload''),
    (utf8 [230,137,147,229,188,128,230,156,172,229,156,176,231,188,147,229,173,152,230,150,135,
       228,187,182,229,164,177,232,180,165],
     ''Failed to open local cache file''),
    (utf8 [228,184,138,228,188,160,229,136,176,32,71,111,111,103,108,101,32,68,114,105,118,101,
       32,229,164,177,232,180,165],
     ''Failed to upload to Google Drive''),
    (utf8 [228,187,187,229,138,161,229,191,131,232,183,179,232,182,133,230,151,182],
     ''Job heartbeat timed out''),
    (utf8 [229,144,142,229,143,176,232,182,133,232,191,135],
     ''the backend has not updated this job for more than''),
    (utf8 [230,178,161,230,156,137,230,155,180,230,150,176,239,188,155,228,187,187,229,138,161,
       229,143,175,232,131,189,229,183,178,229,129,156,230,173,162,230,136,150,230,156,141,229,
       138,161,230,155,190,231,187,143,233,135,141,229,144,175],
     ''The job may have stopped or the service may have restarted.'')]"

text \<open>
  The loop over \<open>replacements\<close> visits a Go map in an unspecified order: \<open>reps\<close> is the order of
  one run, a permutation of \<open>legacy_replacements\<close>.
\<close>

definition normalizeLegacyJobText :: "(string \<times> string) list \<Rightarrow> string \<Rightarrow> string" where
  "normalizeLegacyJobText reps value =
     (let v = trim value in
      case map_of legacy_texts v of
        Some t \<Rightarrow> t
      | None \<Rightarrow> fold (\<lambda>(old, new) s. replace_all old new s) reps v)"

section \<open>Jobs\<close>

datatype jtype = CloudSync | AutoSnapshot | OtherType string

datatype status = Pending | Running | Paused | Success | Failed | Cancelled

primrec status_text :: "status \<Rightarrow> string" where
  "status_text Pending = ''pending''"
| "status_text Running = ''running''"
| "status_text Paused = ''paused''"
| "status_text Success = ''success''"
| "status_text Failed = ''failed''"
| "status_text Cancelled = ''cancelled''"

primrec type_text :: "jtype \<Rightarrow> string" where
  "type_text CloudSync = ''cloud_sync''"
| "type_text AutoSnapshot = ''auto_snapshot''"
| "type_text (OtherType t) = t"

record cloud_payload =
  cp_local :: string
  cp_target :: string
  cp_ctype :: string
  cp_file :: string

record snap_payload =
  ap_pool :: string
  ap_schedule :: string

text \<open>
  The column \<open>payload_json\<close> by what it decodes to.  Decoding into the other record type finds
  none of its keys and succeeds with blank fields; a blank or malformed text does not decode.
\<close>

datatype payload = CloudP cloud_payload | SnapP snap_payload | BlankP | GarbageP

fun decode_cloud :: "payload \<Rightarrow> cloud_payload option" where
  "decode_cloud (CloudP p) = Some p"
| "decode_cloud (SnapP _) = Some \<lparr>cp_local = [], cp_target = [], cp_ctype = [], cp_file = []\<rparr>"
| "decode_cloud BlankP = None"
| "decode_cloud GarbageP = None"

fun decode_snap :: "payload \<Rightarrow> snap_payload option" where
  "decode_snap (SnapP p) = Some p"
| "decode_snap (CloudP _) = Some \<lparr>ap_pool = [], ap_schedule = []\<rparr>"
| "decode_snap BlankP = None"
| "decode_snap GarbageP = None"

record job =
  j_id :: string
  j_type :: jtype
  j_status :: status
  j_title :: string
  j_storage :: string
  j_rtype :: string
  j_resource :: string
  j_progress :: int
  j_message :: string
  j_error :: string
  j_payload :: payload
  j_result :: "(string \<times> string) list"
  j_created :: int
  j_updated :: "int option"
  j_started :: "int option"
  j_finished :: "int option"

datatype stop = StopPause | StopCancel | StopDelete

text \<open>
  The state: the tables, the registry \<open>runningJobCancels\<close> (its keys) with
  \<open>runningJobStopReasons\<close>, and the clean paths of the cache files and directories.
\<close>

record jworld =
  w_jobs :: "job list"
  w_pools :: "pool list"
  w_storages :: "storage list"
  w_cancels :: "string list"
  w_stops :: "string \<rightharpoonup> stop"
  w_files :: "string list"
  w_audit :: "audit list"

text \<open>The statements and file operations that can fail, by where they stand.\<close>

datatype site =
    SRead | SList | SReread | SStaleList | SStale string | SUpdate | SClaimRead | SClaim
  | SProgress | SStatus | SInsert | SPools | SDue string | SQueued string | SEnqueue string
  | SStorage | SPoolGet | SPoolStorage | SCounts | SHeartbeat | SSchedule

record jenv =
  e_now :: int
  e_zone :: zone
  e_id :: "string \<Rightarrow> string"
  e_up :: "site \<Rightarrow> bool"
  e_rm :: "string \<Rightarrow> bool"
  e_open :: "string \<Rightarrow> bool"
  e_err :: string
  e_reps :: "(string \<times> string) list"

definition stale_after :: int where "stale_after = 300"

definition note_audit :: "audit \<Rightarrow> jworld \<Rightarrow> jworld" where
  "note_audit a w = w\<lparr>w_audit := w_audit w @ [a]\<rparr>"

definition ign :: "jworld \<Rightarrow> db_err + jworld \<Rightarrow> jworld" where
  \<comment> \<open>\<open>_ = update(...)\<close>: an error is dropped.\<close>
  "ign w r = (case r of Inl _ \<Rightarrow> w | Inr w' \<Rightarrow> w')"

definition upd_jobs :: "bool \<Rightarrow> (job \<Rightarrow> bool) \<Rightarrow> (job \<Rightarrow> job) \<Rightarrow> jworld \<Rightarrow> db_err + jworld" where
  "upd_jobs up p f w = (if up then Inr (w\<lparr>w_jobs := tbl_upd p f (w_jobs w)\<rparr>) else Inl DbFail)"

section \<open>Status messages\<close>

definition pendingStatusMessage :: "jtype \<Rightarrow> string" where
  "pendingStatusMessage t = (if t = AutoSnapshot then ''Waiting to create automatic snapshot'' else ''Waiting to sync'')"

definition runningMessageForType :: "jtype \<Rightarrow> string" where
  "runningMessageForType t = (if t = AutoSnapshot then ''Creating automatic snapshot'' else ''Syncing to cloud storage'')"

definition pausedStatusMessage :: "jtype \<Rightarrow> string" where
  "pausedStatusMessage t = (if t = AutoSnapshot then ''Automatic snapshot paused'' else ''Sync job paused'')"

definition successStatusMessage :: "jtype \<Rightarrow> string" where
  "successStatusMessage t = (if t = AutoSnapshot then ''Automatic snapshot completed'' else ''Sync completed'')"

definition failureStatusMessage :: "jtype \<Rightarrow> string" where
  "failureStatusMessage t = (if t = AutoSnapshot then ''Automatic snapshot failed'' else ''Sync failed'')"

section \<open>The guarded updates\<close>

definition updateProgress :: "jenv \<Rightarrow> string \<Rightarrow> int \<Rightarrow> string \<Rightarrow> jworld \<Rightarrow> db_err + jworld" where
  "updateProgress env i progress message w =
     upd_jobs (e_up env SProgress) (\<lambda>j. j_id j = i)
       (\<lambda>j. j\<lparr>j_progress := progress, j_message := message, j_updated := Some (e_now env)\<rparr>) w"

definition updateHeartbeat :: "jenv \<Rightarrow> string \<Rightarrow> jworld \<Rightarrow> db_err + jworld" where
  "updateHeartbeat env i w =
     upd_jobs (e_up env SHeartbeat) (\<lambda>j. j_id j = i \<and> j_status j = Running)
       (\<lambda>j. j\<lparr>j_updated := Some (e_now env)\<rparr>) w"

definition updatePaused :: "jenv \<Rightarrow> string \<Rightarrow> string \<Rightarrow> jworld \<Rightarrow> db_err + jworld" where
  "updatePaused env i message w =
     upd_jobs (e_up env SUpdate) (\<lambda>j. j_id j = i \<and> (j_status j = Pending \<or> j_status j = Running))
       (\<lambda>j. j\<lparr>j_status := Paused, j_message := message, j_error := [], j_updated := Some (e_now env)\<rparr>) w"

definition updateResume :: "jenv \<Rightarrow> string \<Rightarrow> jtype \<Rightarrow> jworld \<Rightarrow> db_err + jworld" where
  "updateResume env i t w =
     upd_jobs (e_up env SUpdate) (\<lambda>j. j_id j = i \<and> j_status j = Paused)
       (\<lambda>j. j\<lparr>j_status := Pending, j_progress := 0, j_message := pendingStatusMessage t, j_error := [],
             j_finished := None, j_updated := Some (e_now env)\<rparr>) w"

definition updateCancelled :: "jenv \<Rightarrow> string \<Rightarrow> string \<Rightarrow> jworld \<Rightarrow> db_err + jworld" where
  "updateCancelled env i message w =
     upd_jobs (e_up env SUpdate) (\<lambda>j. j_id j = i)
       (\<lambda>j. j\<lparr>j_status := Cancelled, j_progress := 100, j_message := message, j_error := [],
             j_finished := Some (e_now env), j_updated := Some (e_now env)\<rparr>) w"

definition updateFailure :: "jenv \<Rightarrow> string \<Rightarrow> string \<Rightarrow> string \<Rightarrow> jworld \<Rightarrow> db_err + jworld" where
  "updateFailure env i message statusMessage w =
     upd_jobs (e_up env SUpdate) (\<lambda>j. j_id j = i \<and> j_status j = Running)
       (\<lambda>j. j\<lparr>j_status := Failed, j_progress := 100, j_message := statusMessage, j_error := message,
             j_finished := Some (e_now env), j_updated := Some (e_now env)\<rparr>) w"

definition updateSuccess :: "jenv \<Rightarrow> string \<Rightarrow> (string \<times> string) list \<Rightarrow> string \<Rightarrow> jworld \<Rightarrow> db_err + jworld" where
  "updateSuccess env i result statusMessage w =
     upd_jobs (e_up env SUpdate) (\<lambda>j. j_id j = i \<and> j_status j = Running)
       (\<lambda>j. j\<lparr>j_status := Success, j_progress := 100, j_message := statusMessage, j_result := result,
             j_error := [], j_finished := Some (e_now env), j_updated := Some (e_now env)\<rparr>) w"

definition deleteJob :: "jenv \<Rightarrow> string \<Rightarrow> jworld \<Rightarrow> db_err + jworld" where
  "deleteJob env i w =
     (if e_up env SUpdate then Inr (w\<lparr>w_jobs := tbl_del (\<lambda>j. j_id j = trim i) (w_jobs w)\<rparr>) else Inl DbFail)"

definition getRaw :: "bool \<Rightarrow> string \<Rightarrow> jworld \<Rightarrow> db_err + job" where
  "getRaw up i w = sel_one up j_id (trim i) (w_jobs w)"

definition currentJobStatus :: "jenv \<Rightarrow> string \<Rightarrow> jworld \<Rightarrow> status option" where
  "currentJobStatus env i w =
     (case getRaw (e_up env SStatus) i w of Inl _ \<Rightarrow> None | Inr j \<Rightarrow> Some (j_status j))"

section \<open>The registry of running jobs\<close>

definition registerRunningJob :: "string \<Rightarrow> jworld \<Rightarrow> jworld" where
  "registerRunningJob i w =
     w\<lparr>w_cancels := i # filter (\<lambda>c. c \<noteq> i) (w_cancels w), w_stops := (w_stops w)(i := None)\<rparr>"

definition unregisterRunningJob :: "string \<Rightarrow> jworld \<Rightarrow> stop option \<times> jworld" where
  "unregisterRunningJob i w =
     (w_stops w i,
      w\<lparr>w_cancels := filter (\<lambda>c. c \<noteq> i) (w_cancels w), w_stops := (w_stops w)(i := None)\<rparr>)"

definition requestRunningJobStop :: "string \<Rightarrow> stop \<Rightarrow> jworld \<Rightarrow> bool \<times> jworld" where
  "requestRunningJobStop i reason w =
     (if i \<in> set (w_cancels w) then (True, w\<lparr>w_stops := (w_stops w)(i \<mapsto> reason)\<rparr>) else (False, w))"

section \<open>Cache files\<close>

text \<open>\<open>os.Remove\<close>: a directory goes only when it is empty; the environment may refuse.\<close>

definition os_Remove :: "jenv \<Rightarrow> string \<Rightarrow> jworld \<Rightarrow> jworld" where
  "os_Remove env p w =
     (let q = Clean p in
      if e_rm env q \<and> \<not> (\<exists>f\<in>set (w_files w). f \<noteq> q \<and> Dir f = q)
      then w\<lparr>w_files := filter (\<lambda>f. f \<noteq> q) (w_files w)\<rparr> else w)"

definition cleanupCloudSyncLocalPayload :: "jenv \<Rightarrow> cloud_payload \<Rightarrow> jworld \<Rightarrow> jworld" where
  "cleanupCloudSyncLocalPayload env p w =
     (let localPath = trim (cp_local p) in
      if localPath = [] then w
      else os_Remove env (Dir localPath) (os_Remove env localPath w))"

definition cleanupJobPayload :: "jenv \<Rightarrow> job \<Rightarrow> jworld \<Rightarrow> jworld" where
  "cleanupJobPayload env item w =
     (if j_type item \<noteq> CloudSync \<or> j_payload item = BlankP then w
      else (case decode_cloud (j_payload item) of
              None \<Rightarrow> w
            | Some p \<Rightarrow> cleanupCloudSyncLocalPayload env p w))"

definition ensureJobLocalCacheAvailable :: "jenv \<Rightarrow> job \<Rightarrow> jworld \<Rightarrow> bool" where
  "ensureJobLocalCacheAvailable env item w =
     (if j_type item \<noteq> CloudSync \<or> j_payload item = BlankP then True
      else (case decode_cloud (j_payload item) of
              None \<Rightarrow> False
            | Some p \<Rightarrow>
                (let localPath = trim (cp_local p) in
                 if localPath = [] then False
                 else Clean localPath \<in> set (w_files w) \<and> e_open env (Clean localPath))))"

end
