(* ===== verification/Jobs.thy ===== *)
theory Jobs
  imports Jobs_Data
begin

text \<open>
  The operations of internal/jobs/jobs.go: enqueueing, the HTTP handlers and the worker.

  A handler that reads a job and then acts on the copy it read is the composition of the two
  halves (\<open>getRaw\<close> and an \<open>_act\<close> function), and a run of a job is a beginning (up to the
  registration of its cancel function) and an end (from the return of the upload or of the
  snapshot command), so that theory Jobs_Machine can interleave them.
\<close>

section \<open>Stale jobs and reading\<close>

definition heartbeat_message :: string where
  "heartbeat_message = ''Job heartbeat timed out; the backend has not updated this job for more than 5m0s. The job may have stopped or the service may have restarted.''"

definition is_stale :: "jenv \<Rightarrow> job \<Rightarrow> bool" where
  "is_stale env j = (case j_updated j of None \<Rightarrow> False | Some t \<Rightarrow> \<not> t > e_now env - stale_after)"

definition fail_stale :: "jenv \<Rightarrow> job \<Rightarrow> job \<Rightarrow> job" where
  "fail_stale env item j =
     j\<lparr>j_status := Failed, j_message := failureStatusMessage (j_type item), j_error := heartbeat_message,
       j_finished := Some (e_now env), j_updated := Some (e_now env)\<rparr>"

definition mark_one :: "jenv \<Rightarrow> job \<Rightarrow> jworld \<Rightarrow> jworld" where
  "mark_one env item w =
     (if \<not> is_stale env item then w
      else if \<not> e_up env (SStale (j_id item)) then w
      else
        (let hit = (\<lambda>j. j_id j = j_id item \<and> j_status j = Running) in
         if tbl_rows hit (w_jobs w) = 0 then w
         else
           (let w' = w\<lparr>w_jobs := tbl_upd hit (fail_stale env item) (w_jobs w)\<rparr> in
            if j_type item = CloudSync then
              (case decode_cloud (j_payload item) of
                 None \<Rightarrow> w'
               | Some p \<Rightarrow> cleanupCloudSyncLocalPayload env p w')
            else w')))"

definition markStaleRunningJobs :: "jenv \<Rightarrow> jworld \<Rightarrow> jworld" where
  "markStaleRunningJobs env w =
     (if \<not> e_up env SStaleList then w
      else fold (mark_one env) (filter (\<lambda>j. j_status j = Running) (w_jobs w)) w)"

definition normalizeJobForResponse :: "jenv \<Rightarrow> job \<Rightarrow> job" where
  "normalizeJobForResponse env j =
     j\<lparr>j_message := normalizeLegacyJobText (e_reps env) (j_message j),
       j_error := normalizeLegacyJobText (e_reps env) (j_error j)\<rparr>"

definition getForResponse :: "jenv \<Rightarrow> string \<Rightarrow> jworld \<Rightarrow> db_err + job" where
  "getForResponse env i w =
     (case getRaw (e_up env SReread) i w of
        Inl e \<Rightarrow> Inl e
      | Inr item \<Rightarrow> Inr (normalizeJobForResponse env item))"

definition Get :: "jenv \<Rightarrow> string \<Rightarrow> jworld \<Rightarrow> (db_err + job) \<times> jworld" where
  "Get env i w = (let w' = markStaleRunningJobs env w in (getForResponse env i w', w'))"

definition List :: "jenv \<Rightarrow> int \<Rightarrow> jworld \<Rightarrow> (db_err + job list) \<times> jworld" where
  "List env limit w =
     (let w' = markStaleRunningJobs env w;
          limit' = (if limit \<le> 0 then 50 else limit) in
      (if e_up env SList
       then Inr (map (normalizeJobForResponse env) (take (nat limit') (order_desc j_created (w_jobs w'))))
       else Inl DbFail, w'))"

section \<open>Enqueueing an upload\<close>

definition cloud_job :: "jenv \<Rightarrow> string \<Rightarrow> cloud_payload \<Rightarrow> job" where
  "cloud_job env sid p =
     \<lparr>j_id = e_id env [], j_type = CloudSync, j_status = Pending, j_title = ''Sync to Google Drive'',
      j_storage = sid, j_rtype = ''file'', j_resource = cp_target p, j_progress = 0,
      j_message = ''Waiting to sync'', j_error = [], j_payload = CloudP p, j_result = [],
      j_created = e_now env, j_updated = Some (e_now env), j_started = None, j_finished = None\<rparr>"

definition EnqueueCloudSync :: "jenv \<Rightarrow> string \<Rightarrow> cloud_payload \<Rightarrow> jworld \<Rightarrow> db_err + job \<times> jworld" where
  "EnqueueCloudSync env sid p w =
     (case insert_row (e_up env SInsert) (\<lambda>a b. j_id a = j_id b) (cloud_job env sid p) (w_jobs w) of
        Inl e \<Rightarrow> Inl e
      | Inr t \<Rightarrow> Inr (cloud_job env sid p, w\<lparr>w_jobs := t\<rparr>))"

section \<open>The handlers that change a job\<close>

definition jobs_audit :: "string \<Rightarrow> string \<Rightarrow> bool \<Rightarrow> string \<Rightarrow> jworld \<Rightarrow> jworld" where
  "jobs_audit event action ok i w = note_audit (Audit event action ok ''job'' i) w"

definition reread_reply :: "jenv \<Rightarrow> string \<Rightarrow> string \<Rightarrow> string \<Rightarrow> jworld \<Rightarrow> job resp \<times> jworld" where
  \<comment> \<open>The common tail: \<open>Get\<close> the job again, audit the success, reply with it.\<close>
  "reread_reply env i event action w =
     (case Get env i w of
        (Inl _, w') \<Rightarrow> (Fail 404 ''JOB_NOT_FOUND'', w')
      | (Inr item, w') \<Rightarrow> (Reply 200 item, jobs_audit event action True (j_id item) w'))"

definition delete_act :: "jenv \<Rightarrow> job \<Rightarrow> jworld \<Rightarrow> string resp \<times> jworld" where
  "delete_act env item w =
     (let w1 = (if j_status item = Running then
                  (case requestRunningJobStop (j_id item) StopDelete w of
                     (True, w') \<Rightarrow> w'
                   | (False, w') \<Rightarrow> cleanupJobPayload env item w')
                else cleanupJobPayload env item w) in
      case deleteJob env (j_id item) w1 of
        Inl _ \<Rightarrow> (Fail 500 ''JOB_DELETE_FAILED'', jobs_audit ''job_delete_failed'' ''delete'' False (j_id item) w1)
      | Inr w2 \<Rightarrow> (Reply 200 (j_id item), jobs_audit ''job_deleted'' ''delete'' True (j_id item) w2))"

definition pause_now :: "jenv \<Rightarrow> job \<Rightarrow> jworld \<Rightarrow> job resp \<times> jworld" where
  "pause_now env item w =
     (case updatePaused env (j_id item) (pausedStatusMessage (j_type item)) w of
        Inl _ \<Rightarrow> (Fail 500 ''JOB_PAUSE_FAILED'', jobs_audit ''job_pause_failed'' ''pause'' False (j_id item) w)
      | Inr w2 \<Rightarrow> reread_reply env (j_id item) ''job_paused'' ''pause'' w2)"

definition pause_act :: "jenv \<Rightarrow> job \<Rightarrow> jworld \<Rightarrow> job resp \<times> jworld" where
  "pause_act env item w =
     (if j_status item = Pending then pause_now env item w
      else if j_status item = Running
        then pause_now env item (snd (requestRunningJobStop (j_id item) StopPause w))
      else if j_status item = Paused then reread_reply env (j_id item) ''job_paused'' ''pause'' w
      else (Fail 409 ''JOB_NOT_PAUSABLE'', w))"

definition resume_act :: "jenv \<Rightarrow> job \<Rightarrow> jworld \<Rightarrow> job resp \<times> jworld" where
  "resume_act env item w =
     (if j_status item \<noteq> Paused then (Fail 409 ''JOB_NOT_RESUMABLE'', w)
      else if \<not> ensureJobLocalCacheAvailable env item w then (Fail 409 ''JOB_CACHE_MISSING'', w)
      else (case updateResume env (j_id item) (j_type item) w of
              Inl _ \<Rightarrow> (Fail 500 ''JOB_RESUME_FAILED'', jobs_audit ''job_resume_failed'' ''resume'' False (j_id item) w)
            | Inr w2 \<Rightarrow> reread_reply env (j_id item) ''job_resumed'' ''resume'' w2))"

definition cancel_now :: "jenv \<Rightarrow> job \<Rightarrow> jworld \<Rightarrow> job resp \<times> jworld" where
  "cancel_now env item w =
     (let w1 = cleanupJobPayload env item w in
      case updateCancelled env (j_id item) ''Job cancelled'' w1 of
        Inl _ \<Rightarrow> (Fail 500 ''JOB_CANCEL_FAILED'', jobs_audit ''job_cancel_failed'' ''cancel'' False (j_id item) w1)
      | Inr w2 \<Rightarrow> reread_reply env (j_id item) ''job_cancelled'' ''cancel'' w2)"

definition cancel_act :: "jenv \<Rightarrow> job \<Rightarrow> jworld \<Rightarrow> job resp \<times> jworld" where
  "cancel_act env item w =
     (if j_status item = Pending \<or> j_status item = Paused then cancel_now env item w
      else if j_status item = Running
        then cancel_now env item (snd (requestRunningJobStop (j_id item) StopCancel w))
      else if j_status item = Cancelled then reread_reply env (j_id item) ''job_cancelled'' ''cancel'' w
      else (Fail 409 ''JOB_NOT_CANCELLABLE'', w))"

definition with_job :: "jenv \<Rightarrow> string \<Rightarrow> (job \<Rightarrow> jworld \<Rightarrow> 'a resp \<times> jworld) \<Rightarrow> jworld \<Rightarrow> 'a resp \<times> jworld" where
  "with_job env i act w =
     (case getRaw (e_up env SRead) (trim i) w of
        Inl _ \<Rightarrow> (Fail 404 ''JOB_NOT_FOUND'', w)
      | Inr item \<Rightarrow> act item w)"

definition HandleGet :: "jenv \<Rightarrow> string \<Rightarrow> jworld \<Rightarrow> job resp \<times> jworld" where
  "HandleGet env i w =
     (case Get env i w of
        (Inl _, w') \<Rightarrow> (Fail 404 ''JOB_NOT_FOUND'', w')
      | (Inr item, w') \<Rightarrow> (Reply 200 item, w'))"

definition HandleDelete :: "jenv \<Rightarrow> string \<Rightarrow> jworld \<Rightarrow> string resp \<times> jworld" where
  "HandleDelete env i w = with_job env i (delete_act env) w"

definition HandlePause :: "jenv \<Rightarrow> string \<Rightarrow> jworld \<Rightarrow> job resp \<times> jworld" where
  "HandlePause env i w = with_job env i (pause_act env) w"

definition HandleResume :: "jenv \<Rightarrow> string \<Rightarrow> jworld \<Rightarrow> job resp \<times> jworld" where
  "HandleResume env i w = with_job env i (resume_act env) w"

definition HandleCancel :: "jenv \<Rightarrow> string \<Rightarrow> jworld \<Rightarrow> job resp \<times> jworld" where
  "HandleCancel env i w = with_job env i (cancel_act env) w"

section \<open>The worker\<close>

definition oldest_pending :: "jworld \<Rightarrow> job option" where
  "oldest_pending w =
     (case sort_key j_created (filter (\<lambda>j. j_status j = Pending) (w_jobs w)) of
        [] \<Rightarrow> None
      | j # _ \<Rightarrow> Some j)"

definition claimed :: "jenv \<Rightarrow> job \<Rightarrow> job \<Rightarrow> job" where
  "claimed env item j =
     j\<lparr>j_status := Running, j_progress := 5, j_message := runningMessageForType (j_type item),
       j_started := Some (e_now env), j_updated := Some (e_now env)\<rparr>"

definition claimNextPendingJob :: "jenv \<Rightarrow> jworld \<Rightarrow> job option \<times> jworld" where
  "claimNextPendingJob env w =
     (case (if e_up env SClaimRead then oldest_pending w else None) of
        None \<Rightarrow> (None, w)
      | Some item \<Rightarrow>
          if \<not> e_up env SClaim then (None, w)
          else
            (let hit = (\<lambda>j. j_id j = j_id item \<and> j_status j = Pending) in
             if tbl_rows hit (w_jobs w) = 0 then (None, w)
             else (Some (claimed env item item), w\<lparr>w_jobs := tbl_upd hit (claimed env item) (w_jobs w)\<rparr>)))"

definition resolveCloudSyncStorage :: "jenv \<Rightarrow> string \<Rightarrow> jworld \<Rightarrow> storage option" where
  "resolveCloudSyncStorage env sid w =
     (let i = trim sid in
      if i = [] then None
      else (case storage_Get (e_up env SStorage) i (w_storages w) of
              Inr s \<Rightarrow> Some s
            | Inl _ \<Rightarrow>
                (case pool_Get (e_up env SPoolGet) i (w_pools w) of
                   Inl _ \<Rightarrow> None
                 | Inr p \<Rightarrow>
                     if trim (sp_storage p) = [] then None
                     else (case storage_Get (e_up env SPoolStorage) (trim (sp_storage p)) (w_storages w) of
                             Inl _ \<Rightarrow> None
                           | Inr s \<Rightarrow> Some s))))"

text \<open>The outcome of the upload or of the snapshot command; \<open>Interrupted\<close> is \<open>context.Canceled\<close>.\<close>

datatype outcome = Completed | Interrupted | Broken

definition cloud_fail :: "jenv \<Rightarrow> string \<Rightarrow> string \<Rightarrow> jworld \<Rightarrow> jworld" where
  "cloud_fail env i message w = ign w (updateFailure env i message (failureStatusMessage CloudSync) w)"

definition runCloudSync_begin :: "jenv \<Rightarrow> job \<Rightarrow> jworld \<Rightarrow> cloud_payload option \<times> jworld" where
  "runCloudSync_begin env item w =
     (case decode_cloud (j_payload item) of
        None \<Rightarrow> (None, cloud_fail env (j_id item) (''Failed to decode sync job payload: '' @ e_err env) w)
      | Some p \<Rightarrow>
          (case resolveCloudSyncStorage env (j_storage item) w of
             None \<Rightarrow> (None, cleanupCloudSyncLocalPayload env p
                              (cloud_fail env (j_id item) ''Cloud storage not found'' w))
           | Some s \<Rightarrow>
               if \<not> (Clean (cp_local p) \<in> set (w_files w) \<and> cp_local p \<noteq> [] \<and> e_open env (Clean (cp_local p)))
               then (None, cleanupCloudSyncLocalPayload env p
                             (cloud_fail env (j_id item) (''Failed to open local cache file: '' @ e_err env) w))
               else (Some p, registerRunningJob (j_id item)
                               (ign w (updateProgress env (j_id item) 25 ''Uploading to Google Drive'' w)))))"

definition runCloudSync_end :: "jenv \<Rightarrow> job \<Rightarrow> cloud_payload \<Rightarrow> outcome \<Rightarrow> jworld \<Rightarrow> jworld" where
  "runCloudSync_end env item p out w =
     (let i = j_id item;
          (reason, w1) = unregisterRunningJob i w;
          clean = cleanupCloudSyncLocalPayload env p;
          st = currentJobStatus env i w1 in
      case out of
        Interrupted \<Rightarrow>
          (case reason of
             Some StopPause \<Rightarrow> ign w1 (updatePaused env i (pausedStatusMessage CloudSync) w1)
           | Some StopCancel \<Rightarrow> ign (clean w1) (updateCancelled env i ''Job cancelled'' (clean w1))
           | Some StopDelete \<Rightarrow> ign (clean w1) (deleteJob env i (clean w1))
           | None \<Rightarrow> cloud_fail env i ''Sync job was interrupted'' w1)
      | Broken \<Rightarrow>
          if st = Some Paused then w1
          else if st = Some Cancelled then clean w1
          else clean (cloud_fail env i (''Failed to upload to Google Drive: '' @ e_err env) w1)
      | Completed \<Rightarrow>
          if st \<noteq> Some Running then (if st = Some Cancelled then clean w1 else w1)
          else (let w2 = clean w1 in
                ign w2 (updateSuccess env i
                  [(''targetPath'', cp_target p), (''fileName'', cp_file p)] (successStatusMessage CloudSync) w2)))"

section \<open>Automatic snapshots\<close>

definition hasPendingOrRunningAutoSnapshotJob :: "bool \<Rightarrow> string \<Rightarrow> jworld \<Rightarrow> db_err + bool" where
  "hasPendingOrRunningAutoSnapshotJob up pid w =
     (if \<not> up then Inl DbFail
      else Inr (tbl_rows (\<lambda>j. j_type j = AutoSnapshot \<and> j_resource j = pid \<and>
                              (j_status j = Pending \<or> j_status j = Running)) (w_jobs w) > 0))"

definition snapshot_job :: "jenv \<Rightarrow> pool \<Rightarrow> job" where
  "snapshot_job env p =
     \<lparr>j_id = e_id env (sp_id p), j_type = AutoSnapshot, j_status = Pending, j_title = ''Automatic snapshot'',
      j_storage = sp_id p, j_rtype = ''storage_pool'', j_resource = sp_id p, j_progress = 0,
      j_message = ''Waiting to create automatic snapshot'', j_error = [],
      j_payload = SnapP \<lparr>ap_pool = sp_id p, ap_schedule = sp_schedule p\<rparr>, j_result = [],
      j_created = e_now env, j_updated = Some (e_now env), j_started = None, j_finished = None\<rparr>"

definition enqueueAutoSnapshotJob :: "jenv \<Rightarrow> pool \<Rightarrow> jworld \<Rightarrow> db_err + jworld" where
  "enqueueAutoSnapshotJob env p w =
     (case insert_row (e_up env (SEnqueue (sp_id p))) (\<lambda>a b. j_id a = j_id b) (snapshot_job env p) (w_jobs w) of
        Inl e \<Rightarrow> Inl e
      | Inr t \<Rightarrow> Inr (note_audit (Audit ''auto_snapshot_scheduled'' ''schedule'' True ''storage_pool'' (sp_id p))
                       (w\<lparr>w_jobs := t\<rparr>)))"

definition due_pool :: "jenv \<Rightarrow> pool \<Rightarrow> bool" where
  "due_pool env p \<longleftrightarrow> sp_auto p \<and> trim (sp_schedule p) \<noteq> [] \<and>
     (case sp_next p of None \<Rightarrow> False | Some t \<Rightarrow> \<not> t > e_now env)"

text \<open>The body of the loop over the pools; \<open>None\<close> stands for a loop that does not end.\<close>

definition enqueue_one :: "jenv \<Rightarrow> pool \<Rightarrow> jworld \<Rightarrow> jworld option" where
  "enqueue_one env p w =
     (if \<not> due_pool env p then Some w
      else (case hasPendingOrRunningAutoSnapshotJob (e_up env (SDue (sp_id p))) (sp_id p) w of
              Inl _ \<Rightarrow> Some w
            | Inr True \<Rightarrow> Some w
            | Inr False \<Rightarrow>
                (case nextAutoSnapshotAfter (e_zone env) (sp_next p) (sp_schedule p) (e_now env) of
                   None \<Rightarrow> None
                 | Some nxt \<Rightarrow>
                     (case UpdateAutoSnapshotQueued (e_up env (SQueued (sp_id p))) (e_now env) (sp_id p) nxt (w_pools w) of
                        Inl _ \<Rightarrow> Some w
                      | Inr ps \<Rightarrow> let w1 = w\<lparr>w_pools := ps\<rparr> in Some (ign w1 (enqueueAutoSnapshotJob env p w1))))))"

fun enqueue_all :: "jenv \<Rightarrow> pool list \<Rightarrow> jworld \<Rightarrow> jworld option" where
  "enqueue_all env [] w = Some w"
| "enqueue_all env (p # ps) w =
     (case enqueue_one env p w of None \<Rightarrow> None | Some w' \<Rightarrow> enqueue_all env ps w')"

definition enqueueDueAutoSnapshotJobs :: "jenv \<Rightarrow> jworld \<Rightarrow> jworld option" where
  "enqueueDueAutoSnapshotJobs env w =
     (case pool_List (e_up env SPools) (w_pools w) of
        Inl _ \<Rightarrow> Some w
      | Inr ps \<Rightarrow> enqueue_all env ps w)"

definition snap_fail :: "jenv \<Rightarrow> string \<Rightarrow> string \<Rightarrow> jworld \<Rightarrow> jworld" where
  "snap_fail env i message w = ign w (updateFailure env i message (failureStatusMessage AutoSnapshot) w)"

definition snap_audit :: "string \<Rightarrow> string \<Rightarrow> jworld \<Rightarrow> jworld" where
  "snap_audit rtype rid w = note_audit (Audit ''auto_snapshot_failed'' ''run'' False rtype (trim rid)) w"

definition runAutoSnapshot_begin :: "jenv \<Rightarrow> job \<Rightarrow> jworld \<Rightarrow> (pool \<times> snap_payload) option \<times> jworld" where
  "runAutoSnapshot_begin env item w =
     (case decode_snap (j_payload item) of
        None \<Rightarrow> (None, snap_fail env (j_id item) (''Failed to decode auto snapshot payload: '' @ e_err env)
                        (snap_audit ''job'' (j_id item) w))
      | Some p \<Rightarrow>
          (case pool_Get (e_up env SPoolGet) (trim (ap_pool p)) (w_pools w) of
             Inl _ \<Rightarrow> (None, snap_fail env (j_id item) ''Storage pool not found''
                             (snap_audit ''storage_pool'' (ap_pool p) w))
           | Inr pool \<Rightarrow>
               if \<not> sp_auto pool \<or> trim (sp_schedule pool) = []
               then (None, snap_fail env (j_id item) ''Automatic snapshot is disabled for this storage pool''
                             (snap_audit ''storage_pool'' (sp_id pool) w))
               else (Some (pool, p), registerRunningJob (j_id item)
                       (ign w (updateProgress env (j_id item) 25 ''Creating automatic snapshot'' w)))))"

text \<open>\<open>sid\<close>, \<open>sname\<close> and \<open>spath\<close> describe the snapshot \<open>CreateSnapshot\<close> returned.\<close>

definition runAutoSnapshot_end ::
  "jenv \<Rightarrow> job \<Rightarrow> pool \<Rightarrow> outcome \<Rightarrow> string \<Rightarrow> string \<Rightarrow> string \<Rightarrow> jworld \<Rightarrow> jworld" where
  "runAutoSnapshot_end env item pool out sid sname spath w =
     (let i = j_id item;
          (reason, w1) = unregisterRunningJob i w in
      case out of
        Interrupted \<Rightarrow>
          (case reason of
             Some StopPause \<Rightarrow> ign w1 (updatePaused env i (pausedStatusMessage AutoSnapshot) w1)
           | Some StopCancel \<Rightarrow> ign w1 (updateCancelled env i ''Job cancelled'' w1)
           | Some StopDelete \<Rightarrow> ign w1 (deleteJob env i w1)
           | None \<Rightarrow> snap_fail env i ''Automatic snapshot was interrupted'' w1)
      | Broken \<Rightarrow> snap_fail env i (''Failed to create automatic snapshot: '' @ e_err env)
                   (snap_audit ''storage_pool'' (sp_id pool) w1)
      | Completed \<Rightarrow>
          if currentJobStatus env i w1 \<noteq> Some Running then w1
          else
            (let nxt = NextAutoSnapshotTime (e_zone env) (e_now env) (sp_schedule pool) in
             case UpdateAutoSnapshotSuccess (e_up env SSchedule) (e_now env) (sp_id pool) (e_now env) nxt (w_pools w1) of
               Inl _ \<Rightarrow> snap_fail env i
                          (''Snapshot created but failed to update auto snapshot schedule: '' @ e_err env)
                          (snap_audit ''storage_pool'' (sp_id pool) w1)
             | Inr ps \<Rightarrow>
                 (let w2 = note_audit (Audit ''auto_snapshot_completed'' ''run'' True ''storage_pool'' (sp_id pool))
                             (w1\<lparr>w_pools := ps\<rparr>) in
                  ign w2 (updateSuccess env i
                    [(''poolId'', sp_id pool), (''schedule'', sp_schedule pool), (''snapshotId'', sid),
                     (''name'', sname), (''path'', spath)] (successStatusMessage AutoSnapshot) w2))))"

text \<open>What the worker holds while a job runs.\<close>

datatype running = Uploading job cloud_payload | Snapshotting job pool

definition begin_job :: "jenv \<Rightarrow> job \<Rightarrow> jworld \<Rightarrow> running option \<times> jworld" where
  \<comment> \<open>The switch of \<open>processOnePendingJob\<close>, up to the long-running call.\<close>
  "begin_job env item w =
     (case j_type item of
        CloudSync \<Rightarrow> (case runCloudSync_begin env item w of
                        (None, w') \<Rightarrow> (None, w') | (Some p, w') \<Rightarrow> (Some (Uploading item p), w'))
      | AutoSnapshot \<Rightarrow> (case runAutoSnapshot_begin env item w of
                        (None, w') \<Rightarrow> (None, w') | (Some (pool, p), w') \<Rightarrow> (Some (Snapshotting item pool), w'))
      | OtherType _ \<Rightarrow> (None, ign w (updateFailure env (j_id item) ''Unsupported job type'' ''Job failed'' w)))"

fun end_job :: "jenv \<Rightarrow> running \<Rightarrow> outcome \<Rightarrow> string \<times> string \<times> string \<Rightarrow> jworld \<Rightarrow> jworld" where
  "end_job env (Uploading item p) out _ w = runCloudSync_end env item p out w"
| "end_job env (Snapshotting item pool) out (sid, sname, spath) w =
     runAutoSnapshot_end env item pool out sid sname spath w"

definition processOnePendingJob :: "jenv \<Rightarrow> jenv \<Rightarrow> outcome \<Rightarrow> string \<times> string \<times> string \<Rightarrow> jworld \<Rightarrow> jworld" where
  \<comment> \<open>One iteration with nothing in between; \<open>env'\<close> is the environment once the call returns.\<close>
  "processOnePendingJob env env' out snap w =
     (case claimNextPendingJob env w of
        (None, w') \<Rightarrow> w'
      | (Some item, w') \<Rightarrow>
          (case begin_job env item w' of
             (None, w'') \<Rightarrow> w''
           | (Some r, w'') \<Rightarrow> end_job env' r out snap w''))"

definition worker_tick :: "jenv \<Rightarrow> jenv \<Rightarrow> outcome \<Rightarrow> string \<times> string \<times> string \<Rightarrow> jworld \<Rightarrow> jworld option" where
  \<comment> \<open>The body of the loop of \<open>StartWorker\<close>.\<close>
  "worker_tick env env' out snap w =
     map_option (processOnePendingJob env env' out snap)
       (enqueueDueAutoSnapshotJobs env (markStaleRunningJobs env w))"

end
