(* ===== verification/Go_Int.thy ===== *)
theory Go_Int
  imports "HOL-Library.Word"
begin

text \<open>Go's 64-bit integers as HOL integers: \<open>int64\<close> is what a result wraps to.\<close>

definition int64 :: "int \<Rightarrow> int" where
  "int64 i = sint (word_of_int i :: 64 word)"

lemma int64_id: "- (2 ^ 63) \<le> i \<Longrightarrow> i < 2 ^ 63 \<Longrightarrow> int64 i = i"
  unfolding int64_def by (simp add: signed_of_int signed_take_bit_int_eq_self)

end
