(* ===== verification/Jobs_List.thy ===== *)
theory Jobs_List
  imports Jobs Go_Int
begin

text \<open>
  The listings of internal/jobs/jobs.go: \<open>ListJobs\<close> with its filter, pages and counts, the items
  it builds, \<open>ListScheduledTasks\<close>, and the parsing of the query parameters.  Page arithmetic is
  that of Go's 64-bit \<open>int\<close> (\<open>int64\<close> wraps it); SQLite reads a negative \<open>OFFSET\<close> as 0.
\<close>

section \<open>The search pattern\<close>

definition cont_byte :: "char \<Rightarrow> bool" where
  "cont_byte c \<longleftrightarrow> 128 \<le> (of_char c :: nat) \<and> (of_char c :: nat) < 192"

text \<open>SQLite's \<open>LIKE\<close>: \<open>%\<close> any text, \<open>_\<close> one UTF-8 character, the rest byte by byte without ASCII case.\<close>

definition skip_char :: "char \<Rightarrow> string \<Rightarrow> string" where
  "skip_char c s = (if (of_char c :: nat) \<ge> 192 then dropWhile cont_byte s else s)"

lemma length_skip_char: "length (skip_char c s) \<le> length s"
  by (simp add: skip_char_def length_dropWhile_le)

function like :: "string \<Rightarrow> string \<Rightarrow> bool" where
  "like [] s = (s = [])"
| "like (p # ps) [] = (p = CHR ''%'' \<and> like ps [])"
| "like (p # ps) (c # s) =
     (if p = CHR ''%'' then like ps (c # s) \<or> like (p # ps) s
      else if p = CHR ''_'' then like ps (skip_char c s)
      else lower_char p = lower_char c \<and> like ps s)"
  by pat_completeness auto
termination
proof (relation "measure (\<lambda>(p, s). length p + length s)")
  fix p ps c s
  show "((ps, skip_char c s), p # ps, c # s) \<in> measure (\<lambda>(p, s). length p + length (s :: string))"
    using length_skip_char [of c s] by simp
qed auto

section \<open>Query parameters\<close>

definition normalizeListStatus :: "string \<Rightarrow> status option" where
  "normalizeListStatus value =
     (let v = to_lower (trim value) in
      find (\<lambda>s. status_text s = v) [Pending, Running, Paused, Success, Failed, Cancelled])"

definition digits_value :: "string \<Rightarrow> int" where
  "digits_value ds = fold (\<lambda>c v. 10 * v + (of_char c - 48)) ds 0"

text \<open>\<open>fmt.Sscanf(raw, "%d", ...)\<close> reads a sign and the longest run of digits and ignores the rest.\<close>

definition parsePositiveInt :: "string \<Rightarrow> int \<Rightarrow> int" where
  "parsePositiveInt raw fallback =
     (if raw = [] then fallback
      else
        (let neg = (hd raw = CHR ''-'');
             rest = (if hd raw = CHR ''-'' \<or> hd raw = CHR ''+'' then tl raw else raw);
             ds = takeWhile is_digit rest;
             value = (if neg then - digits_value ds else digits_value ds) in
         if ds = [] \<or> int64 value \<noteq> value \<or> value \<le> 0 then fallback else value))"

definition parsePositiveIntQuery :: "string \<Rightarrow> int \<Rightarrow> int" where
  "parsePositiveIntQuery raw fallback = parsePositiveInt (trim raw) fallback"

section \<open>List items and counts\<close>

record list_item =
  li_job :: job
  li_pool_name :: string
  li_schedule :: string

definition name_map_step :: "pool \<Rightarrow> (string \<rightharpoonup> string) \<Rightarrow> (string \<rightharpoonup> string)" where
  "name_map_step p m =
     (let m1 = m(sp_id p \<mapsto> sp_name p) in
      if trim (sp_storage p) \<noteq> [] then m1(sp_storage p \<mapsto> sp_name p) else m1)"

definition loadStoragePoolNameMap :: "bool \<Rightarrow> pool list \<Rightarrow> db_err + (string \<rightharpoonup> string)" where
  "loadStoragePoolNameMap up t =
     (case pool_List up t of
        Inl e \<Rightarrow> Inl e
      | Inr pools \<Rightarrow> Inr (fold name_map_step pools Map.empty))"

definition look_name :: "(string \<rightharpoonup> string) \<Rightarrow> string \<Rightarrow> string" where
  "look_name m k = (case m (trim k) of None \<Rightarrow> [] | Some n \<Rightarrow> trim n)"

definition resolveJobStoragePoolName :: "(string \<rightharpoonup> string) \<Rightarrow> job \<Rightarrow> string" where
  "resolveJobStoragePoolName m j =
     (if look_name m (j_storage j) \<noteq> [] then look_name m (j_storage j) else look_name m (j_resource j))"

definition list_item_of :: "jenv \<Rightarrow> (string \<rightharpoonup> string) \<Rightarrow> job \<Rightarrow> list_item" where
  "list_item_of env m row =
     (let j = normalizeJobForResponse env row;
          (j1, sched) =
            (if j_type j = AutoSnapshot then
               (case decode_snap (j_payload j) of
                  None \<Rightarrow> (j, [])
                | Some p \<Rightarrow> (if j_storage j = [] then j\<lparr>j_storage := ap_pool p\<rparr> else j, ap_schedule p))
             else (j, []))
      in \<lparr>li_job = j1, li_pool_name = resolveJobStoragePoolName m j1, li_schedule = sched\<rparr>)"

definition buildJobListItems :: "jenv \<Rightarrow> job list \<Rightarrow> jworld \<Rightarrow> db_err + list_item list" where
  "buildJobListItems env rows w =
     (case loadStoragePoolNameMap (e_up env SPools) (w_pools w) of
        Inl e \<Rightarrow> Inl e
      | Inr m \<Rightarrow> Inr (map (list_item_of env m) rows))"

record counts =
  c_all :: nat
  c_pending :: nat
  c_running :: nat
  c_paused :: nat
  c_success :: nat
  c_failed :: nat
  c_cancelled :: nat

definition status_rows :: "status \<Rightarrow> job list \<Rightarrow> nat" where
  "status_rows s t = tbl_rows (\<lambda>j. j_status j = s) t"

definition getJobCounts :: "bool \<Rightarrow> jworld \<Rightarrow> db_err + counts" where
  "getJobCounts up w =
     (if \<not> up then Inl DbFail
      else Inr \<lparr>c_all = length (w_jobs w), c_pending = status_rows Pending (w_jobs w),
                c_running = status_rows Running (w_jobs w), c_paused = status_rows Paused (w_jobs w),
                c_success = status_rows Success (w_jobs w), c_failed = status_rows Failed (w_jobs w),
                c_cancelled = status_rows Cancelled (w_jobs w)\<rparr>)"

section \<open>ListJobs\<close>

record list_query =
  q_page :: int
  q_size :: int
  q_status :: string
  q_search :: string

record list_reply =
  lr_items :: "list_item list"
  lr_page :: int
  lr_size :: int
  lr_total :: int
  lr_pages :: int
  lr_counts :: counts

definition job_matches :: "status option \<Rightarrow> string \<Rightarrow> job \<Rightarrow> bool" where
  "job_matches st search j \<longleftrightarrow>
     (case st of None \<Rightarrow> True | Some s \<Rightarrow> j_status j = s) \<and>
     (search = [] \<or>
      (let pat = ''%'' @ search @ ''%'' in
       like pat (j_title j) \<or> like pat (j_message j) \<or> like pat (j_error j) \<or>
       like pat (status_text (j_status j)) \<or> like pat (type_text (j_type j))))"

definition list_page :: "int \<Rightarrow> int" where "list_page p = (if p \<le> 0 then 1 else p)"

definition list_size :: "int \<Rightarrow> int" where
  "list_size s = (let s1 = (if s \<le> 0 then 20 else s) in if s1 > 100 then 100 else s1)"

definition ListJobs :: "jenv \<Rightarrow> list_query \<Rightarrow> jworld \<Rightarrow> (db_err + list_reply) \<times> jworld" where
  "ListJobs env q w0 =
     (let w = markStaleRunningJobs env w0;
          page = list_page (q_page q);
          pageSize = list_size (q_size q);
          rows = filter (job_matches (normalizeListStatus (q_status q)) (trim (q_search q))) (w_jobs w);
          tot = int (length rows);
          offset = int64 (int64 (page - 1) * pageSize) in
      (if \<not> e_up env SRead then Inl DbFail
       else if \<not> e_up env SList then Inl DbFail
       else
         (case buildJobListItems env (take (nat pageSize) (drop (nat offset) (order_desc j_created rows))) w of
            Inl e \<Rightarrow> Inl e
          | Inr items \<Rightarrow>
              (case getJobCounts (e_up env SCounts) w of
                 Inl e \<Rightarrow> Inl e
               | Inr cs \<Rightarrow>
                   Inr \<lparr>lr_items = items, lr_page = page, lr_size = pageSize, lr_total = tot,
                        lr_pages = (if tot > 0 then int64 (tot + pageSize - 1) div pageSize else 0),
                        lr_counts = cs\<rparr>)), w))"

definition jobs_HandleList ::
  "jenv \<Rightarrow> string \<Rightarrow> string \<Rightarrow> string \<Rightarrow> string \<Rightarrow> string \<Rightarrow> jworld \<Rightarrow> list_reply resp \<times> jworld" where
  "jobs_HandleList env page pageSize limit status q w =
     (let size0 = parsePositiveIntQuery pageSize 20;
          size1 = (if trim limit \<noteq> [] then parsePositiveInt (trim limit) size0 else size0) in
      case ListJobs env \<lparr>q_page = parsePositiveIntQuery page 1, q_size = size1, q_status = status, q_search = q\<rparr> w of
        (Inl _, w') \<Rightarrow> (Fail 500 ''JOBS_LIST_FAILED'', w')
      | (Inr r, w') \<Rightarrow> (Reply 200 r, w'))"

section \<open>Scheduled tasks\<close>

record scheduled =
  sc_id :: string
  sc_schedule :: string
  sc_next :: "int option"
  sc_last :: "int option"
  sc_pool :: string
  sc_pool_name :: string

definition formatOptionalTime :: "int option \<Rightarrow> int option" where
  "formatOptionalTime t = (if t = Some zero_time then None else t)"

definition scheduled_of :: "pool \<Rightarrow> scheduled" where
  "scheduled_of p =
     \<lparr>sc_id = ''auto_snapshot:'' @ sp_id p, sc_schedule = sp_schedule p,
      sc_next = formatOptionalTime (sp_next p), sc_last = formatOptionalTime (sp_last p),
      sc_pool = sp_id p, sc_pool_name = sp_name p\<rparr>"

definition ListScheduledTasks :: "jenv \<Rightarrow> jworld \<Rightarrow> db_err + scheduled list" where
  "ListScheduledTasks env w =
     (case pool_List (e_up env SPools) (w_pools w) of
        Inl e \<Rightarrow> Inl e
      | Inr pools \<Rightarrow> Inr (map scheduled_of (filter (\<lambda>p. sp_auto p \<and> trim (sp_schedule p) \<noteq> []) pools)))"

definition HandleScheduledList :: "jenv \<Rightarrow> jworld \<Rightarrow> scheduled list resp" where
  "HandleScheduledList env w =
     (case ListScheduledTasks env w of
        Inl _ \<Rightarrow> Fail 500 ''JOBS_SCHEDULED_LIST_FAILED''
      | Inr items \<Rightarrow> Reply 200 items)"

section \<open>Pages and counts\<close>

lemma list_size_range: "1 \<le> list_size s" "list_size s \<le> 100"
  by (simp_all add: list_size_def Let_def)

lemma status_rows_sum:
  "length t = status_rows Pending t + status_rows Running t + status_rows Paused t +
    status_rows Success t + status_rows Failed t + status_rows Cancelled t"
  by (induction t) (auto simp: status_rows_def tbl_rows_def intro: status.exhaust)

lemma concat_pages:
  "0 < k \<Longrightarrow> length xs \<le> n * k \<Longrightarrow> concat (map (\<lambda>i. take k (drop (i * k) xs)) [0..<n]) = xs"
proof (induction n arbitrary: xs)
  case (Suc n)
  have "concat (map (\<lambda>i. take k (drop (i * k) xs)) [0..<Suc n]) =
      take k xs @ concat (map (\<lambda>i. take k (drop (i * k) (drop k xs))) [0..<n])"
    by (simp add: upt_conv_Cons map_Suc_upt [symmetric] comp_def add.commute del: upt_Suc)
  also have "concat (map (\<lambda>i. take k (drop (i * k) (drop k xs))) [0..<n]) = drop k xs"
    using Suc.prems by (intro Suc.IH) simp_all
  finally show ?case by simp
qed simp

end
