(* ===== verification/Jobs_Machine.thy ===== *)
theory Jobs_Machine
  imports Jobs_List
begin

text \<open>
  The job queue as a state machine.  A state is the tables, the running job the worker holds and
  the requests that have read their job but not acted yet; a labelled step is one of the
  operations of theory Jobs.  The lemmas show what each statement does to one job, which status
  changes each label allows, and what holds in every reachable state.
\<close>

section \<open>What an operation does to one job\<close>

abbreviation job_at :: "jworld \<Rightarrow> string \<Rightarrow> job option" where
  "job_at w i \<equiv> tbl_get j_id i (w_jobs w)"

definition same_job :: "job \<Rightarrow> job \<Rightarrow> bool" where
  "same_job j j' \<longleftrightarrow> j_id j' = j_id j \<and> j_type j' = j_type j \<and> j_payload j' = j_payload j \<and>
     j_created j' = j_created j \<and> j_title j' = j_title j \<and> j_storage j' = j_storage j \<and>
     j_resource j' = j_resource j"

definition advance :: "(status \<times> status) set \<Rightarrow> jworld \<Rightarrow> jworld \<Rightarrow> bool" where
  "advance E w w' \<longleftrightarrow> (\<forall>i j'. job_at w' i = Some j' \<longrightarrow>
     (\<exists>j. job_at w i = Some j \<and> same_job j j' \<and> (j_status j, j_status j') \<in> E\<^sup>=))"

lemma same_job_refl [simp]: "same_job j j"
  by (simp add: same_job_def)

lemma same_job_trans: "same_job a b \<Longrightarrow> same_job b c \<Longrightarrow> same_job a c"
  by (simp add: same_job_def)

lemma advance_refl: "advance E w w"
  by (simp add: advance_def)

lemma advance_jobs: "w_jobs w' = w_jobs w \<Longrightarrow> advance E w w'"
  by (simp add: advance_def)

lemma advance_mono: "advance E w w' \<Longrightarrow> E \<subseteq> F \<Longrightarrow> advance F w w'"
  unfolding advance_def by blast

lemma advance_trans:
  assumes "advance E u v" "advance F v w" "E\<^sup>= O F\<^sup>= \<subseteq> G\<^sup>="
  shows "advance G u w"
  unfolding advance_def
proof (intro allI impI)
  fix i j3 assume "job_at w i = Some j3"
  with assms(2) obtain j2 where j2: "job_at v i = Some j2" "same_job j2 j3" "(j_status j2, j_status j3) \<in> F\<^sup>="
    unfolding advance_def by blast
  with assms(1) obtain j1 where "job_at u i = Some j1" "same_job j1 j2" "(j_status j1, j_status j2) \<in> E\<^sup>="
    unfolding advance_def by blast
  with j2 assms(3) show "\<exists>j. job_at u i = Some j \<and> same_job j j3 \<and> (j_status j, j_status j3) \<in> G\<^sup>="
    by (blast intro: same_job_trans)
qed

lemma advance_upd:
  assumes "upd_jobs up p f w = Inr w'" "\<And>j. same_job j (f j)"
    "\<And>j. p j \<Longrightarrow> (j_status j, j_status (f j)) \<in> E\<^sup>="
  shows "advance E w w'"
proof -
  have "j_id (f j) = j_id j" for j using assms(2) [of j] by (simp add: same_job_def)
  with assms show ?thesis
    by (auto simp: advance_def upd_jobs_def tbl_get_upd_all split: if_splits)
qed

lemma advance_ign: "(\<And>w'. r = Inr w' \<Longrightarrow> advance E w w') \<Longrightarrow> advance E w (ign w r)"
  by (auto simp: ign_def advance_refl split: sum.split)

lemma advance_del: "w_jobs w' = tbl_del p (w_jobs w) \<Longrightarrow> p = (\<lambda>j. j_id j = i) \<Longrightarrow> advance E w w'"
  by (auto simp: advance_def tbl_get_del split: if_splits)

section \<open>Helpers that leave the table alone\<close>

named_theorems frame_simps \<open>components an operation leaves alone\<close>

lemma jobs_frames [frame_simps]:
  "w_jobs (note_audit a w) = w_jobs w" "w_jobs (jobs_audit ev ac ok i w) = w_jobs w"
  "w_jobs (snap_audit ty i w) = w_jobs w"
  "w_jobs (registerRunningJob i w) = w_jobs w" "w_jobs (snd (unregisterRunningJob i w)) = w_jobs w"
  "w_jobs (snd (requestRunningJobStop i s w)) = w_jobs w" "w_jobs (os_Remove env p w) = w_jobs w"
  by (simp_all add: note_audit_def jobs_audit_def snap_audit_def registerRunningJob_def
      unregisterRunningJob_def requestRunningJobStop_def os_Remove_def Let_def)

lemma cleanup_frames [frame_simps]:
  "w_jobs (cleanupCloudSyncLocalPayload env p w) = w_jobs w"
  "w_jobs (cleanupJobPayload env item w) = w_jobs w"
  by (simp_all add: cleanupCloudSyncLocalPayload_def cleanupJobPayload_def Let_def frame_simps split: option.split)

lemma registry_frames [frame_simps]:
  "w_cancels (os_Remove env p w) = w_cancels w" "w_stops (os_Remove env p w) = w_stops w"
  "w_cancels (note_audit a w) = w_cancels w" "w_stops (note_audit a w) = w_stops w"
  "w_cancels (jobs_audit ev ac ok i w) = w_cancels w" "w_stops (jobs_audit ev ac ok i w) = w_stops w"
  by (simp_all add: note_audit_def jobs_audit_def os_Remove_def Let_def)

lemma registry_cleanup [frame_simps]:
  "w_cancels (cleanupCloudSyncLocalPayload env p w) = w_cancels w"
  "w_stops (cleanupCloudSyncLocalPayload env p w) = w_stops w"
  "w_cancels (cleanupJobPayload env item w) = w_cancels w"
  "w_stops (cleanupJobPayload env item w) = w_stops w"
  by (simp_all add: cleanupCloudSyncLocalPayload_def cleanupJobPayload_def Let_def frame_simps split: option.split)

section \<open>The statements\<close>

abbreviation e_fail :: "(status \<times> status) set" where "e_fail \<equiv> {(Running, Failed)}"
abbreviation e_pause :: "(status \<times> status) set" where "e_pause \<equiv> {(Pending, Paused), (Running, Paused)}"
abbreviation e_cancel :: "(status \<times> status) set" where "e_cancel \<equiv> UNIV \<times> {Cancelled}"

lemma adv_progress: "updateProgress env i k s w = Inr w' \<Longrightarrow> advance {} w w'"
  and adv_heartbeat: "updateHeartbeat env i w = Inr w' \<Longrightarrow> advance {} w w'"
  and adv_paused: "updatePaused env i s w = Inr w' \<Longrightarrow> advance e_pause w w'"
  and adv_resume: "updateResume env i ty w = Inr w' \<Longrightarrow> advance {(Paused, Pending)} w w'"
  and adv_cancelled: "updateCancelled env i s w = Inr w' \<Longrightarrow> advance e_cancel w w'"
  and adv_failure: "updateFailure env i s t w = Inr w' \<Longrightarrow> advance e_fail w w'"
  and adv_success: "updateSuccess env i r t w = Inr w' \<Longrightarrow> advance {(Running, Success)} w w'"
  unfolding updateProgress_def updateHeartbeat_def updatePaused_def updateResume_def updateCancelled_def
    updateFailure_def updateSuccess_def
  by (erule advance_upd; auto simp: same_job_def)+

lemma adv_delete: "deleteJob env i w = Inr w' \<Longrightarrow> advance E w w'"
  by (rule advance_del [where i = "trim i"]) (auto simp: deleteJob_def split: if_splits)

lemma adv_mark_one: "advance e_fail w (mark_one env item w)"
proof -
  let ?hit = "\<lambda>j. j_id j = j_id item \<and> j_status j = Running"
  let ?w = "w\<lparr>w_jobs := tbl_upd ?hit (fail_stale env item) (w_jobs w)\<rparr>"
  have a: "advance e_fail w ?w"
    by (rule advance_upd [where up = True and p = ?hit and f = "fail_stale env item"])
      (auto simp: upd_jobs_def same_job_def fail_stale_def)
  have "mark_one env item w = w \<or> w_jobs (mark_one env item w) = w_jobs ?w"
    unfolding mark_one_def Let_def by (simp add: frame_simps split: option.split)
  with a show ?thesis by (auto simp: advance_refl advance_def)
qed

lemma adv_mark: "advance e_fail w (markStaleRunningJobs env w)"
proof -
  have "advance e_fail w (fold (mark_one env) js w)" for js
  proof (induction js arbitrary: w)
    case (Cons a js)
    have "advance e_fail (mark_one env a w) (fold (mark_one env) js (mark_one env a w))" by (rule Cons.IH)
    from advance_trans [OF adv_mark_one this] show ?case by auto
  qed (simp add: advance_refl)
  then show ?thesis by (simp add: markStaleRunningJobs_def advance_refl)
qed

lemma Get_world [simp]: "snd (Get env i w) = markStaleRunningJobs env w"
  by (simp add: Get_def Let_def)

lemma adv_reread: "advance e_fail w (snd (reread_reply env i ev ac w))"
proof -
  have "w_jobs (snd (reread_reply env i ev ac w)) = w_jobs (markStaleRunningJobs env w)"
    unfolding Get_world [symmetric, of env w i]
    by (cases "Get env i w") (auto simp: reread_reply_def frame_simps split: sum.split)
  with adv_mark [of w env] show ?thesis by (simp add: advance_def)
qed

section \<open>The handlers\<close>

lemma adv_delete_act: "advance {} w (snd (delete_act env item w))"
proof -
  define w1 where "w1 = (if j_status item = Running then
      (case requestRunningJobStop (j_id item) StopDelete w of
         (True, w') \<Rightarrow> w' | (False, w') \<Rightarrow> cleanupJobPayload env item w')
      else cleanupJobPayload env item w)"
  have "w_jobs w1 = w_jobs w"
    by (auto simp: w1_def frame_simps requestRunningJobStop_def)
  moreover have "advance {} w1 (snd (delete_act env item w))"
    unfolding delete_act_def w1_def [symmetric] Let_def
    by (auto split: sum.split simp: advance_jobs frame_simps dest!: adv_delete [where E = "{}"])
      (simp add: advance_def frame_simps)
  ultimately show ?thesis by (simp add: advance_def)
qed

lemma adv_then_reread:
  assumes "w_jobs w1 = w_jobs w" "\<And>w2. r = Inr w2 \<Longrightarrow> advance E w1 w2" "E\<^sup>= O e_fail\<^sup>= \<subseteq> F\<^sup>="
  shows "advance F w (snd (case r of Inl _ \<Rightarrow> (Fail n c, jobs_audit ev ac ok i w1)
    | Inr w2 \<Rightarrow> reread_reply env i ev' ac' w2))"
proof (cases r)
  case (Inl e)
  then show ?thesis by (simp add: advance_jobs frame_simps assms(1))
next
  case (Inr w2)
  from advance_trans [OF assms(2) [OF Inr] adv_reread assms(3)] have
    "advance F w1 (snd (reread_reply env i ev' ac' w2))" .
  then show ?thesis by (simp add: Inr advance_def assms(1))
qed

lemma adv_pause_act: "advance (e_pause \<union> e_fail) w (snd (pause_act env item w))"
proof -
  have r: "advance (insert (Running, Failed) e_pause) w (snd (reread_reply env i ev ac w))" for i ev ac
    by (rule advance_mono [OF adv_reread]) simp
  show ?thesis
    unfolding pause_act_def pause_now_def
    by (auto intro!: adv_then_reread adv_paused r advance_refl simp: frame_simps)
qed

lemma adv_resume_act: "advance ({(Paused, Pending)} \<union> e_fail) w (snd (resume_act env item w))"
  unfolding resume_act_def
  by (auto intro!: adv_then_reread adv_resume advance_refl)

lemma adv_cancel_act: "advance (e_cancel \<union> e_fail) w (snd (cancel_act env item w))"
proof -
  have r: "advance (insert (Running, Failed) e_cancel) w (snd (reread_reply env i ev ac w))" for i ev ac
    by (rule advance_mono [OF adv_reread]) simp
  show ?thesis
    unfolding cancel_act_def cancel_now_def Let_def
    by (auto intro!: adv_then_reread adv_cancelled r advance_refl simp: frame_simps)
qed

section \<open>The worker\<close>

lemma adv_claim: "advance {(Pending, Running)} w (snd (claimNextPendingJob env w))"
  by (auto simp: claimNextPendingJob_def Let_def advance_refl claimed_def same_job_def
      intro!: advance_upd [where up = True] simp: upd_jobs_def split: option.split)

lemma adv_cloud_fail: "advance e_fail w (cloud_fail env i s w)"
  and adv_snap_fail: "advance e_fail w (snap_fail env i s w)"
  unfolding cloud_fail_def snap_fail_def by (rule advance_ign, erule adv_failure)+

lemma advance_cong: "w_jobs w = w_jobs u \<Longrightarrow> w_jobs w' = w_jobs u' \<Longrightarrow> advance E w w' = advance E u u'"
  by (simp add: advance_def)

lemma adv_registered:
  "advance e_fail w (registerRunningJob i (ign w (updateProgress env i k s w)))"
proof -
  have "advance {} w (ign w (updateProgress env i k s w))" by (rule advance_ign, erule adv_progress)
  then have "advance e_fail w (ign w (updateProgress env i k s w))" by (rule advance_mono) simp
  then show ?thesis by (simp add: advance_def frame_simps)
qed

lemma adv_cleaned: "advance E w w' \<Longrightarrow> advance E w (cleanupCloudSyncLocalPayload env p w')"
  by (simp add: advance_def frame_simps)

lemma adv_cloud_begin: "advance e_fail w (snd (runCloudSync_begin env item w))"
  unfolding runCloudSync_begin_def
  by (auto intro!: adv_cloud_fail adv_registered adv_cleaned split: option.split)

lemma adv_from: "w_jobs w1 = w_jobs w \<Longrightarrow> advance E w1 w' \<Longrightarrow> advance E w w'"
  by (simp add: advance_def)

lemma adv_snap_begin: "advance e_fail w (snd (runAutoSnapshot_begin env item w))"
  unfolding runAutoSnapshot_begin_def
  by (auto intro!: adv_registered adv_from [OF _ adv_snap_fail] simp: frame_simps split: option.split sum.split)

lemma adv_begin: "advance e_fail w (snd (begin_job env item w))"
proof (cases "j_type item")
  case CloudSync
  then show ?thesis using adv_cloud_begin [of w env item]
    by (auto simp: begin_job_def split: prod.splits option.split)
next
  case AutoSnapshot
  then show ?thesis using adv_snap_begin [of w env item]
    by (auto simp: begin_job_def split: prod.splits option.split)
next
  case OtherType
  have "advance e_fail w (ign w (updateFailure env (j_id item) ''Unsupported job type'' ''Job failed'' w))"
    by (rule advance_ign, erule adv_failure)
  with OtherType show ?thesis by (simp add: begin_job_def)
qed

definition e_end :: "(status \<times> status) set" where
  "e_end = {(Running, Success), (Running, Failed)} \<union> e_pause \<union> e_cancel"

lemma adv_widen:
  "updatePaused env i s w = Inr w' \<Longrightarrow> advance e_end w w'"
  "updateCancelled env i s w = Inr w' \<Longrightarrow> advance e_end w w'"
  "updateSuccess env i r t w = Inr w' \<Longrightarrow> advance e_end w w'"
  "updateFailure env i s s' w = Inr w' \<Longrightarrow> advance e_end w w'"
  "advance e_end w (cloud_fail env i s w)" "advance e_end w (snap_fail env i s w)"
  by (auto simp: e_end_def intro: advance_mono [OF adv_paused] advance_mono [OF adv_cancelled]
      advance_mono [OF adv_success] advance_mono [OF adv_failure] advance_mono [OF adv_cloud_fail] advance_mono [OF adv_snap_fail])

lemma adv_cloud_end: "advance e_end w (runCloudSync_end env item p out w)"
proof -
  define w1 where "w1 = snd (unregisterRunningJob (j_id item) w)"
  define clean where "clean = cleanupCloudSyncLocalPayload env p"
  have u: "unregisterRunningJob (j_id item) w = (w_stops w (j_id item), w1)"
    by (simp add: w1_def unregisterRunningJob_def)
  have j: "w_jobs w1 = w_jobs w" by (simp add: w1_def frame_simps)
  have c: "w_jobs (clean v) = w_jobs v" for v by (simp add: clean_def frame_simps)
  have t: "advance e_end w1 (ign v r)" if "w_jobs v = w_jobs w1" "\<And>v'. r = Inr v' \<Longrightarrow> advance e_end v v'" for v r
    by (rule adv_from [OF that(1)]) (rule advance_ign, erule that(2))
  have cl: "advance e_end w1 (clean v)" if "advance e_end w1 v" for v
    using that by (simp add: advance_def c)
  have "advance e_end w1 (runCloudSync_end env item p out w)"
    unfolding runCloudSync_end_def Let_def u clean_def [symmetric] prod.case
    by (cases out; auto intro!: t cl simp: c advance_refl adv_widen split: option.split stop.split
        intro: adv_delete)
  then show ?thesis using adv_from [OF j] by blast
qed

lemma adv_snap_end: "advance e_end w (runAutoSnapshot_end env item pool out sid sname spath w)"
proof -
  define w1 where "w1 = snd (unregisterRunningJob (j_id item) w)"
  have u: "unregisterRunningJob (j_id item) w = (w_stops w (j_id item), w1)"
    by (simp add: w1_def unregisterRunningJob_def)
  have j: "w_jobs w1 = w_jobs w" by (simp add: w1_def frame_simps)
  have t: "advance e_end w1 (ign v r)" if "w_jobs v = w_jobs w1" "\<And>v'. r = Inr v' \<Longrightarrow> advance e_end v v'" for v r
    by (rule adv_from [OF that(1)]) (rule advance_ign, erule that(2))
  have f: "advance e_end w1 (snap_fail env i m (snap_audit ty k w1))" for i m ty k
    by (rule adv_from [OF _ adv_widen(6)]) (simp add: frame_simps)
  have "advance e_end w1 (runAutoSnapshot_end env item pool out sid sname spath w)"
    unfolding runAutoSnapshot_end_def Let_def u prod.case
    by (cases out; auto intro!: t f simp: advance_refl adv_widen frame_simps
        split: option.split stop.split sum.split intro: adv_delete)
  then show ?thesis using adv_from [OF j] by blast
qed

lemma adv_end: "advance e_end w (end_job env r out snap w)"
  by (cases "(env, r, out, snap, w)" rule: end_job.cases) (auto simp: adv_cloud_end adv_snap_end)

section \<open>Operations that add jobs\<close>

text \<open>New rows go to the end, are pending and carry one of the environment's fresh identifiers.\<close>

definition grows :: "jenv \<Rightarrow> jworld \<Rightarrow> jworld \<Rightarrow> bool" where
  "grows env w w' \<longleftrightarrow> (\<exists>js. w_jobs w' = w_jobs w @ js \<and>
     (\<forall>j\<in>set js. j_status j = Pending \<and> j_id j \<in> range (e_id env))) \<and>
     (distinct (map j_id (w_jobs w)) \<longrightarrow> distinct (map j_id (w_jobs w')))"

lemma grows_refl: "w_jobs w' = w_jobs w \<Longrightarrow> grows env w w'"
  by (simp add: grows_def)

lemma grows_trans: "grows env u v \<Longrightarrow> grows env v w \<Longrightarrow> grows env u w"
  unfolding grows_def by force

lemma grows_insert:
  assumes "insert_row up (\<lambda>a b. j_id a = j_id b) j (w_jobs w) = Inr t" "w_jobs w' = t"
    "j_status j = Pending" "j_id j = e_id env k"
  shows "grows env w w'"
proof -
  have "w_jobs w' = w_jobs w @ [j]" "\<forall>q\<in>set (w_jobs w). j_id j \<noteq> j_id q"
    using assms(1,2) by (auto simp: insert_row_def split: if_splits)
  with assms(3,4) show ?thesis by (auto simp: grows_def intro!: exI [of _ "[j]"])
qed

lemma grows_EnqueueCloudSync: "EnqueueCloudSync env sid p w = Inr (j, w') \<Longrightarrow> grows env w w'"
  by (auto simp: EnqueueCloudSync_def cloud_job_def split: sum.splits intro!: grows_insert)

lemma grows_snapshot: "enqueueAutoSnapshotJob env p w = Inr w' \<Longrightarrow> grows env w w'"
  by (auto simp: enqueueAutoSnapshotJob_def snapshot_job_def frame_simps split: sum.splits intro!: grows_insert)

lemma grows_ign: "w_jobs v = w_jobs w \<Longrightarrow> (\<And>w'. r = Inr w' \<Longrightarrow> grows env v w') \<Longrightarrow> grows env w (ign v r)"
  by (auto simp: ign_def grows_def split: sum.split)

lemma grows_one: "enqueue_one env p w = Some w' \<Longrightarrow> grows env w w'"
  by (auto simp: enqueue_one_def Let_def grows_refl split: if_splits sum.splits bool.splits option.splits
      intro!: grows_ign dest: grows_snapshot)

lemma grows_all: "enqueue_all env ps w = Some w' \<Longrightarrow> grows env w w'"
  by (induction ps arbitrary: w) (auto simp: grows_refl split: option.splits dest: grows_one intro: grows_trans)

lemma grows_due: "enqueueDueAutoSnapshotJobs env w = Some w' \<Longrightarrow> grows env w w'"
  by (auto simp: enqueueDueAutoSnapshotJobs_def grows_refl split: sum.splits intro: grows_all)

lemma grows_at: "grows env w w' \<Longrightarrow> job_at w i = Some j \<Longrightarrow> job_at w' i = Some j"
  by (auto simp: grows_def tbl_get_append)

lemma grows_new:
  assumes g: "grows env w w'" and j: "job_at w' i = Some j"
  shows "job_at w i = Some j \<or> j_status j = Pending \<and> j_id j \<in> range (e_id env)"
proof -
  from g obtain js where js: "w_jobs w' = w_jobs w @ js"
    "\<forall>j\<in>set js. j_status j = Pending \<and> j_id j \<in> range (e_id env)" unfolding grows_def by blast
  show ?thesis
  proof (cases "job_at w i")
    case None
    with j js(1) have "tbl_get j_id i js = Some j" by (simp add: tbl_get_append)
    then have "j \<in> set js" by (blast dest: tbl_get_Some)
    with js(2) show ?thesis by blast
  next
    case (Some j')
    with j js(1) show ?thesis by (simp add: tbl_get_append)
  qed
qed

section \<open>The machine\<close>

datatype req = RDelete | RPause | RResume | RCancel

datatype worker = Idle | Claimed job | Busy running

record mach =
  m_world :: jworld
  m_worker :: worker
  m_reqs :: "(req \<times> job) list"

datatype label =
    LEnqueue jenv string cloud_payload
  | LRead jenv req string
  | LAct jenv req job
  | LStale jenv
  | LDue jenv
  | LClaim jenv
  | LBegin jenv
  | LEnd jenv outcome "string \<times> string \<times> string"
  | LHeart jenv
  | LOutside "pool list" "storage list" "string list"

fun act :: "jenv \<Rightarrow> req \<Rightarrow> job \<Rightarrow> jworld \<Rightarrow> jworld" where
  "act env RDelete item w = snd (delete_act env item w)"
| "act env RPause item w = snd (pause_act env item w)"
| "act env RResume item w = snd (resume_act env item w)"
| "act env RCancel item w = snd (cancel_act env item w)"

fun held :: "worker \<Rightarrow> job option" where
  "held Idle = None"
| "held (Claimed j) = Some j"
| "held (Busy (Uploading j p)) = Some j"
| "held (Busy (Snapshotting j p)) = Some j"

definition after_begin :: "running option \<Rightarrow> worker" where
  "after_begin r = (case r of None \<Rightarrow> Idle | Some x \<Rightarrow> Busy x)"

inductive step :: "label \<Rightarrow> mach \<Rightarrow> mach \<Rightarrow> bool" where
  enqueue: "EnqueueCloudSync env sid p (m_world m) = Inr (j, w') \<Longrightarrow>
    step (LEnqueue env sid p) m (m\<lparr>m_world := w'\<rparr>)"
| read: "getRaw (e_up env SRead) (trim i) (m_world m) = Inr item \<Longrightarrow>
    step (LRead env k i) m (m\<lparr>m_reqs := (k, item) # m_reqs m\<rparr>)"
| act: "(k, item) \<in> set (m_reqs m) \<Longrightarrow>
    step (LAct env k item) m
      (m\<lparr>m_world := act env k item (m_world m), m_reqs := remove1 (k, item) (m_reqs m)\<rparr>)"
| stale: "step (LStale env) m (m\<lparr>m_world := markStaleRunningJobs env (m_world m)\<rparr>)"
| due: "m_worker m = Idle \<Longrightarrow> enqueueDueAutoSnapshotJobs env (m_world m) = Some w' \<Longrightarrow>
    step (LDue env) m (m\<lparr>m_world := w'\<rparr>)"
| claim: "m_worker m = Idle \<Longrightarrow> claimNextPendingJob env (m_world m) = (Some item, w') \<Longrightarrow>
    step (LClaim env) m (m\<lparr>m_world := w', m_worker := Claimed item\<rparr>)"
| start: "m_worker m = Claimed item \<Longrightarrow> begin_job env item (m_world m) = (r, w') \<Longrightarrow>
    step (LBegin env) m (m\<lparr>m_world := w', m_worker := after_begin r\<rparr>)"
| finish: "m_worker m = Busy r \<Longrightarrow>
    step (LEnd env out snap) m (m\<lparr>m_world := end_job env r out snap (m_world m), m_worker := Idle\<rparr>)"
| heart: "m_worker m = Busy r \<Longrightarrow> held (Busy r) = Some j \<Longrightarrow>
    step (LHeart env) m (m\<lparr>m_world := ign (m_world m) (updateHeartbeat env (j_id j) (m_world m))\<rparr>)"
| outside: "step (LOutside ps ss fs) m
    (m\<lparr>m_world := (m_world m)\<lparr>w_pools := ps, w_storages := ss, w_files := fs\<rparr>\<rparr>)"

inductive_cases step_elims: "step a m m'"

inductive run :: "mach \<Rightarrow> label list \<Rightarrow> mach \<Rightarrow> bool" where
  run_nil: "run m [] m"
| run_snoc: "run m as m' \<Longrightarrow> step a m' m'' \<Longrightarrow> run m (as @ [a]) m''"

text \<open>The status changes each label allows to a job that is there before and after the step.\<close>

fun allowed :: "label \<Rightarrow> (status \<times> status) set" where
  "allowed (LEnqueue _ _ _) = {}"
| "allowed (LRead _ _ _) = {}"
| "allowed (LAct _ RDelete _) = {}"
| "allowed (LAct _ RPause _) = {(Pending, Paused), (Running, Paused), (Running, Failed)}"
| "allowed (LAct _ RResume _) = {(Paused, Pending), (Running, Failed)}"
| "allowed (LAct _ RCancel _) = UNIV \<times> {Cancelled} \<union> {(Running, Failed)}"
| "allowed (LStale _) = {(Running, Failed)}"
| "allowed (LDue _) = {}"
| "allowed (LClaim _) = {(Pending, Running)}"
| "allowed (LBegin _) = {(Running, Failed)}"
| "allowed (LEnd _ _ _) = {(Running, Success), (Running, Failed), (Pending, Paused), (Running, Paused)} \<union> UNIV \<times> {Cancelled}"
| "allowed (LHeart _) = {}"
| "allowed (LOutside _ _ _) = {}"

lemma adv_act: "advance (allowed (LAct env k item)) w (act env k item w)"
proof (cases k)
  case RPause
  show ?thesis using adv_pause_act [of w env item] by (simp add: RPause insert_commute Un_commute)
next
  case RResume
  show ?thesis using adv_resume_act [of w env item] by (simp add: RResume insert_commute Un_commute)
next
  case RCancel
  show ?thesis using adv_cancel_act [of w env item] by (simp add: RCancel insert_commute Un_commute)
qed (use adv_delete_act in simp)

lemma step_cases:
  assumes "step a m m'"
  shows "advance (allowed a) (m_world m) (m_world m') \<or> (\<exists>env. grows env (m_world m) (m_world m') \<and>
    (case a of LEnqueue e _ _ \<Rightarrow> env = e | LDue e \<Rightarrow> env = e | _ \<Rightarrow> False))"
  using assms
proof cases
  case (act k item env)
  then show ?thesis using adv_act [of env k item "m_world m"] by simp
next
  case (claim env item w')
  then show ?thesis using adv_claim [of "m_world m" env] by simp
next
  case (start item env r w')
  then show ?thesis using adv_begin [of "m_world m" env item] by simp
next
  case (finish r env out snap)
  then show ?thesis using adv_end [of "m_world m" env r out snap] by (simp add: e_end_def insert_commute)
next
  case (heart r j env)
  have "advance {} (m_world m) (ign (m_world m) (updateHeartbeat env (j_id j) (m_world m)))"
    by (rule advance_ign, erule adv_heartbeat)
  with heart show ?thesis by simp
qed (auto simp: advance_refl adv_mark advance_jobs grows_EnqueueCloudSync grows_due)

end
