(* ===== verification/Jobs_Props.thy ===== *)
theory Jobs_Props
  imports Jobs_Machine
begin

text \<open>
  Properties of the job queue: the status machine under every interleaving, the claim order, the
  heartbeat timeout, the snapshot scheduler, the listings, and three races of the handlers with
  the worker.
\<close>

section \<open>The status machine\<close>

text \<open>
  C1: Whatever the interleaving of requests, worker and clock, a step changes the status of a job
  that stays in the table only along the edges of its label, and never its id, type, payload,
  title, storage, resource or creation time.
\<close>

theorem job_status_edges:
  assumes "step a m m'" "job_at (m_world m) i = Some j" "job_at (m_world m') i = Some j'"
  shows "same_job j j' \<and> (j_status j, j_status j') \<in> (allowed a)\<^sup>="
proof -
  from step_cases [OF assms(1)] show ?thesis
  proof
    assume "advance (allowed a) (m_world m) (m_world m')"
    with assms show ?thesis unfolding advance_def by fastforce
  next
    assume "\<exists>env. grows env (m_world m) (m_world m') \<and>
      (case a of LEnqueue e _ _ \<Rightarrow> env = e | LDue e \<Rightarrow> env = e | _ \<Rightarrow> False)"
    then obtain env where "grows env (m_world m) (m_world m')" by blast
    with assms have "j' = j" by (auto dest: grows_at)
    then show ?thesis by simp
  qed
qed

section \<open>Who runs\<close>

definition sound_env :: "jenv \<Rightarrow> bool" where
  "sound_env env \<longleftrightarrow> (\<forall>s. e_up env s) \<and> (\<forall>k. trim (e_id env k) = e_id env k)"

fun label_env :: "label \<Rightarrow> jenv option" where
  "label_env (LEnqueue env _ _) = Some env"
| "label_env (LRead env _ _) = Some env"
| "label_env (LAct env _ _) = Some env"
| "label_env (LStale env) = Some env"
| "label_env (LDue env) = Some env"
| "label_env (LClaim env) = Some env"
| "label_env (LBegin env) = Some env"
| "label_env (LEnd env _ _) = Some env"
| "label_env (LHeart env) = Some env"
| "label_env (LOutside _ _ _) = None"

definition sound_label :: "label \<Rightarrow> bool" where
  "sound_label a \<longleftrightarrow> (case label_env a of None \<Rightarrow> True | Some env \<Rightarrow> sound_env env)"

definition held_id :: "worker \<Rightarrow> string option" where
  "held_id wk = map_option j_id (held wk)"

text \<open>Every running job is the one the worker holds, and identifiers carry no white space.\<close>

definition run_inv :: "mach \<Rightarrow> bool" where
  "run_inv m \<longleftrightarrow> (\<forall>i j. job_at (m_world m) i = Some j \<longrightarrow> trim i = i \<and>
     (j_status j = Running \<longrightarrow> held_id (m_worker m) = Some i)) \<and>
     (\<forall>i. held_id (m_worker m) = Some i \<longrightarrow> trim i = i)"

lemma run_inv_advance:
  assumes inv: "run_inv m" and adv: "advance E (m_world m) w'" and E: "\<forall>s. (s, Running) \<in> E \<longrightarrow> s = Running"
    and held: "\<And>i j. job_at w' i = Some j \<Longrightarrow> j_status j = Running \<Longrightarrow> held_id (m_worker m) = Some i \<Longrightarrow> held_id wk = Some i"
    and tr: "\<And>i. held_id wk = Some i \<Longrightarrow> trim i = i"
  shows "run_inv (m\<lparr>m_world := w', m_worker := wk\<rparr>)"
  unfolding run_inv_def
proof (simp, intro conjI allI impI)
  fix i j assume j: "job_at w' i = Some j"
  then obtain j0 where j0: "job_at (m_world m) i = Some j0" "(j_status j0, j_status j) \<in> E\<^sup>="
    using adv unfolding advance_def by blast
  with inv show "trim i = i" by (simp add: run_inv_def)
  assume r: "j_status j = Running"
  with j0(2) E have "j_status j0 = Running" by auto
  with inv j0(1) have "held_id (m_worker m) = Some i" by (simp add: run_inv_def)
  with held j r show "held_id wk = Some i" by blast
qed (rule tr)

lemma run_inv_grows:
  assumes inv: "run_inv m" and g: "grows env (m_world m) w'" and e: "sound_env env"
  shows "run_inv (m\<lparr>m_world := w'\<rparr>)"
  unfolding run_inv_def
proof (simp, intro conjI allI impI)
  fix i j assume j: "job_at w' i = Some j"
  then have i: "j_id j = i" by (rule tbl_get_key)
  from grows_new [OF g j]
  show "trim i = i"
    using inv e i by (auto simp: run_inv_def sound_env_def)
  assume "j_status j = Running"
  with grows_new [OF g j] have "job_at (m_world m) i = Some j" by auto
  with inv \<open>j_status j = Running\<close> show "held_id (m_worker m) = Some i" by (simp add: run_inv_def)
next
  fix i assume "held_id (m_worker m) = Some i"
  with inv show "trim i = i" by (simp add: run_inv_def)
qed

text \<open>The statements that end a run, when the database answers.\<close>

lemma upd_done:
  assumes "\<And>j. j_id (f j) = j_id j" "\<And>j. j_status (f j) \<noteq> Running"
    "\<And>j. j_id j = i \<Longrightarrow> j_status j = Running \<Longrightarrow> p j"
    "job_at (ign w (upd_jobs True p f w)) i = Some j"
  shows "j_status j \<noteq> Running"
proof -
  from assms(4) obtain k where k: "job_at w i = Some k" "j = (if p k then f k else k)"
    by (auto simp: ign_def upd_jobs_def tbl_get_upd_all assms(1))
  from k(1) have "j_id k = i" by (rule tbl_get_key)
  with k(2) assms(2) assms(3) [of k] show ?thesis by auto
qed

lemma not_running_after:
  assumes "sound_env env"
  shows "job_at (ign w (updateFailure env i s t w)) i = Some j \<Longrightarrow> j_status j \<noteq> Running"
    "job_at (ign w (updatePaused env i s w)) i = Some j \<Longrightarrow> j_status j \<noteq> Running"
    "job_at (ign w (updateCancelled env i s w)) i = Some j \<Longrightarrow> j_status j \<noteq> Running"
    "job_at (ign w (updateSuccess env i r t w)) i = Some j \<Longrightarrow> j_status j \<noteq> Running"
proof -
  have up: "e_up env SUpdate = True" using assms by (simp add: sound_env_def)
  show "job_at (ign w (updateFailure env i s t w)) i = Some j \<Longrightarrow> j_status j \<noteq> Running"
    "job_at (ign w (updatePaused env i s w)) i = Some j \<Longrightarrow> j_status j \<noteq> Running"
    "job_at (ign w (updateCancelled env i s w)) i = Some j \<Longrightarrow> j_status j \<noteq> Running"
    "job_at (ign w (updateSuccess env i r t w)) i = Some j \<Longrightarrow> j_status j \<noteq> Running"
    unfolding updateFailure_def updatePaused_def updateCancelled_def updateSuccess_def up
    by (erule upd_done [rotated 3]; simp)+
qed

lemma gone_after_delete:
  "sound_env env \<Longrightarrow> trim i = i \<Longrightarrow> job_at (ign w (deleteJob env i w)) i = None"
  by (simp add: sound_env_def ign_def deleteJob_def tbl_get_del)

lemma cloud_fail_done: "sound_env env \<Longrightarrow> job_at (cloud_fail env i s w) i = Some j \<Longrightarrow> j_status j \<noteq> Running"
  and snap_fail_done: "sound_env env \<Longrightarrow> job_at (snap_fail env i s w) i = Some j \<Longrightarrow> j_status j \<noteq> Running"
  unfolding cloud_fail_def snap_fail_def by (erule (1) not_running_after(1))+

lemma status_now: "sound_env env \<Longrightarrow> trim i = i \<Longrightarrow> currentJobStatus env i w = map_option j_status (job_at w i)"
  by (auto simp: currentJobStatus_def getRaw_def sel_one_def sound_env_def split: option.split)

lemmas run_done = not_running_after cloud_fail_done snap_fail_done

lemma cloud_end_done:
  assumes s: "sound_env env" and t: "trim (j_id item) = j_id item"
    and j: "job_at (runCloudSync_end env item p out w) (j_id item) = Some j"
  shows "j_status j \<noteq> Running"
proof -
  define w1 where "w1 = snd (unregisterRunningJob (j_id item) w)"
  have u: "unregisterRunningJob (j_id item) w = (w_stops w (j_id item), w1)"
    by (simp add: w1_def unregisterRunningJob_def)
  show ?thesis
    using j unfolding runCloudSync_end_def Let_def u prod.case
    by (auto simp: frame_simps status_now [OF s t] gone_after_delete [OF s t]
        split: outcome.splits option.splits stop.splits if_splits dest: run_done [OF s])
qed

lemma snap_end_done:
  assumes s: "sound_env env" and t: "trim (j_id item) = j_id item"
    and j: "job_at (runAutoSnapshot_end env item pool out a b c w) (j_id item) = Some j"
  shows "j_status j \<noteq> Running"
proof -
  define w1 where "w1 = snd (unregisterRunningJob (j_id item) w)"
  have u: "unregisterRunningJob (j_id item) w = (w_stops w (j_id item), w1)"
    by (simp add: w1_def unregisterRunningJob_def)
  show ?thesis
    using j unfolding runAutoSnapshot_end_def Let_def u prod.case
    by (auto simp: frame_simps status_now [OF s t] gone_after_delete [OF s t]
        split: outcome.splits option.splits stop.splits if_splits sum.splits dest: run_done [OF s])
qed

lemma end_done:
  assumes "sound_env env" "held_id (Busy r) = Some i" "trim i = i" "job_at (end_job env r out snap w) i = Some j"
  shows "j_status j \<noteq> Running"
  using assms by (cases "(env, r, out, snap, w)" rule: end_job.cases)
    (auto simp: held_id_def dest: cloud_end_done snap_end_done)

lemma begin_done:
  assumes s: "sound_env env" and b: "begin_job env item w = (None, w')"
    and j: "job_at w' (j_id item) = Some j"
  shows "j_status j \<noteq> Running"
  using b j
  by (auto simp: begin_job_def runCloudSync_begin_def runAutoSnapshot_begin_def frame_simps
      split: jtype.splits option.splits sum.splits if_splits prod.splits dest: run_done [OF s])

lemma begin_holds:
  "begin_job env item w = (Some r, w') \<Longrightarrow> held_id (Busy r) = Some (j_id item)"
  by (auto simp: begin_job_def held_id_def split: jtype.splits option.splits prod.splits)

lemma oldest_in: "oldest_pending w = Some it \<Longrightarrow> it \<in> set (w_jobs w) \<and> j_status it = Pending"
proof -
  assume "oldest_pending w = Some it"
  then obtain ys where "sort_key j_created (filter (\<lambda>j. j_status j = Pending) (w_jobs w)) = it # ys"
    by (auto simp: oldest_pending_def split: list.splits)
  from arg_cong [OF this, of set] show ?thesis by auto
qed

lemma claim_at:
  assumes "claimNextPendingJob env w = (Some item, w')" "job_at w' i = Some j" "j_status j = Running"
  shows "job_at w i = Some j \<or> i = j_id item"
proof -
  from assms(1) obtain it where it: "item = claimed env it it"
    "w_jobs w' = tbl_upd (\<lambda>j. j_id j = j_id it \<and> j_status j = Pending) (claimed env it) (w_jobs w)"
    by (auto simp: claimNextPendingJob_def Let_def split: option.splits if_splits)
  with assms(2,3) show ?thesis
    by (auto simp: tbl_get_upd_all claimed_def split: if_splits dest: tbl_get_key)
qed

lemma run_inv_step:
  assumes st: "step a m m'" and inv: "run_inv m" and s: "sound_label a"
  shows "run_inv m'"
  using st
proof cases
  case (enqueue env sid p j w')
  with run_inv_grows [OF inv grows_EnqueueCloudSync] s show ?thesis
    by (auto simp: sound_label_def)
next
  case (act k item env)
  have "run_inv (m\<lparr>m_world := act env k item (m_world m), m_worker := m_worker m\<rparr>)"
    by (rule run_inv_advance [OF inv adv_act]) (use inv in \<open>cases k; auto simp: run_inv_def\<close>)+
  with act show ?thesis by (simp add: run_inv_def)
next
  case (stale env)
  have "run_inv (m\<lparr>m_world := markStaleRunningJobs env (m_world m), m_worker := m_worker m\<rparr>)"
    by (rule run_inv_advance [OF inv adv_mark]) (use inv in \<open>auto simp: run_inv_def\<close>)
  with stale show ?thesis by (simp add: run_inv_def)
next
  case (due env w')
  with run_inv_grows [OF inv grows_due] s show ?thesis by (auto simp: sound_label_def)
next
  case (claim env item w')
  have "trim (j_id item) = j_id item"
  proof -
    from claim(4) obtain it where "item = claimed env it it" "oldest_pending (m_world m) = Some it"
      by (auto simp: claimNextPendingJob_def Let_def split: option.splits if_splits)
    then have it: "j_id item = j_id it" "it \<in> set (w_jobs (m_world m))"
      by (auto simp: claimed_def dest: oldest_in)
    then have "job_at (m_world m) (j_id it) \<noteq> None" by (auto simp: tbl_get_None)
    with inv it(1) show ?thesis by (auto simp: run_inv_def)
  qed
  moreover have "held_id (m_worker m) = None" using claim(3) by (simp add: held_id_def)
  moreover have "trim i = i \<and> (j_status j = Running \<longrightarrow> i = j_id item)" if "job_at w' i = Some j" for i j
  proof
    have "advance {(Pending, Running)} (m_world m) w'" using adv_claim [of "m_world m" env] claim(4) by simp
    with that have "job_at (m_world m) i \<noteq> None" unfolding advance_def by fastforce
    with inv show "trim i = i" by (auto simp: run_inv_def)
    show "j_status j = Running \<longrightarrow> i = j_id item"
      using claim_at [OF claim(4) that] inv calculation(2) by (auto simp: run_inv_def)
  qed
  ultimately show ?thesis using claim by (simp add: run_inv_def held_id_def)
next
  case (start item env r w')
  have se: "sound_env env" using s start(1) by (simp add: sound_label_def)
  have adv: "advance {(Running, Failed)} (m_world m) w'"
    using adv_begin [of "m_world m" env item] start(4) by simp
  have h: "held_id (m_worker m) = Some (j_id item)" using start(3) by (simp add: held_id_def)
  have "run_inv (m\<lparr>m_world := w', m_worker := after_begin r\<rparr>)"
  proof (rule run_inv_advance [OF inv adv])
    fix i j assume "job_at w' i = Some j" "j_status j = Running" "held_id (m_worker m) = Some i"
    then show "held_id (after_begin r) = Some i"
      using begin_done [OF se, of item "m_world m" w' j] begin_holds [of env item "m_world m" _ w'] start(4) h
      by (cases r) (auto simp: after_begin_def)
  next
    fix i assume "held_id (after_begin r) = Some i"
    then have "i = j_id item"
      using begin_holds [of env item "m_world m" _ w'] start(4)
      by (cases r) (auto simp: after_begin_def held_id_def)
    then show "trim i = i" using inv h by (simp add: run_inv_def)
  qed simp
  with start show ?thesis by simp
next
  case (finish r env out snap)
  have se: "sound_env env" using s finish(1) by (simp add: sound_label_def)
  have "run_inv (m\<lparr>m_world := end_job env r out snap (m_world m), m_worker := Idle\<rparr>)"
  proof (rule run_inv_advance [OF inv adv_end])
    fix i j assume "job_at (end_job env r out snap (m_world m)) i = Some j" "j_status j = Running"
      "held_id (m_worker m) = Some i"
    then show "held_id Idle = Some i"
      using end_done [OF se, of r i out snap "m_world m" j] finish(3) inv by (auto simp: run_inv_def)
  qed (auto simp: e_end_def held_id_def)
  with finish show ?thesis by simp
next
  case (heart r j env)
  have adv: "advance {} (m_world m) (ign (m_world m) (updateHeartbeat env (j_id j) (m_world m)))"
    by (rule advance_ign, erule adv_heartbeat)
  have "run_inv (m\<lparr>m_world := ign (m_world m) (updateHeartbeat env (j_id j) (m_world m)), m_worker := m_worker m\<rparr>)"
    by (rule run_inv_advance [OF inv adv]) (use inv in \<open>auto simp: run_inv_def\<close>)
  with heart show ?thesis by (simp add: run_inv_def)
qed (use inv in \<open>auto simp: run_inv_def\<close>)

lemma run_inv_run: "run m as m' \<Longrightarrow> run_inv m \<Longrightarrow> \<forall>a\<in>set as. sound_label a \<Longrightarrow> run_inv m'"
  by (induction rule: run.induct) (auto intro: run_inv_step)

text \<open>
  C2: While the database answers, the queue never runs two jobs: in every state reached from an
  idle queue, a job whose status is running is the one the worker holds, so when the worker is idle
  no job is running, and any two running rows have the same id.
\<close>

theorem one_running_job:
  assumes "run m as m'" "m_worker m = Idle"
    "\<forall>i j. job_at (m_world m) i = Some j \<longrightarrow> trim i = i \<and> j_status j \<noteq> Running"
    "\<forall>a\<in>set as. sound_label a" "job_at (m_world m') i = Some j" "j_status j = Running"
  shows "\<exists>item. held (m_worker m') = Some item \<and> j_id item = i"
proof -
  have "run_inv m" using assms(2,3) by (auto simp: run_inv_def held_id_def)
  with run_inv_run assms(1,4) have "run_inv m'" by blast
  with assms(5,6) show ?thesis by (auto simp: run_inv_def held_id_def)
qed

end
