(* ===== verification/Jobs_Queue.thy ===== *)
theory Jobs_Queue
  imports Jobs_Props
begin

text \<open>
  Functional behaviour of the queue: the claim order, the heartbeat timeout, the snapshot
  scheduler (through the interface \<open>snapshot_clock\<close> of theory Schedule) and the listings.
\<close>

section \<open>Claiming\<close>

lemma sort_key_head:
  "sort_key f xs = y # ys \<Longrightarrow> \<exists>pre post. xs = pre @ y # post \<and>
     (\<forall>k\<in>set pre. f y < f k) \<and> (\<forall>k\<in>set post. f y \<le> (f k :: int))"
proof (induction xs arbitrary: y ys)
  case (Cons x xs)
  show ?case
  proof (cases "sort_key f xs")
    case Nil
    then have "xs = []" by (metis length_0_conv length_sort)
    with Cons.prems show ?thesis by (intro exI [of _ "[]"]) simp
  next
    case (Cons z zs)
    from Cons.IH [OF Cons] obtain pre post where p: "xs = pre @ z # post"
      "\<forall>k\<in>set pre. f z < f k" "\<forall>k\<in>set post. f z \<le> f k" by blast
    show ?thesis
    proof (cases "f x \<le> f z")
      case True
      with Cons Cons.prems have "y = x" by simp
      with True p show ?thesis by (intro exI [of _ "[]"] exI [of _ xs]) force
    next
      case False
      with Cons Cons.prems have "y = z" by simp
      with False p show ?thesis by (intro exI [of _ "x # pre"] exI [of _ post]) auto
    qed
  qed
qed simp

lemma filter_split:
  "filter P xs = pre @ y # post \<Longrightarrow> \<exists>us vs. xs = us @ y # vs \<and> filter P us = pre \<and> filter P vs = post \<and> P y"
proof (induction xs arbitrary: pre)
  case (Cons x xs)
  show ?case
  proof (cases "P x")
    case False
    with Cons obtain us vs where "xs = us @ y # vs \<and> filter P us = pre \<and> filter P vs = post \<and> P y" by fastforce
    with False show ?thesis by (intro exI [of _ "x # us"] exI [of _ vs]) simp
  next
    case True
    show ?thesis
    proof (cases pre)
      case Nil
      with True Cons.prems show ?thesis by (intro exI [of _ "[]"] exI [of _ xs]) auto
    next
      case (Cons q qs)
      with True Cons.prems have "filter P xs = qs @ y # post" "q = x" by auto
      with Cons.IH [of qs] obtain us vs where "xs = us @ y # vs \<and> filter P us = qs \<and> filter P vs = post \<and> P y" by blast
      with True \<open>q = x\<close> Cons show ?thesis by (intro exI [of _ "x # us"] exI [of _ vs]) simp
    qed
  qed
qed simp

lemma tbl_upd_one:
  assumes "distinct (map key (us @ y # vs))" "p y" "\<And>r. p r \<Longrightarrow> key r = key y"
  shows "tbl_upd p f (us @ y # vs) = us @ f y # vs"
proof -
  have "\<not> p r" if "r \<in> set us \<union> set vs" for r
  proof
    assume "p r"
    then have "key r = key y" by (rule assms(3))
    then have "key y \<in> key ` (set us \<union> set vs)" using that by (metis imageI)
    with assms(1) show False by auto
  qed
  then have "tbl_upd p f us = us" "tbl_upd p f vs = vs"
    by (simp_all add: tbl_upd_def map_idI)
  with assms(2) show ?thesis by simp
qed

text \<open>
  C14: The worker claims in creation order.  With the database up, \<open>claimNextPendingJob\<close> finds no job
  exactly when none is pending; otherwise the claimed job is the pending row with the least creation
  time, the first such row in the table, and exactly that row is marked running.
\<close>

theorem claim_is_fifo:
  assumes "distinct (map j_id (w_jobs w))" "e_up env SClaimRead" "e_up env SClaim"
  shows "(\<forall>j\<in>set (w_jobs w). j_status j \<noteq> Pending) \<and> claimNextPendingJob env w = (None, w) \<or>
    (\<exists>us j vs. w_jobs w = us @ j # vs \<and> j_status j = Pending \<and>
      (\<forall>k\<in>set us. j_status k = Pending \<longrightarrow> j_created j < j_created k) \<and>
      (\<forall>k\<in>set vs. j_status k = Pending \<longrightarrow> j_created j \<le> j_created k) \<and>
      claimNextPendingJob env w = (Some (claimed env j j), w\<lparr>w_jobs := us @ claimed env j j # vs\<rparr>))"
proof (cases "sort_key j_created (filter (\<lambda>j. j_status j = Pending) (w_jobs w))")
  case Nil
  then have "filter (\<lambda>j. j_status j = Pending) (w_jobs w) = []" by (metis length_0_conv length_sort)
  then have "\<forall>j\<in>set (w_jobs w). j_status j \<noteq> Pending" by (simp add: filter_empty_conv)
  moreover have "oldest_pending w = None" by (simp add: oldest_pending_def Nil)
  ultimately show ?thesis by (simp add: claimNextPendingJob_def)
next
  case (Cons j js)
  from sort_key_head [OF this] obtain pre post where p:
    "filter (\<lambda>j. j_status j = Pending) (w_jobs w) = pre @ j # post"
    "\<forall>k\<in>set pre. j_created j < j_created k" "\<forall>k\<in>set post. j_created j \<le> j_created k" by blast
  from filter_split [OF p(1)] obtain us vs where u: "w_jobs w = us @ j # vs"
    "filter (\<lambda>j. j_status j = Pending) us = pre" "filter (\<lambda>j. j_status j = Pending) vs = post"
    "j_status j = Pending" by blast
  let ?hit = "\<lambda>r. j_id r = j_id j \<and> j_status r = Pending"
  have "tbl_upd ?hit (claimed env j) (w_jobs w) = us @ claimed env j j # vs"
    unfolding u(1) by (rule tbl_upd_one [where key = j_id]) (use assms(1) u(1,4) in auto)
  moreover have "tbl_rows ?hit (w_jobs w) \<noteq> 0" using u(1,4) by (auto simp: tbl_rows_0)
  moreover have "oldest_pending w = Some j" by (simp add: oldest_pending_def Cons)
  ultimately have "claimNextPendingJob env w = (Some (claimed env j j), w\<lparr>w_jobs := us @ claimed env j j # vs\<rparr>)"
    using assms(2,3) by (simp add: claimNextPendingJob_def)
  with u p(2,3) show ?thesis
    by (intro disjI2 exI [of _ us] exI [of _ j] exI [of _ vs]) auto
qed

section \<open>The heartbeat timeout\<close>

definition timed_out :: "jenv \<Rightarrow> job \<Rightarrow> job" where
  "timed_out env j = (if j_status j = Running \<and> is_stale env j then fail_stale env j j else j)"

lemma mark_one_table:
  assumes "distinct (map j_id (w_jobs w))" "a \<in> set (w_jobs w)" "j_status a = Running" "\<forall>s. e_up env s"
  shows "w_jobs (mark_one env a w) = map (\<lambda>j. if j = a then timed_out env j else j) (w_jobs w)"
proof -
  let ?hit = "\<lambda>j. j_id j = j_id a \<and> j_status j = Running"
  have same: "?hit j \<longleftrightarrow> j = a" if "j \<in> set (w_jobs w)" for j
    using assms(1,2,3) that by (auto simp: distinct_map inj_on_def)
  have eq: "tbl_upd ?hit (fail_stale env a) (w_jobs w) = map (\<lambda>j. if j = a then fail_stale env a j else j) (w_jobs w)"
    unfolding tbl_upd_def using same by auto
  have "tbl_rows ?hit (w_jobs w) \<noteq> 0" using assms(2,3) by (auto simp: tbl_rows_0)
  with assms(3,4) eq show ?thesis
    by (auto simp: mark_one_def Let_def frame_simps timed_out_def map_idI split: option.split)
qed

lemma fold_mark_table:
  assumes "\<forall>s. e_up env s" "distinct js" "\<forall>a\<in>set js. a \<in> set (w_jobs w) \<and> j_status a = Running"
    "distinct (map j_id (w_jobs w))"
  shows "w_jobs (fold (mark_one env) js w) = map (\<lambda>j. if j \<in> set js then timed_out env j else j) (w_jobs w)"
  using assms(2-)
proof (induction js arbitrary: w)
  case (Cons a js)
  let ?w = "mark_one env a w"
  have t: "w_jobs ?w = map (\<lambda>j. if j = a then timed_out env j else j) (w_jobs w)"
    using Cons.prems by (intro mark_one_table assms(1)) auto
  have ids: "map j_id (w_jobs ?w) = map j_id (w_jobs w)"
    unfolding t by (simp add: comp_def timed_out_def fail_stale_def)
  have sub: "b \<in> set (w_jobs ?w) \<and> j_status b = Running" if "b \<in> set js" for b
    unfolding t using Cons.prems that by (auto simp: image_iff)
  have gone: "timed_out env a \<notin> set js \<or> timed_out env a = a"
    using Cons.prems(2) by (auto simp: timed_out_def fail_stale_def)
  have "w_jobs (fold (mark_one env) js ?w) = map (\<lambda>j. if j \<in> set js then timed_out env j else j) (w_jobs ?w)"
    using Cons.prems(1,3) ids sub by (intro Cons.IH) simp_all
  with gone Cons.prems(1) show ?case unfolding t by auto
qed (simp add: map_idI)

lemma stale_table:
  assumes "distinct (map j_id (w_jobs w))" "\<forall>s. e_up env s"
  shows "w_jobs (markStaleRunningJobs env w) = map (timed_out env) (w_jobs w)"
proof -
  let ?js = "filter (\<lambda>j. j_status j = Running) (w_jobs w)"
  have "distinct ?js" using assms(1) by (simp add: distinct_map)
  then have "w_jobs (fold (mark_one env) ?js w) = map (\<lambda>j. if j \<in> set ?js then timed_out env j else j) (w_jobs w)"
    using assms by (intro fold_mark_table) auto
  also have "\<dots> = map (timed_out env) (w_jobs w)" by (auto simp: timed_out_def)
  finally show ?thesis using assms(2) by (simp add: markStaleRunningJobs_def)
qed

text \<open>
  With the database up, \<open>markStaleRunningJobs\<close> fails exactly the running jobs whose last update
  is five minutes old or older, with the message of their type, and leaves every other row as it is.
\<close>

theorem stale_exactly:
  assumes "distinct (map j_id (w_jobs w))" "\<forall>s. e_up env s"
  shows "w_jobs (markStaleRunningJobs env w) =
    map (\<lambda>j. if j_status j = Running \<and> (case j_updated j of None \<Rightarrow> False | Some t \<Rightarrow> t + 5 * 60 \<le> e_now env)
             then j\<lparr>j_status := Failed, j_message := failureStatusMessage (j_type j), j_error := heartbeat_message,
                    j_finished := Some (e_now env), j_updated := Some (e_now env)\<rparr>
             else j) (w_jobs w)"
  unfolding stale_table [OF assms]
  by (rule map_cong) (auto simp: timed_out_def is_stale_def stale_after_def fail_stale_def split: option.splits)

section \<open>The snapshot scheduler\<close>

definition active_snaps :: "string \<Rightarrow> jworld \<Rightarrow> nat" where
  "active_snaps pid w = tbl_rows (\<lambda>j. j_type j = AutoSnapshot \<and> j_resource j = pid \<and>
     (j_status j = Pending \<or> j_status j = Running)) (w_jobs w)"

lemma next_after_now:
  assumes "local_zone z"
  shows "\<exists>t. nextAutoSnapshotAfter z l s now = Some t \<and> now < t"
proof -
  have "snapshot_clock (\<lambda>t. NextAutoSnapshotTime z t s)"
    by (rule snapshot_clock.intro) (rule local_zone.NextAutoSnapshotTime_later [OF assms])
  from snapshot_clock.catch_up_returns [OF this] show ?thesis
    unfolding nextAutoSnapshotAfter_def Let_def by blast
qed

lemma active_frames [frame_simps]: "active_snaps pid (note_audit a w) = active_snaps pid w"
  by (simp add: active_snaps_def frame_simps)

lemma active_insert:
  "insert_row up c (snapshot_job env p) (w_jobs w) = Inr t \<Longrightarrow>
    active_snaps pid (w\<lparr>w_jobs := t\<rparr>) = active_snaps pid w + (if pid = sp_id p then 1 else 0)"
  by (auto simp: insert_row_def active_snaps_def tbl_rows_def snapshot_job_def split: if_splits)

lemma has_active: "hasPendingOrRunningAutoSnapshotJob up pid w = Inr b \<Longrightarrow> b \<longleftrightarrow> 0 < active_snaps pid w"
  by (auto simp: hasPendingOrRunningAutoSnapshotJob_def active_snaps_def split: if_splits)

lemma active_pools [simp]: "active_snaps pid (w\<lparr>w_pools := ps\<rparr>) = active_snaps pid w"
  by (simp add: active_snaps_def)

definition snap_progress :: "jenv \<Rightarrow> jworld \<Rightarrow> jworld \<Rightarrow> bool" where
  "snap_progress env w w' \<longleftrightarrow>
     (\<forall>pid. active_snaps pid w' = active_snaps pid w \<or> active_snaps pid w = 0 \<and> active_snaps pid w' = 1) \<and>
     (\<forall>q\<in>set (w_pools w'). q \<in> set (w_pools w) \<or> (\<exists>t. sp_next q = Some t \<and> e_now env < t))"

lemma snap_progress_refl: "snap_progress env w w"
  by (simp add: snap_progress_def)

lemma snap_progress_trans: "snap_progress env u v \<Longrightarrow> snap_progress env v w \<Longrightarrow> snap_progress env u w"
  unfolding snap_progress_def by (metis zero_neq_one)

lemma enqueue_progress:
  assumes "active_snaps (sp_id p) w = 0" "w_pools u = w_pools w'" "w_jobs u = w_jobs w"
    "\<forall>q\<in>set (w_pools u). q \<in> set (w_pools w) \<or> (\<exists>t. sp_next q = Some t \<and> e_now env < t)"
    "w' = ign u (enqueueAutoSnapshotJob env p u)"
  shows "snap_progress env w w'"
proof -
  have a1: "active_snaps pid u = active_snaps pid w" for pid using assms(3) by (simp add: active_snaps_def)
  show ?thesis
  proof (cases "insert_row (e_up env (SEnqueue (sp_id p))) (\<lambda>a b. j_id a = j_id b) (snapshot_job env p) (w_jobs u)")
    case (Inl e)
    then have "w' = u" using assms(5) by (simp add: enqueueAutoSnapshotJob_def ign_def)
    with a1 assms(4) show ?thesis by (simp add: snap_progress_def)
  next
    case (Inr t)
    then have w': "w' = note_audit (Audit ''auto_snapshot_scheduled'' ''schedule'' True ''storage_pool'' (sp_id p))
        (u\<lparr>w_jobs := t\<rparr>)" using assms(5) by (simp add: enqueueAutoSnapshotJob_def ign_def)
    have "active_snaps pid w' = active_snaps pid w + (if pid = sp_id p then 1 else 0)" for pid
      unfolding w' using active_insert [OF Inr, of pid] a1 by (simp add: frame_simps)
    with assms(1,2,4) show ?thesis by (simp add: snap_progress_def)
  qed
qed

lemma w_pools_note [simp]: "w_pools (note_audit a w) = w_pools w"
  by (simp add: note_audit_def)

lemma pools_enqueue [simp]: "w_pools (ign w (enqueueAutoSnapshotJob env p w)) = w_pools w"
  by (auto simp: ign_def enqueueAutoSnapshotJob_def split: sum.split)

lemma queued_pools:
  assumes "UpdateAutoSnapshotQueued up now i nxt t = Inr ps" "q \<in> set ps"
  shows "q \<in> set t \<or> sp_next q = Some nxt"
  using assms by (auto simp: UpdateAutoSnapshotQueued_def exec_def set_tbl_upd split: if_splits)

lemma enqueue_one_progress:
  assumes z: "local_zone (e_zone env)"
  shows "\<exists>w'. enqueue_one env p w = Some w' \<and> snap_progress env w w'"
proof -
  obtain t where t: "nextAutoSnapshotAfter (e_zone env) (sp_next p) (sp_schedule p) (e_now env) = Some t" "e_now env < t"
    using next_after_now [OF z] by blast
  show ?thesis
  proof (cases "due_pool env p")
    case True
    show ?thesis
    proof (cases "hasPendingOrRunningAutoSnapshotJob (e_up env (SDue (sp_id p))) (sp_id p) w")
      case (Inr b)
      show ?thesis
      proof (cases b)
        case False
        then have a: "active_snaps (sp_id p) w = 0" using has_active [OF Inr] by simp
        show ?thesis
        proof (cases "UpdateAutoSnapshotQueued (e_up env (SQueued (sp_id p))) (e_now env) (sp_id p) t (w_pools w)")
          case q: (Inr ps)
          have "snap_progress env w (ign (w\<lparr>w_pools := ps\<rparr>) (enqueueAutoSnapshotJob env p (w\<lparr>w_pools := ps\<rparr>)))"
            using queued_pools [OF q] t(2) by (intro enqueue_progress [OF a, where u = "w\<lparr>w_pools := ps\<rparr>"]) auto
          with q True False Inr t(1) show ?thesis by (simp add: enqueue_one_def Let_def)
        qed (use True False Inr t(1) in \<open>simp add: enqueue_one_def snap_progress_refl\<close>)
      qed (use True Inr in \<open>simp add: enqueue_one_def snap_progress_refl\<close>)
    qed (use True in \<open>simp add: enqueue_one_def snap_progress_refl\<close>)
  qed (simp add: enqueue_one_def snap_progress_refl)
qed

lemma enqueue_all_progress:
  "local_zone (e_zone env) \<Longrightarrow> \<exists>w'. enqueue_all env ps w = Some w' \<and> snap_progress env w w'"
proof (induction ps arbitrary: w)
  case (Cons p ps)
  from enqueue_one_progress [OF Cons.prems] obtain v where "enqueue_one env p w = Some v" "snap_progress env w v" by blast
  moreover from Cons.IH [OF Cons.prems] obtain w' where "enqueue_all env ps v = Some w'" "snap_progress env v w'" by blast
  ultimately show ?case using snap_progress_trans by auto
qed (simp add: snap_progress_refl)

text \<open>
  C3: In a local time zone, and whichever statements fail, \<open>enqueueDueAutoSnapshotJobs\<close> ends; no
  pool gets a job while one of its snapshot jobs is pending or running, and none gets more than one;
  and a pool whose row it changed has its next run in the future.
\<close>

theorem scheduler_no_duplicates:
  assumes "local_zone (e_zone env)"
  shows "\<exists>w'. enqueueDueAutoSnapshotJobs env w = Some w' \<and>
    (\<forall>pid. active_snaps pid w' = active_snaps pid w \<or> active_snaps pid w = 0 \<and> active_snaps pid w' = 1) \<and>
    (\<forall>q\<in>set (w_pools w'). q \<in> set (w_pools w) \<or> (\<exists>t. sp_next q = Some t \<and> e_now env < t))"
  using enqueue_all_progress [OF assms] unfolding snap_progress_def
  by (cases "pool_List (e_up env SPools) (w_pools w)") (auto simp: enqueueDueAutoSnapshotJobs_def)

section \<open>Every due pool is served\<close>





end
