(* ===== verification/Jobs_Races.thy ===== *)
theory Jobs_Races
  imports Jobs_Queue
begin

text \<open>
  The pages and counts of \<open>ListJobs\<close>, the cancel and pause requests on every status, and the
  interleavings of a request with the worker that do not do what the request says.
\<close>

section \<open>Listings\<close>

definition page_items :: "jenv \<Rightarrow> list_query \<Rightarrow> jworld \<Rightarrow> int \<Rightarrow> list_item list" where
  "page_items env q w p =
     (case fst (ListJobs env (q\<lparr>q_page := p\<rparr>) w) of Inl _ \<Rightarrow> [] | Inr r \<Rightarrow> lr_items r)"

definition page_count :: "jenv \<Rightarrow> list_query \<Rightarrow> jworld \<Rightarrow> int" where
  "page_count env q w = (case fst (ListJobs env q w) of Inl _ \<Rightarrow> 0 | Inr r \<Rightarrow> lr_pages r)"

definition listed :: "jenv \<Rightarrow> list_query \<Rightarrow> jworld \<Rightarrow> job list" where
  "listed env q w = order_desc j_created
     (filter (job_matches (normalizeListStatus (q_status q)) (trim (q_search q)))
       (w_jobs (markStaleRunningJobs env w)))"

definition pool_names :: "jenv \<Rightarrow> jworld \<Rightarrow> (string \<rightharpoonup> string)" where
  "pool_names env w = fold name_map_step (order_desc sp_created (w_pools (markStaleRunningJobs env w))) Map.empty"

lemma page_items_eq:
  assumes "\<forall>s. e_up env s"
  shows "page_items env q w p = map (list_item_of env (pool_names env w))
    (take (nat (list_size (q_size q)))
      (drop (nat (int64 (int64 (list_page p - 1) * list_size (q_size q)))) (listed env q w)))"
  using assms by (simp add: page_items_def ListJobs_def Let_def buildJobListItems_def
      loadStoragePoolNameMap_def pool_List_def sel_all_def getJobCounts_def listed_def pool_names_def)

lemma page_count_eq:
  assumes "\<forall>s. e_up env s"
  shows "page_count env q w =
    (if listed env q w \<noteq> [] then int64 (int (length (listed env q w)) + list_size (q_size q) - 1) div list_size (q_size q) else 0)"
proof -
  have len: "length (filter (job_matches (normalizeListStatus (q_status q)) (trim (q_search q)))
       (w_jobs (markStaleRunningJobs env w))) = length (listed env q w)"
    by (simp add: listed_def)
  moreover have "filter (job_matches (normalizeListStatus (q_status q)) (trim (q_search q)))
       (w_jobs (markStaleRunningJobs env w)) = [] \<longleftrightarrow> listed env q w = []"
    unfolding length_0_conv [symmetric] len ..
  ultimately show ?thesis
    using assms by (simp add: page_count_def ListJobs_def Let_def buildJobListItems_def
      loadStoragePoolNameMap_def pool_List_def sel_all_def getJobCounts_def)
qed

lemma length_fold_mark: "length (w_jobs (fold (mark_one env) js w)) = length (w_jobs w)"
proof (induction js arbitrary: w)
  case (Cons a js)
  have "length (w_jobs (mark_one env a w)) = length (w_jobs w)"
    by (auto simp: mark_one_def Let_def frame_simps split: option.split)
  with Cons show ?case by simp
qed simp

lemma listed_length: "length (listed env q w) \<le> length (w_jobs w)"
proof -
  have "length (w_jobs (markStaleRunningJobs env w)) = length (w_jobs w)"
    by (simp add: markStaleRunningJobs_def length_fold_mark)
  then show ?thesis unfolding listed_def by (metis length_filter_le length_order_desc)
qed

lemma ceil_pages:
  assumes "0 < (k::int)" "0 < t"
  shows "t \<le> ((t + k - 1) div k) * k" "((t + k - 1) div k - 1) * k < t"
proof -
  have m: "(t + k - 1) div k * k + (t + k - 1) mod k = t + k - 1" by simp
  have "(t + k - 1) mod k < k" "0 \<le> (t + k - 1) mod k" using assms by simp_all
  with m show "t \<le> ((t + k - 1) div k) * k" by linarith
  have "((t + k - 1) div k - 1) * k = (t + k - 1) div k * k - k" by (simp add: algebra_simps)
  with m \<open>0 \<le> (t + k - 1) mod k\<close> show "((t + k - 1) div k - 1) * k < t" by linarith
qed

text \<open>
  C5: The pages of a listing partition it.  With the database up and fewer than 2 ^ 62 rows, the
  items of the pages 1 to \<open>totalPages\<close>, one after the other, are the jobs that match the filter,
  newest first, each exactly once.
\<close>

theorem pages_partition:
  assumes up: "\<forall>s. e_up env s" and small: "int (length (w_jobs w)) < 2 ^ 62"
  shows "concat (map (\<lambda>p. page_items env q w (int p)) [1..<Suc (nat (page_count env q w))]) =
    map (list_item_of env (pool_names env w)) (listed env q w)"
proof (cases "listed env q w = []")
  case True
  then show ?thesis using page_count_eq [OF up, of q w] page_items_eq [OF up, of q w] by simp
next
  case False
  define L where "L = listed env q w"
  define k where "k = list_size (q_size q)"
  define n where "n = page_count env q w"
  have k: "1 \<le> k" "k \<le> 100" by (simp_all add: k_def list_size_range)
  have L: "0 < int (length L)" "int (length L) < 2 ^ 62"
    using False small listed_length [of env q w] by (simp_all add: L_def)
  have "int64 (int (length L) + k - 1) = int (length L) + k - 1" using L k by (intro int64_id) simp_all
  then have n: "n = (int (length L) + k - 1) div k"
    using page_count_eq [OF up, of q w] False by (simp add: L_def k_def n_def)
  have nb: "int (length L) \<le> n * k" "(n - 1) * k < int (length L)"
    using ceil_pages [of k "int (length L)"] k L n by simp_all
  have n0: "0 < n" using nb(1) L(1) k by (metis mult_nonpos_nonneg not_le order_trans zero_le_one)
  have item: "page_items env q w (int (Suc i)) =
      map (list_item_of env (pool_names env w)) (take (nat k) (drop (i * nat k) L))" if "i < nat n" for i
  proof -
    have ii: "int i \<le> n - 1" using that n0 by linarith
    have "int i * k \<le> (n - 1) * k" using ii k by (intro mult_right_mono) simp_all
    then have b: "int i * k < 2 ^ 62" using nb(2) L(2) by linarith
    moreover have "int i \<le> int i * k" using k by (simp add: mult_le_cancel_left1)
    ultimately have "int64 (int i) = int i" "int64 (int i * k) = int i * k"
      using k by (auto intro!: int64_id intro: order_trans [of _ 0])
    then have "nat (int64 (int64 (list_page (int (Suc i)) - 1) * k)) = i * nat k"
      using k by (simp add: list_page_def nat_mult_distrib)
    then show ?thesis using page_items_eq [OF up, of q w "int (Suc i)"] by (simp add: k_def L_def)
  qed
  have "concat (map (\<lambda>p. page_items env q w (int p)) [1..<Suc (nat n)]) =
      concat (map (\<lambda>i. page_items env q w (int (Suc i))) [0..<nat n])"
    by (simp add: map_Suc_upt [symmetric] comp_def del: upt_Suc of_nat_Suc)
  also have "\<dots> = concat (map (\<lambda>i. map (list_item_of env (pool_names env w)) (take (nat k) (drop (i * nat k) L))) [0..<nat n])"
    using item by (intro arg_cong [where f = concat] map_cong) simp_all
  also have "\<dots> = map (list_item_of env (pool_names env w)) (concat (map (\<lambda>i. take (nat k) (drop (i * nat k) L)) [0..<nat n]))"
    by (simp add: map_concat comp_def)
  also have "concat (map (\<lambda>i. take (nat k) (drop (i * nat k) L)) [0..<nat n]) = L"
  proof (rule concat_pages)
    have "int (nat n * nat k) = n * k" using n0 k by simp
    with nb(1) have "int (length L) \<le> int (nat n * nat k)" by simp
    then show "length L \<le> nat n * nat k" by linarith
  qed (use k in simp)
  finally show ?thesis by (simp add: n_def L_def)
qed

text \<open>
  The page offset is a 64-bit product.  For the page number 2 ^ 62 + 1 and a page size of 4 it
  wraps to 0, and the server answers with the items of page 1.
\<close>

theorem page_offset_wraps:
  "page_items env (q\<lparr>q_size := 4\<rparr>) w 4611686018427387905 = page_items env (q\<lparr>q_size := 4\<rparr>) w 1"
proof -
  have "int64 (int64 (list_page 4611686018427387905 - 1) * 4) = 0" by (simp add: int64_def list_page_def)
  moreover have "int64 (int64 (list_page 1 - 1) * 4) = 0" by (simp add: int64_def list_page_def)
  moreover have "list_size 4 = 4" by (simp add: list_size_def)
  ultimately show ?thesis
    by (simp add: page_items_def ListJobs_def Let_def split: sum.split)
qed

section \<open>Requests on one job\<close>

lemma tbl_get_map: "(\<And>r. key (f r) = key r) \<Longrightarrow> tbl_get key k (map f t) = map_option f (tbl_get key k t)"
  by (induction t) auto

lemma id_timed_out [simp]: "j_id (timed_out env j) = j_id j"
  by (simp add: timed_out_def fail_stale_def)

lemma timed_out_idle: "j_status j \<noteq> Running \<Longrightarrow> timed_out env j = j"
  by (simp add: timed_out_def)

text \<open>What holds of every row but one is enough for the timeout pass.\<close>

definition ids_ok :: "jworld \<Rightarrow> bool" where
  "ids_ok w \<longleftrightarrow> distinct (map j_id (w_jobs w))"

lemma ids_ok_frames [frame_simps]:
  "ids_ok (note_audit a w) = ids_ok w" "ids_ok (jobs_audit ev ac ok i w) = ids_ok w"
  "ids_ok (cleanupJobPayload env item w) = ids_ok w" "ids_ok (snd (requestRunningJobStop i s w)) = ids_ok w"
  by (simp_all add: ids_ok_def frame_simps)

lemma ids_ok_upd: "(\<And>j. j_id (f j) = j_id j) \<Longrightarrow> ids_ok w \<Longrightarrow> ids_ok (w\<lparr>w_jobs := tbl_upd p f (w_jobs w)\<rparr>)"
  by (simp add: ids_ok_def keys_tbl_upd)

lemma at_mark:
  assumes "ids_ok w" "\<forall>s. e_up env s"
  shows "job_at (markStaleRunningJobs env w) i = map_option (timed_out env) (job_at w i)"
  using stale_table [of w env] assms by (simp add: ids_ok_def tbl_get_map)

lemma ids_ok_mark: "ids_ok w \<Longrightarrow> \<forall>s. e_up env s \<Longrightarrow> ids_ok (markStaleRunningJobs env w)"
  using stale_table [of w env] by (simp add: ids_ok_def comp_def)

lemma mark_frames [frame_simps]:
  "w_stops (markStaleRunningJobs env w) = w_stops w" "w_cancels (markStaleRunningJobs env w) = w_cancels w"
proof -
  have "w_stops (mark_one env a v) = w_stops v \<and> w_cancels (mark_one env a v) = w_cancels v" for a v
    by (auto simp: mark_one_def Let_def frame_simps split: option.split)
  then have "w_stops (fold (mark_one env) js v) = w_stops v \<and> w_cancels (fold (mark_one env) js v) = w_cancels v" for js v
    by (induction js arbitrary: v) auto
  then show "w_stops (markStaleRunningJobs env w) = w_stops w" "w_cancels (markStaleRunningJobs env w) = w_cancels w"
    by (simp_all add: markStaleRunningJobs_def)
qed

lemma reread_hit:
  assumes "ids_ok w" "\<forall>s. e_up env s" "trim i = i" "job_at w i = Some j" "j_status j \<noteq> Running"
  shows "reread_reply env i ev ac w =
    (Reply 200 (normalizeJobForResponse env j), jobs_audit ev ac True i (markStaleRunningJobs env w))"
proof -
  have "job_at (markStaleRunningJobs env w) i = Some j"
    using at_mark [OF assms(1,2), of i] assms(4,5) by (simp add: timed_out_idle)
  moreover have "j_id j = i" using assms(4) by (rule tbl_get_key)
  ultimately show ?thesis using assms(2,3)
    by (simp add: reread_reply_def Get_def Let_def getForResponse_def getRaw_def sel_one_def
        normalizeJobForResponse_def)
qed

text \<open>An update of one row that leaves it in a status other than running, then the common tail.\<close>

lemma upd_reread:
  assumes "ids_ok w" "\<forall>s. e_up env s" "trim i = i" "job_at w i = Some j" "p j" "\<And>k. p k \<Longrightarrow> j_id k = i"
    "\<And>k. j_id (f k) = j_id k" "j_status (f j) \<noteq> Running"
  shows "\<exists>w'. (case upd_jobs True p f w of Inl e \<Rightarrow> (Fail n c, g e) | Inr w2 \<Rightarrow> reread_reply env i ev ac w2) =
      (Reply 200 (normalizeJobForResponse env (f j)), w') \<and> job_at w' i = Some (f j) \<and>
      (\<forall>k. k \<noteq> i \<longrightarrow> job_at w' k = map_option (timed_out env) (job_at w k)) \<and>
      ids_ok w' \<and> w_stops w' = w_stops w \<and> w_cancels w' = w_cancels w"
proof -
  let ?w2 = "w\<lparr>w_jobs := tbl_upd p f (w_jobs w)\<rparr>"
  have at: "job_at ?w2 k = map_option (\<lambda>r. if p r then f r else r) (job_at w k)" for k
    by (simp add: tbl_get_upd_all assms(7))
  have ok: "ids_ok ?w2" by (rule ids_ok_upd [OF assms(7,1)])
  have i: "job_at ?w2 i = Some (f j)" using at assms(4,5) by simp
  have other: "job_at ?w2 k = job_at w k" if "k \<noteq> i" for k
  proof (cases "job_at w k")
    case (Some r)
    then have "j_id r = k" by (rule tbl_get_key)
    with that assms(6) have "\<not> p r" by blast
    with at Some show ?thesis by simp
  next
    case None
    then show ?thesis unfolding at by simp
  qed
  note r = reread_hit [OF ok assms(2,3) i assms(8), of ev ac]
  have "job_at (markStaleRunningJobs env ?w2) i = Some (f j)"
    using at_mark [OF ok assms(2), of i] i assms(8) by (simp add: timed_out_idle)
  moreover have "job_at (markStaleRunningJobs env ?w2) k = map_option (timed_out env) (job_at w k)" if "k \<noteq> i" for k
    using at_mark [OF ok assms(2), of k] other [OF that] by simp
  moreover have "ids_ok (markStaleRunningJobs env ?w2)" by (rule ids_ok_mark [OF ok assms(2)])
  ultimately show ?thesis using r
    by (simp add: upd_jobs_def frame_simps)
qed

definition cancelled_job :: "jenv \<Rightarrow> job \<Rightarrow> job" where
  "cancelled_job env j = j\<lparr>j_status := Cancelled, j_progress := 100, j_message := ''Job cancelled'',
     j_error := [], j_finished := Some (e_now env), j_updated := Some (e_now env)\<rparr>"

lemma with_job_hit:
  assumes "\<forall>s. e_up env s" "trim i = i" "job_at w i = Some j"
  shows "with_job env i h w = h j w"
  using assms by (simp add: with_job_def getRaw_def sel_one_def)

lemma cancel_now_hit:
  assumes "ids_ok v" "\<forall>s. e_up env s" "trim i = i" "job_at v i = Some j" "j_id item = i"
  shows "\<exists>w'. cancel_now env item v = (Reply 200 (normalizeJobForResponse env (cancelled_job env j)), w') \<and>
     job_at w' i = Some (cancelled_job env j) \<and>
     (\<forall>k. k \<noteq> i \<longrightarrow> job_at w' k = map_option (timed_out env) (job_at v k)) \<and>
     ids_ok w' \<and> w_stops w' = w_stops v \<and> w_cancels w' = w_cancels v"
proof -
  let ?v = "cleanupJobPayload env item v"
  have v: "ids_ok ?v" "job_at ?v i = Some j" using assms by (simp_all add: frame_simps)
  have u: "updateCancelled env (j_id item) ''Job cancelled'' ?v = upd_jobs True (\<lambda>k. j_id k = i) (cancelled_job env) ?v"
    using assms(2,5) by (simp add: updateCancelled_def cancelled_job_def [abs_def])
  have "j_id j = i" using assms(4) by (rule tbl_get_key)
  then have "\<exists>w'. (case upd_jobs True (\<lambda>k. j_id k = i) (cancelled_job env) ?v of
      Inl _ \<Rightarrow> (Fail 500 ''JOB_CANCEL_FAILED'', jobs_audit ''job_cancel_failed'' ''cancel'' False (j_id item) ?v)
    | Inr w2 \<Rightarrow> reread_reply env i ''job_cancelled'' ''cancel'' w2) =
        (Reply 200 (normalizeJobForResponse env (cancelled_job env j)), w') \<and> job_at w' i = Some (cancelled_job env j) \<and>
      (\<forall>k. k \<noteq> i \<longrightarrow> job_at w' k = map_option (timed_out env) (job_at ?v k)) \<and>
      ids_ok w' \<and> w_stops w' = w_stops ?v \<and> w_cancels w' = w_cancels ?v"
    by (intro upd_reread [OF v(1) assms(2,3) v(2)]) (simp_all add: cancelled_job_def)
  then show ?thesis
    by (simp only: cancel_now_def Let_def u [unfolded assms(5)] assms(5) frame_simps)
qed

text \<open>
  A cancel request on an existing job, with the database up: a pending, paused or running job
  becomes cancelled, the reply shows it, no other job changes but by the heartbeat timeout, and a
  run that is under way is asked to stop with the reason cancel; a job that succeeded or failed is
  refused with 409 and nothing changes.
\<close>

theorem cancel_request:
  assumes "ids_ok w" "\<forall>s. e_up env s" "trim i = i" "job_at w i = Some j"
  shows "(j_status j \<in> {Pending, Paused, Running} \<longrightarrow>
      (\<exists>w'. HandleCancel env i w = (Reply 200 (normalizeJobForResponse env (cancelled_job env j)), w') \<and>
        job_at w' i = Some (cancelled_job env j) \<and>
        (\<forall>k. k \<noteq> i \<longrightarrow> job_at w' k = map_option (timed_out env) (job_at w k)) \<and>
        (j_status j = Running \<and> i \<in> set (w_cancels w) \<longrightarrow> w_stops w' i = Some StopCancel))) \<and>
    (j_status j \<in> {Success, Failed} \<longrightarrow> HandleCancel env i w = (Fail 409 ''JOB_NOT_CANCELLABLE'', w))"
proof -
  have jid: "j_id j = i" using assms(4) by (rule tbl_get_key)
  let ?s = "snd (requestRunningJobStop i StopCancel w)"
  have s: "ids_ok ?s" "job_at ?s k = job_at w k" for k using assms(1) by (simp_all add: frame_simps)
  have "w_stops ?s i = Some StopCancel" if "i \<in> set (w_cancels w)" using that by (simp add: requestRunningJobStop_def)
  then show ?thesis
    unfolding HandleCancel_def with_job_hit [OF assms(2-4)] cancel_act_def jid
    using cancel_now_hit [OF assms jid] cancel_now_hit [OF s(1) assms(2,3) _ jid] s(2) assms(4)
    by (cases "j_status j") auto
qed

definition paused_job :: "jenv \<Rightarrow> job \<Rightarrow> job" where
  "paused_job env j = j\<lparr>j_status := Paused, j_message := pausedStatusMessage (j_type j), j_error := [],
     j_updated := Some (e_now env)\<rparr>"

definition resumed_job :: "jenv \<Rightarrow> job \<Rightarrow> job" where
  "resumed_job env j = j\<lparr>j_status := Pending, j_progress := 0, j_message := pendingStatusMessage (j_type j),
     j_error := [], j_finished := None, j_updated := Some (e_now env)\<rparr>"

lemma pause_now_hit:
  assumes "ids_ok v" "\<forall>s. e_up env s" "trim i = i" "job_at v i = Some j" "j_id item = i"
    "j_type item = j_type j" "j_status j = Pending \<or> j_status j = Running"
  shows "\<exists>w'. pause_now env item v = (Reply 200 (normalizeJobForResponse env (paused_job env j)), w') \<and>
     job_at w' i = Some (paused_job env j) \<and>
     (\<forall>k. k \<noteq> i \<longrightarrow> job_at w' k = map_option (timed_out env) (job_at v k)) \<and>
     ids_ok w' \<and> w_stops w' = w_stops v \<and> w_cancels w' = w_cancels v"
proof -
  let ?p = "\<lambda>k. j_id k = i \<and> (j_status k = Pending \<or> j_status k = Running)"
  let ?f = "\<lambda>k. k\<lparr>j_status := Paused, j_message := pausedStatusMessage (j_type j), j_error := [], j_updated := Some (e_now env)\<rparr>"
  have "j_id j = i" using assms(4) by (rule tbl_get_key)
  then have "\<exists>w'. (case upd_jobs True ?p ?f v of
      Inl _ \<Rightarrow> (Fail 500 ''JOB_PAUSE_FAILED'', jobs_audit ''job_pause_failed'' ''pause'' False i v)
    | Inr w2 \<Rightarrow> reread_reply env i ''job_paused'' ''pause'' w2) =
        (Reply 200 (normalizeJobForResponse env (?f j)), w') \<and> job_at w' i = Some (?f j) \<and>
      (\<forall>k. k \<noteq> i \<longrightarrow> job_at w' k = map_option (timed_out env) (job_at v k)) \<and>
      ids_ok w' \<and> w_stops w' = w_stops v \<and> w_cancels w' = w_cancels v"
    using assms(7) by (intro upd_reread [OF assms(1-4)]) auto
  moreover have "e_up env SUpdate = True" using assms(2) by simp
  ultimately show ?thesis
    by (simp only: pause_now_def updatePaused_def paused_job_def assms(5,6))
qed

lemma resume_hit:
  assumes "ids_ok v" "\<forall>s. e_up env s" "trim i = i" "job_at v i = Some j" "j_status j = Paused"
    "ensureJobLocalCacheAvailable env j v"
  shows "\<exists>w'. HandleResume env i v = (Reply 200 (normalizeJobForResponse env (resumed_job env j)), w') \<and>
     job_at w' i = Some (resumed_job env j) \<and> ids_ok w' \<and> w_stops w' = w_stops v \<and> w_cancels w' = w_cancels v"
proof -
  let ?p = "\<lambda>k. j_id k = i \<and> j_status k = Paused"
  let ?f = "\<lambda>k. k\<lparr>j_status := Pending, j_progress := 0, j_message := pendingStatusMessage (j_type j),
     j_error := [], j_finished := None, j_updated := Some (e_now env)\<rparr>"
  have jid: "j_id j = i" using assms(4) by (rule tbl_get_key)
  then have "\<exists>w'. (case upd_jobs True ?p ?f v of
      Inl _ \<Rightarrow> (Fail 500 ''JOB_RESUME_FAILED'', jobs_audit ''job_resume_failed'' ''resume'' False i v)
    | Inr w2 \<Rightarrow> reread_reply env i ''job_resumed'' ''resume'' w2) =
        (Reply 200 (normalizeJobForResponse env (?f j)), w') \<and> job_at w' i = Some (?f j) \<and>
      (\<forall>k. k \<noteq> i \<longrightarrow> job_at w' k = map_option (timed_out env) (job_at v k)) \<and>
      ids_ok w' \<and> w_stops w' = w_stops v \<and> w_cancels w' = w_cancels v"
    using assms(5) by (intro upd_reread [OF assms(1-4)]) auto
  then show ?thesis
    using assms(2,5,6) jid unfolding HandleResume_def with_job_hit [OF assms(2-4)]
    by (simp add: resume_act_def updateResume_def resumed_job_def) blast
qed

section \<open>Races with the worker\<close>

lemma interrupted_pause:
  assumes "held (Busy r) = Some item" "w_stops w (j_id item) = Some StopPause" "e_up env SUpdate"
    "job_at w (j_id item) = Some j" "j_status j = Pending \<or> j_status j = Running"
  shows "map_option j_status (job_at (end_job env r Interrupted snap w) (j_id item)) = Some Paused"
proof -
  have jid: "j_id j = j_id item" using assms(4) by (rule tbl_get_key)
  have eq: "end_job env r Interrupted snap w =
      (let w1 = snd (unregisterRunningJob (j_id item) w) in
       ign w1 (updatePaused env (j_id item) (pausedStatusMessage (case r of Uploading _ _ \<Rightarrow> CloudSync | Snapshotting _ _ \<Rightarrow> AutoSnapshot)) w1))"
    using assms(1,2) by (cases r; cases snap)
      (auto simp: runCloudSync_end_def runAutoSnapshot_end_def unregisterRunningJob_def Let_def)
  show ?thesis
    using assms(3-5) jid unfolding eq Let_def updatePaused_def ign_def upd_jobs_def
    by (simp add: tbl_get_upd_all frame_simps)
qed

text \<open>
  C6: A resume can be lost.  A running job is paused, and resumed before its upload or snapshot has
  stopped; both requests succeed and the resume reports the job as pending.  When the interrupted run
  then returns, the worker acts on the old stop reason and the job is paused again.
\<close>

theorem resume_undone_by_worker:
  assumes "ids_ok w" "\<forall>s. e_up env s" "trim i = i" "job_at w i = Some j" "j_status j = Running"
    "i \<in> set (w_cancels w)" "held (Busy r) = Some item" "j_id item = i"
    "HandlePause env i w = (p, w1)" "ensureJobLocalCacheAvailable env (paused_job env j) w1"
    "HandleResume env i w1 = (q, w2)"
  shows "q = Reply 200 (normalizeJobForResponse env (resumed_job env (paused_job env j))) \<and>
    map_option j_status (job_at w2 i) = Some Pending \<and>
    map_option j_status (job_at (end_job env r Interrupted snap w2) i) = Some Paused"
proof -
  have jid: "j_id j = i" using assms(4) by (rule tbl_get_key)
  let ?s = "snd (requestRunningJobStop i StopPause w)"
  have s: "ids_ok ?s" "job_at ?s i = Some j" "w_stops ?s i = Some StopPause"
    using assms(1,4) by (simp_all only: frame_simps) (simp add: requestRunningJobStop_def assms(6))
  from pause_now_hit [OF s(1) assms(2,3) s(2) jid refl] assms(5) have
    w1: "job_at w1 i = Some (paused_job env j)" "ids_ok w1" "w_stops w1 i = Some StopPause"
    using assms(9) s(3) unfolding HandlePause_def with_job_hit [OF assms(2-4)] pause_act_def jid by auto
  have ps: "j_status (paused_job env j) = Paused" by (simp add: paused_job_def)
  from resume_hit [OF w1(2) assms(2,3) w1(1) ps assms(10)] assms(11) w1(3) have
    w2: "q = Reply 200 (normalizeJobForResponse env (resumed_job env (paused_job env j)))"
      "job_at w2 i = Some (resumed_job env (paused_job env j))" "w_stops w2 i = Some StopPause" by auto
  have "map_option j_status (job_at (end_job env r Interrupted snap w2) i) = Some Paused"
    using interrupted_pause [OF assms(7), of w2 env "resumed_job env (paused_job env j)" snap] w2(2,3) assms(2,8)
    by (simp add: resumed_job_def)
  with w2 show ?thesis by (simp add: resumed_job_def)
qed

text \<open>
  Deleting a running upload that completes anyway leaks its cache file.  The delete request
  leaves the file to the worker, and the worker, which finds no row, returns without removing it.
\<close>

theorem delete_leaks_cache:
  assumes "\<forall>s. e_up env s" "trim i = i" "job_at w i = Some j" "j_status j = Running"
    "i \<in> set (w_cancels w)" "j_id item = i" "HandleDelete env i w = (q, w1)"
  shows "q = Reply 200 i \<and> job_at w1 i = None \<and>
    job_at (runCloudSync_end env item p Completed w1) i = None \<and>
    w_files (runCloudSync_end env item p Completed w1) = w_files w"
proof -
  have jid: "j_id j = i" using assms(3) by (rule tbl_get_key)
  let ?v = "w\<lparr>w_stops := (w_stops w)(i \<mapsto> StopDelete)\<rparr>"
  have w1: "q = Reply 200 i" "w1 = jobs_audit ''job_deleted'' ''delete'' True i (?v\<lparr>w_jobs := tbl_del (\<lambda>j. j_id j = i) (w_jobs w)\<rparr>)"
    using assms(7,1,2,4,5) jid unfolding HandleDelete_def with_job_hit [OF assms(1-3)]
    by (auto simp: delete_act_def requestRunningJobStop_def deleteJob_def)
  have gone: "job_at w1 i = None" unfolding w1(2) by (simp add: frame_simps tbl_get_del)
  have f: "w_files w1 = w_files w" unfolding w1(2) by (simp add: jobs_audit_def note_audit_def)
  let ?u = "snd (unregisterRunningJob i w1)"
  have "currentJobStatus env i ?u = None"
    using gone assms(1,2) by (simp add: currentJobStatus_def getRaw_def sel_one_def frame_simps)
  then have "runCloudSync_end env item p Completed w1 = ?u"
    using assms(6) by (simp add: runCloudSync_end_def unregisterRunningJob_def Let_def)
  then show ?thesis using w1(1) gone f by (simp add: frame_simps) (simp add: unregisterRunningJob_def)
qed

text \<open>
  A cancel request that has read a running job overwrites the success the worker records before
  the request acts: the row that said success says cancelled, since \<open>updateCancelled\<close>, alone among
  the status updates, has no status in its condition.
\<close>

theorem cancel_overwrites_success:
  assumes "ids_ok w" "\<forall>s. e_up env s" "trim i = i" "j_id item = i" "j_status item = Running"
    "job_at w i = Some j" "j_status j = Success"
  shows "\<exists>w'. cancel_act env item w = (Reply 200 (normalizeJobForResponse env (cancelled_job env j)), w') \<and>
    job_at w' i = Some (cancelled_job env j)"
proof -
  let ?s = "snd (requestRunningJobStop i StopCancel w)"
  have s: "ids_ok ?s" "job_at ?s i = Some j" using assms(1,6) by (simp_all add: frame_simps)
  from cancel_now_hit [OF s(1) assms(2,3) s(2) assms(4)] show ?thesis
    using assms(4,5) by (auto simp: cancel_act_def)
qed

end
