(* ===== verification/Jobs_Witnesses.thy ===== *)
theory Jobs_Witnesses
  imports Jobs_Races
begin

text \<open>The properties of the job queue at concrete states.\<close>

definition demo_env :: jenv where
  "demo_env = \<lparr>e_now = 1000, e_zone = fixed_zone 0, e_id = (\<lambda>k. CHR ''n'' # k), e_up = (\<lambda>_. True),
     e_rm = (\<lambda>_. True), e_open = (\<lambda>_. True), e_err = [], e_reps = []\<rparr>"

definition demo_job :: "string \<Rightarrow> status \<Rightarrow> int \<Rightarrow> job" where
  "demo_job i st u = \<lparr>j_id = i, j_type = AutoSnapshot, j_status = st, j_title = ''t'', j_storage = ''p'',
     j_rtype = ''storage_pool'', j_resource = ''p'', j_progress = 0, j_message = [], j_error = [],
     j_payload = SnapP \<lparr>ap_pool = ''p'', ap_schedule = ''1''\<rparr>, j_result = [], j_created = u,
     j_updated = Some u, j_started = None, j_finished = None\<rparr>"

definition demo_pool :: pool where
  "demo_pool = \<lparr>sp_id = ''p'', sp_storage = ''s'', sp_name = ''pool'', sp_fs = ''btrfs'', sp_raid = ''raid1'',
     sp_mount = ''/m'', sp_data = ''/m'', sp_auto = True, sp_schedule = ''1'', sp_last = None,
     sp_next = Some 500, sp_cache = [], sp_read_speed = 0, sp_write_speed = 0, sp_tested = None,
     sp_created = 0, sp_updated = None\<rparr>"

definition demo_world :: "job list \<Rightarrow> jworld" where
  "demo_world js = \<lparr>w_jobs = js, w_pools = [demo_pool], w_storages = [], w_cancels = [''a''],
     w_stops = Map.empty, w_files = [''/c/f''], w_audit = []\<rparr>"

definition demo_mach :: "job list \<Rightarrow> mach" where
  "demo_mach js = \<lparr>m_world = demo_world js, m_worker = Idle, m_reqs = []\<rparr>"

lemmas demo_defs = demo_env_def demo_job_def demo_pool_def demo_world_def demo_mach_def

lemma demo_up [simp]: "e_up demo_env s"
  by (simp add: demo_env_def)

lemma demo_zone: "local_zone (e_zone demo_env)"
  by (simp add: demo_env_def fixed.local_zone_axioms)

lemma trim_a [simp]: "trim ''a'' = ''a''"
  by (simp add: trim_def is_space_def)

lemma demo_ids: "ids_ok (demo_world [demo_job ''a'' st u])"
  by (simp add: ids_ok_def demo_defs)

lemma demo_at: "job_at (demo_world [demo_job ''a'' st u]) ''a'' = Some (demo_job ''a'' st u)"
  by (simp add: demo_defs)

theorem job_status_edges_witness:
  "(Running, Failed) \<in> (allowed (LStale demo_env))\<^sup>="
proof -
  let ?m = "demo_mach [demo_job ''a'' Running 0]"
  let ?m' = "?m\<lparr>m_world := markStaleRunningJobs demo_env (m_world ?m)\<rparr>"
  have at: "job_at (m_world ?m') ''a'' = Some (fail_stale demo_env (demo_job ''a'' Running 0) (demo_job ''a'' Running 0))"
    using at_mark [OF demo_ids [of Running 0], where env = demo_env and i = "''a''"]
    by (simp add: demo_at demo_mach_def timed_out_def) (simp add: is_stale_def stale_after_def demo_defs)
  have "job_at (m_world ?m) ''a'' = Some (demo_job ''a'' Running 0)" by (simp add: demo_mach_def demo_at)
  from job_status_edges [OF stale this at] show ?thesis by (simp add: demo_job_def fail_stale_def)
qed

theorem one_running_job_witness:
  "\<exists>item. held (Claimed (claimed demo_env (demo_job ''a'' Pending 0) (demo_job ''a'' Pending 0))) = Some item \<and> j_id item = ''a''"
proof -
  define e where "e = demo_env\<lparr>e_id := \<lambda>_. ''a''\<rparr>"
  define j where "j = demo_job ''a'' Pending 0"
  define m where "m = demo_mach [j]"
  define w where "w = (m_world m)\<lparr>w_jobs := [claimed e j j]\<rparr>"
  define m' where "m' = m\<lparr>m_world := w, m_worker := Claimed (claimed e j j)\<rparr>"
  have "claimNextPendingJob e (m_world m) = (Some (claimed e j j), w)"
    by (simp add: claimNextPendingJob_def oldest_pending_def m_def j_def w_def e_def demo_defs tbl_rows_def)
  then have "step (LClaim e) m m'" unfolding m'_def by (intro claim) (simp_all add: m_def demo_mach_def)
  then have r: "run m [LClaim e] m'" using run_snoc [OF run_nil, of "LClaim e" m m'] by simp
  have s: "sound_env e" by (simp add: sound_env_def e_def demo_env_def)
  have "\<exists>item. held (m_worker m') = Some item \<and> j_id item = ''a''"
  proof (rule one_running_job [OF r, where i = "''a''" and j = "claimed e j j"])
    show "m_worker m = Idle" by (simp add: m_def demo_mach_def)
    show "\<forall>i k. job_at (m_world m) i = Some k \<longrightarrow> trim i = i \<and> j_status k \<noteq> Running"
      by (auto simp: m_def j_def demo_defs)
    show "\<forall>a\<in>set [LClaim e]. sound_label a" using s by (simp add: sound_label_def)
  qed (simp_all add: m'_def w_def j_def claimed_def demo_job_def)
  then show ?thesis by (simp add: m'_def j_def e_def claimed_def demo_job_def)
qed

theorem claim_is_fifo_witness:
  "claimNextPendingJob demo_env (demo_world [demo_job ''a'' Pending 7, demo_job ''b'' Pending 3]) =
     (Some (claimed demo_env (demo_job ''b'' Pending 3) (demo_job ''b'' Pending 3)),
      (demo_world [demo_job ''a'' Pending 7, demo_job ''b'' Pending 3])
        \<lparr>w_jobs := [demo_job ''a'' Pending 7, claimed demo_env (demo_job ''b'' Pending 3) (demo_job ''b'' Pending 3)]\<rparr>)"
proof -
  let ?a = "demo_job ''a'' Pending 7" and ?b = "demo_job ''b'' Pending 3"
  have t: "w_jobs (demo_world [?a, ?b]) = [?a, ?b]" "distinct (map j_id [?a, ?b])" "j_created ?a = 7" "j_created ?b = 3"
    "j_status ?a = Pending" "j_status ?b = Pending" by (simp_all add: demo_defs)
  from claim_is_fifo [of "demo_world [?a, ?b]" demo_env] t show ?thesis
    by (auto simp: Cons_eq_append_conv demo_env_def)
qed

theorem stale_exactly_witness:
  "w_jobs (markStaleRunningJobs demo_env (demo_world [demo_job ''a'' Running 700])) =
     [timed_out demo_env (demo_job ''a'' Running 700)]"
  using stale_exactly [of "demo_world [demo_job ''a'' Running 700]" demo_env]
  by (simp add: demo_world_def timed_out_def is_stale_def stale_after_def fail_stale_def demo_job_def)

theorem scheduler_no_duplicates_witness:
  "\<exists>w'. enqueueDueAutoSnapshotJobs demo_env (demo_world [demo_job ''a'' Pending 0]) = Some w' \<and>
    active_snaps ''p'' w' = 1"
proof -
  have a: "active_snaps ''p'' (demo_world [demo_job ''a'' Pending 0]) = 1"
    by (simp add: active_snaps_def tbl_rows_def demo_world_def demo_job_def)
  from scheduler_no_duplicates [OF demo_zone, of "demo_world [demo_job ''a'' Pending 0]"] obtain w' where
    w': "enqueueDueAutoSnapshotJobs demo_env (demo_world [demo_job ''a'' Pending 0]) = Some w'"
    "active_snaps ''p'' w' = active_snaps ''p'' (demo_world [demo_job ''a'' Pending 0]) \<or>
     active_snaps ''p'' (demo_world [demo_job ''a'' Pending 0]) = 0 \<and> active_snaps ''p'' w' = 1" by blast
  with a show ?thesis by auto
qed


theorem pages_partition_witness:
  "concat (map (\<lambda>p. page_items demo_env \<lparr>q_page = 1, q_size = 1, q_status = [], q_search = []\<rparr> (demo_world []) (int p))
     [1..<Suc (nat (page_count demo_env \<lparr>q_page = 1, q_size = 1, q_status = [], q_search = []\<rparr> (demo_world [])))]) =
   map (list_item_of demo_env (pool_names demo_env (demo_world [])))
     (listed demo_env \<lparr>q_page = 1, q_size = 1, q_status = [], q_search = []\<rparr> (demo_world []))"
  by (rule pages_partition) (simp_all add: demo_world_def)

theorem cancel_request_witness:
  "\<exists>w'. HandleCancel demo_env ''a'' (demo_world [demo_job ''a'' Running 900]) =
     (Reply 200 (normalizeJobForResponse demo_env (cancelled_job demo_env (demo_job ''a'' Running 900))), w') \<and>
     w_stops w' ''a'' = Some StopCancel"
proof -
  have "j_status (demo_job ''a'' Running 900) = Running" "''a'' \<in> set (w_cancels (demo_world [demo_job ''a'' Running 900]))"
    by (simp_all add: demo_job_def demo_world_def)
  with cancel_request [OF demo_ids _ trim_a demo_at, of demo_env Running 900] show ?thesis by auto
qed

theorem resume_undone_by_worker_witness:
  "map_option j_status (job_at (end_job demo_env (Snapshotting (demo_job ''a'' Running 900) demo_pool) Interrupted ([], [], [])
     (snd (HandleResume demo_env ''a'' (snd (HandlePause demo_env ''a'' (demo_world [demo_job ''a'' Running 900])))))) ''a'') = Some Paused"
proof -
  have r: "j_status (demo_job ''a'' Running 900) = Running" by (simp add: demo_job_def)
  have c: "''a'' \<in> set (w_cancels (demo_world [demo_job ''a'' Running 900]))" by (simp add: demo_world_def)
  have h: "held (Busy (Snapshotting (demo_job ''a'' Running 900) demo_pool)) = Some (demo_job ''a'' Running 900)" by simp
  have i: "j_id (demo_job ''a'' Running 900) = ''a''" by (simp add: demo_job_def)
  have e: "ensureJobLocalCacheAvailable demo_env (paused_job demo_env (demo_job ''a'' Running 900)) w" for w
    by (simp add: ensureJobLocalCacheAvailable_def paused_job_def demo_job_def)
  have "\<forall>s. e_up demo_env s" by simp
  from resume_undone_by_worker [OF demo_ids this trim_a demo_at r c h i
      surjective_pairing [of "HandlePause _ _ _"] e surjective_pairing [of "HandleResume _ _ _"]]
  show ?thesis by blast
qed

theorem delete_leaks_cache_witness:
  "w_files (runCloudSync_end demo_env (demo_job ''a'' Running 900)
      \<lparr>cp_local = ''/c/f'', cp_target = ''/t'', cp_ctype = [], cp_file = ''f''\<rparr> Completed
      (snd (HandleDelete demo_env ''a'' (demo_world [demo_job ''a'' Running 900])))) = [''/c/f'']"
proof -
  have r: "j_status (demo_job ''a'' Running 900) = Running" by (simp add: demo_job_def)
  have c: "''a'' \<in> set (w_cancels (demo_world [demo_job ''a'' Running 900]))" by (simp add: demo_world_def)
  have i: "j_id (demo_job ''a'' Running 900) = ''a''" by (simp add: demo_job_def)
  have "\<forall>s. e_up demo_env s" by simp
  from delete_leaks_cache [OF this trim_a demo_at r c i surjective_pairing [of "HandleDelete _ _ _"]]
  show ?thesis by (simp add: demo_world_def)
qed

theorem cancel_overwrites_success_witness:
  "\<exists>w'. cancel_act demo_env (demo_job ''a'' Running 900) (demo_world [demo_job ''a'' Success 900]) =
     (Reply 200 (normalizeJobForResponse demo_env (cancelled_job demo_env (demo_job ''a'' Success 900))), w') \<and>
     map_option j_status (job_at w' ''a'') = Some Cancelled"
proof -
  have "j_id (demo_job ''a'' Running 900) = ''a''" "j_status (demo_job ''a'' Running 900) = Running"
    "j_status (demo_job ''a'' Success 900) = Success" "\<forall>s. e_up demo_env s" by (simp_all add: demo_job_def)
  from cancel_overwrites_success [OF demo_ids this(4) trim_a this(1,2) demo_at this(3)] show ?thesis
    by (auto simp: cancelled_job_def)
qed

end
