(* ===== verification/Passwords.thy ===== *)
theory Passwords
  imports Base64 "HOL-Library.Word"
begin

text \<open>
  Password hashes: internal/users/password.go.  The function \<open>hmac\<close> is HMAC-SHA-256 of Go's
  standard library, a parameter; the model relies on its result being 32 bytes long.  The salt
  is what \<open>rand.Read\<close> delivered, or \<open>None\<close> when it failed.
\<close>

type_synonym hmac_fun = "string \<Rightarrow> string \<Rightarrow> string"

definition passwordHashPrefix :: string where "passwordHashPrefix = ''yesnas_pbkdf2_sha256''"
definition passwordIterations :: nat where "passwordIterations = 120000"
definition passwordKeyBytes :: nat where "passwordKeyBytes = 32"
definition hash_size :: nat where "hash_size = 32"

definition dollar :: char where "dollar = CHR ''$''"

section \<open>PBKDF2\<close>

definition xor_byte :: "char \<Rightarrow> char \<Rightarrow> char" where
  "xor_byte a b = char_of (unat (xor (of_char a :: 8 word) (of_char b)))"

definition xor_bytes :: "string \<Rightarrow> string \<Rightarrow> string" where
  "xor_bytes t u = map (\<lambda>(a, b). xor_byte a b) (zip t u)"

definition block_index :: "nat \<Rightarrow> string" where
  "block_index b = [char_of (b div 16777216 mod 256), char_of (b div 65536 mod 256),
     char_of (b div 256 mod 256), char_of (b mod 256)]"

text \<open>The inner loop: \<open>n\<close> further iterations over \<open>u\<close> and the accumulator \<open>t\<close>.\<close>

fun pbkdf2_loop :: "hmac_fun \<Rightarrow> string \<Rightarrow> nat \<Rightarrow> string \<Rightarrow> string \<Rightarrow> string" where
  "pbkdf2_loop hmac pw 0 u t = t"
| "pbkdf2_loop hmac pw (Suc n) u t =
     (let u' = hmac pw u in pbkdf2_loop hmac pw n u' (xor_bytes t u'))"

definition pbkdf2_block :: "hmac_fun \<Rightarrow> string \<Rightarrow> string \<Rightarrow> nat \<Rightarrow> nat \<Rightarrow> string" where
  "pbkdf2_block hmac pw salt iterations block =
     (let u = hmac pw (salt @ block_index block) in pbkdf2_loop hmac pw (iterations - 1) u u)"

definition pbkdf2SHA256 :: "hmac_fun \<Rightarrow> string \<Rightarrow> string \<Rightarrow> nat \<Rightarrow> nat \<Rightarrow> string" where
  "pbkdf2SHA256 hmac pw salt iterations keyLen =
     (let numBlocks = (keyLen + hash_size - 1) div hash_size in
      take keyLen (concat (map (pbkdf2_block hmac pw salt iterations) [1..<numBlocks + 1])))"

section \<open>Encoding\<close>

text \<open>\<open>strconv.Atoi\<close>: an optional sign and digits only, within 64 bits.\<close>

definition digit_val :: "char \<Rightarrow> int option" where
  "digit_val c = (if 48 \<le> (of_char c :: nat) \<and> (of_char c :: nat) \<le> 57 then Some (of_char c - 48) else None)"

fun digits_int :: "string \<Rightarrow> int \<Rightarrow> int option" where
  "digits_int [] v = Some v"
| "digits_int (c # cs) v = (case digit_val c of None \<Rightarrow> None | Some d \<Rightarrow> digits_int cs (10 * v + d))"

definition Atoi :: "string \<Rightarrow> int option" where
  "Atoi s =
     (let neg = (s \<noteq> [] \<and> hd s = CHR ''-'');
          ds = (if s \<noteq> [] \<and> (hd s = CHR ''-'' \<or> hd s = CHR ''+'') then tl s else s) in
      if ds = [] then None
      else (case digits_int ds 0 of
              None \<Rightarrow> None
            | Some v \<Rightarrow>
                (let r = (if neg then - v else v) in
                 if - (2 ^ 63) \<le> r \<and> r < 2 ^ 63 then Some r else None)))"

definition hashPassword :: "hmac_fun \<Rightarrow> string option \<Rightarrow> string \<Rightarrow> string option" where
  "hashPassword hmac salt password =
     (if trim password = [] then None
      else (case salt of
              None \<Rightarrow> None
            | Some sl \<Rightarrow>
                (let key = pbkdf2SHA256 hmac password sl passwordIterations passwordKeyBytes in
                 Some (join_with [dollar]
                   [passwordHashPrefix, ''120000'', b64_enc std_alphabet False sl,
                    b64_enc std_alphabet False key]))))"

definition verifyPassword :: "hmac_fun \<Rightarrow> string \<Rightarrow> string \<Rightarrow> bool" where
  "verifyPassword hmac password encoded =
     (case split_on dollar encoded of
        [p0, p1, p2, p3] \<Rightarrow>
          if p0 \<noteq> passwordHashPrefix then False
          else (case Atoi p1 of
                  None \<Rightarrow> False
                | Some iterations \<Rightarrow>
                    if iterations \<le> 0 then False
                    else (case b64_dec std_alphabet False p2 of
                            None \<Rightarrow> False
                          | Some salt \<Rightarrow>
                              (case b64_dec std_alphabet False p3 of
                                 None \<Rightarrow> False
                               | Some expected \<Rightarrow>
                                   pbkdf2SHA256 hmac password salt (nat iterations) (length expected) = expected)))
      | _ \<Rightarrow> False)"

section \<open>Round trip\<close>

lemma length_xor_bytes [simp]: "length (xor_bytes t u) = min (length t) (length u)"
  by (simp add: xor_bytes_def)

lemma length_pbkdf2_loop:
  "(\<And>k m. length (hmac k m) = hash_size) \<Longrightarrow> length u = hash_size \<Longrightarrow> length t = hash_size \<Longrightarrow>
    length (pbkdf2_loop hmac pw n u t) = hash_size"
  by (induction n arbitrary: u t) (simp_all add: Let_def)

lemma length_pbkdf2:
  assumes "\<And>k m. length (hmac k m) = hash_size"
  shows "length (pbkdf2SHA256 hmac pw salt it n) = n"
proof -
  let ?m = "(n + hash_size - 1) div hash_size"
  have b: "length (pbkdf2_block hmac pw salt it i) = hash_size" for i
    by (simp add: pbkdf2_block_def Let_def length_pbkdf2_loop assms)
  have "length (concat (map (pbkdf2_block hmac pw salt it) [1..<?m + 1])) = ?m * hash_size"
    by (simp add: length_concat b comp_def sum_list_triv)
  moreover have "n \<le> ?m * hash_size"
  proof -
    have "(n + hash_size - 1) div hash_size * hash_size + (n + hash_size - 1) mod hash_size = n + hash_size - 1"
      by simp
    moreover have "(n + hash_size - 1) mod hash_size < hash_size" by (simp add: hash_size_def)
    ultimately show ?thesis by linarith
  qed
  ultimately show ?thesis by (simp add: pbkdf2SHA256_def Let_def)
qed

lemma std_ok: "alphabet_ok std_alphabet"
  by simp

lemma dollar_free:
  "dollar \<notin> set passwordHashPrefix" "dollar \<notin> set ''120000''" "dollar \<notin> set (b64_enc std_alphabet False s)"
proof -
  show "dollar \<notin> set passwordHashPrefix" "dollar \<notin> set ''120000''"
    by (simp_all add: dollar_def passwordHashPrefix_def)
  have "dollar \<notin> set std_alphabet \<union> {CHR ''=''}" by (simp add: dollar_def std_alphabet_def)
  then show "dollar \<notin> set (b64_enc std_alphabet False s)" using set_b64_enc [OF std_ok, of False s] by blast
qed

lemma Atoi_iterations: "Atoi ''120000'' = Some 120000"
  by (simp add: Atoi_def digit_val_def)

lemma verify_hash:
  assumes "hashPassword hmac (Some salt) pw = Some h" "\<And>k m. length (hmac k m) = hash_size"
  shows "verifyPassword hmac pw' h \<longleftrightarrow>
    pbkdf2SHA256 hmac pw' salt passwordIterations passwordKeyBytes =
    pbkdf2SHA256 hmac pw salt passwordIterations passwordKeyBytes"
proof -
  let ?key = "pbkdf2SHA256 hmac pw salt passwordIterations passwordKeyBytes"
  have h: "h = join_with [dollar] [passwordHashPrefix, ''120000'', b64_enc std_alphabet False salt,
      b64_enc std_alphabet False ?key]"
    using assms(1) by (simp add: hashPassword_def Let_def split: if_splits)
  have "split_on dollar h = [passwordHashPrefix, ''120000'', b64_enc std_alphabet False salt,
      b64_enc std_alphabet False ?key]"
    unfolding h by (rule split_join) (use dollar_free in auto)
  then show ?thesis
    by (simp add: verifyPassword_def Atoi_iterations b64_dec_enc std_ok length_pbkdf2 [OF assms(2)]
        passwordIterations_def)
qed

end
