(* ===== verification/Users.thy ===== *)
theory Users
  imports Passwords Stores "HOL-Library.List_Lexorder" "HOL-Library.Char_ord"
begin

text \<open>
  Users and groups: internal/users/store.go and internal/users/handler.go over the tables
  \<open>users\<close>, \<open>groups\<close>, \<open>user_groups\<close> and \<open>user_sessions\<close> (whose rows go with their user).

  A function that can fail returns an error or its result, and a function that changes tables
  returns the world beside it, since a failure can come after a change.  The environment record
  holds the clock, fresh identifiers, the salt and token bytes of \<open>crypto/rand\<close>,
  HMAC-SHA-256 and the hex digest of SHA-256, the users of the operating system and which statements fail.
\<close>

record user =
  us_id :: string
  us_name :: string
  us_display :: string
  us_admin :: bool
  us_avatar :: string
  us_hash :: string
  us_status :: string
  us_created :: int
  us_updated :: "int option"

record group =
  gr_id :: string
  gr_name :: string
  gr_description :: string
  gr_created :: int
  gr_updated :: "int option"

record session =
  se_id :: string
  se_user :: string
  se_hash :: string
  se_status :: string
  se_ip :: string
  se_agent :: string
  se_created :: int
  se_updated :: int
  se_expires :: "int option"
  se_seen :: "int option"
  se_out :: "int option"

record uworld =
  u_users :: "user list"
  u_groups :: "group list"
  u_members :: "(string \<times> string) list"
  u_sessions :: "session list"
  u_audit :: "audit list"

record actor =
  ac_id :: string
  ac_name :: string
  ac_display :: string
  ac_admin :: bool

datatype usite =
    UList | UGet | UReget | UHydrate | UInsert | UUpdate | UDelete | UGroupCheck | UGroupTx
  | UCount | UGroups | UGroupGet | UGroupReget | USession | URevoke | ULookup

record uenv =
  ue_now :: int
  ue_id :: string
  ue_up :: "usite \<Rightarrow> bool"
  ue_salt :: "string option"
  ue_hmac :: hmac_fun
  ue_sha :: "string \<Rightarrow> string"
  ue_rand :: "string option"
  ue_os :: "string \<Rightarrow> bool"

datatype uerr = UDb db_err | UInvalid

definition StatusActive :: string where "StatusActive = ''enabled''"
definition StatusDisabled :: string where "StatusDisabled = ''disabled''"

section \<open>Names\<close>

definition is_alpha :: "char \<Rightarrow> bool" where
  "is_alpha c \<longleftrightarrow> (65 \<le> (of_char c :: nat) \<and> (of_char c :: nat) \<le> 90) \<or> (97 \<le> (of_char c :: nat) \<and> (of_char c :: nat) \<le> 122)"

definition is_num :: "char \<Rightarrow> bool" where
  "is_num c \<longleftrightarrow> 48 \<le> (of_char c :: nat) \<and> (of_char c :: nat) \<le> 57"

definition usernamePattern :: "string \<Rightarrow> bool" where
  "usernamePattern s \<longleftrightarrow> 2 \<le> length s \<and> length s \<le> 32 \<and> is_alpha (hd s) \<and>
     (\<forall>c\<in>set (tl s). is_alpha c \<or> is_num c \<or> c = CHR ''_'' \<or> c = CHR ''-'')"

definition reservedSystemUsernames :: "string list" where
  "reservedSystemUsernames = [
     ''adm'', ''admin'', ''apache'', ''backup'', ''bin'', ''daemon'', ''dbus'', ''ftp'', ''games'', ''gnats'',
     ''irc'', ''list'', ''lp'', ''mail'', ''man'', ''messagebus'', ''mysql'', ''news'', ''nobody'', ''nogroup'',
     ''operator'', ''postgres'', ''proxy'', ''root'', ''sshd'', ''sync'', ''sys'', ''systemd-coredump'',
     ''systemd-network'', ''systemd-resolve'', ''systemd-timesync'', ''uucp'', ''www-data'']"

definition normalizeUsername :: "string \<Rightarrow> string" where
  "normalizeUsername v = to_lower (trim v)"

definition normalizeAvatar :: "string \<Rightarrow> string" where
  "normalizeAvatar v = trim v"

definition validateUsername :: "uenv \<Rightarrow> string \<Rightarrow> bool" where
  "validateUsername env n \<longleftrightarrow> usernamePattern n \<and> n \<notin> set reservedSystemUsernames \<and> \<not> ue_os env n"

section \<open>Reading\<close>

text \<open>A user with its groups, ordered by name without case.\<close>

type_synonym user_view = "user \<times> group list"

definition hydrateUser :: "uenv \<Rightarrow> user \<Rightarrow> uworld \<Rightarrow> uerr + user_view" where
  "hydrateUser env u w =
     (if \<not> ue_up env UHydrate then Inl (UDb DbFail)
      else Inr (u, sort_key (\<lambda>g. to_lower (gr_name g))
                     (filter (\<lambda>g. (us_id u, gr_id g) \<in> set (u_members w)) (u_groups w))))"

fun hydrateUsers :: "uenv \<Rightarrow> user list \<Rightarrow> uworld \<Rightarrow> uerr + user_view list" where
  "hydrateUsers env [] w = Inr []"
| "hydrateUsers env (u # us) w =
     (case hydrateUser env u w of
        Inl e \<Rightarrow> Inl e
      | Inr v \<Rightarrow> (case hydrateUsers env us w of Inl e \<Rightarrow> Inl e | Inr vs \<Rightarrow> Inr (v # vs)))"

definition users_List :: "uenv \<Rightarrow> uworld \<Rightarrow> uerr + user_view list" where
  "users_List env w =
     (if \<not> ue_up env UList then Inl (UDb DbFail)
      else hydrateUsers env (order_desc us_created (u_users w)) w)"

definition users_Get :: "uenv \<Rightarrow> usite \<Rightarrow> string \<Rightarrow> uworld \<Rightarrow> uerr + user_view" where
  "users_Get env s i w =
     (case sel_one (ue_up env s) us_id (trim i) (u_users w) of
        Inl e \<Rightarrow> Inl (UDb e)
      | Inr u \<Rightarrow> hydrateUser env u w)"

definition GetByUsername :: "uenv \<Rightarrow> string \<Rightarrow> uworld \<Rightarrow> uerr + user_view" where
  "GetByUsername env n w =
     (case sel_one (ue_up env UGet) us_name (normalizeUsername n) (u_users w) of
        Inl e \<Rightarrow> Inl (UDb e)
      | Inr u \<Rightarrow> hydrateUser env u w)"

fun ListByIDs :: "uenv \<Rightarrow> string list \<Rightarrow> uworld \<Rightarrow> uerr + user_view list" where
  "ListByIDs env [] w = Inr []"
| "ListByIDs env (i # is) w =
     (case users_Get env UGet i w of
        Inl e \<Rightarrow> Inl e
      | Inr v \<Rightarrow> (case ListByIDs env is w of Inl e \<Rightarrow> Inl e | Inr vs \<Rightarrow> Inr (v # vs)))"

definition is_disabled :: "string \<Rightarrow> bool" where
  "is_disabled s \<longleftrightarrow> equal_fold (trim s) StatusDisabled"

definition Authenticate :: "uenv \<Rightarrow> string \<Rightarrow> string \<Rightarrow> uworld \<Rightarrow> uerr + user_view" where
  "Authenticate env n pw w =
     (case GetByUsername env n w of
        Inl e \<Rightarrow> Inl e
      | Inr (u, gs) \<Rightarrow>
          if is_disabled (us_status u) then Inl UInvalid
          else if \<not> verifyPassword (ue_hmac env) pw (us_hash u) then Inl UInvalid
          else Inr (u, gs))"

section \<open>Group membership\<close>

definition group_exists :: "string \<Rightarrow> uworld \<Rightarrow> bool" where
  "group_exists g w \<longleftrightarrow> tbl_rows (\<lambda>r. gr_id r = g) (u_groups w) > 0"

fun check_groups :: "uenv \<Rightarrow> string list \<Rightarrow> uworld \<Rightarrow> uerr + unit" where
  "check_groups env [] w = Inr ()"
| "check_groups env (g # gs) w =
     (if \<not> ue_up env UGroupCheck then Inl (UDb DbFail)
      else if \<not> group_exists g w then Inl UInvalid
      else check_groups env gs w)"

definition validateGroupIDs :: "uenv \<Rightarrow> string list \<Rightarrow> uworld \<Rightarrow> uerr + unit" where
  "validateGroupIDs env gs w = check_groups env (unique_from [] gs) w"

text \<open>The transaction of \<open>ReplaceUserGroups\<close>: a failure rolls everything back.\<close>

fun insert_members :: "uenv \<Rightarrow> string \<Rightarrow> string list \<Rightarrow> uworld \<Rightarrow> uerr + uworld" where
  "insert_members env uid [] w = (if ue_up env UGroupTx then Inr w else Inl (UDb DbFail))"
| "insert_members env uid (g # gs) w =
     (if \<not> ue_up env UGroupTx then Inl (UDb DbFail)
      else if \<not> group_exists g w then Inl UInvalid
      else if uid \<notin> us_id ` set (u_users w) \<or> (uid, g) \<in> set (u_members w) then Inl (UDb Constraint)
      else insert_members env uid gs (w\<lparr>u_members := u_members w @ [(uid, g)]\<rparr>))"

definition ReplaceUserGroups :: "uenv \<Rightarrow> string \<Rightarrow> string list \<Rightarrow> uworld \<Rightarrow> (uerr + unit) \<times> uworld" where
  "ReplaceUserGroups env userID groupIDs w =
     (let uid = trim userID in
      if uid = [] then (Inl UInvalid, w)
      else if \<not> ue_up env UGroupTx then (Inl (UDb DbFail), w)
      else (case insert_members env uid (unique_from [] groupIDs)
                   (w\<lparr>u_members := filter (\<lambda>(u, g). u \<noteq> uid) (u_members w)\<rparr>) of
              Inl e \<Rightarrow> (Inl e, w)
            | Inr w' \<Rightarrow> (Inr (), w')))"

section \<open>Changing users\<close>

record create_req =
  cr_username :: string
  cr_display :: string
  cr_admin :: bool
  cr_avatar :: string
  cr_password :: string
  cr_status :: string
  cr_groups :: "string list"

record update_req =
  ur_display :: "string option"
  ur_admin :: "bool option"
  ur_avatar :: "string option"
  ur_password :: string
  ur_status :: "string option"
  ur_groups :: "string list option"

definition hash_it :: "uenv \<Rightarrow> string \<Rightarrow> string option" where
  "hash_it env pw = hashPassword (ue_hmac env) (ue_salt env) pw"

definition user_clash :: "user \<Rightarrow> user \<Rightarrow> bool" where
  "user_clash a b \<longleftrightarrow> us_id a = us_id b \<or> us_name a = us_name b"

definition new_user :: "uenv \<Rightarrow> create_req \<Rightarrow> string \<Rightarrow> string \<Rightarrow> user" where
  "new_user env req h status =
     \<lparr>us_id = ue_id env, us_name = normalizeUsername (cr_username req), us_display = trim (cr_display req),
      us_admin = cr_admin req, us_avatar = normalizeAvatar (cr_avatar req), us_hash = h, us_status = status,
      us_created = ue_now env, us_updated = Some (ue_now env)\<rparr>"

definition users_Create :: "uenv \<Rightarrow> create_req \<Rightarrow> uworld \<Rightarrow> (uerr + user_view) \<times> uworld" where
  "users_Create env req w =
     (if \<not> validateUsername env (normalizeUsername (cr_username req)) then (Inl UInvalid, w)
      else (case hash_it env (cr_password req) of
        None \<Rightarrow> (Inl UInvalid, w)
      | Some h \<Rightarrow>
          (let st0 = trim (cr_status req);
               status = (if st0 = [] then StatusActive else st0) in
           if status \<noteq> StatusActive \<and> status \<noteq> StatusDisabled then (Inl UInvalid, w)
           else (case validateGroupIDs env (cr_groups req) w of
             Inl e \<Rightarrow> (Inl e, w)
           | Inr _ \<Rightarrow>
               (let item = new_user env req h status in
                case insert_row (ue_up env UInsert) user_clash item (u_users w) of
                  Inl e \<Rightarrow> (Inl (UDb e), w)
                | Inr t \<Rightarrow>
                    (case ReplaceUserGroups env (us_id item) (cr_groups req) (w\<lparr>u_users := t\<rparr>) of
                       (Inl e, w2) \<Rightarrow> (Inl e, w2)
                     | (Inr _, w2) \<Rightarrow> (users_Get env UReget (us_id item) w2, w2)))))))"

definition upd_user :: "uenv \<Rightarrow> string \<Rightarrow> (user \<Rightarrow> user) \<Rightarrow> uworld \<Rightarrow> uerr + uworld" where
  "upd_user env i f w =
     (if ue_up env UUpdate
      then Inr (w\<lparr>u_users := tbl_upd (\<lambda>u. us_id u = i) (\<lambda>u. (f u)\<lparr>us_updated := Some (ue_now env)\<rparr>) (u_users w)\<rparr>)
      else Inl (UDb DbFail))"

definition users_Update :: "uenv \<Rightarrow> string \<Rightarrow> update_req \<Rightarrow> uworld \<Rightarrow> (uerr + user_view) \<times> uworld" where
  "users_Update env i req w =
     (case users_Get env UGet i w of
        Inl e \<Rightarrow> (Inl e, w)
      | Inr (item, _) \<Rightarrow>
          (let display = (case ur_display req of None \<Rightarrow> us_display item | Some d \<Rightarrow> trim d);
               admin = (case ur_admin req of None \<Rightarrow> us_admin item | Some a \<Rightarrow> a);
               avatar = (case ur_avatar req of None \<Rightarrow> us_avatar item | Some a \<Rightarrow> normalizeAvatar a);
               status = (case ur_status req of None \<Rightarrow> us_status item | Some s \<Rightarrow> trim s);
               hash = (if trim (ur_password req) \<noteq> [] then hash_it env (ur_password req) else Some (us_hash item))
           in
           if ur_status req \<noteq> None \<and> status \<noteq> StatusActive \<and> status \<noteq> StatusDisabled then (Inl UInvalid, w)
           else (case hash of
             None \<Rightarrow> (Inl UInvalid, w)
           | Some h \<Rightarrow>
               (case (case ur_groups req of None \<Rightarrow> Inr () | Some gs \<Rightarrow> validateGroupIDs env gs w) of
                  Inl e \<Rightarrow> (Inl e, w)
                | Inr _ \<Rightarrow>
                    (case upd_user env (us_id item)
                            (\<lambda>u. u\<lparr>us_display := display, us_admin := admin, us_avatar := avatar,
                                   us_hash := h, us_status := status\<rparr>) w of
                       Inl e \<Rightarrow> (Inl e, w)
                     | Inr w1 \<Rightarrow>
                         (case (case ur_groups req of None \<Rightarrow> (Inr (), w1)
                                | Some gs \<Rightarrow> ReplaceUserGroups env (us_id item) gs w1) of
                            (Inl e, w2) \<Rightarrow> (Inl e, w2)
                          | (Inr _, w2) \<Rightarrow> (users_Get env UReget (us_id item) w2, w2)))))))"

definition UpdateMyProfile ::
  "uenv \<Rightarrow> string \<Rightarrow> string option \<Rightarrow> string option \<Rightarrow> uworld \<Rightarrow> (uerr + user_view) \<times> uworld" where
  "UpdateMyProfile env i display avatar w =
     (case users_Get env UGet i w of
        Inl e \<Rightarrow> (Inl e, w)
      | Inr (item, _) \<Rightarrow>
          (let d = (case display of None \<Rightarrow> us_display item | Some d \<Rightarrow> trim d);
               a = (case avatar of None \<Rightarrow> us_avatar item | Some a \<Rightarrow> normalizeAvatar a) in
           case upd_user env (us_id item) (\<lambda>u. u\<lparr>us_display := d, us_avatar := a\<rparr>) w of
             Inl e \<Rightarrow> (Inl e, w)
           | Inr w1 \<Rightarrow> (users_Get env UReget (us_id item) w1, w1)))"

definition UpdateMyPassword :: "uenv \<Rightarrow> string \<Rightarrow> string \<Rightarrow> string \<Rightarrow> uworld \<Rightarrow> (uerr + unit) \<times> uworld" where
  "UpdateMyPassword env i current new w =
     (case users_Get env UGet i w of
        Inl e \<Rightarrow> (Inl e, w)
      | Inr (item, _) \<Rightarrow>
          if \<not> verifyPassword (ue_hmac env) current (us_hash item) then (Inl UInvalid, w)
          else (case hash_it env new of
                  None \<Rightarrow> (Inl UInvalid, w)
                | Some h \<Rightarrow>
                    (case upd_user env (us_id item) (\<lambda>u. u\<lparr>us_hash := h\<rparr>) w of
                       Inl e \<Rightarrow> (Inl e, w)
                     | Inr w1 \<Rightarrow> (Inr (), w1))))"

text \<open>Deleting a user removes its memberships and sessions (\<open>ON DELETE CASCADE\<close>).\<close>

definition users_Delete :: "uenv \<Rightarrow> string \<Rightarrow> uworld \<Rightarrow> (uerr + unit) \<times> uworld" where
  "users_Delete env i w =
     (if \<not> ue_up env UDelete then (Inl (UDb DbFail), w)
      else (Inr (), w\<lparr>u_users := tbl_del (\<lambda>u. us_id u = trim i) (u_users w),
                      u_members := filter (\<lambda>(u, g). u \<noteq> trim i) (u_members w),
                      u_sessions := tbl_del (\<lambda>s. se_user s = trim i) (u_sessions w)\<rparr>))"

definition admins :: "uworld \<Rightarrow> nat" where
  "admins w = tbl_rows us_admin (u_users w)"

definition CountAdmins :: "uenv \<Rightarrow> uworld \<Rightarrow> uerr + nat" where
  "CountAdmins env w = (if ue_up env UCount then Inr (admins w) else Inl (UDb DbFail))"

definition EnsureDefaultAdmin :: "uenv \<Rightarrow> uworld \<Rightarrow> (uerr + bool) \<times> uworld" where
  "EnsureDefaultAdmin env w =
     (if \<not> ue_up env UCount then (Inl (UDb DbFail), w)
      else if u_users w \<noteq> [] then (Inr False, w)
      else (case hash_it env ''admin'' of
              None \<Rightarrow> (Inl UInvalid, w)
            | Some h \<Rightarrow>
                (case insert_row (ue_up env UInsert) user_clash
                        \<lparr>us_id = ue_id env, us_name = ''admin'', us_display = ''Administrator'', us_admin = True,
                         us_avatar = [], us_hash = h, us_status = StatusActive, us_created = ue_now env,
                         us_updated = Some (ue_now env)\<rparr> (u_users w) of
                   Inl e \<Rightarrow> (Inl (UDb e), w)
                 | Inr t \<Rightarrow> (Inr True, w\<lparr>u_users := t\<rparr>))))"

section \<open>Groups\<close>

type_synonym group_view = "group \<times> nat"

definition group_view_of :: "uworld \<Rightarrow> group \<Rightarrow> group_view" where
  "group_view_of w g = (g, length (filter (\<lambda>(u, k). k = gr_id g) (u_members w)))"

definition ListGroups :: "uenv \<Rightarrow> uworld \<Rightarrow> uerr + group_view list" where
  "ListGroups env w =
     (if \<not> ue_up env UGroups then Inl (UDb DbFail)
      else Inr (map (group_view_of w) (sort_key gr_created (sort_key gr_id (u_groups w)))))"

definition GetGroup :: "uenv \<Rightarrow> usite \<Rightarrow> string \<Rightarrow> uworld \<Rightarrow> uerr + group_view" where
  "GetGroup env s i w =
     (case sel_one (ue_up env s) gr_id (trim i) (u_groups w) of
        Inl e \<Rightarrow> Inl (UDb e)
      | Inr g \<Rightarrow> Inr (group_view_of w g))"

definition CreateGroup :: "uenv \<Rightarrow> string \<Rightarrow> string \<Rightarrow> uworld \<Rightarrow> (uerr + group_view) \<times> uworld" where
  "CreateGroup env name descr w =
     (if trim name = [] then (Inl UInvalid, w)
      else (case insert_row (ue_up env UInsert) (\<lambda>a b. gr_id a = gr_id b \<or> gr_name a = gr_name b)
                   \<lparr>gr_id = ue_id env, gr_name = trim name, gr_description = trim descr,
                    gr_created = ue_now env, gr_updated = Some (ue_now env)\<rparr> (u_groups w) of
              Inl e \<Rightarrow> (Inl (UDb e), w)
            | Inr t \<Rightarrow> let w1 = w\<lparr>u_groups := t\<rparr> in (GetGroup env UGroupReget (ue_id env) w1, w1)))"

definition UpdateGroup :: "uenv \<Rightarrow> string \<Rightarrow> string option \<Rightarrow> string option \<Rightarrow> uworld \<Rightarrow> (uerr + group_view) \<times> uworld" where
  "UpdateGroup env i name descr w =
     (case GetGroup env UGroupGet i w of
        Inl e \<Rightarrow> (Inl e, w)
      | Inr (item, _) \<Rightarrow>
          (let n = (case name of None \<Rightarrow> gr_name item | Some n \<Rightarrow> trim n);
               d = (case descr of None \<Rightarrow> gr_description item | Some d \<Rightarrow> trim d) in
           if name \<noteq> None \<and> n = [] then (Inl UInvalid, w)
           else if \<not> ue_up env UUpdate then (Inl (UDb DbFail), w)
           else if \<exists>g\<in>set (u_groups w). gr_name g = n \<and> gr_id g \<noteq> gr_id item then (Inl (UDb Constraint), w)
           else
             (let w1 = w\<lparr>u_groups := tbl_upd (\<lambda>g. gr_id g = gr_id item)
                          (\<lambda>g. g\<lparr>gr_name := n, gr_description := d, gr_updated := Some (ue_now env)\<rparr>) (u_groups w)\<rparr> in
              (GetGroup env UGroupReget (gr_id item) w1, w1))))"

definition DeleteGroup :: "uenv \<Rightarrow> string \<Rightarrow> uworld \<Rightarrow> (uerr + unit) \<times> uworld" where
  "DeleteGroup env i w =
     (if \<not> ue_up env UDelete then (Inl (UDb DbFail), w)
      else (Inr (), w\<lparr>u_groups := tbl_del (\<lambda>g. gr_id g = trim i) (u_groups w),
                      u_members := filter (\<lambda>(u, g). g \<noteq> trim i) (u_members w)\<rparr>))"

end
