(* ===== verification/Users_Http.thy ===== *)
theory Users_Http
  imports Users
begin

text \<open>
  The handlers of internal/users/handler.go.  \<open>actor\<close> is the actor of the request context, a
  body is \<open>None\<close> when it does not decode.  The lemmas: only an administrator changes the tables,
  every operation keeps the keys and references of the tables intact, and what each does to the
  set of administrators.
\<close>

definition uaudit :: "string \<Rightarrow> string \<Rightarrow> bool \<Rightarrow> string \<Rightarrow> string \<Rightarrow> uworld \<Rightarrow> uworld" where
  "uaudit event action ok rtype rid w = w\<lparr>u_audit := u_audit w @ [Audit event action ok rtype rid]\<rparr>"

definition requireAdmin :: "actor option \<Rightarrow> bool" where
  "requireAdmin a = (case a of None \<Rightarrow> False | Some x \<Rightarrow> ac_admin x)"

definition forbidden :: "'a resp" where "forbidden = Fail 403 ''ADMIN_REQUIRED''"

definition users_HandleList :: "uenv \<Rightarrow> actor option \<Rightarrow> uworld \<Rightarrow> user_view list resp" where
  "users_HandleList env a w =
     (if \<not> requireAdmin a then forbidden
      else (case users_List env w of
              Inl _ \<Rightarrow> Fail 500 ''USERS_LIST_FAILED''
            | Inr vs \<Rightarrow> Reply 200 vs))"

definition users_HandleCreate :: "uenv \<Rightarrow> actor option \<Rightarrow> create_req option \<Rightarrow> uworld \<Rightarrow> user_view resp \<times> uworld" where
  "users_HandleCreate env a body w =
     (if \<not> requireAdmin a then (forbidden, w)
      else (case body of
              None \<Rightarrow> (Fail 400 ''INVALID_BODY'', w)
            | Some req \<Rightarrow>
                (case users_Create env req w of
                   (Inl _, w1) \<Rightarrow> (Fail 400 ''USER_CREATE_FAILED'', uaudit ''user_create_failed'' ''create'' False ''user'' [] w1)
                 | (Inr v, w1) \<Rightarrow> (Reply 201 v, uaudit ''user_created'' ''create'' True ''user'' (us_id (fst v)) w1))))"

definition users_HandleUpdate ::
  "uenv \<Rightarrow> actor option \<Rightarrow> string \<Rightarrow> update_req option \<Rightarrow> uworld \<Rightarrow> user_view resp \<times> uworld" where
  "users_HandleUpdate env a i body w =
     (if \<not> requireAdmin a then (forbidden, w)
      else (case body of
              None \<Rightarrow> (Fail 400 ''INVALID_BODY'', w)
            | Some req \<Rightarrow>
                (case users_Update env i req w of
                   (Inl _, w1) \<Rightarrow> (Fail 400 ''USER_UPDATE_FAILED'', uaudit ''user_update_failed'' ''update'' False ''user'' i w1)
                 | (Inr v, w1) \<Rightarrow> (Reply 200 v, uaudit ''user_updated'' ''update'' True ''user'' (us_id (fst v)) w1))))"

definition signed_in :: "actor option \<Rightarrow> string option" where
  "signed_in a = (case a of None \<Rightarrow> None | Some x \<Rightarrow> if trim (ac_id x) = [] then None else Some (ac_id x))"

definition HandleGetMyProfile :: "uenv \<Rightarrow> actor option \<Rightarrow> uworld \<Rightarrow> user_view resp" where
  "HandleGetMyProfile env a w =
     (case signed_in a of
        None \<Rightarrow> Fail 401 ''AUTH_REQUIRED''
      | Some i \<Rightarrow> (case users_Get env UGet i w of Inl _ \<Rightarrow> Fail 404 ''USER_NOT_FOUND'' | Inr v \<Rightarrow> Reply 200 v))"

definition HandleUpdateMyProfile ::
  "uenv \<Rightarrow> actor option \<Rightarrow> (string option \<times> string option) option \<Rightarrow> uworld \<Rightarrow> user_view resp \<times> uworld" where
  "HandleUpdateMyProfile env a body w =
     (case signed_in a of
        None \<Rightarrow> (Fail 401 ''AUTH_REQUIRED'', w)
      | Some i \<Rightarrow>
          (case body of
             None \<Rightarrow> (Fail 400 ''INVALID_BODY'', w)
           | Some (d, av) \<Rightarrow>
               (case UpdateMyProfile env i d av w of
                  (Inl _, w1) \<Rightarrow> (Fail 400 ''PROFILE_UPDATE_FAILED'', uaudit ''profile_update_failed'' ''update'' False ''user'' i w1)
                | (Inr v, w1) \<Rightarrow> (Reply 200 v, uaudit ''profile_updated'' ''update'' True ''user'' (us_id (fst v)) w1))))"

definition HandleUpdateMyPassword ::
  "uenv \<Rightarrow> actor option \<Rightarrow> (string \<times> string) option \<Rightarrow> uworld \<Rightarrow> unit resp \<times> uworld" where
  "HandleUpdateMyPassword env a body w =
     (case signed_in a of
        None \<Rightarrow> (Fail 401 ''AUTH_REQUIRED'', w)
      | Some i \<Rightarrow>
          (case body of
             None \<Rightarrow> (Fail 400 ''INVALID_BODY'', w)
           | Some (current, new) \<Rightarrow>
               (case UpdateMyPassword env i current new w of
                  (Inl _, w1) \<Rightarrow> (Fail 400 ''PASSWORD_UPDATE_FAILED'', uaudit ''password_update_failed'' ''update'' False ''user'' i w1)
                | (Inr _, w1) \<Rightarrow> (Reply 200 (), uaudit ''password_updated'' ''update'' True ''user'' i w1))))"

definition users_HandleDelete :: "uenv \<Rightarrow> actor option \<Rightarrow> string \<Rightarrow> uworld \<Rightarrow> string resp \<times> uworld" where
  "users_HandleDelete env a i w =
     (if \<not> requireAdmin a then (forbidden, w)
      else (case users_Get env UGet i w of
        Inl _ \<Rightarrow> (Fail 404 ''USER_NOT_FOUND'', uaudit ''user_delete_failed'' ''delete'' False ''user'' i w)
      | Inr (item, _) \<Rightarrow>
          (let go = (case users_Delete env (us_id item) w of
                       (Inl _, w1) \<Rightarrow> (Fail 500 ''USER_DELETE_FAILED'',
                          uaudit ''user_delete_failed'' ''delete'' False ''user'' (us_id item) w1)
                     | (Inr _, w1) \<Rightarrow> (Reply 200 (us_id item),
                          uaudit ''user_deleted'' ''delete'' True ''user'' (us_id item) w1)) in
           if us_admin item then
             (case CountAdmins env w of
                Inl _ \<Rightarrow> (Fail 500 ''USER_DELETE_FAILED'',
                   uaudit ''user_delete_failed'' ''delete'' False ''user'' (us_id item) w)
              | Inr n \<Rightarrow>
                  if n \<le> 1 then (Fail 409 ''LAST_ADMIN_DELETE_FORBIDDEN'',
                    uaudit ''user_delete_blocked'' ''delete'' False ''user'' (us_id item) w)
                  else go)
           else go)))"

definition HandleListGroups :: "uenv \<Rightarrow> actor option \<Rightarrow> uworld \<Rightarrow> group_view list resp" where
  "HandleListGroups env a w =
     (if \<not> requireAdmin a then forbidden
      else (case ListGroups env w of
              Inl _ \<Rightarrow> Fail 500 ''GROUPS_LIST_FAILED''
            | Inr gs \<Rightarrow> Reply 200 gs))"

definition HandleCreateGroup ::
  "uenv \<Rightarrow> actor option \<Rightarrow> (string \<times> string) option \<Rightarrow> uworld \<Rightarrow> group_view resp \<times> uworld" where
  "HandleCreateGroup env a body w =
     (if \<not> requireAdmin a then (forbidden, w)
      else (case body of
              None \<Rightarrow> (Fail 400 ''INVALID_BODY'', w)
            | Some (n, d) \<Rightarrow>
                (case CreateGroup env n d w of
                   (Inl _, w1) \<Rightarrow> (Fail 400 ''GROUP_CREATE_FAILED'', uaudit ''group_create_failed'' ''create'' False ''group'' [] w1)
                 | (Inr v, w1) \<Rightarrow> (Reply 201 v, uaudit ''group_created'' ''create'' True ''group'' (gr_id (fst v)) w1))))"

definition HandleUpdateGroup ::
  "uenv \<Rightarrow> actor option \<Rightarrow> string \<Rightarrow> (string option \<times> string option) option \<Rightarrow> uworld \<Rightarrow> group_view resp \<times> uworld" where
  "HandleUpdateGroup env a i body w =
     (if \<not> requireAdmin a then (forbidden, w)
      else (case body of
              None \<Rightarrow> (Fail 400 ''INVALID_BODY'', w)
            | Some (n, d) \<Rightarrow>
                (case UpdateGroup env i n d w of
                   (Inl _, w1) \<Rightarrow> (Fail 400 ''GROUP_UPDATE_FAILED'', uaudit ''group_update_failed'' ''update'' False ''group'' i w1)
                 | (Inr v, w1) \<Rightarrow> (Reply 200 v, uaudit ''group_updated'' ''update'' True ''group'' (gr_id (fst v)) w1))))"

definition HandleDeleteGroup :: "uenv \<Rightarrow> actor option \<Rightarrow> string \<Rightarrow> uworld \<Rightarrow> string resp \<times> uworld" where
  "HandleDeleteGroup env a i w =
     (if \<not> requireAdmin a then (forbidden, w)
      else (case GetGroup env UGroupGet i w of
        Inl _ \<Rightarrow> (Fail 404 ''GROUP_NOT_FOUND'', uaudit ''group_delete_failed'' ''delete'' False ''group'' i w)
      | Inr (item, _) \<Rightarrow>
          (case DeleteGroup env (gr_id item) w of
             (Inl _, w1) \<Rightarrow> (Fail 500 ''GROUP_DELETE_FAILED'', uaudit ''group_delete_failed'' ''delete'' False ''group'' (gr_id item) w1)
           | (Inr _, w1) \<Rightarrow> (Reply 200 (gr_id item), uaudit ''group_deleted'' ''delete'' True ''group'' (gr_id item) w1))))"

section \<open>The invariant of the tables\<close>

definition users_ok :: "uworld \<Rightarrow> bool" where
  "users_ok w \<longleftrightarrow> distinct (map us_id (u_users w)) \<and> distinct (map us_name (u_users w)) \<and>
     distinct (map gr_id (u_groups w)) \<and> distinct (map gr_name (u_groups w)) \<and> distinct (u_members w) \<and>
     (\<forall>(u, g)\<in>set (u_members w). u \<in> us_id ` set (u_users w) \<and> g \<in> gr_id ` set (u_groups w)) \<and>
     (\<forall>s\<in>set (u_sessions w). se_user s \<in> us_id ` set (u_users w))"

lemma users_ok_audit [simp]: "users_ok (uaudit e a ok t i w) = users_ok w"
  by (simp add: users_ok_def uaudit_def)

lemma get_user: "users_Get env s i w = Inr (u, gs) \<Longrightarrow> u \<in> set (u_users w) \<and> us_id u = trim i"
  by (auto simp: users_Get_def hydrateUser_def sel_one_Inr split: sum.splits if_splits dest: tbl_get_Some)

lemma ok_upd_user:
  assumes "upd_user env i f w = Inr w'" "users_ok w" "\<And>u. us_id (f u) = us_id u \<and> us_name (f u) = us_name u"
  shows "users_ok w'"
proof -
  let ?g = "\<lambda>u. (f u)\<lparr>us_updated := Some (ue_now env)\<rparr>"
  have k: "map us_id (tbl_upd p ?g t) = map us_id t" "map us_name (tbl_upd p ?g t) = map us_name t" for p t
    by (simp_all add: keys_tbl_upd assms(3))
  then have "us_id ` set (tbl_upd p ?g t) = us_id ` set t" for p t
    by (metis image_set)
  with assms(1,2) k show ?thesis
    by (auto simp: upd_user_def users_ok_def split: if_splits)
qed

lemma ok_insert_members:
  "insert_members env uid gs w = Inr w' \<Longrightarrow> users_ok w \<Longrightarrow> users_ok w' \<and> u_users w' = u_users w"
  by (induction env uid gs w rule: insert_members.induct)
    (auto simp: users_ok_def group_exists_def tbl_rows_def filter_empty_conv split: if_splits)

lemma ok_ReplaceUserGroups:
  "ReplaceUserGroups env u gs w = (r, w') \<Longrightarrow> users_ok w \<Longrightarrow> users_ok w' \<and> u_users w' = u_users w"
  by (auto simp: ReplaceUserGroups_def Let_def users_ok_def split: if_splits sum.splits
      dest!: ok_insert_members)

lemma ok_insert_user:
  "insert_row up user_clash x (u_users w) = Inr t \<Longrightarrow> users_ok w \<Longrightarrow> users_ok (w\<lparr>u_users := t\<rparr>)"
  by (auto simp: insert_row_def user_clash_def users_ok_def split: if_splits)

lemma ok_Create: "users_Create env req w = (r, w') \<Longrightarrow> users_ok w \<Longrightarrow> users_ok w'"
  by (auto simp: users_Create_def Let_def split: if_splits option.splits sum.splits prod.splits
      dest!: ok_insert_user ok_ReplaceUserGroups)

lemma ok_Update: "users_Update env i req w = (r, w') \<Longrightarrow> users_ok w \<Longrightarrow> users_ok w'"
  by (auto simp: users_Update_def Let_def split: if_splits option.splits sum.splits prod.splits
      dest!: ok_ReplaceUserGroups dest: ok_upd_user)

lemma ok_UpdateMyProfile: "UpdateMyProfile env i d a w = (r, w') \<Longrightarrow> users_ok w \<Longrightarrow> users_ok w'"
  by (auto simp: UpdateMyProfile_def Let_def split: sum.splits prod.splits dest: ok_upd_user)

lemma ok_UpdateMyPassword: "UpdateMyPassword env i c n w = (r, w') \<Longrightarrow> users_ok w \<Longrightarrow> users_ok w'"
  by (auto simp: UpdateMyPassword_def split: sum.splits prod.splits if_splits option.splits dest: ok_upd_user)

lemma image_other: "k \<in> f ` A \<Longrightarrow> k \<noteq> i \<Longrightarrow> k \<in> f ` {r \<in> A. f r \<noteq> i}"
  by blast

lemma ok_Delete: "users_Delete env i w = (r, w') \<Longrightarrow> users_ok w \<Longrightarrow> users_ok w'"
  by (auto simp: users_Delete_def users_ok_def distinct_tbl_del split: if_splits intro!: image_other)

lemma ok_CreateGroup: "CreateGroup env n d w = (r, w') \<Longrightarrow> users_ok w \<Longrightarrow> users_ok w'"
  by (auto simp: CreateGroup_def Let_def users_ok_def insert_row_def split: if_splits sum.splits)

lemma ok_DeleteGroup: "DeleteGroup env i w = (r, w') \<Longrightarrow> users_ok w \<Longrightarrow> users_ok w'"
  by (auto simp: DeleteGroup_def users_ok_def distinct_tbl_del split: if_splits intro!: image_other)

lemma distinct_rename:
  assumes "distinct (map key t)" "distinct (map nm t)" "\<forall>g\<in>set t. nm g = n \<longrightarrow> key g = k"
    "\<And>g. nm (f g) = n" "\<And>g. key (f g) = key g"
  shows "distinct (map nm (tbl_upd (\<lambda>g. key g = k) f t))"
  using assms(1-3)
proof (induction t)
  case (Cons g t)
  then have IH: "distinct (map nm (tbl_upd (\<lambda>g. key g = k) f t))" by auto
  have set: "nm ` set (tbl_upd (\<lambda>g. key g = k) f t) \<subseteq> nm ` set t \<union> {n}"
    using assms(4) by (auto simp: set_tbl_upd)
  show ?case
  proof (cases "key g = k")
    case True
    with Cons.prems(1) have "k \<notin> key ` set t" by auto
    then have "tbl_upd (\<lambda>g. key g = k) f t = t"
      unfolding tbl_upd_def by (intro map_idI) auto
    moreover have "n \<notin> nm ` set t"
    proof
      assume "n \<in> nm ` set t"
      then obtain x where "x \<in> set t" "nm x = n" by auto
      with Cons.prems(3) have "key x = k" by simp
      with \<open>x \<in> set t\<close> \<open>k \<notin> key ` set t\<close> show False by auto
    qed
    ultimately show ?thesis using Cons.prems(2) True assms(4) by simp
  next
    case False
    with Cons.prems(3) have "nm g \<noteq> n" by auto
    with Cons.prems(2) set have "nm g \<notin> nm ` set (tbl_upd (\<lambda>g. key g = k) f t)" by auto
    with IH False show ?thesis by simp
  qed
qed simp

lemma ok_UpdateGroup: "UpdateGroup env i n d w = (r, w') \<Longrightarrow> users_ok w \<Longrightarrow> users_ok w'"
proof -
  assume u: "UpdateGroup env i n d w = (r, w')" and ok: "users_ok w"
  have eff: "users_ok (w\<lparr>u_groups := tbl_upd (\<lambda>g. gr_id g = k)
      (\<lambda>g. g\<lparr>gr_name := nm, gr_description := de, gr_updated := Some (ue_now env)\<rparr>) (u_groups w)\<rparr>)"
    if "\<not> (\<exists>g\<in>set (u_groups w). gr_name g = nm \<and> gr_id g \<noteq> k)" for k nm de
  proof -
    let ?f = "\<lambda>g :: group. g\<lparr>gr_name := nm, gr_description := de, gr_updated := Some (ue_now env)\<rparr>"
    have ids: "map gr_id (tbl_upd p ?f t) = map gr_id t" for p t by (simp add: keys_tbl_upd)
    then have "gr_id ` set (tbl_upd p ?f t) = gr_id ` set t" for p t by (metis image_set)
    moreover have "distinct (map gr_name (tbl_upd (\<lambda>g. gr_id g = k) ?f (u_groups w)))"
      using ok that by (intro distinct_rename) (auto simp: users_ok_def)
    ultimately show ?thesis using ok ids by (simp add: users_ok_def)
  qed
  show ?thesis
  proof (cases "GetGroup env UGroupGet i w")
    case (Inr v)
    obtain item c where v: "v = (item, c)" by force
    show ?thesis
      using u ok eff unfolding UpdateGroup_def Inr v Let_def
      by (simp split: if_splits; blast)
  qed (use u ok in \<open>simp add: UpdateGroup_def\<close>)
qed

section \<open>Requests\<close>

datatype uop =
    OCreate "create_req option"
  | OUpdate string "update_req option"
  | OProfile "(string option \<times> string option) option"
  | OPassword "(string \<times> string) option"
  | ODelete string
  | OGroupNew "(string \<times> string) option"
  | OGroupSet string "(string option \<times> string option) option"
  | OGroupDel string

fun serve :: "uenv \<Rightarrow> actor option \<Rightarrow> uop \<Rightarrow> uworld \<Rightarrow> uworld" where
  "serve env a (OCreate b) w = snd (users_HandleCreate env a b w)"
| "serve env a (OUpdate i b) w = snd (users_HandleUpdate env a i b w)"
| "serve env a (OProfile b) w = snd (HandleUpdateMyProfile env a b w)"
| "serve env a (OPassword b) w = snd (HandleUpdateMyPassword env a b w)"
| "serve env a (ODelete i) w = snd (users_HandleDelete env a i w)"
| "serve env a (OGroupNew b) w = snd (HandleCreateGroup env a b w)"
| "serve env a (OGroupSet i b) w = snd (HandleUpdateGroup env a i b w)"
| "serve env a (OGroupDel i) w = snd (HandleDeleteGroup env a i w)"

fun serve_all :: "(uenv \<times> actor option \<times> uop) list \<Rightarrow> uworld \<Rightarrow> uworld" where
  "serve_all [] w = w"
| "serve_all ((env, a, op) # rs) w = serve_all rs (serve env a op w)"

lemmas handler_defs = users_HandleCreate_def users_HandleUpdate_def HandleUpdateMyProfile_def
  HandleUpdateMyPassword_def users_HandleDelete_def HandleCreateGroup_def HandleUpdateGroup_def
  HandleDeleteGroup_def

lemmas ok_operations = ok_Create ok_Update ok_UpdateMyProfile ok_UpdateMyPassword ok_Delete
  ok_CreateGroup ok_UpdateGroup ok_DeleteGroup

lemma users_ok_serve: "users_ok w \<Longrightarrow> users_ok (serve env a op w)"
  by (cases op) (auto simp: handler_defs Let_def split: option.split sum.split prod.split dest: ok_operations)

text \<open>
  Every sequence of requests, from any actors and with any database failures, keeps the tables
  sound: user ids, user names, group ids and group names stay unique, memberships are not doubled
  and join existing users to existing groups, and every session belongs to an existing user.
\<close>

lemma users_tables_sound: "users_ok w \<Longrightarrow> users_ok (serve_all rs w)"
  by (induction rs arbitrary: w) (auto simp: users_ok_serve)

section \<open>Creating a user\<close>

text \<open>What a request for a new user must satisfy, besides the name being free.\<close>

definition creatable :: "uenv \<Rightarrow> create_req \<Rightarrow> uworld \<Rightarrow> bool" where
  "creatable env req w \<longleftrightarrow>
     validateUsername env (normalizeUsername (cr_username req)) \<and>
     normalizeUsername (cr_username req) \<notin> us_name ` set (u_users w) \<and>
     trim (cr_password req) \<noteq> [] \<and> ue_salt env \<noteq> None \<and>
     trim (cr_status req) \<in> {[], ''enabled'', ''disabled''} \<and>
     trim ` set (cr_groups req) \<subseteq> {[]} \<union> gr_id ` set (u_groups w)"

lemma group_exists_id: "group_exists g w \<longleftrightarrow> g \<in> gr_id ` set (u_groups w)"
  by (auto simp: group_exists_def tbl_rows_def filter_empty_conv)

lemma check_groups_up:
  "ue_up env UGroupCheck \<Longrightarrow> check_groups env gs w = (if set gs \<subseteq> gr_id ` set (u_groups w) then Inr () else Inl UInvalid)"
  by (induction gs) (auto simp: group_exists_id)

lemma insert_members_up:
  assumes "ue_up env UGroupTx" "uid \<in> us_id ` set (u_users w)" "set gs \<subseteq> gr_id ` set (u_groups w)" "distinct gs"
    "\<forall>g\<in>set gs. (uid, g) \<notin> set (u_members w)"
  shows "insert_members env uid gs w = Inr (w\<lparr>u_members := u_members w @ map (Pair uid) gs\<rparr>)"
  using assms
proof (induction gs arbitrary: w)
  case (Cons g gs)
  let ?w = "w\<lparr>u_members := u_members w @ [(uid, g)]\<rparr>"
  have "insert_members env uid gs ?w = Inr (?w\<lparr>u_members := u_members ?w @ map (Pair uid) gs\<rparr>)"
    using Cons.prems by (intro Cons.IH) auto
  then show ?case using Cons.prems by (simp add: group_exists_id)
qed simp

lemma Create_result:
  assumes "users_ok w" "\<forall>s. ue_up env s" "ue_id env \<noteq> []" "trim (ue_id env) = ue_id env" "ue_id env \<notin> us_id ` set (u_users w)"
  shows "if creatable env req w
    then \<exists>u v. users_Create env req w =
      (Inr (u, v), w\<lparr>u_users := u_users w @ [u], u_members := u_members w @ map (Pair (us_id u)) (unique_from [] (cr_groups req))\<rparr>) \<and>
      (\<exists>h. hash_it env (cr_password req) = Some h \<and>
        u = new_user env req h (if trim (cr_status req) = [] then ''enabled'' else trim (cr_status req)))
    else \<exists>e. users_Create env req w = (Inl e, w)"
proof (cases "creatable env req w")
  case True
  obtain h where h: "hash_it env (cr_password req) = Some h"
    using True by (auto simp: creatable_def hash_it_def hashPassword_def Let_def)
  define u where "u = new_user env req h (if trim (cr_status req) = [] then ''enabled'' else trim (cr_status req))"
  let ?gs = "unique_from [] (cr_groups req)"
  let ?w1 = "w\<lparr>u_users := u_users w @ [u]\<rparr>"
  let ?w2 = "?w1\<lparr>u_members := u_members w @ map (Pair (us_id u)) ?gs\<rparr>"
  have u: "us_id u = ue_id env" "us_name u = normalizeUsername (cr_username req)" by (simp_all add: u_def new_user_def)
  have gs: "set ?gs \<subseteq> gr_id ` set (u_groups w)" using True by (auto simp: creatable_def set_unique_from)
  have none: "fst m \<noteq> ue_id env" if "m \<in> set (u_members w)" for m
    using assms(1,5) that by (cases m) (auto simp: users_ok_def)
  then have keep: "filter (\<lambda>(a, g). a \<noteq> ue_id env) (u_members w) = u_members w" by (intro filter_True) fastforce
  have "\<forall>g\<in>set ?gs. (ue_id env, g) \<notin> set (u_members w)" using none by fastforce
  then have "insert_members env (ue_id env) ?gs ?w1 = Inr ?w2"
    using insert_members_up [of env "ue_id env" ?w1 ?gs] assms(2) gs u by (simp add: distinct_unique_from)
  then have groups: "ReplaceUserGroups env (us_id u) (cr_groups req) ?w1 = (Inr (), ?w2)"
    using assms(2,3,4) u by (simp add: ReplaceUserGroups_def Let_def keep)
  have ins: "insert_row (ue_up env UInsert) user_clash u (u_users w) = Inr (u_users w @ [u])"
    using assms(2,5) True by (auto simp: insert_row_def user_clash_def creatable_def u)
  have "tbl_get us_id (ue_id env) (u_users w @ [u]) = Some u"
    using tbl_get_None [of us_id "ue_id env" "u_users w"] assms(5) u(1) by (simp add: tbl_get_append)
  then have re: "\<exists>v. users_Get env UReget (us_id u) ?w2 = Inr (u, v)"
    using assms(2,4) u by (simp add: users_Get_def sel_one_def hydrateUser_def)
  have "users_Create env req w = (users_Get env UReget (us_id u) ?w2, ?w2)"
    using True h gs assms(2) ins groups
    by (auto simp: users_Create_def creatable_def validateGroupIDs_def check_groups_up Let_def u_def StatusActive_def StatusDisabled_def)
  with re h True show ?thesis by (auto simp: u_def)
next
  case False
  have "\<exists>e. users_Create env req w = (Inl e, w)"
  proof (cases "hash_it env (cr_password req) = None \<or> \<not> validateUsername env (normalizeUsername (cr_username req)) \<or>
      trim (cr_status req) \<notin> {[], ''enabled'', ''disabled''} \<or> \<not> set (unique_from [] (cr_groups req)) \<subseteq> gr_id ` set (u_groups w)")
    case True
    then show ?thesis
      using assms(2) by (auto simp: users_Create_def Let_def validateGroupIDs_def check_groups_up StatusActive_def StatusDisabled_def split: option.split)
  next
    case ok: False
    then obtain h where h: "hash_it env (cr_password req) = Some h" by auto
    then have "trim (cr_password req) \<noteq> []" "ue_salt env \<noteq> None" by (auto simp: hash_it_def hashPassword_def split: if_splits option.splits)
    moreover have "trim ` set (cr_groups req) \<subseteq> {[]} \<union> gr_id ` set (u_groups w)" using ok by (auto simp: set_unique_from)
    ultimately have taken: "normalizeUsername (cr_username req) \<in> us_name ` set (u_users w)"
      using False ok by (simp add: creatable_def) blast
    then have "insert_row b user_clash (new_user env req h st) (u_users w) = Inl (if b then Constraint else DbFail)" for b st
      by (auto simp: insert_row_def user_clash_def new_user_def)
    then show ?thesis
      using ok h assms(2) by (auto simp: users_Create_def Let_def validateGroupIDs_def check_groups_up StatusActive_def StatusDisabled_def)
  qed
  then show ?thesis using False by simp
qed

text \<open>
  C7: Creating a user is all or nothing.  With the database up and a fresh id, a request of an
  administrator succeeds exactly when its name is valid and not taken, the password is not blank and can be
  hashed, the status is none or one of the two, and every group it names exists: then it is answered 201,
  exactly the row of the user is added, with the normalized name, the rights, the status and the hash of
  the password, and exactly one membership for each of its groups, blanks and repetitions left out.
  Otherwise it is answered 400 and users, groups, memberships and sessions are as before.
\<close>

theorem create_user_all_or_nothing:
  assumes "users_ok w" "\<forall>s. ue_up env s" "requireAdmin a" "ue_id env \<noteq> []" "trim (ue_id env) = ue_id env"
    "ue_id env \<notin> us_id ` set (u_users w)" "users_HandleCreate env a (Some req) w = (r, w')"
  shows "u_groups w' = u_groups w \<and> u_sessions w' = u_sessions w \<and>
    (if creatable env req w
     then \<exists>u v gs. r = Reply 201 (u, v) \<and> u_users w' = u_users w @ [u] \<and> u_members w' = u_members w @ map (Pair (us_id u)) gs \<and>
       us_id u = ue_id env \<and> us_name u = normalizeUsername (cr_username req) \<and> us_admin u = cr_admin req \<and>
       us_status u = (if trim (cr_status req) = [] then ''enabled'' else trim (cr_status req)) \<and>
       hash_it env (cr_password req) = Some (us_hash u) \<and> distinct gs \<and> set gs = trim ` set (cr_groups req) - {[]}
     else r = Fail 400 ''USER_CREATE_FAILED'' \<and> u_users w' = u_users w \<and> u_members w' = u_members w)"
proof (cases "creatable env req w")
  case True
  obtain u v h where c: "users_Create env req w =
      (Inr (u, v), w\<lparr>u_users := u_users w @ [u], u_members := u_members w @ map (Pair (us_id u)) (unique_from [] (cr_groups req))\<rparr>)"
    "hash_it env (cr_password req) = Some h" "u = new_user env req h (if trim (cr_status req) = [] then ''enabled'' else trim (cr_status req))"
    using Create_result [OF assms(1,2,4-6), of req] True by auto
  have w': "r = Reply 201 (u, v)" "u_users w' = u_users w @ [u]" "u_groups w' = u_groups w" "u_sessions w' = u_sessions w"
    "u_members w' = u_members w @ map (Pair (us_id u)) (unique_from [] (cr_groups req))"
    using assms(3,7) c(1) by (auto simp: users_HandleCreate_def uaudit_def)
  have "us_id u = ue_id env" "us_name u = normalizeUsername (cr_username req)" "us_admin u = cr_admin req" "us_hash u = h"
    "us_status u = (if trim (cr_status req) = [] then ''enabled'' else trim (cr_status req))"
    by (simp_all add: c(3) new_user_def)
  with w' c(2) show ?thesis
    unfolding if_P [OF True]
    by (intro conjI exI [of _ u] exI [of _ v] exI [of _ "unique_from [] (cr_groups req)"]) (simp_all add: set_unique_from distinct_unique_from)
next
  case False
  then obtain e where "users_Create env req w = (Inl e, w)" using Create_result [OF assms(1,2,4-6), of req] by auto
  then show ?thesis using assms(3,7) False by (auto simp: users_HandleCreate_def uaudit_def)
qed

definition own_changes :: "string option \<Rightarrow> user \<Rightarrow> user \<Rightarrow> bool" where
  "own_changes i u u' \<longleftrightarrow> us_id u' = us_id u \<and> us_name u' = us_name u \<and> us_admin u' = us_admin u \<and>
     us_status u' = us_status u \<and> us_created u' = us_created u \<and> (Some (us_id u) = map_option trim i \<or> u' = u)"

lemma own_refl [simp]: "list_all2 (own_changes i) t t"
  by (simp add: list.rel_refl_strong own_changes_def)

lemma own_upd:
  assumes "upd_user env k f w = Inr w'" "map_option trim i = Some k"
    "\<And>u. us_id (f u) = us_id u \<and> us_name (f u) = us_name u \<and> us_admin (f u) = us_admin u \<and>
       us_status (f u) = us_status u \<and> us_created (f u) = us_created u"
  shows "u_groups w' = u_groups w \<and> u_members w' = u_members w \<and> u_sessions w' = u_sessions w \<and>
    list_all2 (own_changes i) (u_users w) (u_users w')"
proof -
  let ?g = "\<lambda>u. (f u)\<lparr>us_updated := Some (ue_now env)\<rparr>"
  have "list_all2 (own_changes i) t (tbl_upd (\<lambda>u. us_id u = k) ?g t)" for t
    using assms(2,3) by (induction t) (auto simp: own_changes_def)
  with assms(1) show ?thesis by (auto simp: upd_user_def split: if_splits)
qed

lemma own_profile:
  assumes "UpdateMyProfile env i d av w = (r, w')"
  shows "u_groups w' = u_groups w \<and> u_members w' = u_members w \<and>
    u_sessions w' = u_sessions w \<and> list_all2 (own_changes (Some i)) (u_users w) (u_users w')"
proof (cases "w' = w")
  case False
  then obtain k f where *: "upd_user env k f w = Inr w'" "k = trim i"
    "\<And>u. us_id (f u) = us_id u \<and> us_name (f u) = us_name u \<and> us_admin (f u) = us_admin u \<and>
       us_status (f u) = us_status u \<and> us_created (f u) = us_created u"
    using assms by (auto simp: UpdateMyProfile_def Let_def split: sum.splits prod.splits dest: get_user)
  then show ?thesis using own_upd [OF *(1), of "Some i"] by simp
qed simp

lemma own_password:
  assumes "UpdateMyPassword env i c n w = (r, w')"
  shows "u_groups w' = u_groups w \<and> u_members w' = u_members w \<and>
    u_sessions w' = u_sessions w \<and> list_all2 (own_changes (Some i)) (u_users w) (u_users w')"
proof (cases "w' = w")
  case False
  then obtain k f where *: "upd_user env k f w = Inr w'" "k = trim i"
    "\<And>u. us_id (f u) = us_id u \<and> us_name (f u) = us_name u \<and> us_admin (f u) = us_admin u \<and>
       us_status (f u) = us_status u \<and> us_created (f u) = us_created u"
    using assms by (auto simp: UpdateMyPassword_def split: sum.splits prod.splits if_splits option.splits dest: get_user)
  then show ?thesis using own_upd [OF *(1), of "Some i"] by simp
qed simp

lemma uaudit_frames [simp]:
  "u_users (uaudit e a ok t i w) = u_users w" "u_groups (uaudit e a ok t i w) = u_groups w"
  "u_members (uaudit e a ok t i w) = u_members w" "u_sessions (uaudit e a ok t i w) = u_sessions w"
  by (simp_all add: uaudit_def)

lemma signed_in_id: "signed_in a = Some i \<Longrightarrow> map_option ac_id a = Some i"
  by (auto simp: signed_in_def split: option.splits if_splits)

text \<open>
  C8: Without administrator rights a request reaches only the actor's own profile and password:
  groups, memberships and sessions stay, and every user row stays but the actor's own, which keeps
  its name, its rights and its status.
\<close>

theorem non_admin_changes_self_only:
  assumes "\<not> requireAdmin a"
  shows "u_groups (serve env a op w) = u_groups w \<and> u_members (serve env a op w) = u_members w \<and>
    u_sessions (serve env a op w) = u_sessions w \<and>
    list_all2 (own_changes (map_option ac_id a)) (u_users w) (u_users (serve env a op w))"
proof (cases op)
  case (OProfile b)
  then show ?thesis
    by (auto simp: HandleUpdateMyProfile_def split: option.split sum.split prod.split
        dest!: signed_in_id own_profile)
next
  case (OPassword b)
  then show ?thesis
    by (auto simp: HandleUpdateMyPassword_def split: option.split sum.split prod.split
        dest!: signed_in_id own_password)
qed (use assms in \<open>simp_all add: handler_defs\<close>)

section \<open>Administrators\<close>

lemma admins_delete:
  assumes "distinct (map us_id (u_users w))" "u \<in> set (u_users w)" "us_id u = i"
  shows "tbl_rows us_admin (u_users w) =
    tbl_rows us_admin (tbl_del (\<lambda>v. us_id v = i) (u_users w)) + (if us_admin u then 1 else 0)"
  using assms
proof (induction "u_users w" arbitrary: w)
  case (Cons v vs)
  let ?w = "w\<lparr>u_users := vs\<rparr>"
  have v: "u_users w = v # vs" using Cons.hyps(2) by simp
  show ?case
  proof (cases "us_id v = i")
    case True
    then have "i \<notin> us_id ` set vs" using Cons.prems(1) v by auto
    then have "tbl_del (\<lambda>v. us_id v = i) vs = vs" unfolding tbl_del_def by (intro filter_True) auto
    moreover have "u = v" using Cons.prems(2,3) v \<open>i \<notin> us_id ` set vs\<close> by auto
    ultimately show ?thesis using True v by (simp add: tbl_rows_def)
  next
    case False
    with Cons.prems v have "distinct (map us_id (u_users ?w))" "u \<in> set (u_users ?w)" by auto
    with Cons.hyps(1) [of ?w] Cons.prems(3) have
      "tbl_rows us_admin vs = tbl_rows us_admin (tbl_del (\<lambda>v. us_id v = i) vs) + (if us_admin u then 1 else 0)"
      by simp
    with False v show ?thesis by (simp add: tbl_rows_def)
  qed
qed simp

text \<open>
  C9: No delete request removes the last administrator: if there is one before, there is one after,
  whoever asks and whatever fails.
\<close>

theorem delete_keeps_an_admin:
  assumes "users_ok w" "1 \<le> admins w"
  shows "1 \<le> admins (snd (users_HandleDelete env a i w))"
proof -
  have del: "1 \<le> admins (snd (users_Delete env k w))"
    if "u \<in> set (u_users w)" "us_id u = trim k" "us_admin u \<longrightarrow> 1 < admins w" for k u
    using admins_delete [of w u "trim k"] that assms
    by (auto simp: users_Delete_def admins_def users_ok_def split: if_splits)
  have adm: "admins (uaudit e b ok t j v) = admins v" for e b ok t j v by (simp add: admins_def)
  show ?thesis
  proof (cases "users_Get env UGet i w")
    case (Inr v)
    obtain u gs where v: "v = (u, gs)" by force
    from Inr v have u: "u \<in> set (u_users w)" "us_id u = trim i" by (auto dest: get_user)
    then have "1 \<le> admins (snd (users_Delete env (us_id u) w))" if "us_admin u \<longrightarrow> 1 < admins w"
      using del [of u "us_id u"] that by simp
    then show ?thesis
      using Inr v assms(2) by (auto simp: users_HandleDelete_def Let_def CountAdmins_def adm split: sum.split prod.split)
  qed (use assms in \<open>simp add: users_HandleDelete_def adm\<close>)
qed

definition no_change :: update_req where
  "no_change = \<lparr>ur_display = None, ur_admin = None, ur_avatar = None, ur_password = [], ur_status = None, ur_groups = None\<rparr>"

text \<open>
  An update request can: an administrator who is the only one and takes the rights away, its
  own included, is answered 200, and no administrator is left.
\<close>

theorem update_can_remove_last_admin:
  assumes "users_ok w" "\<forall>s. ue_up env s" "requireAdmin a" "u \<in> set (u_users w)" "us_id u = trim i" "us_admin u"
    "admins w = 1"
  shows "is_reply (fst (users_HandleUpdate env a i (Some (no_change\<lparr>ur_admin := Some False\<rparr>)) w)) \<and>
    admins (snd (users_HandleUpdate env a i (Some (no_change\<lparr>ur_admin := Some False\<rparr>)) w)) = 0"
proof -
  have one: "v = u" if "v \<in> set (u_users w)" "us_admin v" for v
  proof (rule ccontr)
    assume "v \<noteq> u"
    have "card (set (filter us_admin (u_users w))) \<le> admins w"
      unfolding admins_def tbl_rows_def by (rule card_length)
    moreover have "card {u, v} \<le> card (set (filter us_admin (u_users w)))"
      using that assms(4,6) by (intro card_mono) auto
    ultimately show False using \<open>v \<noteq> u\<close> assms(7) by simp
  qed
  have g: "tbl_get us_id (trim i) (u_users w) = Some u"
    using tbl_get_distinct [of us_id "u_users w" u] assms(1,4,5) by (simp add: users_ok_def)
  let ?f = "\<lambda>x. x\<lparr>us_display := us_display u, us_admin := False, us_avatar := us_avatar u, us_hash := us_hash u,
      us_status := us_status u, us_updated := Some (ue_now env)\<rparr>"
  let ?t = "tbl_upd (\<lambda>x. us_id x = trim i) ?f (u_users w)"
  have "tbl_get us_id (trim i) ?t = Some (?f u)"
    using g assms(5) by (simp add: tbl_get_upd_all)
  moreover have "filter us_admin ?t = []"
    using one assms(5) by (auto simp: filter_empty_conv set_tbl_upd)
  ultimately show ?thesis
    using g assms(2,3,5)
    by (simp add: users_HandleUpdate_def users_Update_def no_change_def Let_def users_Get_def sel_one_def
        hydrateUser_def upd_user_def admins_def tbl_rows_def)
qed

lemma deleted_rows:
  assumes "users_HandleDelete env a i w = (Reply n k, w')"
  shows "k = trim i \<and> u_users w' = filter (\<lambda>u. us_id u \<noteq> trim i) (u_users w) \<and>
    u_members w' = filter (\<lambda>(u, g). u \<noteq> trim i) (u_members w) \<and>
    u_sessions w' = filter (\<lambda>s. se_user s \<noteq> trim i) (u_sessions w) \<and> u_groups w' = u_groups w"
proof -
  obtain u gs where g: "users_Get env UGet i w = Inr (u, gs)"
    using assms by (auto simp: users_HandleDelete_def forbidden_def split: if_splits sum.splits prod.splits)
  then have u: "us_id u = trim i" by (auto dest: get_user)
  from assms g have "\<exists>w1. users_Delete env (us_id u) w = (Inr (), w1) \<and> k = us_id u \<and>
      w' = uaudit ''user_deleted'' ''delete'' True ''user'' (us_id u) w1"
    by (auto simp: users_HandleDelete_def forbidden_def Let_def split: if_splits sum.splits prod.splits)
  then show ?thesis by (auto simp: users_Delete_def u tbl_del_def split: if_splits)
qed

text \<open>
  A successful delete request removes the user, its memberships and its sessions, and no other
  user's.
\<close>

theorem delete_cascades:
  assumes "users_HandleDelete env a i w = (Reply n k, w')"
  shows "k = trim i \<and> u_users w' = filter (\<lambda>u. us_id u \<noteq> trim i) (u_users w) \<and>
    u_members w' = filter (\<lambda>(u, g). u \<noteq> trim i) (u_members w) \<and>
    u_sessions w' = filter (\<lambda>s. se_user s \<noteq> trim i) (u_sessions w) \<and> u_groups w' = u_groups w"
  by (rule deleted_rows [OF assms])

section \<open>Passwords of users\<close>

text \<open>
  C10: A new password takes effect: after a successful change, and as long as the row stays, the
  account authenticates with exactly the passwords whose derived key is that of the new one; the new
  password itself is among them.
\<close>

theorem new_password_authenticates:
  assumes "users_ok w" "\<And>k m. length (ue_hmac env k m) = hash_size"
    "UpdateMyPassword env i current new w = (Inr (), w')"
    "u \<in> set (u_users w)" "us_id u = trim i" "\<not> is_disabled (us_status u)" "\<forall>s. ue_up env s"
    "normalizeUsername n = us_name u" "ue_salt env = Some salt"
  shows "(\<exists>v. Authenticate env n pw w' = Inr v) \<longleftrightarrow>
    pbkdf2SHA256 (ue_hmac env) pw salt passwordIterations passwordKeyBytes =
    pbkdf2SHA256 (ue_hmac env) new salt passwordIterations passwordKeyBytes"
proof -
  have g: "tbl_get us_id (trim i) (u_users w) = Some u"
    using tbl_get_distinct [of us_id "u_users w" u] assms(1,4,5) by (simp add: users_ok_def)
  obtain h where h: "hashPassword (ue_hmac env) (Some salt) new = Some h"
    "w' = w\<lparr>u_users := tbl_upd (\<lambda>x. us_id x = trim i) (\<lambda>x. x\<lparr>us_hash := h, us_updated := Some (ue_now env)\<rparr>) (u_users w)\<rparr>"
    using assms(3,5,7,9) g
    by (auto simp: UpdateMyPassword_def users_Get_def sel_one_def hydrateUser_def hash_it_def upd_user_def
        split: if_splits option.splits)
  let ?u = "u\<lparr>us_hash := h, us_updated := Some (ue_now env)\<rparr>"
  have "tbl_get us_name (us_name u) (u_users w) = Some u"
    using tbl_get_distinct [of us_name "u_users w" u] assms(1,4) by (simp add: users_ok_def)
  then have "tbl_get us_name (us_name u) (u_users w') = Some ?u"
    using assms(5) by (simp add: h(2) tbl_get_upd_all)
  then show ?thesis
    using assms(6,7,8) verify_hash [OF h(1) assms(2), of pw]
    by (simp add: Authenticate_def GetByUsername_def sel_one_def hydrateUser_def)
qed

end
