(* ===== verification/Auth.thy ===== *)
theory Auth
  imports Users_Http
begin

text \<open>
  Sessions: internal/auth/auth.go and internal/identity/identity.go.  A request is what the code
  reads of it; the actor \<open>identity.WithActor\<close> stores is the argument of the next handler.  The
  interface \<open>session_store\<close> states what revoking a session promises to the others.
\<close>

record request =
  rq_method :: string
  rq_path :: string
  rq_auth :: string
  rq_xtoken :: string
  rq_length :: int
  rq_forwarded :: string
  rq_realip :: string
  rq_remote :: string
  rq_agent :: string

definition sessionStatusActive :: string where "sessionStatusActive = ''active''"
definition sessionStatusRevoked :: string where "sessionStatusRevoked = ''revoked''"
definition sessionTTL :: int where "sessionTTL = 2592000"

section \<open>Requests\<close>

definition login_path :: string where "login_path = ''/api/v1/auth/login''"

definition isPublicRequest :: "request \<Rightarrow> bool" where
  "isPublicRequest r \<longleftrightarrow> rq_method r = ''OPTIONS'' \<or> (rq_method r = ''POST'' \<and> trim (rq_path r) = login_path)"

definition ExtractToken :: "request \<Rightarrow> string" where
  "ExtractToken r =
     (let authHeader = trim (rq_auth r) in
      if has_prefix ''bearer '' (to_lower authHeader) then trim (drop 7 authHeader)
      else trim (rq_xtoken r))"

text \<open>The host of \<open>net.SplitHostPort\<close>.\<close>

definition index_of :: "char \<Rightarrow> string \<Rightarrow> nat option" where
  "index_of c s = (if c \<in> set s then Some (length (takeWhile (\<lambda>x. x \<noteq> c) s)) else None)"

definition last_index :: "char \<Rightarrow> string \<Rightarrow> nat option" where
  "last_index c s = (case index_of c (rev s) of None \<Rightarrow> None | Some k \<Rightarrow> Some (length s - 1 - k))"

definition SplitHost :: "string \<Rightarrow> string option" where
  "SplitHost hp =
     (case last_index (CHR '':'') hp of
        None \<Rightarrow> None
      | Some i \<Rightarrow>
          (case (if hd hp = CHR ''['' then
                   (case index_of (CHR '']'') hp of
                      None \<Rightarrow> None
                    | Some e \<Rightarrow> if e + 1 = i then Some (drop 1 (take e hp), 1, e + 1) else None)
                 else if CHR '':'' \<in> set (take i hp) then None
                 else Some (take i hp, 0, 0)) of
             None \<Rightarrow> None
           | Some (host, j, k) \<Rightarrow>
               if CHR ''['' \<in> set (drop j hp) \<or> CHR '']'' \<in> set (drop k hp) then None else Some host))"

fun firstNonEmpty :: "string list \<Rightarrow> string" where
  "firstNonEmpty [] = []"
| "firstNonEmpty (v # vs) =
     (if trim v \<noteq> [] then
        (case SplitHost v of
           Some host \<Rightarrow> host
         | None \<Rightarrow> if CHR '','' \<in> set v then trim (hd (split_on (CHR '','') v)) else v)
      else firstNonEmpty vs)"

definition requestIP :: "request \<Rightarrow> string" where
  "requestIP r = trim (firstNonEmpty [trim (rq_forwarded r), trim (rq_realip r), trim (rq_remote r)])"

section \<open>Sessions\<close>

definition hashToken :: "uenv \<Rightarrow> string \<Rightarrow> string" where
  "hashToken env t = ue_sha env (trim t)"

definition newSessionToken :: "uenv \<Rightarrow> (string \<times> string) option" where
  "newSessionToken env =
     (case ue_rand env of
        None \<Rightarrow> None
      | Some buf \<Rightarrow> let raw = b64_enc url_alphabet False buf in Some (raw, hashToken env raw))"

definition session_of :: "uenv \<Rightarrow> string \<Rightarrow> string \<Rightarrow> request \<Rightarrow> session" where
  "session_of env uid h r =
     \<lparr>se_id = ue_id env, se_user = uid, se_hash = h, se_status = sessionStatusActive, se_ip = requestIP r,
      se_agent = trim (rq_agent r), se_created = ue_now env, se_updated = ue_now env,
      se_expires = Some (ue_now env + sessionTTL), se_seen = Some (ue_now env), se_out = None\<rparr>"

definition CreateSession :: "uenv \<Rightarrow> user \<Rightarrow> request \<Rightarrow> uworld \<Rightarrow> uerr + (string \<times> int) \<times> uworld" where
  "CreateSession env u r w =
     (case newSessionToken env of
        None \<Rightarrow> Inl UInvalid
      | Some (raw, h) \<Rightarrow>
          (if us_id u \<notin> us_id ` set (u_users w) then Inl (UDb Constraint)
           else (case insert_row (ue_up env USession) (\<lambda>a b. se_id a = se_id b \<or> se_hash a = se_hash b)
                        (session_of env (us_id u) h r) (u_sessions w) of
              Inl e \<Rightarrow> Inl (UDb e)
            | Inr t \<Rightarrow> Inr ((raw, ue_now env + sessionTTL), w\<lparr>u_sessions := t\<rparr>))))"

definition expired :: "uenv \<Rightarrow> session \<Rightarrow> bool" where
  "expired env s = (case se_expires s of None \<Rightarrow> False | Some t \<Rightarrow> ue_now env > t)"

definition actor_of :: "user \<Rightarrow> actor" where
  "actor_of u = \<lparr>ac_id = us_id u, ac_name = us_name u, ac_display = us_display u, ac_admin = us_admin u\<rparr>"

definition LookupSession :: "uenv \<Rightarrow> string \<Rightarrow> uworld \<Rightarrow> uerr + actor \<times> session" where
  "LookupSession env token w =
     (if trim token = [] then Inl UInvalid
      else if \<not> ue_up env ULookup then Inl (UDb DbFail)
      else (case find (\<lambda>s. se_hash s = hashToken env (trim token) \<and> se_user s \<in> us_id ` set (u_users w)) (u_sessions w) of
              None \<Rightarrow> Inl (UDb NoRows)
            | Some s \<Rightarrow>
                (case tbl_get us_id (se_user s) (u_users w) of
                   None \<Rightarrow> Inl (UDb NoRows)
                 | Some u \<Rightarrow>
                     if se_status s \<noteq> sessionStatusActive then Inl UInvalid
                     else if is_disabled (us_status u) then Inl UInvalid
                     else if expired env s then Inl UInvalid
                     else Inr (actor_of u, s))))"

definition RevokeSession :: "uenv \<Rightarrow> string \<Rightarrow> uworld \<Rightarrow> uerr + uworld" where
  "RevokeSession env i w =
     (if \<not> ue_up env URevoke then Inl (UDb DbFail)
      else Inr (w\<lparr>u_sessions := tbl_upd (\<lambda>s. se_id s = trim i)
                   (\<lambda>s. s\<lparr>se_status := sessionStatusRevoked, se_updated := ue_now env, se_out := Some (ue_now env)\<rparr>)
                   (u_sessions w)\<rparr>))"

section \<open>Handlers\<close>

definition Middleware ::
  "uenv \<Rightarrow> request \<Rightarrow> (actor option \<Rightarrow> uworld \<Rightarrow> 'a resp \<times> uworld) \<Rightarrow> uworld \<Rightarrow> 'a resp \<times> uworld" where
  "Middleware env r next_handler w =
     (if isPublicRequest r then next_handler None w
      else
        (let token = ExtractToken r in
         if token = [] then (Fail 401 ''AUTH_REQUIRED'', w)
         else (case LookupSession env token w of
                 Inl _ \<Rightarrow> (Fail 401 ''AUTH_INVALID'', w)
               | Inr (actor, _) \<Rightarrow> next_handler (Some actor) w)))"

record login_reply =
  lo_token :: string
  lo_expires :: int
  lo_user :: user_view

definition HandleLogin :: "uenv \<Rightarrow> request \<Rightarrow> (string \<times> string) option \<Rightarrow> uworld \<Rightarrow> login_reply resp \<times> uworld" where
  "HandleLogin env r body w =
     (case body of
        None \<Rightarrow> (Fail 400 ''INVALID_BODY'', w)
      | Some (n, pw) \<Rightarrow>
          (case Authenticate env n pw w of
             Inl _ \<Rightarrow> (Fail 401 ''LOGIN_FAILED'', uaudit ''login_failed'' ''login'' False [] [] w)
           | Inr (u, gs) \<Rightarrow>
               (case CreateSession env u r w of
                  Inl _ \<Rightarrow> (Fail 500 ''LOGIN_FAILED'', w)
                | Inr ((token, expiresAt), w1) \<Rightarrow>
                    (Reply 200 \<lparr>lo_token = token, lo_expires = expiresAt, lo_user = (u, gs)\<rparr>,
                     uaudit ''login_success'' ''login'' True ''user'' (us_id u) w1))))"

text \<open>\<open>body\<close> is the token of the request body, if it decodes.\<close>

definition HandleLogout :: "uenv \<Rightarrow> request \<Rightarrow> string option \<Rightarrow> uworld \<Rightarrow> unit resp \<times> uworld" where
  "HandleLogout env r body w =
     (let t0 = ExtractToken r;
          token = (if t0 = [] \<and> rq_length r > 0 then (case body of None \<Rightarrow> t0 | Some t \<Rightarrow> trim t) else t0) in
      if token = [] then (Fail 400 ''LOGOUT_TOKEN_REQUIRED'', w)
      else (case LookupSession env token w of
              Inl _ \<Rightarrow> (Fail 401 ''LOGOUT_FAILED'', w)
            | Inr (actor, s) \<Rightarrow>
                (case RevokeSession env (se_id s) w of
                   Inl _ \<Rightarrow> (Fail 500 ''LOGOUT_FAILED'', w)
                 | Inr w1 \<Rightarrow> (Reply 200 (), uaudit ''logout'' ''logout'' True ''session'' (se_id s) w1))))"

section \<open>Sessions are keyed\<close>

definition sessions_ok :: "uworld \<Rightarrow> bool" where
  "sessions_ok w \<longleftrightarrow> users_ok w \<and> distinct (map se_id (u_sessions w)) \<and> distinct (map se_hash (u_sessions w)) \<and>
     (\<forall>s\<in>set (u_sessions w). trim (se_id s) = se_id s)"

lemma find_session:
  assumes "sessions_ok w"
  shows "find (\<lambda>s. se_hash s = h \<and> se_user s \<in> us_id ` set (u_users w)) (u_sessions w) = tbl_get se_hash h (u_sessions w)"
proof -
  have "\<forall>s\<in>set (u_sessions w). se_user s \<in> us_id ` set (u_users w)"
    using assms by (simp add: sessions_ok_def users_ok_def)
  then show ?thesis unfolding tbl_get_def by (intro find_cong) auto
qed

lemma lookup_iff:
  assumes "sessions_ok w"
  shows "LookupSession env t w = Inr (a, s) \<longleftrightarrow> trim t \<noteq> [] \<and> ue_up env ULookup \<and>
    tbl_get se_hash (hashToken env t) (u_sessions w) = Some s \<and> se_status s = sessionStatusActive \<and>
    \<not> expired env s \<and> (\<exists>u. tbl_get us_id (se_user s) (u_users w) = Some u \<and> \<not> is_disabled (us_status u) \<and> a = actor_of u)"
  unfolding LookupSession_def find_session [OF assms] by (auto simp: hashToken_def split: option.split)

section \<open>What logging out promises\<close>

locale session_store =
  fixes ok :: "'w \<Rightarrow> bool"
    and lookup :: "'w \<Rightarrow> string \<Rightarrow> 'a option"
    and revoke :: "'w \<Rightarrow> string \<Rightarrow> 'w"
    and digest :: "string \<Rightarrow> 'd"
  assumes ok_revoke: "ok w \<Longrightarrow> ok (revoke w t)"
    and revoke_hit: "ok w \<Longrightarrow> digest t' = digest t \<Longrightarrow> lookup (revoke w t) t' = None"
    and revoke_miss: "ok w \<Longrightarrow> digest t' \<noteq> digest t \<Longrightarrow> lookup (revoke w t) t' = lookup w t'"
begin

lemma ok_revoke_all: "ok w \<Longrightarrow> ok (fold (\<lambda>t w. revoke w t) ts w)"
  by (induction ts arbitrary: w) (simp_all add: ok_revoke)

lemma revoke_all:
  "ok w \<Longrightarrow> lookup (fold (\<lambda>t w. revoke w t) ts w) t' =
    (if digest t' \<in> digest ` set ts then None else lookup w t')"
proof (induction ts rule: rev_induct)
  case (snoc t ts)
  then have "ok (fold (\<lambda>t w. revoke w t) ts w)" by (simp add: ok_revoke_all)
  with snoc show ?case
    using revoke_hit [of "fold (\<lambda>t w. revoke w t) ts w" t' t]
      revoke_miss [of "fold (\<lambda>t w. revoke w t) ts w" t' t]
    by (cases "digest t' = digest t") auto
qed simp

end

definition actor_for :: "uenv \<Rightarrow> uworld \<Rightarrow> string \<Rightarrow> actor option" where
  "actor_for env w t = (case LookupSession env t w of Inl _ \<Rightarrow> None | Inr (a, _) \<Rightarrow> Some a)"

definition bearer :: "string \<Rightarrow> request" where
  "bearer t = \<lparr>rq_method = ''POST'', rq_path = ''/api/v1/auth/logout'', rq_auth = ''Bearer '' @ t, rq_xtoken = [],
     rq_length = 0, rq_forwarded = [], rq_realip = [], rq_remote = [], rq_agent = []\<rparr>"

definition log_out :: "uenv \<Rightarrow> uworld \<Rightarrow> string \<Rightarrow> uworld" where
  \<comment> \<open>The logout request of a client that sends the token in the body.\<close>
  "log_out env w t = snd (HandleLogout env ((bearer [])\<lparr>rq_auth := [], rq_length := 1\<rparr>) (Some t) w)"

definition all_up :: "uenv \<Rightarrow> uenv" where
  "all_up env = env\<lparr>ue_up := \<lambda>_. True\<rparr>"

lemma all_up_simps [simp]: "ue_up (all_up env) s" "ue_now (all_up env) = ue_now env"
  "hashToken (all_up env) = hashToken env" "expired (all_up env) = expired env"
  by (simp_all add: all_up_def hashToken_def fun_eq_iff expired_def split: option.split)

definition revoked :: "uenv \<Rightarrow> session \<Rightarrow> session" where
  "revoked env s = s\<lparr>se_status := sessionStatusRevoked, se_updated := ue_now env, se_out := Some (ue_now env)\<rparr>"

lemma revoked_fields [simp]:
  "se_id (revoked env s) = se_id s" "se_hash (revoked env s) = se_hash s" "se_user (revoked env s) = se_user s"
  "se_expires (revoked env s) = se_expires s" "se_created (revoked env s) = se_created s" "se_status (revoked env s) = sessionStatusRevoked"
  by (simp_all add: revoked_def)

lemma status_neq [simp]: "sessionStatusRevoked \<noteq> sessionStatusActive"
  by (simp add: sessionStatusRevoked_def sessionStatusActive_def)

lemma log_out_eq:
  "log_out env w t =
    (case LookupSession env t w of
       Inl _ \<Rightarrow> w
     | Inr (a, s) \<Rightarrow> if ue_up env URevoke
         then uaudit ''logout'' ''logout'' True ''session'' (se_id s)
                (w\<lparr>u_sessions := tbl_upd (\<lambda>x. se_id x = trim (se_id s)) (revoked env) (u_sessions w)\<rparr>)
         else w)"
proof -
  have e: "ExtractToken ((bearer [])\<lparr>rq_auth := [], rq_length := 1\<rparr>) = []"
    by (simp add: ExtractToken_def bearer_def to_lower_def has_prefix_def)
  have l: "rq_length ((bearer [])\<lparr>rq_auth := [], rq_length := 1\<rparr>) > 0" by simp
  have "LookupSession env (trim t) w = LookupSession env t w" by (simp add: LookupSession_def)
  then show ?thesis
    unfolding log_out_def HandleLogout_def Let_def e revoked_def [abs_def]
    using l by (auto simp: RevokeSession_def LookupSession_def split: sum.split prod.split)
qed

lemma sessions_ok_upd:
  assumes "sessions_ok w"
  shows "sessions_ok (w\<lparr>u_sessions := tbl_upd p (revoked env) (u_sessions w)\<rparr>)"
proof -
  have k: "map f (tbl_upd p (revoked env) t) = map f t" if "\<And>s. f (revoked env s) = f s" for f :: "session \<Rightarrow> string" and t
    by (rule keys_tbl_upd) (rule that)
  have "se_user s \<in> us_id ` set (u_users w)" "trim (se_id s) = se_id s" if "s \<in> set (tbl_upd p (revoked env) (u_sessions w))" for s
    using that assms by (auto simp: set_tbl_upd sessions_ok_def users_ok_def)
  with assms k show ?thesis by (auto simp: sessions_ok_def users_ok_def)
qed

lemma sessions_ok_audit [simp]: "sessions_ok (uaudit e a ok t i w) = sessions_ok w"
  by (simp add: sessions_ok_def)

lemma LookupSession_audit [simp]: "LookupSession env t (uaudit e a ok ty i w) = LookupSession env t w"
  by (simp add: LookupSession_def split: option.split)

lemma lookup_after_revoke:
  assumes ok: "sessions_ok w" and s: "tbl_get se_hash h (u_sessions w) = Some s"
    and w': "w' = w\<lparr>u_sessions := tbl_upd (\<lambda>x. se_id x = se_id s) (revoked env) (u_sessions w)\<rparr>"
  shows "tbl_get se_hash h' (u_sessions w') = (if h' = h then Some (revoked env s) else tbl_get se_hash h' (u_sessions w))"
proof -
  have sh: "se_hash s = h" "s \<in> set (u_sessions w)" using tbl_get_Some [OF s] by simp_all
  have inj: "x = s" if "x \<in> set (u_sessions w)" "se_id x = se_id s" for x
    using ok sh(2) that by (auto simp: sessions_ok_def distinct_map inj_on_def)
  show ?thesis
  proof (cases "tbl_get se_hash h' (u_sessions w)")
    case None
    with s have "h' \<noteq> h" by auto
    with None show ?thesis by (simp add: w' tbl_get_upd_all)
  next
    case (Some x)
    then have x: "x \<in> set (u_sessions w)" "se_hash x = h'" using tbl_get_Some [OF Some] by simp_all
    show ?thesis
    proof (cases "h' = h")
      case True
      with s Some show ?thesis by (simp add: w' tbl_get_upd_all)
    next
      case False
      with inj x sh(1) have "se_id x \<noteq> se_id s" by auto
      with Some False show ?thesis by (simp add: w' tbl_get_upd_all)
    qed
  qed
qed

lemma actor_for_Some:
  assumes "sessions_ok w"
  shows "actor_for env w t = Some a \<longleftrightarrow> (\<exists>s. LookupSession env t w = Inr (a, s))"
  by (auto simp: actor_for_def split: sum.split prod.split)

lemma actor_for_revoked:
  assumes ok: "sessions_ok w" and s: "tbl_get se_hash (hashToken env t) (u_sessions w) = Some s"
    and w': "w' = w\<lparr>u_sessions := tbl_upd (\<lambda>x. se_id x = se_id s) (revoked env) (u_sessions w)\<rparr>"
  shows "actor_for env w' t' = (if hashToken env t' = hashToken env t then None else actor_for env w t')"
proof -
  have ok': "sessions_ok w'" unfolding w' by (rule sessions_ok_upd [OF ok])
  have u: "u_users w' = u_users w" by (simp add: w')
  have "actor_for env w' t' = Some a \<longleftrightarrow> hashToken env t' \<noteq> hashToken env t \<and> actor_for env w t' = Some a" for a
    unfolding actor_for_Some [OF ok] actor_for_Some [OF ok'] lookup_iff [OF ok] lookup_iff [OF ok']
      lookup_after_revoke [OF ok s w'] u by auto
  then show ?thesis by (metis not_Some_eq)
qed

text \<open>Two texts stand for the same token when both are blank or both are not and their hashes agree.\<close>

definition token_key :: "uenv \<Rightarrow> string \<Rightarrow> bool \<times> string" where
  "token_key env t = (trim t = [], hashToken env t)"

lemma actor_for_log_out:
  assumes ok: "sessions_ok w"
  shows "actor_for (all_up env) (log_out (all_up env) w t) t' =
    (if token_key env t' = token_key env t then None else actor_for (all_up env) w t')"
proof -
  let ?e = "all_up env"
  have blank: "actor_for ?e v x = None" if "trim x = []" for v x
    using that by (simp add: actor_for_def LookupSession_def)
  show ?thesis
  proof (cases "LookupSession ?e t w")
    case (Inl x)
    then have "log_out ?e w t = w" by (simp add: log_out_eq)
    moreover have "actor_for ?e w t' = None" if "token_key env t' = token_key env t"
    proof (cases "trim t = []")
      case False
      then have "trim t' \<noteq> []" "hashToken env t' = hashToken env t" using that by (simp_all add: token_key_def)
      with False have "LookupSession ?e t' w = LookupSession ?e t w"
        by (simp add: LookupSession_def hashToken_def all_up_def)
      with Inl show ?thesis by (simp add: actor_for_def)
    qed (use that blank in \<open>simp add: token_key_def\<close>)
    ultimately show ?thesis by auto
  next
    case (Inr v)
    obtain a s where v: "v = (a, s)" by force
    have L: "trim t \<noteq> []" "tbl_get se_hash (hashToken env t) (u_sessions w) = Some s"
      using Inr unfolding v lookup_iff [OF ok] by simp_all
    then have "trim (se_id s) = se_id s" using ok by (auto simp: sessions_ok_def dest: tbl_get_Some)
    then have "log_out ?e w t = uaudit ''logout'' ''logout'' True ''session'' (se_id s)
        (w\<lparr>u_sessions := tbl_upd (\<lambda>x. se_id x = se_id s) (revoked ?e) (u_sessions w)\<rparr>)"
      using Inr v by (simp add: log_out_eq)
    moreover have "actor_for ?e (uaudit e c o1 ty i u) t' = actor_for ?e u t'" for e c o1 ty i u
      by (simp add: actor_for_def)
    ultimately show ?thesis
      using actor_for_revoked [OF ok _ refl, of ?e t s t'] L blank [of t']
      by (auto simp: token_key_def)
  qed
qed

lemma sessions_ok_log_out: "sessions_ok w \<Longrightarrow> sessions_ok (log_out env w t)"
  by (auto simp: log_out_eq sessions_ok_upd split: sum.split)

interpretation sess: session_store sessions_ok "actor_for (all_up env)" "log_out (all_up env)" "token_key env" for env
  by unfold_locales (simp_all add: actor_for_log_out sessions_ok_log_out)

section \<open>Properties of sessions\<close>

text \<open>
  C11: Logging out a list of tokens, one request after the other with the database up, closes exactly
  those: the actor of any token is gone if the token was logged out and is what it was otherwise.
\<close>

theorem logout_closes_exactly:
  assumes "sessions_ok w"
  shows "actor_for (all_up env) (fold (\<lambda>t w. log_out (all_up env) w t) ts w) t' =
    (if token_key env t' \<in> token_key env ` set ts then None else actor_for (all_up env) w t')"
  by (rule sess.revoke_all [OF assms])

lemma Authenticate_user:
  "Authenticate env n pw w = Inr (u, gs) \<Longrightarrow>
    u \<in> set (u_users w) \<and> \<not> is_disabled (us_status u) \<and> verifyPassword (ue_hmac env) pw (us_hash u)"
  by (auto simp: Authenticate_def GetByUsername_def hydrateUser_def sel_one_Inr
      split: sum.splits prod.splits if_splits dest!: tbl_get_Some)

lemma url_no_space: "c \<in> set url_alphabet \<union> {CHR ''=''} \<Longrightarrow> \<not> is_space c"
  by (auto simp: url_alphabet_def is_space_def)

lemma trim_token [simp]: "trim (b64_enc url_alphabet False buf) = b64_enc url_alphabet False buf"
  using set_b64_enc [of url_alphabet False buf] url_no_space by (intro trim_id) auto

lemma token_nonempty: "buf \<noteq> [] \<Longrightarrow> b64_enc url_alphabet False buf \<noteq> []"
  by (cases "(url_alphabet, False, buf)" rule: b64_enc.cases) auto

text \<open>
  A login opens a session for the authenticated user for 30 days: until then, and from any later
  environment with the same digest, the returned token resolves to that user; after that it does not.
\<close>

theorem login_opens_session:
  assumes "sessions_ok w" "HandleLogin env r (Some (n, pw)) w = (Reply 200 rep, w')"
    "ue_rand env = Some buf" "buf \<noteq> []" "trim (ue_id env) = ue_id env"
    "ue_sha env' = ue_sha env" "ue_up env' ULookup"
  shows "lo_expires rep = ue_now env + sessionTTL \<and>
    verifyPassword (ue_hmac env) pw (us_hash (fst (lo_user rep))) \<and>
    actor_for env' w' (lo_token rep) =
      (if ue_now env' \<le> ue_now env + sessionTTL then Some (actor_of (fst (lo_user rep))) else None)"
proof -
  let ?raw = "b64_enc url_alphabet False buf"
  obtain u gs where a: "Authenticate env n pw w = Inr (u, gs)"
    using assms(2) by (auto simp: HandleLogin_def split: sum.splits)
  note au = Authenticate_user [OF a]
  obtain t where t: "insert_row (ue_up env USession) (\<lambda>a b. se_id a = se_id b \<or> se_hash a = se_hash b)
      (session_of env (us_id u) (hashToken env ?raw) r) (u_sessions w) = Inr t"
    "rep = \<lparr>lo_token = ?raw, lo_expires = ue_now env + sessionTTL, lo_user = (u, gs)\<rparr>"
    "w' = uaudit ''login_success'' ''login'' True ''user'' (us_id u) (w\<lparr>u_sessions := t\<rparr>)"
    using assms(2,3) a
    by (auto simp: HandleLogin_def CreateSession_def newSessionToken_def Let_def split: sum.splits if_splits)
  let ?s = "session_of env (us_id u) (hashToken env ?raw) r"
  have ins: "t = u_sessions w @ [?s]" "\<forall>q\<in>set (u_sessions w). se_id ?s \<noteq> se_id q \<and> se_hash ?s \<noteq> se_hash q"
    using t(1) by (auto simp: insert_row_def split: if_splits)
  let ?w = "w\<lparr>u_sessions := t\<rparr>"
  have ok: "sessions_ok ?w"
    using assms(1,5) ins au by (auto simp: sessions_ok_def users_ok_def session_of_def)
  have hit: "tbl_get se_hash (hashToken env ?raw) t = Some ?s"
  proof -
    have "tbl_get se_hash (hashToken env ?raw) (u_sessions w) = None"
      using ins(2) by (auto simp: tbl_get_None session_of_def)
    then show ?thesis by (simp add: ins(1) tbl_get_append session_of_def)
  qed
  have uu: "tbl_get us_id (us_id u) (u_users w) = Some u"
    using tbl_get_distinct [of us_id "u_users w" u] assms(1) au by (simp add: sessions_ok_def users_ok_def)
  have h: "hashToken env' = hashToken env" using assms(6) by (simp add: hashToken_def fun_eq_iff)
  have "actor_for env' ?w ?raw = Some a' \<longleftrightarrow> ue_now env' \<le> ue_now env + sessionTTL \<and> a' = actor_of u" for a'
    unfolding actor_for_Some [OF ok] lookup_iff [OF ok] h
    using assms(4,7) hit uu au
    by (auto simp: token_nonempty expired_def session_of_def sessionStatusActive_def)
  then have "actor_for env' ?w ?raw = (if ue_now env' \<le> ue_now env + sessionTTL then Some (actor_of u) else None)"
    by (metis not_Some_eq)
  moreover have "actor_for env' w' ?raw = actor_for env' ?w ?raw"
    unfolding t(3) by (simp add: actor_for_def)
  ultimately show ?thesis using t(2) au by simp
qed

text \<open>
  C12: The middleware lets a request through in two cases only: a public request, without an actor;
  and a request whose token has an active, unexpired session of an enabled user, with the rights that
  user has now.  Every other request is answered 401 and changes nothing.
\<close>

theorem middleware_guards:
  assumes "sessions_ok w"
  shows "(isPublicRequest r \<and> Middleware env r next_handler w = next_handler None w) \<or>
    (\<exists>s u. s \<in> set (u_sessions w) \<and> se_hash s = hashToken env (ExtractToken r) \<and>
      se_status s = sessionStatusActive \<and> \<not> expired env s \<and> u \<in> set (u_users w) \<and> us_id u = se_user s \<and>
      \<not> is_disabled (us_status u) \<and> Middleware env r next_handler w = next_handler (Some (actor_of u)) w) \<or>
    (\<not> isPublicRequest r \<and> (\<exists>c. Middleware env r next_handler w = (Fail 401 c, w)))"
proof (cases "isPublicRequest r \<or> ExtractToken r = []")
  case False
  show ?thesis
  proof (cases "LookupSession env (ExtractToken r) w")
    case (Inr v)
    obtain a s where v: "v = (a, s)" by force
    with Inr have "LookupSession env (ExtractToken r) w = Inr (a, s)" by simp
    then obtain u where "tbl_get se_hash (hashToken env (ExtractToken r)) (u_sessions w) = Some s"
      "se_status s = sessionStatusActive" "\<not> expired env s" "tbl_get us_id (se_user s) (u_users w) = Some u"
      "\<not> is_disabled (us_status u)" "a = actor_of u"
      unfolding lookup_iff [OF assms] by blast
    moreover have "Middleware env r next_handler w = next_handler (Some a) w"
      using False Inr v by (simp add: Middleware_def)
    ultimately show ?thesis by (blast dest: tbl_get_Some)
  qed (use False in \<open>simp add: Middleware_def\<close>)
qed (auto simp: Middleware_def)

section \<open>Sessions over time\<close>

inductive astep :: "uworld \<Rightarrow> uworld \<Rightarrow> bool" where
  a_user: "astep w (serve env a op w)"
| a_login: "trim (ue_id env) = ue_id env \<Longrightarrow> astep w (snd (HandleLogin env r body w))"
| a_logout: "astep w (snd (HandleLogout env r body w))"

inductive_cases astep_elim: "astep w w'"

lemma sessions_insert_members: "insert_members env uid gs w = Inr w' \<Longrightarrow> u_sessions w' = u_sessions w"
  by (induction env uid gs w rule: insert_members.induct) (auto split: if_splits)

lemma sessions_ReplaceUserGroups: "ReplaceUserGroups env u gs w = (r, w') \<Longrightarrow> u_sessions w' = u_sessions w"
  by (auto simp: ReplaceUserGroups_def Let_def split: if_splits sum.splits dest: sessions_insert_members)

lemma sessions_upd_user: "upd_user env i f w = Inr w' \<Longrightarrow> u_sessions w' = u_sessions w"
  by (auto simp: upd_user_def split: if_splits)

lemma sessions_Create: "users_Create env req w = (r, w') \<Longrightarrow> u_sessions w' = u_sessions w"
  by (auto simp: users_Create_def Let_def split: if_splits option.splits sum.splits prod.splits
      dest!: sessions_ReplaceUserGroups)

lemma sessions_Update: "users_Update env i req w = (r, w') \<Longrightarrow> u_sessions w' = u_sessions w"
  by (auto simp: users_Update_def Let_def split: if_splits option.splits sum.splits prod.splits
      dest!: sessions_ReplaceUserGroups sessions_upd_user)

lemma sessions_Delete: "users_Delete env i w = (r, w') \<Longrightarrow> \<exists>p. u_sessions w' = filter p (u_sessions w)"
proof -
  assume "users_Delete env i w = (r, w')"
  then have "u_sessions w' = filter (\<lambda>_. True) (u_sessions w) \<or> u_sessions w' = filter (\<lambda>s. se_user s \<noteq> trim i) (u_sessions w)"
    by (auto simp: users_Delete_def tbl_del_def split: if_splits)
  then show ?thesis by blast
qed

lemma sessions_groups:
  "CreateGroup env n d w = (r, w') \<Longrightarrow> u_sessions w' = u_sessions w"
  "UpdateGroup env i n1 d1 w = (r, w') \<Longrightarrow> u_sessions w' = u_sessions w"
  "DeleteGroup env i w = (r2, w') \<Longrightarrow> u_sessions w' = u_sessions w"
  by (auto simp: CreateGroup_def UpdateGroup_def DeleteGroup_def Let_def split: if_splits sum.splits prod.splits)

lemma sessions_serve: "\<exists>p. u_sessions (serve env a op w) = filter p (u_sessions w)"
proof -
  have same: "\<exists>p. u_sessions v = filter p (u_sessions w)" if "u_sessions v = u_sessions w" for v
    using that by (intro exI [of _ "\<lambda>_. True"]) simp
  show ?thesis
  proof (cases op)
    case (ODelete i)
    then show ?thesis
      by (auto simp: users_HandleDelete_def Let_def same [OF refl] split: if_split sum.split prod.split
          dest: sessions_Delete)
  qed (auto intro!: same simp: handler_defs split: option.split sum.split prod.split
      dest: sessions_Create sessions_Update own_profile own_password sessions_groups)
qed

definition session_kept :: "session \<Rightarrow> session \<Rightarrow> bool" where
  "session_kept s s' \<longleftrightarrow> se_user s' = se_user s \<and> se_hash s' = se_hash s \<and> se_created s' = se_created s \<and>
     se_expires s' = se_expires s \<and> (se_status s' = se_status s \<or> se_status s' = sessionStatusRevoked)"

lemma distinct_map_filter: "distinct (map f xs) \<Longrightarrow> distinct (map f (filter p xs))"
  by (induction xs) auto

definition revoke_result :: "uenv \<Rightarrow> uworld \<Rightarrow> uworld \<Rightarrow> bool" where
  "revoke_result env w v \<longleftrightarrow> v = w \<or> (\<exists>i e c ok ty k. v =
     uaudit e c ok ty k (w\<lparr>u_sessions := tbl_upd (\<lambda>s. se_id s = i) (revoked env) (u_sessions w)\<rparr>))"

lemma HandleLogout_world: "revoke_result env w (snd (HandleLogout env r body w))"
proof -
  have same: "revoke_result env w w" by (simp add: revoke_result_def)
  have rev: "revoke_result env w (uaudit ''logout'' ''logout'' True ''session'' i w1)"
    if "RevokeSession env i w = Inr w1" for i w1
  proof -
    have "w1 = w\<lparr>u_sessions := tbl_upd (\<lambda>s. se_id s = trim i) (revoked env) (u_sessions w)\<rparr>"
      using that by (simp add: RevokeSession_def revoked_def [abs_def] split: if_splits)
    then show ?thesis unfolding revoke_result_def by blast
  qed
  show ?thesis
    unfolding HandleLogout_def Let_def by (simp add: same rev split: sum.split prod.split)
qed

lemma revoke_sessions:
  "revoke_result env w v \<Longrightarrow> \<exists>i. u_sessions v = u_sessions w \<or>
     u_sessions v = tbl_upd (\<lambda>s. se_id s = i) (revoked env) (u_sessions w)"
  by (auto simp: revoke_result_def)

lemma revoke_ok: "revoke_result env w v \<Longrightarrow> sessions_ok w \<Longrightarrow> sessions_ok v"
  by (auto simp: revoke_result_def sessions_ok_upd)

lemma HandleLogin_world:
  assumes "sessions_ok w" "trim (ue_id env) = ue_id env"
  shows "sessions_ok (snd (HandleLogin env r body w)) \<and> (u_sessions (snd (HandleLogin env r body w)) = u_sessions w \<or>
     (\<exists>x. u_sessions (snd (HandleLogin env r body w)) = u_sessions w @ [x] \<and> se_id x \<notin> se_id ` set (u_sessions w)))"
  using assms
  by (auto simp: HandleLogin_def CreateSession_def insert_row_def session_of_def sessions_ok_def users_ok_def
      split: option.split sum.split prod.split if_splits)

text \<open>
  Over any request a session never comes back to life: a session that is there before and after
  keeps its user, its token hash and its expiry, and its status either stays or becomes revoked.
\<close>

theorem sessions_only_close:
  assumes "astep w w'" "sessions_ok w"
  shows "sessions_ok w' \<and>
    (\<forall>s\<in>set (u_sessions w). \<forall>s'\<in>set (u_sessions w'). se_id s' = se_id s \<longrightarrow> session_kept s s')"
proof -
  have uniq: "s' = s" if "s \<in> set (u_sessions w)" "s' \<in> set (u_sessions w)" "se_id s' = se_id s" for s s'
    using assms(2) that by (auto simp: sessions_ok_def distinct_map inj_on_def)
  from assms(1) show ?thesis
  proof cases
    case (a_user env a op)
    obtain p where p: "u_sessions w' = filter p (u_sessions w)"
      using sessions_serve [of env a op w] a_user by auto
    have "users_ok w'" using users_ok_serve assms(2) by (simp add: a_user sessions_ok_def)
    then have "sessions_ok w'" using p assms(2) by (auto simp: sessions_ok_def distinct_map_filter)
    moreover have "session_kept s s'" if "s \<in> set (u_sessions w)" "s' \<in> set (u_sessions w')" "se_id s' = se_id s" for s s'
    proof -
      have "s' \<in> set (u_sessions w)" using that(2) p by simp
      then have "s' = s" by (rule uniq [OF that(1) _ that(3)])
      then show ?thesis by (simp add: session_kept_def)
    qed
    ultimately show ?thesis by blast
  next
    case (a_login env r body)
    note L = HandleLogin_world [OF assms(2) a_login(2), of r body, folded a_login(1)]
    have "session_kept s s'" if "s \<in> set (u_sessions w)" "s' \<in> set (u_sessions w')" "se_id s' = se_id s" for s s'
    proof -
      have "s' \<in> set (u_sessions w)" using L that by auto
      then have "s' = s" by (rule uniq [OF that(1) _ that(3)])
      then show ?thesis by (simp add: session_kept_def)
    qed
    with L show ?thesis by blast
  next
    case (a_logout env r body)
    have rr: "revoke_result env w w'" using HandleLogout_world [of env w r body] a_logout by simp
    obtain i where u: "u_sessions w' = u_sessions w \<or> u_sessions w' = tbl_upd (\<lambda>s. se_id s = i) (revoked env) (u_sessions w)"
      using revoke_sessions [OF rr] by blast
    have "session_kept s s'" if s: "s \<in> set (u_sessions w)" "s' \<in> set (u_sessions w')" "se_id s' = se_id s" for s s'
    proof -
      obtain x where x: "x \<in> set (u_sessions w)" "s' = x \<or> s' = revoked env x"
        using u s(2) by (auto simp: set_tbl_upd)
      then have "se_id s' = se_id x" by auto
      then have "se_id x = se_id s" using s(3) by simp
      then have "x = s" by (rule uniq [OF s(1) x(1)])
      with x(2) show ?thesis by (auto simp: session_kept_def)
    qed
    moreover have "sessions_ok w'" by (rule revoke_ok [OF rr assms(2)])
    ultimately show ?thesis by blast
  qed
qed

end
