(* ===== verification/Users_Witnesses.thy ===== *)
theory Users_Witnesses
  imports Auth
begin

text \<open>The properties of users and sessions at a concrete state.\<close>

definition root_user :: user where
  "root_user = \<lparr>us_id = ''u'', us_name = ''ann'', us_display = [], us_admin = True, us_avatar = [],
     us_hash = ''yesnas_pbkdf2_sha256$1$$'', us_status = ''enabled'', us_created = 0, us_updated = None\<rparr>"

definition root_actor :: actor where
  "root_actor = \<lparr>ac_id = ''u'', ac_name = ''ann'', ac_display = [], ac_admin = True\<rparr>"

definition demo_session :: session where
  "demo_session = \<lparr>se_id = ''s'', se_user = ''u'', se_hash = ''tok'', se_status = ''active'', se_ip = [], se_agent = [],
     se_created = 0, se_updated = 0, se_expires = Some 5000, se_seen = None, se_out = None\<rparr>"

definition demo_users :: uworld where
  "demo_users = \<lparr>u_users = [root_user], u_groups = [], u_members = [], u_sessions = [demo_session], u_audit = []\<rparr>"

definition demo_uenv :: uenv where
  "demo_uenv = \<lparr>ue_now = 1000, ue_id = ''n'', ue_up = (\<lambda>_. True), ue_salt = Some ''salt'',
     ue_hmac = (\<lambda>k m. replicate 32 (CHR ''h'')), ue_sha = (\<lambda>x. x), ue_rand = Some ''abc'', ue_os = (\<lambda>_. False)\<rparr>"

definition demo_request :: request where
  "demo_request = \<lparr>rq_method = ''GET'', rq_path = ''/api/v1/users'', rq_auth = [], rq_xtoken = ''tok'', rq_length = 0,
     rq_forwarded = [], rq_realip = [], rq_remote = [], rq_agent = []\<rparr>"

lemmas udemo_defs = root_user_def root_actor_def demo_session_def demo_users_def demo_uenv_def demo_request_def

lemma demo_users_ok: "users_ok demo_users"
  by (simp add: users_ok_def udemo_defs)

lemma demo_sessions_ok: "sessions_ok demo_users"
  by (simp add: sessions_ok_def demo_users_ok) (simp add: udemo_defs trim_def is_space_def)

lemma demo_uenv_up: "\<forall>s. ue_up demo_uenv s"
  by (simp add: demo_uenv_def)

lemma demo_admin: "requireAdmin (Some root_actor)"
  by (simp add: requireAdmin_def root_actor_def)

lemma demo_root: "root_user \<in> set (u_users demo_users)" "us_id root_user = trim ''u''" "us_admin root_user" "admins demo_users = 1"
  by (simp_all add: demo_users_def root_user_def trim_def is_space_def admins_def tbl_rows_def)

lemma demo_enabled: "\<not> is_disabled (us_status root_user)"
  by (simp add: is_disabled_def root_user_def StatusDisabled_def string_defs)

lemma demo_verify: "verifyPassword hm pw (us_hash root_user)"
proof -
  have s: "split_on dollar (us_hash root_user) = [passwordHashPrefix, ''1'', [], []]"
    by (simp add: root_user_def passwordHashPrefix_def dollar_def)
  have "Atoi ''1'' = Some 1" by (simp add: Atoi_def digit_val_def)
  moreover have "b64_dec std_alphabet False [] = Some []" by (simp add: b64_dec_def)
  ultimately show ?thesis by (simp add: verifyPassword_def s pbkdf2SHA256_def hash_size_def)
qed

definition demo_new :: create_req where
  "demo_new = \<lparr>cr_username = '' Bob '', cr_display = [], cr_admin = False, cr_avatar = [], cr_password = ''pw'', cr_status = [],
     cr_groups = ['' g '', [], ''g'']\<rparr>"

definition demo_staff :: uworld where
  "demo_staff = demo_users\<lparr>u_groups := [\<lparr>gr_id = ''g'', gr_name = ''staff'', gr_description = [], gr_created = 0, gr_updated = None\<rparr>]\<rparr>"

theorem create_user_all_or_nothing_witness:
  "\<exists>u v w'. users_HandleCreate demo_uenv (Some root_actor) (Some demo_new) demo_staff = (Reply 201 (u, v), w') \<and>
     u_users w' = [root_user, u] \<and> us_name u = ''bob'' \<and> \<not> us_admin u \<and> length (u_members w') = 1"
proof -
  obtain r w' where e: "users_HandleCreate demo_uenv (Some root_actor) (Some demo_new) demo_staff = (r, w')" by force
  have ok: "users_ok demo_staff" using demo_users_ok by (simp add: demo_staff_def users_ok_def) (simp add: demo_users_def)
  have id: "ue_id demo_uenv \<noteq> []" "trim (ue_id demo_uenv) = ue_id demo_uenv" "ue_id demo_uenv \<notin> us_id ` set (u_users demo_staff)" by code_simp+
  have c: "creatable demo_uenv demo_new demo_staff" by code_simp
  have facts: "normalizeUsername (cr_username demo_new) = ''bob''" "trim ` set (cr_groups demo_new) - {[]} = {''g''}"
    "\<not> cr_admin demo_new" "u_users demo_staff = [root_user]" "u_members demo_staff = []"
    by (code_simp, code_simp, simp_all add: demo_new_def demo_staff_def demo_users_def)
  obtain u v gs where r: "r = Reply 201 (u, v)" "u_users w' = u_users demo_staff @ [u]" "u_members w' = u_members demo_staff @ map (Pair (us_id u)) gs"
    "us_name u = normalizeUsername (cr_username demo_new)" "us_admin u = cr_admin demo_new" "distinct gs"
    "set gs = trim ` set (cr_groups demo_new) - {[]}"
    using create_user_all_or_nothing [OF ok demo_uenv_up demo_admin id e] c by auto
  have "length gs = 1" using distinct_card [OF r(6)] r(7) facts(2) by simp
  then show ?thesis using e r facts by auto
qed

theorem non_admin_changes_self_only_witness:
  "u_groups (serve demo_uenv None (ODelete ''u'') demo_users) = u_groups demo_users"
  using non_admin_changes_self_only [of None demo_uenv "ODelete ''u''" demo_users] by (simp add: requireAdmin_def)

theorem delete_keeps_an_admin_witness:
  "1 \<le> admins (snd (users_HandleDelete demo_uenv (Some root_actor) ''u'' demo_users))"
  by (rule delete_keeps_an_admin [OF demo_users_ok]) (simp add: demo_root)

theorem update_can_remove_last_admin_witness:
  "admins (snd (users_HandleUpdate demo_uenv (Some root_actor) ''u'' (Some (no_change\<lparr>ur_admin := Some False\<rparr>)) demo_users)) = 0"
  using update_can_remove_last_admin [OF demo_users_ok demo_uenv_up demo_admin demo_root] by blast

definition demo_two :: uworld where
  "demo_two = demo_users\<lparr>u_users := [root_user\<lparr>us_admin := False\<rparr>, root_user\<lparr>us_id := ''v'', us_name := ''bob''\<rparr>]\<rparr>"

lemma trim_u: "trim ''u'' = ''u''"
  by (simp add: trim_def is_space_def)

lemma demo_deleted: "\<exists>w'. users_HandleDelete demo_uenv (Some root_actor) ''u'' demo_two = (Reply 200 ''u'', w')"
proof -
  have g: "users_Get demo_uenv UGet ''u'' demo_two = Inr (root_user\<lparr>us_admin := False\<rparr>, [])"
    by (simp add: users_Get_def trim_u sel_one_def hydrateUser_def udemo_defs demo_two_def)
  have "us_id (root_user\<lparr>us_admin := False\<rparr>) = ''u''" by (simp add: root_user_def)
  then show ?thesis by (simp add: users_HandleDelete_def demo_admin g users_Delete_def demo_uenv_up)
qed

theorem delete_cascades_witness:
  "\<exists>w'. users_HandleDelete demo_uenv (Some root_actor) ''u'' demo_two = (Reply 200 ''u'', w') \<and>
     u_sessions w' = [] \<and> length (u_users w') = 1"
proof -
  obtain w' where w': "users_HandleDelete demo_uenv (Some root_actor) ''u'' demo_two = (Reply 200 ''u'', w')"
    using demo_deleted by blast
  from delete_cascades [OF w'] w' trim_u show ?thesis by (simp add: udemo_defs demo_two_def)
qed

theorem new_password_authenticates_witness:
  "\<exists>w' v. UpdateMyPassword demo_uenv ''u'' ''old'' ''new'' demo_users = (Inr (), w') \<and>
     Authenticate demo_uenv ''ann'' ''new'' w' = Inr v"
proof -
  have t: "trim ''u'' = ''u''" "trim ''new'' = ''new''" by (simp_all add: trim_def is_space_def)
  obtain h where h: "hash_it demo_uenv ''new'' = Some h"
    by (simp add: hash_it_def hashPassword_def Let_def t) (simp add: demo_uenv_def)
  have u: "users_Get demo_uenv UGet ''u'' demo_users = Inr (root_user, [])"
    by (simp add: users_Get_def t sel_one_def hydrateUser_def udemo_defs)
  obtain w' where w': "UpdateMyPassword demo_uenv ''u'' ''old'' ''new'' demo_users = (Inr (), w')"
    by (simp add: UpdateMyPassword_def u demo_verify h upd_user_def demo_uenv_up)
  have n: "normalizeUsername ''ann'' = us_name root_user"
    by (simp add: normalizeUsername_def root_user_def string_defs)
  have l: "length (ue_hmac demo_uenv k m) = hash_size" for k m by (simp add: demo_uenv_def hash_size_def)
  have s: "ue_salt demo_uenv = Some ''salt''" by (simp add: demo_uenv_def)
  from new_password_authenticates [OF demo_users_ok l w' demo_root(1,2) demo_enabled demo_uenv_up n s, of "''new''"] w'
  show ?thesis by blast
qed

theorem logout_closes_exactly_witness:
  "actor_for (all_up demo_uenv) (fold (\<lambda>t w. log_out (all_up demo_uenv) w t) [''tok''] demo_users) ''tok'' = None"
  using logout_closes_exactly [OF demo_sessions_ok, of demo_uenv "[''tok'']" "''tok''"] by simp

theorem login_opens_session_witness:
  "\<exists>rep w'. HandleLogin demo_uenv demo_request (Some (''ann'', ''x'')) demo_users = (Reply 200 rep, w') \<and>
     actor_for demo_uenv w' (lo_token rep) = Some (actor_of root_user)"
proof -
  have n: "normalizeUsername ''ann'' = us_name root_user"
    by (simp add: normalizeUsername_def root_user_def string_defs)
  have a: "Authenticate demo_uenv ''ann'' ''x'' demo_users = Inr (root_user, [])"
    by (simp add: Authenticate_def GetByUsername_def n sel_one_def demo_uenv_up hydrateUser_def demo_verify demo_enabled
        demo_users_def)
  have nt: "newSessionToken demo_uenv = Some (b64_enc url_alphabet False ''abc'', b64_enc url_alphabet False ''abc'')"
    using trim_token [of "''abc''"]
    by (simp add: newSessionToken_def hashToken_def Let_def demo_uenv_def del: b64_enc.simps)
  have ne: "b64_enc url_alphabet False ''abc'' \<noteq> ''tok''"
    by (simp add: url_alphabet_def)
  let ?s = "session_of demo_uenv (us_id root_user) (b64_enc url_alphabet False ''abc'') demo_request"
  have ins: "insert_row True (\<lambda>a b. se_id a = se_id b \<or> se_hash a = se_hash b) ?s (u_sessions demo_users) =
      Inr (u_sessions demo_users @ [?s])"
    using ne by (simp add: insert_row_def session_of_def demo_users_def demo_session_def del: b64_enc.simps)
      (simp add: demo_uenv_def)
  have m: "us_id root_user \<in> us_id ` set (u_users demo_users)" by (simp add: demo_users_def)
  obtain rep w' where r: "HandleLogin demo_uenv demo_request (Some (''ann'', ''x'')) demo_users = (Reply 200 rep, w')"
    "lo_user rep = (root_user, [])"
    using m by (simp add: HandleLogin_def a CreateSession_def nt demo_uenv_up ins del: b64_enc.simps)
  have "trim (ue_id demo_uenv) = ue_id demo_uenv" by (simp add: demo_uenv_def trim_def is_space_def)
  from login_opens_session [OF demo_sessions_ok r(1) _ _ this refl] r show ?thesis
    by (auto simp: demo_uenv_def sessionTTL_def)
qed

theorem middleware_guards_witness:
  "\<exists>s u. s \<in> set (u_sessions demo_users) \<and> u \<in> set (u_users demo_users) \<and>
     Middleware demo_uenv demo_request (\<lambda>a w. (Reply 200 a, w)) demo_users = (Reply 200 (Some (actor_of u)), demo_users)"
proof -
  have p: "\<not> isPublicRequest demo_request" by (simp add: isPublicRequest_def demo_request_def)
  have x: "ExtractToken demo_request = ''tok''"
    by (simp add: ExtractToken_def demo_request_def string_defs)
  have l: "LookupSession demo_uenv ''tok'' demo_users = Inr (actor_of root_user, demo_session)"
    unfolding lookup_iff [OF demo_sessions_ok]
    using demo_enabled by (simp add: hashToken_def expired_def sessionStatusActive_def) (simp add: udemo_defs trim_def is_space_def)
  have "Middleware demo_uenv demo_request (\<lambda>a w. (Reply 200 a, w)) demo_users = (Reply 200 (Some (actor_of root_user)), demo_users)"
    by (simp add: Middleware_def p x l)
  with middleware_guards [OF demo_sessions_ok, of demo_request demo_uenv "\<lambda>a w. (Reply 200 a, w)"] p show ?thesis
    by auto
qed

theorem sessions_only_close_witness:
  "sessions_ok (serve demo_uenv (Some root_actor) (ODelete ''u'') demo_users)"
  using sessions_only_close [OF a_user demo_sessions_ok] by blast

end
