(* ===== verification/File_System.thy ===== *)
theory File_System
  imports Go_Path Base64
begin

text \<open>
  The file system the file handlers work on, and the path helpers of internal/files (paths.go,
  operations.go, folders.go).

  A file system maps the segments of a clean absolute path to a directory or to a file with its
  content; there are no symbolic links (so what is proved of paths says nothing of a link inside a
  storage that points out of it), and a relative path is read from \<open>/\<close>.  The environment
  record holds the clock, a fresh identifier, the size reported for directories, which database
  statements work (\<open>o_up\<close>) and what the operating system refuses: \<open>o_ok\<close> whether a call works,
  \<open>o_denied\<close> whether a direct call is refused for permission or across devices (then the handlers
  fall back on \<open>sudo\<close>), \<open>o_keep\<close> which nodes a failing removal leaves or a failing copy made, and
  \<open>o_moved\<close> whether a failing \<open>mv\<close>, which across devices copies and then removes, fails in the copy
  or in the removal.
\<close>

datatype node = DirN | FileN string

type_synonym loc = "string list"

type_synonym fsys = "loc \<rightharpoonup> node"

datatype fcall = CStat loc | CRename | CRemove | CMkdir | CMkdirAll | CMv | CCp | CRm | CSudoMkdir

datatype fsite = FStorage | FRecycle | FFavorite | FListing

record oenv =
  o_now :: int
  o_id :: string
  o_dirsize :: int
  o_up :: "fsite \<Rightarrow> bool"
  o_ok :: "fcall \<Rightarrow> bool"
  o_denied :: bool
  o_keep :: "loc \<Rightarrow> bool"
  o_moved :: bool

datatype oserr = NotExist | Exists | Denied | OtherErr

section \<open>System calls\<close>

definition os_stat :: "oenv \<Rightarrow> fsys \<Rightarrow> string \<Rightarrow> oserr + node" where
  "os_stat env fs p =
     (if \<not> o_ok env (CStat (segs p)) then Inl OtherErr
      else (case fs (segs p) of None \<Rightarrow> Inl NotExist | Some n \<Rightarrow> Inr n))"

definition is_dir :: "fsys \<Rightarrow> loc \<Rightarrow> bool" where
  "is_dir fs l \<longleftrightarrow> l = [] \<or> fs l = Some DirN"

definition parent :: "loc \<Rightarrow> loc" where
  "parent l = butlast l"

definition del_tree :: "loc \<Rightarrow> fsys \<Rightarrow> fsys" where
  "del_tree p fs = (\<lambda>q. if prefix p q then None else fs q)"

definition graft :: "loc \<Rightarrow> loc \<Rightarrow> fsys \<Rightarrow> fsys" where
  \<comment> \<open>The tree at \<open>src\<close> appears at \<open>dst\<close>, over what is there.\<close>
  "graft src dst fs =
     (\<lambda>q. if prefix dst q \<and> fs (src @ drop (length dst) q) \<noteq> None then fs (src @ drop (length dst) q) else fs q)"

definition move_tree :: "loc \<Rightarrow> loc \<Rightarrow> fsys \<Rightarrow> fsys" where
  "move_tree src dst fs =
     (\<lambda>q. if prefix dst q then fs (src @ drop (length dst) q) else if prefix src q then None else fs q)"

text \<open>What \<open>rename(2)\<close> and Go's check for an existing directory require.\<close>

definition rename_ok :: "loc \<Rightarrow> loc \<Rightarrow> fsys \<Rightarrow> bool" where
  "rename_ok src dst fs \<longleftrightarrow> fs src \<noteq> None \<and> dst \<noteq> [] \<and> is_dir fs (parent dst) \<and> \<not> prefix src dst \<and>
     (case fs dst of None \<Rightarrow> True | Some DirN \<Rightarrow> False | Some (FileN _) \<Rightarrow> fs src \<noteq> Some DirN)"

definition os_rename :: "oenv \<Rightarrow> string \<Rightarrow> string \<Rightarrow> fsys \<Rightarrow> oserr + fsys" where
  "os_rename env src dst fs =
     (if o_denied env then Inl Denied
      else if \<not> o_ok env CRename then Inl OtherErr
      else if fs (segs src) = None then Inl NotExist
      else if \<not> rename_ok (segs src) (segs dst) fs then Inl OtherErr
      else Inr (move_tree (segs src) (segs dst) fs))"

text \<open>\<open>mv\<close> and \<open>cp -a\<close> put the source inside a target that is a directory.\<close>

definition into_dir :: "loc \<Rightarrow> loc \<Rightarrow> fsys \<Rightarrow> loc" where
  "into_dir src dst fs = (if is_dir fs dst then dst @ [last src] else dst)"

definition partial_copy :: "oenv \<Rightarrow> loc \<Rightarrow> loc \<Rightarrow> fsys \<Rightarrow> fsys" where
  "partial_copy env src dst fs = (\<lambda>q. if prefix dst q \<and> o_keep env q then graft src dst fs q else fs q)"

text \<open>A copy is whole before \<open>mv\<close> removes anything of the source.\<close>

definition partial_removal :: "oenv \<Rightarrow> loc \<Rightarrow> loc \<Rightarrow> fsys \<Rightarrow> fsys" where
  "partial_removal env src dst fs = (\<lambda>q. if prefix src q \<and> \<not> o_keep env q then None else graft src dst fs q)"

definition sudo_mv :: "oenv \<Rightarrow> string \<Rightarrow> string \<Rightarrow> fsys \<Rightarrow> bool \<times> fsys" where
  "sudo_mv env src dst fs =
     (let s = segs src; d = into_dir s (segs dst) fs in
      if s = [] \<or> \<not> rename_ok s d fs then (False, fs)
      else if o_ok env CMv then (True, move_tree s d fs)
      else if o_moved env then (False, partial_removal env s d fs)
      else (False, partial_copy env s d fs))"

definition sudo_cp :: "oenv \<Rightarrow> string \<Rightarrow> string \<Rightarrow> fsys \<Rightarrow> bool \<times> fsys" where
  "sudo_cp env src dst fs =
     (let s = segs src; d = into_dir s (segs dst) fs in
      if s = [] \<or> fs s = None \<or> d = [] \<or> \<not> is_dir fs (parent d) \<or> prefix s d \<or> (fs d \<noteq> None \<and> fs d \<noteq> fs s \<and> (fs d = Some DirN \<or> fs s = Some DirN))
      then (False, fs)
      else if o_ok env CCp then (True, graft s d fs)
      else (False, partial_copy env s d fs))"

definition os_RemoveAll :: "oenv \<Rightarrow> string \<Rightarrow> fsys \<Rightarrow> (oserr + unit) \<times> fsys" where
  "os_RemoveAll env p fs =
     (if o_denied env then (Inl Denied, fs)
      else if o_ok env CRemove then (Inr (), del_tree (segs p) fs)
      else (Inl OtherErr, (\<lambda>q. if prefix (segs p) q \<and> \<not> o_keep env q then None else fs q)))"

definition sudo_rm :: "oenv \<Rightarrow> string \<Rightarrow> fsys \<Rightarrow> bool \<times> fsys" where
  "sudo_rm env p fs =
     (if o_ok env CRm then (True, del_tree (segs p) fs)
      else (False, (\<lambda>q. if prefix (segs p) q \<and> \<not> o_keep env q then None else fs q)))"

definition os_Mkdir :: "oenv \<Rightarrow> string \<Rightarrow> fsys \<Rightarrow> oserr + fsys" where
  "os_Mkdir env p fs =
     (if segs p = [] \<or> fs (segs p) \<noteq> None then Inl Exists
      else if \<not> is_dir fs (parent (segs p)) then Inl NotExist
      else if o_denied env then Inl Denied
      else if o_ok env CMkdir then Inr (fs(segs p \<mapsto> DirN))
      else Inl OtherErr)"

text \<open>\<open>os.MkdirAll\<close>: make every missing directory on the way, stop at a file.\<close>

fun mkdirs :: "loc list \<Rightarrow> fsys \<Rightarrow> bool \<times> fsys" where
  "mkdirs [] fs = (True, fs)"
| "mkdirs (l # ls) fs =
     (case fs l of
        None \<Rightarrow> mkdirs ls (fs(l \<mapsto> DirN))
      | Some DirN \<Rightarrow> mkdirs ls fs
      | Some (FileN _) \<Rightarrow> (False, fs))"

definition os_MkdirAll :: "oenv \<Rightarrow> string \<Rightarrow> fsys \<Rightarrow> bool \<times> fsys" where
  "os_MkdirAll env p fs =
     (if o_ok env CMkdirAll then mkdirs (map (\<lambda>n. take n (segs p)) [1..<Suc (length (segs p))]) fs
      else (False, fs))"

section \<open>The helpers of the handlers\<close>

definition movePath :: "oenv \<Rightarrow> string \<Rightarrow> string \<Rightarrow> fsys \<Rightarrow> bool \<times> fsys" where
  "movePath env src dst fs =
     (case os_rename env src dst fs of
        Inr fs' \<Rightarrow> (True, fs')
      | Inl Denied \<Rightarrow> sudo_mv env src dst fs
      | Inl _ \<Rightarrow> (False, fs))"

definition copyPath :: "oenv \<Rightarrow> string \<Rightarrow> string \<Rightarrow> fsys \<Rightarrow> bool \<times> fsys" where
  "copyPath env src dst fs = sudo_cp env src dst fs"

definition removePath :: "oenv \<Rightarrow> string \<Rightarrow> fsys \<Rightarrow> bool \<times> fsys" where
  "removePath env p fs =
     (case os_RemoveAll env p fs of
        (Inr _, fs') \<Rightarrow> (True, fs')
      | (Inl Denied, fs') \<Rightarrow> sudo_rm env p fs'
      | (Inl _, fs') \<Rightarrow> (False, fs'))"

definition createFolder :: "oenv \<Rightarrow> string \<Rightarrow> fsys \<Rightarrow> (oserr + unit) \<times> fsys" where
  "createFolder env p fs =
     (case os_Mkdir env p fs of
        Inr fs' \<Rightarrow> (Inr (), fs')
      | Inl Denied \<Rightarrow>
          if o_ok env CSudoMkdir then (Inr (), fs(segs p \<mapsto> DirN))
          else (case os_stat env fs p of Inr _ \<Rightarrow> (Inl Exists, fs) | Inl _ \<Rightarrow> (Inl OtherErr, fs))
      | Inl e \<Rightarrow> (Inl e, fs))"

section \<open>Identifiers of files\<close>

definition encodeFilePath :: "string \<Rightarrow> string" where
  "encodeFilePath p = b64_enc url_alphabet True (Clean p)"

definition decodeFileID :: "string \<Rightarrow> string option" where
  "decodeFileID i = (case b64_dec url_alphabet True i of None \<Rightarrow> None | Some b \<Rightarrow> Some (Clean b))"

definition TrimSuffix :: "string \<Rightarrow> string \<Rightarrow> string" where
  "TrimSuffix s suf = (if has_suffix suf s then take (length s - length suf) s else s)"

definition candidate :: "string \<Rightarrow> string \<Rightarrow> string \<Rightarrow> nat \<Rightarrow> string" where
  "candidate dir base ext i = Join [dir, base @ '' ('' @ decimal i @ '')'' @ ext]"

text \<open>The loop over the candidates, \<open>n\<close> of them left.\<close>

fun try_names :: "oenv \<Rightarrow> fsys \<Rightarrow> string \<Rightarrow> string \<Rightarrow> string \<Rightarrow> nat \<Rightarrow> nat \<Rightarrow> string option" where
  "try_names env fs dir base ext i 0 = None"
| "try_names env fs dir base ext i (Suc n) =
     (case os_stat env fs (candidate dir base ext i) of
        Inl NotExist \<Rightarrow> Some (candidate dir base ext i)
      | Inl _ \<Rightarrow> None
      | Inr _ \<Rightarrow> try_names env fs dir base ext (Suc i) n)"

definition nextAvailablePath :: "oenv \<Rightarrow> fsys \<Rightarrow> string \<Rightarrow> string \<Rightarrow> string option" where
  "nextAvailablePath env fs src dst =
     (case os_stat env fs src of
        Inl _ \<Rightarrow> None
      | Inr n \<Rightarrow>
          (let dir = Dir dst; name = Base dst;
               ext = (if n = DirN then [] else Ext name);
               base = (if n = DirN then name else TrimSuffix name ext) in
           try_names env fs dir base ext 1 10000))"

definition trash_of :: "string \<Rightarrow> string" where
  "trash_of root = Join [root, ''.trash'']"

definition validateOperationTargetBase :: "string \<Rightarrow> string \<Rightarrow> string \<Rightarrow> bool" where
  "validateOperationTargetBase root src dst \<longleftrightarrow>
     isPathWithinRoot root (Clean dst) \<and> Clean src \<noteq> Clean dst \<and> \<not> isPathWithinRoot (trash_of root) (Clean dst)"

definition validateOperationTarget :: "oenv \<Rightarrow> fsys \<Rightarrow> string \<Rightarrow> string \<Rightarrow> string \<Rightarrow> bool" where
  "validateOperationTarget env fs root src dst \<longleftrightarrow>
     validateOperationTargetBase root src dst \<and> os_stat env fs (Clean dst) = Inl NotExist"

datatype policy = PError | POverwrite | PRename

definition normalizeConflictPolicy :: "string \<Rightarrow> policy option" where
  "normalizeConflictPolicy s =
     (let p = trim (to_lower s) in
      if p = [] \<or> p = ''error'' then Some PError
      else if p = ''overwrite'' then Some POverwrite
      else if p = ''rename'' then Some PRename
      else None)"

definition resolveConflictTarget ::
  "oenv \<Rightarrow> fsys \<Rightarrow> string \<Rightarrow> string \<Rightarrow> string \<Rightarrow> policy \<Rightarrow> (string \<times> bool) option" where
  "resolveConflictTarget env fs root src dst pol =
     (if \<not> validateOperationTargetBase root src dst then None
      else (case os_stat env fs (Clean dst) of
              Inr _ \<Rightarrow>
                (case pol of
                   POverwrite \<Rightarrow> Some (Clean dst, True)
                 | PRename \<Rightarrow> map_option (\<lambda>p. (p, False)) (nextAvailablePath env fs src (Clean dst))
                 | PError \<Rightarrow> None)
            | Inl NotExist \<Rightarrow> Some (Clean dst, False)
            | Inl _ \<Rightarrow> None))"

end
