(* ===== verification/File_Ops.thy ===== *)
theory File_Ops
  imports File_System Stores
begin

text \<open>
  The file handlers: internal/files/operations.go, folders.go, trash.go and the tables of store.go.
  An error of a helper is the status and code the handler writes.
\<close>

record recycle_item =
  rb_id :: string
  rb_storage :: string
  rb_name :: string
  rb_orig :: string
  rb_path :: string
  rb_dir :: bool
  rb_size :: int
  rb_deleted :: int
  rb_expires :: "int option"

record favorite =
  fv_id :: string
  fv_storage :: string
  fv_name :: string
  fv_path :: string
  fv_colors :: "string list"
  fv_created :: int

record fworld =
  f_fs :: fsys
  f_storages :: "storage list"
  f_recycle :: "recycle_item list"
  f_favs :: "favorite list"

type_synonym herr = "nat \<times> string"

definition fail_of :: "herr \<Rightarrow> 'a resp" where
  "fail_of e = Fail (fst e) (snd e)"

definition set_fs :: "fsys \<Rightarrow> fworld \<Rightarrow> fworld" where
  "set_fs fs w = w\<lparr>f_fs := fs\<rparr>"

section \<open>Sources, parents, replies\<close>

definition resolveFileOperationSource :: "oenv \<Rightarrow> string \<Rightarrow> string \<Rightarrow> fworld \<Rightarrow> herr + storage \<times> string" where
  "resolveFileOperationSource env sid fid w =
     (let storageID = trim sid; fileID = trim fid in
      if fileID = [] then Inl (400, ''FILE_ID_REQUIRED'')
      else (case storage_Get (o_up env FStorage) storageID (f_storages w) of
        Inl _ \<Rightarrow> Inl (404, ''STORAGE_NOT_FOUND'')
      | Inr st \<Rightarrow>
          (case decodeFileID fileID of
             None \<Rightarrow> Inl (400, ''INVALID_FILE_ID'')
           | Some decoded \<Rightarrow>
               (let src = Clean decoded in
                if \<not> isPathWithinRoot (st_mount st) src then Inl (400, ''PATH_OUT_OF_RANGE'')
                else if Clean src = Clean (st_mount st) then Inl (400, ''ROOT_OPERATION_FORBIDDEN'')
                else if isPathWithinRoot (trash_of (st_mount st)) src then Inl (400, ''TRASH_OPERATION_FORBIDDEN'')
                else (case os_stat env (f_fs w) src of
                        Inl NotExist \<Rightarrow> Inl (404, ''FILE_NOT_FOUND'')
                      | Inl _ \<Rightarrow> Inl (500, ''STAT_FILE_FAILED'')
                      | Inr _ \<Rightarrow> Inr (st, src))))))"

definition resolveOperationParent :: "oenv \<Rightarrow> storage \<Rightarrow> string \<Rightarrow> fworld \<Rightarrow> herr + string" where
  "resolveOperationParent env st pid w =
     (let parentID = trim pid in
      if parentID = [] then Inl (400, ''PARENT_ID_REQUIRED'')
      else (case decodeFileID parentID of
        None \<Rightarrow> Inl (400, ''INVALID_PARENT_ID'')
      | Some decoded \<Rightarrow>
          (let par = Clean decoded in
           if \<not> isPathWithinRoot (st_mount st) par then Inl (400, ''PARENT_OUT_OF_RANGE'')
           else if isPathWithinRoot (trash_of (st_mount st)) par then Inl (400, ''TRASH_TARGET_FORBIDDEN'')
           else (case os_stat env (f_fs w) par of
                   Inl NotExist \<Rightarrow> Inl (404, ''PARENT_NOT_FOUND'')
                 | Inl _ \<Rightarrow> Inl (500, ''STAT_PARENT_FAILED'')
                 | Inr n \<Rightarrow> if n \<noteq> DirN then Inl (400, ''PARENT_NOT_FOLDER'') else Inr par))))"

record op_reply =
  or_id :: string
  or_parent :: string
  or_name :: string
  or_dir :: bool
  or_path :: string

definition rel_or_empty :: "string \<Rightarrow> string \<Rightarrow> string" where
  "rel_or_empty root p = (case Rel root p of None \<Rightarrow> [] | Some r \<Rightarrow> r)"

definition buildFileOperationResponse :: "oenv \<Rightarrow> fsys \<Rightarrow> string \<Rightarrow> string \<Rightarrow> op_reply" where
  "buildFileOperationResponse env fs root p =
     \<lparr>or_id = encodeFilePath p, or_parent = encodeFilePath (Dir p), or_name = Base p,
      or_dir = (os_stat env fs p = Inr DirN), or_path = rel_or_empty root p\<rparr>"

definition chosen_name :: "string \<Rightarrow> string \<Rightarrow> string" where
  "chosen_name req src = (let name = trim req in if name = [] then Base src else name)"

section \<open>Rename, move, copy\<close>

definition HandleRename :: "oenv \<Rightarrow> string \<Rightarrow> string \<Rightarrow> string option \<Rightarrow> fworld \<Rightarrow> op_reply resp \<times> fworld" where
  "HandleRename env sid fid body w =
     (case resolveFileOperationSource env sid fid w of
        Inl e \<Rightarrow> (fail_of e, w)
      | Inr (st, src) \<Rightarrow>
          (case body of
             None \<Rightarrow> (Fail 400 ''INVALID_BODY'', w)
           | Some req \<Rightarrow>
               (let name = trim req in
                if \<not> validFileName name then (Fail 400 ''INVALID_FILE_NAME'', w)
                else
                  (let dst = Join [Dir src, name] in
                   if \<not> validateOperationTarget env (f_fs w) (st_mount st) src dst then (Fail 400 ''INVALID_TARGET'', w)
                   else (case movePath env src dst (f_fs w) of
                           (False, fs') \<Rightarrow> (Fail 500 ''RENAME_FILE_FAILED'', set_fs fs' w)
                         | (True, fs') \<Rightarrow> (Reply 200 (buildFileOperationResponse env fs' (st_mount st) dst), set_fs fs' w))))))"

record place_req =
  pr_parent :: string
  pr_name :: string
  pr_policy :: string

datatype transfer = Move | Copy

definition self_code :: "transfer \<Rightarrow> string" where
  "self_code t = (case t of Move \<Rightarrow> ''MOVE_INTO_SELF'' | Copy \<Rightarrow> ''COPY_INTO_SELF'')"

definition fail_code :: "transfer \<Rightarrow> string" where
  "fail_code t = (case t of Move \<Rightarrow> ''MOVE_FILE_FAILED'' | Copy \<Rightarrow> ''COPY_FILE_FAILED'')"

definition transfer_path :: "transfer \<Rightarrow> oenv \<Rightarrow> string \<Rightarrow> string \<Rightarrow> fsys \<Rightarrow> bool \<times> fsys" where
  "transfer_path t = (case t of Move \<Rightarrow> movePath | Copy \<Rightarrow> copyPath)"

text \<open>\<open>HandleMove\<close> and \<open>HandleCopy\<close> differ in their last call and two codes only.\<close>

definition place ::
  "transfer \<Rightarrow> oenv \<Rightarrow> storage \<Rightarrow> string \<Rightarrow> string \<Rightarrow> policy \<Rightarrow> fworld \<Rightarrow> op_reply resp \<times> fworld" where
  "place t env st src dst0 pol w =
     (case resolveConflictTarget env (f_fs w) (st_mount st) src dst0 pol of
        None \<Rightarrow> (Fail 400 ''INVALID_TARGET'', w)
      | Some (dst, overwrite) \<Rightarrow>
          if isPathWithinRoot src dst then (Fail 400 (self_code t), w)
          else
            (case (if overwrite then removePath env dst (f_fs w) else (True, f_fs w)) of
               (False, fs1) \<Rightarrow> (Fail 500 ''OVERWRITE_TARGET_FAILED'', set_fs fs1 w)
             | (True, fs1) \<Rightarrow>
                 (case transfer_path t env src dst fs1 of
                    (False, fs2) \<Rightarrow> (Fail 500 (fail_code t), set_fs fs2 w)
                  | (True, fs2) \<Rightarrow> (Reply 200 (buildFileOperationResponse env fs2 (st_mount st) dst), set_fs fs2 w))))"

definition transfer_handler ::
  "transfer \<Rightarrow> oenv \<Rightarrow> string \<Rightarrow> string \<Rightarrow> place_req option \<Rightarrow> fworld \<Rightarrow> op_reply resp \<times> fworld" where
  "transfer_handler t env sid fid body w =
     (case resolveFileOperationSource env sid fid w of
        Inl e \<Rightarrow> (fail_of e, w)
      | Inr (st, src) \<Rightarrow>
          (case body of
             None \<Rightarrow> (Fail 400 ''INVALID_BODY'', w)
           | Some req \<Rightarrow>
               (case resolveOperationParent env st (pr_parent req) w of
                  Inl e \<Rightarrow> (fail_of e, w)
                | Inr par \<Rightarrow>
                    (let name = chosen_name (pr_name req) src in
                     if \<not> validFileName name then (Fail 400 ''INVALID_FILE_NAME'', w)
                     else (case normalizeConflictPolicy (pr_policy req) of
                             None \<Rightarrow> (Fail 400 ''INVALID_CONFLICT_POLICY'', w)
                           | Some pol \<Rightarrow> place t env st src (Join [par, name]) pol w)))))"

definition HandleMove :: "oenv \<Rightarrow> string \<Rightarrow> string \<Rightarrow> place_req option \<Rightarrow> fworld \<Rightarrow> op_reply resp \<times> fworld" where
  "HandleMove env sid fid body w = transfer_handler Move env sid fid body w"

definition HandleCopy :: "oenv \<Rightarrow> string \<Rightarrow> string \<Rightarrow> place_req option \<Rightarrow> fworld \<Rightarrow> op_reply resp \<times> fworld" where
  "HandleCopy env sid fid body w = transfer_handler Copy env sid fid body w"

record conflict_reply =
  cf_has :: bool
  cf_name :: string
  cf_parent :: string
  cf_target :: string
  cf_dir :: "bool option"

definition HandleConflictCheck ::
  "oenv \<Rightarrow> string \<Rightarrow> string \<Rightarrow> (string \<times> string) option \<Rightarrow> fworld \<Rightarrow> conflict_reply resp" where
  "HandleConflictCheck env sid fid body w =
     (case resolveFileOperationSource env sid fid w of
        Inl e \<Rightarrow> fail_of e
      | Inr (st, src) \<Rightarrow>
          (case body of
             None \<Rightarrow> Fail 400 ''INVALID_BODY''
           | Some (pid, req) \<Rightarrow>
               (case resolveOperationParent env st pid w of
                  Inl e \<Rightarrow> fail_of e
                | Inr par \<Rightarrow>
                    (let name = chosen_name req src; dst = Join [par, name] in
                     if \<not> validFileName name then Fail 400 ''INVALID_FILE_NAME''
                     else if \<not> validateOperationTargetBase (st_mount st) src dst then Fail 400 ''INVALID_TARGET''
                     else (case os_stat env (f_fs w) dst of
                             Inr n \<Rightarrow> Reply 200 \<lparr>cf_has = True, cf_name = name, cf_parent = encodeFilePath par,
                                cf_target = encodeFilePath dst, cf_dir = Some (n = DirN)\<rparr>
                           | Inl NotExist \<Rightarrow> Reply 200 \<lparr>cf_has = False, cf_name = name, cf_parent = encodeFilePath par,
                                cf_target = [], cf_dir = None\<rparr>
                           | Inl _ \<Rightarrow> Fail 500 ''STAT_TARGET_FAILED'')))))"

section \<open>Folders\<close>

record folder_req =
  fq_storage :: string
  fq_parent :: string
  fq_name :: string

definition HandleCreateFolder ::
  "oenv \<Rightarrow> string \<Rightarrow> folder_req option \<Rightarrow> fworld \<Rightarrow> (string \<times> string \<times> string) resp \<times> fworld" where
  "HandleCreateFolder env path_sid body w =
     (case body of
        None \<Rightarrow> (Fail 400 ''INVALID_BODY'', w)
      | Some req \<Rightarrow>
          (let sid = (if path_sid = [] then fq_storage req else path_sid) in
           if sid = [] then (Fail 400 ''STORAGE_ID_REQUIRED'', w)
           else (case storage_Get (o_up env FStorage) sid (f_storages w) of
             Inl _ \<Rightarrow> (Fail 404 ''STORAGE_NOT_FOUND'', w)
           | Inr st \<Rightarrow>
               (let name = trim (fq_name req) in
                if name = [] then (Fail 400 ''NAME_REQUIRED'', w)
                else if name = ''.'' \<or> name = ''..'' \<or> name \<noteq> Base name then (Fail 400 ''INVALID_FOLDER_NAME'', w)
                else (case (if fq_parent req = [] then Some (Clean (st_mount st)) else decodeFileID (fq_parent req)) of
                  None \<Rightarrow> (Fail 400 ''INVALID_PARENT_ID'', w)
                | Some par \<Rightarrow>
                    if \<not> isPathWithinRoot (st_mount st) par then (Fail 400 ''PARENT_OUT_OF_RANGE'', w)
                    else
                      (let dst = Join [par, name] in
                       if \<not> isPathWithinRoot (st_mount st) dst then (Fail 400 ''TARGET_PATH_INVALID'', w)
                       else (case createFolder env dst (f_fs w) of
                               (Inl Exists, fs') \<Rightarrow> (Fail 409 ''FOLDER_ALREADY_EXISTS'', set_fs fs' w)
                             | (Inl _, fs') \<Rightarrow> (Fail 500 ''CREATE_FOLDER_FAILED'', set_fs fs' w)
                             | (Inr _, fs') \<Rightarrow> (Reply 201 (encodeFilePath dst, encodeFilePath par, name), set_fs fs' w))))))))"

section \<open>The trash\<close>

text \<open>Year, month and day of a day number (proleptic Gregorian calendar).\<close>

definition civil :: "int \<Rightarrow> int \<times> int \<times> int" where
  "civil d =
     (let z = d + 719468; era = z div 146097; doe = z mod 146097;
          yoe = (doe - doe div 1460 + doe div 36524 - doe div 146096) div 365;
          doy = doe - (365 * yoe + yoe div 4 - yoe div 100);
          mp = (5 * doy + 2) div 153;
          day = doy - (153 * mp + 2) div 5 + 1;
          month = (if mp < 10 then mp + 3 else mp - 9);
          year = yoe + era * 400 + (if month \<le> 2 then 1 else 0)
      in (year, month, day))"

definition padded :: "nat \<Rightarrow> int \<Rightarrow> string" where
  "padded k n = (let s = decimal (nat n) in replicate (k - length s) (CHR ''0'') @ s)"

definition buildTrashDir :: "string \<Rightarrow> int \<Rightarrow> string" where
  "buildTrashDir root now =
     (case civil (now div 86400) of
        (y, m, d) \<Rightarrow> Join [root, ''.trash'', padded 4 y, padded 2 m, padded 2 d])"

definition uniqueTrashName :: "oenv \<Rightarrow> string \<Rightarrow> string" where
  "uniqueTrashName env name = o_id env @ ''_'' @ Base name"

definition AddRecycleBinItem :: "oenv \<Rightarrow> recycle_item \<Rightarrow> fworld \<Rightarrow> db_err + string \<times> fworld" where
  "AddRecycleBinItem env item w =
     (let item' = (if rb_id item = [] then item\<lparr>rb_id := o_id env\<rparr> else item) in
      if rb_storage item' \<notin> st_id ` set (f_storages w) then Inl (if o_up env FRecycle then Constraint else DbFail)
      else (case insert_row (o_up env FRecycle)
                   (\<lambda>a b. rb_id a = rb_id b \<or> (rb_storage a = rb_storage b \<and> rb_orig a = rb_orig b)) item' (f_recycle w) of
              Inl e \<Rightarrow> Inl e
            | Inr t \<Rightarrow> Inr (rb_id item', w\<lparr>f_recycle := t\<rparr>)))"

definition DeleteFavoriteByPath :: "oenv \<Rightarrow> string \<Rightarrow> string \<Rightarrow> fworld \<Rightarrow> fworld" where
  \<comment> \<open>Its error is only logged.\<close>
  "DeleteFavoriteByPath env sid p w =
     (if o_up env FFavorite
      then w\<lparr>f_favs := tbl_del (\<lambda>f. fv_storage f = sid \<and> fv_path f = p) (f_favs w)\<rparr> else w)"

definition ListRecycleBinItemsByStorage :: "oenv \<Rightarrow> string \<Rightarrow> fworld \<Rightarrow> db_err + recycle_item list" where
  "ListRecycleBinItemsByStorage env sid w =
     sel_all (o_up env FListing) (order_desc rb_deleted (filter (\<lambda>r. rb_storage r = sid) (f_recycle w)))"

definition ListAllRecycleBinItems :: "oenv \<Rightarrow> fworld \<Rightarrow> db_err + recycle_item list" where
  "ListAllRecycleBinItems env w = sel_all (o_up env FListing) (order_desc rb_deleted (f_recycle w))"

definition ListFavorites :: "oenv \<Rightarrow> fworld \<Rightarrow> db_err + favorite list" where
  "ListFavorites env w = sel_all (o_up env FListing) (order_desc fv_created (f_favs w))"

record delete_reply =
  dr_id :: string
  dr_storage :: string
  dr_orig :: string
  dr_path :: string
  dr_name :: string

definition node_size :: "oenv \<Rightarrow> node \<Rightarrow> int" where
  "node_size env n = (case n of DirN \<Rightarrow> o_dirsize env | FileN c \<Rightarrow> int (length c))"

definition undo_rename :: "oenv \<Rightarrow> string \<Rightarrow> string \<Rightarrow> fsys \<Rightarrow> fsys" where
  \<comment> \<open>\<open>_ = os.Rename(...)\<close>\<close>
  "undo_rename env src dst fs = (case os_rename env src dst fs of Inl _ \<Rightarrow> fs | Inr fs' \<Rightarrow> fs')"

text \<open>From the rename into the trash directory on; \<open>env2\<close> is the environment of the undo.\<close>

definition trash_item ::
  "oenv \<Rightarrow> oenv \<Rightarrow> storage \<Rightarrow> string \<Rightarrow> string \<Rightarrow> node \<Rightarrow> string \<Rightarrow> string \<Rightarrow> fworld \<Rightarrow> delete_reply resp \<times> fworld" where
  "trash_item env env2 st sid src n orig trashDir w =
     (let name = Base src; dst = Join [trashDir, uniqueTrashName env name] in
      case os_rename env src dst (f_fs w) of
        Inl _ \<Rightarrow> (Fail 500 ''MOVE_TO_TRASH_FAILED'', w)
      | Inr fs2 \<Rightarrow>
          (case Rel (st_mount st) dst of
             None \<Rightarrow> (Fail 500 ''TRASH_REL_PATH_FAILED'', set_fs (undo_rename env2 dst src fs2) w)
           | Some rpath \<Rightarrow>
               (case AddRecycleBinItem env
                       \<lparr>rb_id = [], rb_storage = sid, rb_name = name, rb_orig = orig, rb_path = rpath,
                        rb_dir = (n = DirN), rb_size = node_size env n, rb_deleted = o_now env, rb_expires = None\<rparr>
                       (set_fs fs2 w) of
                  Inl _ \<Rightarrow> (Fail 500 ''RECYCLE_RECORD_FAILED'', set_fs (undo_rename env2 dst src fs2) w)
                | Inr (rid, w3) \<Rightarrow>
                    (Reply 200 \<lparr>dr_id = rid, dr_storage = sid, dr_orig = orig, dr_path = rpath, dr_name = name\<rparr>,
                     DeleteFavoriteByPath env sid orig w3))))"

definition files_HandleDelete :: "oenv \<Rightarrow> oenv \<Rightarrow> string \<Rightarrow> string \<Rightarrow> fworld \<Rightarrow> delete_reply resp \<times> fworld" where
  "files_HandleDelete env env2 sid fid w =
     (if fid = [] then (Fail 400 ''FILE_ID_REQUIRED'', w)
      else (case storage_Get (o_up env FStorage) sid (f_storages w) of
        Inl _ \<Rightarrow> (Fail 404 ''STORAGE_NOT_FOUND'', w)
      | Inr st \<Rightarrow>
          (case decodeFileID fid of
             None \<Rightarrow> (Fail 400 ''INVALID_FILE_ID'', w)
           | Some src \<Rightarrow>
               if \<not> isPathWithinRoot (st_mount st) src then (Fail 400 ''PATH_OUT_OF_RANGE'', w)
               else if isPathWithinRoot (trash_of (st_mount st)) src then (Fail 400 ''ALREADY_IN_TRASH'', w)
               else (case os_stat env (f_fs w) src of
                 Inl NotExist \<Rightarrow> (Fail 404 ''FILE_NOT_FOUND'', w)
               | Inl _ \<Rightarrow> (Fail 500 ''STAT_FILE_FAILED'', w)
               | Inr n \<Rightarrow>
                   (case Rel (st_mount st) src of
                      None \<Rightarrow> (Fail 500 ''REL_PATH_FAILED'', w)
                    | Some orig \<Rightarrow>
                        (let trashDir = buildTrashDir (st_mount st) (o_now env) in
                         case os_MkdirAll env trashDir (f_fs w) of
                           (False, fs1) \<Rightarrow> (Fail 500 ''CREATE_TRASH_DIR_FAILED'', set_fs fs1 w)
                         | (True, fs1) \<Rightarrow> trash_item env env2 st sid src n orig trashDir (set_fs fs1 w)))))))"

end
