(* ===== verification/Files_Props.thy ===== *)
theory Files_Props
  imports File_Ops
begin

text \<open>
  Properties of the file handlers: what they can touch, what a move does, what is never overwritten,
  and where a file goes when it is deleted; and the requests that lose data or leave the root.
\<close>

section \<open>What the calls touch\<close>

definition only_under :: "loc list \<Rightarrow> fsys \<Rightarrow> fsys \<Rightarrow> bool" where
  "only_under ls fs fs' \<longleftrightarrow> (\<forall>q. (\<forall>l\<in>set ls. \<not> prefix l q) \<longrightarrow> fs' q = fs q)"

lemma only_under_refl [simp]: "only_under ls fs fs"
  by (simp add: only_under_def)

lemma only_under_trans: "only_under ls a b \<Longrightarrow> only_under ls b c \<Longrightarrow> only_under ls a c"
  by (simp add: only_under_def)

lemma only_under_mono: "only_under ls a b \<Longrightarrow> (\<And>l. l \<in> set ls \<Longrightarrow> \<exists>k\<in>set ks. prefix k l) \<Longrightarrow> only_under ks a b"
  unfolding only_under_def by (meson prefix_order.trans)

lemma under_move_tree: "only_under [s, d] fs (move_tree s d fs)"
  by (simp add: only_under_def move_tree_def)

lemma under_graft: "only_under [d] fs (graft s d fs)"
  by (simp add: only_under_def graft_def)

lemma under_partial: "only_under [d] fs (partial_copy env s d fs)"
  by (simp add: only_under_def partial_copy_def)

lemma under_removal: "only_under [s, d] fs (partial_removal env s d fs)"
  by (simp add: only_under_def partial_removal_def graft_def)

lemma into_dir_prefix: "prefix d (into_dir s d fs)"
  by (simp add: into_dir_def)

lemma under_movePath: "only_under [segs s, segs d] fs (snd (movePath env s d fs))"
proof -
  let ?i = "into_dir (segs s) (segs d) fs"
  have w: "only_under [segs s, segs d] fs x" if "only_under [segs s, ?i] fs x \<or> only_under [?i] fs x" for x
    using that into_dir_prefix [of "segs d" "segs s" fs] by (auto elim!: only_under_mono)
  show ?thesis
    by (auto simp: movePath_def os_rename_def sudo_mv_def Let_def under_move_tree split: sum.split oserr.split
        intro!: w disjI1 [OF under_move_tree] disjI1 [OF under_removal] disjI2 [OF under_partial])
qed

lemma under_copyPath: "only_under [segs d] fs (snd (copyPath env s d fs))"
proof -
  let ?i = "into_dir (segs s) (segs d) fs"
  have w: "only_under [segs d] fs x" if "only_under [?i] fs x" for x
    using that into_dir_prefix [of "segs d" "segs s" fs] by (auto elim!: only_under_mono)
  show ?thesis
    by (auto simp: copyPath_def sudo_cp_def Let_def intro!: w under_graft under_partial)
qed

lemma under_transfer: "only_under [segs s, segs d] fs (snd (transfer_path t env s d fs))"
  by (cases t) (auto simp: transfer_path_def under_movePath intro: only_under_mono [OF under_copyPath])

lemma under_removePath: "only_under [segs p] fs (snd (removePath env p fs))"
  by (auto simp: removePath_def os_RemoveAll_def sudo_rm_def only_under_def del_tree_def split: sum.split oserr.split prod.split)

lemma under_createFolder: "only_under [segs p] fs (snd (createFolder env p fs))"
  by (auto simp: createFolder_def os_Mkdir_def only_under_def split: sum.split oserr.split)

section \<open>Names and candidates\<close>

lemma decimal_no_slash: "slash \<notin> set (decimal n)"
proof
  assume "slash \<in> set (decimal n)"
  then obtain k where "k \<in> {48 ..< 58 :: nat}" "slash = char_of k" using decimal_digits [of n] by blast
  moreover have "(of_char (char_of k :: char) :: nat) = k mod 256" by (rule of_char_of)
  ultimately have "(of_char slash :: nat) = k" by simp
  with \<open>k \<in> {48 ..< 58}\<close> show False by (simp add: slash_def)
qed

lemma numbered_plain:
  assumes "slash \<notin> set b" "slash \<notin> set e"
  shows "plain_seg (b @ '' ('' @ decimal i @ '')'' @ e)"
proof -
  have "CHR ''('' \<in> set (b @ '' ('' @ decimal i @ '')'' @ e)" by simp
  moreover have "CHR ''('' \<notin> set ''.''" "CHR ''('' \<notin> set dotdot" by (simp_all add: dotdot_def)
  ultimately have "b @ '' ('' @ decimal i @ '')'' @ e \<noteq> ''.''" "b @ '' ('' @ decimal i @ '')'' @ e \<noteq> dotdot"
    by metis+
  moreover have "slash \<notin> set (b @ '' ('' @ decimal i @ '')'' @ e)"
    using assms decimal_no_slash [of i] by (simp add: slash_def)
  ultimately show ?thesis by (simp add: plain_seg_def)
qed

lemma try_names_Some:
  "try_names env fs dir base ext i n = Some p \<Longrightarrow>
    \<exists>k. i \<le> k \<and> k < i + n \<and> p = candidate dir base ext k \<and> os_stat env fs p = Inl NotExist \<and>
      (\<forall>m. i \<le> m \<and> m < k \<longrightarrow> (\<exists>x. os_stat env fs (candidate dir base ext m) = Inr x))"
proof (induction n arbitrary: i)
  case (Suc n)
  show ?case
  proof (cases "os_stat env fs (candidate dir base ext i)")
    case (Inl e)
    with Suc.prems show ?thesis by (cases e) (auto intro!: exI [of _ i])
  next
    case (Inr x)
    with Suc.prems have "try_names env fs dir base ext (Suc i) n = Some p" by simp
    from Suc.IH [OF this] obtain k where k: "Suc i \<le> k" "k < Suc i + n" "p = candidate dir base ext k"
      "os_stat env fs p = Inl NotExist"
      "\<forall>m. Suc i \<le> m \<and> m < k \<longrightarrow> (\<exists>x. os_stat env fs (candidate dir base ext m) = Inr x)" by blast
    have "\<exists>x. os_stat env fs (candidate dir base ext m) = Inr x" if "i \<le> m" "m < k" for m
      using k(5) Inr that by (cases "m = i") auto
    with k show ?thesis by (intro exI [of _ k]) simp
  qed
qed simp

lemma stat_NotExist: "os_stat env fs p = Inl NotExist \<Longrightarrow> fs (segs p) = None"
  by (auto simp: os_stat_def split: if_splits option.splits)

lemma takeWhile_subset: "set (takeWhile P xs) \<subseteq> set xs"
  by (auto dest: set_takeWhileD)

lemma set_Ext: "slash \<notin> set (Ext p)"
proof -
  define e where "e = takeWhile (\<lambda>c. c \<noteq> CHR ''.'') (rev (after_slash p))"
  have "set e \<subseteq> set (after_slash p)"
    unfolding e_def using takeWhile_subset [of _ "rev (after_slash p)"] by simp
  then have "slash \<notin> set e" using after_slash_noslash by blast
  moreover have "slash \<noteq> CHR ''.''" by (simp add: slash_def)
  ultimately have "slash \<notin> set (CHR ''.'' # rev e)" by simp
  moreover have "Ext p = CHR ''.'' # rev e \<or> Ext p = []" by (simp add: Ext_def Let_def e_def)
  ultimately show ?thesis by auto
qed

lemma set_TrimSuffix: "slash \<notin> set p \<Longrightarrow> slash \<notin> set (TrimSuffix p e)"
  by (auto simp: TrimSuffix_def dest: in_set_takeD)

lemma nextAvailable_Some:
  assumes "nextAvailablePath env fs src dst = Some p" "rooted dst" "Clean dst = dst" "segs dst \<noteq> []"
  shows "\<exists>n. plain_seg n \<and> rooted p \<and> Clean p = p \<and> segs p = butlast (segs dst) @ [n] \<and> fs (segs p) = None"
proof -
  have b: "slash \<notin> set (Base dst)"
  proof -
    have "plain_seg (Base dst)" using segs_Dir(3) [OF assms(2-4)] segs_plain [OF assms(2)] assms(4) by simp
    then show ?thesis by (simp add: plain_seg_def)
  qed
  obtain base ext k where k: "p = candidate (Dir dst) base ext k" "slash \<notin> set base" "slash \<notin> set ext"
    "os_stat env fs p = Inl NotExist"
  proof -
    obtain x where x: "os_stat env fs src = Inr x"
      using assms(1) by (auto simp: nextAvailablePath_def split: sum.splits)
    let ?e = "if x = DirN then [] else Ext (Base dst)"
    let ?b = "if x = DirN then Base dst else TrimSuffix (Base dst) ?e"
    have "try_names env fs (Dir dst) ?b ?e 1 10000 = Some p"
      using assms(1) x by (simp add: nextAvailablePath_def Let_def)
    from try_names_Some [OF this] obtain k where "p = candidate (Dir dst) ?b ?e k" "os_stat env fs p = Inl NotExist" by blast
    then show thesis using that [of ?b ?e k] b set_Ext set_TrimSuffix by auto
  qed
  note r = segs_Dir [OF assms(2-4)]
  let ?n = "base @ '' ('' @ decimal k @ '')'' @ ext"
  have pl: "plain_seg ?n" by (rule numbered_plain [OF k(2,3)])
  have "rooted p" "Clean p = p" using Join_rooted [OF r(1), of ?n] by (simp_all add: k(1) candidate_def del: Join.simps)
  moreover have "segs p = butlast (segs dst) @ [?n]"
    using segs_Join_plain [OF r(1) pl] r(2) by (simp add: k(1) candidate_def del: Join.simps)
  ultimately show ?thesis using pl stat_NotExist [OF k(4)] by blast
qed

lemma resolve_target:
  assumes par: "rooted par" and name: "plain_seg name"
    and res: "resolveConflictTarget env fs root src (Join [par, name]) pol = Some (dst, ov)"
  shows "rooted dst \<and> Clean dst = dst \<and> (\<exists>n. plain_seg n \<and> segs dst = segs par @ [n]) \<and>
    (\<not> ov \<longrightarrow> fs (segs dst) = None) \<and> (ov \<longrightarrow> pol = POverwrite)"
proof -
  let ?d = "Join [par, name]"
  have d: "rooted ?d" "Clean ?d = ?d" "segs ?d = segs par @ [name]"
    using Join_rooted [OF par, of name] segs_Join_plain [OF par name] by (simp_all del: Join.simps)
  from res consider (over) "dst = ?d" "ov" "pol = POverwrite" | (fresh) "dst = ?d" "\<not> ov" "os_stat env fs ?d = Inl NotExist"
    | (ren) "nextAvailablePath env fs src ?d = Some dst" "\<not> ov"
    by (auto simp: resolveConflictTarget_def d(2) simp del: Join.simps split: if_splits sum.splits oserr.splits policy.splits)
  then show ?thesis
  proof cases
    case ren
    from nextAvailable_Some [OF ren(1) d(1,2)] d(3) obtain n where "plain_seg n" "rooted dst" "Clean dst = dst"
      "segs dst = segs par @ [n]" "fs (segs dst) = None" by auto
    with ren show ?thesis by blast
  qed (use d name in \<open>auto dest: stat_NotExist simp del: Join.simps\<close>)
qed

section \<open>What the guards establish\<close>

lemma trash_segs: "rooted r \<Longrightarrow> rooted (trash_of r) \<and> segs (trash_of r) = segs r @ [''.trash'']"
proof -
  assume r: "rooted r"
  have "plain_seg ''.trash''" by (simp add: plain_seg_def dotdot_def slash_def)
  then show ?thesis unfolding trash_of_def using Join_rooted(1) [OF r] segs_Join_plain [OF r] by blast
qed

lemma source_ok:
  assumes "resolveFileOperationSource env sid fid w = Inr (st, src)" "rooted (st_mount st)"
  shows "storage_Get (o_up env FStorage) (trim sid) (f_storages w) = Inr st" "rooted src" "Clean src = src"
    "prefix (segs (st_mount st)) (segs src)" "segs src \<noteq> segs (st_mount st)" "f_fs w (segs src) \<noteq> None"
    "\<not> prefix (segs (st_mount st) @ [''.trash'']) (segs src)"
proof -
  from assms(1) obtain n where g: "storage_Get (o_up env FStorage) (trim sid) (f_storages w) = Inr st" "Clean src = src"
      "isPathWithinRoot (st_mount st) src" "Clean src \<noteq> Clean (st_mount st)"
      "\<not> isPathWithinRoot (trash_of (st_mount st)) src" "os_stat env (f_fs w) src = Inr n"
    by (auto simp: resolveFileOperationSource_def Let_def split: if_splits sum.splits option.splits oserr.splits)
  note t = trash_segs [OF assms(2)]
  show "storage_Get (o_up env FStorage) (trim sid) (f_storages w) = Inr st" "Clean src = src" by fact+
  show s: "rooted src" "prefix (segs (st_mount st)) (segs src)" using g(3) within_iff [OF assms(2)] by blast+
  show "segs src \<noteq> segs (st_mount st)" using g(4) s(1) assms(2) by (simp add: segs_eq_Clean)
  show "\<not> prefix (segs (st_mount st) @ [''.trash'']) (segs src)"
    using g(5) within_iff [of "trash_of (st_mount st)" src] t s(1) by simp
  show "f_fs w (segs src) \<noteq> None" using g(6) by (auto simp: os_stat_def split: if_splits option.splits)
qed

lemma parent_ok:
  assumes "resolveOperationParent env st pid w = Inr par" "rooted (st_mount st)"
  shows "rooted par" "Clean par = par" "prefix (segs (st_mount st)) (segs par)" "f_fs w (segs par) = Some DirN"
    "\<not> prefix (segs (st_mount st) @ [''.trash'']) (segs par)"
proof -
  from assms(1) obtain n where g: "Clean par = par" "isPathWithinRoot (st_mount st) par"
      "\<not> isPathWithinRoot (trash_of (st_mount st)) par" "os_stat env (f_fs w) par = Inr DirN"
    by (auto simp: resolveOperationParent_def Let_def split: if_splits sum.splits option.splits oserr.splits)
  note t = trash_segs [OF assms(2)]
  show "Clean par = par" by fact
  show s: "rooted par" "prefix (segs (st_mount st)) (segs par)" using g(2) within_iff [OF assms(2)] by blast+
  show "\<not> prefix (segs (st_mount st) @ [''.trash'']) (segs par)"
    using g(3) within_iff [of "trash_of (st_mount st)" par] t s(1) by simp
  show "f_fs w (segs par) = Some DirN" using g(4) by (auto simp: os_stat_def split: if_splits option.splits)
qed

lemma chosen_plain:
  assumes "validFileName (chosen_name req src)" "trim req \<noteq> [slash]" "rooted src" "Clean src = src" "segs src \<noteq> []"
  shows "plain_seg (chosen_name req src)"
proof -
  have "plain_seg (Base src)" using segs_Dir(3) [OF assms(3-5)] segs_plain [OF assms(3)] assms(5) by simp
  then show ?thesis using assms(1,2) by (auto simp: chosen_name_def Let_def validFileName_iff)
qed

text \<open>One placement: the source and the target's tree are all it touches.\<close>

lemma place_under:
  assumes "resolveConflictTarget env (f_fs w) (st_mount st) src dst0 pol = Some (dst, ov)"
    "place t env st src dst0 pol w = (r, w')"
  shows "only_under [segs src, segs dst] (f_fs w) (f_fs w') \<and> w' = w\<lparr>f_fs := f_fs w'\<rparr>"
proof -
  obtain b1 fs1 where 1: "(if ov then removePath env dst (f_fs w) else (True, f_fs w)) = (b1, fs1)" by force
  obtain b2 fs2 where 2: "transfer_path t env src dst fs1 = (b2, fs2)" by force
  have a: "only_under [segs src, segs dst] (f_fs w) fs1"
  proof (cases ov)
    case True
    with 1 have "only_under [segs dst] (f_fs w) fs1" by (metis snd_conv under_removePath)
    then show ?thesis by (rule only_under_mono) simp
  qed (use 1 in simp)
  have b: "only_under [segs src, segs dst] fs1 fs2" by (metis 2 snd_conv under_transfer)
  show ?thesis
    using assms 1 2 a only_under_trans [OF a b]
    by (auto simp: place_def set_fs_def simp del: Join.simps split: bool.splits if_splits)
qed

end
