(* ===== verification/Files_Safety.thy ===== *)
theory Files_Safety
  imports Files_Props
begin

text \<open>
  The file handlers as a client sees them: what a request can touch, what a move does, what is
  never overwritten, where a deleted file goes; and the requests that lose data or leave the root.
\<close>

section \<open>Requests stay inside the storage\<close>

datatype file_req =
    Rename string string "string option"
  | MoveTo string string "place_req option"
  | CopyTo string string "place_req option"
  | NewFolder string "folder_req option"

fun serve_file :: "oenv \<Rightarrow> file_req \<Rightarrow> fworld \<Rightarrow> fworld" where
  "serve_file env (Rename sid fid b) w = snd (HandleRename env sid fid b w)"
| "serve_file env (MoveTo sid fid b) w = snd (HandleMove env sid fid b w)"
| "serve_file env (CopyTo sid fid b) w = snd (HandleCopy env sid fid b w)"
| "serve_file env (NewFolder sid b) w = snd (HandleCreateFolder env sid b w)"

text \<open>The one file name \<open>validFileName\<close> lets through that is not a name.\<close>

fun slash_name :: "file_req \<Rightarrow> bool" where
  "slash_name (MoveTo sid fid (Some b)) \<longleftrightarrow> trim (pr_name b) = [slash]"
| "slash_name (CopyTo sid fid (Some b)) \<longleftrightarrow> trim (pr_name b) = [slash]"
| "slash_name _ \<longleftrightarrow> False"

text \<open>
  The id of the storage a request names: the path parameter, which a new folder may leave empty
  and give in the body.
\<close>

fun request_storage :: "file_req \<Rightarrow> string" where
  "request_storage (Rename sid fid b) = trim sid"
| "request_storage (MoveTo sid fid b) = trim sid"
| "request_storage (CopyTo sid fid b) = trim sid"
| "request_storage (NewFolder sid b) = (if sid = [] then (case b of None \<Rightarrow> [] | Some req \<Rightarrow> fq_storage req) else sid)"

definition inside :: "string \<Rightarrow> fworld \<Rightarrow> fworld \<Rightarrow> bool" where
  "inside i w w' \<longleftrightarrow> w' = w \<or> (\<exists>st\<in>set (f_storages w). st_id st = i \<and>
     only_under [segs (st_mount st)] (f_fs w) (f_fs w') \<and> w' = w\<lparr>f_fs := f_fs w'\<rparr>)"

lemma storage_Get_in: "storage_Get up i t = Inr st \<Longrightarrow> st \<in> set t"
  using storage_tbl.get_found [of up i t st] by simp

lemma inside_refl [simp]: "inside i w w"
  by (simp add: inside_def)

lemma inside_if: "(c \<Longrightarrow> inside i w a) \<Longrightarrow> (\<not> c \<Longrightarrow> inside i w b) \<Longrightarrow> inside i w (if c then a else b)"
  by simp

lemma insideI:
  assumes "storage_Get up i (f_storages w) = Inr st" "only_under ls (f_fs w) (f_fs w')"
    "\<And>l. l \<in> set ls \<Longrightarrow> prefix (segs (st_mount st)) l" "w' = w\<lparr>f_fs := f_fs w'\<rparr>"
  shows "inside i w w'"
proof -
  have "only_under [segs (st_mount st)] (f_fs w) (f_fs w')"
    using assms(2) by (rule only_under_mono) (use assms(3) in simp)
  with assms(4) storage_tbl.get_found [OF assms(1)] show ?thesis by (auto simp: inside_def)
qed

lemma inside_transfer:
  assumes rooted: "\<forall>st\<in>set (f_storages w). rooted (st_mount st)"
    and name: "\<And>req. body = Some req \<Longrightarrow> trim (pr_name req) \<noteq> [slash]"
  shows "inside (trim sid) w (snd (transfer_handler t env sid fid body w))"
proof (cases "resolveFileOperationSource env sid fid w")
  case (Inr x)
  obtain st src where x: "x = (st, src)" by force
  with Inr have src: "resolveFileOperationSource env sid fid w = Inr (st, src)" by simp
  have "storage_Get (o_up env FStorage) (trim sid) (f_storages w) = Inr st"
    using src by (auto simp: resolveFileOperationSource_def Let_def split: if_splits sum.splits option.splits oserr.splits)
  then have r: "rooted (st_mount st)" using storage_Get_in rooted by blast
  note s = source_ok [OF src r]
  have ne: "segs src \<noteq> []" using s(4,5) by auto
  show ?thesis
  proof (cases body)
    case (Some req)
    show ?thesis
    proof (cases "resolveOperationParent env st (pr_parent req) w")
      case (Inr par)
      note p = parent_ok [OF Inr r]
      have pl: "inside (trim sid) w (snd (place t env st src (Join [par, chosen_name (pr_name req) src]) pol w))"
        if v: "validFileName (chosen_name (pr_name req) src)" for pol
      proof (cases "resolveConflictTarget env (f_fs w) (st_mount st) src (Join [par, chosen_name (pr_name req) src]) pol")
        case None
        then show ?thesis by (simp add: place_def del: Join.simps)
      next
        case (Some d)
        obtain dst ov where d: "d = (dst, ov)" by force
        note n = chosen_plain [OF v name [OF \<open>body = Some req\<close>] s(2,3) ne]
        from resolve_target [OF p(1) n Some [unfolded d]] obtain m where "segs dst = segs par @ [m]" by blast
        then have pre: "prefix (segs (st_mount st)) (segs dst)" using p(3) by (simp add: prefix_def) auto
        note u = place_under [OF Some [unfolded d] surjective_pairing]
        show ?thesis
          by (rule insideI [OF s(1), of "[segs src, segs dst]"])
            (use u [THEN conjunct1] u [THEN conjunct2] pre s(4) in \<open>auto simp del: Join.simps\<close>)
      qed
      show ?thesis using src \<open>body = Some req\<close> Inr pl
        by (auto simp: transfer_handler_def Let_def simp del: Join.simps split: option.split)
    qed (use src Some in \<open>simp add: transfer_handler_def fail_of_def\<close>)
  qed (use src in \<open>simp add: transfer_handler_def\<close>)
qed (simp add: transfer_handler_def)

lemma inside_rename:
  assumes rooted: "\<forall>st\<in>set (f_storages w). rooted (st_mount st)"
  shows "inside (trim sid) w (snd (HandleRename env sid fid body w))"
proof (cases "resolveFileOperationSource env sid fid w")
  case (Inr x)
  obtain st src where x: "x = (st, src)" by force
  with Inr have src: "resolveFileOperationSource env sid fid w = Inr (st, src)" by simp
  have "storage_Get (o_up env FStorage) (trim sid) (f_storages w) = Inr st"
    using src by (auto simp: resolveFileOperationSource_def Let_def split: if_splits sum.splits option.splits oserr.splits)
  then have r: "rooted (st_mount st)" using storage_Get_in rooted by blast
  note s = source_ok [OF src r]
  have mv: "inside (trim sid) w (set_fs fs' w)"
    if "validateOperationTarget env (f_fs w) (st_mount st) src d" "movePath env src d (f_fs w) = (b, fs')" for d b fs'
  proof -
    have "prefix (segs (st_mount st)) (segs d)"
      using that(1) within_iff [OF r, of "Clean d"] by (simp add: validateOperationTarget_def validateOperationTargetBase_def)
    moreover have "only_under [segs src, segs d] (f_fs w) fs'" using under_movePath [of src d "f_fs w" env] that(2) by simp
    ultimately show ?thesis
      by (intro insideI [OF s(1), of "[segs src, segs d]"]) (use s(4) in \<open>auto simp: set_fs_def\<close>)
  qed
  show ?thesis using src mv
    by (auto simp: HandleRename_def Let_def simp del: Join.simps split: option.split prod.split bool.split)
qed (simp add: HandleRename_def)

lemma inside_folder:
  assumes rooted: "\<forall>st\<in>set (f_storages w). rooted (st_mount st)"
  shows "inside (request_storage (NewFolder sid body)) w (snd (HandleCreateFolder env sid body w))"
proof -
  have mk: "inside i w (set_fs fs' w)"
    if g: "storage_Get (o_up env FStorage) i (f_storages w) = Inr st" and wi: "isPathWithinRoot (st_mount st) d"
      and c: "createFolder env d (f_fs w) = (b, fs')" for i st d b fs'
  proof -
    have "rooted (st_mount st)" using storage_Get_in [OF g] rooted by blast
    with wi have "prefix (segs (st_mount st)) (segs d)" using within_iff by blast
    moreover have "only_under [segs d] (f_fs w) fs'" using under_createFolder [of d "f_fs w" env] c by simp
    ultimately show ?thesis by (intro insideI [OF g, of "[segs d]"]) (auto simp: set_fs_def)
  qed
  have made: "inside i w (snd (case createFolder env d (f_fs w) of
        (Inl Exists, fs') \<Rightarrow> (e1, set_fs fs' w) | (Inl _, fs') \<Rightarrow> (e2, set_fs fs' w) | (Inr _, fs') \<Rightarrow> (e3, set_fs fs' w)))"
    if "storage_Get (o_up env FStorage) i (f_storages w) = Inr st" "isPathWithinRoot (st_mount st) d"
    for i st d and e1 e2 e3 :: "(string \<times> string \<times> string) resp"
    using mk [OF that] by (cases "createFolder env d (f_fs w)") (simp split: sum.split oserr.split)
  show ?thesis
  proof (cases body)
    case (Some req)
    let ?sid = "if sid = [] then fq_storage req else sid"
    show ?thesis
    proof (cases "storage_Get (o_up env FStorage) ?sid (f_storages w)")
      case (Inr st)
      show ?thesis
        unfolding HandleCreateFolder_def Let_def Some option.case Inr sum.case request_storage.simps
        by (simp only: snd_conv if_distrib [of snd] split: option.split)
          (intro conjI allI impI inside_if; (rule inside_refl | (rule made [OF Inr], simp only: not_not)))
    next
      case (Inl e)
      then show ?thesis by (simp only: HandleCreateFolder_def Let_def Some option.case sum.case snd_conv inside_refl if_distrib [of snd] if_cancel)
    qed
  qed (simp add: HandleCreateFolder_def)
qed

text \<open>
  C19: A rename, move, copy or new folder changes nothing outside the storage its id names (the path
  parameter; a new folder takes the id in its body when the parameter is empty).  With rooted mount
  paths, and unless a move or copy asks for the name \<open>"/"\<close>, the request leaves the world as it was or
  changes only the file system, and there only paths below the mount path of a row with that id;
  whatever the operating system refuses, and whatever partial work it leaves.  The file systems of
  the model have no symbolic links: what a link inside the storage points to is not covered.
\<close>

theorem file_requests_contained:
  assumes "\<forall>st\<in>set (f_storages w). rooted (st_mount st)" "\<not> slash_name q"
  shows "serve_file env q w = w \<or>
    (\<exists>st\<in>set (f_storages w). st_id st = request_storage q \<and>
      (\<forall>p. \<not> prefix (segs (st_mount st)) p \<longrightarrow> f_fs (serve_file env q w) p = f_fs w p) \<and>
      serve_file env q w = w\<lparr>f_fs := f_fs (serve_file env q w)\<rparr>)"
proof -
  have "inside (request_storage q) w (serve_file env q w)"
  proof (cases q)
    case (MoveTo sid fid b)
    with assms(2) show ?thesis
      by (cases b) (auto simp: HandleMove_def intro!: inside_transfer [OF assms(1)])
  next
    case (CopyTo sid fid b)
    with assms(2) show ?thesis
      by (cases b) (auto simp: HandleCopy_def intro!: inside_transfer [OF assms(1)])
  qed (simp_all add: inside_rename [OF assms(1)] inside_folder [OF assms(1), unfolded request_storage.simps])
  then show ?thesis by (simp add: inside_def only_under_def)
qed

section \<open>What a placement does\<close>

text \<open>In a file tree every node's parent is a directory.\<close>

definition tree_ok :: "fsys \<Rightarrow> bool" where
  "tree_ok fs \<longleftrightarrow> (\<forall>l n. fs (l @ [n]) \<noteq> None \<longrightarrow> is_dir fs l)"

lemma tree_ok_prefix:
  assumes "tree_ok fs" "fs (l @ r) \<noteq> None" "l \<noteq> []"
  shows "fs l \<noteq> None"
  using assms(2)
proof (induction r rule: rev_induct)
  case (snoc n r)
  then have "is_dir fs (l @ r)" using assms(1) unfolding tree_ok_def by (metis append_assoc)
  then have "fs (l @ r) \<noteq> None" using assms(3) by (auto simp: is_dir_def)
  then show ?case by (rule snoc.IH)
qed simp

lemma free_below:
  assumes "tree_ok fs" "fs d = None" "d \<noteq> []" "prefix d q"
  shows "fs q = None"
  using assms tree_ok_prefix by (metis prefix_def)

lemma into_free: "fs d = None \<Longrightarrow> d \<noteq> [] \<Longrightarrow> into_dir s d fs = d"
  by (simp add: into_dir_def is_dir_def)

lemma move_to_free:
  assumes "movePath env src dst fs = (True, fs')" "fs (segs dst) = None" "segs dst \<noteq> []"
  shows "fs' = move_tree (segs src) (segs dst) fs \<and> rename_ok (segs src) (segs dst) fs"
  using assms into_free [of fs "segs dst", OF assms(2,3)]
  by (auto simp: movePath_def os_rename_def sudo_mv_def Let_def split: if_splits)

lemma copy_to_free:
  assumes "copyPath env src dst fs = (True, fs')" "fs (segs dst) = None" "segs dst \<noteq> []"
  shows "fs' = graft (segs src) (segs dst) fs \<and> fs (segs src) \<noteq> None"
  using assms into_free [of fs "segs dst", OF assms(2,3)]
  by (auto simp: copyPath_def sudo_cp_def Let_def split: if_splits)

text \<open>
  What is left when a move fails: everything is where it was, or the whole source is at the target
  and only the source has lost anything.
\<close>

definition stays_or_arrived :: "loc \<Rightarrow> loc \<Rightarrow> fsys \<Rightarrow> fsys \<Rightarrow> bool" where
  "stays_or_arrived s d fs fs' \<longleftrightarrow> (\<forall>q. fs q \<noteq> None \<longrightarrow> fs' q = fs q) \<or>
     (\<forall>q. fs (s @ q) \<noteq> None \<longrightarrow> fs' (d @ q) = fs (s @ q)) \<and>
     (\<forall>q. fs q \<noteq> None \<longrightarrow> \<not> prefix s q \<longrightarrow> fs' q = fs q)"

lemma partial_removal_arrived:
  assumes "\<And>q. prefix d q \<Longrightarrow> fs q = None" "\<not> prefix s d" "fs s \<noteq> None"
  shows "stays_or_arrived s d fs (partial_removal env s d fs)"
proof -
  have nd: "\<not> prefix d s" using assms(1) [of s] assms(3) by auto
  have "\<not> prefix s (d @ q)" for q
  proof
    assume "prefix s (d @ q)"
    moreover have "prefix d (d @ q)" by simp
    ultimately have "prefix s d \<or> prefix d s" by (rule prefix_same_cases)
    with nd assms(2) show False by simp
  qed
  then have "fs (s @ q) \<noteq> None \<Longrightarrow> partial_removal env s d fs (d @ q) = fs (s @ q)" for q
    by (simp add: partial_removal_def graft_def)
  moreover have "partial_removal env s d fs q = fs q" if "fs q \<noteq> None" "\<not> prefix s q" for q
  proof -
    have "\<not> prefix d q" using assms(1) [of q] that(1) by auto
    with that(2) show ?thesis by (simp add: partial_removal_def graft_def)
  qed
  ultimately show ?thesis by (simp add: stays_or_arrived_def)
qed

lemma partial_copy_stays:
  assumes "\<And>q. prefix d q \<Longrightarrow> fs q = None"
  shows "fs q \<noteq> None \<Longrightarrow> partial_copy env s d fs q = fs q"
  using assms by (auto simp: partial_copy_def)

lemma move_fail_free:
  assumes "movePath env src dst fs = (False, fs')" "fs (segs dst) = None" "segs dst \<noteq> []" "tree_ok fs"
  shows "stays_or_arrived (segs src) (segs dst) fs fs'"
proof -
  note b = free_below [OF assms(4,2,3)]
  have "fs' = fs \<or> fs' = partial_copy env (segs src) (segs dst) fs \<or>
      rename_ok (segs src) (segs dst) fs \<and> fs' = partial_removal env (segs src) (segs dst) fs"
    using assms(1) into_free [of fs "segs dst", OF assms(2,3)]
    by (auto simp: movePath_def os_rename_def sudo_mv_def Let_def split: if_splits)
  then show ?thesis
  proof (elim disjE conjE)
    assume "rename_ok (segs src) (segs dst) fs" "fs' = partial_removal env (segs src) (segs dst) fs"
    then show ?thesis using partial_removal_arrived [of "segs dst" fs "segs src", OF b] by (simp add: rename_ok_def)
  next
    assume "fs' = partial_copy env (segs src) (segs dst) fs"
    with partial_copy_stays [of "segs dst" fs, OF b] show ?thesis by (simp add: stays_or_arrived_def)
  qed (simp add: stays_or_arrived_def)
qed

lemma copy_fail_free:
  assumes "copyPath env src dst fs = (False, fs')" "fs (segs dst) = None" "segs dst \<noteq> []" "\<not> prefix (segs dst) q"
  shows "fs' q = fs q"
  using assms(1) into_free [of fs "segs dst", OF assms(2,3)] assms(4)
  by (auto simp: copyPath_def sudo_cp_def Let_def partial_copy_def split: if_splits)

lemma transfer_fail_free:
  assumes "transfer_path t env src dst fs = (False, fs')" "fs (segs dst) = None" "segs dst \<noteq> []" "tree_ok fs"
  shows "(\<forall>q. fs q \<noteq> None \<longrightarrow> fs' q = fs q) \<or> t = Move \<and> stays_or_arrived (segs src) (segs dst) fs fs'"
proof (cases t)
  case Move
  with assms move_fail_free show ?thesis by (simp add: transfer_path_def)
next
  case Copy
  have "fs' q = fs q" if "fs q \<noteq> None" for q
  proof -
    have "\<not> prefix (segs dst) q" using that free_below [OF assms(4,2,3), of q] by auto
    from copy_fail_free [of env src dst fs fs', OF _ assms(2,3) this] assms(1) Copy
    show ?thesis by (simp add: transfer_path_def)
  qed
  then show ?thesis by simp
qed

lemma transfer_cases:
  assumes "transfer_handler t env sid fid (Some req) w = (r, w')"
  obtains (refused) n c where "r = Fail n c" "w' = w"
  | (placed) st src par pol where "resolveFileOperationSource env sid fid w = Inr (st, src)"
      "resolveOperationParent env st (pr_parent req) w = Inr par" "validFileName (chosen_name (pr_name req) src)"
      "normalizeConflictPolicy (pr_policy req) = Some pol"
      "place t env st src (Join [par, chosen_name (pr_name req) src]) pol w = (r, w')"
  using assms
  by (auto simp: transfer_handler_def Let_def fail_of_def simp del: Join.simps split: sum.splits option.splits if_splits)

lemma source_decoded:
  "resolveFileOperationSource env sid fid w = Inr (st, src) \<Longrightarrow> decodeFileID (trim fid) = Some src"
  by (auto simp: resolveFileOperationSource_def decodeFileID_def Let_def
      split: if_splits sum.splits option.splits oserr.splits)

lemma source_storage:
  "resolveFileOperationSource env sid fid w = Inr (st, src) \<Longrightarrow> st \<in> set (f_storages w)"
  using storage_Get_in
  by (fastforce simp: resolveFileOperationSource_def Let_def split: if_splits sum.splits option.splits oserr.splits)

lemma place_free:
  assumes p: "place t env st src dst0 pol w = (r, w')" and c: "resolveConflictTarget env (f_fs w) (st_mount st) src dst0 pol = Some (dst, False)"
    and d: "rooted src" "rooted dst" "f_fs w (segs dst) = None" "segs dst \<noteq> []" and ok: "tree_ok (f_fs w)"
  shows "(\<exists>rep. r = Reply 200 rep \<and> or_id rep = encodeFilePath dst \<and> \<not> prefix (segs src) (segs dst) \<and>
      (\<forall>q. f_fs w' (segs dst @ q) = f_fs w (segs src @ q)) \<and>
      (\<forall>q. \<not> prefix (segs dst) q \<longrightarrow> f_fs w' q = (if t = Move \<and> prefix (segs src) q then None else f_fs w q))) \<or>
    (\<exists>n code. r = Fail n code \<and> ((\<forall>q. f_fs w q \<noteq> None \<longrightarrow> f_fs w' q = f_fs w q) \<or>
      t = Move \<and> stays_or_arrived (segs src) (segs dst) (f_fs w) (f_fs w')))"
proof (cases "isPathWithinRoot src dst")
  case True
  with p c show ?thesis by (auto simp: place_def)
next
  case False
  then have np: "\<not> prefix (segs src) (segs dst)" using within_iff [OF d(1)] d(2) by simp
  note below = free_below [OF ok d(3,4)]
  obtain b fs2 where tp: "transfer_path t env src dst (f_fs w) = (b, fs2)" by force
  show ?thesis
  proof (cases b)
    case True
    have there: "fs2 (segs dst @ q) = f_fs w (segs src @ q) \<and>
        (\<not> prefix (segs dst) q' \<longrightarrow> fs2 q' = (if t = Move \<and> prefix (segs src) q' then None else f_fs w q'))" for q q'
    proof (cases t)
      case Move
      then have "fs2 = move_tree (segs src) (segs dst) (f_fs w)"
        using tp True move_to_free [of env src dst "f_fs w" fs2, OF _ d(3,4)] by (simp add: transfer_path_def)
      with Move show ?thesis by (simp add: move_tree_def)
    next
      case Copy
      then have fs2: "fs2 = graft (segs src) (segs dst) (f_fs w)"
        using tp True copy_to_free [of env src dst "f_fs w" fs2, OF _ d(3,4)] by (simp add: transfer_path_def)
      have "f_fs w (segs dst @ q) = None" by (rule below) simp
      with Copy show ?thesis by (simp add: fs2 graft_def)
    qed
    have rep: "r = Reply 200 (buildFileOperationResponse env fs2 (st_mount st) dst)" "f_fs w' = fs2"
      using p c tp True False by (auto simp: place_def set_fs_def)
    have "or_id (buildFileOperationResponse env fs2 (st_mount st) dst) = encodeFilePath dst"
      by (simp add: buildFileOperationResponse_def)
    with rep np there show ?thesis by (intro disjI1 exI [of _ "buildFileOperationResponse env fs2 (st_mount st) dst"]) simp
  next
    case f: False
    from transfer_fail_free [of t env src dst "f_fs w" fs2, OF _ d(3,4) ok] tp f
    have "(\<forall>q. f_fs w q \<noteq> None \<longrightarrow> fs2 q = f_fs w q) \<or> t = Move \<and> stays_or_arrived (segs src) (segs dst) (f_fs w) fs2"
      by simp
    moreover have "r = Fail 500 (fail_code t)" "f_fs w' = fs2"
      using p c tp f False by (auto simp: place_def set_fs_def)
    ultimately show ?thesis by blast
  qed
qed

text \<open>
  C20: A move or copy never overwrites unless it is told to.  In a file tree, with rooted mount paths
  and a name other than \<open>"/"\<close>, a request whose policy is to fail or to rename either succeeds at a
  path where nothing was, which is outside the source and has the id of the reply: there the tree of
  the source appears, and nothing else changes except that a move takes the source away; or it fails
  and every node that was there is still there with its content, or, when the fallback \<open>mv\<close> of a move
  fails after it has copied, the whole source is at a path where nothing was and every node outside
  the source is still there with its content.
\<close>

theorem transfer_never_overwrites:
  assumes "transfer_handler t env sid fid (Some req) w = (r, w')" "tree_ok (f_fs w)"
    "\<forall>st\<in>set (f_storages w). rooted (st_mount st)" "trim (pr_name req) \<noteq> [slash]"
    "normalizeConflictPolicy (pr_policy req) \<noteq> Some POverwrite"
  shows "(\<exists>rep src dst. r = Reply 200 rep \<and> decodeFileID (trim fid) = Some src \<and> or_id rep = encodeFilePath dst \<and>
      f_fs w (segs dst) = None \<and> \<not> prefix (segs src) (segs dst) \<and>
      (\<forall>q. f_fs w' (segs dst @ q) = f_fs w (segs src @ q)) \<and>
      (\<forall>q. \<not> prefix (segs dst) q \<longrightarrow> f_fs w' q = (if t = Move \<and> prefix (segs src) q then None else f_fs w q))) \<or>
    (\<exists>n code. r = Fail n code \<and> ((\<forall>q. f_fs w q \<noteq> None \<longrightarrow> f_fs w' q = f_fs w q) \<or>
      t = Move \<and> (\<exists>src dst. decodeFileID (trim fid) = Some src \<and> f_fs w (segs dst) = None \<and>
        (\<forall>q. f_fs w (segs src @ q) \<noteq> None \<longrightarrow> f_fs w' (segs dst @ q) = f_fs w (segs src @ q)) \<and>
        (\<forall>q. f_fs w q \<noteq> None \<longrightarrow> \<not> prefix (segs src) q \<longrightarrow> f_fs w' q = f_fs w q))))"
  using assms(1)
proof (cases rule: transfer_cases)
  case (placed st src par pol)
  have root: "rooted (st_mount st)" using source_storage [OF placed(1)] assms(3) by blast
  note s = source_ok [OF placed(1) root] and p = parent_ok [OF placed(2) root]
  have "segs src \<noteq> []" using s(4,5) by auto
  note n = chosen_plain [OF placed(3) assms(4) s(2,3) this]
  show ?thesis
  proof (cases "resolveConflictTarget env (f_fs w) (st_mount st) src (Join [par, chosen_name (pr_name req) src]) pol")
    case None
    with placed(5) show ?thesis by (auto simp: place_def simp del: Join.simps)
  next
    case (Some d)
    obtain dst ov where d: "d = (dst, ov)" by force
    note c = Some [unfolded d]
    note tgt = resolve_target [OF p(1) n c]
    then have ov: "ov = False" using assms(5) placed(4) by auto
    have dst: "rooted dst" "f_fs w (segs dst) = None" "segs dst \<noteq> []" using tgt ov by auto
    from place_free [OF placed(5) c [unfolded ov] s(2) dst assms(2)]
    show ?thesis
    proof (elim disjE exE conjE)
      fix n code
      assume "r = Fail n code" "t = Move" "stays_or_arrived (segs src) (segs dst) (f_fs w) (f_fs w')"
      then show ?thesis using source_decoded [OF placed(1)] dst(2) unfolding stays_or_arrived_def by blast
    qed (use source_decoded [OF placed(1)] dst(2) in blast)+
  qed
qed auto

section \<open>Requests that lose data or leave the root\<close>

text \<open>
  An overwriting move onto a folder that holds the source loses both.  When the target of a move
  with the policy \<open>overwrite\<close> is a folder above the source and the removal works, the request fails
  with \<open>MOVE_FILE_FAILED\<close> and the whole folder, the source included, is gone.
\<close>

theorem overwrite_of_ancestor_loses_source:
  assumes "rooted src" "Clean src = src" "rooted dst" "Clean dst = dst" "rooted (st_mount st)"
    "prefix (segs (st_mount st)) (segs dst)" "\<not> prefix (segs (st_mount st) @ [''.trash'']) (segs dst)"
    "segs src = segs dst @ n # ns" "f_fs w (segs dst) = Some DirN" "\<And>c. o_ok env c"
  shows "\<exists>w'. place Move env st src dst POverwrite w = (Fail 500 ''MOVE_FILE_FAILED'', w') \<and>
    (\<forall>q. f_fs w' (segs dst @ q) = None)"
proof -
  have "src \<noteq> dst" using assms(8) by auto
  note t = trash_segs [OF assms(5)]
  have base: "validateOperationTargetBase (st_mount st) src dst"
    using assms(2-7) \<open>src \<noteq> dst\<close> t within_iff [OF assms(5), of dst] within_iff [of "trash_of (st_mount st)" dst]
    by (simp add: validateOperationTargetBase_def)
  have res: "resolveConflictTarget env (f_fs w) (st_mount st) src dst POverwrite = Some (dst, True)"
    using base assms(4,9,10) by (simp add: resolveConflictTarget_def os_stat_def)
  have ns: "\<not> isPathWithinRoot src dst" using within_iff [OF assms(1), of dst] assms(8) by (auto simp: prefix_def)
  have rm: "removePath env dst (f_fs w) = (True, del_tree (segs dst) (f_fs w))"
    using assms(10) by (simp add: removePath_def os_RemoveAll_def sudo_rm_def)
  have gone: "del_tree (segs dst) (f_fs w) (segs src) = None" by (simp add: del_tree_def assms(8))
  have mv: "movePath env src dst (del_tree (segs dst) (f_fs w)) = (False, del_tree (segs dst) (f_fs w))"
    using gone assms(10) by (simp add: movePath_def os_rename_def sudo_mv_def Let_def rename_ok_def)
  show ?thesis
    by (simp add: place_def res ns rm mv transfer_path_def fail_code_def set_fs_def) (simp add: del_tree_def)
qed

end
