(* ===== verification/Files_Trash.thy ===== *)
theory Files_Trash
  imports Files_Safety
begin

text \<open>
  The recycle bin: relative paths and their way back, the directory of the day, and what a delete
  request does to the file system and the table \<open>recycle_bin\<close>.
\<close>

declare Join.simps [simp del]

section \<open>Relative paths\<close>

lemma clean_segs_all_plain: "\<forall>s\<in>set ss. plain_seg s \<Longrightarrow> clean_segs r acc ss = rev acc @ ss"
  using clean_segs_plain [of ss r acc "[]"] by (simp add: clean_segs.simps)

lemma Join_list:
  assumes "rooted r" "\<forall>s\<in>set xs. plain_seg s"
  shows "rooted (Join (r # xs)) \<and> Clean (Join (r # xs)) = Join (r # xs) \<and> segs (Join (r # xs)) = segs r @ xs"
proof (cases xs)
  case Nil
  then show ?thesis using rooted_nonempty [OF assms(1)] assms(1) by (simp add: Join.simps)
next
  case (Cons y ys)
  have "\<forall>x\<in>set xs. slash \<notin> set x" using assms(2) by (simp add: plain_seg_def)
  then have s: "split_on slash (join_with [slash] xs) = xs" using split_join [of xs slash] Cons by simp
  have j: "join_with [slash] (r # xs) = r @ slash # join_with [slash] xs" by (simp add: Cons)
  have "segs (r @ slash # join_with [slash] xs) = segs r @ xs"
    using segs_join(2) [OF assms(1), of "join_with [slash] xs"] clean_segs_all_plain [OF assms(2)] by (simp add: s)
  moreover have "rooted (r @ slash # join_with [slash] xs)" by (rule segs_join(1) [OF assms(1)])
  ultimately show ?thesis using rooted_nonempty [OF assms(1)] by (simp add: Join.simps j)
qed

lemma strip_common_append: "strip_common a (a @ b) = ([], b)"
  by (induction a) auto

text \<open>The relative path of a path below the root leads back to it.\<close>

lemma Rel_below:
  assumes "rooted r" "rooted p" "segs p = segs r @ rest" "rest \<noteq> []"
  shows "Rel r p = Some (join_with [slash] rest)"
proof -
  have "Clean r \<noteq> Clean p" using assms by (auto simp: segs_eq_Clean [symmetric])
  then show ?thesis using assms(1-3) by (simp add: Rel_def norm_segs strip_common_append)
qed

lemma Rel_returns:
  assumes "rooted r" "rooted p" "prefix (segs r) (segs p)"
  shows "\<exists>x. Rel r p = Some x \<and> rooted (Join [r, x]) \<and> segs (Join [r, x]) = segs p"
proof -
  obtain rest where rest: "segs p = segs r @ rest" using assms(3) by (auto simp: prefix_def)
  show ?thesis
  proof (cases "rest = []")
    case True
    with rest have "Clean r = Clean p" using assms(1,2) by (simp add: segs_eq_Clean)
    then have "Rel r p = Some ''.''" by (simp add: Rel_def)
    moreover have "split_on slash ''.'' = [''.'']" by (rule split_on_notin [OF slash_dot])
    then have "segs (Join [r, ''.'']) = segs r" using Join_rooted(2) [OF assms(1), of "''.''"] by (simp add: clean_segs.simps)
    ultimately show ?thesis using True rest Join_rooted(1) [OF assms(1)] by simp
  next
    case False
    have pl: "\<forall>s\<in>set rest. plain_seg s" using segs_plain [OF assms(2)] rest by simp
    then have "\<forall>x\<in>set rest. slash \<notin> set x" by (simp add: plain_seg_def)
    then have s: "split_on slash (join_with [slash] rest) = rest" using split_join [of rest slash] False by simp
    have "segs (Join [r, join_with [slash] rest]) = segs r @ rest"
      using Join_rooted(2) [OF assms(1), of "join_with [slash] rest"] clean_segs_all_plain [OF pl] by (simp add: s)
    with Rel_below [OF assms(1,2) rest False] Join_rooted(1) [OF assms(1)] rest show ?thesis by simp
  qed
qed

section \<open>The directory of the day\<close>

lemma padded_plain: "plain_seg (padded k n)"
proof -
  have "48 \<le> (of_char c :: nat)" if "c \<in> set (decimal (nat n))" for c
  proof -
    from that decimal_digits [of "nat n"] obtain m where "m \<in> {48 ..< 58 :: nat}" "c = char_of m" by blast
    then show ?thesis using of_char_of [of m] by simp
  qed
  then have d: "48 \<le> (of_char c :: nat)" if "c \<in> set (padded k n)" for c
    using that by (auto simp: padded_def Let_def)
  have "slash \<notin> set (padded k n)" "CHR ''.'' \<notin> set (padded k n)"
    using d [of slash] d [of "CHR ''.''"] by (auto simp: slash_def)
  moreover from this have "padded k n \<noteq> ''.''" "padded k n \<noteq> dotdot" by (auto simp: dotdot_def)
  moreover have "padded k n \<noteq> []"
  proof -
    have "decimal (nat n) \<noteq> []" by (simp add: decimal.simps [of "nat n"])
    then show ?thesis by (simp add: padded_def Let_def)
  qed
  ultimately show ?thesis by (simp add: plain_seg_def)
qed

lemma trash_plain: "plain_seg ''.trash''"
  by (simp add: plain_seg_def dotdot_def slash_def)

lemma buildTrashDir_segs:
  assumes "rooted r"
  shows "rooted (buildTrashDir r now) \<and> (\<exists>a b c. segs (buildTrashDir r now) = segs r @ [''.trash'', a, b, c])"
proof -
  obtain y m d where c: "civil (now div 86400) = (y, m, d)" by (cases "civil (now div 86400)")
  have "\<forall>s\<in>set [''.trash'', padded 4 y, padded 2 m, padded 2 d]. plain_seg s"
    using padded_plain trash_plain by (simp only: list.set ball_simps)
  from Join_list [OF assms this] show ?thesis by (auto simp: buildTrashDir_def c)
qed

lemma trash_name_plain:
  assumes "slash \<notin> set i" "plain_seg n"
  shows "plain_seg (i @ ''_'' @ n)"
proof -
  have "CHR ''_'' \<in> set (i @ ''_'' @ n)" "CHR ''_'' \<notin> set ''.''" "CHR ''_'' \<notin> set dotdot"
    by (simp_all add: dotdot_def)
  then have "i @ ''_'' @ n \<noteq> ''.''" "i @ ''_'' @ n \<noteq> dotdot" by metis+
  moreover have "slash \<notin> set (i @ ''_'' @ n)" using assms by (simp add: plain_seg_def) (simp add: slash_def)
  ultimately show ?thesis by (simp add: plain_seg_def)
qed

section \<open>Making the directory\<close>

lemma mkdirs_at: "mkdirs ls fs = (b, fs') \<Longrightarrow> fs' q = fs q \<or> (q \<in> set ls \<and> fs q = None \<and> fs' q = Some DirN)"
proof (induction ls arbitrary: fs)
  case (Cons l ls)
  show ?case
  proof (cases "fs l")
    case None
    with Cons.prems have "mkdirs ls (fs(l \<mapsto> DirN)) = (b, fs')" by simp
    from Cons.IH [OF this] None show ?thesis by (auto split: if_splits)
  next
    case (Some n)
    with Cons show ?thesis by (cases n) auto
  qed
qed simp

lemma MkdirAll_at:
  assumes "os_MkdirAll env p fs = (b, fs')"
  shows "fs' q = fs q \<or> (prefix q (segs p) \<and> q \<noteq> [] \<and> fs q = None \<and> fs' q = Some DirN)"
proof (cases "o_ok env CMkdirAll")
  case True
  let ?ls = "map (\<lambda>n. take n (segs p)) [1..<Suc (length (segs p))]"
  have pre: "prefix q (segs p) \<and> q \<noteq> []" if "q \<in> set ?ls"
    using that by (auto simp: take_is_prefix)
  from True assms have "mkdirs ?ls fs = (b, fs')" by (simp add: os_MkdirAll_def)
  from mkdirs_at [OF this, of q] pre show ?thesis by blast
qed (use assms in \<open>simp add: os_MkdirAll_def\<close>)

section \<open>Deleting\<close>

text \<open>The cases of a delete request that gets past its guards.\<close>

lemma MkdirAll_keeps: "os_MkdirAll env p fs = (b, fs') \<Longrightarrow> \<forall>q. fs q \<noteq> None \<longrightarrow> fs' q = fs q"
  using MkdirAll_at by (metis option.distinct(1))

lemma delete_cases:
  assumes "files_HandleDelete env env2 sid fid w = (r, w')"
  obtains (refused) n c where "r = Fail n c" "w' = w"
  | (no_dir) fs1 where "r = Fail 500 ''CREATE_TRASH_DIR_FAILED''" "\<forall>q. f_fs w q \<noteq> None \<longrightarrow> fs1 q = f_fs w q" "w' = set_fs fs1 w"
  | (trashed) st src n orig fs1 where "storage_Get (o_up env FStorage) sid (f_storages w) = Inr st"
      "decodeFileID fid = Some src" "isPathWithinRoot (st_mount st) src"
      "\<not> isPathWithinRoot (trash_of (st_mount st)) src" "os_stat env (f_fs w) src = Inr n"
      "Rel (st_mount st) src = Some orig"
      "os_MkdirAll env (buildTrashDir (st_mount st) (o_now env)) (f_fs w) = (True, fs1)"
      "trash_item env env2 st sid src n orig (buildTrashDir (st_mount st) (o_now env)) (set_fs fs1 w) = (r, w')"
proof (cases "\<exists>st src n orig. storage_Get (o_up env FStorage) sid (f_storages w) = Inr st \<and> decodeFileID fid = Some src \<and>
    isPathWithinRoot (st_mount st) src \<and> \<not> isPathWithinRoot (trash_of (st_mount st)) src \<and>
    os_stat env (f_fs w) src = Inr n \<and> Rel (st_mount st) src = Some orig \<and> fid \<noteq> []")
  case True
  then obtain st src n orig where g: "storage_Get (o_up env FStorage) sid (f_storages w) = Inr st" "decodeFileID fid = Some src"
    "isPathWithinRoot (st_mount st) src" "\<not> isPathWithinRoot (trash_of (st_mount st)) src"
    "os_stat env (f_fs w) src = Inr n" "Rel (st_mount st) src = Some orig" "fid \<noteq> []" by blast
  obtain b fs1 where mk: "os_MkdirAll env (buildTrashDir (st_mount st) (o_now env)) (f_fs w) = (b, fs1)" by force
  show thesis
  proof (cases b)
    case True
    with assms g mk trashed show thesis by (simp add: files_HandleDelete_def)
  next
    case False
    with assms g mk have "r = Fail 500 ''CREATE_TRASH_DIR_FAILED''" "w' = set_fs fs1 w"
      by (auto simp: files_HandleDelete_def)
    with no_dir MkdirAll_keeps [OF mk] show thesis by blast
  qed
next
  case False
  have "\<exists>n c. r = Fail n c \<and> w' = w"
    using assms False by (auto simp: files_HandleDelete_def split: sum.splits option.splits if_splits oserr.splits)
  with refused show thesis by blast
qed

lemma trash_item_cases:
  assumes "trash_item env env2 st sid src n orig dir w = (r, w')"
    and "dst = Join [dir, uniqueTrashName env (Base src)]"
  obtains (kept) "r = Fail 500 ''MOVE_TO_TRASH_FAILED''" "w' = w"
  | (no_rel) fs2 where "os_rename env src dst (f_fs w) = Inr fs2" "Rel (st_mount st) dst = None" "r = Fail 500 ''TRASH_REL_PATH_FAILED''"
  | (no_row) fs2 where "os_rename env src dst (f_fs w) = Inr fs2" "r = Fail 500 ''RECYCLE_RECORD_FAILED''"
      "w' = set_fs (undo_rename env2 dst src fs2) w"
  | (trashed) fs2 rp where "os_rename env src dst (f_fs w) = Inr fs2" "Rel (st_mount st) dst = Some rp"
      "\<forall>a\<in>set (f_recycle w). sid = rb_storage a \<longrightarrow> orig \<noteq> rb_orig a"
      "r = Reply 200 \<lparr>dr_id = o_id env, dr_storage = sid, dr_orig = orig, dr_path = rp, dr_name = Base src\<rparr>"
      "w' = DeleteFavoriteByPath env sid orig (w\<lparr>f_fs := fs2, f_recycle := f_recycle w @
         [\<lparr>rb_id = o_id env, rb_storage = sid, rb_name = Base src, rb_orig = orig, rb_path = rp,
           rb_dir = (n = DirN), rb_size = node_size env n, rb_deleted = o_now env, rb_expires = None\<rparr>]\<rparr>)"
  using assms
  by (auto simp: trash_item_def AddRecycleBinItem_def insert_row_def set_fs_def Let_def
      split: sum.splits option.splits if_splits)

text \<open>Where the handlers' paths lie.\<close>

lemma trash_target:
  assumes "rooted r" "rooted src" "Clean src = src" "segs src \<noteq> []" "slash \<notin> set (o_id env)"
    and "dst = Join [buildTrashDir r (o_now env), uniqueTrashName env (Base src)]"
  shows "rooted dst" "prefix (segs r @ [''.trash'']) (segs dst)"
proof -
  have pl: "plain_seg (Base src)" using segs_Dir(3) [OF assms(2-4)] segs_plain [OF assms(2)] assms(4) by simp
  have "Base (Base src) = Base src" using pl Base_plain by (simp add: plain_seg_def)
  then have "plain_seg (uniqueTrashName env (Base src))"
    using trash_name_plain [OF assms(5) pl] by (simp add: uniqueTrashName_def)
  from segs_Join_plain [OF _ this] Join_rooted(1) buildTrashDir_segs [OF assms(1), of "o_now env"]
  obtain a b c where "segs dst = (segs r @ [''.trash'', a, b, c]) @ [uniqueTrashName env (Base src)]" "rooted dst"
    unfolding assms(6) by metis
  then show "rooted dst" "prefix (segs r @ [''.trash'']) (segs dst)" by (simp_all add: prefix_def)
qed

lemma rename_moves: "os_rename env s d fs = Inr fs' \<Longrightarrow> fs' = move_tree (segs s) (segs d) fs \<and> \<not> prefix (segs s) (segs d)"
  by (auto simp: os_rename_def rename_ok_def split: if_splits)

lemma root_ancestor_exists:
  assumes "tree_ok fs" "fs s \<noteq> None" "prefix q s" "q \<noteq> []"
  shows "fs q \<noteq> None"
  using assms tree_ok_prefix by (metis prefix_def)

lemma trash_dir_made:
  assumes mk: "os_MkdirAll env (buildTrashDir r now) fs = (True, fs1)" and r: "rooted r"
    and ok: "tree_ok fs" "fs s \<noteq> None" and s: "prefix (segs r) s" "segs r \<noteq> s" "\<not> prefix (segs r @ [''.trash'']) s"
  shows "fs1 (s @ q) = fs (s @ q)" "\<not> prefix (segs r @ [''.trash'']) p \<Longrightarrow> fs1 p = fs p"
proof -
  obtain a b c where d: "segs (buildTrashDir r now) = segs r @ [''.trash'', a, b, c]"
    using buildTrashDir_segs [OF r] by blast
  obtain zs where zs: "s = segs r @ zs" using s(1) by (auto simp: prefix_def)
  with s(2) obtain n m where "zs = n # m" by (cases zs) auto
  with zs have nm: "s = segs r @ n # m" by simp
  then have "n \<noteq> ''.trash''" using s(3) by (auto simp: prefix_def)
  then have "\<not> prefix (s @ q) (segs (buildTrashDir r now))" unfolding d nm by (auto simp: prefix_def)
  with MkdirAll_at [OF mk] show "fs1 (s @ q) = fs (s @ q)" by blast
  assume p: "\<not> prefix (segs r @ [''.trash'']) p"
  show "fs1 p = fs p"
  proof (rule ccontr)
    assume "fs1 p \<noteq> fs p"
    with MkdirAll_at [OF mk, of p] have "prefix p (segs r @ [''.trash'', a, b, c])" "p \<noteq> []" "fs p = None"
      unfolding d by blast+
    moreover from this p have "prefix p (segs r)" by (auto simp: prefix_append prefix_Cons)
    then have "prefix p s" using s(1) by (rule prefix_order.trans)
    ultimately show False using root_ancestor_exists [OF ok] by blast
  qed
qed

text \<open>
  C21: A successful delete moves the file to the recycle bin and writes down where it came from.  In
  a file tree with rooted mount paths and a fresh id without a slash, the reply's original path leads
  back to the source and its recycle path to a place under \<open>.trash\<close> of the same storage that now
  holds the source's tree; the source is gone; one row with these paths is added; the favorite of
  the source is gone, unless the statement that deletes it fails, which the handler only logs; and
  nothing outside the source and \<open>.trash\<close> changes.
\<close>

theorem delete_moves_to_trash:
  assumes "files_HandleDelete env env2 sid fid w = (Reply c rep, w')" "tree_ok (f_fs w)"
    "\<forall>st\<in>set (f_storages w). rooted (st_mount st)" "slash \<notin> set (o_id env)"
  shows "\<exists>st src back bin row. st \<in> set (f_storages w) \<and> st_id st = sid \<and> decodeFileID fid = Some src \<and>
    back = segs (Join [st_mount st, dr_orig rep]) \<and> bin = segs (Join [st_mount st, dr_path rep]) \<and>
    back = segs src \<and> prefix (segs (st_mount st) @ [''.trash'']) bin \<and>
    (\<forall>q. f_fs w' (bin @ q) = f_fs w (back @ q)) \<and> (\<forall>q. f_fs w' (back @ q) = None) \<and>
    (\<forall>p. \<not> prefix (segs (st_mount st) @ [''.trash'']) p \<and> \<not> prefix back p \<longrightarrow> f_fs w' p = f_fs w p) \<and>
    f_recycle w' = f_recycle w @ [row] \<and> rb_storage row = sid \<and> rb_orig row = dr_orig rep \<and> rb_path row = dr_path rep \<and>
    f_favs w' = (if o_up env FFavorite then filter (\<lambda>f. \<not> (fv_storage f = sid \<and> fv_path f = dr_orig rep)) (f_favs w)
                 else f_favs w)"
  using assms(1)
proof (cases rule: delete_cases)
  case (trashed st src n orig fs1)
  have st: "st \<in> set (f_storages w)" "st_id st = sid"
    using storage_tbl.get_found [OF trashed(1)] by simp_all
  then have r: "rooted (st_mount st)" using assms(3) by blast
  have src: "rooted src" "prefix (segs (st_mount st)) (segs src)" using trashed(3) within_iff [OF r] by blast+
  have cl: "Clean src = src" using trashed(2) by (auto simp: decodeFileID_def split: option.splits)
  have nt: "\<not> prefix (segs (st_mount st) @ [''.trash'']) (segs src)"
    using trashed(4) trash_segs [OF r] within_iff [of "trash_of (st_mount st)" src] src(1) by simp
  have ex: "f_fs w (segs src) \<noteq> None" using trashed(5) by (auto simp: os_stat_def split: if_splits option.splits)
  let ?dst = "Join [buildTrashDir (st_mount st) (o_now env), uniqueTrashName env (Base src)]"
  from trashed(8) refl [of ?dst] show ?thesis
  proof (cases rule: trash_item_cases)
    case t: (trashed fs2 rp)
    have f2: "fs2 = move_tree (segs src) (segs ?dst) fs1" "\<not> prefix (segs src) (segs ?dst)"
      using rename_moves [OF t(1)] by (simp_all add: set_fs_def)
    have ne: "segs src \<noteq> []" using f2(2) by auto
    note tt = trash_target [OF r src(1) cl ne assms(4) refl]
    have "segs (st_mount st) \<noteq> segs src"
      using tt(2) f2(2) by (metis append_prefixD)
    note td = trash_dir_made [OF trashed(7) r assms(2) ex src(2) this nt]
    have bin: "segs (Join [st_mount st, rp]) = segs ?dst"
      using Rel_returns [OF r tt(1) append_prefixD [OF tt(2)]] t(2) by auto
    have home: "segs (Join [st_mount st, orig]) = segs src"
      using Rel_returns [OF r src] trashed(6) by auto
    have nd: "\<not> prefix (segs ?dst) (segs src @ q)" for q
    proof
      assume "prefix (segs ?dst) (segs src @ q)"
      with f2(2) have "prefix (segs ?dst) (segs src)" by (meson prefixI prefix_same_cases)
      with tt(2) nt show False using prefix_order.trans by blast
    qed
    have fs: "f_fs w' = fs2" by (simp add: t(5) DeleteFavoriteByPath_def)
    have there: "\<forall>q. f_fs w' (segs ?dst @ q) = f_fs w (segs src @ q)"
      by (simp add: fs f2(1) move_tree_def set_fs_def td(1))
    have gone: "\<forall>q. f_fs w' (segs src @ q) = None" using nd by (simp add: fs f2(1) move_tree_def)
    have rest: "\<forall>p. \<not> prefix (segs (st_mount st) @ [''.trash'']) p \<and> \<not> prefix (segs src) p \<longrightarrow> f_fs w' p = f_fs w p"
    proof (intro allI impI)
      fix p assume p: "\<not> prefix (segs (st_mount st) @ [''.trash'']) p \<and> \<not> prefix (segs src) p"
      then have "\<not> prefix (segs ?dst) p" using tt(2) prefix_order.trans by blast
      with p show "f_fs w' p = f_fs w p" by (simp add: fs f2(1) move_tree_def set_fs_def td(2))
    qed
    have favs: "f_favs w' = (if o_up env FFavorite then filter (\<lambda>f. \<not> (fv_storage f = sid \<and> fv_path f = orig)) (f_favs w)
        else f_favs w)" by (simp add: t(5) DeleteFavoriteByPath_def tbl_del_def set_fs_def)
    define row where "row = \<lparr>rb_id = o_id env, rb_storage = sid, rb_name = Base src, rb_orig = orig, rb_path = rp,
       rb_dir = (n = DirN), rb_size = node_size env n, rb_deleted = o_now env, rb_expires = None\<rparr>"
    have rec: "f_recycle w' = f_recycle w @ [row]" "rb_storage row = sid" "rb_orig row = orig" "rb_path row = rp"
      by (simp_all add: t(5) DeleteFavoriteByPath_def row_def set_fs_def)
    have rep: "dr_orig rep = orig" "dr_path rep = rp" using t(4) by simp_all
    show ?thesis
      unfolding rep
      by (rule exI [of _ st], rule exI [of _ src], rule exI [of _ "segs src"], rule exI [of _ "segs ?dst"], rule exI [of _ row])
        (use st trashed(2) bin home tt(2) there gone rest rec favs in simp)
  qed simp_all
qed simp_all

text \<open>The rename back into place.\<close>

lemma undo_returns:
  assumes "\<not> o_denied env2" "o_ok env2 CRename" "tree_ok fs" "segs src \<noteq> []" "fs (segs src) \<noteq> None"
    and f1: "\<And>p. fs p \<noteq> None \<Longrightarrow> fs1 p = fs p" and np: "\<not> prefix (segs src) (segs dst)" "\<not> prefix (segs dst) (segs src)"
  shows "undo_rename env2 dst src (move_tree (segs src) (segs dst) fs1) (segs src @ q) = fs1 (segs src @ q)"
proof -
  let ?f2 = "move_tree (segs src) (segs dst) fs1"
  have par: "segs src = butlast (segs src) @ [last (segs src)]" using assms(4) by simp
  have "is_dir fs (parent (segs src))"
    using assms(3,5) unfolding tree_ok_def parent_def by (metis par)
  moreover have "\<not> prefix (segs src) (parent (segs src))"
  proof
    assume "prefix (segs src) (parent (segs src))"
    from prefix_length_le [OF this] have "length (segs src) \<le> length (segs src) - 1"
      unfolding parent_def length_butlast .
    moreover have "0 < length (segs src)" using assms(4) by simp
    ultimately show False by linarith
  qed
  moreover have "\<not> prefix (segs dst) (parent (segs src))"
    using np(2) par unfolding parent_def by (metis prefix_append)
  ultimately have "is_dir ?f2 (parent (segs src))"
    using f1 [of "parent (segs src)"] by (auto simp: is_dir_def move_tree_def)
  moreover have "?f2 (segs dst) \<noteq> None" using f1 [OF assms(5)] assms(5) by (simp add: move_tree_def)
  moreover have "?f2 (segs src) = None" using np by (simp add: move_tree_def)
  ultimately have "os_rename env2 dst src ?f2 = Inr (move_tree (segs dst) (segs src) ?f2)"
    using assms(1,2,4) np by (simp add: os_rename_def rename_ok_def)
  then show ?thesis by (simp add: undo_rename_def) (simp add: move_tree_def)
qed

text \<open>
  A path can be deleted once.  While the recycle bin holds a row for a path, every request to
  delete that path again (a new file of that name) fails, the table stays as it is, and with the
  rename back into place working the file stays with its content.
\<close>

theorem second_delete_refused:
  assumes "files_HandleDelete env env2 sid fid w = (r, w')" "a \<in> set (f_recycle w)" "rb_storage a = sid"
    "storage_Get (o_up env FStorage) sid (f_storages w) = Inr st" "rooted (st_mount st)" "decodeFileID fid = Some src"
    "Rel (st_mount st) src = Some (rb_orig a)" "tree_ok (f_fs w)" "slash \<notin> set (o_id env)"
    "\<not> o_denied env2" "o_ok env2 CRename"
  shows "(\<exists>n c. r = Fail n c) \<and> f_recycle w' = f_recycle w \<and>
    (\<forall>p. prefix (segs src) p \<and> f_fs w p \<noteq> None \<longrightarrow> f_fs w' p = f_fs w p)"
  using assms(1)
proof (cases rule: delete_cases)
  case (no_dir fs1)
  then show ?thesis by (simp add: set_fs_def)
next
  case (trashed st' src' n orig fs1)
  then have same: "st' = st" "src' = src" "orig = rb_orig a" using assms(4,6,7) by simp_all
  have cl: "Clean src = src" using assms(6) by (auto simp: decodeFileID_def split: option.splits)
  have src: "rooted src" "prefix (segs (st_mount st)) (segs src)"
    using trashed(3) within_iff [OF assms(5)] by (auto simp: same)
  have nt: "\<not> prefix (segs (st_mount st) @ [''.trash'']) (segs src)"
    using trashed(4) trash_segs [OF assms(5)] within_iff [of "trash_of (st_mount st)" src] src(1) by (simp add: same)
  have ex: "f_fs w (segs src) \<noteq> None" using trashed(5) by (auto simp: os_stat_def same split: if_splits option.splits)
  have keep: "fs1 p = f_fs w p" if "f_fs w p \<noteq> None" for p
    using MkdirAll_keeps [OF trashed(7)] that by blast
  let ?dst = "Join [buildTrashDir (st_mount st) (o_now env), uniqueTrashName env (Base src)]"
  from trashed(8) [unfolded same] refl [of ?dst] show ?thesis
  proof (cases rule: trash_item_cases)
    case kept
    with keep show ?thesis by (simp add: set_fs_def)
  next
    case (no_rel fs2)
    have f2: "\<not> prefix (segs src) (segs ?dst)" using rename_moves [OF no_rel(1)] by simp
    then have "segs src \<noteq> []" by auto
    note tt = trash_target [OF assms(5) src(1) cl this assms(9) refl]
    from Rel_returns [OF assms(5) tt(1) append_prefixD [OF tt(2)]] no_rel(2) show ?thesis by auto
  next
    case (no_row fs2)
    have f2: "fs2 = move_tree (segs src) (segs ?dst) fs1" "\<not> prefix (segs src) (segs ?dst)"
      using rename_moves [OF no_row(1)] by (simp_all add: set_fs_def)
    then have ne: "segs src \<noteq> []" by auto
    note tt = trash_target [OF assms(5) src(1) cl ne assms(9) refl]
    have nd: "\<not> prefix (segs ?dst) (segs src)" using tt(2) nt prefix_order.trans by blast
    have "f_fs w' (segs src @ q) = fs1 (segs src @ q)" for q
      using undo_returns [OF assms(10,11,8) ne ex keep f2(2) nd] by (simp add: no_row(3) f2(1) set_fs_def)
    with keep no_row(2,3) show ?thesis by (auto simp: set_fs_def prefix_def)
  next
    case (trashed fs2 rp)
    with assms(2,3) show ?thesis by (auto simp: set_fs_def same)
  qed
qed simp

section \<open>The name "/"\<close>

lemma rename_policy: "normalizeConflictPolicy ''rename'' = Some PRename"
  by code_simp

lemma slash_trim: "trim [slash] = [slash]"
  by code_simp

lemma slash_valid: "validFileName [slash]"
  by (simp add: validFileName_iff)

text \<open>
  The name \<open>"/"\<close> passes \<open>validFileName\<close> and leaves the storage.  A move into the storage root
  with that name and the policy \<open>rename\<close>, when the file system allows it, puts the file beside the
  mount point, under no path of the storage, and answers 200.
\<close>

theorem slash_name_escapes:
  assumes "resolveFileOperationSource env sid fid w = Inr (st, src)" "resolveOperationParent env st pid w = Inr (st_mount st)"
    "rooted (st_mount st)" "Clean (st_mount st) = st_mount st" "segs (st_mount st) \<noteq> []" "f_fs w (segs src) = Some (FileN c)"
    "nextAvailablePath env (f_fs w) src (st_mount st) = Some dst" "is_dir (f_fs w) (parent (segs (st_mount st)))"
    "\<not> o_denied env" "o_ok env CRename" "\<And>l. o_ok env (CStat l)"
  shows "\<exists>rep w'. HandleMove env sid fid (Some \<lparr>pr_parent = pid, pr_name = [slash], pr_policy = ''rename''\<rparr>) w =
      (Reply 200 rep, w') \<and> \<not> prefix (segs (st_mount st)) (segs dst) \<and> f_fs w' (segs dst) = Some (FileN c)"
proof -
  let ?m = "st_mount st"
  note s = source_ok [OF assms(1,3)] and p = parent_ok [OF assms(2,3)]
  obtain n where n: "rooted dst" "Clean dst = dst" "segs dst = butlast (segs ?m) @ [n]" "f_fs w (segs dst) = None"
    using nextAvailable_Some [OF assms(7,3,4,5)] by blast
  have m: "segs ?m = butlast (segs ?m) @ [last (segs ?m)]" using assms(5) by simp
  have out: "\<not> prefix (segs ?m) (segs dst)"
  proof
    assume "prefix (segs ?m) (segs dst)"
    then obtain zs where zs: "segs dst = segs ?m @ zs" by (auto simp: prefix_def)
    have "length (segs dst) = length (segs ?m)" by (subst m) (simp add: n(3))
    with zs have "segs ?m = segs dst" by simp
    with n(4) p(4) show False by simp
  qed
  have np: "\<not> prefix (segs src) (segs dst)"
  proof
    assume "prefix (segs src) (segs dst)"
    with s(4) have "prefix (segs ?m) (segs dst)" by (rule prefix_order.trans)
    with out show False ..
  qed
  have j: "Join [?m, [slash]] = ?m"
    using segs_Join_slash [OF assms(3)] Join_rooted(1,3) [OF assms(3), of "[slash]"] segs_eq_Clean [of "Join [?m, [slash]]" ?m] assms(3,4)
    by metis
  have "src \<noteq> ?m" using s(5) by auto
  moreover have "isPathWithinRoot ?m ?m" using within_iff [OF assms(3)] assms(3) by simp
  moreover have "\<not> isPathWithinRoot (trash_of ?m) ?m"
    using within_iff [of "trash_of ?m" ?m] trash_segs [OF assms(3)] by (auto simp: prefix_def)
  ultimately have "validateOperationTargetBase ?m src ?m"
    using s(3) assms(4) by (simp add: validateOperationTargetBase_def)
  then have res: "resolveConflictTarget env (f_fs w) ?m src ?m PRename = Some (dst, False)"
    using p(4) assms(4,7,11) by (simp add: resolveConflictTarget_def os_stat_def)
  have "\<not> isPathWithinRoot src dst" using within_iff [OF s(2), of dst] np by simp
  moreover have "movePath env src dst (f_fs w) = (True, move_tree (segs src) (segs dst) (f_fs w))"
    using assms(6,8-10) n(3,4) np by (simp add: movePath_def os_rename_def rename_ok_def parent_def)
  ultimately have "place Move env st src ?m PRename w =
      (Reply 200 (buildFileOperationResponse env (move_tree (segs src) (segs dst) (f_fs w)) ?m dst),
       set_fs (move_tree (segs src) (segs dst) (f_fs w)) w)"
    by (simp add: place_def res transfer_path_def)
  moreover have "chosen_name [slash] src = [slash]" by (simp add: chosen_name_def slash_trim)
  ultimately show ?thesis using assms(1,2) out
    by (simp add: HandleMove_def transfer_handler_def slash_valid rename_policy j)
      (simp add: set_fs_def move_tree_def assms(6))
qed

end
