(* ===== verification/Files_Witnesses.thy ===== *)
theory Files_Witnesses
  imports Files_Trash
begin

text \<open>The properties of the file handlers on a small storage: \<open>/m\<close> with a folder \<open>a\<close> that holds \<open>f\<close>.\<close>

definition demo_storage :: storage where
  "demo_storage = \<lparr>st_id = ''s'', st_name = ''disk'', st_location = [], st_mount = ''/m'', st_type = Local,
     st_provider = [], st_host = [], st_port = 0, st_url = [], st_username = [], st_password = [], st_token = [],
     st_domain = [], st_share = [], st_root = [], st_extra = [], st_status = Online, st_total = 0, st_free = 0,
     st_updated = 0\<rparr>"

definition demo_fs :: fsys where
  "demo_fs = [[''m''] \<mapsto> DirN, [''m'', ''a''] \<mapsto> DirN, [''m'', ''a'', ''f''] \<mapsto> FileN ''x'']"

definition demo_files :: fworld where
  "demo_files = \<lparr>f_fs = demo_fs, f_storages = [demo_storage], f_recycle = [], f_favs = []\<rparr>"

definition demo_oenv :: oenv where
  "demo_oenv = \<lparr>o_now = 86400, o_id = ''i'', o_dirsize = 4096, o_up = (\<lambda>_. True), o_ok = (\<lambda>_. True),
     o_denied = False, o_keep = (\<lambda>_. True), o_moved = False\<rparr>"

definition demo_move :: "string \<Rightarrow> place_req" where
  "demo_move pol = \<lparr>pr_parent = encodeFilePath ''/m'', pr_name = ''g'', pr_policy = pol\<rparr>"

lemma demo_tree: "tree_ok demo_fs"
  by (auto simp: tree_ok_def demo_fs_def is_dir_def append_eq_Cons_conv split: if_splits)

lemma demo_roots: "\<forall>st\<in>set (f_storages demo_files). rooted (st_mount st)"
  by (simp add: demo_files_def demo_storage_def rooted_def slash_def)

theorem file_requests_contained_witness:
  "serve_file demo_oenv (MoveTo ''s'' (encodeFilePath ''/m/a/f'') (Some (demo_move []))) demo_files = demo_files \<or>
    (\<exists>st\<in>set (f_storages demo_files). st_id st = ''s'' \<and> (\<forall>p. \<not> prefix (segs (st_mount st)) p \<longrightarrow>
       f_fs (serve_file demo_oenv (MoveTo ''s'' (encodeFilePath ''/m/a/f'') (Some (demo_move []))) demo_files) p =
       f_fs demo_files p) \<and>
     serve_file demo_oenv (MoveTo ''s'' (encodeFilePath ''/m/a/f'') (Some (demo_move []))) demo_files =
     demo_files\<lparr>f_fs := f_fs (serve_file demo_oenv (MoveTo ''s'' (encodeFilePath ''/m/a/f'') (Some (demo_move []))) demo_files)\<rparr>)"
proof -
  have "\<not> slash_name (MoveTo ''s'' (encodeFilePath ''/m/a/f'') (Some (demo_move [])))" by (simp add: demo_move_def) code_simp
  moreover have "request_storage (MoveTo ''s'' fid b) = ''s''" for fid b by code_simp
  ultimately show ?thesis
    using file_requests_contained [OF demo_roots, of "MoveTo ''s'' (encodeFilePath ''/m/a/f'') (Some (demo_move []))"] by metis
qed

definition demo_id :: string where "demo_id = encodeFilePath ''/m/a/f''"

theorem transfer_never_overwrites_witness:
  "\<exists>rep src dst w'. transfer_handler Move demo_oenv ''s'' demo_id (Some (demo_move [])) demo_files = (Reply 200 rep, w') \<and>
     decodeFileID (trim demo_id) = Some src \<and> or_id rep = encodeFilePath dst \<and>
     (\<forall>q. f_fs w' (segs dst @ q) = f_fs demo_files (segs src @ q))"
proof -
  obtain r w' where e: "transfer_handler Move demo_oenv ''s'' demo_id (Some (demo_move [])) demo_files = (r, w')" by force
  have ok: "is_reply (fst (transfer_handler Move demo_oenv ''s'' demo_id (Some (demo_move [])) demo_files))" by code_simp
  have "tree_ok (f_fs demo_files)" by (simp add: demo_files_def demo_tree)
  moreover have "trim (pr_name (demo_move [])) \<noteq> [slash]" by code_simp
  moreover have "normalizeConflictPolicy (pr_policy (demo_move [])) \<noteq> Some POverwrite" by code_simp
  ultimately show ?thesis
    using transfer_never_overwrites [OF e _ demo_roots] ok e by (auto simp: is_reply_def)
qed

theorem overwrite_of_ancestor_loses_source_witness:
  "\<exists>w'. place Move demo_oenv demo_storage ''/m/a/f'' ''/m/a'' POverwrite demo_files = (Fail 500 ''MOVE_FILE_FAILED'', w') \<and>
     f_fs w' [''m'', ''a'', ''f''] = None"
proof -
  have "segs ''/m/a'' = [''m'', ''a'']" by code_simp
  moreover have "\<exists>w'. place Move demo_oenv demo_storage ''/m/a/f'' ''/m/a'' POverwrite demo_files =
      (Fail 500 ''MOVE_FILE_FAILED'', w') \<and> (\<forall>q. f_fs w' (segs ''/m/a'' @ q) = None)"
    by (rule overwrite_of_ancestor_loses_source [where n = "''f''" and ns = "[]"]; (simp add: demo_oenv_def; fail)?; code_simp)
  ultimately show ?thesis by (metis append_Cons append_Nil)
qed

theorem delete_moves_to_trash_witness:
  "\<exists>rep w'. files_HandleDelete demo_oenv demo_oenv ''s'' demo_id demo_files = (Reply 200 rep, w') \<and>
     length (f_recycle w') = 1 \<and> (\<forall>q. f_fs w' (segs (Join [''/m'', dr_orig rep]) @ q) = None)"
proof -
  obtain r w' where e: "files_HandleDelete demo_oenv demo_oenv ''s'' demo_id demo_files = (r, w')" by force
  have "is_reply (fst (files_HandleDelete demo_oenv demo_oenv ''s'' demo_id demo_files))" by code_simp
  with e obtain c rep where r: "r = Reply c rep" by (cases r) (auto simp: is_reply_def)
  have c: "case fst (files_HandleDelete demo_oenv demo_oenv ''s'' demo_id demo_files) of Reply c _ \<Rightarrow> c = 200 | Fail _ _ \<Rightarrow> True"
    by code_simp
  have "tree_ok (f_fs demo_files)" "slash \<notin> set (o_id demo_oenv)"
    by (simp_all add: demo_files_def demo_tree demo_oenv_def slash_def)
  from delete_moves_to_trash [OF e [unfolded r] this(1) demo_roots this(2)] c e r show ?thesis
    by (auto simp: demo_files_def demo_storage_def)
qed

definition demo_twice :: fworld where
  "demo_twice = demo_files\<lparr>f_recycle := [\<lparr>rb_id = ''r'', rb_storage = ''s'', rb_name = ''f'', rb_orig = ''a/f'',
     rb_path = ''.trash/1970/01/01/r_f'', rb_dir = False, rb_size = 1, rb_deleted = 0, rb_expires = None\<rparr>]\<rparr>"

theorem second_delete_refused_witness:
  "\<exists>n c. fst (files_HandleDelete demo_oenv demo_oenv ''s'' demo_id demo_twice) = Fail n c"
proof -
  have "storage_Get (o_up demo_oenv FStorage) ''s'' (f_storages demo_twice) = Inr demo_storage" by code_simp
  moreover have "rooted (st_mount demo_storage)" by code_simp
  moreover have "decodeFileID demo_id = Some ''/m/a/f''" by code_simp
  moreover have "Rel (st_mount demo_storage) ''/m/a/f'' = Some (rb_orig (hd (f_recycle demo_twice)))" by code_simp
  moreover have "tree_ok (f_fs demo_twice)" by (simp add: demo_twice_def demo_files_def demo_tree)
  moreover have "hd (f_recycle demo_twice) \<in> set (f_recycle demo_twice)" "rb_storage (hd (f_recycle demo_twice)) = ''s''"
    by (simp_all add: demo_twice_def)
  moreover have "slash \<notin> set (o_id demo_oenv)" "\<not> o_denied demo_oenv" "o_ok demo_oenv CRename"
    by (simp_all add: demo_oenv_def slash_def)
  ultimately show ?thesis
    using second_delete_refused [OF surjective_pairing, where env = demo_oenv and ?env2.0 = demo_oenv and sid = "''s''"
        and fid = demo_id and w = demo_twice] by blast
qed

theorem slash_name_escapes_witness:
  "\<exists>rep w'. HandleMove demo_oenv ''s'' demo_id
       (Some \<lparr>pr_parent = encodeFilePath ''/m'', pr_name = [slash], pr_policy = ''rename''\<rparr>) demo_files = (Reply 200 rep, w') \<and>
     \<not> prefix (segs (st_mount demo_storage)) (segs ''/m (1)'') \<and> f_fs w' (segs ''/m (1)'') = Some (FileN ''x'')"
  by (rule slash_name_escapes [where src = "''/m/a/f''"]; (simp add: demo_oenv_def; fail)?; code_simp)

end
