(* ===== verification/Paths_Props.thy ===== *)
theory Paths_Props
  imports File_System
begin

text \<open>The paths and identifiers the file handlers rely on (internal/files/paths.go and operations.go).\<close>

text \<open>
  C23: A file id leads back to its path: \<open>decodeFileID\<close> of \<open>encodeFilePath\<close> is the clean path, for
  every byte string, and equal ids are equal clean paths.
\<close>

theorem file_id_roundtrip:
  "decodeFileID (encodeFilePath p) = Some (Clean p) \<and> (encodeFilePath p = encodeFilePath q \<longleftrightarrow> Clean p = Clean q)"
proof -
  have "alphabet_ok url_alphabet" by (rule alphabets_ok(2))
  then have d: "decodeFileID (encodeFilePath p) = Some (Clean p)" for p
    by (simp add: decodeFileID_def encodeFilePath_def b64_dec_enc)
  then have "encodeFilePath p = encodeFilePath q \<Longrightarrow> Clean p = Clean q" by (metis option.inject)
  moreover have "Clean p = Clean q \<Longrightarrow> encodeFilePath p = encodeFilePath q" by (simp add: encodeFilePath_def)
  ultimately show ?thesis using d by blast
qed

text \<open>
  C24: The guard on paths is exact: for an absolute root, \<open>isPathWithinRoot\<close> accepts a target if and
  only if the target is absolute and the segments of the clean root begin those of the clean target,
  whatever dots, double dots and repeated slashes either path has.
\<close>

theorem path_guard_exact:
  assumes "rooted root"
  shows "isPathWithinRoot root target \<longleftrightarrow> rooted target \<and> prefix (segs root) (segs target)"
  by (rule within_iff [OF assms])

theorem path_guard_exact_witness:
  "isPathWithinRoot ''/m/s/'' ''/m/./s/x/../y'' \<and> \<not> isPathWithinRoot ''/m/s'' ''/m/s/../t''"
proof -
  have r: "rooted ''/m/s/''" "rooted ''/m/s''" by code_simp+
  have "rooted ''/m/./s/x/../y'' \<and> prefix (segs ''/m/s/'') (segs ''/m/./s/x/../y'')" by code_simp
  moreover have "\<not> prefix (segs ''/m/s'') (segs ''/m/s/../t'')" by code_simp
  ultimately show ?thesis using path_guard_exact r by blast
qed

end
