(* ===== verification/Calendar_Props.thy ===== *)
theory Calendar_Props
  imports Schedule
begin

text \<open>What the calendar of automatic snapshots guarantees (internal/storagepool/create.go and jobs.go).\<close>

text \<open>
  C25: The weekly schedule has a normal form.  The loops of \<open>normalizeWeeklySchedule\<close> compute the
  sorted digits that occur in the trimmed text, without repetition; anything but the digits 1 to 7 is
  an error, and so is an empty text; and a normal form is normalised to itself.
\<close>

theorem weekly_schedule_normal_form:
  "normalizeWeeklySchedule s =
    (if trim s = [] then Inl SchedRequired
     else if set (trim s) \<subseteq> set ''1234567'' then Inr (filter (\<lambda>d. d \<in> set (trim s)) ''1234567'')
     else Inl SchedBadChar) \<and>
   (\<forall>v. normalizeWeeklySchedule s = Inr v \<longrightarrow> normalizeWeeklySchedule v = Inr v)"
proof
  show "normalizeWeeklySchedule s =
    (if trim s = [] then Inl SchedRequired
     else if set (trim s) \<subseteq> set ''1234567'' then Inr (filter (\<lambda>d. d \<in> set (trim s)) ''1234567'')
     else Inl SchedBadChar)"
    unfolding normalizeWeeklySchedule_eq weekday_digits_def [symmetric] subset_code(1) by (rule refl)
  show "(\<forall>v. normalizeWeeklySchedule s = Inr v \<longrightarrow> normalizeWeeklySchedule v = Inr v)"
    using normalizeWeeklySchedule_idem(1) [of s] by blast
qed

text \<open>
  C26: The next weekly snapshot falls on the next day the schedule names.  In a time zone where
  \<open>time.Date\<close> of a midnight is the first instant of its day (\<open>local_zone\<close>: no skipped midnight, or east of
  Greenwich), it is on the first day after the base day whose weekday is among the digits, at most seven days later, and
  there at the clock time at which the base day began.  That is its midnight, unless the clocks skip the
  midnight of the base day: then every candidate keeps the first clock time after the skip.
\<close>

theorem next_weekly_snapshot:
  assumes "local_zone z" "normalizeWeeklySchedule s = Inr v"
  shows "\<exists>d. NextAutoSnapshotTime z base s = z_date z d (z_clock z (z_midnight z (z_day z base))) \<and>
    z_day z (NextAutoSnapshotTime z base s) = d \<and> z_day z base < d \<and> d \<le> z_day z base + 7 \<and>
    weekday d \<in> weekdayFromDigit ` set v \<and>
    (\<forall>d'. z_day z base < d' \<and> d' < d \<longrightarrow> weekday d' \<notin> weekdayFromDigit ` set v)"
  using local_zone.NextAutoSnapshotTime_weekly [OF assms, of base] local_zone.day_start [OF assms(1), of base]
  by (auto simp: next_start_def)

text \<open>
  Catching up ends.  In a local time zone \<open>nextAutoSnapshotAfter\<close> returns for every schedule,
  however long ago the last run was planned: its result lies after now and is the first that does of
  the runs that follow the planned one.
\<close>

theorem catching_up_ends:
  assumes "local_zone z"
  shows "\<exists>t n. nextAutoSnapshotAfter z last_run s now = Some t \<and> now < t \<and>
    t = ((\<lambda>t. NextAutoSnapshotTime z t s) ^^ Suc n) (case last_run of None \<Rightarrow> now | Some l \<Rightarrow> if l = zero_time then now else l) \<and>
    (\<forall>m<n. ((\<lambda>t. NextAutoSnapshotTime z t s) ^^ Suc m)
       (case last_run of None \<Rightarrow> now | Some l \<Rightarrow> if l = zero_time then now else l) \<le> now)"
proof -
  have clock: "snapshot_clock (\<lambda>t. NextAutoSnapshotTime z t s)"
    by (rule snapshot_clock.intro) (rule local_zone.NextAutoSnapshotTime_later [OF assms])
  show ?thesis
    using snapshot_clock.catch_up_returns [OF clock, of "NextAutoSnapshotTime z _ s" now]
    unfolding nextAutoSnapshotAfter_def Let_def funpow_Suc_right comp_def by blast
qed

theorem weekly_schedule_normal_form_witness: "normalizeWeeklySchedule ''3 1'' = Inl SchedBadChar \<and> normalizeWeeklySchedule '' 31313'' = Inr ''13''"
  using weekly_schedule_normal_form [of "''3 1''"] weekly_schedule_normal_form [of "'' 31313''"]
  by (simp add: trim_def is_space_def)

text \<open>
  The clocks skip the midnight of Sunday 1970-01-04 (day 3).  East of Greenwich, at noon of that day, a
  schedule for Monday and Wednesday goes on at one o'clock on Monday.
\<close>

theorem next_weekly_snapshot_witness:
  "\<exists>d. NextAutoSnapshotTime (east_zone 3) 291600 ''13'' = z_date (east_zone 3) d 3600 \<and>
    z_day (east_zone 3) (NextAutoSnapshotTime (east_zone 3) 291600 ''13'') = d \<and> 3 < d \<and> d \<le> 10 \<and>
    weekday d \<in> weekdayFromDigit ` set ''13'' \<and>
    (\<forall>d'. 3 < d' \<and> d' < d \<longrightarrow> weekday d' \<notin> weekdayFromDigit ` set ''13'')"
proof -
  have n: "normalizeWeeklySchedule ''13'' = Inr ''13''" by code_simp
  have z: "z_day (east_zone 3) 291600 = 3" "z_clock (east_zone 3) (z_midnight (east_zone 3) 3) = 3600" by code_simp+
  show ?thesis using next_weekly_snapshot [OF east.local_zone_axioms n, of 3 291600] by (simp add: z)
qed

text \<open>
  West of Greenwich the skipped midnight is an instant of Saturday: a schedule for Sundays is never found
  on a Sunday, the search falls back to the next midnight, which is that instant again, and the loop of
  the worker does not end.
\<close>

lemma skipped_midnight_hangs:
  assumes "270000 \<le> now"
  shows "nextAutoSnapshotAfter (west_zone 3) (Some 270000) ''7'' now = None"
proof -
  have "NextAutoSnapshotTime (west_zone 3) 270000 ''7'' = 270000" by code_simp
  then show ?thesis
    using catch_up_stuck [of "\<lambda>t. NextAutoSnapshotTime (west_zone 3) t ''7''" 270000 now] assms
    by (simp add: nextAutoSnapshotAfter_def zero_time_def)
qed

text \<open>The universal time zone, a schedule for Monday and Wednesday, from Thursday 1970-01-01 on.\<close>

lemma utc_zone: "local_zone (fixed_zone 0)"
  by (rule fixed.local_zone_axioms)

theorem catching_up_ends_witness:
  "\<exists>t. nextAutoSnapshotAfter (fixed_zone 0) (Some 0) ''13'' 10000000 = Some t \<and> 10000000 < t"
  using catching_up_ends [OF utc_zone, of "Some 0" "''13''" 10000000] by blast

end
