(* ===== verification/Networks.thy ===== *)
theory Networks
  imports Prelude "HOL-Library.Word"
begin

unbundle bit_operations_syntax

text \<open>
  The client networks of a share (internal/sharing/store.go): \<open>normalizeClientNetwork\<close> over
  \<open>net.ParseIP\<close>, \<open>net.ParseCIDR\<close> and their printing.  IPv4 addresses are four bytes, as in Go;
  the text of IPv6 addresses and networks is read and printed by the two functions \<open>ip6\<close> and
  \<open>cidr6\<close> of package net.
\<close>

section \<open>IPv4 addresses\<close>

type_synonym ip4 = "8 word list"

definition parse_octet :: "string \<Rightarrow> 8 word option" where
  "parse_octet s =
     (if s \<noteq> [] \<and> (\<forall>c\<in>set s. is_digit c) \<and> (length s = 1 \<or> (of_char (hd s) :: nat) \<noteq> 48) \<and> nat_of_digits s \<le> 255
      then Some (word_of_nat (nat_of_digits s)) else None)"

definition dot :: char where "dot = CHR ''.''"

definition parse_ip4 :: "string \<Rightarrow> ip4 option" where
  "parse_ip4 s =
     (case map parse_octet (split_on dot s) of
        [Some a, Some b, Some c, Some d] \<Rightarrow> Some [a, b, c, d]
      | _ \<Rightarrow> None)"

definition ip4_text :: "ip4 \<Rightarrow> string" where
  "ip4_text bs = join_with [dot] (map (\<lambda>b. decimal (unat b)) bs)"

lemma parse_octet_decimal [simp]: "parse_octet (decimal (unat b)) = Some b" for b :: "8 word"
proof -
  have "unat b < 2 ^ LENGTH(8)" by (rule unsigned_less)
  then have "unat b \<le> 255" by simp
  moreover have "length (decimal (unat b)) = 1 \<or> (of_char (hd (decimal (unat b))) :: nat) \<noteq> 48"
    using decimal_hd [of "unat b"] by (cases "unat b = 0") (simp_all add: decimal.simps [of 0])
  ultimately show ?thesis using decimal_is_digit by (simp add: parse_octet_def)
qed

lemma digit_not: "is_digit c \<Longrightarrow> c \<noteq> dot \<and> c \<noteq> CHR ''/'' \<and> c \<noteq> CHR '':'' \<and> c \<noteq> CHR ''%'' \<and> c \<noteq> CHR ''*''"
  by (auto simp: is_digit_def dot_def)

lemma ip4_text_roundtrip: "length bs = 4 \<Longrightarrow> parse_ip4 (ip4_text bs) = Some bs"
proof -
  assume "length bs = 4"
  then obtain a b c d where bs: "bs = [a, b, c, d]" by (auto simp: length_Suc_conv numeral_eq_Suc)
  have "\<forall>x\<in>set (map (\<lambda>b. decimal (unat b)) bs). dot \<notin> set x"
    using decimal_is_digit digit_not by fastforce
  then have "split_on dot (ip4_text bs) = map (\<lambda>b. decimal (unat b)) bs"
    unfolding ip4_text_def by (intro split_join) (simp_all add: bs)
  then show ?thesis by (simp add: parse_ip4_def bs)
qed

lemma parse_ip4_length: "parse_ip4 s = Some bs \<Longrightarrow> length bs = 4"
  by (auto simp: parse_ip4_def split: list.splits option.splits)

lemma parse_ip4_chars:
  assumes "parse_ip4 s = Some bs" "c \<in> set s" shows "is_digit c \<or> c = dot"
proof -
  have "\<forall>x\<in>set (split_on dot s). parse_octet x \<noteq> None"
    using assms(1) by (auto simp: parse_ip4_def split: list.splits option.splits)
  then have "\<forall>x\<in>set (split_on dot s). \<forall>c\<in>set x. is_digit c"
    by (auto simp: parse_octet_def split: if_splits)
  moreover have "c \<in> set s \<Longrightarrow> c = dot \<or> (\<exists>x\<in>set (split_on dot s). c \<in> set x)" for c
    by (induction s) (auto split: list.splits if_splits)
  ultimately show ?thesis using assms(2) by blast
qed

lemma ip4_text_chars: "c \<in> set (ip4_text bs) \<Longrightarrow> is_digit c \<or> c = dot"
proof -
  have "c \<in> set (join_with [dot] xs) \<Longrightarrow> c = dot \<or> (\<exists>x\<in>set xs. c \<in> set x)" for xs
    by (induction "[dot]" xs rule: join_with.induct) auto
  then show "c \<in> set (ip4_text bs) \<Longrightarrow> is_digit c \<or> c = dot"
    unfolding ip4_text_def using decimal_is_digit by fastforce
qed

section \<open>Masks\<close>

text \<open>\<open>net.CIDRMask\<close>, byte by byte.\<close>

fun CIDRMask :: "nat \<Rightarrow> nat \<Rightarrow> 8 word list" where
  "CIDRMask n 0 = []"
| "CIDRMask n (Suc k) =
     (if 8 \<le> n then 0xFF # CIDRMask (n - 8) k else NOT (drop_bit n 0xFF) # CIDRMask 0 k)"

definition apply_mask :: "nat \<Rightarrow> ip4 \<Rightarrow> ip4" where
  "apply_mask n bs = map2 (AND) bs (CIDRMask n 4)"

lemma length_CIDRMask [simp]: "length (CIDRMask n k) = k"
  by (induction n k rule: CIDRMask.induct) auto

lemma apply_mask_idem: "length bs = 4 \<Longrightarrow> apply_mask n (apply_mask n bs) = apply_mask n bs"
  unfolding apply_mask_def by (rule nth_equalityI) (simp_all add: and.assoc)

definition mask_len :: "string \<Rightarrow> nat option" where
  "mask_len m = (if m \<noteq> [] \<and> (\<forall>c\<in>set m. is_digit c) \<and> nat_of_digits m \<le> 32 then Some (nat_of_digits m) else None)"

lemma mask_len_decimal: "n \<le> 32 \<Longrightarrow> mask_len (decimal n) = Some n"
  using decimal_is_digit by (simp add: mask_len_def)

section \<open>Addresses and networks as the server reads them\<close>

text \<open>\<open>netip.ParseAddr\<close> decides by the first of these characters.\<close>

definition first_mark :: "string \<Rightarrow> char option" where
  "first_mark s = find (\<lambda>c. c = dot \<or> c = CHR '':'' \<or> c = CHR ''%'') s"

definition ParseIP :: "(string \<Rightarrow> string option) \<Rightarrow> string \<Rightarrow> string option" where
  "ParseIP ip6 s =
     (if first_mark s = Some dot then map_option ip4_text (parse_ip4 s)
      else if first_mark s = Some (CHR '':'') then ip6 s
      else None)"

definition ParseCIDR :: "(string \<Rightarrow> string \<Rightarrow> string option) \<Rightarrow> string \<Rightarrow> string option" where
  "ParseCIDR cidr6 s =
     (let addr = takeWhile (\<lambda>c. c \<noteq> CHR ''/'') s; len = drop (length addr + 1) s in
      if first_mark addr = Some dot then
        (case (parse_ip4 addr, mask_len len) of
           (Some bs, Some n) \<Rightarrow> Some (ip4_text (apply_mask n bs) @ ''/'' @ decimal n)
         | _ \<Rightarrow> None)
      else if first_mark addr = Some (CHR '':'') then cidr6 addr len
      else None)"

definition normalizeClientNetwork ::
  "(string \<Rightarrow> string option) \<Rightarrow> (string \<Rightarrow> string \<Rightarrow> string option) \<Rightarrow> string \<Rightarrow> string option" where
  "normalizeClientNetwork ip6 cidr6 value =
     (if value = ''*'' then Some value
      else if CHR ''/'' \<in> set value then ParseCIDR cidr6 value
      else ParseIP ip6 value)"

fun networks_from ::
  "(string \<Rightarrow> string option) \<Rightarrow> (string \<Rightarrow> string \<Rightarrow> string option) \<Rightarrow> string list \<Rightarrow> string list \<Rightarrow> string list option" where
  "networks_from ip6 cidr6 seen [] = Some []"
| "networks_from ip6 cidr6 seen (raw # raws) =
     (let value = trim raw in
      if value = [] then networks_from ip6 cidr6 seen raws
      else (case normalizeClientNetwork ip6 cidr6 value of
              None \<Rightarrow> None
            | Some normalized \<Rightarrow>
                if normalized \<in> set seen then networks_from ip6 cidr6 seen raws
                else map_option ((#) normalized) (networks_from ip6 cidr6 (normalized # seen) raws)))"

definition normalizeClientNetworks ::
  "(string \<Rightarrow> string option) \<Rightarrow> (string \<Rightarrow> string \<Rightarrow> string option) \<Rightarrow> string list \<Rightarrow> string list option" where
  "normalizeClientNetworks ip6 cidr6 values = networks_from ip6 cidr6 [] values"

section \<open>Normal forms\<close>

lemma find_skip: "\<forall>x\<in>set xs. \<not> P x \<Longrightarrow> find P (xs @ ys) = find P ys"
  by (induction xs) auto

lemma find_append: "find P (xs @ ys) = (case find P xs of None \<Rightarrow> find P ys | Some x \<Rightarrow> Some x)"
  by (induction xs) auto

lemma first_mark_ip4:
  assumes "length bs = 4" shows "first_mark (ip4_text bs @ rest) = Some dot"
proof -
  obtain b c d e where "bs = b # [c, d, e]" using assms by (auto simp: length_Suc_conv numeral_eq_Suc)
  then obtain bs' where b: "bs = b # bs'" "bs' \<noteq> []" by blast
  then have "ip4_text bs @ rest = decimal (unat b) @ dot # ip4_text bs' @ rest"
    by (cases bs') (simp_all add: ip4_text_def)
  moreover have "\<forall>c\<in>set (decimal (unat b)). \<not> (c = dot \<or> c = CHR '':'' \<or> c = CHR ''%'')"
    using decimal_is_digit digit_not by blast
  ultimately show ?thesis by (simp add: first_mark_def find_skip)
qed

lemma no_slash_ip4: "CHR ''/'' \<notin> set (ip4_text bs)"
  using ip4_text_chars [of "CHR ''/''" bs] digit_not [of "CHR ''/''"] by (auto simp: dot_def)

lemma no_star: "length bs = 4 \<Longrightarrow> ip4_text bs @ rest \<noteq> ''*''"
  using first_mark_ip4 [of bs rest] by (auto simp: first_mark_def dot_def)

lemma normal_address:
  assumes "length bs = 4"
  shows "normalizeClientNetwork ip6 cidr6 (ip4_text bs) = Some (ip4_text bs)"
  using no_star [OF assms, of "[]"] first_mark_ip4 [OF assms, of "[]"] no_slash_ip4 [of bs] ip4_text_roundtrip [OF assms]
  by (simp add: normalizeClientNetwork_def ParseIP_def)

lemma normal_network:
  assumes "length bs = 4" "n \<le> 32"
  shows "normalizeClientNetwork ip6 cidr6 (ip4_text bs @ ''/'' @ decimal n) =
    Some (ip4_text (apply_mask n bs) @ ''/'' @ decimal n)"
proof -
  let ?s = "ip4_text bs @ ''/'' @ decimal n"
  have "\<forall>c\<in>set (ip4_text bs). c \<noteq> CHR ''/''" using no_slash_ip4 [of bs] by blast
  then have t: "takeWhile (\<lambda>c. c \<noteq> CHR ''/'') ?s = ip4_text bs" by simp
  have d: "drop (length (ip4_text bs) + 1) ?s = decimal n" by simp
  have "ParseCIDR cidr6 ?s = Some (ip4_text (apply_mask n bs) @ ''/'' @ decimal n)"
    unfolding ParseCIDR_def Let_def t d
    using first_mark_ip4 [OF assms(1), of "[]"] ip4_text_roundtrip [OF assms(1)] mask_len_decimal [OF assms(2)] by simp
  then show ?thesis using no_star [OF assms(1), of "''/'' @ decimal n"]
    unfolding normalizeClientNetwork_def by simp
qed

lemma dotted_result:
  assumes "normalizeClientNetwork ip6 cidr6 v = Some t" "first_mark v = Some dot"
  obtains (address) bs where "length bs = 4" "t = ip4_text bs"
  | (network) bs n where "length bs = 4" "n \<le> 32" "t = ip4_text (apply_mask n bs) @ ''/'' @ decimal n"
proof (cases "CHR ''/'' \<in> set v")
  case False
  have "v \<noteq> ''*''" using assms(2) by (auto simp: first_mark_def dot_def)
  with False assms obtain bs where "parse_ip4 v = Some bs" "t = ip4_text bs"
    by (auto simp: normalizeClientNetwork_def ParseIP_def)
  with address show thesis using parse_ip4_length by blast
next
  case True
  have "v \<noteq> ''*''" using assms(2) by (auto simp: first_mark_def dot_def)
  let ?a = "takeWhile (\<lambda>c. c \<noteq> CHR ''/'') v"
  from True obtain us vs where v: "v = us @ CHR ''/'' # vs" "CHR ''/'' \<notin> set us" using split_list_first by metis
  then have "\<forall>c\<in>set us. c \<noteq> CHR ''/''" by blast
  then have a: "?a = us" by (simp add: v(1))
  have "first_mark us \<noteq> Some (CHR '':'')"
    using assms(2) by (auto simp: v first_mark_def dot_def find_append split: option.splits)
  with True \<open>v \<noteq> ''*''\<close> assms(1) obtain bs n where "parse_ip4 us = Some bs" "mask_len (drop (length us + 1) v) = Some n"
    "t = ip4_text (apply_mask n bs) @ ''/'' @ decimal n"
    by (auto simp: normalizeClientNetwork_def ParseCIDR_def Let_def a split: if_splits option.splits)
  with network show thesis using parse_ip4_length by (auto simp: mask_len_def split: if_splits)
qed

lemma and_255: "x AND 255 = x" for x :: "8 word"
proof -
  have "(255 :: 8 word) = - 1" by simp
  then show ?thesis by (metis and.right_neutral)
qed

text \<open>
  IPv4 client networks have a normal form: the normal text of a dotted address or network is its
  own normal text.  It is a dotted address, or a network whose host bits are cleared and whose mask
  has at most 32 bits; so two spellings of one network are stored once.
\<close>

theorem ipv4_networks_canonical:
  assumes "normalizeClientNetwork ip6 cidr6 v = Some t" "first_mark v = Some dot"
  shows "normalizeClientNetwork ip6 cidr6 t = Some t \<and>
    (\<exists>bs n. parse_ip4 (takeWhile (\<lambda>c. c \<noteq> CHR ''/'') t) = Some bs \<and> n \<le> 32 \<and> map2 (AND) bs (CIDRMask n 4) = bs)"
  using assms
proof (cases rule: dotted_result)
  case (address bs)
  have tw: "takeWhile (\<lambda>c. c \<noteq> CHR ''/'') (ip4_text bs) = ip4_text bs"
    using no_slash_ip4 [of bs] unfolding takeWhile_eq_all_conv by blast
  have "parse_ip4 (takeWhile (\<lambda>c. c \<noteq> CHR ''/'') t) = Some bs"
    unfolding address(2) tw by (rule ip4_text_roundtrip [OF address(1)])
  moreover have "map2 (AND) bs (CIDRMask 32 4) = bs"
    using address(1) by (auto simp: length_Suc_conv numeral_eq_Suc and_255)
  moreover have "normalizeClientNetwork ip6 cidr6 t = Some t"
    unfolding address(2) by (rule normal_address [OF address(1)])
  ultimately show ?thesis by (metis order_refl)
next
  case (network bs n)
  have len: "length (apply_mask n bs) = 4" using network(1) by (simp add: apply_mask_def)
  have "\<forall>c\<in>set (ip4_text (apply_mask n bs)). c \<noteq> CHR ''/''" using no_slash_ip4 by blast
  then have "takeWhile (\<lambda>c. c \<noteq> CHR ''/'') t = ip4_text (apply_mask n bs)" by (simp add: network(3))
  moreover have "normalizeClientNetwork ip6 cidr6 t = Some t"
    using normal_network [OF len network(2)] apply_mask_idem [OF network(1), of n] by (simp add: network(3))
  ultimately show ?thesis
    using ip4_text_roundtrip [OF len] apply_mask_idem [OF network(1), of n] network(2)
    by (intro conjI exI [of _ "apply_mask n bs"] exI [of _ n]) (simp_all add: apply_mask_def)
qed

theorem ipv4_networks_canonical_witness:
  "normalizeClientNetwork (\<lambda>_. None) (\<lambda>_ _. None) ''192.168.1.77/24'' = Some ''192.168.1.0/24'' \<and>
   normalizeClientNetwork (\<lambda>_. None) (\<lambda>_ _. None) ''192.168.1.0/24'' = Some ''192.168.1.0/24''"
proof -
  have n: "normalizeClientNetwork (\<lambda>_. None) (\<lambda>_ _. None) ''192.168.1.77/24'' = Some ''192.168.1.0/24''" by code_simp
  have "first_mark ''192.168.1.77/24'' = Some dot" by code_simp
  from ipv4_networks_canonical [OF n this] n show ?thesis by blast
qed

end
