(* ===== verification/Sharing.thy ===== *)
theory Sharing
  imports Networks Go_Path Auth
begin

text \<open>
  Shares: internal/sharing (types.go, store.go, services.go, handler.go) over the table
  \<open>file_shares\<close>, whose primary key is the id and whose name is unique.  The JSON columns hold the
  lists they encode, or None when they do not parse.  Names and paths come from JSON, so they are
  valid UTF-8 and have as many characters as bytes that are not continuation bytes.  The environment
  record holds the clock, a fresh id, which statements fail, the environment of the users, the two
  IPv6 functions of package net, and the answers of systemd.
\<close>

datatype share_status = ShareEnabled | ShareDisabled

record share_row =
  sh_id :: string
  sh_name :: string
  sh_pool :: string
  sh_path :: string
  sh_protocols :: "string list option"
  sh_users :: "string list option"
  sh_networks :: "string list option"
  sh_status :: share_status
  sh_created :: int
  sh_updated :: "int option"

record share_user =
  shu_id :: string
  shu_name :: string
  shu_display :: string
  shu_avatar :: string
  shu_status :: string

record share =
  row_of :: share_row
  share_enabled :: bool
  share_protocols :: "string list"
  share_user_ids :: "string list"
  share_users :: "share_user list"
  share_networks :: "string list"

record share_req =
  sq_name :: string
  sq_pool :: string
  sq_path :: string
  sq_status :: string
  sq_enabled :: "bool option"
  sq_protocols :: "string list"
  sq_users :: "string list"
  sq_networks :: "string list"

record shworld =
  sw_shares :: "share_row list"
  sw_users :: uworld
  sw_audit :: "audit list"

datatype shsite = ShList | ShGet | ShReget | ShInsert | ShUpdate | ShDelete

record shenv =
  se_now :: int
  se_newid :: string
  se_up :: "shsite \<Rightarrow> bool"
  se_uenv :: uenv
  se_ip6 :: "string \<Rightarrow> string option"
  se_cidr6 :: "string \<Rightarrow> string \<Rightarrow> string option"
  se_active :: "string \<Rightarrow> bool \<times> string \<times> string"
  se_ctl :: "string \<Rightarrow> string \<Rightarrow> bool"

datatype sherr = ShDb db_err | ShInvalid | ShNotFound | ShParse

section \<open>Normalising a request\<close>

definition ProtocolSMB :: string where "ProtocolSMB = ''smb''"
definition ProtocolFTP :: string where "ProtocolFTP = ''ftp''"
definition ProtocolWebDAV :: string where "ProtocolWebDAV = ''webdav''"
definition ProtocolNFS :: string where "ProtocolNFS = ''nfs''"

definition supported :: "string list" where
  "supported = [ProtocolSMB, ProtocolFTP, ProtocolWebDAV, ProtocolNFS]"

fun protocols_from :: "string list \<Rightarrow> string list \<Rightarrow> string list option" where
  "protocols_from seen [] = Some []"
| "protocols_from seen (value # values) =
     (let protocol = to_lower (trim value) in
      if protocol \<notin> set supported then None
      else if protocol \<in> set seen then protocols_from seen values
      else map_option ((#) protocol) (protocols_from (protocol # seen) values))"

definition normalizeProtocols :: "string list \<Rightarrow> string list option" where
  "normalizeProtocols values =
     (case protocols_from [] values of
        None \<Rightarrow> None
      | Some protocols \<Rightarrow> if protocols = [] then None else Some (sort protocols))"

definition normalizeStatus :: "string \<Rightarrow> bool option \<Rightarrow> share_status option" where
  "normalizeStatus status enabled =
     (case enabled of
        Some e \<Rightarrow> Some (if e then ShareEnabled else ShareDisabled)
      | None \<Rightarrow>
          (let s = to_lower (trim status) in
           if s = [] \<or> s = ''enabled'' then Some ShareEnabled
           else if s = ''disabled'' then Some ShareDisabled
           else None))"

definition rune_count :: "string \<Rightarrow> nat" where
  "rune_count s = length (filter (\<lambda>c. \<not> (128 \<le> (of_char c :: nat) \<and> (of_char c :: nat) < 192)) s)"

definition name_forbidden :: string where
  "name_forbidden = CHR ''/'' # CHR 0x5C # CHR '':'' # CHR ''*'' # CHR ''?'' # CHR 0x22 # ''<>|[]''"

definition validateShareName :: "string \<Rightarrow> bool" where
  "validateShareName name \<longleftrightarrow> name \<noteq> [] \<and> rune_count name \<le> 64 \<and> name \<noteq> ''.'' \<and> name \<noteq> ''..'' \<and>
     (\<forall>c\<in>set name. c \<notin> set name_forbidden) \<and> (\<forall>c\<in>set name. \<not> ((of_char c :: nat) < 32 \<or> (of_char c :: nat) = 127))"

definition uniqueStrings :: "string list \<Rightarrow> string list" where
  "uniqueStrings values = unique_from [] values"

section \<open>The store\<close>

definition emptyJSONArray :: "string list option \<Rightarrow> string list option" where
  \<comment> \<open>A blank column reads as the empty array; the model's columns hold the array already.\<close>
  "emptyJSONArray v = v"

definition shareUsers :: "shenv \<Rightarrow> string list \<Rightarrow> shworld \<Rightarrow> share_user list" where
  "shareUsers env ids w =
     (case ListByIDs (se_uenv env) ids (sw_users w) of
        Inl _ \<Rightarrow> []
      | Inr items \<Rightarrow> map (\<lambda>(u, _). \<lparr>shu_id = us_id u, shu_name = us_name u, shu_display = us_display u,
          shu_avatar = us_avatar u, shu_status = us_status u\<rparr>) items)"

definition hydrateShare :: "shenv \<Rightarrow> shworld \<Rightarrow> share_row \<Rightarrow> sherr + share" where
  "hydrateShare env w r =
     (case (sh_protocols r, sh_users r, sh_networks r) of
        (Some ps, Some us, Some ns) \<Rightarrow>
          Inr \<lparr>row_of = r, share_enabled = (sh_status r = ShareEnabled), share_protocols = ps, share_user_ids = us,
               share_users = shareUsers env us w, share_networks = ns\<rparr>
      | _ \<Rightarrow> Inl ShParse)"

fun hydrate_all :: "shenv \<Rightarrow> shworld \<Rightarrow> share_row list \<Rightarrow> sherr + share list" where
  "hydrate_all env w [] = Inr []"
| "hydrate_all env w (r # rs) =
     (case hydrateShare env w r of
        Inl e \<Rightarrow> Inl e
      | Inr s \<Rightarrow> (case hydrate_all env w rs of Inl e \<Rightarrow> Inl e | Inr ss \<Rightarrow> Inr (s # ss)))"

definition ListShares :: "shenv \<Rightarrow> shworld \<Rightarrow> sherr + share list" where
  "ListShares env w =
     (case sel_all (se_up env ShList) (order_desc sh_created (sw_shares w)) of
        Inl e \<Rightarrow> Inl (ShDb e)
      | Inr rows \<Rightarrow> hydrate_all env w rows)"

definition GetShare :: "bool \<Rightarrow> shenv \<Rightarrow> string \<Rightarrow> shworld \<Rightarrow> sherr + share" where
  "GetShare up env i w =
     (case sel_one up sh_id (trim i) (sw_shares w) of
        Inl e \<Rightarrow> Inl (ShDb e)
      | Inr r \<Rightarrow> hydrateShare env w r)"

definition share_clash :: "share_row \<Rightarrow> share_row \<Rightarrow> bool" where
  "share_clash r q \<longleftrightarrow> sh_id r = sh_id q \<or> sh_name r = sh_name q"

text \<open>The values \<open>UpsertShare\<close> stores, or None when the request is refused.\<close>

definition share_values :: "shenv \<Rightarrow> share_req \<Rightarrow> (share_row \<Rightarrow> share_row) option" where
  "share_values env req =
     (let name = trim (sq_name req) in
      if \<not> validateShareName name then None
      else
        (let path = Clean (trim (sq_path req)) in
         if \<not> IsAbs path then None
         else (case normalizeStatus (sq_status req) (sq_enabled req) of
            None \<Rightarrow> None
          | Some status \<Rightarrow>
              (case normalizeProtocols (sq_protocols req) of
                 None \<Rightarrow> None
               | Some protocols \<Rightarrow>
                   (case normalizeClientNetworks (se_ip6 env) (se_cidr6 env) (sq_networks req) of
                      None \<Rightarrow> None
                    | Some networks \<Rightarrow>
                        Some (\<lambda>r. r\<lparr>sh_name := name, sh_pool := trim (sq_pool req), sh_path := path,
                          sh_protocols := Some protocols, sh_users := Some (uniqueStrings (sq_users req)),
                          sh_networks := Some networks, sh_status := status, sh_updated := Some (se_now env)\<rparr>))))))"

definition blank_row :: "shenv \<Rightarrow> share_row" where
  "blank_row env = \<lparr>sh_id = se_newid env, sh_name = [], sh_pool = [], sh_path = [], sh_protocols = None, sh_users = None,
     sh_networks = None, sh_status = ShareEnabled, sh_created = se_now env, sh_updated = None\<rparr>"

definition UpsertShare :: "shenv \<Rightarrow> string \<Rightarrow> share_req \<Rightarrow> shworld \<Rightarrow> (sherr + share) \<times> shworld" where
  "UpsertShare env i req w =
     (case share_values env req of
        None \<Rightarrow> (Inl ShInvalid, w)
      | Some put \<Rightarrow>
          (let shareID = trim i in
           if shareID = [] then
             (case insert_row (se_up env ShInsert) share_clash (put (blank_row env)) (sw_shares w) of
                Inl e \<Rightarrow> (Inl (ShDb e), w)
              | Inr t \<Rightarrow> let w1 = w\<lparr>sw_shares := t\<rparr> in (GetShare (se_up env ShReget) env (se_newid env) w1, w1))
           else if \<not> se_up env ShUpdate then (Inl (ShDb DbFail), w)
           else if tbl_rows (\<lambda>r. sh_id r = shareID) (sw_shares w) = 0 then (Inl ShNotFound, w)
           else if \<exists>q\<in>set (sw_shares w). sh_id q \<noteq> shareID \<and> sh_name q = trim (sq_name req) then (Inl (ShDb Constraint), w)
           else let w1 = w\<lparr>sw_shares := tbl_upd (\<lambda>r. sh_id r = shareID) put (sw_shares w)\<rparr> in
                (GetShare (se_up env ShReget) env shareID w1, w1)))"

definition DeleteShare :: "shenv \<Rightarrow> string \<Rightarrow> shworld \<Rightarrow> db_err + shworld" where
  "DeleteShare env i w =
     (if \<not> se_up env ShDelete then Inl DbFail
      else Inr (w\<lparr>sw_shares := tbl_del (\<lambda>r. sh_id r = trim i) (sw_shares w)\<rparr>))"

section \<open>Protocols and their services\<close>

record protocol_spec =
  ps_protocol :: string
  ps_service :: string
  ps_port :: int
  ps_url :: "string \<Rightarrow> string"

definition protocolServiceSpecs :: "protocol_spec list" where
  "protocolServiceSpecs =
     [\<lparr>ps_protocol = ProtocolSMB, ps_service = ''smbd'', ps_port = 445, ps_url = (\<lambda>h. ''smb://'' @ h @ '':445'')\<rparr>,
      \<lparr>ps_protocol = ProtocolFTP, ps_service = ''proftpd'', ps_port = 21, ps_url = (\<lambda>h. ''ftp://'' @ h @ '':21'')\<rparr>,
      \<lparr>ps_protocol = ProtocolWebDAV, ps_service = ''apache2'', ps_port = 28088, ps_url = (\<lambda>h. ''http://'' @ h @ '':28088'')\<rparr>,
      \<lparr>ps_protocol = ProtocolNFS, ps_service = ''nfs-server'', ps_port = 2049, ps_url = (\<lambda>h. h @ '':/'')\<rparr>]"

fun count_share :: "share \<Rightarrow> (string \<Rightarrow> nat) \<Rightarrow> string \<Rightarrow> nat" where
  "count_share s counts =
     (if sh_status (row_of s) \<noteq> ShareEnabled then counts
      else fold (\<lambda>p c. c(p := c p + 1)) (share_protocols s) counts)"

definition enabledProtocolCounts :: "share list \<Rightarrow> string \<Rightarrow> nat" where
  "enabledProtocolCounts shares = fold count_share shares (\<lambda>_. 0)"

record protocol_summary =
  pm_protocol :: string
  pm_enabled :: bool
  pm_url :: string
  pm_count :: nat

definition ProtocolSummaries :: "shenv \<Rightarrow> string \<Rightarrow> shworld \<Rightarrow> sherr + protocol_summary list" where
  "ProtocolSummaries env host w =
     (case ListShares env w of
        Inl e \<Rightarrow> Inl e
      | Inr shares \<Rightarrow>
          (let counts = enabledProtocolCounts shares in
           Inr (map (\<lambda>(p, u). \<lparr>pm_protocol = p, pm_enabled = (counts p > 0), pm_url = u, pm_count = counts p\<rparr>)
             [(ProtocolSMB, ''smb://'' @ host @ '':445''), (ProtocolFTP, ''ftp://'' @ host @ '':21''),
              (ProtocolWebDAV, ''http://'' @ host @ '':28088''), (ProtocolNFS, host @ '':/'')])))"

definition systemdActiveState :: "shenv \<Rightarrow> string \<Rightarrow> string" where
  "systemdActiveState env name =
     (case se_active env name of
        (ok, out, err) \<Rightarrow>
          (if \<not> ok then
             (let status = (if trim out = [] then trim err else trim out) in if status = [] then ''unknown'' else status)
           else if trim out = [] then ''unknown'' else trim out))"

record protocol_service =
  pv_protocol :: string
  pv_service :: string
  pv_active :: bool
  pv_status :: string
  pv_url :: string
  pv_port :: int
  pv_count :: nat

definition service_of :: "shenv \<Rightarrow> string \<Rightarrow> protocol_spec \<Rightarrow> nat \<Rightarrow> protocol_service" where
  "service_of env host spec n =
     (let status = systemdActiveState env (ps_service spec) in
      \<lparr>pv_protocol = ps_protocol spec, pv_service = ps_service spec, pv_active = (status = ''active''),
       pv_status = status, pv_url = ps_url spec host, pv_port = ps_port spec, pv_count = n\<rparr>)"

definition ListProtocolServices :: "shenv \<Rightarrow> string \<Rightarrow> shworld \<Rightarrow> sherr + protocol_service list" where
  "ListProtocolServices env host w =
     (case ListShares env w of
        Inl e \<Rightarrow> Inl e
      | Inr shares \<Rightarrow>
          Inr (map (\<lambda>spec. service_of env host spec (enabledProtocolCounts shares (ps_protocol spec))) protocolServiceSpecs))"

definition protocolServiceSpecByProtocol :: "string \<Rightarrow> protocol_spec option" where
  "protocolServiceSpecByProtocol p = find (\<lambda>spec. ps_protocol spec = p) protocolServiceSpecs"

definition ControlProtocolService :: "shenv \<Rightarrow> shenv \<Rightarrow> string \<Rightarrow> string \<Rightarrow> string \<Rightarrow> protocol_service option" where
  \<comment> \<open>\<open>env2\<close> is the environment after the command.\<close>
  "ControlProtocolService env env2 protocol action0 host =
     (case protocolServiceSpecByProtocol protocol of
        None \<Rightarrow> None
      | Some spec \<Rightarrow>
          (let action = to_lower (trim action0) in
           if action \<noteq> ''start'' \<and> action \<noteq> ''stop'' \<and> action \<noteq> ''restart'' then None
           else if \<not> se_ctl env action (ps_service spec) then None
           else Some (service_of env2 host spec 0)))"

section \<open>Handlers\<close>

definition share_audit :: "string \<Rightarrow> string \<Rightarrow> bool \<Rightarrow> string \<Rightarrow> string \<Rightarrow> shworld \<Rightarrow> shworld" where
  "share_audit event action ok rtype rid w = w\<lparr>sw_audit := sw_audit w @ [Audit event action ok rtype rid]\<rparr>"

definition share_HandleList :: "shenv \<Rightarrow> shworld \<Rightarrow> share list resp" where
  "share_HandleList env w =
     (case ListShares env w of Inl _ \<Rightarrow> Fail 500 ''FILE_SHARES_LIST_FAILED'' | Inr items \<Rightarrow> Reply 200 items)"

definition share_HandleGet :: "shenv \<Rightarrow> string \<Rightarrow> shworld \<Rightarrow> share resp" where
  "share_HandleGet env i w =
     (case GetShare (se_up env ShGet) env i w of Inl _ \<Rightarrow> Fail 404 ''FILE_SHARE_NOT_FOUND'' | Inr item \<Rightarrow> Reply 200 item)"

definition share_HandleCreate :: "shenv \<Rightarrow> share_req option \<Rightarrow> shworld \<Rightarrow> share resp \<times> shworld" where
  "share_HandleCreate env body w =
     (case body of
        None \<Rightarrow> (Fail 400 ''INVALID_BODY'', w)
      | Some req \<Rightarrow>
          (case UpsertShare env [] req w of
             (Inl _, w1) \<Rightarrow> (Fail 400 ''FILE_SHARE_CREATE_FAILED'',
                share_audit ''file_share_create_failed'' ''create'' False ''file_share'' [] w1)
           | (Inr item, w1) \<Rightarrow> (Reply 201 item,
                share_audit ''file_share_created'' ''create'' True ''file_share'' (sh_id (row_of item)) w1)))"

definition share_HandleUpdate :: "shenv \<Rightarrow> string \<Rightarrow> share_req option \<Rightarrow> shworld \<Rightarrow> share resp \<times> shworld" where
  "share_HandleUpdate env i body w =
     (case body of
        None \<Rightarrow> (Fail 400 ''INVALID_BODY'', w)
      | Some req \<Rightarrow>
          (case UpsertShare env i req w of
             (Inl _, w1) \<Rightarrow> (Fail 400 ''FILE_SHARE_UPDATE_FAILED'',
                share_audit ''file_share_update_failed'' ''update'' False ''file_share'' i w1)
           | (Inr item, w1) \<Rightarrow> (Reply 200 item,
                share_audit ''file_share_updated'' ''update'' True ''file_share'' (sh_id (row_of item)) w1)))"

definition share_HandleDelete :: "shenv \<Rightarrow> string \<Rightarrow> shworld \<Rightarrow> string resp \<times> shworld" where
  "share_HandleDelete env i w =
     (case DeleteShare env i w of
        Inl _ \<Rightarrow> (Fail 500 ''FILE_SHARE_DELETE_FAILED'',
           share_audit ''file_share_delete_failed'' ''delete'' False ''file_share'' i w)
      | Inr w1 \<Rightarrow> (Reply 200 i, share_audit ''file_share_deleted'' ''delete'' True ''file_share'' i w1))"

definition requestHost :: "string \<Rightarrow> string \<Rightarrow> string" where
  "requestHost host0 forwarded0 =
     (let forwarded = trim forwarded0;
          host1 = (if forwarded \<noteq> [] then forwarded else host0);
          host2 = (case SplitHost host1 of Some h \<Rightarrow> h | None \<Rightarrow> host1) in
      if host2 = [] then ''yesnas.local'' else host2)"

definition HandleSummary :: "shenv \<Rightarrow> string \<Rightarrow> string \<Rightarrow> shworld \<Rightarrow> protocol_service list resp" where
  "HandleSummary env host fwd w =
     (case ListProtocolServices env (requestHost host fwd) w of
        Inl _ \<Rightarrow> Fail 500 ''FILE_SHARE_SUMMARY_FAILED'' | Inr items \<Rightarrow> Reply 200 items)"

definition HandleProtocolServices :: "shenv \<Rightarrow> string \<Rightarrow> string \<Rightarrow> shworld \<Rightarrow> protocol_service list resp" where
  "HandleProtocolServices env host fwd w =
     (case ListProtocolServices env (requestHost host fwd) w of
        Inl _ \<Rightarrow> Fail 500 ''PROTOCOL_SERVICES_FAILED'' | Inr items \<Rightarrow> Reply 200 items)"

definition HandleProtocolServiceAction ::
  "shenv \<Rightarrow> shenv \<Rightarrow> string \<Rightarrow> string \<Rightarrow> string \<Rightarrow> string option \<Rightarrow> shworld \<Rightarrow> protocol_service resp \<times> shworld" where
  "HandleProtocolServiceAction env env2 host fwd protocol body w =
     (case body of
        None \<Rightarrow> (Fail 400 ''INVALID_BODY'', w)
      | Some action \<Rightarrow>
          (case ControlProtocolService env env2 protocol action (requestHost host fwd) of
             None \<Rightarrow> (Fail 400 ''PROTOCOL_SERVICE_ACTION_FAILED'',
                share_audit ''protocol_service_action_failed'' (trim action) False ''protocol_service'' protocol w)
           | Some item \<Rightarrow> (Reply 200 item,
                share_audit ''protocol_service_action'' (trim action) True ''protocol_service'' (pv_protocol item) w)))"

end
