(* ===== verification/Sharing_Props.thy ===== *)
theory Sharing_Props
  imports Sharing
begin

text \<open>
  Shares: what every stored share satisfies, what the protocol summary counts, and what the share
  list shows once a user is deleted.
\<close>

section \<open>Stored shares are normal\<close>

definition share_ok :: "shenv \<Rightarrow> share_row \<Rightarrow> bool" where
  "share_ok env r \<longleftrightarrow> validateShareName (sh_name r) \<and> IsAbs (sh_path r) \<and> Clean (sh_path r) = sh_path r \<and>
     (case sh_protocols r of None \<Rightarrow> False | Some ps \<Rightarrow> ps \<noteq> [] \<and> sorted ps \<and> distinct ps \<and> set ps \<subseteq> set supported) \<and>
     (case sh_users r of None \<Rightarrow> False | Some us \<Rightarrow> distinct us \<and> (\<forall>u\<in>set us. u \<noteq> [] \<and> trim u = u)) \<and>
     (case sh_networks r of None \<Rightarrow> False
      | Some ns \<Rightarrow> distinct ns \<and> (\<forall>n\<in>set ns. \<exists>v. normalizeClientNetwork (se_ip6 env) (se_cidr6 env) v = Some n))"

definition shares_ok :: "shenv \<Rightarrow> share_row list \<Rightarrow> bool" where
  "shares_ok env t \<longleftrightarrow> distinct (map sh_id t) \<and> distinct (map sh_name t) \<and> (\<forall>r\<in>set t. share_ok env r)"

lemma protocols_from_spec:
  "protocols_from seen vs = Some ps \<Longrightarrow> distinct ps \<and> set ps \<subseteq> set supported \<and> set ps \<inter> set seen = {}"
proof (induction vs arbitrary: seen ps)
  case (Cons v vs)
  define p where "p = to_lower (trim v)"
  have sup: "p \<in> set supported" using Cons.prems by (auto simp: p_def Let_def split: if_splits)
  show ?case
  proof (cases "p \<in> set seen")
    case True
    with sup Cons.prems have "protocols_from seen vs = Some ps" by (simp add: p_def)
    then show ?thesis by (rule Cons.IH)
  next
    case False
    with sup Cons.prems obtain qs where "protocols_from (p # seen) vs = Some qs" "ps = p # qs" by (auto simp: p_def Let_def)
    with Cons.IH [of "p # seen" qs] sup False show ?thesis by auto
  qed
qed simp

lemma normalizeProtocols_spec:
  assumes "normalizeProtocols vs = Some ps"
  shows "ps \<noteq> [] \<and> sorted ps \<and> distinct ps \<and> set ps \<subseteq> set supported"
proof -
  obtain qs where qs: "protocols_from [] vs = Some qs" "qs \<noteq> []" "ps = sort qs"
    using assms by (auto simp: normalizeProtocols_def split: option.splits if_splits)
  have "ps \<noteq> []" using qs(2,3) by (metis set_sort set_empty)
  with protocols_from_spec [OF qs(1)] show ?thesis by (simp add: qs(3))
qed

lemma networks_from_spec:
  "networks_from ip6 cidr6 seen vs = Some ns \<Longrightarrow>
    distinct ns \<and> set ns \<inter> set seen = {} \<and> (\<forall>n\<in>set ns. \<exists>v. normalizeClientNetwork ip6 cidr6 v = Some n)"
proof (induction vs arbitrary: seen ns)
  case (Cons v vs)
  show ?case
  proof (cases "trim v = []")
    case True
    with Cons.prems have "networks_from ip6 cidr6 seen vs = Some ns" by simp
    then show ?thesis by (rule Cons.IH)
  next
    case ne: False
    with Cons.prems obtain n where n: "normalizeClientNetwork ip6 cidr6 (trim v) = Some n"
      by (auto simp: Let_def split: option.splits)
    show ?thesis
    proof (cases "n \<in> set seen")
      case True
      with ne n Cons.prems have "networks_from ip6 cidr6 seen vs = Some ns" by simp
      then show ?thesis by (rule Cons.IH)
    next
      case False
      with ne n Cons.prems obtain ms where "networks_from ip6 cidr6 (n # seen) vs = Some ms" "ns = n # ms" by auto
      with Cons.IH [of "n # seen" ms] n False show ?thesis by auto
    qed
  qed
qed simp

lemma put_cases:
  assumes "share_values env req = Some put"
  obtains status ps ns where "validateShareName (trim (sq_name req))" "IsAbs (Clean (trim (sq_path req)))"
    "normalizeProtocols (sq_protocols req) = Some ps"
    "normalizeClientNetworks (se_ip6 env) (se_cidr6 env) (sq_networks req) = Some ns"
    "put = (\<lambda>r. r\<lparr>sh_name := trim (sq_name req), sh_pool := trim (sq_pool req), sh_path := Clean (trim (sq_path req)),
       sh_protocols := Some ps, sh_users := Some (uniqueStrings (sq_users req)), sh_networks := Some ns,
       sh_status := status, sh_updated := Some (se_now env)\<rparr>)"
  using assms by (auto simp: share_values_def Let_def split: if_splits option.splits)

lemma put_ok:
  assumes "share_values env req = Some put"
  shows "share_ok env (put r)" "sh_id (put r) = sh_id r" "sh_name (put r) = trim (sq_name req)"
proof -
  from assms obtain status ps ns where p: "validateShareName (trim (sq_name req))" "IsAbs (Clean (trim (sq_path req)))"
    "normalizeProtocols (sq_protocols req) = Some ps"
    "normalizeClientNetworks (se_ip6 env) (se_cidr6 env) (sq_networks req) = Some ns"
    "put = (\<lambda>r. r\<lparr>sh_name := trim (sq_name req), sh_pool := trim (sq_pool req), sh_path := Clean (trim (sq_path req)),
       sh_protocols := Some ps, sh_users := Some (uniqueStrings (sq_users req)), sh_networks := Some ns,
       sh_status := status, sh_updated := Some (se_now env)\<rparr>)" by (rule put_cases)
  have us: "distinct (uniqueStrings us)" "u \<in> set (uniqueStrings us) \<Longrightarrow> u \<noteq> [] \<and> trim u = u" for us u
    by (auto simp: uniqueStrings_def distinct_unique_from set_unique_from)
  note ns = networks_from_spec [OF p(4) [unfolded normalizeClientNetworks_def]]
  show "share_ok env (put r)"
    using p(1,2) normalizeProtocols_spec [OF p(3)] us ns by (simp add: share_ok_def p(5))
  show "sh_id (put r) = sh_id r" "sh_name (put r) = trim (sq_name req)" by (simp_all add: p(5))
qed

lemma shares_insert:
  assumes "shares_ok env t" "share_ok env r" "insert_row up share_clash r t = Inr t'"
  shows "shares_ok env t'"
  using assms by (auto simp: shares_ok_def insert_row_def share_clash_def split: if_splits)

lemma shares_update:
  assumes ok: "shares_ok env t" and put: "share_values env req = Some put"
    and nc: "\<not> (\<exists>q\<in>set t. sh_id q \<noteq> i \<and> sh_name q = trim (sq_name req))"
  shows "shares_ok env (tbl_upd (\<lambda>r. sh_id r = i) put t)"
proof -
  note p = put_ok [OF put]
  have "distinct (map sh_name (tbl_upd (\<lambda>r. sh_id r = i) put t))"
    using ok nc unfolding shares_ok_def
  proof (induction t)
    case (Cons r t)
    then have IH: "distinct (map sh_name (tbl_upd (\<lambda>r. sh_id r = i) put t))" by (auto simp: shares_ok_def)
    show ?case
    proof (cases "sh_id r = i")
      case True
      then have "i \<notin> sh_id ` set t" using Cons.prems(1) by auto
      then have same: "tbl_upd (\<lambda>r. sh_id r = i) put t = t" by (induction t) auto
      have "trim (sq_name req) \<notin> sh_name ` set t"
      proof
        assume "trim (sq_name req) \<in> sh_name ` set t"
        then obtain x where "x \<in> set t" "sh_name x = trim (sq_name req)" by auto
        with Cons.prems(2) have "sh_id x = i" by auto
        with \<open>i \<notin> sh_id ` set t\<close> \<open>x \<in> set t\<close> show False by blast
      qed
      with True same Cons.prems(1) p(3) show ?thesis by simp
    next
      case False
      have "sh_name r \<notin> sh_name ` set (tbl_upd (\<lambda>r. sh_id r = i) put t)"
      proof
        assume "sh_name r \<in> sh_name ` set (tbl_upd (\<lambda>r. sh_id r = i) put t)"
        then obtain x where "x \<in> set t" "sh_name r = sh_name x \<or> sh_name r = trim (sq_name req)"
          by (auto simp: set_tbl_upd p(3))
        with Cons.prems False show False by auto
      qed
      with False IH show ?thesis by simp
    qed
  qed simp
  moreover have "distinct (map sh_id (tbl_upd (\<lambda>r. sh_id r = i) put t))"
    using ok p(2) by (simp add: shares_ok_def keys_tbl_upd)
  moreover have "\<forall>r\<in>set (tbl_upd (\<lambda>r. sh_id r = i) put t). share_ok env r"
    using ok p(1) by (auto simp: shares_ok_def set_tbl_upd)
  ultimately show ?thesis by (simp add: shares_ok_def)
qed

lemma shares_upsert:
  assumes "shares_ok env (sw_shares w)" "UpsertShare env i req w = (r, w')"
  shows "shares_ok env (sw_shares w')"
proof (cases "share_values env req")
  case (Some put)
  have "shares_ok env (tbl_upd (\<lambda>r. sh_id r = trim i) put (sw_shares w))"
    if "\<not> (\<exists>q\<in>set (sw_shares w). sh_id q \<noteq> trim i \<and> sh_name q = trim (sq_name req))"
    by (rule shares_update [OF assms(1) Some that])
  with assms Some shares_insert [OF assms(1) put_ok(1) [OF Some]] show ?thesis
    by (auto simp: UpsertShare_def Let_def split: if_splits sum.splits)
qed (use assms in \<open>simp add: UpsertShare_def\<close>)

text \<open>The requests that change shares; the environment may differ from one to the next.\<close>

datatype share_op = ShareCreate shenv "share_req option" | ShareUpdate shenv string "share_req option" | ShareDelete shenv string

fun op_env :: "share_op \<Rightarrow> shenv" where
  "op_env (ShareCreate env b) = env"
| "op_env (ShareUpdate env i b) = env"
| "op_env (ShareDelete env i) = env"

fun share_serve :: "share_op \<Rightarrow> shworld \<Rightarrow> shworld" where
  "share_serve (ShareCreate env b) w = snd (share_HandleCreate env b w)"
| "share_serve (ShareUpdate env i b) w = snd (share_HandleUpdate env i b w)"
| "share_serve (ShareDelete env i) w = snd (share_HandleDelete env i w)"

lemma shares_audit [simp]: "sw_shares (share_audit e a ok t i w) = sw_shares w"
  by (simp add: share_audit_def)

lemma share_ok_env:
  "se_ip6 e = se_ip6 env \<Longrightarrow> se_cidr6 e = se_cidr6 env \<Longrightarrow> shares_ok e t = shares_ok env t"
  unfolding shares_ok_def share_ok_def by (simp only:)

lemma shares_serve:
  assumes "shares_ok (op_env q) (sw_shares w)"
  shows "shares_ok (op_env q) (sw_shares (share_serve q w))"
proof (cases q)
  case (ShareCreate env b)
  with assms shares_upsert [of env w "[]"] show ?thesis
    by (auto simp: share_HandleCreate_def split: option.splits prod.splits sum.splits)
next
  case (ShareUpdate env i b)
  with assms shares_upsert [of env w i] show ?thesis
    by (auto simp: share_HandleUpdate_def split: option.splits prod.splits sum.splits)
next
  case (ShareDelete env i)
  with assms show ?thesis
    by (auto simp: share_HandleDelete_def DeleteShare_def shares_ok_def tbl_del_def distinct_map_filter split: if_splits)
qed

text \<open>
  C29: Every stored share is normal.  From an empty table, whatever requests come and whichever
  statements fail, ids and names of the shares are unique, each name is valid, each path absolute and
  clean, the protocols are a sorted non-empty set of supported ones, the users are distinct trimmed
  ids, and the networks are distinct normal forms.
\<close>

theorem shares_stay_normal:
  assumes "sw_shares w = []" "\<forall>q\<in>set qs. se_ip6 (op_env q) = se_ip6 env \<and> se_cidr6 (op_env q) = se_cidr6 env"
  shows "shares_ok env (sw_shares (fold share_serve qs w))"
proof -
  have "shares_ok env (sw_shares v) \<Longrightarrow> \<forall>q\<in>set qs. se_ip6 (op_env q) = se_ip6 env \<and> se_cidr6 (op_env q) = se_cidr6 env \<Longrightarrow>
      shares_ok env (sw_shares (fold share_serve qs v))" for v
  proof (induction qs arbitrary: v)
    case (Cons q qs)
    from Cons.prems have "shares_ok (op_env q) (sw_shares v)" using share_ok_env [of "op_env q" env] by simp
    then have "shares_ok env (sw_shares (share_serve q v))"
      using shares_serve share_ok_env [of "op_env q" env] Cons.prems(2) by auto
    with Cons show ?case by simp
  qed simp
  from this [of w] assms show ?thesis by (simp add: shares_ok_def)
qed

section \<open>What the summary counts\<close>

lemma fold_counts: "distinct ps \<Longrightarrow> fold (\<lambda>p c. c(p := Suc (c p))) ps c q = c q + (if q \<in> set ps then 1 else 0)"
  by (induction ps arbitrary: c) auto

lemma counts_rows:
  assumes "\<forall>s\<in>set ss. distinct (share_protocols s)"
  shows "fold count_share ss c q =
    c q + length (filter (\<lambda>s. sh_status (row_of s) = ShareEnabled \<and> q \<in> set (share_protocols s)) ss)"
  using assms
proof (induction ss arbitrary: c)
  case (Cons s ss)
  then show ?case by (simp add: fold_counts)
qed simp

lemma hydrate_all_rows:
  "hydrate_all env w rows = Inr ss \<Longrightarrow>
    map row_of ss = rows \<and> (\<forall>s\<in>set ss. sh_protocols (row_of s) = Some (share_protocols s))"
  by (induction rows arbitrary: ss) (auto simp: hydrateShare_def split: sum.splits option.splits)

lemma length_filter_row: "length (filter (\<lambda>s. P (row_of s)) ss) = length (filter P (map row_of ss))"
  by (simp add: filter_map comp_def)

lemma length_filter_order: "length (filter P (order_desc k t)) = length (filter P t)"
  by (simp add: order_desc_def filter_sort)

text \<open>
  The summary counts shares.  Over normal shares and with the protocol services answering, each
  entry of the summary counts the enabled shares that offer its protocol, each once.
\<close>

theorem summary_counts_enabled_shares:
  assumes "shares_ok env (sw_shares w)" "HandleSummary env host fwd w = Reply c items" "s \<in> set items"
  shows "pv_count s = card {r \<in> set (sw_shares w). sh_status r = ShareEnabled \<and>
    (case sh_protocols r of None \<Rightarrow> False | Some ps \<Rightarrow> pv_protocol s \<in> set ps)}"
proof -
  let ?P = "\<lambda>r. sh_status r = ShareEnabled \<and> (case sh_protocols r of None \<Rightarrow> False | Some ps \<Rightarrow> pv_protocol s \<in> set ps)"
  obtain ss where ss: "ListShares env w = Inr ss"
    "items = map (\<lambda>spec. service_of env (requestHost host fwd) spec (enabledProtocolCounts ss (ps_protocol spec))) protocolServiceSpecs"
    using assms(2) by (auto simp: HandleSummary_def ListProtocolServices_def split: sum.splits)
  then have h: "hydrate_all env w (order_desc sh_created (sw_shares w)) = Inr ss"
    by (auto simp: ListShares_def sel_all_def split: if_splits)
  note rows = hydrate_all_rows [OF h]
  have d: "\<forall>s\<in>set ss. distinct (share_protocols s)"
  proof
    fix s assume "s \<in> set ss"
    then have "row_of s \<in> set (sw_shares w)" using rows by (metis image_eqI set_map set_order_desc)
    then have "share_ok env (row_of s)" using assms(1) by (simp add: shares_ok_def)
    then show "distinct (share_protocols s)" using rows \<open>s \<in> set ss\<close> by (auto simp: share_ok_def)
  qed
  have "pv_count s = enabledProtocolCounts ss (pv_protocol s)"
    using assms(3) ss(2) by (auto simp: service_of_def Let_def)
  also have "\<dots> = length (filter (\<lambda>s'. sh_status (row_of s') = ShareEnabled \<and> pv_protocol s \<in> set (share_protocols s')) ss)"
    by (simp add: enabledProtocolCounts_def counts_rows [OF d])
  also have "\<dots> = length (filter (\<lambda>s. ?P (row_of s)) ss)"
    using rows by (intro arg_cong [where f = length] filter_cong) auto
  also have "\<dots> = length (filter ?P (sw_shares w))"
    using length_filter_row [of ?P ss] rows length_filter_order [of ?P sh_created "sw_shares w"] by metis
  also have "\<dots> = card (set (filter ?P (sw_shares w)))"
    using assms(1) by (intro distinct_card [symmetric] distinct_filter) (simp add: shares_ok_def distinct_map)
  finally show ?thesis by simp
qed

section \<open>Deleted users\<close>

lemma ListByIDs_missing:
  "i \<in> set is \<Longrightarrow> trim i \<notin> us_id ` set (u_users u) \<Longrightarrow> \<exists>e. ListByIDs env is u = Inl e"
proof (induction "is")
  case (Cons j js)
  have "\<exists>e. users_Get env UGet i u = Inl e"
    using Cons.prems(2) by (auto simp: users_Get_def sel_one_def tbl_get_None [THEN iffD2] split: option.splits sum.splits)
  with Cons show ?case by (auto split: sum.splits)
qed simp

text \<open>
  A deleted user hides the others.  Once a user that a share lists is deleted, the share is shown
  with no users at all, also those that still exist: the ids stay, and the list of users is empty as
  soon as one of them is not found.
\<close>

theorem deleted_user_empties_share:
  assumes "users_HandleDelete uenv a i (sw_users w) = (Reply n k, u')" "sh_users r = Some is" "k \<in> set is" "trim k = k"
    "hydrateShare env (w\<lparr>sw_users := u'\<rparr>) r = Inr s"
  shows "share_user_ids s = is \<and> share_users s = []"
proof -
  from deleted_rows [OF assms(1)] have "k \<notin> us_id ` set (u_users u')" by auto
  with ListByIDs_missing [OF assms(3), of u' "se_uenv env"] assms(4)
  obtain e where "ListByIDs (se_uenv env) is u' = Inl e" by auto
  with assms(2,5) show ?thesis by (auto simp: hydrateShare_def shareUsers_def split: option.splits)
qed

end
