(* ===== verification/Sharing_Witnesses.thy ===== *)
theory Sharing_Witnesses
  imports Sharing_Props Users_Witnesses
begin

text \<open>The properties of shares at a concrete state.\<close>

definition demo_share :: share_row where
  "demo_share = \<lparr>sh_id = ''a'', sh_name = ''media'', sh_pool = [], sh_path = ''/m'', sh_protocols = Some [''nfs'', ''smb''],
     sh_users = Some [''u'', ''v''], sh_networks = Some [], sh_status = ShareEnabled, sh_created = 0, sh_updated = None\<rparr>"

definition demo_shares :: shworld where
  "demo_shares = \<lparr>sw_shares = [demo_share], sw_users = demo_two, sw_audit = []\<rparr>"

definition demo_shenv :: shenv where
  "demo_shenv = \<lparr>se_now = 0, se_newid = ''n'', se_up = (\<lambda>_. True), se_uenv = demo_uenv, se_ip6 = (\<lambda>_. None),
     se_cidr6 = (\<lambda>_ _. None), se_active = (\<lambda>_. (True, ''active'', [])), se_ctl = (\<lambda>_ _. True)\<rparr>"

definition demo_share_req :: share_req where
  "demo_share_req = \<lparr>sq_name = ''media'', sq_pool = [], sq_path = ''/m//x/'', sq_status = [], sq_enabled = None,
     sq_protocols = [''SMB'', ''nfs'', '' smb''], sq_users = [''u'', ''u''], sq_networks = [''10.1.2.3/8'']\<rparr>"

theorem shares_stay_normal_witness:
  "shares_ok demo_shenv (sw_shares (fold share_serve [ShareCreate demo_shenv (Some demo_share_req)] (demo_shares\<lparr>sw_shares := []\<rparr>))) \<and>
   map sh_path (sw_shares (fold share_serve [ShareCreate demo_shenv (Some demo_share_req)] (demo_shares\<lparr>sw_shares := []\<rparr>))) = [''/m/x'']"
proof
  show "shares_ok demo_shenv (sw_shares (fold share_serve [ShareCreate demo_shenv (Some demo_share_req)] (demo_shares\<lparr>sw_shares := []\<rparr>)))"
    by (rule shares_stay_normal) simp_all
  show "map sh_path (sw_shares (fold share_serve [ShareCreate demo_shenv (Some demo_share_req)] (demo_shares\<lparr>sw_shares := []\<rparr>))) = [''/m/x'']"
    by code_simp
qed

lemma demo_share_ok: "shares_ok demo_shenv (sw_shares demo_shares)"
proof -
  have "validateShareName ''media''" "IsAbs ''/m''" "Clean ''/m'' = ''/m''" by code_simp+
  moreover have "sorted [''nfs'', ''smb'']" "set [''nfs'', ''smb''] \<subseteq> set supported" by code_simp+
  moreover have "trim ''v'' = ''v''" by code_simp
  ultimately show ?thesis
    by (simp add: shares_ok_def share_ok_def demo_shares_def demo_share_def trim_u)
qed

theorem summary_counts_enabled_shares_witness:
  "\<exists>items s. HandleSummary demo_shenv ''nas:80'' [] demo_shares = Reply 200 items \<and> s \<in> set items \<and>
     pv_count s = card {r \<in> set (sw_shares demo_shares). sh_status r = ShareEnabled \<and>
       (case sh_protocols r of None \<Rightarrow> False | Some ps \<Rightarrow> pv_protocol s \<in> set ps)}"
proof -
  obtain items where items: "HandleSummary demo_shenv ''nas:80'' [] demo_shares = Reply 200 items" "items \<noteq> []"
  proof -
    have "case HandleSummary demo_shenv ''nas:80'' [] demo_shares of Reply c l \<Rightarrow> c = 200 \<and> l \<noteq> [] | Fail _ _ \<Rightarrow> False"
      by code_simp
    then show ?thesis using that by (auto split: resp.splits)
  qed
  then have "hd items \<in> set items" by simp
  with items(1) summary_counts_enabled_shares [OF demo_share_ok items(1) this] show ?thesis by blast
qed

theorem deleted_user_empties_share_witness:
  "\<exists>u' s. users_HandleDelete demo_uenv (Some root_actor) ''u'' (sw_users demo_shares) = (Reply 200 ''u'', u') \<and>
     hydrateShare demo_shenv (demo_shares\<lparr>sw_users := u'\<rparr>) demo_share = Inr s \<and>
     share_user_ids s = [''u'', ''v''] \<and> share_users s = []"
proof -
  obtain u' where u': "users_HandleDelete demo_uenv (Some root_actor) ''u'' (sw_users demo_shares) = (Reply 200 ''u'', u')"
    using demo_deleted by (auto simp: demo_shares_def)
  obtain s where s: "hydrateShare demo_shenv (demo_shares\<lparr>sw_users := u'\<rparr>) demo_share = Inr s"
    by (simp add: hydrateShare_def demo_share_def)
  have us: "sh_users demo_share = Some [''u'', ''v'']" by (simp add: demo_share_def)
  from deleted_user_empties_share [OF u' us _ trim_u s] u' s show ?thesis by auto
qed

end
