(* ===== verification/Uploads.thy ===== *)
theory Uploads
  imports File_Ops Jobs Passwords
begin

text \<open>
  Resumable uploads: internal/files/uploads.go, the tus protocol over temporary files.

  The world holds the file system with the temporary and the target files, the metadata files (by
  the location of the file, with the record their JSON encodes), the tables and the job queue, and
  the uploads whose patch lock is held.  A \<open>PATCH\<close> request loads the metadata before it takes the
  lock, so it is a read and an act, and \<open>HandleTusPatch\<close> is their composition.  The environment
  holds what the process reads of its surroundings, and for each call of the operating system whether
  it works and whether it is refused for permission (then the code falls back on \<open>sudo\<close>).
\<close>

record tus_meta =
  tm_id :: string
  tm_pool :: string
  tm_parent :: string
  tm_rel :: string
  tm_name :: string
  tm_type :: string
  tm_dir :: string
  tm_length :: int
  tm_offset :: int
  tm_created :: int
  tm_updated :: int
  tm_raw :: "string \<rightharpoonup> string"

record upworld =
  up_fs :: fsys
  up_metas :: "loc \<rightharpoonup> tus_meta"
  up_jobs :: jworld
  up_locked :: "string list"

datatype upcall =
    PMetaRoot | PTempRoot | PSudoTempRoot | PChmodRoot | PCreate | PTouch | PChmod | PReopen | PSaveMeta
  | PTargetDir | PSudoTargetDir | PRemove loc | PSudoRemove loc | PSeek | PSudoMv | PSudoCp

record upenv =
  p_now :: int
  p_id :: string
  p_metadir :: string
  p_clouddir :: string
  p_tmp :: string
  p_ok :: "upcall \<Rightarrow> bool"
  p_denied :: "upcall \<Rightarrow> bool"
  p_cross :: bool
  p_storage :: bool
  p_pool :: bool
  p_fs :: oenv
  p_jobs :: jenv

record tus_request =
  tq_version :: string
  tq_length :: string
  tq_meta :: string
  tq_ctype :: string
  tq_offset :: string
  tq_body :: string
  tq_broken :: bool
  tq_tls :: bool
  tq_proto :: string
  tq_host :: string
  tq_fhost :: string

section \<open>Requests\<close>

definition tusVersion :: string where "tusVersion = ''1.0.0''"
definition tusEndpointBase :: string where "tusEndpointBase = ''/api/v1/uploads/tus''"
definition defaultCloudUploadRoot :: string where "defaultCloudUploadRoot = ''/srv/yesnas/cache/uploads''"

definition validateTusRequest :: "tus_request \<Rightarrow> bool" where
  "validateTusRequest r \<longleftrightarrow> trim (tq_version r) = tusVersion"

definition parseUploadLength :: "string \<Rightarrow> int option" where
  "parseUploadLength raw = (case Atoi (trim raw) of None \<Rightarrow> None | Some v \<Rightarrow> if v < 0 then None else Some v)"

fun metadata_pairs :: "string list \<Rightarrow> (string \<rightharpoonup> string) \<Rightarrow> (string \<rightharpoonup> string) option" where
  "metadata_pairs [] result = Some result"
| "metadata_pairs (pair0 # pairs) result =
     (let pair = trim pair0 in
      if pair = [] then metadata_pairs pairs result
      else
        (let key = trim (takeWhile (\<lambda>c. c \<noteq> CHR '' '') pair); rest = dropWhile (\<lambda>c. c \<noteq> CHR '' '') pair in
         if key = [] then None
         else if rest = [] then metadata_pairs pairs (result(key \<mapsto> []))
         else (case b64_dec std_alphabet True (trim (tl rest)) of
                 None \<Rightarrow> None
               | Some decoded \<Rightarrow> metadata_pairs pairs (result(key \<mapsto> decoded)))))"

definition parseTusMetadata :: "string \<Rightarrow> (string \<rightharpoonup> string) option" where
  "parseTusMetadata header0 =
     (let header = trim header0 in
      if header = [] then Some Map.empty else metadata_pairs (split_on (CHR '','') header) Map.empty)"

fun first_non_empty :: "string list \<Rightarrow> string" where
  "first_non_empty [] = []"
| "first_non_empty (v # vs) = (if trim v \<noteq> [] then trim v else first_non_empty vs)"

definition raw_get :: "(string \<rightharpoonup> string) \<Rightarrow> string \<Rightarrow> string" where
  "raw_get m k = (case m k of None \<Rightarrow> [] | Some v \<Rightarrow> v)"

definition buildTusUploadMeta :: "upenv \<Rightarrow> int \<Rightarrow> (string \<rightharpoonup> string) \<Rightarrow> tus_meta option" where
  "buildTusUploadMeta env len raw =
     (let fileName = trim (first_non_empty [raw_get raw ''filename'', raw_get raw ''name'']) in
      if fileName = [] then None
      else if fileName \<noteq> Base fileName then None
      else
        (let pool = trim (raw_get raw ''storagePoolId'') in
         if pool = [] then None
         else Some \<lparr>tm_id = p_id env, tm_pool = pool, tm_parent = trim (raw_get raw ''parentId''),
                tm_rel = trim (raw_get raw ''relativePath''), tm_name = fileName,
                tm_type = trim (first_non_empty [raw_get raw ''filetype'', raw_get raw ''type'']),
                tm_dir = [], tm_length = len, tm_offset = 0, tm_created = p_now env, tm_updated = p_now env,
                tm_raw = raw\<rparr>))"

definition tusUploadURL :: "tus_request \<Rightarrow> string \<Rightarrow> string" where
  "tusUploadURL r i =
     (let scheme0 = (if tq_tls r then ''https'' else ''http'');
          scheme = (if trim (tq_proto r) \<noteq> [] then trim (tq_proto r) else scheme0);
          host = (if trim (tq_fhost r) \<noteq> [] then trim (tq_fhost r) else tq_host r) in
      scheme @ ''://'' @ host @ tusEndpointBase @ ''/'' @ i)"

section \<open>Places\<close>

definition uploadMetaRootPath :: "upenv \<Rightarrow> string" where
  "uploadMetaRootPath env =
     (if trim (p_metadir env) \<noteq> [] then trim (p_metadir env) else Join [p_tmp env, ''yesnas-upload-meta''])"

definition cloudUploadRootPath :: "upenv \<Rightarrow> string" where
  "cloudUploadRootPath env =
     (if trim (p_clouddir env) \<noteq> [] then trim (p_clouddir env) else defaultCloudUploadRoot)"

definition storageUploadRootPath :: "upenv \<Rightarrow> storage \<Rightarrow> string" where
  "storageUploadRootPath env record =
     (if st_type record = Cloud then Join [cloudUploadRootPath env, st_id record]
      else Join [st_mount record, ''.uploads''])"

definition tusTempFilePath :: "tus_meta \<Rightarrow> string" where
  "tusTempFilePath m = Join [tm_dir m, tm_id m @ ''.bin'']"

definition tusMetaFilePath :: "upenv \<Rightarrow> string \<Rightarrow> string" where
  "tusMetaFilePath env i = Join [uploadMetaRootPath env, i @ ''.json'']"

definition resolveUploadStorage :: "upenv \<Rightarrow> string \<Rightarrow> jworld \<Rightarrow> storage option" where
  "resolveUploadStorage env sid0 w =
     (let sid = trim sid0 in
      if sid = [] then None
      else (case storage_Get (p_storage env) sid (w_storages w) of
              Inr record \<Rightarrow> Some record
            | Inl _ \<Rightarrow>
                (case pool_Get (p_pool env) sid (w_pools w) of
                   Inr pool \<Rightarrow>
                     if trim (sp_storage pool) \<noteq> [] then
                       (case storage_Get (p_storage env) (trim (sp_storage pool)) (w_storages w) of
                          Inr record \<Rightarrow> Some record | Inl _ \<Rightarrow> None)
                     else None
                 | Inl _ \<Rightarrow> None)))"

section \<open>Metadata files\<close>

definition saveTusUploadMeta :: "upenv \<Rightarrow> tus_meta \<Rightarrow> upworld \<Rightarrow> bool \<times> upworld" where
  "saveTusUploadMeta env m w =
     (if p_ok env PSaveMeta then (True, w\<lparr>up_metas := (up_metas w)(segs (tusMetaFilePath env (tm_id m)) \<mapsto> m)\<rparr>)
      else (False, w))"

definition loadTusUploadMeta :: "upenv \<Rightarrow> string \<Rightarrow> upworld \<Rightarrow> tus_meta option" where
  "loadTusUploadMeta env i w = (if i = [] then None else up_metas w (segs (tusMetaFilePath env i)))"

section \<open>Files\<close>

text \<open>\<open>os.MkdirAll\<close> with the fall back on \<open>sudo mkdir -p\<close>.\<close>

definition make_all :: "upenv \<Rightarrow> upcall \<Rightarrow> upcall \<Rightarrow> string \<Rightarrow> fsys \<Rightarrow> bool \<times> fsys" where
  "make_all env direct sudo p fs =
     (let ls = map (\<lambda>n. take n (segs p)) [1..<Suc (length (segs p))] in
      if p_denied env direct then (if p_ok env sudo then mkdirs ls fs else (False, fs))
      else if p_ok env direct then mkdirs ls fs
      else (False, fs))"

definition createFolderAll :: "upenv \<Rightarrow> string \<Rightarrow> fsys \<Rightarrow> bool \<times> fsys" where
  "createFolderAll env p fs = make_all env PTargetDir PSudoTargetDir p fs"

definition ensureStorageUploadRoot :: "upenv \<Rightarrow> string \<Rightarrow> fsys \<Rightarrow> bool \<times> fsys" where
  "ensureStorageUploadRoot env p fs =
     (case make_all env PTempRoot PSudoTempRoot p fs of
        (False, fs') \<Rightarrow> (False, fs')
      | (True, fs') \<Rightarrow> (\<not> p_denied env PTempRoot \<or> p_ok env PChmodRoot, fs'))"

text \<open>\<open>os.OpenFile\<close> with \<open>O_CREATE\<close>; \<open>trunc\<close> empties the file.\<close>

definition can_open :: "loc \<Rightarrow> fsys \<Rightarrow> bool" where
  "can_open l fs \<longleftrightarrow> l \<noteq> [] \<and> is_dir fs (parent l) \<and> fs l \<noteq> Some DirN"

definition opened :: "bool \<Rightarrow> loc \<Rightarrow> fsys \<Rightarrow> fsys" where
  "opened trunc l fs =
     (case fs l of Some (FileN c) \<Rightarrow> if trunc then fs(l \<mapsto> FileN []) else fs | _ \<Rightarrow> fs(l \<mapsto> FileN []))"

definition open_file :: "upenv \<Rightarrow> bool \<Rightarrow> string \<Rightarrow> fsys \<Rightarrow> bool \<times> fsys" where
  "open_file env trunc p fs =
     (let l = segs p in
      if \<not> can_open l fs then (False, fs)
      else if p_denied env PCreate then
        (if \<not> p_ok env PTouch then (False, fs)
         else if \<not> p_ok env PChmod then (False, opened False l fs)
         else if \<not> p_ok env PReopen then (False, opened False l fs)
         else (True, opened trunc l fs))
      else if p_ok env PCreate then (True, opened trunc l fs)
      else (False, fs))"

definition openTusTempFile :: "upenv \<Rightarrow> string \<Rightarrow> fsys \<Rightarrow> bool \<times> fsys" where
  "openTusTempFile env p fs = open_file env True p fs"

definition openTusTempFileForPatch :: "upenv \<Rightarrow> tus_meta \<Rightarrow> fsys \<Rightarrow> bool \<times> fsys" where
  "openTusTempFileForPatch env m fs =
     (case ensureStorageUploadRoot env (tm_dir m) fs of
        (False, fs1) \<Rightarrow> (False, fs1)
      | (True, fs1) \<Rightarrow> open_file env False (tusTempFilePath m) fs1)"

text \<open>Writing at an offset: a gap reads as zeros, what lies behind stays.\<close>

definition write_at :: "nat \<Rightarrow> string \<Rightarrow> string \<Rightarrow> string" where
  "write_at off d c = take off (c @ replicate (off - length c) (CHR 0x00)) @ d @ drop (off + length d) c"

definition write_file :: "loc \<Rightarrow> nat \<Rightarrow> string \<Rightarrow> fsys \<Rightarrow> fsys" where
  "write_file l off d fs = (case fs l of Some (FileN c) \<Rightarrow> fs(l \<mapsto> FileN (write_at off d c)) | _ \<Rightarrow> fs)"

text \<open>\<open>removeFileWithFallback\<close>: removed, not there, or an error.\<close>

datatype removal = Gone | Missing | Refused

definition removeFileWithFallback :: "upenv \<Rightarrow> loc \<Rightarrow> bool \<Rightarrow> removal" where
  "removeFileWithFallback env l there =
     (if \<not> there then Missing
      else if p_denied env (PRemove l) then (if p_ok env (PSudoRemove l) then Gone else Refused)
      else if p_ok env (PRemove l) then Gone
      else Refused)"

definition is_file :: "fsys \<Rightarrow> loc \<Rightarrow> bool" where
  "is_file fs l \<longleftrightarrow> (case fs l of Some (FileN _) \<Rightarrow> True | _ \<Rightarrow> False)"

definition remove_temp :: "upenv \<Rightarrow> string \<Rightarrow> upworld \<Rightarrow> removal \<times> upworld" where
  "remove_temp env p w =
     (let l = segs p; r = removeFileWithFallback env l (is_file (up_fs w) l) in
      (r, if r = Gone then w\<lparr>up_fs := (up_fs w)(l := None)\<rparr> else w))"

definition cleanupTusUploadMetaOnly :: "upenv \<Rightarrow> tus_meta \<Rightarrow> upworld \<Rightarrow> removal \<times> upworld" where
  "cleanupTusUploadMetaOnly env m w =
     (let l = segs (tusMetaFilePath env (tm_id m)); r = removeFileWithFallback env l (up_metas w l \<noteq> None) in
      (r, if r = Gone then w\<lparr>up_metas := (up_metas w)(l := None)\<rparr> else w))"

definition cleanupTusUpload :: "upenv \<Rightarrow> tus_meta \<Rightarrow> upworld \<Rightarrow> bool \<times> upworld" where
  "cleanupTusUpload env m w =
     (case remove_temp env (tusTempFilePath m) w of
        (r1, w1) \<Rightarrow> (case cleanupTusUploadMetaOnly env m w1 of (r2, w2) \<Rightarrow> (r1 \<noteq> Refused \<and> r2 \<noteq> Refused, w2)))"

text \<open>Moving the finished file: rename, else \<open>sudo mv\<close> when refused, else \<open>sudo cp\<close> and remove.\<close>

definition persistUploadedFile :: "upenv \<Rightarrow> string \<Rightarrow> string \<Rightarrow> upworld \<Rightarrow> bool \<times> upworld" where
  "persistUploadedFile env src dst w =
     (let copy = (\<lambda>w. if \<not> p_ok env PSudoCp then (False, w)
            else (case sudo_cp (p_fs env) src dst (up_fs w) of
                    (False, fs') \<Rightarrow> (False, w\<lparr>up_fs := fs'\<rparr>)
                  | (True, fs') \<Rightarrow> (case remove_temp env src (w\<lparr>up_fs := fs'\<rparr>) of (r, w') \<Rightarrow> (r \<noteq> Refused, w')))) in
      case os_rename (p_fs env) src dst (up_fs w) of
        Inr fs' \<Rightarrow> (True, w\<lparr>up_fs := fs'\<rparr>)
      | Inl Denied \<Rightarrow>
          if p_cross env then copy w
          else (case sudo_mv (p_fs env) src dst (up_fs w) of
                  (True, fs') \<Rightarrow> (True, w\<lparr>up_fs := fs'\<rparr>)
                | (False, fs') \<Rightarrow> copy (w\<lparr>up_fs := fs'\<rparr>))
      | Inl _ \<Rightarrow> (False, w))"

section \<open>Finishing an upload\<close>

definition buildTusTargetPath :: "string \<Rightarrow> string \<Rightarrow> tus_meta \<Rightarrow> string option" where
  "buildTusTargetPath root par m =
     (let rel = trim (tm_rel m) in
      if rel \<noteq> [] then
        (let cleanRel = Clean rel in
         if cleanRel = ''.'' \<or> cleanRel = [] \<or> IsAbs cleanRel then None
         else (let t = Join [par, cleanRel] in if \<not> isPathWithinRoot root t then None else Some t))
      else (let t = Join [par, tm_name m] in if \<not> isPathWithinRoot root t then None else Some t))"

definition upload_target :: "upenv \<Rightarrow> tus_meta \<Rightarrow> jworld \<Rightarrow> (storage \<times> string) option" where
  "upload_target env m w =
     (case resolveUploadStorage env (tm_pool m) w of
        None \<Rightarrow> None
      | Some record \<Rightarrow>
          (case (if tm_parent m \<noteq> [] then decodeFileID (tm_parent m) else Some (Clean (st_mount record))) of
             None \<Rightarrow> None
           | Some par \<Rightarrow>
               if \<not> isPathWithinRoot (st_mount record) par then None
               else map_option (Pair record) (buildTusTargetPath (st_mount record) par m)))"

definition finalizeTusUpload :: "upenv \<Rightarrow> tus_meta \<Rightarrow> upworld \<Rightarrow> bool \<times> upworld" where
  "finalizeTusUpload env m w =
     (case upload_target env m (up_jobs w) of
        None \<Rightarrow> (False, w)
      | Some (record, target) \<Rightarrow>
          if st_type record = Cloud then
            (case EnqueueCloudSync (p_jobs env) (tm_pool m)
                    \<lparr>cp_local = tusTempFilePath m, cp_target = target, cp_ctype = tm_type m, cp_file = tm_name m\<rparr> (up_jobs w) of
               Inl _ \<Rightarrow> (False, w)
             | Inr (_, jw) \<Rightarrow> (True, w\<lparr>up_jobs := jw\<rparr>))
          else
            (case createFolderAll env (Dir target) (up_fs w) of
               (False, fs1) \<Rightarrow> (False, w\<lparr>up_fs := fs1\<rparr>)
             | (True, fs1) \<Rightarrow>
                 if os_stat (p_fs env) fs1 target \<noteq> Inl NotExist then (False, w\<lparr>up_fs := fs1\<rparr>)
                 else persistUploadedFile env (tusTempFilePath m) target (w\<lparr>up_fs := fs1\<rparr>)))"

section \<open>Handlers\<close>

definition HandleTusCreate :: "upenv \<Rightarrow> tus_request \<Rightarrow> upworld \<Rightarrow> (string \<times> int) resp \<times> upworld" where
  "HandleTusCreate env r w =
     (if \<not> validateTusRequest r then (Fail 412 [], w)
      else (case parseUploadLength (tq_length r) of
        None \<Rightarrow> (Fail 400 [], w)
      | Some len \<Rightarrow>
          (case parseTusMetadata (tq_meta r) of
             None \<Rightarrow> (Fail 400 [], w)
           | Some raw \<Rightarrow>
               (case buildTusUploadMeta env len raw of
                  None \<Rightarrow> (Fail 400 [], w)
                | Some m0 \<Rightarrow>
                    (case resolveUploadStorage env (tm_pool m0) (up_jobs w) of
                       None \<Rightarrow> (Fail 404 [], w)
                     | Some record \<Rightarrow>
                         (let m = m0\<lparr>tm_dir := storageUploadRootPath env record\<rparr> in
                          if \<not> p_ok env PMetaRoot then (Fail 500 [], w)
                          else (case ensureStorageUploadRoot env (tm_dir m) (up_fs w) of
                            (False, fs1) \<Rightarrow> (Fail 500 [], w\<lparr>up_fs := fs1\<rparr>)
                          | (True, fs1) \<Rightarrow>
                              (case openTusTempFile env (tusTempFilePath m) fs1 of
                                 (False, fs2) \<Rightarrow> (Fail 500 [], w\<lparr>up_fs := fs2\<rparr>)
                               | (True, fs2) \<Rightarrow>
                                   (case saveTusUploadMeta env m (w\<lparr>up_fs := fs2\<rparr>) of
                                      (False, w3) \<Rightarrow> (Fail 500 [], w3)
                                    | (True, w3) \<Rightarrow> (Reply 201 (tusUploadURL r (tm_id m), 0), w3))))))))))"

definition HandleTusHead :: "upenv \<Rightarrow> string \<Rightarrow> tus_request \<Rightarrow> upworld \<Rightarrow> (int \<times> int) resp" where
  "HandleTusHead env i r w =
     (if \<not> validateTusRequest r then Fail 412 []
      else (case loadTusUploadMeta env (trim i) w of
        None \<Rightarrow> Fail 404 []
      | Some m \<Rightarrow> Reply 204 (tm_length m, tm_offset m)))"

text \<open>What a \<open>PATCH\<close> request reads before it takes the lock.\<close>

definition patch_read :: "upenv \<Rightarrow> string \<Rightarrow> tus_request \<Rightarrow> upworld \<Rightarrow> int resp + tus_meta" where
  "patch_read env i r w =
     (if \<not> validateTusRequest r then Inl (Fail 412 [])
      else if trim (tq_ctype r) \<noteq> ''application/offset+octet-stream'' then Inl (Fail 415 [])
      else (case loadTusUploadMeta env (trim i) w of None \<Rightarrow> Inl (Fail 404 []) | Some m \<Rightarrow> Inr m))"

definition patch_finish :: "upenv \<Rightarrow> tus_meta \<Rightarrow> upworld \<Rightarrow> int resp \<times> upworld" where
  "patch_finish env m w =
     (if tm_offset m = tm_length m then
        (case finalizeTusUpload env m w of
           (False, w1) \<Rightarrow> (Fail 500 [], snd (cleanupTusUpload env m w1))
         | (True, w1) \<Rightarrow>
             (case cleanupTusUploadMetaOnly env m w1 of
                (Gone, w2) \<Rightarrow> (Reply 204 (tm_offset m), w2)
              | (_, w2) \<Rightarrow> (Fail 500 [], w2)))
      else (Reply 204 (tm_offset m), w))"

definition patch_act :: "upenv \<Rightarrow> tus_meta \<Rightarrow> tus_request \<Rightarrow> upworld \<Rightarrow> int resp \<times> upworld" where
  "patch_act env m r w =
     (if tm_id m \<in> set (up_locked w) then (Fail 409 [], w)
      else (case Atoi (trim (tq_offset r)) of
        None \<Rightarrow> (Fail 400 [], w)
      | Some off \<Rightarrow>
          if off < 0 then (Fail 400 [], w)
          else if off \<noteq> tm_offset m then (Fail 409 [], w)
          else (case openTusTempFileForPatch env m (up_fs w) of
            (False, fs1) \<Rightarrow> (Fail 500 [], w\<lparr>up_fs := fs1\<rparr>)
          | (True, fs1) \<Rightarrow>
              if \<not> p_ok env PSeek then (Fail 500 [], w\<lparr>up_fs := fs1\<rparr>)
              else
                (let w2 = w\<lparr>up_fs := write_file (segs (tusTempFilePath m)) (nat off) (tq_body r) fs1\<rparr> in
                 if tq_broken r then (Fail 500 [], w2)
                 else
                   (let m' = m\<lparr>tm_offset := tm_offset m + int (length (tq_body r)), tm_updated := p_now env\<rparr> in
                    if tm_offset m' > tm_length m' then (Fail 400 [], w2)
                    else (case saveTusUploadMeta env m' w2 of
                            (False, w3) \<Rightarrow> (Fail 500 [], w3)
                          | (True, w3) \<Rightarrow> patch_finish env m' w3))))))"

definition HandleTusPatch :: "upenv \<Rightarrow> string \<Rightarrow> tus_request \<Rightarrow> upworld \<Rightarrow> int resp \<times> upworld" where
  "HandleTusPatch env i r w =
     (case patch_read env i r w of Inl e \<Rightarrow> (e, w) | Inr m \<Rightarrow> patch_act env m r w)"

definition HandleTusDelete :: "upenv \<Rightarrow> string \<Rightarrow> tus_request \<Rightarrow> upworld \<Rightarrow> unit resp \<times> upworld" where
  "HandleTusDelete env i r w =
     (if \<not> validateTusRequest r then (Fail 412 [], w)
      else (case loadTusUploadMeta env (trim i) w of
        None \<Rightarrow> (Fail 404 [], w)
      | Some m \<Rightarrow>
          (case cleanupTusUpload env m w of
             (False, w1) \<Rightarrow> (Fail 500 [], w1)
           | (True, w1) \<Rightarrow> (Reply 204 (), w1))))"

end
