(* ===== verification/Uploads_Props.thy ===== *)
theory Uploads_Props
  imports Uploads Files_Trash
begin

text \<open>
  What an upload delivers: the chunks in order, byte for byte, when every request carries the offset
  the server reported; and how a rejected chunk, or one read before another finished, spoils it.
\<close>

section \<open>When nothing is refused\<close>

definition calm :: "upenv \<Rightarrow> bool" where
  "calm env \<longleftrightarrow> (\<forall>c. p_ok env c) \<and> (\<forall>c. \<not> p_denied env c) \<and> \<not> o_denied (p_fs env) \<and> (\<forall>c. o_ok (p_fs env) c)"

text \<open>All directories on the way to a path are there.\<close>

definition path_made :: "fsys \<Rightarrow> string \<Rightarrow> bool" where
  "path_made fs p \<longleftrightarrow> (\<forall>l. l \<noteq> [] \<and> prefix l (segs p) \<longrightarrow> fs l = Some DirN)"

lemma mkdirs_made: "\<forall>l\<in>set ls. fs l = Some DirN \<Longrightarrow> mkdirs ls fs = (True, fs)"
  by (induction ls) auto

lemma make_all_made:
  assumes "calm env" "path_made fs p"
  shows "make_all env a b p fs = (True, fs)"
proof -
  have "\<forall>l\<in>set (map (\<lambda>n. take n (segs p)) [1..<Suc (length (segs p))]). fs l = Some DirN"
  proof
    fix l assume "l \<in> set (map (\<lambda>n. take n (segs p)) [1..<Suc (length (segs p))])"
    then obtain n where n: "l = take n (segs p)" "1 \<le> n" "n \<le> length (segs p)" by auto
    then have "l \<noteq> []" "prefix l (segs p)" by (auto simp: take_is_prefix)
    then show "fs l = Some DirN" using assms(2) by (simp add: path_made_def)
  qed
  from mkdirs_made [OF this] assms(1) show ?thesis by (simp add: make_all_def Let_def calm_def)
qed

text \<open>An upload in progress: its metadata is stored, and the temporary file holds \<open>c\<close>.\<close>

definition in_progress :: "upenv \<Rightarrow> tus_meta \<Rightarrow> string \<Rightarrow> upworld \<Rightarrow> bool" where
  "in_progress env m c w \<longleftrightarrow>
     up_metas w (segs (tusMetaFilePath env (tm_id m))) = Some m \<and>
     up_fs w (segs (tusTempFilePath m)) = Some (FileN c) \<and> path_made (up_fs w) (tm_dir m) \<and>
     segs (tusTempFilePath m) \<noteq> [] \<and> is_dir (up_fs w) (parent (segs (tusTempFilePath m))) \<and>
     tm_id m \<notin> set (up_locked w) \<and> trim (tm_id m) = tm_id m \<and> tm_id m \<noteq> []"

definition patch_of :: "tus_request \<Rightarrow> int \<Rightarrow> bool" where
  "patch_of r off \<longleftrightarrow> validateTusRequest r \<and> trim (tq_ctype r) = ''application/offset+octet-stream'' \<and>
     Atoi (trim (tq_offset r)) = Some off \<and> \<not> tq_broken r"

lemma write_at_end: "write_at (length c) d c = c @ d"
  by (simp add: write_at_def)

text \<open>The world once a chunk is written and its offset saved.\<close>

definition moved_on :: "upenv \<Rightarrow> tus_meta \<Rightarrow> int \<Rightarrow> tus_meta" where
  "moved_on env m n = m\<lparr>tm_offset := n, tm_updated := p_now env\<rparr>"

definition wrote :: "upenv \<Rightarrow> tus_meta \<Rightarrow> string \<Rightarrow> int \<Rightarrow> upworld \<Rightarrow> upworld" where
  "wrote env m c' n w =
     w\<lparr>up_fs := (up_fs w)(segs (tusTempFilePath m) \<mapsto> FileN c'),
       up_metas := (up_metas w)(segs (tusMetaFilePath env (tm_id m)) \<mapsto> moved_on env m n)\<rparr>"

lemma moved_on_simps [simp]:
  "tusTempFilePath (moved_on env m n) = tusTempFilePath m" "tm_id (moved_on env m n) = tm_id m"
  "tm_dir (moved_on env m n) = tm_dir m" "tm_length (moved_on env m n) = tm_length m" "tm_offset (moved_on env m n) = n"
  "upload_target env' (moved_on env m n) jw = upload_target env' m jw"
  by (simp_all add: moved_on_def tusTempFilePath_def upload_target_def buildTusTargetPath_def Let_def split: option.split)

lemma moved_opens: "openTusTempFileForPatch env (moved_on env' m n) fs = openTusTempFileForPatch env m fs"
  unfolding openTusTempFileForPatch_def moved_on_simps ..

lemma opens:
  assumes "calm env" "in_progress env m c w"
  shows "openTusTempFileForPatch env m (up_fs w) = (True, up_fs w)" "patch_of r off \<Longrightarrow> patch_read env (tm_id m) r w = Inr m"
proof -
  have "ensureStorageUploadRoot env (tm_dir m) (up_fs w) = (True, up_fs w)"
    using make_all_made [OF assms(1)] assms by (simp add: ensureStorageUploadRoot_def in_progress_def calm_def)
  moreover have "can_open (segs (tusTempFilePath m)) (up_fs w)" using assms(2) by (simp add: can_open_def in_progress_def)
  ultimately show "openTusTempFileForPatch env m (up_fs w) = (True, up_fs w)"
    using assms by (simp add: openTusTempFileForPatch_def open_file_def opened_def calm_def in_progress_def)
  show "patch_of r off \<Longrightarrow> patch_read env (tm_id m) r w = Inr m"
    using assms(2) by (simp add: patch_read_def patch_of_def loadTusUploadMeta_def in_progress_def)
qed

lemma patch_act_writes:
  assumes calm: "calm env" and opens: "openTusTempFileForPatch env m (up_fs w) = (True, up_fs w)"
    and bin: "up_fs w (segs (tusTempFilePath m)) = Some (FileN c)" and free: "tm_id m \<notin> set (up_locked w)"
    and k: "tm_offset m = int k" and r: "patch_of r (int k)" and fits: "int (k + length (tq_body r)) \<le> tm_length m"
  shows "patch_act env m r w =
    patch_finish env (moved_on env m (int (k + length (tq_body r))))
      (wrote env m (write_at k (tq_body r) c) (int (k + length (tq_body r))) w)"
proof -
  have wr: "write_file (segs (tusTempFilePath m)) k d (up_fs w) = (up_fs w)(segs (tusTempFilePath m) \<mapsto> FileN (write_at k d c))" for d
    using bin by (simp add: write_file_def)
  show ?thesis
    using r fits calm k free
    by (simp add: opens patch_act_def patch_of_def wr saveTusUploadMeta_def calm_def wrote_def moved_on_def Let_def)
qed

lemma patch_writes:
  assumes calm: "calm env" and up: "in_progress env m c w" and k: "tm_offset m = int k" and r: "patch_of r (int k)"
    and fits: "int (k + length (tq_body r)) \<le> tm_length m"
  shows "HandleTusPatch env (tm_id m) r w =
    patch_finish env (moved_on env m (int (k + length (tq_body r))))
      (wrote env m (write_at k (tq_body r) c) (int (k + length (tq_body r))) w)"
proof -
  have "up_fs w (segs (tusTempFilePath m)) = Some (FileN c)" "tm_id m \<notin> set (up_locked w)"
    using up by (simp_all add: in_progress_def)
  then show ?thesis
    using patch_act_writes [OF calm opens(1) [OF calm up] _ _ k r fits] opens(2) [OF calm up r]
    by (simp add: HandleTusPatch_def)
qed

lemma path_made_upd: "path_made fs p \<Longrightarrow> fs l \<noteq> Some DirN \<Longrightarrow> path_made (fs(l \<mapsto> x)) p"
  by (auto simp: path_made_def)

lemma is_dir_upd: "is_dir fs q \<Longrightarrow> fs l \<noteq> Some DirN \<Longrightarrow> is_dir (fs(l \<mapsto> x)) q"
  by (auto simp: is_dir_def)

lemma progress_kept:
  assumes "in_progress env m c w"
  shows "in_progress env (moved_on env m n) c' (wrote env m c' n w)"
proof -
  let ?l = "segs (tusTempFilePath m)"
  have "path_made ((up_fs w)(?l \<mapsto> FileN c')) (tm_dir m)"
    by (rule path_made_upd) (use assms in \<open>simp_all add: in_progress_def\<close>)
  moreover have "is_dir ((up_fs w)(?l \<mapsto> FileN c')) (parent ?l)"
    by (rule is_dir_upd) (use assms in \<open>simp_all add: in_progress_def\<close>)
  ultimately show ?thesis using assms by (simp add: in_progress_def wrote_def)
qed

section \<open>From the first chunk to the file\<close>

text \<open>The requests of one upload, each with the offset the ones before it reached.\<close>

fun chunks_from :: "int \<Rightarrow> tus_request list \<Rightarrow> bool" where
  "chunks_from off [] \<longleftrightarrow> True"
| "chunks_from off (r # rs) \<longleftrightarrow> patch_of r off \<and> chunks_from (off + int (length (tq_body r))) rs"

fun send_all :: "upenv \<Rightarrow> string \<Rightarrow> tus_request list \<Rightarrow> upworld \<Rightarrow> int resp list \<times> upworld" where
  "send_all env i [] w = ([], w)"
| "send_all env i (r # rs) w =
     (let (x, w1) = HandleTusPatch env i r w; (xs, w2) = send_all env i rs w1 in (x # xs, w2))"

text \<open>The place where the file goes: local, in a directory that is there, and free.\<close>

definition free_target :: "upenv \<Rightarrow> tus_meta \<Rightarrow> string \<Rightarrow> upworld \<Rightarrow> bool" where
  "free_target env m target w \<longleftrightarrow>
     (\<exists>record. upload_target env m (up_jobs w) = Some (record, target) \<and> st_type record \<noteq> Cloud) \<and>
     path_made (up_fs w) (Dir target) \<and> segs target \<noteq> [] \<and> is_dir (up_fs w) (parent (segs target)) \<and>
     up_fs w (segs target) = None \<and> \<not> prefix (segs (tusTempFilePath m)) (segs target) \<and> \<not> prefix (segs target) (segs (tusTempFilePath m))"

lemma free_target_upd:
  assumes "free_target env m target w" "in_progress env m c w"
  shows "free_target env (moved_on env m n) target (w\<lparr>up_fs := (up_fs w)(segs (tusTempFilePath m) \<mapsto> FileN c'), up_metas := ms\<rparr>)"
proof -
  let ?l = "segs (tusTempFilePath m)"
  have ne: "?l \<noteq> segs target" using assms(1) by (auto simp: free_target_def)
  have "path_made ((up_fs w)(?l \<mapsto> FileN c')) (Dir target)"
    by (rule path_made_upd) (use assms in \<open>simp_all add: in_progress_def free_target_def\<close>)
  moreover have "is_dir ((up_fs w)(?l \<mapsto> FileN c')) (parent (segs target))"
    by (rule is_dir_upd) (use assms in \<open>simp_all add: in_progress_def free_target_def\<close>)
  ultimately show ?thesis using assms(1) ne by (simp add: free_target_def)
qed

lemma free_target_wrote:
  "free_target env m target w \<Longrightarrow> in_progress env m c w \<Longrightarrow>
    free_target env (moved_on env m n) target (wrote env m c' n w)"
  unfolding wrote_def by (rule free_target_upd)

lemma chunk_kept:
  assumes "calm env" "in_progress env m c w" "tm_offset m = int (length c)" "patch_of r (int (length c))"
    "int (length (c @ tq_body r)) < tm_length m"
  shows "HandleTusPatch env (tm_id m) r w =
    (Reply 204 (int (length (c @ tq_body r))), wrote env m (c @ tq_body r) (int (length (c @ tq_body r))) w)"
  using patch_writes [OF assms(1-4)] assms(5) by (simp add: patch_finish_def write_at_end)

lemma last_chunk:
  assumes calm: "calm env" and up: "in_progress env m c w" and k: "tm_offset m = int k" and r: "patch_of r (int k)"
    and len: "int (k + length (tq_body r)) = tm_length m" and fr: "free_target env m target w"
  shows "\<exists>w'. HandleTusPatch env (tm_id m) r w = (Reply 204 (tm_length m), w') \<and>
    up_fs w' = move_tree (segs (tusTempFilePath m)) (segs target)
      ((up_fs w)(segs (tusTempFilePath m) \<mapsto> FileN (write_at k (tq_body r) c))) \<and>
    up_metas w' = (up_metas w)(segs (tusMetaFilePath env (tm_id m)) := None) \<and> up_jobs w' = up_jobs w"
proof -
  let ?c = "write_at k (tq_body r) c"
  let ?m = "moved_on env m (tm_length m)"
  let ?v = "wrote env m ?c (tm_length m) w"
  let ?t = "segs (tusTempFilePath m)"
  have up': "in_progress env ?m ?c ?v" by (rule progress_kept [OF up])
  have free': "free_target env ?m target ?v" by (rule free_target_wrote [OF fr up])
  then obtain rcd where rec: "upload_target env m (up_jobs ?v) = Some (rcd, target)" "st_type rcd \<noteq> Cloud"
    by (auto simp: free_target_def)
  have mk: "createFolderAll env (Dir target) (up_fs ?v) = (True, up_fs ?v)"
    using make_all_made [OF calm] free' by (simp add: createFolderAll_def free_target_def)
  have st: "os_stat (p_fs env) (up_fs ?v) target = Inl NotExist"
    using calm free' by (simp add: os_stat_def calm_def free_target_def)
  have mv: "os_rename (p_fs env) (tusTempFilePath m) target (up_fs ?v) = Inr (move_tree ?t (segs target) (up_fs ?v))"
    using calm up' free' by (simp add: os_rename_def rename_ok_def calm_def in_progress_def free_target_def)
  have fin: "finalizeTusUpload env ?m ?v = (True, ?v\<lparr>up_fs := move_tree ?t (segs target) (up_fs ?v)\<rparr>)"
    using rec by (simp add: finalizeTusUpload_def mk st persistUploadedFile_def mv)
  have cleaned: "cleanupTusUploadMetaOnly env ?m (?v\<lparr>up_fs := fs\<rparr>) =
      (Gone, ?v\<lparr>up_fs := fs, up_metas := (up_metas ?v)(segs (tusMetaFilePath env (tm_id m)) := None)\<rparr>)" for fs
    using calm up' by (simp add: cleanupTusUploadMetaOnly_def removeFileWithFallback_def calm_def in_progress_def Let_def)
  have "HandleTusPatch env (tm_id m) r w = patch_finish env ?m ?v"
    using patch_writes [OF calm up k r] len by simp
  also have "\<dots> = (Reply 204 (tm_length m),
      ?v\<lparr>up_fs := move_tree ?t (segs target) (up_fs ?v), up_metas := (up_metas ?v)(segs (tusMetaFilePath env (tm_id m)) := None)\<rparr>)"
    by (simp add: patch_finish_def fin cleaned)
  finally show ?thesis by (simp add: wrote_def)
qed

text \<open>The reply to each chunk: 204 with the number of bytes sent up to its end.\<close>

definition offset_replies :: "nat \<Rightarrow> tus_request list \<Rightarrow> int resp list" where
  "offset_replies k rs =
     map (\<lambda>i. Reply 204 (int (k + length (concat (map tq_body (take (Suc i) rs)))))) [0..<length rs]"

lemma offset_replies_Cons:
  "offset_replies k (r # rs) = Reply 204 (int (k + length (tq_body r))) # offset_replies (k + length (tq_body r)) rs"
  by (simp add: offset_replies_def map_upt_Suc add.assoc del: upt_Suc)

lemma chunks_delivered:
  assumes "calm env" "tq_body r \<noteq> []"
    "in_progress env m c w" "tm_offset m = int (length c)" "free_target env m target w" "chunks_from (int (length c)) (rs @ [r])"
    "tm_length m = int (length (c @ concat (map tq_body (rs @ [r]))))" "send_all env (tm_id m) (rs @ [r]) w = (replies, w')"
  shows "replies = offset_replies (length c) (rs @ [r]) \<and>
      up_fs w' (segs target) = Some (FileN (c @ concat (map tq_body (rs @ [r])))) \<and>
      up_fs w' (segs (tusTempFilePath m)) = None \<and> up_metas w' (segs (tusMetaFilePath env (tm_id m))) = None \<and>
      (\<forall>q. \<not> prefix (segs target) q \<and> \<not> prefix (segs (tusTempFilePath m)) q \<longrightarrow> up_fs w' q = up_fs w q)"
  using assms(3-8)
proof (induction rs arbitrary: c m w replies)
  case Nil
  have l: "patch_of r (int (length c))" "int (length c + length (tq_body r)) = tm_length m" using Nil.prems(4,5) by simp_all
  from last_chunk [OF assms(1) Nil.prems(1,2) l Nil.prems(3)] obtain v where v:
    "HandleTusPatch env (tm_id m) r w = (Reply 204 (tm_length m), v)"
    "up_fs v = move_tree (segs (tusTempFilePath m)) (segs target) ((up_fs w)(segs (tusTempFilePath m) \<mapsto> FileN (c @ tq_body r)))"
    "up_metas v = (up_metas w)(segs (tusMetaFilePath env (tm_id m)) := None)" by (auto simp: write_at_end)
  have "replies = offset_replies (length c) ([] @ [r])" "w' = v"
    using Nil.prems(6) v(1) l(2) by (simp_all add: offset_replies_Cons) (simp add: offset_replies_def)
  moreover have "up_fs v (segs (tusTempFilePath m)) = None"
    using Nil.prems(3) v(2) by (simp add: free_target_def move_tree_def)
  ultimately show ?case using v(2,3) by (auto simp: move_tree_def)
next
  case (Cons x rs)
  let ?n = "int (length (c @ tq_body x))"
  have "concat (map tq_body (rs @ [r])) \<noteq> []" using assms(2) by simp
  then have "0 < int (length (concat (map tq_body (rs @ [r]))))" unfolding of_nat_0_less_iff length_greater_0_conv .
  moreover have "tm_length m = ?n + int (length (concat (map tq_body (rs @ [r]))))"
    using Cons.prems(5) by simp
  ultimately have lt: "?n < tm_length m" by linarith
  have x: "patch_of x (int (length c))" using Cons.prems(4) by simp
  obtain rest v where rest: "send_all env (tm_id (moved_on env m ?n)) (rs @ [r]) (wrote env m (c @ tq_body x) ?n w) = (rest, v)"
    by force
  have rep: "replies = Reply 204 ?n # rest" "w' = v"
    using Cons.prems(6) chunk_kept [OF assms(1) Cons.prems(1,2) x lt] rest by simp_all
  have "tm_length (moved_on env m ?n) = int (length ((c @ tq_body x) @ concat (map tq_body (rs @ [r]))))"
    "chunks_from ?n (rs @ [r])" "tm_offset (moved_on env m ?n) = ?n" using Cons.prems(4,5) by simp_all
  note IH = Cons.IH [OF progress_kept [OF Cons.prems(1)] this(3) free_target_wrote [OF Cons.prems(3,1)] this(2,1) rest [folded rep(2)]]
  show ?case using IH rep(1) by (simp add: wrote_def offset_replies_Cons)
qed

text \<open>
  C27: An upload delivers its bytes.  With nothing refused, an upload in progress from offset 0 to a
  free place of a local storage, and requests that each carry the offset reached before them and
  together exactly the declared length (the last one not empty): every request is answered 204 with
  the new offset, the number of bytes sent up to its end; the target then holds the bodies one after the other, the temporary file and the
  metadata are gone, and no other path changes.
\<close>

theorem upload_delivers_bytes:
  assumes "calm env" "in_progress env m [] w" "tm_offset m = 0" "free_target env m target w" "chunks_from 0 (rs @ [r])"
    "tm_length m = int (length (concat (map tq_body (rs @ [r]))))" "tq_body r \<noteq> []"
    "send_all env (tm_id m) (rs @ [r]) w = (replies, w')"
  shows "replies = map (\<lambda>i. Reply 204 (int (length (concat (map tq_body (take (Suc i) (rs @ [r]))))))) [0..<Suc (length rs)] \<and>
    up_fs w' (segs target) = Some (FileN (concat (map tq_body (rs @ [r])))) \<and>
    up_fs w' (segs (tusTempFilePath m)) = None \<and> up_metas w' (segs (tusMetaFilePath env (tm_id m))) = None \<and>
    (\<forall>q. \<not> prefix (segs target) q \<and> \<not> prefix (segs (tusTempFilePath m)) q \<longrightarrow> up_fs w' q = up_fs w q)"
  using chunks_delivered [of env r m "[]" w target rs replies w'] assms by (simp add: offset_replies_def)

section \<open>Rejected chunks and stale readers\<close>

text \<open>
  C28: A rejected chunk can spoil the file.  A chunk that would exceed the declared length is answered
  400, but its bytes are already in the temporary file and are not cut off: when the right chunk
  follows, the upload succeeds and the file is longer than declared, the right bytes followed by the
  end of the rejected chunk.
\<close>

theorem rejected_chunk_spoils_file:
  assumes "calm env" "in_progress env m c w" "tm_offset m = int (length c)" "free_target env m target w"
    "patch_of bad (int (length c))" "int (length (c @ tq_body bad)) > tm_length m"
    "patch_of good (int (length c))" "int (length (c @ tq_body good)) = tm_length m"
  shows "\<exists>w1 w2. HandleTusPatch env (tm_id m) bad w = (Fail 400 [], w1) \<and>
    HandleTusPatch env (tm_id m) good w1 = (Reply 204 (tm_length m), w2) \<and>
    up_fs w2 (segs target) = Some (FileN (c @ tq_body good @ drop (length (tq_body good)) (tq_body bad))) \<and>
    int (length (c @ tq_body good @ drop (length (tq_body good)) (tq_body bad))) > tm_length m"
proof -
  let ?t = "segs (tusTempFilePath m)"
  define w1 where "w1 = w\<lparr>up_fs := (up_fs w)(?t \<mapsto> FileN (c @ tq_body bad))\<rparr>"
  have wr: "write_file ?t (length c) (tq_body bad) (up_fs w) = (up_fs w)(?t \<mapsto> FileN (c @ tq_body bad))"
    using assms(2) by (simp add: write_file_def in_progress_def write_at_end)
  have one: "HandleTusPatch env (tm_id m) bad w = (Fail 400 [], w1)"
    using assms(2,3,5,6) assms(1)
    by (simp add: HandleTusPatch_def opens [OF assms(1,2)] opens(2) [OF assms(1,2,5)] patch_act_def patch_of_def
        in_progress_def wr calm_def w1_def Let_def)
  have up1: "in_progress env m (c @ tq_body bad) w1"
  proof -
    have "path_made ((up_fs w)(?t \<mapsto> FileN (c @ tq_body bad))) (tm_dir m)"
      by (rule path_made_upd) (use assms(2) in \<open>simp_all add: in_progress_def\<close>)
    moreover have "is_dir ((up_fs w)(?t \<mapsto> FileN (c @ tq_body bad))) (parent ?t)"
      by (rule is_dir_upd) (use assms(2) in \<open>simp_all add: in_progress_def\<close>)
    ultimately show ?thesis using assms(2) by (simp add: in_progress_def w1_def)
  qed
  have "free_target env (moved_on env m (tm_offset m)) target (w\<lparr>up_fs := (up_fs w)(?t \<mapsto> FileN (c @ tq_body bad)), up_metas := up_metas w\<rparr>)"
    by (rule free_target_upd [OF assms(4,2)])
  then have fr1: "free_target env m target w1" by (simp add: free_target_def w1_def)
  have len: "int (length c + length (tq_body good)) = tm_length m" using assms(8) by simp
  from last_chunk [OF assms(1) up1 assms(3,7) len fr1] obtain w2 where w2:
    "HandleTusPatch env (tm_id m) good w1 = (Reply 204 (tm_length m), w2)"
    "up_fs w2 = move_tree ?t (segs target) ((up_fs w1)(?t \<mapsto> FileN (write_at (length c) (tq_body good) (c @ tq_body bad))))"
    by blast
  have content: "write_at (length c) (tq_body good) (c @ tq_body bad) =
      c @ tq_body good @ drop (length (tq_body good)) (tq_body bad)"
    by (simp add: write_at_def)
  have "up_fs w2 (segs target) = Some (FileN (c @ tq_body good @ drop (length (tq_body good)) (tq_body bad)))"
    by (simp add: w2(2) move_tree_def content)
  moreover have "int (length (c @ tq_body good @ drop (length (tq_body good)) (tq_body bad))) > tm_length m"
    using assms(6,8) by simp
  ultimately show ?thesis using one w2(1) by blast
qed

text \<open>
  A request that read the metadata before another one finished passes the offset check with the old
  offset, and its own offset is then stored: the upload goes back.
\<close>

lemma stale_patch_rewinds:
  assumes "calm env" "in_progress env m c w" "tm_offset m = int (length c)" "patch_of r1 (int (length c))" "patch_of r2 (int (length c))"
    "int (length (c @ tq_body r1)) < tm_length m" "int (length (c @ tq_body r2)) < tm_length m"
  shows "\<exists>w1 w2. patch_read env (tm_id m) r2 w = Inr m \<and>
    HandleTusPatch env (tm_id m) r1 w = (Reply 204 (int (length (c @ tq_body r1))), w1) \<and>
    patch_act env m r2 w1 = (Reply 204 (int (length (c @ tq_body r2))), w2) \<and>
    up_metas w2 (segs (tusMetaFilePath env (tm_id m))) = Some (moved_on env m (int (length (c @ tq_body r2))))"
proof -
  let ?w1 = "wrote env m (c @ tq_body r1) (int (length (c @ tq_body r1))) w"
  let ?t = "segs (tusTempFilePath m)"
  have up1: "in_progress env (moved_on env m (int (length (c @ tq_body r1)))) (c @ tq_body r1) ?w1"
    by (rule progress_kept [OF assms(2)])
  have op: "openTusTempFileForPatch env m (up_fs ?w1) = (True, up_fs ?w1)"
    using opens(1) [OF assms(1) up1] unfolding moved_opens .
  have bin: "up_fs ?w1 ?t = Some (FileN (c @ tq_body r1))" and lock: "tm_id m \<notin> set (up_locked ?w1)"
    using assms(2) by (simp_all add: wrote_def in_progress_def)
  have "int (length c + length (tq_body r2)) \<le> tm_length m" using assms(7) by simp
  from patch_act_writes [OF assms(1) op bin lock assms(3,5) this] assms(7)
  have "patch_act env m r2 ?w1 = (Reply 204 (int (length (c @ tq_body r2))),
      wrote env m (write_at (length c) (tq_body r2) (c @ tq_body r1)) (int (length (c @ tq_body r2))) ?w1)"
    by (simp add: patch_finish_def)
  moreover have "patch_read env (tm_id m) r2 w = Inr m" by (rule opens(2) [OF assms(1,2,5)])
  ultimately show ?thesis using chunk_kept [OF assms(1-4,6)] by (auto simp: wrote_def)
qed

end
