(* ===== verification/Uploads_Witnesses.thy ===== *)
theory Uploads_Witnesses
  imports Uploads_Props Files_Witnesses
begin

text \<open>The properties of uploads at a concrete upload of \<open>xyz\<close> to \<open>/m/g\<close> in one and in two chunks.\<close>

definition demo_jenv :: jenv where
  "demo_jenv = \<lparr>e_now = 0, e_zone = fixed_zone 0, e_id = (\<lambda>_. ''j''), e_up = (\<lambda>_. True), e_rm = (\<lambda>_. True),
     e_open = (\<lambda>_. True), e_err = [], e_reps = []\<rparr>"

definition demo_upenv :: upenv where
  "demo_upenv = \<lparr>p_now = 0, p_id = ''u'', p_metadir = ''/meta'', p_clouddir = [], p_tmp = ''/tmp'', p_ok = (\<lambda>_. True),
     p_denied = (\<lambda>_. False), p_cross = False, p_storage = True, p_pool = True, p_fs = demo_oenv, p_jobs = demo_jenv\<rparr>"

definition demo_meta :: tus_meta where
  "demo_meta = \<lparr>tm_id = ''u'', tm_pool = ''s'', tm_parent = [], tm_rel = [], tm_name = ''g'', tm_type = [],
     tm_dir = ''/m/.uploads'', tm_length = 3, tm_offset = 0, tm_created = 0, tm_updated = 0, tm_raw = Map.empty\<rparr>"

definition demo_upload :: upworld where
  "demo_upload = \<lparr>up_fs = [[''m''] \<mapsto> DirN, [''m'', ''.uploads''] \<mapsto> DirN, [''m'', ''.uploads'', ''u.bin''] \<mapsto> FileN []],
     up_metas = [[''meta'', ''u.json''] \<mapsto> demo_meta],
     up_jobs = \<lparr>w_jobs = [], w_pools = [], w_storages = [demo_storage], w_cancels = [], w_stops = Map.empty, w_files = [], w_audit = []\<rparr>,
     up_locked = []\<rparr>"

definition demo_patch :: "string \<Rightarrow> string \<Rightarrow> tus_request" where
  "demo_patch off body = \<lparr>tq_version = ''1.0.0'', tq_length = [], tq_meta = [], tq_ctype = ''application/offset+octet-stream'',
     tq_offset = off, tq_body = body, tq_broken = False, tq_tls = False, tq_proto = [], tq_host = [], tq_fhost = []\<rparr>"

lemma demo_calm: "calm demo_upenv"
  by (simp add: calm_def demo_upenv_def demo_oenv_def)

lemma demo_places:
  "segs (tusTempFilePath demo_meta) = [''m'', ''.uploads'', ''u.bin'']" "segs (tusMetaFilePath demo_upenv ''u'') = [''meta'', ''u.json'']"
  "segs ''/m/.uploads'' = [''m'', ''.uploads'']" "segs (Dir ''/m/g'') = [''m'']" "segs ''/m/g'' = [''m'', ''g'']" "trim ''u'' = ''u''"
  by code_simp+

lemma demo_made: "path_made (up_fs demo_upload) (tm_dir demo_meta)" "path_made (up_fs demo_upload) (Dir ''/m/g'')"
  by (auto simp: path_made_def demo_places demo_meta_def demo_upload_def prefix_Cons)

lemma demo_in_progress: "in_progress demo_upenv demo_meta [] demo_upload"
proof -
  have "tm_id demo_meta = ''u''" by (simp add: demo_meta_def)
  then show ?thesis
    using demo_made(1) by (simp add: in_progress_def demo_places) (simp add: demo_upload_def is_dir_def parent_def)
qed

lemma demo_free: "free_target demo_upenv demo_meta ''/m/g'' demo_upload"
proof -
  have "upload_target demo_upenv demo_meta (up_jobs demo_upload) = Some (demo_storage, ''/m/g'')" by code_simp
  moreover have "st_type demo_storage \<noteq> Cloud" by (simp add: demo_storage_def)
  ultimately show ?thesis
    using demo_made(2) by (simp add: free_target_def demo_places) (simp add: demo_upload_def is_dir_def parent_def)
qed

lemma demo_patches: "patch_of (demo_patch ''0'' s) 0" "patch_of (demo_patch ''1'' s) 1"
proof -
  have "trim ''1.0.0'' = ''1.0.0''" "Atoi (trim ''0'') = Some 0" "Atoi (trim ''1'') = Some 1"
    "trim ''application/offset+octet-stream'' = ''application/offset+octet-stream''" by code_simp+
  then show "patch_of (demo_patch ''0'' s) 0" "patch_of (demo_patch ''1'' s) 1"
    by (simp_all add: patch_of_def validateTusRequest_def tusVersion_def demo_patch_def)
qed

theorem upload_delivers_bytes_witness:
  "fst (send_all demo_upenv ''u'' ([demo_patch ''0'' ''x''] @ [demo_patch ''1'' ''yz'']) demo_upload) = [Reply 204 1, Reply 204 3] \<and>
   up_fs (snd (send_all demo_upenv ''u'' ([demo_patch ''0'' ''x''] @ [demo_patch ''1'' ''yz'']) demo_upload)) [''m'', ''g''] =
    Some (FileN ''xyz'')"
proof -
  obtain rs w' where e: "send_all demo_upenv (tm_id demo_meta) ([demo_patch ''0'' ''x''] @ [demo_patch ''1'' ''yz'']) demo_upload = (rs, w')"
    by force
  have "chunks_from 0 ([demo_patch ''0'' ''x''] @ [demo_patch ''1'' ''yz''])"
    using demo_patches by (simp add: demo_patch_def)
  from upload_delivers_bytes [OF demo_calm demo_in_progress _ demo_free this _ _ e] have
    "up_fs w' (segs ''/m/g'') = Some (FileN ''xyz'')" "rs = [Reply 204 1, Reply 204 3]"
    by (simp_all add: demo_meta_def demo_patch_def)
  moreover have "tm_id demo_meta = ''u''" by (simp add: demo_meta_def)
  ultimately show ?thesis using e by (simp add: demo_places)
qed

theorem rejected_chunk_spoils_file_witness:
  "\<exists>w1 w2. HandleTusPatch demo_upenv ''u'' (demo_patch ''0'' ''abcde'') demo_upload = (Fail 400 [], w1) \<and>
    HandleTusPatch demo_upenv ''u'' (demo_patch ''0'' ''xyz'') w1 = (Reply 204 3, w2) \<and>
    up_fs w2 [''m'', ''g''] = Some (FileN ''xyzde'')"
proof -
  have "tm_id demo_meta = ''u''" "tm_length demo_meta = 3" "tm_offset demo_meta = int (length [])" by (simp_all add: demo_meta_def)
  moreover have "tq_body (demo_patch off s) = s" for off s by (simp add: demo_patch_def)
  ultimately show ?thesis
    using rejected_chunk_spoils_file [OF demo_calm demo_in_progress _ demo_free, of "demo_patch ''0'' ''abcde''" "demo_patch ''0'' ''xyz''"]
      demo_patches(1) by (simp add: demo_places)
qed

end
