(* ===== verification/Pool_Names.thy ===== *)
theory Pool_Names
  imports Go_Path "HOL-Library.Word"
begin

unbundle bit_operations_syntax

text \<open>
  The names and texts of storage pools: RAID levels, device paths, the hash that names a pool's
  directory (internal/storagepool/create.go), mount units and the lines of \<open>/etc/fstab\<close>
  (mount_unit.go), names and places of snapshots (snapshots.go, runtime.go).
\<close>

section \<open>Requests for a pool\<close>

definition raid_levels :: "string list" where
  "raid_levels = [''single'', ''raid0'', ''raid1'', ''raid5'', ''raid10'']"

definition normalizeRaidLevel :: "string \<Rightarrow> string option" where
  "normalizeRaidLevel value =
     (let level = to_lower (trim value) in
      if level \<in> {''single'', ''raid0'', ''raid1'', ''raid5'', ''raidi5'', ''raid10''} then
        (if level = ''raidi5'' then Some ''raid5'' else Some level)
      else None)"

definition validateRaidDeviceCount :: "string \<Rightarrow> nat \<Rightarrow> bool" where
  "validateRaidDeviceCount level count \<longleftrightarrow>
     (if level = ''single'' then \<not> count < 1
      else if level = ''raid0'' \<or> level = ''raid1'' then \<not> count < 2
      else if level = ''raid5'' then \<not> count < 3
      else if level = ''raid10'' then \<not> (count < 4 \<or> count mod 2 \<noteq> 0)
      else True)"

fun device_paths_from :: "string list \<Rightarrow> string list \<Rightarrow> string list option" where
  "device_paths_from seen [] = Some []"
| "device_paths_from seen (path # paths) =
     (let clean = Clean (trim path) in
      if clean = [] \<or> \<not> has_prefix ''/dev/'' clean then None
      else if clean \<in> set seen then None
      else map_option (Cons clean) (device_paths_from (clean # seen) paths))"

definition normalizeDevicePaths :: "string list \<Rightarrow> string list option" where
  "normalizeDevicePaths paths = (if paths = [] then None else device_paths_from [] paths)"

definition ValidateName :: "string \<Rightarrow> bool" where
  "ValidateName name \<longleftrightarrow> name \<noteq> []"

lemma device_paths_from_Some:
  "device_paths_from seen paths = Some ds \<Longrightarrow>
    ds = map (\<lambda>p. Clean (trim p)) paths \<and> distinct ds \<and> set ds \<inter> set seen = {} \<and> (\<forall>d\<in>set ds. has_prefix ''/dev/'' d)"
proof (induction paths arbitrary: seen ds)
  case (Cons p paths)
  then obtain ds' where ds': "device_paths_from (Clean (trim p) # seen) paths = Some ds'" "ds = Clean (trim p) # ds'"
    "Clean (trim p) \<notin> set seen" "has_prefix ''/dev/'' (Clean (trim p))"
    by (auto simp: Let_def split: if_splits)
  have e: "ds' = map (\<lambda>p. Clean (trim p)) paths" "distinct ds'" "set ds' \<inter> set (Clean (trim p) # seen) = {}"
    "\<forall>d\<in>set ds'. has_prefix ''/dev/'' d" using Cons.IH [OF ds'(1)] by blast+
  have "distinct ds \<and> set ds \<inter> set seen = {} \<and> (\<forall>d\<in>set ds. has_prefix ''/dev/'' d)"
    unfolding ds'(2) using e(2-4) ds'(3,4) by auto
  then show ?case using ds'(2) e(1) by simp
qed simp

lemma normalizeDevicePaths_Some:
  assumes "normalizeDevicePaths paths = Some ds"
  shows "ds = map (\<lambda>p. Clean (trim p)) paths" "ds \<noteq> []" "distinct ds" "\<forall>d\<in>set ds. has_prefix ''/dev/'' d"
  using assms device_paths_from_Some [of "[]" paths ds] by (auto simp: normalizeDevicePaths_def split: if_splits)

lemma normalizeRaidLevel_Some: "normalizeRaidLevel v = Some l \<Longrightarrow> l \<in> set raid_levels"
  by (auto simp: normalizeRaidLevel_def raid_levels_def Let_def split: if_splits)

section \<open>The name hash\<close>

text \<open>\<open>hash/fnv\<close>, \<open>New64a\<close>.\<close>

definition fnv64a :: "string \<Rightarrow> 64 word" where
  "fnv64a s = foldl (\<lambda>h c. (h XOR word_of_nat (of_char c)) * 1099511628211) 14695981039346656037 s"

definition hex_digit :: "nat \<Rightarrow> char" where
  "hex_digit d = (if d < 10 then char_of (48 + d) else char_of (87 + d))"

text \<open>\<open>%x\<close>: without leading zeros.\<close>

fun hex_text :: "nat \<Rightarrow> string" where
  "hex_text n = (if n < 16 then [hex_digit n] else hex_text (n div 16) @ [hex_digit (n mod 16)])"

declare hex_text.simps [simp del]

text \<open>Slicing to ten characters panics when there are fewer: \<open>None\<close>.\<close>

definition stableNameHash :: "string \<Rightarrow> string option" where
  "stableNameHash name =
     (let text = hex_text (unat (fnv64a (trim name))) in if length text < 10 then None else Some (take 10 text))"

lemma length_hex_text: "length (hex_text n) \<le> Suc k \<longleftrightarrow> n < 16 ^ Suc k"
proof (induction k arbitrary: n)
  case 0
  have "hex_text (n div 16) \<noteq> []" by (simp add: hex_text.simps [of "n div 16"])
  then show ?case by (simp add: hex_text.simps [of n])
next
  case (Suc k)
  show ?case
  proof (cases "n < 16")
    case True
    moreover have "n < 16 ^ Suc (Suc k)" by (rule less_le_trans [OF True]) simp
    ultimately show ?thesis by (simp add: hex_text.simps [of n])
  next
    case False
    then have "length (hex_text n) \<le> Suc (Suc k) \<longleftrightarrow> n div 16 < 16 ^ Suc k"
      using Suc [of "n div 16"] by (simp add: hex_text.simps [of n])
    also have "\<dots> \<longleftrightarrow> n < 16 ^ Suc (Suc k)" by (simp add: div_less_iff_less_mult mult.commute)
    finally show ?thesis .
  qed
qed

lemma stableNameHash_None: "stableNameHash name = None \<longleftrightarrow> unat (fnv64a (trim name)) < 16 ^ 9"
  using length_hex_text [of "unat (fnv64a (trim name))" 8] by (auto simp: stableNameHash_def Let_def)

lemma hex_digit_plain: "d < 16 \<Longrightarrow> hex_digit d \<noteq> slash \<and> hex_digit d \<noteq> CHR ''.''"
proof -
  have "\<forall>d\<in>set [0..<16]. hex_digit d \<noteq> slash \<and> hex_digit d \<noteq> CHR ''.''" by code_simp
  then show "d < 16 \<Longrightarrow> hex_digit d \<noteq> slash \<and> hex_digit d \<noteq> CHR ''.''" by simp
qed

lemma hex_text_plain: "c \<in> set (hex_text n) \<Longrightarrow> c \<noteq> slash \<and> c \<noteq> CHR ''.''"
proof (induction n rule: hex_text.induct)
  case (1 n)
  show ?case
  proof (cases "n < 16")
    case True
    then show ?thesis using 1(2) hex_digit_plain [of n] by (simp add: hex_text.simps [of n])
  next
    case False
    then show ?thesis using 1 hex_digit_plain [of "n mod 16"] by (auto simp: hex_text.simps [of n])
  qed
qed

lemma stableNameHash_plain:
  assumes "stableNameHash name = Some h" shows "plain_seg h" "length h = 10"
proof -
  define t where "t = hex_text (unat (fnv64a (trim name)))"
  have h: "h = take 10 t" "\<not> length t < 10"
    using assms unfolding stableNameHash_def t_def [symmetric] Let_def by (simp_all split: if_splits)
  then show len: "length h = 10" by simp
  have "c \<noteq> slash \<and> c \<noteq> CHR ''.''" if "c \<in> set h" for c
    using that hex_text_plain [of c] in_set_takeD [of c 10 t] by (simp add: h(1) t_def)
  then have "slash \<notin> set h" "CHR ''.'' \<notin> set h" by blast+
  moreover have "h \<noteq> []" using len by auto
  ultimately show "plain_seg h" by (auto simp: plain_seg_def dotdot_def)
qed

section \<open>Mount units\<close>

definition dash :: char where "dash = CHR ''-''"
definition backslash :: char where "backslash = CHR 0x5C"
definition newline :: char where "newline = CHR 0x0A"

definition systemdMountUnitDir :: string where "systemdMountUnitDir = ''/etc/systemd/system''"

definition escape_part :: "string \<Rightarrow> string" where
  "escape_part part = concat (map (\<lambda>c. if c = dash then backslash # ''x2d'' else [c]) part)"

definition escaped_path :: "string \<Rightarrow> string" where
  "escaped_path clean = join_with [dash] (map escape_part (split_on slash (tl clean)))"

text \<open>\<open>esc\<close> is what \<open>systemd-escape\<close> prints, if it runs.\<close>

definition mountUnitName :: "(string \<Rightarrow> string option) \<Rightarrow> string \<Rightarrow> string option" where
  "mountUnitName esc mountPath =
     (let clean = Clean (trim mountPath) in
      if clean = [] \<or> clean = ''.'' \<or> \<not> has_prefix [slash] clean then None
      else if clean = [slash] then Some ''-.mount''
      else (case esc clean of
              Some out \<Rightarrow> if trim out \<noteq> [] then Some (trim out) else Some (escaped_path clean @ ''.mount'')
            | None \<Rightarrow> Some (escaped_path clean @ ''.mount'')))"

definition renderMountUnit :: "string \<Rightarrow> string \<Rightarrow> string" where
  "renderMountUnit uuid mountPath =
     join_with [newline]
       [''[Unit]'', ''Description=YesNAS storage pool mount for '' @ mountPath, ''After=local-fs-pre.target'',
        ''Before=local-fs.target'', [], ''[Mount]'', ''What=UUID='' @ uuid, ''Where='' @ mountPath, ''Type=btrfs'',
        ''Options=defaults,nofail,x-systemd.device-timeout=5'', [], ''[Install]'', ''WantedBy=local-fs.target'', []]"

lemma escape_part_simps [simp]:
  "escape_part [] = []"
  "escape_part (c # p) = (if c = dash then [backslash, CHR ''x'', CHR ''2'', CHR ''d''] else [c]) @ escape_part p"
  by (simp_all add: escape_part_def)

lemma escape_no_dash: "dash \<notin> set (escape_part p)"
  by (induction p) (auto simp: dash_def backslash_def)

lemma escape_part_inj:
  "backslash \<notin> set a \<Longrightarrow> backslash \<notin> set b \<Longrightarrow> escape_part a = escape_part b \<Longrightarrow> a = b"
proof (induction a arbitrary: b)
  case Nil
  then show ?case by (cases b) (auto split: if_splits)
next
  case (Cons x a)
  then obtain y b' where b: "b = y # b'" by (cases b) (auto split: if_splits)
  have "x = y" "escape_part a = escape_part b'"
    using Cons.prems by (auto simp: b split: if_splits)
  with Cons.IH [of b'] Cons.prems b show ?case by simp
qed

lemma map_inj_on_lists: "(\<And>a b. a \<in> set xs \<Longrightarrow> b \<in> set ys \<Longrightarrow> f a = f b \<Longrightarrow> a = b) \<Longrightarrow> map f xs = map f ys \<Longrightarrow> xs = ys"
proof (induction xs arbitrary: ys)
  case (Cons x xs)
  then obtain y ys' where ys: "ys = y # ys'" by (cases ys) auto
  with Cons show ?case by auto
qed simp

lemma in_split_on: "\<forall>p\<in>set (split_on c s). set p \<subseteq> set s"
  by (induction s) (auto split: list.splits if_splits)

lemma escaped_path_inj:
  assumes "backslash \<notin> set (tl a)" "backslash \<notin> set (tl b)" "escaped_path a = escaped_path b"
  shows "tl a = tl b"
proof -
  have split: "split_on dash (escaped_path x) = map escape_part (split_on slash (tl x))" for x
    unfolding escaped_path_def by (rule split_join) (simp_all add: length_split_on escape_no_dash)
  have clean: "backslash \<notin> set p" if "p \<in> set (split_on slash t)" "backslash \<notin> set t" for p t
    using in_split_on [of slash t] that by blast
  have "split_on slash (tl a) = split_on slash (tl b)"
  proof (rule map_inj_on_lists)
    show "map escape_part (split_on slash (tl a)) = map escape_part (split_on slash (tl b))"
      unfolding split [symmetric] assms(3) ..
  qed (use escape_part_inj clean assms(1,2) in blast)
  then have "join_with [slash] (split_on slash (tl a)) = join_with [slash] (split_on slash (tl b))" by simp
  then show ?thesis unfolding join_split .
qed

section \<open>The lines of fstab\<close>

definition fstab_keeps :: "string \<Rightarrow> string \<Rightarrow> bool" where
  "fstab_keeps mountPath line \<longleftrightarrow>
     (let trimmed = trim line in \<not> (trimmed \<noteq> [] \<and> \<not> has_prefix ''#'' trimmed \<and> contains_sub mountPath trimmed))"

text \<open>The new text, or \<open>None\<close> when no line goes.\<close>

definition fstab_without :: "string \<Rightarrow> string \<Rightarrow> string option" where
  "fstab_without mountPath content =
     (let lines = split_on newline content; filtered = filter (fstab_keeps mountPath) lines in
      if \<forall>line\<in>set lines. fstab_keeps mountPath line then None
      else (let updated = join_with [newline] filtered in
            Some (if has_suffix [newline] updated then updated else updated @ [newline])))"

end
