(* ===== verification/Snapshot_Names.thy ===== *)
theory Snapshot_Names
  imports Pool_Names Stores "HOL-Library.List_Lexorder" "HOL-Library.Char_ord" "HOL-Library.Product_Lexorder"
begin

text \<open>
  Snapshots of a pool: the names they get (internal/storagepool/snapshots.go), the lines in which
  \<open>btrfs subvolume list\<close> reports them, their paths relative to the pool, the merge of what the
  system reports with the table, and the order of deletion (runtime.go).
\<close>

section \<open>Names\<close>

definition snapshot_char :: "char \<Rightarrow> bool" where
  "snapshot_char c \<longleftrightarrow> c \<in> set ''abcdefghijklmnopqrstuvwxyzABCDEFGHIJKLMNOPQRSTUVWXYZ0123456789._-''"

text \<open>\<open>ReplaceAllString\<close> of \<open>[^a-zA-Z0-9._-]+\<close> by a dash; the flag says whether a run is under way.\<close>

fun replace_runs :: "bool \<Rightarrow> string \<Rightarrow> string" where
  "replace_runs r [] = []"
| "replace_runs r (c # cs) =
     (if snapshot_char c then c # replace_runs False cs
      else if r then replace_runs True cs
      else dash # replace_runs True cs)"

definition trim_chars :: "string \<Rightarrow> string \<Rightarrow> string" where
  "trim_chars bad s = rev (dropWhile (\<lambda>c. c \<in> set bad) (rev (dropWhile (\<lambda>c. c \<in> set bad) s)))"

definition sanitizeSnapshotName :: "string \<Rightarrow> string" where
  "sanitizeSnapshotName name = trim_chars ''-.'' (to_lower (replace_runs False (trim name)))"

lemma trim_chars_set: "set (trim_chars bad s) \<subseteq> set s"
  unfolding trim_chars_def by (auto dest!: set_dropWhileD)

lemma trim_chars_last: "trim_chars bad s \<noteq> [] \<Longrightarrow> last (trim_chars bad s) \<notin> set bad"
  unfolding trim_chars_def rev_is_Nil_conv by (frule hd_dropWhile) (simp only: last_rev not_False_eq_True)

lemma snapshot_char_dash: "snapshot_char dash"
  by code_simp

lemma replace_runs_chars: "c \<in> set (replace_runs r s) \<Longrightarrow> snapshot_char c"
  by (induction s arbitrary: r) (auto simp: snapshot_char_dash split: if_splits)

lemma sanitized_plain:
  assumes "sanitizeSnapshotName name \<noteq> []" shows "plain_seg (sanitizeSnapshotName name)"
proof -
  let ?s = "sanitizeSnapshotName name"
  have "slash \<notin> lower_char ` {c. snapshot_char c}"
  proof
    assume "slash \<in> lower_char ` {c. snapshot_char c}"
    then obtain c where c: "snapshot_char c" "slash = lower_char c" by blast
    have "\<forall>c\<in>set ''abcdefghijklmnopqrstuvwxyzABCDEFGHIJKLMNOPQRSTUVWXYZ0123456789._-''. lower_char c \<noteq> slash" by code_simp
    with c show False unfolding snapshot_char_def by metis
  qed
  then have "slash \<notin> set ?s"
    using trim_chars_set replace_runs_chars unfolding sanitizeSnapshotName_def to_lower_def by fastforce
  moreover have "last ?s \<noteq> CHR ''.''"
    using trim_chars_last [of "''-.''"] assms unfolding sanitizeSnapshotName_def by fastforce
  ultimately show ?thesis using assms by (auto simp: plain_seg_def dotdot_def)
qed

section \<open>Lines of btrfs\<close>

definition Fields :: "string \<Rightarrow> string list" where
  "Fields s = filter (\<lambda>p. p \<noteq> []) (split_on (CHR '' '') (map (\<lambda>c. if is_space c then CHR '' '' else c) s))"

text \<open>\<open>strconv.ParseUint\<close> in base 10 and 64 bits: the value with its error flag cleared, or what an
  error leaves: 0 for a malformed number and the largest value for one out of range.\<close>

fun uint_from :: "nat \<Rightarrow> string \<Rightarrow> bool \<times> nat" where
  "uint_from n [] = (True, n)"
| "uint_from n (c # cs) =
     (if \<not> is_digit c then (False, 0)
      else if n * 10 + (of_char c - 48) \<ge> 2 ^ 64 then (False, 2 ^ 64 - 1)
      else uint_from (n * 10 + (of_char c - 48)) cs)"

definition ParseUint :: "string \<Rightarrow> bool \<times> nat" where
  "ParseUint s = (if s = [] then (False, 0) else uint_from 0 s)"

definition parseFirstUint :: "string \<Rightarrow> nat" where
  "parseFirstUint value = (case Fields value of [] \<Rightarrow> 0 | f # _ \<Rightarrow> snd (ParseUint (trim f)))"

record snap =
  ss_id :: string
  ss_system :: nat
  ss_gen :: nat
  ss_top :: nat
  ss_path :: string
  ss_name :: string
  ss_source :: string
  ss_size :: nat
  ss_description :: string
  ss_created_by :: string
  ss_created :: "int option"
  ss_updated :: "int option"
  ss_readonly :: bool
  ss_registered :: bool

definition bare_snap :: "string \<Rightarrow> snap" where
  "bare_snap p = \<lparr>ss_id = [], ss_system = 0, ss_gen = 0, ss_top = 0, ss_path = p, ss_name = Base p, ss_source = [],
     ss_size = 0, ss_description = [], ss_created_by = [], ss_created = None, ss_updated = None, ss_readonly = False,
     ss_registered = False\<rparr>"

fun parse_fields :: "string list \<Rightarrow> snap \<Rightarrow> snap" where
  "parse_fields [] s = s"
| "parse_fields (f # rest) s =
     (if f = ''ID'' then parse_fields rest (case rest of [] \<Rightarrow> s | v # _ \<Rightarrow> s\<lparr>ss_system := parseFirstUint v\<rparr>)
      else if f = ''gen'' then parse_fields rest (case rest of [] \<Rightarrow> s | v # _ \<Rightarrow> s\<lparr>ss_gen := parseFirstUint v\<rparr>)
      else if f = ''top'' \<or> f = ''top_level'' then
        parse_fields rest (case rest of [] \<Rightarrow> s | v # _ \<Rightarrow> s\<lparr>ss_top := parseFirstUint v\<rparr>)
      else if f = ''path'' \<and> rest \<noteq> [] then
        s\<lparr>ss_path := join_with '' '' rest, ss_name := Base (join_with '' '' rest)\<rparr>
      else parse_fields rest s)"

definition parseSnapshotLine :: "string \<Rightarrow> snap" where
  "parseSnapshotLine line = parse_fields (Fields line) (bare_snap line)"

definition subvolume_lines :: "string \<Rightarrow> snap list" where
  "subvolume_lines out = map parseSnapshotLine (filter (\<lambda>l. l \<noteq> []) (map trim (split_on newline (trim out))))"

section \<open>Paths relative to the pool\<close>

definition normalizeSnapshotPath :: "string \<Rightarrow> string \<Rightarrow> string" where
  "normalizeSnapshotPath mountPath path =
     (let cleanPath = Clean (trim path); cleanMountPath = Clean (trim mountPath) in
      if cleanPath = ''.'' \<or> cleanPath = [] then path
      else if cleanMountPath \<noteq> ''.'' \<and> cleanMountPath \<noteq> [] then
        (if cleanPath = cleanMountPath then ''.''
         else (case Rel cleanMountPath cleanPath of
                 Some rel \<Rightarrow> if rel \<noteq> ''..'' \<and> \<not> has_prefix ''../'' rel then rel else cleanPath
               | None \<Rightarrow> cleanPath))
      else cleanPath)"

definition isManagedSnapshotPath :: "string \<Rightarrow> bool" where
  "isManagedSnapshotPath path \<longleftrightarrow>
     (let clean = Clean (trim path) in
      if clean = [] \<or> clean = ''.'' then False else clean = ''.snapshots'' \<or> has_prefix ''.snapshots/'' clean)"

definition managed_snapshots :: "string \<Rightarrow> snap list \<Rightarrow> snap list" where
  "managed_snapshots mountPath items =
     map (\<lambda>s. let p = normalizeSnapshotPath mountPath (ss_path s) in s\<lparr>ss_path := p, ss_name := Base p\<rparr>)
       (filter (\<lambda>s. isManagedSnapshotPath (normalizeSnapshotPath mountPath (ss_path s))) items)"

text \<open>\<open>resolveSnapshotSourcePath\<close>; \<open>is_dir\<close> is what \<open>os.Stat\<close> finds.\<close>

definition resolveSnapshotSourcePath :: "(string \<Rightarrow> bool) \<Rightarrow> string \<Rightarrow> string \<Rightarrow> string option" where
  "resolveSnapshotSourcePath is_dir mountPath requested =
     (let sourcePath = trim requested in
      if sourcePath = [] then
        (if mountPath \<noteq> [] \<and> is_dir (Join [mountPath, ''data'']) then Some (Join [mountPath, ''data'']) else Some mountPath)
      else
        (let sourcePath = (if \<not> IsAbs sourcePath then Join [mountPath, sourcePath] else sourcePath);
             cleanPool = Clean mountPath; cleanSource = Clean sourcePath in
         if cleanSource \<noteq> cleanPool \<and> \<not> has_prefix (cleanPool @ [slash]) cleanSource then None else Some cleanSource))"


lemma clean_inside:
  assumes "rooted m" "rooted q" "has_prefix (Clean m @ [slash]) (Clean q)"
  shows "prefix (segs m) (segs q)"
proof -
  obtain r where r: "Clean q = Clean m @ slash # r" using assms(3) by (auto simp: has_prefix_iff)
  have parts: "set (split_on slash (Clean q)) \<subseteq> insert [] (set (segs q))"
  proof -
    have "split_on slash (join_with [slash] (segs q)) = segs q" if "segs q \<noteq> []"
      using segs_plain [OF assms(2)] that by (intro split_join) (auto simp: plain_seg_def)
    then show ?thesis
      using assms(2) by (cases "segs q = []") (auto simp: Clean_def norm_segs render_def)
  qed
  have "s \<noteq> dotdot" if "s \<in> set (split_on slash r)" for s
  proof -
    have "s \<in> set (split_on slash (Clean q))" using that by (simp add: r split_on_app_sep)
    then have "s = [] \<or> s \<in> set (segs q)" using parts by blast
    then show ?thesis using segs_plain [OF assms(2)] by (auto simp: plain_seg_def)
  qed
  then have "prefix (rev (rev (segs m))) (clean_segs True (rev (segs m)) (split_on slash r))"
    by (intro clean_segs_rooted_prefix) blast
  moreover have "segs q = clean_segs True (rev (segs m)) (split_on slash r)"
    using segs_join(2) [of "Clean m" r] assms(1) by (metis r rooted_Clean segs_Clean)
  ultimately show ?thesis by simp
qed

lemma snapshot_source_inside:
  assumes "resolveSnapshotSourcePath is_dir m req = Some p" "rooted m"
  shows "rooted p" "prefix (segs m) (segs p)"
proof -
  define src where "src = (if \<not> IsAbs (trim req) then Join [m, trim req] else trim req)"
  have data: "rooted (Join [m, ''data''])" "segs (Join [m, ''data'']) = segs m @ [''data'']"
    using Join_rooted(1) [OF assms(2)] segs_Join_plain [OF assms(2), of "''data''"]
    by (simp_all add: plain_seg_def dotdot_def slash_def del: Join.simps)
  have src: "rooted src" using Join_rooted(1) [OF assms(2)] by (simp add: src_def IsAbs_def del: Join.simps)
  have "rooted p \<and> prefix (segs m) (segs p)"
  proof (cases "trim req = []")
    case True
    then show ?thesis using assms data
      by (auto simp: resolveSnapshotSourcePath_def Let_def simp del: Join.simps split: if_splits)
  next
    case False
    then have p: "p = Clean src" "Clean src = Clean m \<or> has_prefix (Clean m @ [slash]) (Clean src)"
      using assms(1) unfolding resolveSnapshotSourcePath_def Let_def src_def [symmetric]
      by (auto simp del: Join.simps split: if_splits)
    from p(2) have "prefix (segs m) (segs src)"
    proof
      assume "Clean src = Clean m"
      then show ?thesis using segs_eq_Clean [OF src assms(2)] by simp
    qed (rule clean_inside [OF assms(2) src])
    then show ?thesis using src p(1) by (simp del: Join.simps)
  qed
  then show "rooted p" "prefix (segs m) (segs p)" by simp_all
qed

section \<open>Deepest first\<close>

definition path_depth :: "string \<Rightarrow> nat" where
  "path_depth p = length (filter (\<lambda>c. c = slash) (Clean p))"

definition sortSubvolumesDeepestFirst :: "snap list \<Rightarrow> snap list" where
  "sortSubvolumesDeepestFirst items = rev (sort_key (\<lambda>s. (path_depth (ss_path s), ss_path s)) items)"

lemma count_slash_join: "\<forall>s\<in>set ss. slash \<notin> set s \<Longrightarrow> ss \<noteq> [] \<Longrightarrow>
    length (filter (\<lambda>c. c = slash) (join_with [slash] ss)) = length ss - 1"
proof (induction "[slash]" ss rule: join_with.induct)
  case (3 x y ys)
  then show ?case by (auto simp: filter_empty_conv)
qed (auto simp: filter_empty_conv)

lemma segs_no_slash: "s \<in> set (segs p) \<Longrightarrow> slash \<notin> set s"
  using canon_segs [OF canon_norm, of s p] by (auto simp: segs_def)

lemma path_depth_segs:
  "segs p \<noteq> [] \<Longrightarrow> path_depth p = (if rooted p then length (segs p) else length (segs p) - 1)"
  using count_slash_join [of "segs p"] segs_no_slash [of _ p]
  by (cases "segs p") (auto simp: path_depth_def Clean_def norm_segs render_def)

lemma deepest_first:
  "sorted_wrt (\<lambda>a b. rooted (ss_path a) = rooted (ss_path b) \<and> segs (ss_path a) \<noteq> [] \<longrightarrow>
     \<not> strict_prefix (segs (ss_path a)) (segs (ss_path b))) (sortSubvolumesDeepestFirst items)"
proof -
  let ?k = "\<lambda>s. (path_depth (ss_path s), ss_path s)"
  have "sorted_wrt (\<lambda>a b. ?k b \<le> ?k a) (sortSubvolumesDeepestFirst items)"
    using sorted_sort_key [of ?k items] by (simp add: sortSubvolumesDeepestFirst_def sorted_wrt_rev sorted_map)
  then show ?thesis
  proof (rule sorted_wrt_mono_rel [rotated])
    fix a b
    assume le: "?k b \<le> ?k a"
    show "rooted (ss_path a) = rooted (ss_path b) \<and> segs (ss_path a) \<noteq> [] \<longrightarrow>
        \<not> strict_prefix (segs (ss_path a)) (segs (ss_path b))"
    proof (intro impI notI)
      assume r: "rooted (ss_path a) = rooted (ss_path b) \<and> segs (ss_path a) \<noteq> []"
        and p: "strict_prefix (segs (ss_path a)) (segs (ss_path b))"
      then have "length (segs (ss_path a)) < length (segs (ss_path b))" by (simp add: prefix_length_less)
      then have "path_depth (ss_path a) < path_depth (ss_path b)"
        using r by (subst (1 2) path_depth_segs) (auto simp: length_greater_0_conv [symmetric] simp del: length_greater_0_conv)
      with le show False by (simp add: less_eq_prod_def)
    qed
  qed
qed

lemma set_sortSubvolumes [simp]: "set (sortSubvolumesDeepestFirst items) = set items"
  by (simp add: sortSubvolumesDeepestFirst_def)

section \<open>Merging with the table\<close>

definition filled_snap :: "snapshot_row \<Rightarrow> snap \<Rightarrow> snap" where
  "filled_snap meta s = s\<lparr>ss_id := sn_id meta, ss_source := sn_source meta, ss_name := sn_name meta,
     ss_description := sn_description meta, ss_created_by := sn_created_by meta, ss_created := Some (sn_created meta),
     ss_updated := sn_updated meta, ss_readonly := sn_readonly meta, ss_registered := True\<rparr>"

definition recorded_snap :: "string \<Rightarrow> snapshot_row \<Rightarrow> snap" where
  "recorded_snap p meta = \<lparr>ss_id = sn_id meta, ss_system = nat (sn_system meta), ss_gen = nat (sn_generation meta), ss_top = 0,
     ss_path = p, ss_name = sn_name meta, ss_source = sn_source meta, ss_size = 0, ss_description = sn_description meta,
     ss_created_by = sn_created_by meta, ss_created = Some (sn_created meta), ss_updated = sn_updated meta,
     ss_readonly = sn_readonly meta, ss_registered = True\<rparr>"

text \<open>\<open>UpdateSnapshotSystemFields\<close> runs for a record that has no system number yet; its error is dropped.\<close>

fun merge_system ::
  "(string \<Rightarrow> bool) \<Rightarrow> int \<Rightarrow> (string \<rightharpoonup> snapshot_row) \<Rightarrow> string \<Rightarrow> snap list \<Rightarrow> snapshot_row list \<Rightarrow> snap list \<times> snapshot_row list" where
  "merge_system up now byPath m [] t = ([], t)"
| "merge_system up now byPath m (s0 # ss) t =
     (let p = normalizeSnapshotPath m (ss_path s0); s = s0\<lparr>ss_path := p, ss_name := Base p\<rparr>;
          (s', t') = (case byPath p of
             None \<Rightarrow> (s, t)
           | Some meta \<Rightarrow>
               (filled_snap meta s,
                if sn_system meta = 0 \<or> sn_generation meta = 0 then
                  (case UpdateSnapshotSystemFields (up (sn_id meta)) now (sn_id meta) (int (ss_system s)) (int (ss_gen s)) t of
                     Inl _ \<Rightarrow> t | Inr t1 \<Rightarrow> t1)
                else t));
          (rest, t'') = merge_system up now byPath m ss t' in
      (s' # rest, t''))"

definition mergePoolSnapshots ::
  "bool \<Rightarrow> (string \<Rightarrow> bool) \<Rightarrow> int \<Rightarrow> string \<Rightarrow> string \<Rightarrow> snap list \<Rightarrow> snapshot_row list \<Rightarrow> snap list \<times> snapshot_row list" where
  "mergePoolSnapshots lup up now pool m sys t =
     (case ListSnapshotRecords lup pool t of
        Inl _ \<Rightarrow> (sys, t)
      | Inr metadata \<Rightarrow>
          (let byPath = map_of (rev (map (\<lambda>r. (normalizeSnapshotPath m (sn_path r), r)) metadata));
               (merged, t') = merge_system up now byPath m sys t;
               seen = map ss_path merged in
           (merged @ concat (map (\<lambda>r. let p = normalizeSnapshotPath m (sn_path r) in
              if p \<in> set seen then [] else [recorded_snap p r]) metadata), t')))"

lemma merge_system_result:
  "fst (merge_system up now byPath m ss t) =
    map (\<lambda>s0. let p = normalizeSnapshotPath m (ss_path s0); s = s0\<lparr>ss_path := p, ss_name := Base p\<rparr> in
      (case byPath p of None \<Rightarrow> s | Some meta \<Rightarrow> filled_snap meta s)) ss"
  by (induction up now byPath m ss t rule: merge_system.induct) (auto simp: Let_def split: prod.splits option.splits)

lemma merge_system_paths: "map ss_path (fst (merge_system up now byPath m ss t)) = map (\<lambda>s. normalizeSnapshotPath m (ss_path s)) ss"
  by (simp add: merge_system_result Let_def filled_snap_def split: option.splits)

lemma merge_system_seen: "ss_path ` set (fst (merge_system up now byPath m ss t)) = (\<lambda>s. normalizeSnapshotPath m (ss_path s)) ` set ss"
  using arg_cong [OF merge_system_paths, of set] by simp

text \<open>The listed paths, and every record of the pool shown with its own data.\<close>

lemma merge_paths:
  "map ss_path (fst (mergePoolSnapshots True up now pool m sys t)) =
    map (\<lambda>s. normalizeSnapshotPath m (ss_path s)) sys @
    filter (\<lambda>p. p \<notin> (\<lambda>s. normalizeSnapshotPath m (ss_path s)) ` set sys)
      (map (\<lambda>r. normalizeSnapshotPath m (sn_path r)) (order_desc sn_created (filter (\<lambda>r. sn_pool r = pool) t)))"
proof -
  have rest: "map ss_path (concat (map (\<lambda>r. let p = normalizeSnapshotPath m (sn_path r) in
        if p \<in> seen then [] else [recorded_snap p r]) ms)) =
      filter (\<lambda>p. p \<notin> seen) (map (\<lambda>r. normalizeSnapshotPath m (sn_path r)) ms)" for seen ms
    by (induction ms) (auto simp: recorded_snap_def Let_def)
  show ?thesis
    using rest
    by (simp add: mergePoolSnapshots_def ListSnapshotRecords_def sel_all_def case_prod_unfold Let_def [of "map_of _"]
        Let_def [of "map _ _"] Let_def [of "merge_system _ _ _ _ _ _"] merge_system_paths merge_system_seen del: map_map)
qed

lemma record_shown:
  assumes "distinct (map (\<lambda>r. normalizeSnapshotPath m (sn_path r)) (filter (\<lambda>r. sn_pool r = pool) t))" "r \<in> set t" "sn_pool r = pool"
  shows "\<exists>s\<in>set (fst (mergePoolSnapshots True up now pool m sys t)).
    ss_path s = normalizeSnapshotPath m (sn_path r) \<and> ss_id s = sn_id r \<and> ss_name s = sn_name r \<and>
    ss_source s = sn_source r \<and> ss_readonly s = sn_readonly r \<and> ss_registered s"
proof -
  define ms where "ms = order_desc sn_created (filter (\<lambda>r. sn_pool r = pool) t)"
  define p where "p = (\<lambda>r :: snapshot_row. normalizeSnapshotPath m (sn_path r))"
  define byPath where "byPath = map_of (rev (map (\<lambda>r. (p r, r)) ms))"
  have r: "r \<in> set ms" using assms(2,3) by (simp add: ms_def)
  have "distinct (map p ms)"
    using assms(1) by (simp add: ms_def p_def order_desc_def distinct_map)
  then have "distinct (map fst (rev (map (\<lambda>r. (p r, r)) ms)))" by (simp add: rev_map [symmetric] comp_def)
  moreover have "(p r, r) \<in> set (rev (map (\<lambda>r. (p r, r)) ms))" using r by auto
  ultimately have hit: "byPath (p r) = Some r" unfolding byPath_def by simp
  have merged: "fst (mergePoolSnapshots True up now pool m sys t) =
      fst (merge_system up now byPath m sys t) @ concat (map (\<lambda>r. if p r \<in> set (map ss_path (fst (merge_system up now byPath m sys t)))
        then [] else [recorded_snap (p r) r]) ms)"
    unfolding p_def byPath_def ms_def
    by (simp add: mergePoolSnapshots_def ListSnapshotRecords_def sel_all_def case_prod_unfold Let_def)
  show ?thesis
  proof (cases "p r \<in> (\<lambda>s. normalizeSnapshotPath m (ss_path s)) ` set sys")
    case True
    then obtain s0 where s0: "s0 \<in> set sys" "normalizeSnapshotPath m (ss_path s0) = p r" by auto
    let ?s = "filled_snap r (s0\<lparr>ss_path := p r, ss_name := Base (p r)\<rparr>)"
    have "?s \<in> set (fst (merge_system up now byPath m sys t))"
      unfolding merge_system_result using s0 hit by (force simp: Let_def)
    then show ?thesis unfolding merged by (intro bexI [of _ ?s]) (simp_all add: filled_snap_def p_def)
  next
    case False
    have "recorded_snap (p r) r \<in> set (fst (mergePoolSnapshots True up now pool m sys t))"
      unfolding merged merge_system_paths using False r by (auto simp: Bex_def)
    then show ?thesis by (rule bexI [rotated]) (simp add: recorded_snap_def p_def)
  qed
qed

end
