(* ===== verification/Actions.thy ===== *)
theory Actions
  imports Prelude
begin

text \<open>
  Actions: what Go code that may fail does to a state.  An action maps a state to an error or a value,
  with the new state; \<open>andthen\<close> stops at the first error, as \<open>if err != nil\<close> does.  The
  operations on storage pools (Commands) and on cloud and network storages (Cloud_World) are actions.
\<close>

type_synonym ('e, 's, 'a) action = "'s \<Rightarrow> ('e + 'a) \<times> 's"

definition ret :: "'a \<Rightarrow> ('e, 's, 'a) action" where "ret x w = (Inr x, w)"
definition fail :: "'e \<Rightarrow> ('e, 's, 'a) action" where "fail e w = (Inl e, w)"

definition andthen :: "('e, 's, 'a) action \<Rightarrow> ('a \<Rightarrow> ('e, 's, 'b) action) \<Rightarrow> ('e, 's, 'b) action" where
  "andthen m f w = (case m w of (Inl e, w') \<Rightarrow> (Inl e, w') | (Inr x, w') \<Rightarrow> f x w')"

definition some_or :: "'a option \<Rightarrow> 'e \<Rightarrow> ('e, 's, 'a) action" where
  "some_or x e = (case x of None \<Rightarrow> fail e | Some v \<Rightarrow> ret v)"

text \<open>A loop that stops at the first error.\<close>

primrec each :: "('a \<Rightarrow> ('e, 's, unit) action) \<Rightarrow> 'a list \<Rightarrow> ('e, 's, unit) action" where
  "each f [] = ret ()"
| "each f (x # xs) = andthen (f x) (\<lambda>_. each f xs)"

definition reading :: "('s \<Rightarrow> 'a) \<Rightarrow> ('e, 's, 'a) action" where
  "reading f w = (Inr (f w), w)"

text \<open>An error that the caller looks at, or drops (\<open>_ = f()\<close>).\<close>

definition attempt :: "('e, 's, 'a) action \<Rightarrow> ('e, 's, 'e + 'a) action" where
  "attempt m w = (case m w of (r, w') \<Rightarrow> (Inr r, w'))"

definition ignoring :: "('e, 's, 'a) action \<Rightarrow> ('e, 's, unit) action" where
  "ignoring m = andthen (attempt m) (\<lambda>_. ret ())"

section \<open>Reasoning about actions\<close>

text \<open>
  \<open>wp m Q w\<close>: running \<open>m\<close> in \<open>w\<close> ends with a result and a state that satisfy \<open>Q\<close>, by error or not.
\<close>

definition wp :: "('e, 's, 'a) action \<Rightarrow> ('e + 'a \<Rightarrow> 's \<Rightarrow> bool) \<Rightarrow> 's \<Rightarrow> bool" where
  "wp m Q w \<longleftrightarrow> (case m w of (r, w') \<Rightarrow> Q r w')"

named_theorems wp_simps \<open>weakest preconditions of the actions\<close>

lemma wp_ret [wp_simps]: "wp (ret x) Q w = Q (Inr x) w"
  by (simp add: wp_def ret_def)

lemma wp_fail [wp_simps]: "wp (fail e) Q w = Q (Inl e) w"
  by (simp add: wp_def fail_def)

lemma wp_reading [wp_simps]: "wp (reading f) Q w = Q (Inr (f w)) w"
  by (simp add: wp_def reading_def)

lemma wp_andthen [wp_simps]:
  "wp (andthen m f) Q w = wp m (\<lambda>r w'. case r of Inl e \<Rightarrow> Q (Inl e) w' | Inr x \<Rightarrow> wp (f x) Q w') w"
  by (simp add: wp_def andthen_def split: prod.split sum.split)

lemma wp_some_or [wp_simps]: "wp (some_or x e) Q w = (case x of None \<Rightarrow> Q (Inl e) w | Some v \<Rightarrow> Q (Inr v) w)"
  by (simp add: some_or_def wp_simps split: option.split)

lemma wp_attempt [wp_simps]: "wp (attempt m) Q w = wp m (\<lambda>r. Q (Inr r)) w"
  by (simp add: wp_def attempt_def split: prod.split)

lemma wp_ignoring [wp_simps]: "wp (ignoring m) Q w = wp m (\<lambda>r. Q (Inr ())) w"
  by (simp add: ignoring_def wp_simps)

lemma wp_mono: "wp m Q w \<Longrightarrow> (\<And>r w'. Q r w' \<Longrightarrow> R r w') \<Longrightarrow> wp m R w"
  by (simp add: wp_def split: prod.splits)

lemma wpD: "wp m Q w \<Longrightarrow> m w = (r, w') \<Longrightarrow> Q r w'"
  by (simp add: wp_def)

text \<open>A relation between the states before and after, whatever the result.\<close>

definition steps :: "('s \<Rightarrow> 's \<Rightarrow> bool) \<Rightarrow> ('e, 's, 'a) action \<Rightarrow> bool" where
  "steps R m \<longleftrightarrow> (\<forall>w. wp m (\<lambda>_ w'. R w w') w)"

named_theorems steps_intros \<open>actions that keep a reflexive and transitive relation\<close>

lemma steps_ret [steps_intros]: "reflp R \<Longrightarrow> steps R (ret x)"
  and steps_fail [steps_intros]: "reflp R \<Longrightarrow> steps R (fail e)"
  and steps_reading [steps_intros]: "reflp R \<Longrightarrow> steps R (reading f)"
  and steps_some_or [steps_intros]: "reflp R \<Longrightarrow> steps R (some_or y e)"
  by (auto simp: steps_def wp_simps reflp_def split: option.split)

lemma steps_attempt [steps_intros]: "steps R m \<Longrightarrow> steps R (attempt m)"
  and steps_ignoring [steps_intros]: "steps R m \<Longrightarrow> steps R (ignoring m)"
  by (simp_all add: steps_def wp_simps)

lemma steps_andthen [steps_intros]:
  "transp R \<Longrightarrow> steps R m \<Longrightarrow> (\<And>x. steps R (f x)) \<Longrightarrow> steps R (andthen m f)"
  by (fastforce simp: steps_def wp_def andthen_def transp_def split: prod.splits sum.splits)

lemma steps_each [steps_intros]:
  "reflp R \<Longrightarrow> transp R \<Longrightarrow> (\<And>x. x \<in> set xs \<Longrightarrow> steps R (f x)) \<Longrightarrow> steps R (each f xs)"
  by (induction xs) (auto intro: steps_intros)

lemma steps_if: "steps R m \<Longrightarrow> steps R n \<Longrightarrow> steps R (if b then m else n)"
  by simp

lemma steps_option: "steps R m \<Longrightarrow> (\<And>x. steps R (f x)) \<Longrightarrow> steps R (case o1 of None \<Rightarrow> m | Some x \<Rightarrow> f x)"
  by (cases o1) simp_all

lemma steps_prod: "(\<And>a b. steps R (f a b)) \<Longrightarrow> steps R (case x of (a, b) \<Rightarrow> f a b)"
  by (cases x) simp

lemma steps_prod_app: "(\<And>a b. steps R (f a b y)) \<Longrightarrow> steps R (case_prod f x y)"
  by (cases x) simp

lemma steps_list: "steps R a \<Longrightarrow> (\<And>x xs. steps R (f x xs)) \<Longrightarrow> steps R (case l of [] \<Rightarrow> a | x # xs \<Rightarrow> f x xs)"
  by (cases l) simp_all

lemma steps_sum: "(\<And>e. steps R (f e)) \<Longrightarrow> (\<And>x. steps R (g x)) \<Longrightarrow> steps R (case s of Inl e \<Rightarrow> f e | Inr x \<Rightarrow> g x)"
  by (cases s) simp_all

lemma steps_Let: "(\<And>y. steps R (f y)) \<Longrightarrow> steps R (let y = x in f y)"
  by simp

lemmas steps_cases = steps_if steps_option steps_prod steps_sum

lemma stepsD: "steps R m \<Longrightarrow> m w = (r, w') \<Longrightarrow> R w w'"
  unfolding steps_def wp_def by (drule spec [of _ w]) simp

end
