(* ===== verification/Commands.thy ===== *)
theory Commands
  imports Snapshot_Names Schedule Actions
begin

text \<open>
  Operations on storage pools are sequences of privileged commands between statements on the
  database.  The state is the tables and the log of what the process did to the machine, oldest
  first: commands with their standard input, directories made and removed, and the clean-up of a
  cloud storage by its own component.  What a command prints, and what the process reads of the machine (\<open>/proc/mounts\<close>,
  \<open>os.Stat\<close>, files), are functions of that log: a parameter of the model, so a machine may answer
  differently after each command.  The JSON of \<open>lsblk\<close> and
  \<open>smartctl\<close> and the floating point scan of sizes with a unit are parameters too.
\<close>

datatype cmd = Cmd "string list" string | MkdirAll string | RemoveAll string | CleanupCloud string

datatype lsblk = LSBLKDevice (lb_name: string) (lb_kernel: string) (lb_path: string) (lb_parent: string) (lb_type: string)
  (lb_size: string) (lb_model: string) (lb_serial: string) (lb_vendor: string) (lb_transport: string)
  (lb_mount: "string option") (lb_mounts: "string list") (lb_children: "lsblk list")

datatype fstat = StMissing | StFile | StDir | StatError

datatype fread = FText string | FMissing | FError

datatype psite =
    QPool | QPools | QPoolName | QStorage | QMount string | QHasDevice string | QDevices string
  | QInsStorage | QInsPool | QInsDevice string | QDelPool | QDelStorage | QConfig | QReset | QUpdDevice
  | QRuntime | QCloud string | QCloudGet string | QStorages | QSnapList | QSnapGet | QSnapAdd | QSnapDel | QSnapDelAll | QSnapSys string | QReload

record statfs =
  fs_blocks :: nat
  fs_bsize :: nat
  fs_bfree :: nat
  fs_bavail :: nat

record menv =
  m_run :: "cmd list \<Rightarrow> cmd \<Rightarrow> string option"
  m_stat :: "cmd list \<Rightarrow> string \<Rightarrow> fstat"
  m_file :: "cmd list \<Rightarrow> string \<Rightarrow> fread"
  m_statfs :: "cmd list \<Rightarrow> string \<Rightarrow> statfs option"
  m_lsblk :: "string \<Rightarrow> lsblk list option"
  m_smart :: "string \<Rightarrow> bool option"
  m_scanf :: "string \<Rightarrow> nat"
  m_up :: "psite \<Rightarrow> bool"
  m_now :: int
  m_zone :: zone
  m_stamp :: string
  m_storage_id :: string
  m_pool_id :: string
  m_row_id :: "string \<Rightarrow> string"
  m_root :: string
  m_extra :: "string \<Rightarrow> string \<Rightarrow> string \<Rightarrow> string"

record pworld =
  pw_storages :: "storage list"
  pw_pools :: "pool list"
  pw_devices :: "pool_device list"
  pw_snaps :: "snapshot_row list"
  pw_log :: "cmd list"
  pw_audit :: "audit list"

datatype perr = PasswordRequired | PasswordInvalid | PErr string | Panics

type_synonym 'a act = "(perr, pworld, 'a) action"

definition check :: "bool \<Rightarrow> string \<Rightarrow> unit act" where
  "check b what = (if b then ret () else fail (PErr what))"

text \<open>\<open>commandrunner.RunWithOptions\<close>: what the command prints, or \<open>None\<close> when it fails.\<close>

definition issue :: "menv \<Rightarrow> cmd \<Rightarrow> string option act" where
  "issue env c w = (Inr (m_run env (pw_log w) c), w\<lparr>pw_log := pw_log w @ [c]\<rparr>)"

definition must :: "menv \<Rightarrow> string \<Rightarrow> cmd \<Rightarrow> string act" where
  "must env what c = andthen (issue env c) (\<lambda>out. some_or out (PErr what))"

definition sh :: "menv \<Rightarrow> string \<Rightarrow> string list \<Rightarrow> unit act" where
  "sh env what args = andthen (must env what (Cmd args [])) (\<lambda>_. ret ())"

text \<open>A query, and a statement that replaces a table.\<close>

definition query :: "string \<Rightarrow> (pworld \<Rightarrow> db_err + 'a) \<Rightarrow> 'a act" where
  "query what q w = (case q w of Inl _ \<Rightarrow> (Inl (PErr what), w) | Inr x \<Rightarrow> (Inr x, w))"

definition statement :: "string \<Rightarrow> (pworld \<Rightarrow> db_err + pworld) \<Rightarrow> unit act" where
  "statement what q w = (case q w of Inl _ \<Rightarrow> (Inl (PErr what), w) | Inr w' \<Rightarrow> (Inr (), w'))"

definition on_storages :: "(storage list \<Rightarrow> db_err + storage list) \<Rightarrow> pworld \<Rightarrow> db_err + pworld" where
  "on_storages f w = (case f (pw_storages w) of Inl e \<Rightarrow> Inl e | Inr t \<Rightarrow> Inr (w\<lparr>pw_storages := t\<rparr>))"

definition on_pools :: "(pool list \<Rightarrow> db_err + pool list) \<Rightarrow> pworld \<Rightarrow> db_err + pworld" where
  "on_pools f w = (case f (pw_pools w) of Inl e \<Rightarrow> Inl e | Inr t \<Rightarrow> Inr (w\<lparr>pw_pools := t\<rparr>))"

definition on_devices :: "(pool_device list \<Rightarrow> db_err + pool_device list) \<Rightarrow> pworld \<Rightarrow> db_err + pworld" where
  "on_devices f w = (case f (pw_devices w) of Inl e \<Rightarrow> Inl e | Inr t \<Rightarrow> Inr (w\<lparr>pw_devices := t\<rparr>))"

definition on_snaps :: "(snapshot_row list \<Rightarrow> db_err + snapshot_row list) \<Rightarrow> pworld \<Rightarrow> db_err + pworld" where
  "on_snaps f w = (case f (pw_snaps w) of Inl e \<Rightarrow> Inl e | Inr t \<Rightarrow> Inr (w\<lparr>pw_snaps := t\<rparr>))"

section \<open>Reasoning about commands\<close>

lemma wp_issue [wp_simps]:
  "wp (issue env c) Q w = Q (Inr (m_run env (pw_log w) c)) (w\<lparr>pw_log := pw_log w @ [c]\<rparr>)"
  by (simp add: wp_def issue_def)

lemma wp_check [wp_simps]: "wp (check b what) Q w = (if b then Q (Inr ()) w else Q (Inl (PErr what)) w)"
  by (simp add: check_def wp_simps)

lemma wp_query [wp_simps]: "wp (query what q) Q w = (case q w of Inl _ \<Rightarrow> Q (Inl (PErr what)) w | Inr x \<Rightarrow> Q (Inr x) w)"
  by (simp add: wp_def query_def split: sum.split)

lemma wp_statement [wp_simps]:
  "wp (statement what q) Q w = (case q w of Inl _ \<Rightarrow> Q (Inl (PErr what)) w | Inr w' \<Rightarrow> Q (Inr ()) w')"
  by (simp add: wp_def statement_def split: sum.split)

lemma steps_check [steps_intros]: "reflp R \<Longrightarrow> steps R (check b msg)"
  and steps_query [steps_intros]: "reflp R \<Longrightarrow> steps R (query what q)"
  by (auto simp: steps_def wp_simps reflp_def split: sum.split)

text \<open>The log grows by commands of which \<open>P\<close> holds, and the tables stay.\<close>

definition only :: "(cmd \<Rightarrow> bool) \<Rightarrow> pworld \<Rightarrow> pworld \<Rightarrow> bool" where
  "only P w w' \<longleftrightarrow> (\<exists>cs. pw_log w' = pw_log w @ cs \<and> (\<forall>c\<in>set cs. P c))"

lemma only_rel: "reflp (only P)" "transp (only P)"
proof -
  show "transp (only P)"
  proof (rule transpI)
    fix u v w assume "only P u v" "only P v w"
    then obtain as bs where "pw_log v = pw_log u @ as" "pw_log w = pw_log v @ bs" "\<forall>c\<in>set as. P c" "\<forall>c\<in>set bs. P c"
      by (auto simp: only_def)
    then show "only P u w" unfolding only_def by (intro exI [of _ "as @ bs"]) auto
  qed
qed (auto simp: only_def reflp_def)

lemma only_issue [steps_intros]: "P c \<Longrightarrow> steps (only P) (issue env c)"
  by (simp add: steps_def wp_simps only_def)

lemma only_must: "P c \<Longrightarrow> steps (only P) (must env what c)"
  unfolding must_def by (intro steps_andthen only_issue steps_some_or only_rel)

lemma only_sh: "P (Cmd args []) \<Longrightarrow> steps (only P) (sh env what args)"
  unfolding sh_def by (intro steps_andthen only_must steps_ret only_rel)

lemma only_statement: "(\<And>w w'. q w = Inr w' \<Longrightarrow> pw_log w' = pw_log w) \<Longrightarrow> steps (only P) (statement what q)"
  by (auto simp: steps_def wp_simps only_def split: sum.split)

lemma log_on [simp]:
  "on_storages f w = Inr w' \<Longrightarrow> pw_log w' = pw_log w" "on_pools g w = Inr w' \<Longrightarrow> pw_log w' = pw_log w"
  "on_devices h w = Inr w' \<Longrightarrow> pw_log w' = pw_log w" "on_snaps k w = Inr w' \<Longrightarrow> pw_log w' = pw_log w"
  by (auto simp: on_storages_def on_pools_def on_devices_def on_snaps_def split: sum.splits)

lemmas only_intros = steps_intros only_must only_sh steps_if steps_option only_rel

end
