(* ===== verification/Pool_Devices.thy ===== *)
theory Pool_Devices
  imports Commands
begin

text \<open>
  Block devices and mounts of a pool: what \<open>lsblk\<close> says of a device and how it is prepared
  (internal/storagepool/devices.go), the mount unit and \<open>/etc/fstab\<close> (mount_unit.go), and the
  readings of runtime.go that the operations use.
\<close>

section \<open>Readings\<close>

definition mounted_in :: "string \<Rightarrow> string \<Rightarrow> bool" where
  "mounted_in mountPath text \<longleftrightarrow>
     (\<exists>line\<in>set (split_on newline text). 2 \<le> length (Fields line) \<and> Fields line ! 1 = mountPath)"

definition isMountpointActive :: "menv \<Rightarrow> string \<Rightarrow> pworld \<Rightarrow> bool" where
  "isMountpointActive env mountPath w \<longleftrightarrow>
     mountPath \<noteq> [] \<and> (case m_file env (pw_log w) ''/proc/mounts'' of FText text \<Rightarrow> mounted_in mountPath text | _ \<Rightarrow> False)"

definition readBtrfsSubvolumesWithArgs :: "menv \<Rightarrow> string \<Rightarrow> string list \<Rightarrow> (snap list \<times> string list) act" where
  "readBtrfsSubvolumesWithArgs env mountPath extra =
     andthen (reading (isMountpointActive env mountPath)) (\<lambda>active.
       if \<not> active then ret ([], [])
       else andthen (issue env (Cmd ([''btrfs'', ''subvolume'', ''list''] @ extra @ [mountPath]) []))
         (\<lambda>out. ret (case out of None \<Rightarrow> ([], [''btrfs subvolumes'']) | Some text \<Rightarrow> (subvolume_lines text, []))))"

definition readBtrfsSubvolumes :: "menv \<Rightarrow> string \<Rightarrow> (snap list \<times> string list) act" where
  "readBtrfsSubvolumes env mountPath = readBtrfsSubvolumesWithArgs env mountPath []"

definition readBtrfsSnapshots :: "menv \<Rightarrow> string \<Rightarrow> (snap list \<times> string list) act" where
  "readBtrfsSnapshots env mountPath =
     andthen (readBtrfsSubvolumesWithArgs env mountPath [''-s'']) (\<lambda>(items, ws). ret (managed_snapshots mountPath items, ws))"

section \<open>Mount units\<close>

text \<open>\<open>systemd-escape\<close> runs only for a path that has a name other than the root's.\<close>

definition unit_name :: "menv \<Rightarrow> string \<Rightarrow> string act" where
  "unit_name env mountPath =
     (let clean = Clean (trim mountPath) in
      if mountUnitName (\<lambda>_. None) mountPath = None \<or> clean = [slash] then
        some_or (mountUnitName (\<lambda>_. None) mountPath) (PErr ''invalid mount path'')
      else andthen (issue env (Cmd [''systemd-escape'', ''--path'', ''--suffix=mount'', clean] []))
        (\<lambda>out. some_or (mountUnitName (\<lambda>_. out) mountPath) (PErr ''invalid mount path'')))"

definition persistPoolMount :: "menv \<Rightarrow> string \<Rightarrow> string \<Rightarrow> unit act" where
  "persistPoolMount env devicePath mountPath =
     andthen (must env ''read filesystem uuid'' (Cmd [''blkid'', ''-s'', ''UUID'', ''-o'', ''value'', devicePath] [])) (\<lambda>out.
     andthen (check (trim out \<noteq> []) ''filesystem uuid is empty'') (\<lambda>_.
     andthen (unit_name env mountPath) (\<lambda>name.
     andthen (must env ''write mount unit'' (Cmd [''tee'', Join [systemdMountUnitDir, name]] (renderMountUnit (trim out) mountPath))) (\<lambda>_.
     andthen (sh env ''systemctl daemon-reload'' [''systemctl'', ''daemon-reload'']) (\<lambda>_.
     sh env ''enable mount unit'' [''systemctl'', ''enable'', ''--now'', name])))))"

definition removePoolMountUnit :: "menv \<Rightarrow> string \<Rightarrow> unit act" where
  "removePoolMountUnit env mountPath =
     andthen (unit_name env mountPath) (\<lambda>name.
     andthen (reading (\<lambda>w. m_stat env (pw_log w) (Join [systemdMountUnitDir, name]))) (\<lambda>st.
       (case st of
          StatError \<Rightarrow> fail (PErr ''stat mount unit'')
        | StMissing \<Rightarrow>
            andthen (reading (isMountpointActive env mountPath)) (\<lambda>active.
              if active then sh env ''unmount pool'' [''umount'', mountPath] else ret ())
        | _ \<Rightarrow>
            andthen (sh env ''disable mount unit'' [''systemctl'', ''disable'', ''--now'', name]) (\<lambda>_.
            andthen (sh env ''remove mount unit'' [''rm'', ''-f'', Join [systemdMountUnitDir, name]]) (\<lambda>_.
            sh env ''systemctl daemon-reload'' [''systemctl'', ''daemon-reload''])))))"

definition removeLegacyPoolMountFromFstab :: "menv \<Rightarrow> string \<Rightarrow> unit act" where
  "removeLegacyPoolMountFromFstab env mountPath =
     andthen (reading (\<lambda>w. m_file env (pw_log w) ''/etc/fstab'')) (\<lambda>r.
       (case r of
          FMissing \<Rightarrow> ret ()
        | FError \<Rightarrow> fail (PErr ''read fstab'')
        | FText content \<Rightarrow>
            (case fstab_without mountPath content of
               None \<Rightarrow> ret ()
             | Some updated \<Rightarrow> andthen (must env ''update /etc/fstab'' (Cmd [''tee'', ''/etc/fstab''] updated)) (\<lambda>_. ret ()))))"

section \<open>The device tree\<close>

fun lsblk_nodes :: "lsblk \<Rightarrow> lsblk list" where
  "lsblk_nodes (LSBLKDevice n k p par t s mo se ve tr mp mps children) =
     LSBLKDevice n k p par t s mo se ve tr mp mps children # concat (map lsblk_nodes children)"

fun first_seen :: "string list \<Rightarrow> string list \<Rightarrow> string list" where
  "first_seen seen [] = []"
| "first_seen seen (x # xs) = (if x \<in> set seen then first_seen seen xs else x # first_seen (x # seen) xs)"

definition isSystemMountpoint :: "string \<Rightarrow> bool" where
  "isSystemMountpoint m \<longleftrightarrow> m \<in> {''/'', ''/boot'', ''/boot/efi''}"

definition deviceMountpoints :: "lsblk \<Rightarrow> string list" where
  "deviceMountpoints d =
     filter (\<lambda>m. m \<noteq> []) (map trim ((case lb_mount d of None \<Rightarrow> [] | Some m \<Rightarrow> [m]) @ lb_mounts d))"

definition poolLSBLKDeviceHasSystemMount :: "lsblk \<Rightarrow> bool" where
  "poolLSBLKDeviceHasSystemMount d \<longleftrightarrow>
     (case lb_mount d of None \<Rightarrow> False | Some m \<Rightarrow> isSystemMountpoint (trim m)) \<or>
     (\<exists>m\<in>set (lb_mounts d). isSystemMountpoint (trim m))"

definition poolDeviceIsSystemDisk :: "lsblk \<Rightarrow> bool" where
  "poolDeviceIsSystemDisk d \<longleftrightarrow> (\<exists>n\<in>set (lsblk_nodes d). poolLSBLKDeviceHasSystemMount n)"

definition collectNonSystemMountpoints :: "lsblk \<Rightarrow> string list" where
  "collectNonSystemMountpoints d =
     rev (sort (first_seen [] (filter (\<lambda>m. \<not> isSystemMountpoint m) (concat (map deviceMountpoints (lsblk_nodes d))))))"

definition isMDLikeDevice :: "lsblk \<Rightarrow> bool" where
  "isMDLikeDevice d \<longleftrightarrow> has_prefix ''md'' (lb_name d) \<or> lb_type d = ''md'' \<or> has_prefix ''raid'' (lb_type d)"

definition collectChildMDDevices :: "lsblk \<Rightarrow> string list" where
  "collectChildMDDevices d =
     first_seen [] (map lb_path (filter (\<lambda>c. lb_path c \<noteq> [] \<and> isMDLikeDevice c) (concat (map lsblk_nodes (lb_children d)))))"

section \<open>Looking at devices\<close>

type_synonym lsblk_cache = "string \<rightharpoonup> lsblk"

definition lsblk_cmd :: "string \<Rightarrow> cmd" where
  "lsblk_cmd path = Cmd [''lsblk'', ''-J'', ''-o'', ''NAME,KNAME,PATH,PKNAME,TYPE,SIZE,MODEL,SERIAL,VENDOR,TRAN,MOUNTPOINT,MOUNTPOINTS'', path] []"

definition loadSinglePoolDevice :: "menv \<Rightarrow> string \<Rightarrow> lsblk_cache \<Rightarrow> (lsblk \<times> lsblk_cache) act" where
  "loadSinglePoolDevice env path cache =
     (case cache path of
        Some d \<Rightarrow> ret (d, cache)
      | None \<Rightarrow>
          andthen (must env ''inspect device'' (lsblk_cmd path)) (\<lambda>out.
            (case m_lsblk env out of
               None \<Rightarrow> fail (PErr ''parse lsblk'')
             | Some [] \<Rightarrow> fail (PErr ''device not found'')
             | Some (d # _) \<Rightarrow> ret (d, cache(path \<mapsto> d)))))"

definition readPoolSectorSize :: "menv \<Rightarrow> string \<Rightarrow> pworld \<Rightarrow> nat" where
  "readPoolSectorSize env kernelName w =
     (case find (\<lambda>v. v > 0) (concat (map (\<lambda>file.
         (case m_file env (pw_log w) (Join [''/sys/class/block'', kernelName, ''queue'', file]) of
            FText t \<Rightarrow> (case ParseUint (trim t) of (True, v) \<Rightarrow> [v] | _ \<Rightarrow> [])
          | _ \<Rightarrow> [])) [''hw_sector_size'', ''logical_block_size''])) of
        Some v \<Rightarrow> v
      | None \<Rightarrow> 512)"

text \<open>The product wraps at 64 bits.\<close>

definition readBlockDeviceSizeBytes :: "menv \<Rightarrow> string \<Rightarrow> pworld \<Rightarrow> nat option" where
  "readBlockDeviceSizeBytes env kernelName w =
     (case m_file env (pw_log w) (Join [''/sys/class/block'', kernelName, ''size'']) of
        FText t \<Rightarrow>
          (case ParseUint (trim t) of
             (True, v) \<Rightarrow> Some (v * readPoolSectorSize env kernelName w mod 2 ^ 64)
           | _ \<Rightarrow> None)
      | _ \<Rightarrow> None)"

definition or_trim :: "string \<Rightarrow> string \<Rightarrow> string" where
  "or_trim a b = (if trim a = [] then trim b else trim a)"

definition pool_device_of :: "string \<Rightarrow> lsblk \<Rightarrow> string \<Rightarrow> lsblk option \<Rightarrow> nat \<Rightarrow> pool_device" where
  "pool_device_of path d parentPath par n =
     (let field = (\<lambda>f. case par of None \<Rightarrow> trim (f d) | Some p \<Rightarrow> or_trim (f d) (f p)) in
      \<lparr>pd_id = [], pd_pool = [], pd_path = path, pd_name = lb_name d, pd_kernel = lb_kernel d, pd_parent = parentPath,
       pd_size = int n, pd_human = lb_size d, pd_model = field lb_model, pd_serial = field lb_serial,
       pd_vendor = field lb_vendor, pd_transport = field lb_transport, pd_role = ''data''\<rparr>)"

definition inspectPoolDevice :: "menv \<Rightarrow> string \<Rightarrow> lsblk_cache \<Rightarrow> (pool_device \<times> lsblk_cache) act" where
  "inspectPoolDevice env path cache =
     andthen (loadSinglePoolDevice env path cache) (\<lambda>(d, cache1).
     andthen (if lb_type d = ''part'' \<and> lb_parent d \<noteq> [] then
                andthen (loadSinglePoolDevice env (Join [''/dev'', lb_parent d]) cache1)
                  (\<lambda>(p, cache2). ret (Join [''/dev'', lb_parent d], Some p, cache2))
              else ret ([], None, cache1)) (\<lambda>(parentPath, par, cache2).
     andthen (reading (readBlockDeviceSizeBytes env (lb_kernel d))) (\<lambda>sz.
     andthen (some_or sz (PErr ''read size'')) (\<lambda>n.
     ret (pool_device_of path d parentPath par n, cache2)))))"

primrec load_devices :: "menv \<Rightarrow> string list \<Rightarrow> lsblk_cache \<Rightarrow> (string \<rightharpoonup> pool_device) \<Rightarrow> (string \<rightharpoonup> pool_device) act" where
  "load_devices env [] cache result = ret result"
| "load_devices env (p # ps) cache result =
     andthen (inspectPoolDevice env p cache) (\<lambda>(d, cache1). load_devices env ps cache1 (result(p \<mapsto> d)))"

definition loadPoolDeviceMetadata :: "menv \<Rightarrow> string list \<Rightarrow> (string \<rightharpoonup> pool_device) act" where
  "loadPoolDeviceMetadata env paths = load_devices env paths Map.empty Map.empty"

definition resolvePoolDevices :: "menv \<Rightarrow> string list \<Rightarrow> pool_device list act" where
  "resolvePoolDevices env paths =
     andthen (loadPoolDeviceMetadata env paths) (\<lambda>deviceMap.
       if \<exists>p\<in>set paths. deviceMap p = None then fail (PErr ''device metadata not found'')
       else ret (map (\<lambda>p. the (deviceMap p)) paths))"

section \<open>Preparing devices\<close>

text \<open>Unmounting what is on a device, and wiping it; an error of \<open>--zero-superblock\<close> is passed over.\<close>

definition release_device :: "menv \<Rightarrow> lsblk \<Rightarrow> unit act" where
  "release_device env d =
     andthen (each (\<lambda>m. sh env ''unmount'' [''umount'', m]) (collectNonSystemMountpoints d)) (\<lambda>_.
     each (\<lambda>md. sh env ''stop md device'' [''mdadm'', ''--stop'', md]) (collectChildMDDevices d))"

definition wipe_device :: "menv \<Rightarrow> string \<Rightarrow> unit act" where
  "wipe_device env path =
     andthen (issue env (Cmd [''mdadm'', ''--zero-superblock'', ''--force'', path] [])) (\<lambda>_.
     sh env ''wipe device'' [''wipefs'', ''-af'', path])"

definition prepare_one :: "menv \<Rightarrow> string \<Rightarrow> lsblk_cache \<Rightarrow> lsblk_cache act" where
  "prepare_one env path cache =
     andthen (query ''check device registration'' (\<lambda>w. HasDevice (m_up env (QHasDevice path)) path (pw_devices w))) (\<lambda>registered.
     andthen (check (\<not> registered) ''device is already registered'') (\<lambda>_.
     andthen (loadSinglePoolDevice env path cache) (\<lambda>(d, cache1).
     andthen (check (\<not> poolDeviceIsSystemDisk d) ''device is part of the system disk'') (\<lambda>_.
     andthen (release_device env d) (\<lambda>_.
     andthen (wipe_device env path) (\<lambda>_.
     ret cache1))))))"

primrec prepare_from :: "menv \<Rightarrow> string list \<Rightarrow> lsblk_cache \<Rightarrow> unit act" where
  "prepare_from env [] cache = ret ()"
| "prepare_from env (p # ps) cache = andthen (prepare_one env p cache) (prepare_from env ps)"

definition forcePreparePoolDevices :: "menv \<Rightarrow> string list \<Rightarrow> unit act" where
  "forcePreparePoolDevices env paths = prepare_from env paths Map.empty"

end
