(* ===== verification/Pool_Runtime.thy ===== *)
theory Pool_Runtime
  imports Pool_Devices Go_Int
begin

text \<open>
  What the server reports of its pools (internal/storagepool/runtime.go): states and health of the
  devices, usage from \<open>btrfs\<close> and \<open>statfs\<close>, snapshots with their sizes, and the pools of cloud
  and network storages.  Warnings are named by what could not be read.
\<close>

section \<open>Sizes\<close>

definition uint64 :: "int \<Rightarrow> nat" where "uint64 i = unat (word_of_int i :: 64 word)"

definition statFilesystem :: "menv \<Rightarrow> string \<Rightarrow> pworld \<Rightarrow> int \<times> int" where
  "statFilesystem env p w =
     (case m_statfs env (pw_log w) p of
        None \<Rightarrow> (0, 0)
      | Some st \<Rightarrow> (int64 (int (fs_blocks st) * int (fs_bsize st)), int64 (int (fs_bavail st) * int (fs_bsize st))))"

definition statFilesystemUsage :: "menv \<Rightarrow> string \<Rightarrow> pworld \<Rightarrow> (nat \<times> nat \<times> nat) option" where
  "statFilesystemUsage env p w =
     map_option (\<lambda>st. (uint64 (int (fs_blocks st) * int (fs_bsize st)),
       uint64 ((int (fs_blocks st) - int (fs_bfree st)) * int (fs_bsize st)), uint64 (int (fs_bavail st) * int (fs_bsize st))))
       (m_statfs env (pw_log w) p)"

definition calculateUsagePercent :: "64 word \<Rightarrow> 64 word \<Rightarrow> int" where
  "calculateUsagePercent used tot = (if tot = 0 then 0 else sint ((used * 100 + tot div 2) div tot))"

section \<open>Devices\<close>

record device_view =
  dv_device :: pool_device
  dv_state :: string
  dv_health :: string

definition derivePoolDeviceState :: "menv \<Rightarrow> string \<Rightarrow> string \<Rightarrow> bool \<Rightarrow> pworld \<Rightarrow> string" where
  "derivePoolDeviceState env path health poolMounted w =
     (if trim path = [] then ''UNKNOWN''
      else (case m_stat env (pw_log w) (trim path) of
              StMissing \<Rightarrow> ''OFFLINE''
            | StatError \<Rightarrow> ''UNKNOWN''
            | _ \<Rightarrow> if health = ''failed'' then ''FAILED'' else if \<not> poolMounted then ''OFFLINE'' else ''ONLINE''))"

definition readPoolDeviceHealth :: "menv \<Rightarrow> string \<Rightarrow> string act" where
  "readPoolDeviceHealth env path =
     (if trim path = [] then ret ''unknown''
      else andthen (issue env (Cmd [''smartctl'', ''-j'', ''-H'', path] [])) (\<lambda>out.
        ret (case out of
               None \<Rightarrow> ''unknown''
             | Some text \<Rightarrow> (case m_smart env text of None \<Rightarrow> ''unknown'' | Some True \<Rightarrow> ''passed'' | Some False \<Rightarrow> ''failed''))))"

primrec enrichPoolDevices :: "menv \<Rightarrow> bool \<Rightarrow> pool_device list \<Rightarrow> device_view list act" where
  "enrichPoolDevices env poolMounted [] = ret []"
| "enrichPoolDevices env poolMounted (d # ds) =
     andthen (readPoolDeviceHealth env (pd_path d)) (\<lambda>health.
     andthen (reading (derivePoolDeviceState env (pd_path d) health poolMounted)) (\<lambda>state.
     andthen (enrichPoolDevices env poolMounted ds) (\<lambda>rest.
     ret (\<lparr>dv_device = d, dv_state = state, dv_health = health\<rparr> # rest))))"

text \<open>Status and health of the pool from the states of its devices.\<close>

fun single_status :: "string list \<Rightarrow> string \<times> string \<Rightarrow> string \<times> string" where
  "single_status [] cur = cur"
| "single_status (s # ss) (status, health) =
     (if s = ''FAILED'' then (status, ''failed'')
      else if s = ''OFFLINE'' \<or> s = ''UNKNOWN'' then (''offline'', ''offline'')
      else single_status ss (status, health))"

definition applyPoolDeviceStatus :: "string \<Rightarrow> bool \<Rightarrow> string list \<Rightarrow> string \<times> string \<Rightarrow> string \<times> string" where
  "applyPoolDeviceStatus raid mounted states cur =
     (if to_lower (trim raid) = ''single'' then single_status states cur
      else if ''FAILED'' \<in> set states then (fst cur, ''degraded'')
      else if ''OFFLINE'' \<in> set states \<or> ''UNKNOWN'' \<in> set states then
        (if mounted then (''degraded'', ''degraded'') else (''offline'', ''offline''))
      else cur)"

section \<open>Usage\<close>

record btrfs_usage =
  bu_uuid :: string
  bu_device_size :: nat
  bu_physical :: nat
  bu_data_used :: nat
  bu_has_data :: bool
  bu_free :: nat
  bu_data :: string
  bu_metadata :: string
  bu_system :: string

definition no_usage :: btrfs_usage where
  "no_usage = \<lparr>bu_uuid = [], bu_device_size = 0, bu_physical = 0, bu_data_used = 0, bu_has_data = False, bu_free = 0,
     bu_data = [], bu_metadata = [], bu_system = []\<rparr>"

text \<open>\<open>strings.Cut\<close> at a character, and the second comma field before the colon.\<close>

definition cut_at :: "char \<Rightarrow> string \<Rightarrow> (string \<times> string) option" where
  "cut_at c s = (if c \<in> set s then Some (takeWhile (\<lambda>x. x \<noteq> c) s, tl (dropWhile (\<lambda>x. x \<noteq> c) s)) else None)"

definition parseProfileFromUsageLine :: "string \<Rightarrow> string" where
  "parseProfileFromUsageLine line =
     (case cut_at (CHR '':'') line of
        None \<Rightarrow> []
      | Some (pre, _) \<Rightarrow> (case split_on (CHR '','') pre of _ # p # _ \<Rightarrow> trim p | _ \<Rightarrow> []))"

definition parseProfileFromDFLine :: "string \<Rightarrow> string" where
  "parseProfileFromDFLine line =
     (case cut_at (CHR '':'') line of
        None \<Rightarrow> []
      | Some (pre, _) \<Rightarrow> (case split_on (CHR '','') pre of _ # p # _ \<Rightarrow> trim p | _ \<Rightarrow> []))"

definition after_label :: "string \<Rightarrow> string \<Rightarrow> string" where
  "after_label label line = trim (drop (length label) line)"

definition usage_line :: "string \<Rightarrow> btrfs_usage \<Rightarrow> btrfs_usage" where
  "usage_line line0 u =
     (let line = trim line0 in
      if has_prefix ''UUID:'' line then u\<lparr>bu_uuid := after_label ''UUID:'' line\<rparr>
      else if has_prefix ''Device size:'' line then u\<lparr>bu_device_size := parseFirstUint (after_label ''Device size:'' line)\<rparr>
      else if has_prefix ''Used:'' line then u\<lparr>bu_physical := parseFirstUint (after_label ''Used:'' line)\<rparr>
      else if has_prefix ''Free (estimated):'' line then u\<lparr>bu_free := parseFirstUint (after_label ''Free (estimated):'' line)\<rparr>
      else if has_prefix ''Data,'' line then u\<lparr>bu_data := parseProfileFromUsageLine line\<rparr>
      else if has_prefix ''Metadata,'' line then u\<lparr>bu_metadata := parseProfileFromUsageLine line\<rparr>
      else if has_prefix ''System,'' line then u\<lparr>bu_system := parseProfileFromUsageLine line\<rparr>
      else u)"

definition parseBtrfsSizeValue :: "menv \<Rightarrow> string \<Rightarrow> nat" where
  "parseBtrfsSizeValue env value =
     (if trim value = [] then 0
      else (case ParseUint (trim value) of (True, n) \<Rightarrow> n | _ \<Rightarrow> m_scanf env (trim value)))"

definition parseUsedValueFromDFLine :: "menv \<Rightarrow> string \<Rightarrow> nat" where
  "parseUsedValueFromDFLine env line =
     (case cut_at (CHR '':'') line of
        None \<Rightarrow> 0
      | Some (_, rest) \<Rightarrow>
          (case find (\<lambda>kv. case kv of None \<Rightarrow> False | Some (k, _) \<Rightarrow> trim k = ''used'')
                  (map (\<lambda>seg. cut_at (CHR ''='') (trim seg)) (split_on (CHR '','') rest)) of
             Some (Some (_, v)) \<Rightarrow> parseBtrfsSizeValue env (trim v)
           | _ \<Rightarrow> 0))"

definition df_line :: "menv \<Rightarrow> string \<Rightarrow> btrfs_usage \<Rightarrow> btrfs_usage" where
  "df_line env line0 u =
     (let line = trim line0 in
      if \<not> has_prefix ''Data,'' line then u
      else u\<lparr>bu_data := (if bu_data u = [] then parseProfileFromDFLine line else bu_data u), bu_has_data := True,
             bu_data_used := (bu_data_used u + parseUsedValueFromDFLine env line) mod 2 ^ 64\<rparr>)"

definition readBtrfsUsage :: "menv \<Rightarrow> string \<Rightarrow> (btrfs_usage option \<times> string list) act" where
  "readBtrfsUsage env mountPath =
     andthen (reading (isMountpointActive env mountPath)) (\<lambda>active.
       if \<not> active then ret (None, [])
       else
         andthen (issue env (Cmd [''btrfs'', ''filesystem'', ''usage'', ''-b'', mountPath] [])) (\<lambda>out.
           (case out of
              None \<Rightarrow> ret (None, [''btrfs usage''])
            | Some text \<Rightarrow>
                (let usage = fold usage_line (split_on newline text) no_usage in
                 andthen (issue env (Cmd [''btrfs'', ''filesystem'', ''df'', ''-b'', mountPath] [])) (\<lambda>df.
                   (case df of
                      None \<Rightarrow> ret (Some usage, [''btrfs data usage''])
                    | Some dtext \<Rightarrow> ret (Some (fold (df_line env) (split_on newline dtext) usage), [])))))))"

section \<open>Snapshot sizes\<close>

definition parseSnapshotSizeBytes :: "string \<Rightarrow> nat" where
  "parseSnapshotSizeBytes out =
     (case find (\<lambda>v. v \<noteq> None) (map (\<lambda>line0.
         let line = trim line0 in
         if line = [] \<or> has_prefix ''total'' (to_lower line) then None
         else (case Fields line of [] \<Rightarrow> None | f # _ \<Rightarrow> (case ParseUint f of (True, n) \<Rightarrow> Some n | _ \<Rightarrow> None)))
       (split_on newline (trim out))) of
        Some (Some n) \<Rightarrow> n
      | _ \<Rightarrow> 0)"

primrec fillSnapshotSizes :: "menv \<Rightarrow> string \<Rightarrow> snap list \<Rightarrow> (snap list \<times> string list) act" where
  "fillSnapshotSizes env mountPath [] = ret ([], [])"
| "fillSnapshotSizes env mountPath (s # ss) =
     (if ss_path s = [] \<or> ss_path s = ''.'' then
        andthen (fillSnapshotSizes env mountPath ss) (\<lambda>(rest, ws). ret (s # rest, ws))
      else
        andthen (issue env (Cmd [''btrfs'', ''filesystem'', ''du'', ''-s'', ''--raw'', Join [mountPath, ss_path s]] [])) (\<lambda>out.
        andthen (fillSnapshotSizes env mountPath ss) (\<lambda>(rest, ws).
          ret (case out of
                 None \<Rightarrow> (s # rest, ss_name s # ws)
               | Some text \<Rightarrow> (s\<lparr>ss_size := parseSnapshotSizeBytes text\<rparr> # rest, ws)))))"

definition merged_snapshots :: "menv \<Rightarrow> string \<Rightarrow> string \<Rightarrow> snap list \<Rightarrow> snap list act" where
  "merged_snapshots env pool mountPath items w =
     (case mergePoolSnapshots (m_up env QSnapList) (\<lambda>i. m_up env (QSnapSys i)) (m_now env) pool mountPath items (pw_snaps w) of
        (merged, t) \<Rightarrow> (Inr merged, w\<lparr>pw_snaps := t\<rparr>))"

section \<open>The response for a local pool\<close>

record pool_response =
  pr_pool :: pool
  pr_devices :: "device_view list"
  pr_kind :: string
  pr_provider :: string
  pr_status :: string
  pr_health :: string
  pr_mounted :: bool
  pr_uuid :: string
  pr_total :: nat
  pr_used :: nat
  pr_free :: nat
  pr_percent :: int
  pr_profiles :: "string list"
  pr_snapshots :: "snap list"
  pr_warnings :: "string list"

text \<open>Total, used, free and percentage, with the warning that comes with them.\<close>

definition usage_figures ::
  "btrfs_usage option \<Rightarrow> (nat \<times> nat \<times> nat) option \<Rightarrow> bool \<Rightarrow> (nat \<times> nat \<times> nat \<times> int) \<times> string list" where
  "usage_figures usage stat mounted =
     (let percent = (\<lambda>u t. calculateUsagePercent (word_of_nat u) (word_of_nat t)) in
      case (usage, stat) of
        (Some u, Some (tot0, used, free)) \<Rightarrow>
          (let us = (if bu_has_data u then bu_data_used u else used);
               fr = (if bu_free u > 0 then bu_free u else free);
               tot = (us + fr) mod 2 ^ 64 in
           ((tot, us, fr, percent us tot), []))
      | (None, Some (tot0, used, free)) \<Rightarrow> ((tot0, used, free, percent used tot0), [])
      | (_, None) \<Rightarrow> ((0, 0, 0, 0), if mounted then [''filesystem usage''] else []))"

definition buildResponse :: "menv \<Rightarrow> pool \<times> pool_device list \<Rightarrow> pool_response act" where
  "buildResponse env row =
     (let p = fst row; usagePath = (if trim (sp_data p) = [] then sp_mount p else sp_data p) in
      andthen (reading (isMountpointActive env (sp_mount p))) (\<lambda>mounted.
      andthen (enrichPoolDevices env mounted (snd row)) (\<lambda>devices.
      let (status, health) = applyPoolDeviceStatus (sp_raid p) mounted (map dv_state devices)
            (if mounted then (''online'', ''healthy'') else (''offline'', ''offline'')) in
      andthen (reading (\<lambda>w. case statFilesystemUsage env usagePath w of
                 Some u \<Rightarrow> Some u
               | None \<Rightarrow> if trim usagePath \<noteq> trim (sp_mount p) then statFilesystemUsage env (sp_mount p) w else None)) (\<lambda>stat.
      andthen (readBtrfsUsage env (sp_mount p)) (\<lambda>(usage, ws1).
      let ((tot0, used, free, percent), ws2) = usage_figures usage stat mounted in
      andthen (readBtrfsSnapshots env (sp_mount p)) (\<lambda>(items, ws4).
      andthen (merged_snapshots env (sp_id p) (sp_mount p) items) (\<lambda>merged.
      andthen (fillSnapshotSizes env (sp_mount p) merged) (\<lambda>(snapshots, ws3).
      let warnings = (if usage = None then [] else ws1) @ ws2 @ ws3 @ ws4 in
      ret \<lparr>pr_pool = p, pr_devices = devices, pr_kind = ''local'', pr_provider = ''btrfs'',
         pr_status = (if mounted then status else ''offline''),
         pr_health = (if \<not> mounted then ''offline'' else if warnings \<noteq> [] then ''warning'' else health),
         pr_mounted = mounted, pr_uuid = (case usage of None \<Rightarrow> [] | Some u \<Rightarrow> bu_uuid u), pr_total = tot0, pr_used = used,
         pr_free = free, pr_percent = percent,
         pr_profiles = (case usage of None \<Rightarrow> [[], [], []] | Some u \<Rightarrow> [bu_data u, bu_metadata u, bu_system u]),
         pr_snapshots = snapshots, pr_warnings = warnings\<rparr>))))))))"

end
