(* ===== verification/Pools.thy ===== *)
theory Pools
  imports Pool_Runtime Passwords
begin

text \<open>
  Creating, configuring, deleting and formatting a storage pool, and replacing one of its devices
  (internal/storagepool/create.go, update.go, delete.go, format.go, replace.go, store.go), with the
  handlers.  A handler's reply is \<open>None\<close> when the code panics: the connection is closed without one.
\<close>

record create_pool_req =
  cq_name :: string
  cq_raid :: string
  cq_paths :: "string list"
  cq_cache :: "string list"
  cq_auto :: bool
  cq_schedule :: string

record update_pool_req =
  uq_auto :: bool
  uq_schedule :: string

record replace_req =
  rq_password :: string
  rq_old :: string
  rq_new :: string

type_synonym pool_row = "pool \<times> pool_device list"

section \<open>Records\<close>

definition load_pool :: "menv \<Rightarrow> psite \<Rightarrow> string \<Rightarrow> pool_row act" where
  "load_pool env site i =
     andthen (query ''storage pool'' (\<lambda>w. pool_Get (m_up env site) i (pw_pools w))) (\<lambda>p.
     andthen (query ''pool devices'' (\<lambda>w. listDevices (m_up env (QDevices i)) (sp_id p) (pw_devices w))) (\<lambda>ds. ret (p, ds)))"

definition load_by_name :: "menv \<Rightarrow> string \<Rightarrow> pool_row option act" where
  "load_by_name env name =
     andthen (query ''check existing storage pool by name'' (\<lambda>w. pool_GetByName (m_up env QPoolName) name (pw_pools w))) (\<lambda>found.
       (case found of
          None \<Rightarrow> ret None
        | Some p \<Rightarrow> andthen (query ''pool devices'' (\<lambda>w. listDevices (m_up env (QDevices (sp_id p))) (sp_id p) (pw_devices w)))
            (\<lambda>ds. ret (Some (p, ds)))))"

primrec with_devices :: "menv \<Rightarrow> pool list \<Rightarrow> pool_row list act" where
  "with_devices env [] = ret []"
| "with_devices env (p # ps) =
     andthen (query ''pool devices'' (\<lambda>w. listDevices (m_up env (QDevices (sp_id p))) (sp_id p) (pw_devices w))) (\<lambda>ds.
     andthen (with_devices env ps) (\<lambda>rest. ret ((p, ds) # rest)))"

definition list_pools :: "menv \<Rightarrow> pool_row list act" where
  "list_pools env = andthen (query ''storage pools'' (\<lambda>w. pool_List (m_up env QPools) (pw_pools w))) (with_devices env)"

text \<open>\<open>Add\<close>: one transaction; the pool's storage must exist.\<close>

fun insert_devices :: "menv \<Rightarrow> string \<Rightarrow> pool_device list \<Rightarrow> pool_device list \<Rightarrow> db_err + pool_device list" where
  "insert_devices env pid [] t = Inr t"
| "insert_devices env pid (d # ds) t =
     (let d' = d\<lparr>pd_id := (if pd_id d = [] then m_row_id env (pd_path d) else pd_id d), pd_pool := pid\<rparr> in
      case insert_row (m_up env (QInsDevice (pd_path d)))
             (\<lambda>a b. pd_id a = pd_id b \<or> (pd_pool a = pd_pool b \<and> pd_path a = pd_path b)) d' t of
        Inl e \<Rightarrow> Inl e
      | Inr t' \<Rightarrow> insert_devices env pid ds t')"

definition pool_Add :: "menv \<Rightarrow> pool \<Rightarrow> pool_device list \<Rightarrow> pworld \<Rightarrow> db_err + pworld" where
  "pool_Add env p ds w =
     (let p' = (if sp_id p = [] then p\<lparr>sp_id := m_pool_id env\<rparr> else p) in
      case insert_row (m_up env QInsPool) pool_clash p' (pw_pools w) of
        Inl e \<Rightarrow> Inl e
      | Inr ps \<Rightarrow>
          if sp_storage p' \<notin> st_id ` set (pw_storages w) then Inl Constraint
          else (case insert_devices env (sp_id p') ds (pw_devices w) of
                  Inl e \<Rightarrow> Inl e
                | Inr dt \<Rightarrow> Inr (w\<lparr>pw_pools := ps, pw_devices := dt\<rparr>)))"

text \<open>Deleting a pool cascades to its devices and snapshots, deleting a storage to its pool.\<close>

definition drop_pools :: "(pool \<Rightarrow> bool) \<Rightarrow> pworld \<Rightarrow> pworld" where
  "drop_pools gone w =
     (let ids = sp_id ` {p \<in> set (pw_pools w). gone p} in
      w\<lparr>pw_pools := tbl_del gone (pw_pools w), pw_devices := tbl_del (\<lambda>d. pd_pool d \<in> ids) (pw_devices w),
        pw_snaps := tbl_del (\<lambda>s. sn_pool s \<in> ids) (pw_snaps w)\<rparr>)"

definition DeleteByID :: "menv \<Rightarrow> string \<Rightarrow> pworld \<Rightarrow> db_err + pworld" where
  "DeleteByID env i w = (if m_up env QDelPool then Inr (drop_pools (\<lambda>p. sp_id p = i) w) else Inl DbFail)"

definition delete_storage :: "menv \<Rightarrow> string \<Rightarrow> pworld \<Rightarrow> db_err + pworld" where
  "delete_storage env i w =
     (case storage_Delete (m_up env QDelStorage) i (pw_storages w) of
        Inl e \<Rightarrow> Inl e
      | Inr t \<Rightarrow> Inr ((drop_pools (\<lambda>p. sp_storage p = i) w)\<lparr>pw_storages := t\<rparr>))"

section \<open>Creating a pool\<close>

definition defaultPoolRoot :: string where "defaultPoolRoot = ''/srv/yesnas/pools''"

definition envOr :: "string \<Rightarrow> string \<Rightarrow> string" where
  "envOr value fallback = (if trim value \<noteq> [] then trim value else fallback)"

definition stat_at :: "menv \<Rightarrow> string \<Rightarrow> fstat act" where
  "stat_at env p = reading (\<lambda>w. m_stat env (pw_log w) p)"

definition cleanupStaleMountPath :: "menv \<Rightarrow> string \<Rightarrow> unit act" where
  "cleanupStaleMountPath env mountPath =
     (if mountPath = [] then ret ()
      else andthen (stat_at env mountPath) (\<lambda>st.
        (case st of
           StMissing \<Rightarrow> ret ()
         | StatError \<Rightarrow> fail (PErr ''check generated mount path'')
         | _ \<Rightarrow>
             andthen (reading (isMountpointActive env mountPath)) (\<lambda>active.
               if active then ret ()
               else andthen (must env ''cleanup stale mount path'' (RemoveAll mountPath)) (\<lambda>_. ret ())))))"

definition storage_at :: "menv \<Rightarrow> string \<Rightarrow> storage option act" where
  "storage_at env p = query ''storage by mount path'' (\<lambda>w. storage_GetByMountPath (m_up env (QMount p)) p (pw_storages w))"

definition generatePoolPathName :: "menv \<Rightarrow> string \<Rightarrow> string \<Rightarrow> string act" where
  "generatePoolPathName env mountRoot name =
     andthen (some_or (stableNameHash name) Panics) (\<lambda>candidate.
     let mountPath = Join [mountRoot, candidate]; dataPath = Join [mountPath, ''data''] in
     andthen (storage_at env mountPath) (\<lambda>atMount.
     andthen (storage_at env dataPath) (\<lambda>atData.
     andthen (check (atMount = None \<and> atData = None) ''generated path name already exists'') (\<lambda>_.
     andthen (cleanupStaleMountPath env mountPath) (\<lambda>_.
     andthen (stat_at env mountPath) (\<lambda>st.
       (case st of
          StMissing \<Rightarrow> ret candidate
        | StatError \<Rightarrow> fail (PErr ''check generated mount path'')
        | _ \<Rightarrow> fail (PErr ''generated path name already exists'')))))))) "

definition ensureCreateAvailable :: "menv \<Rightarrow> string \<Rightarrow> string \<Rightarrow> string \<Rightarrow> unit act" where
  "ensureCreateAvailable env poolName mountPath dataPath =
     andthen (load_by_name env poolName) (\<lambda>existing.
     andthen (check (existing = None) ''storage pool name already exists'') (\<lambda>_.
     andthen (storage_at env mountPath) (\<lambda>atMount.
     andthen (check (atMount = None) ''mount path already exists in storage database'') (\<lambda>_.
     andthen (storage_at env dataPath) (\<lambda>atData.
     check (atData = None) ''data path already exists in storage database'')))))"

definition mkfs_cmd :: "string \<Rightarrow> string \<Rightarrow> string list \<Rightarrow> cmd" where
  "mkfs_cmd name raid paths = Cmd ([''mkfs.btrfs'', ''-K'', ''-f'', ''-L'', name, ''-d'', raid, ''-m'', raid] @ paths) []"

definition initializePoolLayout :: "menv \<Rightarrow> string \<Rightarrow> string \<Rightarrow> unit act" where
  "initializePoolLayout env mountPath dataPath =
     andthen (sh env ''create snapshots directory'' [''mkdir'', ''-p'', Join [mountPath, ''.snapshots'']]) (\<lambda>_.
     sh env ''create data subvolume'' [''btrfs'', ''subvolume'', ''create'', dataPath])"

definition make_filesystem :: "menv \<Rightarrow> string \<Rightarrow> string \<Rightarrow> string list \<Rightarrow> string \<Rightarrow> string \<Rightarrow> unit act" where
  "make_filesystem env name raid paths mountPath dataPath =
     andthen (must env ''mkfs.btrfs failed'' (mkfs_cmd name raid paths)) (\<lambda>_.
     andthen (persistPoolMount env (hd paths) mountPath) (\<lambda>_.
     initializePoolLayout env mountPath dataPath))"

definition add_storage :: "menv \<Rightarrow> storage \<Rightarrow> string act" where
  "add_storage env item w =
     (case storage_Add (m_up env QInsStorage) (m_storage_id env) item (pw_storages w) of
        Inl _ \<Rightarrow> (Inl (PErr ''create storage record''), w)
      | Inr (i, t) \<Rightarrow> (Inr i, w\<lparr>pw_storages := t\<rparr>))"

definition new_storage :: "menv \<Rightarrow> string \<Rightarrow> string \<Rightarrow> string \<Rightarrow> int \<times> int \<Rightarrow> storage" where
  "new_storage env name raid dataPath sizes =
     \<lparr>st_id = [], st_name = name, st_location = ''local'', st_mount = dataPath, st_type = Local, st_provider = [],
      st_host = [], st_port = 0, st_url = [], st_username = [], st_password = [], st_token = [], st_domain = [],
      st_share = [], st_root = [], st_extra = m_extra env name raid ''btrfs'', st_status = Online,
      st_total = fst sizes, st_free = snd sizes, st_updated = m_now env\<rparr>"

definition new_pool :: "menv \<Rightarrow> create_pool_req \<Rightarrow> string \<Rightarrow> string \<Rightarrow> string \<Rightarrow> string \<Rightarrow> string \<Rightarrow> pool" where
  "new_pool env req schedule raid sid mountPath dataPath =
     \<lparr>sp_id = [], sp_storage = sid, sp_name = cq_name req, sp_fs = ''btrfs'', sp_raid = raid, sp_mount = mountPath,
      sp_data = dataPath, sp_auto = cq_auto req, sp_schedule = schedule, sp_last = None,
      sp_next = initialAutoSnapshotNextRun (m_zone env) (cq_auto req) schedule (m_now env), sp_cache = [],
      sp_read_speed = 0, sp_write_speed = 0, sp_tested = None, sp_created = m_now env, sp_updated = Some (m_now env)\<rparr>"

text \<open>What \<open>CreatePool\<close> checks of the request alone.\<close>

definition create_args :: "create_pool_req \<Rightarrow> (string \<times> string \<times> string list) option" where
  "create_args req =
     (if \<not> ValidateName (trim (cq_name req)) then None
      else (case normalizeAutoSnapshot (cq_auto req) (cq_schedule req) of
              Inl _ \<Rightarrow> None
            | Inr schedule \<Rightarrow>
                if cq_cache req \<noteq> [] then None
                else (case normalizeRaidLevel (cq_raid req) of
                        None \<Rightarrow> None
                      | Some raid \<Rightarrow>
                          (case normalizeDevicePaths (cq_paths req) of
                             None \<Rightarrow> None
                           | Some paths \<Rightarrow>
                               if \<not> validateRaidDeviceCount raid (length paths) then None
                               else Some (schedule, raid, paths)))))"

definition CreatePool :: "menv \<Rightarrow> create_pool_req \<Rightarrow> pool_row act" where
  "CreatePool env req =
     andthen (some_or (create_args req) (PErr ''invalid request'')) (\<lambda>(schedule, raid, paths).
     let mountRoot = envOr (m_root env) defaultPoolRoot in
     andthen (generatePoolPathName env mountRoot (cq_name req)) (\<lambda>pathName.
     let mountPath = Join [mountRoot, pathName]; dataPath = Join [mountPath, ''data''] in
     andthen (ensureCreateAvailable env (trim (cq_name req)) mountPath dataPath) (\<lambda>_.
     andthen (must env ''create mount path'' (MkdirAll mountPath)) (\<lambda>_.
     andthen (resolvePoolDevices env paths) (\<lambda>poolDevices.
     andthen (forcePreparePoolDevices env paths) (\<lambda>_.
     andthen (make_filesystem env (cq_name req) raid paths mountPath dataPath) (\<lambda>_.
     andthen (reading (statFilesystem env dataPath)) (\<lambda>sizes.
     andthen (add_storage env (new_storage env (cq_name req) raid dataPath sizes)) (\<lambda>sid.
     andthen (statement ''create storage pool record''
                (pool_Add env (new_pool env req schedule raid sid mountPath dataPath) poolDevices)) (\<lambda>_.
     andthen (list_pools env) (\<lambda>pools.
     some_or (find (\<lambda>row. sp_storage (fst row) = sid) pools) (PErr ''created but failed to reload''))))))))))))"

section \<open>Configuring a pool\<close>

definition UpdatePool :: "menv \<Rightarrow> pool_row \<Rightarrow> update_pool_req \<Rightarrow> pool_row act" where
  "UpdatePool env row req =
     (case normalizeAutoSnapshot (uq_auto req) (uq_schedule req) of
        Inl _ \<Rightarrow> fail (PErr ''schedule'')
      | Inr schedule \<Rightarrow>
          andthen (statement ''update storage pool snapshot settings''
            (on_pools (UpdateAutoSnapshotConfig (m_up env QConfig) (sp_id (fst row)) (uq_auto req) schedule
               (initialAutoSnapshotNextRun (m_zone env) (uq_auto req) schedule (m_now env)) (m_now env)))) (\<lambda>_.
          load_pool env QReload (sp_id (fst row))))"

section \<open>Deleting a pool\<close>

definition cleanupPoolMountPath :: "menv \<Rightarrow> string \<Rightarrow> unit act" where
  "cleanupPoolMountPath env mountPath =
     (if mountPath = [] then ret ()
      else andthen (reading (isMountpointActive env mountPath)) (\<lambda>active.
        if active then fail (PErr ''mount path is still active'')
        else andthen (stat_at env mountPath) (\<lambda>st.
          (case st of
             StMissing \<Rightarrow> ret ()
           | StatError \<Rightarrow> fail (PErr ''stat mount path'')
           | _ \<Rightarrow> sh env ''remove mount path'' [''rm'', ''-rf'', mountPath]))))"

definition unmount_pool :: "menv \<Rightarrow> string \<Rightarrow> unit act" where
  "unmount_pool env mountPath =
     andthen (reading (isMountpointActive env mountPath)) (\<lambda>active.
     andthen (if active then sh env ''unmount pool'' [''umount'', mountPath] else ret ()) (\<lambda>_.
     andthen (removePoolMountUnit env mountPath) (\<lambda>_.
     removeLegacyPoolMountFromFstab env mountPath)))"

record delete_reply =
  dp_id :: string
  dp_released :: "string list"
  dp_snapshots :: "string list"
  dp_wiped :: bool

definition delete_subvolumes :: "menv \<Rightarrow> string \<Rightarrow> string list act" where
  "delete_subvolumes env mountPath =
     andthen (readBtrfsSubvolumes env mountPath) (\<lambda>(items, _).
     let paths = map ss_path (sortSubvolumesDeepestFirst items) in
     andthen (each (\<lambda>p. sh env ''delete subvolume'' [''btrfs'', ''subvolume'', ''delete'', p]) paths) (\<lambda>_. ret paths))"

definition DeletePool :: "menv \<Rightarrow> pool_row \<Rightarrow> bool \<Rightarrow> delete_reply act" where
  "DeletePool env row wipe =
     andthen (query ''load storage record'' (\<lambda>w. storage_Get (m_up env QStorage) (sp_storage (fst row)) (pw_storages w))) (\<lambda>st.
     andthen (check (\<not> (wipe \<and> isCloudStorage st)) ''wipe devices is not supported for cloud storage'') (\<lambda>_.
     andthen (if wipe then delete_subvolumes env (sp_mount (fst row)) else ret []) (\<lambda>deleted.
     andthen (if isCloudStorage st then andthen (must env ''cleanup cloud storage'' (CleanupCloud (st_id st))) (\<lambda>_. ret ()) else ret ()) (\<lambda>_.
     andthen (unmount_pool env (sp_mount (fst row))) (\<lambda>_.
     andthen (statement ''delete storage pool record'' (DeleteByID env (sp_id (fst row)))) (\<lambda>_.
     andthen (statement ''delete storage record'' (delete_storage env (sp_storage (fst row)))) (\<lambda>_.
     andthen (cleanupPoolMountPath env (sp_mount (fst row))) (\<lambda>_.
     andthen (if wipe then each (wipe_device env) (map pd_path (snd row)) else ret ()) (\<lambda>_.
     ret \<lparr>dp_id = sp_id (fst row), dp_released = (if wipe then map pd_path (snd row) else []), dp_snapshots = deleted,
        dp_wiped = wipe\<rparr>)))))))))"

section \<open>Formatting a pool\<close>

definition verifyFormatPassword :: "string \<Rightarrow> unit act" where
  "verifyFormatPassword password =
     (if password = [] then fail PasswordRequired
      else if password \<noteq> ''123'' then fail PasswordInvalid
      else ret ())"

definition update_runtime :: "menv \<Rightarrow> pool \<Rightarrow> string \<Rightarrow> string \<Rightarrow> unit act" where
  "update_runtime env p raid dataPath =
     andthen (reading (statFilesystem env dataPath)) (\<lambda>sizes.
     statement ''update storage runtime''
       (on_storages (storage_UpdateRuntime (m_up env QRuntime) (m_now env) (sp_storage p) dataPath Online (fst sizes) (snd sizes)
          (m_extra env (sp_name p) raid (sp_fs p)))))"

definition FormatPool :: "menv \<Rightarrow> pool_row \<Rightarrow> string \<Rightarrow> pool_response act" where
  "FormatPool env row password =
     (let p = fst row; devicePaths = map (\<lambda>d. trim (pd_path d)) (snd row) in
      andthen (verifyFormatPassword password) (\<lambda>_.
      andthen (check (snd row \<noteq> []) ''storage pool has no devices'') (\<lambda>_.
      andthen (some_or (normalizeRaidLevel (sp_raid p)) (PErr ''unsupported raid level'')) (\<lambda>raid.
      andthen (check ([] \<notin> set devicePaths) ''pool device path is empty'') (\<lambda>_.
      andthen (unmount_pool env (sp_mount p)) (\<lambda>_.
      andthen (each (wipe_device env) devicePaths) (\<lambda>_.
      andthen (must env ''create mount path'' (MkdirAll (sp_mount p))) (\<lambda>_.
      andthen (make_filesystem env (sp_name p) raid devicePaths (sp_mount p) (sp_data p)) (\<lambda>_.
      andthen (statement ''delete snapshot metadata'' (on_snaps (DeleteSnapshotRecordsByPool (m_up env QSnapDelAll) (sp_id p)))) (\<lambda>_.
      andthen (statement ''reset benchmark result'' (on_pools (ResetBenchmarkResult (m_up env QReset) (sp_id p) (m_now env)))) (\<lambda>_.
      andthen (update_runtime env p raid (sp_data p)) (\<lambda>_.
      andthen (load_pool env QReload (sp_id p)) (buildResponse env)))))))))))))"

section \<open>Replacing a device\<close>

definition isPoolReplaceSourceAvailable :: "menv \<Rightarrow> string \<Rightarrow> pworld \<Rightarrow> bool" where
  "isPoolReplaceSourceAvailable env devicePath w \<longleftrightarrow>
     (let cleanPath = trim devicePath; there = (\<lambda>p. m_stat env (pw_log w) p \<in> {StFile, StDir}) in
      cleanPath \<noteq> [] \<and> there cleanPath \<and> there (Join [''/sys/class/block'', Base cleanPath]))"

text \<open>A device line of \<open>btrfs filesystem show\<close>: the number and the path, blank when it has none.\<close>

fun path_field :: "string list \<Rightarrow> string" where
  "path_field (f # v # rest) = (if f = ''path'' then v else path_field (v # rest))"
| "path_field _ = []"

definition btrfs_devices :: "string \<Rightarrow> (string \<times> string) list" where
  "btrfs_devices out =
     map (\<lambda>fs. (fs ! 1, path_field (drop 2 fs)))
       (filter (\<lambda>fs. 2 \<le> length fs \<and> hd fs = ''devid'') (map (\<lambda>l. Fields (trim l)) (split_on newline out)))"

definition replace_source :: "(string \<times> string) list \<Rightarrow> bool \<Rightarrow> string \<Rightarrow> string option" where
  "replace_source devices available old =
     (case find (\<lambda>(devid, path). path = old \<and> (available \<or> Atoi devid \<noteq> None)) devices of
        Some (devid, _) \<Rightarrow> Some (if available then old else devid)
      | None \<Rightarrow>
          (let missing = filter (\<lambda>(devid, path). path = ''missing'' \<or> path = []) devices in
           if length missing = 1 \<and> Atoi (fst (hd missing)) \<noteq> None then Some (fst (hd missing))
           else if available then Some old
           else None))"

definition resolveReplaceSourceArg :: "menv \<Rightarrow> pool \<Rightarrow> string \<Rightarrow> string act" where
  "resolveReplaceSourceArg env p old =
     andthen (reading (isPoolReplaceSourceAvailable env old)) (\<lambda>available.
     andthen (must env ''inspect btrfs devices'' (Cmd [''btrfs'', ''filesystem'', ''show'', sp_mount p] [])) (\<lambda>out.
     some_or (replace_source (btrfs_devices out) available old) (PErr ''unable to resolve replace source'')))"

definition replaced_device :: "pool_device \<Rightarrow> pool_device \<Rightarrow> pool_device" where
  "replaced_device old new = new\<lparr>pd_id := pd_id old, pd_pool := pd_pool old\<rparr>"

definition ReplaceDevice :: "menv \<Rightarrow> pool_row \<Rightarrow> replace_req \<Rightarrow> (string \<times> pool_response) act" where
  "ReplaceDevice env row req =
     (let p = fst row; old = trim (rq_old req); new = trim (rq_new req) in
      andthen (verifyFormatPassword (rq_password req)) (\<lambda>_.
      andthen (reading (isMountpointActive env (sp_mount p))) (\<lambda>active.
      andthen (check active ''storage pool is offline'') (\<lambda>_.
      andthen (check (trim (sp_fs p) = ''btrfs'') ''only supported for btrfs pools'') (\<lambda>_.
      andthen (check (old \<noteq> [] \<and> new \<noteq> []) ''oldDevicePath and newDevicePath are required'') (\<lambda>_.
      andthen (check (old \<noteq> new) ''oldDevicePath and newDevicePath must be different'') (\<lambda>_.
      andthen (some_or (find (\<lambda>d. trim (pd_path d) = old) (snd row)) (PErr ''old device is not part of the storage pool'')) (\<lambda>oldRecord.
      andthen (query ''check new device registration'' (\<lambda>w. HasDevice (m_up env (QHasDevice new)) new (pw_devices w))) (\<lambda>registered.
      andthen (check (\<not> registered) ''new device is already registered'') (\<lambda>_.
      andthen (forcePreparePoolDevices env [new]) (\<lambda>_.
      andthen (resolvePoolDevices env [new]) (\<lambda>newDevices.
      andthen (resolveReplaceSourceArg env p old) (\<lambda>sourceArg.
      andthen (sh env ''replace btrfs device'' [''btrfs'', ''replace'', ''start'', ''-B'', sourceArg, new, sp_mount p]) (\<lambda>_.
      andthen (statement ''update storage pool device record''
                 (on_devices (UpdateDevice (m_up env QUpdDevice) (replaced_device oldRecord (hd newDevices))))) (\<lambda>_.
      andthen (statement ''reset benchmark result'' (on_pools (ResetBenchmarkResult (m_up env QReset) (sp_id p) (m_now env)))) (\<lambda>_.
      andthen (load_pool env QReload (sp_id p)) (\<lambda>reloaded.
      andthen (buildResponse env reloaded) (\<lambda>resp.
      ret (sourceArg, resp)))))))))))))))))))"

section \<open>Handlers\<close>

definition paudit :: "string \<Rightarrow> string \<Rightarrow> bool \<Rightarrow> string \<Rightarrow> string \<Rightarrow> pworld \<Rightarrow> pworld" where
  "paudit event action ok rtype rid w = w\<lparr>pw_audit := pw_audit w @ [Audit event action ok rtype rid]\<rparr>"

definition HandleCreatePool :: "menv \<Rightarrow> create_pool_req option \<Rightarrow> pworld \<Rightarrow> pool_row resp option \<times> pworld" where
  "HandleCreatePool env body w =
     (case body of
        None \<Rightarrow> (Some (Fail 400 ''INVALID_BODY''), w)
      | Some req \<Rightarrow>
          (case CreatePool env req w of
             (Inl Panics, w1) \<Rightarrow> (None, w1)
           | (Inl _, w1) \<Rightarrow> (Some (Fail 400 ''CREATE_STORAGE_POOL_FAILED''),
               paudit ''storage_pool_create_failed'' ''create'' False ''storage_pool'' [] w1)
           | (Inr row, w1) \<Rightarrow> (Some (Reply 201 row),
               paudit ''storage_pool_created'' ''create'' True ''storage_pool'' (sp_id (fst row)) w1)))"

definition with_pool :: "menv \<Rightarrow> string \<Rightarrow> (pool_row \<Rightarrow> pworld \<Rightarrow> 'a resp \<times> pworld) \<Rightarrow> pworld \<Rightarrow> 'a resp \<times> pworld" where
  "with_pool env poolId f w =
     (case load_pool env QPool (trim poolId) w of
        (Inl _, w1) \<Rightarrow> (Fail 404 ''STORAGE_POOL_NOT_FOUND'', w1)
      | (Inr row, w1) \<Rightarrow> f row w1)"

definition HandleUpdatePool :: "menv \<Rightarrow> string \<Rightarrow> update_pool_req option \<Rightarrow> pworld \<Rightarrow> pool_row resp \<times> pworld" where
  "HandleUpdatePool env poolId body =
     with_pool env poolId (\<lambda>row w.
       (case body of
          None \<Rightarrow> (Fail 400 ''INVALID_BODY'', w)
        | Some req \<Rightarrow>
            (case UpdatePool env row req w of
               (Inl _, w1) \<Rightarrow> (Fail 400 ''UPDATE_STORAGE_POOL_FAILED'',
                 paudit ''storage_pool_update_failed'' ''update'' False ''storage_pool'' (sp_id (fst row)) w1)
             | (Inr row', w1) \<Rightarrow> (Reply 200 row',
                 paudit ''storage_pool_updated'' ''update'' True ''storage_pool'' (sp_id (fst row')) w1))))"

text \<open>A request without a body wipes nothing; \<open>body\<close> is \<open>None\<close> when a body does not decode.\<close>

definition HandleDeletePool :: "menv \<Rightarrow> string \<Rightarrow> bool \<Rightarrow> bool option \<Rightarrow> pworld \<Rightarrow> delete_reply resp \<times> pworld" where
  "HandleDeletePool env poolId has_body body =
     with_pool env poolId (\<lambda>row w.
       (case (if has_body then body else Some False) of
          None \<Rightarrow> (Fail 400 ''INVALID_BODY'', w)
        | Some wipe \<Rightarrow>
            (case DeletePool env row wipe w of
               (Inl _, w1) \<Rightarrow> (Fail 400 ''DELETE_STORAGE_POOL_FAILED'',
                 paudit ''storage_pool_delete_failed'' ''delete'' False ''storage_pool'' (sp_id (fst row)) w1)
             | (Inr rep, w1) \<Rightarrow> (Reply 200 rep,
                 paudit ''storage_pool_deleted'' ''delete'' True ''storage_pool'' (sp_id (fst row)) w1))))"

definition password_reply :: "perr \<Rightarrow> string \<Rightarrow> (nat \<times> string) option" where
  "password_reply e pre =
     (case e of
        PasswordRequired \<Rightarrow> Some (400, pre @ ''_PASSWORD_REQUIRED'')
      | PasswordInvalid \<Rightarrow> Some (403, pre @ ''_PASSWORD_INVALID'')
      | _ \<Rightarrow> None)"

definition HandleFormatPool :: "menv \<Rightarrow> string \<Rightarrow> string option \<Rightarrow> pworld \<Rightarrow> pool_response resp \<times> pworld" where
  "HandleFormatPool env poolId body =
     with_pool env poolId (\<lambda>row w.
       (case body of
          None \<Rightarrow> (Fail 400 ''INVALID_BODY'', w)
        | Some password \<Rightarrow>
            (case FormatPool env row password w of
               (Inl e, w1) \<Rightarrow>
                 (case password_reply e ''FORMAT'' of
                    Some (n, c) \<Rightarrow> (Fail n c, w1)
                  | None \<Rightarrow> (Fail 400 ''FORMAT_STORAGE_POOL_FAILED'',
                      paudit ''storage_pool_format_failed'' ''format'' False ''storage_pool'' (sp_id (fst row)) w1))
             | (Inr row', w1) \<Rightarrow> (Reply 200 row',
                 paudit ''storage_pool_formatted'' ''format'' True ''storage_pool'' (sp_id (fst row)) w1))))"

definition HandleReplaceDevice :: "menv \<Rightarrow> string \<Rightarrow> replace_req option \<Rightarrow> pworld \<Rightarrow> (string \<times> pool_response) resp \<times> pworld" where
  "HandleReplaceDevice env poolId body =
     with_pool env poolId (\<lambda>row w.
       (case body of
          None \<Rightarrow> (Fail 400 ''INVALID_BODY'', w)
        | Some req \<Rightarrow>
            (case ReplaceDevice env row req w of
               (Inl e, w1) \<Rightarrow>
                 (case password_reply e ''REPLACE_DEVICE'' of
                    Some (n, c) \<Rightarrow> (Fail n c, w1)
                  | None \<Rightarrow> (Fail 400 ''REPLACE_STORAGE_POOL_DEVICE_FAILED'',
                      paudit ''storage_pool_replace_device_failed'' ''replace_device'' False ''storage_pool'' (sp_id (fst row)) w1))
             | (Inr rep, w1) \<Rightarrow> (Reply 200 rep,
                 paudit ''storage_pool_device_replaced'' ''replace_device'' True ''storage_pool'' (sp_id (fst row)) w1))))"

end
