(* ===== verification/Pool_Snapshots.thy ===== *)
theory Pool_Snapshots
  imports Pools
begin

text \<open>Listing, creating, deleting and restoring snapshots of a pool (internal/storagepool/snapshots.go).\<close>

record create_snapshot_req =
  cs_name :: string
  cs_source :: string
  cs_description :: string
  cs_readonly :: "bool option"
  cs_created_by :: string

record restore_req =
  rs_password :: string
  rs_backup :: bool

definition snapshotCreatedBy :: "string \<Rightarrow> string" where
  "snapshotCreatedBy value = (if trim value = [] then ''api'' else trim value)"

definition snapshots_dir :: "string \<Rightarrow> string" where
  "snapshots_dir mountPath = Join [mountPath, ''.snapshots'']"

definition ListSnapshots :: "menv \<Rightarrow> pool \<Rightarrow> (snap list \<times> string list) act" where
  "ListSnapshots env p =
     andthen (readBtrfsSnapshots env (sp_mount p)) (\<lambda>(items, ws).
     andthen (merged_snapshots env (sp_id p) (sp_mount p) items) (\<lambda>merged.
     andthen (fillSnapshotSizes env (sp_mount p) merged) (\<lambda>(snaps, ws'). ret (snaps, ws @ ws'))))"

text \<open>The name of the directory: what is left of the requested name, else the time.\<close>

definition snapshot_path_name :: "menv \<Rightarrow> string \<Rightarrow> string" where
  "snapshot_path_name env name = (if sanitizeSnapshotName name = [] then m_stamp env else sanitizeSnapshotName name)"

text \<open>A snapshot's pool must exist: a foreign key.\<close>

definition add_snapshot :: "menv \<Rightarrow> string \<Rightarrow> snapshot_row \<Rightarrow> unit act" where
  "add_snapshot env what r =
     statement what (\<lambda>w. if sn_pool r \<notin> sp_id ` set (pw_pools w) then Inl Constraint
       else on_snaps (AddSnapshot (m_up env QSnapAdd) (m_row_id env (sn_path r)) r) w)"

definition new_snapshot_row :: "menv \<Rightarrow> string \<Rightarrow> string \<Rightarrow> string \<Rightarrow> string \<Rightarrow> bool \<Rightarrow> string \<Rightarrow> string \<Rightarrow> snapshot_row" where
  "new_snapshot_row env poolId name path source ro description createdBy =
     \<lparr>sn_id = [], sn_pool = poolId, sn_name = name, sn_path = path, sn_source = source, sn_readonly = ro,
      sn_description = description, sn_created_by = createdBy, sn_system = 0, sn_generation = 0,
      sn_created = m_now env, sn_updated = Some (m_now env)\<rparr>"

definition CreateSnapshot :: "menv \<Rightarrow> pool \<Rightarrow> create_snapshot_req \<Rightarrow> snap act" where
  "CreateSnapshot env p req =
     (let pathName = snapshot_path_name env (cs_name req);
          displayName = (if trim (cs_name req) = [] then pathName else trim (cs_name req));
          readOnly = (case cs_readonly req of None \<Rightarrow> True | Some b \<Rightarrow> b);
          targetPath = Join [snapshots_dir (sp_mount p), pathName] in
      andthen (reading (\<lambda>w. resolveSnapshotSourcePath (\<lambda>q. m_stat env (pw_log w) q = StDir) (sp_mount p) (cs_source req))) (\<lambda>src.
      andthen (some_or src (PErr ''snapshot source path must stay inside pool mount path'')) (\<lambda>sourcePath.
      andthen (sh env ''create snapshots directory'' [''mkdir'', ''-p'', snapshots_dir (sp_mount p)]) (\<lambda>_.
      andthen (stat_at env targetPath) (\<lambda>st.
      andthen (check (st = StMissing \<or> st = StatError) ''snapshot already exists'') (\<lambda>_.
      andthen (sh env ''create btrfs snapshot''
        ([''btrfs'', ''subvolume'', ''snapshot''] @ (if readOnly then [''-r''] else []) @ [sourcePath, targetPath])) (\<lambda>_.
      andthen (add_snapshot env ''save snapshot metadata''
        (new_snapshot_row env (sp_id p) displayName targetPath sourcePath readOnly (trim (cs_description req))
           (snapshotCreatedBy (cs_created_by req)))) (\<lambda>_.
      andthen (readBtrfsSnapshots env (sp_mount p)) (\<lambda>(registered, warnings).
      andthen (merged_snapshots env (sp_id p) (sp_mount p) registered) (\<lambda>merged.
      ret (case find (\<lambda>s. ss_path s = normalizeSnapshotPath (sp_mount p) targetPath) merged of
             Some item \<Rightarrow>
               (if warnings \<noteq> [] \<and> ss_description item = [] then item\<lparr>ss_description := trim (cs_description req)\<rparr> else item)
           | None \<Rightarrow>
               \<lparr>ss_id = [], ss_system = 0, ss_gen = 0, ss_top = 0, ss_path = targetPath, ss_name = displayName,
                ss_source = sourcePath, ss_size = 0, ss_description = trim (cs_description req),
                ss_created_by = snapshotCreatedBy (cs_created_by req), ss_created = Some (m_now env), ss_updated = None,
                ss_readonly = readOnly, ss_registered = True\<rparr>)))))))))))"

definition DeleteSnapshot :: "menv \<Rightarrow> pool \<Rightarrow> string \<Rightarrow> string act" where
  "DeleteSnapshot env p snapshotId =
     andthen (query ''snapshot'' (\<lambda>w. GetSnapshotRecord (m_up env QSnapGet) (sp_id p) (trim snapshotId) (pw_snaps w))) (\<lambda>meta.
     andthen (sh env ''delete snapshot'' [''btrfs'', ''subvolume'', ''delete'', sn_path meta]) (\<lambda>_.
     andthen (statement ''delete snapshot metadata'' (on_snaps (DeleteSnapshotRecord (m_up env QSnapDel) (sp_id p) (sn_id meta)))) (\<lambda>_.
     ret (sn_id meta))))"

definition pool_data_path :: "pool \<Rightarrow> string" where
  "pool_data_path p = (if trim (sp_data p) = [] then Join [sp_mount p, ''data''] else sp_data p)"

definition restore_backup :: "menv \<Rightarrow> pool \<Rightarrow> string \<Rightarrow> string act" where
  "restore_backup env p dataPath =
     (let backupPath = Join [sp_mount p, ''.snapshots'', ''restore-backup-'' @ m_stamp env] in
      andthen (sh env ''create restore backup snapshot'' [''btrfs'', ''subvolume'', ''snapshot'', ''-r'', dataPath, backupPath]) (\<lambda>_.
      andthen (add_snapshot env ''save restore backup snapshot metadata''
        (new_snapshot_row env (sp_id p) (Base backupPath) backupPath dataPath True ''automatic backup before restore'' ''restore'')) (\<lambda>_.
      ret backupPath)))"

definition delete_subvolume_cmd :: "string \<Rightarrow> string list" where
  "delete_subvolume_cmd p = [''btrfs'', ''subvolume'', ''delete'', p]"

definition RestoreSnapshot :: "menv \<Rightarrow> pool \<Rightarrow> string \<Rightarrow> restore_req \<Rightarrow> (string \<times> string) act" where
  "RestoreSnapshot env p snapshotId req =
     andthen (verifyFormatPassword (rs_password req)) (\<lambda>_.
     andthen (query ''snapshot'' (\<lambda>w. GetSnapshotRecord (m_up env QSnapGet) (sp_id p) (trim snapshotId) (pw_snaps w))) (\<lambda>meta.
     andthen (reading (isMountpointActive env (sp_mount p))) (\<lambda>active.
     andthen (check active ''storage pool is offline'') (\<lambda>_.
     let dataPath = pool_data_path p in
     andthen (check (trim (sn_source meta) \<noteq> []) ''snapshot source path is empty'') (\<lambda>_.
     andthen (check (Clean (sn_source meta) = Clean dataPath) ''snapshot source path does not match pool data path'') (\<lambda>_.
     andthen (if rs_backup req then restore_backup env p dataPath else ret []) (\<lambda>backupPath.
     andthen (sh env ''delete current data subvolume'' (delete_subvolume_cmd dataPath)) (\<lambda>_.
     andthen (sh env ''restore snapshot to data subvolume'' [''btrfs'', ''subvolume'', ''snapshot'', sn_path meta, dataPath]) (\<lambda>_.
     andthen (update_runtime env p (sp_raid p) dataPath) (\<lambda>_.
     ret (sn_id meta, backupPath)))))))))))"

section \<open>Handlers\<close>

definition HandleListSnapshots :: "menv \<Rightarrow> string \<Rightarrow> pworld \<Rightarrow> (snap list \<times> string list) resp \<times> pworld" where
  "HandleListSnapshots env poolId =
     with_pool env poolId (\<lambda>row w.
       (case ListSnapshots env (fst row) w of
          (Inl _, w1) \<Rightarrow> (Fail 500 [], w1)
        | (Inr x, w1) \<Rightarrow> (Reply 200 x, w1)))"

definition HandleCreateSnapshot :: "menv \<Rightarrow> string \<Rightarrow> create_snapshot_req option \<Rightarrow> pworld \<Rightarrow> snap resp \<times> pworld" where
  "HandleCreateSnapshot env poolId body =
     with_pool env poolId (\<lambda>row w.
       (case body of
          None \<Rightarrow> (Fail 400 ''INVALID_BODY'', w)
        | Some req \<Rightarrow>
            (case CreateSnapshot env (fst row) (req\<lparr>cs_created_by := []\<rparr>) w of
               (Inl _, w1) \<Rightarrow> (Fail 400 ''CREATE_STORAGE_POOL_SNAPSHOT_FAILED'',
                 paudit ''snapshot_create_failed'' ''create'' False ''storage_pool_snapshot'' (sp_id (fst row)) w1)
             | (Inr s, w1) \<Rightarrow> (Reply 201 s,
                 paudit ''snapshot_created'' ''create'' True ''storage_pool_snapshot'' (ss_id s) w1))))"

definition HandleDeleteSnapshot :: "menv \<Rightarrow> string \<Rightarrow> string \<Rightarrow> pworld \<Rightarrow> string resp \<times> pworld" where
  "HandleDeleteSnapshot env poolId snapshotId =
     with_pool env poolId (\<lambda>row w.
       (case DeleteSnapshot env (fst row) (trim snapshotId) w of
          (Inl _, w1) \<Rightarrow> (Fail 400 ''DELETE_STORAGE_POOL_SNAPSHOT_FAILED'',
            paudit ''snapshot_delete_failed'' ''delete'' False ''storage_pool_snapshot'' snapshotId w1)
        | (Inr i, w1) \<Rightarrow> (Reply 200 i,
            paudit ''snapshot_deleted'' ''delete'' True ''storage_pool_snapshot'' (trim snapshotId) w1)))"

definition HandleRestoreSnapshot ::
  "menv \<Rightarrow> string \<Rightarrow> string \<Rightarrow> bool \<Rightarrow> restore_req option \<Rightarrow> pworld \<Rightarrow> (string \<times> string) resp \<times> pworld" where
  "HandleRestoreSnapshot env poolId snapshotId has_body body =
     with_pool env poolId (\<lambda>row w.
       (case (if has_body then body else Some \<lparr>rs_password = [], rs_backup = False\<rparr>) of
          None \<Rightarrow> (Fail 400 ''INVALID_BODY'', w)
        | Some req \<Rightarrow>
            (case RestoreSnapshot env (fst row) (trim snapshotId) req w of
               (Inl e, w1) \<Rightarrow>
                 (case password_reply e ''RESTORE'' of
                    Some (n, c) \<Rightarrow> (Fail n c, w1)
                  | None \<Rightarrow> (Fail 400 ''RESTORE_STORAGE_POOL_SNAPSHOT_FAILED'',
                      paudit ''snapshot_restore_failed'' ''restore'' False ''storage_pool_snapshot'' (trim snapshotId) w1))
             | (Inr rep, w1) \<Rightarrow> (Reply 200 rep,
                 paudit ''snapshot_restored'' ''restore'' True ''storage_pool_snapshot'' (trim snapshotId) w1))))"

end
