(* ===== verification/Pool_List.thy ===== *)
theory Pool_List
  imports Pools
begin

text \<open>
  The list of pools (internal/storagepool/list.go): local pools, and cloud and network storages,
  whose pool record is written when they are listed (runtime.go, \<open>UpsertCloudPoolRecord\<close> of store.go).
\<close>

definition IsNetworkProvider :: "string \<Rightarrow> bool" where
  "IsNetworkProvider p \<longleftrightarrow> trim p \<in> {''ftp'', ''webdav'', ''smb'', ''nfs''}"

definition isNetworkStorage :: "storage \<Rightarrow> bool" where
  "isNetworkStorage item \<longleftrightarrow> IsNetworkProvider (st_provider item) \<or> st_type item \<in> {FTP, WebDAV, SMB, NFS}"

definition isCloudPoolRecord :: "pool \<Rightarrow> bool" where
  "isCloudPoolRecord p \<longleftrightarrow> isCloudProvider (sp_fs p) \<or> IsNetworkProvider (sp_fs p)"

definition deriveCloudHealth :: "storage_status \<Rightarrow> string" where
  "deriveCloudHealth s = (case s of Online \<Rightarrow> ''healthy'' | StError \<Rightarrow> ''error'' | Offline \<Rightarrow> ''offline'')"

definition cloudStoragePool :: "storage \<Rightarrow> pool" where
  "cloudStoragePool item =
     \<lparr>sp_id = st_id item, sp_storage = st_id item, sp_name = st_name item, sp_fs = st_provider item, sp_raid = ''single'',
      sp_mount = st_mount item, sp_data = st_mount item, sp_auto = False, sp_schedule = [], sp_last = None, sp_next = None,
      sp_cache = [], sp_read_speed = 0, sp_write_speed = 0, sp_tested = None, sp_created = st_updated item, sp_updated = None\<rparr>"

definition clampNonNegativeInt64 :: "int \<Rightarrow> int" where
  "clampNonNegativeInt64 v = (if v < 0 then 0 else v)"

definition buildCloudResponse :: "menv \<Rightarrow> storage \<Rightarrow> pworld \<Rightarrow> pool_response" where
  "buildCloudResponse env item w =
     (let mounted = (if has_prefix ''/'' (trim (st_mount item)) then isMountpointActive env (st_mount item) w
                     else st_status item = Online);
          (status, health) =
            (if mounted then (''online'', ''healthy'')
             else if st_status item = Online then (''online'', ''warning'')
             else if st_status item = StError then (''error'', ''error'')
             else (''offline'', ''offline''));
          tot = nat (clampNonNegativeInt64 (st_total item));
          used = nat (clampNonNegativeInt64 (int64 (st_total item - st_free item))) in
      \<lparr>pr_pool = cloudStoragePool item, pr_devices = [], pr_kind = (if isNetworkStorage item then ''network'' else ''cloud''),
       pr_provider = st_provider item, pr_status = status, pr_health = health, pr_mounted = mounted, pr_uuid = [],
       pr_total = tot, pr_used = used, pr_free = nat (clampNonNegativeInt64 (st_free item)),
       pr_percent = calculateUsagePercent (word_of_nat used) (word_of_nat tot), pr_profiles = [[], [], []],
       pr_snapshots = [],
       pr_warnings = (if st_status item = Online \<and> \<not> mounted then [''local mount is not active''] else [])\<rparr>)"

text \<open>Insert, or update the row of that id; speeds and the creation time of an existing row stay.\<close>

definition UpsertCloudPoolRecord :: "menv \<Rightarrow> pool \<Rightarrow> pworld \<Rightarrow> db_err + pworld" where
  "UpsertCloudPoolRecord env p w =
     (if sp_id p = [] then Inl Constraint
      else if \<not> m_up env (QCloud (sp_id p)) then Inl DbFail
      else if sp_storage p \<notin> st_id ` set (pw_storages w) then Inl Constraint
      else if \<exists>q\<in>set (pw_pools w). sp_id q \<noteq> sp_id p \<and> pool_clash p q then Inl Constraint
      else if sp_id p \<in> sp_id ` set (pw_pools w) then
        Inr (w\<lparr>pw_pools := tbl_upd (\<lambda>q. sp_id q = sp_id p)
          (\<lambda>q. q\<lparr>sp_storage := sp_storage p, sp_name := sp_name p, sp_fs := sp_fs p, sp_raid := sp_raid p,
             sp_mount := sp_mount p, sp_data := sp_data p, sp_auto := sp_auto p, sp_schedule := sp_schedule p,
             sp_last := sp_last p, sp_next := sp_next p, sp_cache := sp_cache p, sp_updated := Some (m_now env)\<rparr>) (pw_pools w)\<rparr>)
      else Inr (w\<lparr>pw_pools := pw_pools w @
        [p\<lparr>sp_read_speed := 0, sp_write_speed := 0, sp_tested := None, sp_created := m_now env, sp_updated := Some (m_now env)\<rparr>]\<rparr>))"

primrec BuildResponses :: "menv \<Rightarrow> pool_row list \<Rightarrow> pool_response list act" where
  "BuildResponses env [] = ret []"
| "BuildResponses env (row # rows) =
     (if isCloudPoolRecord (fst row) then BuildResponses env rows
      else andthen (buildResponse env row) (\<lambda>r. andthen (BuildResponses env rows) (\<lambda>rs. ret (r # rs))))"

definition cloud_response :: "menv \<Rightarrow> storage \<Rightarrow> pworld \<Rightarrow> pool_response \<times> pworld" where
  "cloud_response env item w =
     (case UpsertCloudPoolRecord env (cloudStoragePool item) w of
        Inl _ \<Rightarrow>
          (let r = buildCloudResponse env item w in
           (r\<lparr>pr_warnings := pr_warnings r @ [''save cloud storage pool record'']\<rparr>, w))
      | Inr w1 \<Rightarrow>
          (let r = buildCloudResponse env item w1 in
           case load_pool env (QCloudGet (st_id item)) (st_id item) w1 of
             (Inl _, w2) \<Rightarrow> (r, w2)
           | (Inr (p, ds), w2) \<Rightarrow>
               (r\<lparr>pr_pool := p, pr_devices := map (\<lambda>d. \<lparr>dv_device = d, dv_state = [], dv_health = []\<rparr>) ds\<rparr>, w2)))"

primrec BuildCloudResponses :: "menv \<Rightarrow> storage list \<Rightarrow> pworld \<Rightarrow> pool_response list \<times> pworld" where
  "BuildCloudResponses env [] w = ([], w)"
| "BuildCloudResponses env (item # items) w =
     (if \<not> isCloudStorage item \<and> \<not> isNetworkStorage item then BuildCloudResponses env items w
      else (let (r, w1) = cloud_response env item w; (rs, w2) = BuildCloudResponses env items w1 in (r # rs, w2)))"

definition list_inputs :: "menv \<Rightarrow> (pool_row list \<times> storage list) act" where
  "list_inputs env =
     andthen (list_pools env) (\<lambda>pools.
     andthen (query ''cloud storages'' (\<lambda>w. storage_List (m_up env QStorages) (pw_storages w))) (\<lambda>storages.
     ret (pools, storages)))"

definition HandleListPools :: "menv \<Rightarrow> pworld \<Rightarrow> pool_response list resp \<times> pworld" where
  "HandleListPools env w =
     (case list_inputs env w of
        (Inl _, w1) \<Rightarrow> (Fail 500 ''LIST_STORAGE_POOLS_FAILED'', w1)
      | (Inr (pools, storages), w1) \<Rightarrow>
          (case BuildResponses env pools w1 of
             (Inl _, w2) \<Rightarrow> (Fail 500 ''LIST_STORAGE_POOLS_FAILED'', w2)
           | (Inr items, w2) \<Rightarrow> (case BuildCloudResponses env storages w2 of (others, w3) \<Rightarrow> (Reply 200 (items @ others), w3))))"

end
