(* ===== verification/Pool_Actions.thy ===== *)
theory Pool_Actions
  imports Pool_Snapshots Pool_List
begin

text \<open>
  The interface between the pool operations and what is proved of whole requests.  A relation between
  states that is reflexive and transitive, and that every command that destroys nothing respects
  (\<open>log_relation\<close>), is respected by the operations that only read and mount; one that also respects
  the statements on storages, pools and snapshots (\<open>action_relation\<close>), by those that handle snapshots
  and answer.  \<open>Pool_Safety\<close>, \<open>Pool_Tables\<close> and \<open>Pool_Results\<close> interpret them.
\<close>

section \<open>Harmless commands\<close>

definition harmless :: "cmd \<Rightarrow> bool" where
  "harmless c \<longleftrightarrow> (case c of Cmd (x # _) _ \<Rightarrow> x \<noteq> ''wipefs'' \<and> x \<noteq> ''mkfs.btrfs'' | _ \<Rightarrow> True)"

lemma harmless_simps [simp]:
  "harmless (Cmd (x # xs) s) \<longleftrightarrow> x \<noteq> ''wipefs'' \<and> x \<noteq> ''mkfs.btrfs''" "harmless (MkdirAll p)" "harmless (RemoveAll p)"
  "harmless (CleanupCloud i)" "harmless (lsblk_cmd p)"
  by (simp_all add: harmless_def lsblk_cmd_def)

section \<open>Case distinctions\<close>

lemma steps_fstat: "(st = StMissing \<Longrightarrow> steps R a) \<Longrightarrow> (st = StFile \<Longrightarrow> steps R b) \<Longrightarrow> (st = StDir \<Longrightarrow> steps R c) \<Longrightarrow>
    (st = StatError \<Longrightarrow> steps R d) \<Longrightarrow> steps R (case st of StMissing \<Rightarrow> a | StFile \<Rightarrow> b | StDir \<Rightarrow> c | StatError \<Rightarrow> d)"
  by (cases st) simp_all

lemma steps_fread: "(\<And>t. steps R (a t)) \<Longrightarrow> steps R b \<Longrightarrow> steps R c \<Longrightarrow>
    steps R (case r of FText t \<Rightarrow> a t | FMissing \<Rightarrow> b | FError \<Rightarrow> c)"
  by (cases r) simp_all

section \<open>The operations, for any such relation\<close>

locale log_relation =
  fixes R :: "pworld \<Rightarrow> pworld \<Rightarrow> bool"
  assumes reflexive: "reflp R"
    and transitive: "transp R"
    and log: "harmless c \<Longrightarrow> R w (w\<lparr>pw_log := pw_log w @ [c]\<rparr>)"
begin

lemma issue: "harmless c \<Longrightarrow> steps R (issue env c)"
  by (simp add: steps_def wp_simps log)

lemma must_act: "harmless c \<Longrightarrow> steps R (must env what c)"
  unfolding must_def by (intro steps_andthen issue steps_some_or reflexive transitive)

lemma sh_act: "harmless (Cmd args []) \<Longrightarrow> steps R (sh env what args)"
  unfolding sh_def by (intro steps_andthen must_act steps_ret reflexive transitive)

lemmas intros = steps_intros steps_if steps_option steps_fstat steps_fread steps_prod steps_list steps_sum steps_Let
  reflexive transitive issue must_act sh_act

lemma pieces:
  "steps R (unit_name env m)" "steps R (stat_at env m)" "steps R (storage_at env m)"
  "steps R (loadSinglePoolDevice env p cache)"
  unfolding unit_name_def stat_at_def storage_at_def loadSinglePoolDevice_def
  by (intro intros; simp)+

lemma mounts:
  "steps R (persistPoolMount env d m)" "steps R (removePoolMountUnit env m)"
  "steps R (removeLegacyPoolMountFromFstab env m)" "steps R (cleanupStaleMountPath env m)"
  "steps R (cleanupPoolMountPath env m)" "steps R (initializePoolLayout env m dp)"
  unfolding persistPoolMount_def removePoolMountUnit_def removeLegacyPoolMountFromFstab_def cleanupStaleMountPath_def
    cleanupPoolMountPath_def initializePoolLayout_def
  by (intro intros pieces; simp)+

lemma load_act:
  "steps R (load_pool env s i)" "steps R (load_by_name env n)" "steps R (with_devices env ps)"
  "steps R (list_pools env)"
proof -
  show w: "steps R (with_devices env ps)" for ps
    by (induction ps) (simp_all, (intro intros | assumption)+)
  show "steps R (load_pool env s i)" "steps R (load_by_name env n)" "steps R (list_pools env)"
    unfolding load_pool_def load_by_name_def list_pools_def by (intro intros w)+
qed

lemma inspect_act: "steps R (inspectPoolDevice env p cache)"
  unfolding inspectPoolDevice_def by (intro intros pieces; simp)

lemma resolve: "steps R (resolvePoolDevices env ps)"
proof -
  have "steps R (load_devices env ps cache result)" for cache result
    by (induction ps arbitrary: cache result) (simp_all, (intro intros inspect_act | assumption)+)
  then show ?thesis
    unfolding resolvePoolDevices_def loadPoolDeviceMetadata_def by (intro intros)
qed

lemma health: "steps R (readPoolDeviceHealth env p)"
  unfolding readPoolDeviceHealth_def by (intro intros; simp)

lemma subvolumes: "steps R (readBtrfsSubvolumes env m)" "steps R (readBtrfsSnapshots env m)"
  unfolding readBtrfsSubvolumes_def readBtrfsSnapshots_def readBtrfsSubvolumesWithArgs_def by (intro intros; simp)+

lemma sizes: "steps R (fillSnapshotSizes env m ss)"
  by (induction ss) (simp_all, (intro conjI impI intros; simp)+)

lemma create_start:
  "steps R (generatePoolPathName env r n)" "steps R (ensureCreateAvailable env n m d)"
  unfolding generatePoolPathName_def ensureCreateAvailable_def
  by (intro intros pieces mounts load_act)+

lemma unmount: "steps R (unmount_pool env m)"
  unfolding unmount_pool_def by (intro intros mounts; simp)

lemma password: "steps R (verifyFormatPassword pw)"
  unfolding verifyFormatPassword_def by (intro intros)

lemma source: "steps R (resolveReplaceSourceArg env p d)"
  unfolding resolveReplaceSourceArg_def by (intro intros; simp)

lemma inputs: "steps R (list_inputs env)"
  unfolding list_inputs_def by (intro intros load_act)

end

text \<open>Operations with statements on the tables of storages, pools and snapshots.\<close>

locale action_relation = log_relation +
  assumes merged: "steps R (merged_snapshots env i m items)"
    and add: "steps R (add_snapshot env what r)"
    and drop: "steps R (statement what (on_snaps (DeleteSnapshotRecord up p i)))"
    and runtime_statement: "steps R (statement what (on_storages (storage_UpdateRuntime up now i m s tot fre extra)))"
    and config: "steps R (statement what (on_pools (UpdateAutoSnapshotConfig up i enabled schedule nxt now)))"
begin

lemma buildResponse: "steps R (buildResponse env row)"
proof -
  have e: "steps R (enrichPoolDevices env b ds)" for b ds
    by (induction ds) (simp_all, (intro intros health | assumption)+)
  have u: "steps R (readBtrfsUsage env m)" for m
    unfolding readBtrfsUsage_def by (intro intros; simp)
  show ?thesis
    unfolding buildResponse_def by (intro intros steps_prod_app e u subvolumes merged sizes)
qed

lemma runtime_act: "steps R (update_runtime env p r d)"
  unfolding update_runtime_def by (intro intros runtime_statement)

lemma snapshots:
  "steps R (ListSnapshots env p)" "steps R (CreateSnapshot env p req)" "steps R (DeleteSnapshot env p i)"
  "steps R (RestoreSnapshot env p i rreq)"
proof -
  show "steps R (ListSnapshots env p)"
    unfolding ListSnapshots_def by (intro intros subvolumes merged sizes)
  show "steps R (CreateSnapshot env p req)"
    unfolding CreateSnapshot_def by (intro intros subvolumes merged pieces add; simp)
  show "steps R (DeleteSnapshot env p i)"
    unfolding DeleteSnapshot_def by (intro intros drop; simp)
  show "steps R (RestoreSnapshot env p i rreq)"
    unfolding RestoreSnapshot_def restore_backup_def delete_subvolume_cmd_def
    by (intro intros password runtime_act add; simp)
qed

lemma responses: "steps R (BuildResponses env rows)"
  by (induction rows) (simp_all, (intro impI conjI intros buildResponse | assumption)+)

lemma update: "steps R (UpdatePool env row req)"
  unfolding UpdatePool_def by (intro intros load_act config)

end

section \<open>Requests on pools\<close>

datatype pool_request =
    PList
  | PCreate "create_pool_req option"
  | PUpdate string "update_pool_req option"
  | PDelete string bool "bool option"
  | PFormat string "string option"
  | PReplace string "replace_req option"
  | PSnapList string
  | PSnapCreate string "create_snapshot_req option"
  | PSnapDelete string string
  | PSnapRestore string string bool "restore_req option"

fun serve_pool :: "menv \<Rightarrow> pool_request \<Rightarrow> pworld \<Rightarrow> pworld" where
  "serve_pool env PList w = snd (HandleListPools env w)"
| "serve_pool env (PCreate body) w = snd (HandleCreatePool env body w)"
| "serve_pool env (PUpdate i body) w = snd (HandleUpdatePool env i body w)"
| "serve_pool env (PDelete i b body) w = snd (HandleDeletePool env i b body w)"
| "serve_pool env (PFormat i body) w = snd (HandleFormatPool env i body w)"
| "serve_pool env (PReplace i body) w = snd (HandleReplaceDevice env i body w)"
| "serve_pool env (PSnapList i) w = snd (HandleListSnapshots env i w)"
| "serve_pool env (PSnapCreate i body) w = snd (HandleCreateSnapshot env i body w)"
| "serve_pool env (PSnapDelete i s) w = snd (HandleDeleteSnapshot env i s w)"
| "serve_pool env (PSnapRestore i s b body) w = snd (HandleRestoreSnapshot env i s b body w)"

text \<open>The pool a request names.\<close>

fun pool_of :: "pool_request \<Rightarrow> string option" where
  "pool_of PList = None"
| "pool_of (PCreate _) = None"
| "pool_of (PUpdate i _) = Some (trim i)"
| "pool_of (PDelete i _ _) = Some (trim i)"
| "pool_of (PFormat i _) = Some (trim i)"
| "pool_of (PReplace i _) = Some (trim i)"
| "pool_of (PSnapList i) = Some (trim i)"
| "pool_of (PSnapCreate i _) = Some (trim i)"
| "pool_of (PSnapDelete i _) = Some (trim i)"
| "pool_of (PSnapRestore i _ _ _) = Some (trim i)"

end
