(* ===== verification/Pool_Safety.thy ===== *)
theory Pool_Safety
  imports Pool_Actions
begin

text \<open>
  Which devices the pool operations can destroy: every \<open>wipefs\<close> and \<open>mkfs.btrfs\<close> of a request is on
  a device of the request's own pool, or on one that no pool has and that \<open>lsblk\<close> has shown, earlier
  in the request, not to hold the system.
\<close>

section \<open>Destructive commands\<close>

definition destroys :: "cmd \<Rightarrow> string \<Rightarrow> bool" where
  "destroys c p \<longleftrightarrow> c = Cmd [''wipefs'', ''-af'', p] [] \<or> (\<exists>name raid paths. c = mkfs_cmd name raid paths \<and> p \<in> set paths)"

lemma harmless_not_destroys: "harmless c \<Longrightarrow> \<not> destroys c p"
  by (auto simp: harmless_def destroys_def mkfs_cmd_def)

text \<open>Before the end of \<open>log\<close>, \<open>lsblk\<close> showed \<open>p\<close> as no part of the system disk.\<close>

definition looked :: "menv \<Rightarrow> cmd list \<Rightarrow> string \<Rightarrow> bool" where
  "looked env log p \<longleftrightarrow> (\<exists>i<length log. \<exists>out d ds. log ! i = lsblk_cmd p \<and> m_run env (take i log) (lsblk_cmd p) = Some out \<and>
     m_lsblk env out = Some (d # ds) \<and> \<not> poolDeviceIsSystemDisk d)"

definition fine_log :: "menv \<Rightarrow> string set \<Rightarrow> (string \<Rightarrow> bool) \<Rightarrow> cmd list \<Rightarrow> cmd list \<Rightarrow> bool" where
  "fine_log env D own log0 log \<longleftrightarrow> prefix log0 log \<and>
     (\<forall>i<length log. \<forall>p. length log0 \<le> i \<and> destroys (log ! i) p \<longrightarrow> own p \<or> (p \<notin> D \<and> looked env (take i log) p))"

lemma looked_append: "looked env log p \<Longrightarrow> looked env (log @ cs) p"
  unfolding looked_def by (fastforce simp: nth_append)

lemma fine_refl: "fine_log env D own log log"
  by (simp add: fine_log_def)

lemma fine_snoc:
  assumes "fine_log env D own log0 log" "\<And>p. destroys c p \<Longrightarrow> own p \<or> (p \<notin> D \<and> looked env log p)"
  shows "fine_log env D own log0 (log @ [c])"
  using assms unfolding fine_log_def by (auto simp: nth_append prefix_def less_Suc_eq)

lemma fine_harmless: "fine_log env D own log0 log \<Longrightarrow> \<forall>c\<in>set cs. harmless c \<Longrightarrow> fine_log env D own log0 (log @ cs)"
proof (induction cs rule: rev_induct)
  case (snoc c cs)
  then have "fine_log env D own log0 (log @ cs)" "harmless c" by simp_all
  from fine_snoc [OF this(1), of c] harmless_not_destroys [OF this(2)] show ?case by (simp add: append_assoc)
qed simp

section \<open>Quiet actions\<close>

definition quiet :: "pworld \<Rightarrow> pworld \<Rightarrow> bool" where
  "quiet w w' \<longleftrightarrow> only harmless w w' \<and> pw_devices w' = pw_devices w"

lemma quiet_rel: "reflp quiet" "transp quiet"
  using only_rel [of harmless] unfolding quiet_def reflp_def transp_def by auto

lemma quiet_statement:
  "(\<And>w w'. q w = Inr w' \<Longrightarrow> pw_log w' = pw_log w \<and> pw_devices w' = pw_devices w) \<Longrightarrow> steps quiet (statement what q)"
  by (auto simp: steps_def wp_simps quiet_def only_def split: sum.split)

lemma devices_on [simp]:
  "on_storages f w = Inr w' \<Longrightarrow> pw_devices w' = pw_devices w" "on_pools g w = Inr w' \<Longrightarrow> pw_devices w' = pw_devices w"
  "on_snaps k w = Inr w' \<Longrightarrow> pw_devices w' = pw_devices w"
  by (auto simp: on_storages_def on_pools_def on_snaps_def split: sum.splits)

interpretation quiet: action_relation quiet
proof unfold_locales
  show "steps quiet (merged_snapshots env i m items)" for env i m items
    by (auto simp: steps_def wp_def merged_snapshots_def quiet_def only_def split: prod.split)
  show "steps quiet (add_snapshot env what r)" for env what r
    unfolding add_snapshot_def by (intro quiet_statement) (simp split: if_splits)
qed (use quiet_rel in \<open>auto intro: quiet_statement simp: quiet_def only_def\<close>)

section \<open>Preparing devices\<close>

definition seen :: "menv \<Rightarrow> cmd list \<Rightarrow> string \<Rightarrow> lsblk \<Rightarrow> bool" where
  "seen env log p d \<longleftrightarrow> (\<exists>i<length log. \<exists>out ds. log ! i = lsblk_cmd p \<and> m_run env (take i log) (lsblk_cmd p) = Some out \<and>
     m_lsblk env out = Some (d # ds))"

lemma looked_seen: "seen env log p d \<Longrightarrow> \<not> poolDeviceIsSystemDisk d \<Longrightarrow> looked env log p"
  unfolding looked_def seen_def by blast

lemma seen_append: "seen env log p d \<Longrightarrow> seen env (log @ cs) p d"
  unfolding seen_def by (fastforce simp: nth_append)

text \<open>What holds during a request: the log is fine so far, and the registered devices are still \<open>D\<close>.\<close>

definition good :: "menv \<Rightarrow> string set \<Rightarrow> (string \<Rightarrow> bool) \<Rightarrow> cmd list \<Rightarrow> pworld \<Rightarrow> bool" where
  "good env D own log0 w \<longleftrightarrow> fine_log env D own log0 (pw_log w) \<and> pd_path ` set (pw_devices w) = D"

definition cache_seen :: "menv \<Rightarrow> lsblk_cache \<Rightarrow> pworld \<Rightarrow> bool" where
  "cache_seen env cache w \<longleftrightarrow> (\<forall>q d. cache q = Some d \<longrightarrow> seen env (pw_log w) q d)"

lemma quiet_keeps:
  assumes "quiet w w'"
  shows "good env D own log0 w \<Longrightarrow> good env D own log0 w'" "cache_seen env cache w \<Longrightarrow> cache_seen env cache w'"
    "seen env (pw_log w) p d \<Longrightarrow> seen env (pw_log w') p d" "looked env (pw_log w) p \<Longrightarrow> looked env (pw_log w') p"
  using assms fine_harmless seen_append looked_append by (auto simp: quiet_def only_def good_def cache_seen_def)

lemma wp_quiet: "steps quiet m \<Longrightarrow> (\<And>r w1. quiet w w1 \<Longrightarrow> Q r w1) \<Longrightarrow> wp m Q w"
  by (auto simp: steps_def wp_def split: prod.splits)

text \<open>A later state of the same request: the log is longer, and the devices are the same.\<close>

definition later :: "pworld \<Rightarrow> pworld \<Rightarrow> bool" where
  "later w w' \<longleftrightarrow> (\<exists>cs. pw_log w' = pw_log w @ cs) \<and> pw_devices w' = pw_devices w"

lemma later_keeps:
  assumes "later w w'"
  shows "cache_seen env cache w \<Longrightarrow> cache_seen env cache w'" "looked env (pw_log w) p \<Longrightarrow> looked env (pw_log w') p"
  using assms seen_append looked_append by (auto simp: later_def cache_seen_def)

lemma later_trans: "later u v \<Longrightarrow> later v w \<Longrightarrow> later u w"
  by (auto simp: later_def)

lemma later_refl [simp]: "later w w"
  by (simp add: later_def)

lemma quiet_later: "quiet w w' \<Longrightarrow> later w w'"
  by (auto simp: quiet_def only_def later_def)

lemma load_wp:
  assumes "good env D own log0 w" "cache_seen env cache w"
  shows "wp (loadSinglePoolDevice env p cache) (\<lambda>r w'. good env D own log0 w' \<and> later w w' \<and>
    (case r of Inl _ \<Rightarrow> True | Inr (d, c') \<Rightarrow> seen env (pw_log w') p d \<and> cache_seen env c' w')) w"
proof (cases "cache p")
  case (Some d)
  then show ?thesis using assms by (simp add: loadSinglePoolDevice_def wp_simps cache_seen_def)
next
  case None
  let ?w = "w\<lparr>pw_log := pw_log w @ [lsblk_cmd p]\<rparr>"
  have q: "quiet w ?w" by (simp add: quiet_def only_def)
  have new: "seen env (pw_log ?w) p d" if "m_run env (pw_log w) (lsblk_cmd p) = Some out" "m_lsblk env out = Some (d # ds)" for out d ds
    unfolding seen_def using that by (intro exI [of _ "length (pw_log w)"]) auto
  have "cache_seen env (cache(p \<mapsto> d)) ?w" if "seen env (pw_log ?w) p d" for d
    using that quiet_keeps(2) [OF q assms(2)] by (simp add: cache_seen_def)
  then show ?thesis
    using None quiet_keeps(1) [OF q assms(1)] quiet_later [OF q] new
    by (auto simp: loadSinglePoolDevice_def must_def wp_simps split: option.split list.split)
qed

lemma wipe_wp:
  assumes "good env D own log0 w" "own p \<or> (p \<notin> D \<and> looked env (pw_log w) p)"
  shows "wp (wipe_device env p) (\<lambda>_ w'. good env D own log0 w' \<and> later w w') w"
proof -
  let ?z = "Cmd [''mdadm'', ''--zero-superblock'', ''--force'', p] []"
  have "fine_log env D own log0 ((pw_log w @ [?z]) @ [Cmd [''wipefs'', ''-af'', p] []])"
    using assms by (intro fine_snoc fine_harmless) (auto simp: good_def destroys_def mkfs_cmd_def intro: looked_append)
  then show ?thesis
    using assms by (simp add: wipe_device_def sh_def must_def wp_simps good_def later_def split: option.split)
qed

lemma quiet_release: "steps quiet (release_device env d)"
  unfolding release_device_def by (intro quiet.intros; simp)

text \<open>The result of preparing a device: on success it was free and looked at.\<close>

definition prepared ::
  "menv \<Rightarrow> string set \<Rightarrow> (string \<Rightarrow> bool) \<Rightarrow> cmd list \<Rightarrow> pworld \<Rightarrow> string \<Rightarrow> perr + lsblk_cache \<Rightarrow> pworld \<Rightarrow> bool" where
  "prepared env D own log0 w p r w' \<longleftrightarrow> good env D own log0 w' \<and> later w w' \<and>
    (case r of Inl _ \<Rightarrow> True | Inr c' \<Rightarrow> cache_seen env c' w' \<and> p \<notin> D \<and> looked env (pw_log w') p)"

lemma release_wipe:
  assumes w1: "good env D own log0 w1" "later w w1" "seen env (pw_log w1) p d" "cache_seen env c' w1"
    "\<not> poolDeviceIsSystemDisk d" "p \<notin> D"
  shows "wp (andthen (release_device env d) (\<lambda>_. andthen (wipe_device env p) (\<lambda>_. ret c'))) (prepared env D own log0 w p) w1"
  unfolding wp_andthen
proof (rule wp_quiet [OF quiet_release])
  fix r :: "perr + unit" and w2 assume q: "quiet w1 w2"
  have l: "looked env (pw_log w2) p" using quiet_keeps(4) [OF q] looked_seen [OF w1(3,5)] by simp
  have c: "cache_seen env c' w2" by (rule quiet_keeps(2) [OF q w1(4)])
  have g: "good env D own log0 w2" "later w w2"
    using quiet_keeps(1) [OF q w1(1)] later_trans [OF w1(2) quiet_later [OF q]] by auto
  have "wp (wipe_device env p) (\<lambda>_ w'. good env D own log0 w' \<and> later w2 w') w2"
    using g l w1(6) by (intro wipe_wp) auto
  then have "wp (wipe_device env p) (\<lambda>r w3. case r of Inl e \<Rightarrow> prepared env D own log0 w p (Inl e) w3
      | Inr _ \<Rightarrow> wp (ret c') (prepared env D own log0 w p) w3) w2"
    by (rule wp_mono) (use later_trans [OF g(2)] w1(6) later_keeps(1) [OF _ c] later_keeps(2) [OF _ l] in
        \<open>auto simp: wp_ret prepared_def split: sum.split\<close>)
  then show "case r of Inl e \<Rightarrow> prepared env D own log0 w p (Inl e) w2
    | Inr _ \<Rightarrow> wp (wipe_device env p) (\<lambda>r w3. case r of Inl e \<Rightarrow> prepared env D own log0 w p (Inl e) w3
        | Inr _ \<Rightarrow> wp (ret c') (prepared env D own log0 w p) w3) w2"
    using g by (simp add: prepared_def split: sum.split)
qed

lemma prepare_one_wp:
  assumes good: "good env D own log0 w" and cache: "cache_seen env cache w"
  shows "wp (prepare_one env p cache) (prepared env D own log0 w p) w"
proof -
  have free: "p \<notin> D" if "HasDevice up p (pw_devices w) = Inr False" for up
    using that good by (auto simp: HasDevice_def good_def tbl_rows_0 split: if_splits)
  have bad: "prepared env D own log0 w p (Inl e) w1" if "good env D own log0 w1" "later w w1" for e w1
    using that by (simp add: prepared_def)
  have "wp (andthen (loadSinglePoolDevice env p cache) (\<lambda>(d, c').
      andthen (check (\<not> poolDeviceIsSystemDisk d) ''device is part of the system disk'') (\<lambda>_.
      andthen (release_device env d) (\<lambda>_. andthen (wipe_device env p) (\<lambda>_. ret c')))))
      (prepared env D own log0 w p) w" if free: "p \<notin> D"
    unfolding wp_andthen [of "loadSinglePoolDevice env p cache"]
  proof (rule wp_mono [OF load_wp [OF good cache]])
    fix r :: "perr + lsblk \<times> lsblk_cache" and w1
    assume l: "good env D own log0 w1 \<and> later w w1 \<and>
      (case r of Inl _ \<Rightarrow> True | Inr (d, c') \<Rightarrow> seen env (pw_log w1) p d \<and> cache_seen env c' w1)"
    show "case r of Inl e \<Rightarrow> prepared env D own log0 w p (Inl e) w1
      | Inr x \<Rightarrow> wp (case x of (d, c') \<Rightarrow> andthen (check (\<not> poolDeviceIsSystemDisk d) ''device is part of the system disk'') (\<lambda>_.
          andthen (release_device env d) (\<lambda>_. andthen (wipe_device env p) (\<lambda>_. ret c')))) (prepared env D own log0 w p) w1"
    proof (cases r)
      case (Inr x)
      obtain d c' where x: "x = (d, c')" by force
      show ?thesis
        using l bad release_wipe [of env D own log0 w1 w p d c'] free
        by (simp add: Inr x wp_andthen [of "check _ _"] wp_check)
    qed (use l bad in simp)
  qed
  with free show ?thesis
    unfolding prepare_one_def using good bad
    by (auto simp: wp_andthen [of "query _ _"] wp_query wp_andthen [of "check (\<not> _) ''device is already registered''"] wp_check
        split: sum.split)
qed

lemma prepare_from_wp:
  assumes "good env D own log0 w" "cache_seen env cache w"
  shows "wp (prepare_from env ps cache) (\<lambda>r w'. good env D own log0 w' \<and> later w w' \<and>
    (r = Inr () \<longrightarrow> (\<forall>p\<in>set ps. p \<notin> D \<and> looked env (pw_log w') p))) w"
  using assms
proof (induction ps arbitrary: cache w)
  case (Cons p ps)
  show ?case
    unfolding prepare_from.simps wp_andthen
  proof (rule wp_mono [OF prepare_one_wp [OF Cons.prems]])
    fix r w1
    assume r: "prepared env D own log0 w p r w1"
    show "case r of Inl e \<Rightarrow> good env D own log0 w1 \<and> later w w1 \<and>
          (Inl e = Inr () \<longrightarrow> (\<forall>p\<in>set (p # ps). p \<notin> D \<and> looked env (pw_log w1) p))
      | Inr c' \<Rightarrow> wp (prepare_from env ps c') (\<lambda>r w'. good env D own log0 w' \<and> later w w' \<and>
          (r = Inr () \<longrightarrow> (\<forall>p\<in>set (p # ps). p \<notin> D \<and> looked env (pw_log w') p))) w1"
    proof (cases r)
      case (Inr c')
      then have g: "good env D own log0 w1" "later w w1" "cache_seen env c' w1" "p \<notin> D" "looked env (pw_log w1) p"
        using r by (simp_all add: prepared_def)
      show ?thesis
        unfolding Inr sum.case
        by (rule wp_mono [OF Cons.IH [OF g(1,3)]]) (use later_trans [OF g(2)] later_keeps(2) [OF _ g(5)] g(4) in auto)
    qed (use r in \<open>simp add: prepared_def\<close>)
  qed
qed (simp add: wp_ret)

section \<open>Whole requests\<close>

text \<open>The log is fine whatever the result.\<close>

definition fine_end :: "menv \<Rightarrow> string set \<Rightarrow> (string \<Rightarrow> bool) \<Rightarrow> cmd list \<Rightarrow> perr + 'a \<Rightarrow> pworld \<Rightarrow> bool" where
  "fine_end env D own log0 r w \<longleftrightarrow> fine_log env D own log0 (pw_log w)"

lemma good_fine: "good env D own log0 w \<Longrightarrow> fine_end env D own log0 r w"
  by (simp add: good_def fine_end_def)

lemma good_then:
  assumes "good env D own log0 w" "steps quiet m" "\<And>x w1. good env D own log0 w1 \<Longrightarrow> wp (f x) (fine_end env D own log0) w1"
  shows "wp (andthen m f) (fine_end env D own log0) w"
  unfolding wp_andthen
  by (rule wp_quiet [OF assms(2)])
    (use quiet_keeps(1) [OF _ assms(1)] assms(3) good_fine [OF quiet_keeps(1) [OF _ assms(1)]] in \<open>auto split: sum.split\<close>)

lemma good_wp_then:
  assumes "wp m (\<lambda>_ w1. good env D own log0 w1) w" "\<And>x w1. good env D own log0 w1 \<Longrightarrow> wp (f x) (fine_end env D own log0) w1"
  shows "wp (andthen m f) (fine_end env D own log0) w"
  unfolding wp_andthen by (rule wp_mono [OF assms(1)]) (use assms(2) good_fine in \<open>auto split: sum.split\<close>)

lemma quiet_end:
  assumes "steps quiet m" "good env D own log0 w"
  shows "wp m (fine_end env D own log0) w"
  by (rule wp_quiet [OF assms(1)]) (use good_fine [OF quiet_keeps(1) [OF _ assms(2)]] in auto)

lemma harmless_end:
  assumes "steps (only harmless) m" "good env D own log0 w"
  shows "wp m (fine_end env D own log0) w"
  using assms fine_harmless unfolding steps_def wp_def good_def fine_end_def only_def
  by (fastforce split: prod.splits)

lemma quiet_only: "steps quiet m \<Longrightarrow> steps (only harmless) m"
  by (auto simp: steps_def wp_def quiet_def split: prod.splits)

lemma make_wp:
  assumes "good env D own log0 w" "\<And>p. p \<in> set paths \<Longrightarrow> own p \<or> (p \<notin> D \<and> looked env (pw_log w) p)"
  shows "wp (make_filesystem env n r paths m d) (\<lambda>_ w'. good env D own log0 w') w"
proof -
  let ?w = "w\<lparr>pw_log := pw_log w @ [mkfs_cmd n r paths]\<rparr>"
  have "destroys (mkfs_cmd n r paths) p \<Longrightarrow> p \<in> set paths" for p
    by (auto simp: destroys_def mkfs_cmd_def)
  then have "good env D own log0 ?w"
    using assms fine_snoc [of env D own log0 "pw_log w" "mkfs_cmd n r paths"] by (auto simp: good_def)
  moreover have "steps quiet (andthen (persistPoolMount env (hd paths) m) (\<lambda>_. initializePoolLayout env m d))"
    by (intro quiet.intros quiet.mounts)
  ultimately have "wp (andthen (persistPoolMount env (hd paths) m) (\<lambda>_. initializePoolLayout env m d)) (\<lambda>_ w'. good env D own log0 w') ?w"
    using quiet_keeps(1) by (intro wp_quiet) auto
  with \<open>good env D own log0 ?w\<close> show ?thesis
    unfolding make_filesystem_def must_def by (simp add: wp_andthen [of "andthen _ _"] wp_andthen [of "issue _ _"] wp_issue wp_some_or split: option.split)
qed

lemma create_fine:
  assumes "good env D own log0 w" shows "wp (CreatePool env req) (fine_end env D own log0) w"
proof -
  have tail: "wp (andthen (make_filesystem env n raid ps m d) f) (fine_end env D own log0) w1"
    if "good env D own log0 w1" "\<forall>p\<in>set ps. p \<notin> D \<and> looked env (pw_log w1) p" "\<And>x. steps (only harmless) (f x)" for n raid ps m d f w1
    by (rule good_wp_then [OF make_wp]) (use that harmless_end in auto)
  have prepare: "wp (andthen (forcePreparePoolDevices env ps) (\<lambda>_. andthen (make_filesystem env n raid ps m d) f)) (fine_end env D own log0) w1"
    if "good env D own log0 w1" "\<And>x. steps (only harmless) (f x)" for n raid ps m d f w1
    unfolding forcePreparePoolDevices_def wp_andthen [of "prepare_from _ _ _"]
    by (rule wp_mono [OF prepare_from_wp [OF that(1)]]) (use tail that(2) good_fine in \<open>auto simp: cache_seen_def split: sum.split\<close>)
  have add: "steps (only harmless) (add_storage env item)" for item
    by (auto simp: steps_def wp_def add_storage_def only_def split: sum.split prod.split)
  have padd: "steps (only harmless) (statement what (pool_Add env p ds))" for what p ds
    by (rule only_statement) (auto simp: pool_Add_def Let_def split: sum.splits if_splits)
  show ?thesis
    unfolding CreatePool_def Let_def case_prod_unfold
    by (intro good_then [OF assms] good_then prepare quiet.intros quiet.create_start quiet.resolve only_rel add padd
        quiet_only quiet.load_act; (assumption | simp)?)
qed

text \<open>Commands that destroy nothing but the pool's own devices.\<close>

abbreviation owned :: "(string \<Rightarrow> bool) \<Rightarrow> cmd \<Rightarrow> bool" where
  "owned own c \<equiv> \<forall>p. destroys c p \<longrightarrow> own p"

lemma quiet_owned: "steps quiet m \<Longrightarrow> steps (only (owned own)) m"
  using harmless_not_destroys by (fastforce simp: steps_def wp_def quiet_def only_def split: prod.splits)

lemma owned_wipe: "own p \<Longrightarrow> steps (only (owned own)) (wipe_device env p)"
  unfolding wipe_device_def by (intro only_intros) (auto simp: destroys_def mkfs_cmd_def)

lemma owned_make: "\<forall>p\<in>set paths. own p \<Longrightarrow> steps (only (owned own)) (make_filesystem env n r paths m d)"
  unfolding make_filesystem_def
  by (intro only_intros quiet_owned quiet.mounts) (auto simp: destroys_def mkfs_cmd_def)

lemma owned_end:
  assumes "steps (only (owned own)) m" "good env D own log0 w"
  shows "wp m (fine_end env D own log0) w"
proof -
  have "fine_log env D own log0 (pw_log w @ cs)" if "\<forall>c\<in>set cs. owned own c" for cs
    using that
  proof (induction cs rule: rev_induct)
    case (snoc c cs)
    then show ?case using fine_snoc [of env D own log0 "pw_log w @ cs" c] by (simp add: append_assoc)
  qed (use assms(2) in \<open>simp add: good_def\<close>)
  then show ?thesis
    using assms(1) unfolding steps_def wp_def only_def fine_end_def by (fastforce split: prod.splits)
qed

lemma format_owned:
  assumes "\<forall>d\<in>set (snd row). own (trim (pd_path d))"
  shows "steps (only (owned own)) (FormatPool env row pw)"
  unfolding FormatPool_def Let_def
  by (intro only_intros quiet_owned [OF quiet.password] quiet_owned [OF quiet.unmount] quiet_owned [OF quiet.runtime_act]
      quiet_owned [OF quiet.load_act(1)] quiet_owned [OF quiet.buildResponse] owned_make owned_wipe only_statement)
    (use assms in \<open>auto simp: destroys_def mkfs_cmd_def\<close>)

lemma delete_owned:
  assumes "\<forall>d\<in>set (snd row). own (pd_path d)"
  shows "steps (only (owned own)) (DeletePool env row wipe)"
proof -
  have [simp]: "\<not> destroys (Cmd (x # xs) s) p" if "x \<noteq> ''wipefs''" "x \<noteq> ''mkfs.btrfs''" for x xs s p
    using harmless_not_destroys [of "Cmd (x # xs) s"] that by simp
  have st: "pw_log w' = pw_log w" if "DeleteByID env i w = Inr w' \<or> delete_storage env i w = Inr w'" for i w w'
    using that by (auto simp: DeleteByID_def delete_storage_def drop_pools_def Let_def split: if_splits sum.splits)
  have sub: "steps (only (owned own)) (delete_subvolumes env m)" for m
    unfolding delete_subvolumes_def Let_def
    by (intro only_intros steps_prod quiet_owned [OF quiet.subvolumes(1)]) simp
  show ?thesis
    unfolding DeletePool_def
    by (intro only_intros sub quiet_owned [OF quiet.unmount] quiet_owned [OF quiet.mounts(5)] owned_wipe only_statement)
      (use assms st in \<open>auto simp: destroys_def mkfs_cmd_def\<close>)
qed

lemma replace_fine:
  assumes "good env D own log0 w" shows "wp (ReplaceDevice env row req) (fine_end env D own log0) w"
proof -
  have prepare: "wp (andthen (forcePreparePoolDevices env ps) f) (fine_end env D own log0) w1"
    if "good env D own log0 w1" "\<And>x. steps (only harmless) (f x)" for ps f w1
    unfolding forcePreparePoolDevices_def wp_andthen [of "prepare_from _ _ _"]
    by (rule wp_mono [OF prepare_from_wp [OF that(1)]])
      (use harmless_end [OF that(2)] good_fine in \<open>auto simp: cache_seen_def split: sum.split\<close>)
  show ?thesis
    unfolding ReplaceDevice_def Let_def
    by (intro good_then [OF assms] good_then prepare quiet.password steps_intros only_intros only_statement quiet_rel
        quiet_only [OF quiet.resolve] quiet_only [OF quiet.source] quiet_only [OF quiet.load_act(1)]
        quiet_only [OF quiet.buildResponse]; (assumption | simp)?)
qed

end
