(* ===== verification/Pool_Tables.thy ===== *)
theory Pool_Tables
  imports Pool_Actions
begin

text \<open>
  The tables of storages, pools, devices and snapshots stay sound under every request on pools: keys
  are unique, and every reference leads to a row.
\<close>

section \<open>Sound tables\<close>

definition sound_storages :: "storage list \<Rightarrow> bool" where
  "sound_storages t \<longleftrightarrow> distinct (map st_id t) \<and> distinct (map st_mount t)"

definition sound_pools :: "string set \<Rightarrow> pool list \<Rightarrow> bool" where
  "sound_pools sids t \<longleftrightarrow> distinct (map sp_id t) \<and> distinct (map sp_storage t) \<and> distinct (map sp_name t) \<and>
     distinct (map sp_mount t) \<and> sp_storage ` set t \<subseteq> sids"

definition sound_devices :: "string set \<Rightarrow> pool_device list \<Rightarrow> bool" where
  "sound_devices pids t \<longleftrightarrow> distinct (map pd_id t) \<and> distinct (map (\<lambda>d. (pd_pool d, pd_path d)) t) \<and> pd_pool ` set t \<subseteq> pids"

definition sound_snaps :: "string set \<Rightarrow> snapshot_row list \<Rightarrow> bool" where
  "sound_snaps pids t \<longleftrightarrow> distinct (map sn_id t) \<and> distinct (map (\<lambda>s. (sn_pool s, sn_path s)) t) \<and> sn_pool ` set t \<subseteq> pids"

definition sound_tables :: "pworld \<Rightarrow> bool" where
  "sound_tables w \<longleftrightarrow> sound_storages (pw_storages w) \<and> sound_pools (st_id ` set (pw_storages w)) (pw_pools w) \<and>
     sound_devices (sp_id ` set (pw_pools w)) (pw_devices w) \<and> sound_snaps (sp_id ` set (pw_pools w)) (pw_snaps w)"

definition keeps :: "pworld \<Rightarrow> pworld \<Rightarrow> bool" where
  "keeps w w' \<longleftrightarrow> (sound_tables w \<longrightarrow> sound_tables w')"

section \<open>Keys under statements\<close>

lemma insert_keys:
  "insert_row up clash r t = Inr t' \<Longrightarrow> distinct (map key t) \<Longrightarrow> (\<And>q. key r = key q \<Longrightarrow> clash r q) \<Longrightarrow> distinct (map key t')"
  unfolding insert_row_def by (simp split: if_split_asm) (hypsubst, simp, metis imageE)

lemma insert_set: "insert_row up clash r t = Inr t' \<Longrightarrow> t' = t @ [r]"
  by (auto simp: insert_row_def split: if_splits)

lemma tbl_upd_none: "\<forall>r\<in>set t. \<not> p r \<Longrightarrow> tbl_upd p f t = t"
  by (induction t) simp_all

text \<open>An update that changes the key of one row, to a key no other row has.\<close>

lemma distinct_tbl_upd_one:
  assumes "distinct (map key t)" "\<And>r q. r \<in> set t \<Longrightarrow> q \<in> set t \<Longrightarrow> p r \<Longrightarrow> p q \<Longrightarrow> r = q"
    "\<And>r q. r \<in> set t \<Longrightarrow> q \<in> set t \<Longrightarrow> p r \<Longrightarrow> \<not> p q \<Longrightarrow> key (f r) \<noteq> key q"
  shows "distinct (map key (tbl_upd p f t))"
  using assms
proof (induction t)
  case (Cons r t)
  have IH: "distinct (map key (tbl_upd p f t))" by (rule Cons.IH) (use Cons.prems in auto)
  show ?case
  proof (cases "p r")
    case True
    have none: "\<not> p q" if "q \<in> set t" for q
      using Cons.prems(2) [of r q] Cons.prems(1) True that by fastforce
    then have "tbl_upd p f t = t" by (intro tbl_upd_none) blast
    moreover have "key (f r) \<notin> key ` set t" using Cons.prems(3) [of r] True none by fastforce
    ultimately show ?thesis using True Cons.prems(1) by simp
  next
    case False
    have "key r \<noteq> key (f q)" if "q \<in> set t" "p q" for q using Cons.prems(3) [of q r] that False by fastforce
    then have "key r \<notin> key ` set (tbl_upd p f t)" using Cons.prems(1) by (auto simp: set_tbl_upd)
    then show ?thesis using False IH by simp
  qed
qed simp

lemma distinct_key_eq: "distinct (map key t) \<Longrightarrow> r \<in> set t \<Longrightarrow> q \<in> set t \<Longrightarrow> key r = key q \<Longrightarrow> r = q"
  by (auto simp: distinct_map inj_on_def)

section \<open>Statements keep the tables sound\<close>

lemma keeps_rel: "reflp keeps" "transp keeps"
  by (auto simp: keeps_def reflp_def transp_def)

lemma keeps_statement: "(\<And>w w'. q w = Inr w' \<Longrightarrow> sound_tables w \<Longrightarrow> sound_tables w') \<Longrightarrow> steps keeps (statement what q)"
  by (auto simp: steps_def wp_simps keeps_def split: sum.split)

lemma sound_on_storages:
  assumes "on_storages f w = Inr w'" "sound_tables w"
    "\<And>t. f (pw_storages w) = Inr t \<Longrightarrow> sound_storages t \<and> st_id ` set t = st_id ` set (pw_storages w)"
  shows "sound_tables w'"
  using assms by (auto simp: on_storages_def sound_tables_def split: sum.splits)

lemma sound_on_pools:
  assumes "on_pools f w = Inr w'" "sound_tables w"
    "\<And>t. f (pw_pools w) = Inr t \<Longrightarrow> sound_pools (st_id ` set (pw_storages w)) t \<and> sp_id ` set t = sp_id ` set (pw_pools w)"
  shows "sound_tables w'"
  using assms by (auto simp: on_pools_def sound_tables_def split: sum.splits)

lemma sound_on_devices:
  assumes "on_devices f w = Inr w'" "sound_tables w"
    "\<And>t. f (pw_devices w) = Inr t \<Longrightarrow> sound_devices (sp_id ` set (pw_pools w)) t"
  shows "sound_tables w'"
  using assms by (auto simp: on_devices_def sound_tables_def split: sum.splits)

lemma sound_on_snaps:
  assumes "on_snaps f w = Inr w'" "sound_tables w"
    "\<And>t. f (pw_snaps w) = Inr t \<Longrightarrow> sound_snaps (sp_id ` set (pw_pools w)) t"
  shows "sound_tables w'"
  using assms by (auto simp: on_snaps_def sound_tables_def split: sum.splits)

lemma sound_pools_upd:
  assumes "sound_pools sids t" "\<And>r. sp_id (f r) = sp_id r" "\<And>r. sp_storage (f r) = sp_storage r"
    "\<And>r. sp_name (f r) = sp_name r" "\<And>r. sp_mount (f r) = sp_mount r"
  shows "sound_pools sids (tbl_upd p f t) \<and> sp_id ` set (tbl_upd p f t) = sp_id ` set t"
  using assms(1) image_tbl_upd [of sp_id f, OF assms(2)] image_tbl_upd [of sp_storage f, OF assms(3)]
  by (simp add: sound_pools_def map_tbl_upd [of sp_id f, OF assms(2)] map_tbl_upd [of sp_storage f, OF assms(3)]
      map_tbl_upd [of sp_name f, OF assms(4)] map_tbl_upd [of sp_mount f, OF assms(5)])

lemma sound_snaps_upd:
  assumes "sound_snaps pids t" "\<And>r. sn_id (f r) = sn_id r" "\<And>r. sn_pool (f r) = sn_pool r" "\<And>r. sn_path (f r) = sn_path r"
  shows "sound_snaps pids (tbl_upd p f t)"
proof -
  have k: "(sn_pool (f r), sn_path (f r)) = (sn_pool r, sn_path r)" for r using assms(3,4) by simp
  show ?thesis
    using assms(1) image_tbl_upd [of sn_pool f, OF assms(3)]
    by (simp add: sound_snaps_def map_tbl_upd [of sn_id f, OF assms(2)] map_tbl_upd [of "\<lambda>s. (sn_pool s, sn_path s)" f, OF k])
qed

lemma sound_snaps_del: "sound_snaps pids t \<Longrightarrow> sound_snaps pids (tbl_del p t)"
  by (auto simp: sound_snaps_def distinct_tbl_del)

lemma runtime_sound:
  assumes "storage_UpdateRuntime up now i m s tot fre extra t = Inr t'" "sound_storages t"
  shows "sound_storages t' \<and> st_id ` set t' = st_id ` set t"
proof -
  let ?f = "\<lambda>r. r\<lparr>st_mount := m, st_status := s, st_total := tot, st_free := fre, st_extra := extra, st_updated := now\<rparr>"
  have t': "t' = tbl_upd (\<lambda>r. st_id r = i) ?f t" "\<And>q. q \<in> set t \<Longrightarrow> i \<in> st_id ` set t \<Longrightarrow> st_id q \<noteq> i \<Longrightarrow> st_mount q \<noteq> m"
    using assms(1) unfolding storage_UpdateRuntime_def by (auto split: if_splits)
  have "distinct (map st_mount t')"
    unfolding t'(1) using assms(2) t'(2)
    by (intro distinct_tbl_upd_one) (auto simp: sound_storages_def intro: distinct_key_eq [of st_id])
  moreover have "map st_id t' = map st_id t" "st_id ` set t' = st_id ` set t"
    unfolding t'(1) by (rule map_tbl_upd image_tbl_upd; simp)+
  ultimately show ?thesis using assms(2) by (simp add: sound_storages_def)
qed

lemma device_sound:
  assumes "UpdateDevice up d t = Inr t'" "sound_devices pids t"
  shows "sound_devices pids t'"
proof -
  let ?p = "\<lambda>r. pd_id r = pd_id d \<and> pd_pool r = pd_pool d"
  have t': "t' = tbl_upd ?p (\<lambda>_. d) t"
    "\<And>r q. r \<in> set t \<Longrightarrow> ?p r \<Longrightarrow> q \<in> set t \<Longrightarrow> pd_id q \<noteq> pd_id d \<Longrightarrow> \<not> (pd_pool q = pd_pool d \<and> pd_path q = pd_path d)"
    using assms(1) unfolding UpdateDevice_def by (auto split: if_splits)
  have one: "r = q" if "r \<in> set t" "q \<in> set t" "pd_id r = pd_id q" for r q
    using assms(2) that by (auto simp: sound_devices_def intro: distinct_key_eq [of pd_id])
  have "distinct (map pd_id t')" unfolding t'(1)
    using assms(2) one by (intro distinct_tbl_upd_one) (auto simp: sound_devices_def, metis)
  moreover have "distinct (map (\<lambda>d. (pd_pool d, pd_path d)) t')" unfolding t'(1)
  proof (rule distinct_tbl_upd_one)
    fix r q assume "r \<in> set t" "q \<in> set t" "?p r" "\<not> ?p q"
    then show "(pd_pool d, pd_path d) \<noteq> (pd_pool q, pd_path q)" using t'(2) [of r q] by auto
  qed (use assms(2) one in \<open>auto simp: sound_devices_def\<close>)
  moreover have "pd_pool ` set t' \<subseteq> pids"
    using assms(2) unfolding t'(1) by (auto simp: sound_devices_def set_tbl_upd)
  ultimately show ?thesis by (simp add: sound_devices_def)
qed

lemma merge_sound: "sound_snaps pids t \<Longrightarrow> sound_snaps pids (snd (merge_system up now byPath m sys t))"
proof (induction sys arbitrary: t)
  case (Cons s0 ss)
  have upd: "sound_snaps pids t1" if "UpdateSnapshotSystemFields b now i sysn gen t = Inr t1" for b i sysn gen t1
    using that Cons.prems sound_snaps_upd [of pids t]
    by (auto simp: UpdateSnapshotSystemFields_def exec_def split: if_splits)
  show ?case
    using Cons.IH upd Cons.prems by (auto simp: Let_def case_prod_unfold split: option.split sum.split)
qed simp

interpretation keeps: action_relation keeps
proof unfold_locales
  show "reflp keeps" "transp keeps" by (rule keeps_rel)+
  show "keeps w (w\<lparr>pw_log := pw_log w @ [c]\<rparr>)" for w c by (simp add: keeps_def sound_tables_def)
  show "steps keeps (merged_snapshots env i m items)" for env i m items
    using merge_sound
    by (auto simp: steps_def wp_def merged_snapshots_def keeps_def sound_tables_def mergePoolSnapshots_def Let_def case_prod_unfold
        split: sum.split)
  show "steps keeps (add_snapshot env what r)" for env what r
    unfolding add_snapshot_def
  proof (rule keeps_statement)
    fix w w' assume a: "(if sn_pool r \<notin> sp_id ` set (pw_pools w) then Inl Constraint
      else on_snaps (AddSnapshot (m_up env QSnapAdd) (m_row_id env (sn_path r)) r) w) = Inr w'" and w: "sound_tables w"
    then have pool: "sn_pool r \<in> sp_id ` set (pw_pools w)"
      and on: "on_snaps (AddSnapshot (m_up env QSnapAdd) (m_row_id env (sn_path r)) r) w = Inr w'"
      by (simp_all split: if_splits)
    show "sound_tables w'"
    proof (rule sound_on_snaps [OF on w])
      fix t assume t: "AddSnapshot (m_up env QSnapAdd) (m_row_id env (sn_path r)) r (pw_snaps w) = Inr t"
      let ?r = "if sn_id r = [] then r\<lparr>sn_id := m_row_id env (sn_path r)\<rparr> else r"
      have ins: "insert_row (m_up env QSnapAdd) (\<lambda>a b. sn_id a = sn_id b \<or> (sn_pool a = sn_pool b \<and> sn_path a = sn_path b)) ?r (pw_snaps w) = Inr t"
        using t by (simp add: AddSnapshot_def)
      have s: "sound_snaps (sp_id ` set (pw_pools w)) (pw_snaps w)" using w by (simp add: sound_tables_def)
      have "distinct (map sn_id t)" "distinct (map (\<lambda>s. (sn_pool s, sn_path s)) t)"
        using s by (auto simp: sound_snaps_def intro!: insert_keys [OF ins])
      then show "sound_snaps (sp_id ` set (pw_pools w)) t"
        using s pool insert_set [OF ins] by (auto simp: sound_snaps_def)
    qed
  qed
  show "steps keeps (statement what (on_snaps (DeleteSnapshotRecord up p i)))" for what up p i
    by (rule keeps_statement, erule sound_on_snaps)
      (auto simp: DeleteSnapshotRecord_def exec_def sound_tables_def intro: sound_snaps_del split: if_splits)
  show "steps keeps (statement what (on_storages (storage_UpdateRuntime up now i m s tot fre extra)))"
    for what up now i m s tot fre extra
    by (rule keeps_statement, erule sound_on_storages) (auto simp: sound_tables_def dest: runtime_sound)
  show "steps keeps (statement what (on_pools (UpdateAutoSnapshotConfig up i enabled schedule nxt now)))"
    for what up i enabled schedule nxt now
    by (rule keeps_statement, erule sound_on_pools)
      (clarsimp simp: UpdateAutoSnapshotConfig_def sound_tables_def sound_pools_upd image_tbl_upd split: if_splits)+
qed

lemma keeps_issue: "steps keeps (issue env c)"
  by (simp add: steps_def wp_simps keeps_def sound_tables_def)

lemma keeps_must: "steps keeps (must env what c)"
  unfolding must_def by (intro steps_andthen keeps_issue steps_some_or keeps_rel)

lemma keeps_sh: "steps keeps (sh env what args)"
  unfolding sh_def by (intro steps_andthen keeps_must steps_ret keeps_rel)

lemmas keeps_intros = steps_intros steps_if steps_option steps_fstat steps_fread steps_prod steps_list steps_sum steps_Let
  keeps_rel keeps_must keeps_sh keeps_issue

section \<open>Operations that change the tables\<close>

lemma keeps_reset: "steps keeps (statement what (on_pools (ResetBenchmarkResult up i now)))"
  by (rule keeps_statement, erule sound_on_pools)
    (clarsimp simp: ResetBenchmarkResult_def exec_def sound_tables_def sound_pools_upd image_tbl_upd split: if_splits)+

lemma keeps_device: "steps keeps (statement what (on_devices (UpdateDevice up d)))"
  by (rule keeps_statement, erule sound_on_devices) (auto simp: sound_tables_def dest: device_sound)

lemma sound_pools_mono: "sound_pools sids t \<Longrightarrow> sids \<subseteq> sids' \<Longrightarrow> sound_pools sids' t"
  and sound_devices_mono: "sound_devices pids ds \<Longrightarrow> pids \<subseteq> pids' \<Longrightarrow> sound_devices pids' ds"
  and sound_snaps_mono: "sound_snaps pids ss \<Longrightarrow> pids \<subseteq> pids' \<Longrightarrow> sound_snaps pids' ss"
  by (auto simp: sound_pools_def sound_devices_def sound_snaps_def)

lemma keeps_add_storage: "steps keeps (add_storage env item)"
proof -
  have "sound_tables (w\<lparr>pw_storages := t\<rparr>)"
    if a: "storage_Add (m_up env QInsStorage) (m_storage_id env) item (pw_storages w) = Inr (i, t)" and w: "sound_tables w" for w i t
  proof -
    define item' where "item' = (if st_id item = [] then item\<lparr>st_id := m_storage_id env\<rparr> else item)"
    have ins: "insert_row (m_up env QInsStorage) (\<lambda>r q. st_id r = st_id q \<or> st_mount r = st_mount q) item' (pw_storages w) = Inr t"
      using a unfolding storage_Add_def item'_def [symmetric] Let_def by (simp split: sum.splits)
    have "distinct (map st_id t)" "distinct (map st_mount t)"
      using w by (auto simp: sound_tables_def sound_storages_def intro!: insert_keys [OF ins])
    then show ?thesis
      using w sound_pools_mono [of "st_id ` set (pw_storages w)" "pw_pools w" "st_id ` set t"] insert_set [OF ins]
      by (auto simp: sound_tables_def sound_storages_def)
  qed
  then show ?thesis
    by (auto simp: steps_def wp_def add_storage_def keeps_def split: sum.split prod.split)
qed

lemma insert_devices_sound:
  "insert_devices env pid ds t = Inr t' \<Longrightarrow> pid \<in> pids \<Longrightarrow> sound_devices pids t \<Longrightarrow> sound_devices pids t'"
proof (induction ds arbitrary: t)
  case (Cons d ds)
  let ?d = "d\<lparr>pd_id := (if pd_id d = [] then m_row_id env (pd_path d) else pd_id d), pd_pool := pid\<rparr>"
  obtain t1 where ins: "insert_row (m_up env (QInsDevice (pd_path d)))
      (\<lambda>a b. pd_id a = pd_id b \<or> (pd_pool a = pd_pool b \<and> pd_path a = pd_path b)) ?d t = Inr t1"
    and rest: "insert_devices env pid ds t1 = Inr t'"
    using Cons.prems(1) by (auto simp: Let_def split: sum.splits)
  have "distinct (map pd_id t1)" "distinct (map (\<lambda>d. (pd_pool d, pd_path d)) t1)"
    using Cons.prems(3) by (auto simp: sound_devices_def intro!: insert_keys [OF ins])
  then have "sound_devices pids t1"
    using Cons.prems(2,3) insert_set [OF ins] by (auto simp: sound_devices_def)
  from Cons.IH [OF rest Cons.prems(2) this] show ?case .
qed simp

lemma keeps_pool_Add: "steps keeps (statement what (pool_Add env p ds))"
proof (rule keeps_statement)
  fix w w' assume a: "pool_Add env p ds w = Inr w'" and w: "sound_tables w"
  define q where "q = (if sp_id p = [] then p\<lparr>sp_id := m_pool_id env\<rparr> else p)"
  obtain ps dt where ins: "insert_row (m_up env QInsPool) pool_clash q (pw_pools w) = Inr ps"
    and fk: "sp_storage q \<in> st_id ` set (pw_storages w)"
    and dev: "insert_devices env (sp_id q) ds (pw_devices w) = Inr dt" and w': "w' = w\<lparr>pw_pools := ps, pw_devices := dt\<rparr>"
    using a unfolding pool_Add_def q_def [symmetric] Let_def by (auto split: sum.splits if_splits)
  have ps: "ps = pw_pools w @ [q]" by (rule insert_set [OF ins])
  have "distinct (map sp_id ps)" "distinct (map sp_storage ps)" "distinct (map sp_name ps)" "distinct (map sp_mount ps)"
    using w by (auto simp: sound_tables_def sound_pools_def pool_clash_def intro!: insert_keys [OF ins])
  then have "sound_pools (st_id ` set (pw_storages w)) ps"
    using w fk by (auto simp: ps sound_tables_def sound_pools_def)
  moreover have "sound_devices (sp_id ` set ps) dt"
    by (rule insert_devices_sound [OF dev])
      (use w in \<open>auto simp: ps sound_tables_def intro: sound_devices_mono\<close>)
  moreover have "sound_snaps (sp_id ` set ps) (pw_snaps w)"
    using w by (auto simp: ps sound_tables_def intro: sound_snaps_mono)
  ultimately show "sound_tables w'" using w by (simp add: w' sound_tables_def)
qed

lemma keeps_drop: "steps keeps (statement what (on_snaps (DeleteSnapshotRecordsByPool up i)))"
  by (rule keeps_statement, erule sound_on_snaps)
    (auto simp: DeleteSnapshotRecordsByPool_def exec_def sound_tables_def intro: sound_snaps_del split: if_splits)

lemma keeps_delete:
  "steps keeps (statement what (DeleteByID env i))" "steps keeps (statement what (delete_storage env i))"
proof -
  have "sound_tables (drop_pools gone w)" if "sound_tables w" for gone w
  proof -
    have left: "sp_id ` {r \<in> set (pw_pools w). \<not> gone r} = sp_id ` set (pw_pools w) - sp_id ` {p \<in> set (pw_pools w). gone p}"
      using that by (auto simp: sound_tables_def sound_pools_def dest: distinct_key_eq [of sp_id])
    show ?thesis
      using that unfolding drop_pools_def Let_def sound_tables_def
      by (simp add: left) (auto simp: sound_pools_def sound_devices_def sound_snaps_def distinct_tbl_del)
  qed
  note drop = this
  show "steps keeps (statement what (DeleteByID env i))"
    by (rule keeps_statement) (auto simp: DeleteByID_def drop split: if_splits)
  show "steps keeps (statement what (delete_storage env i))"
  proof (rule keeps_statement)
    fix w w' assume a: "delete_storage env i w = Inr w'" and w: "sound_tables w"
    have w': "w' = (drop_pools (\<lambda>p. sp_storage p = i) w)\<lparr>pw_storages := tbl_del (\<lambda>r. st_id r = i) (pw_storages w)\<rparr>"
      using a by (auto simp: delete_storage_def storage_Delete_def exec_def split: if_splits)
    have "sound_tables (drop_pools (\<lambda>p. sp_storage p = i) w)" by (rule drop [OF w])
    then show "sound_tables w'"
      unfolding w' sound_tables_def
      by (auto simp: drop_pools_def Let_def sound_storages_def sound_pools_def distinct_tbl_del)
  qed
qed

lemma keeps_prepare: "steps keeps (forcePreparePoolDevices env ps)"
proof -
  have one: "steps keeps (prepare_one env p cache)" for p cache
    unfolding prepare_one_def release_device_def wipe_device_def by (intro keeps_intros keeps.pieces)
  have "steps keeps (prepare_from env ps cache)" for cache
    by (induction ps arbitrary: cache) (simp_all, (intro keeps_intros one | assumption)+)
  then show ?thesis by (simp add: forcePreparePoolDevices_def)
qed

lemma keeps_make: "steps keeps (make_filesystem env n raid ps m d)"
  unfolding make_filesystem_def by (intro keeps_intros keeps.mounts)

lemma keeps_create: "steps keeps (CreatePool env req)"
  unfolding CreatePool_def
  by (intro keeps_intros keeps.create_start keeps.resolve keeps_prepare keeps_make keeps_add_storage keeps_pool_Add keeps.load_act)

lemma keeps_delete_pool: "steps keeps (DeletePool env row wipe)"
  unfolding DeletePool_def delete_subvolumes_def wipe_device_def
  by (intro keeps_intros keeps.subvolumes keeps.unmount keeps.mounts keeps_delete)

lemma keeps_format: "steps keeps (FormatPool env row pw)"
  unfolding FormatPool_def wipe_device_def
  by (intro keeps_intros keeps.password keeps.unmount keeps_make keeps_drop keeps_reset keeps.runtime_act keeps.load_act keeps.buildResponse)

lemma keeps_replace: "steps keeps (ReplaceDevice env row req)"
  unfolding ReplaceDevice_def
  by (intro keeps_intros keeps.password keeps_prepare keeps.resolve keeps.source keeps_device keeps_reset keeps.load_act keeps.buildResponse)

text \<open>The record of a cloud storage, when it is listed.\<close>

lemma upsert_sound:
  assumes "UpsertCloudPoolRecord env p w = Inr w'" "sound_tables w"
  shows "sound_tables w'"
proof -
  define f where "f = (\<lambda>q. q\<lparr>sp_storage := sp_storage p, sp_name := sp_name p, sp_fs := sp_fs p, sp_raid := sp_raid p,
    sp_mount := sp_mount p, sp_data := sp_data p, sp_auto := sp_auto p, sp_schedule := sp_schedule p,
    sp_last := sp_last p, sp_next := sp_next p, sp_cache := sp_cache p, sp_updated := Some (m_now env)\<rparr> :: pool)"
  define n where "n = p\<lparr>sp_read_speed := 0, sp_write_speed := 0, sp_tested := None, sp_created := m_now env, sp_updated := Some (m_now env)\<rparr>"
  let ?ps = "pw_pools w" and ?sids = "st_id ` set (pw_storages w)"
  have fk: "sp_storage p \<in> ?sids"
    and free: "\<And>q. q \<in> set ?ps \<Longrightarrow> sp_id q \<noteq> sp_id p \<Longrightarrow> \<not> pool_clash p q"
    and w': "sp_id p \<in> sp_id ` set ?ps \<Longrightarrow> w' = w\<lparr>pw_pools := tbl_upd (\<lambda>q. sp_id q = sp_id p) f ?ps\<rparr>"
      "sp_id p \<notin> sp_id ` set ?ps \<Longrightarrow> w' = w\<lparr>pw_pools := ?ps @ [n]\<rparr>"
    using assms(1) unfolding UpsertCloudPoolRecord_def f_def [symmetric] n_def [symmetric]
    by (simp_all split: if_split_asm) blast+
  have s: "sound_pools ?sids ?ps" "sound_devices (sp_id ` set ?ps) (pw_devices w)" "sound_snaps (sp_id ` set ?ps) (pw_snaps w)"
    "sound_storages (pw_storages w)" using assms(2) by (simp_all add: sound_tables_def)
  have one: "q = r" if "q \<in> set ?ps" "r \<in> set ?ps" "sp_id q = sp_id r" for q r
    using s(1) that by (auto simp: sound_pools_def intro: distinct_key_eq [of sp_id])
  show ?thesis
  proof (cases "sp_id p \<in> sp_id ` set ?ps")
    case True
    let ?t = "tbl_upd (\<lambda>q. sp_id q = sp_id p) f ?ps"
    have f: "sp_id (f q) = sp_id q" "sp_storage (f q) = sp_storage p" "sp_name (f q) = sp_name p" "sp_mount (f q) = sp_mount p" for q
      by (simp_all add: f_def)
    have ids: "map sp_id ?t = map sp_id ?ps" "sp_id ` set ?t = sp_id ` set ?ps"
      by (rule map_tbl_upd image_tbl_upd; simp add: f)+
    have "distinct (map sp_storage ?t)" "distinct (map sp_name ?t)" "distinct (map sp_mount ?t)"
      using s(1) one free f by (auto simp: sound_pools_def pool_clash_def intro!: distinct_tbl_upd_one)
    moreover have "sp_storage ` set ?t \<subseteq> ?sids"
      using s(1) fk by (auto simp: sound_pools_def set_tbl_upd f)
    ultimately have "sound_pools ?sids ?t" using s(1) by (simp add: sound_pools_def ids(1))
    then show ?thesis using s(2-4) by (simp add: w'(1) [OF True] sound_tables_def ids(2))
  next
    case False
    have n: "sp_id n = sp_id p" "sp_storage n = sp_storage p" "sp_name n = sp_name p" "sp_mount n = sp_mount p"
      by (simp_all add: n_def)
    have "\<not> pool_clash p q" if "q \<in> set ?ps" for q
      using free [OF that] False that by (metis imageI)
    then have "sound_pools ?sids (?ps @ [n])"
      using s(1) fk n False by (auto simp: sound_pools_def pool_clash_def)
    moreover have "sound_devices (sp_id ` set (?ps @ [n])) (pw_devices w)" "sound_snaps (sp_id ` set (?ps @ [n])) (pw_snaps w)"
      by (rule sound_devices_mono [OF s(2)] sound_snaps_mono [OF s(3)]; auto)+
    ultimately show ?thesis using s(4) by (simp add: w'(2) [OF False] sound_tables_def)
  qed
qed

lemma cloud_sound: "sound_tables w \<Longrightarrow> sound_tables (snd (cloud_response env item w))"
proof (cases "UpsertCloudPoolRecord env (cloudStoragePool item) w")
  case (Inr w1)
  assume "sound_tables w"
  then have w1: "sound_tables w1" by (rule upsert_sound [OF Inr])
  obtain r w2 where l: "load_pool env (QCloudGet (st_id item)) (st_id item) w1 = (r, w2)" by force
  have "sound_tables w2" using stepsD [OF keeps.load_act(1) l] w1 by (simp add: keeps_def)
  then show ?thesis by (cases r) (simp_all add: cloud_response_def Inr l Let_def case_prod_unfold)
qed (simp add: cloud_response_def Let_def)

lemma clouds_sound: "sound_tables w \<Longrightarrow> sound_tables (snd (BuildCloudResponses env items w))"
  by (induction items arbitrary: w) (simp_all add: Let_def case_prod_unfold cloud_sound)

section \<open>Requests\<close>

lemma sound_paudit [simp]: "sound_tables (paudit a b c d e w) = sound_tables w"
  by (simp add: paudit_def sound_tables_def)

lemma with_pool_sound:
  assumes "sound_tables w" "\<And>row w1. sound_tables w1 \<Longrightarrow> sound_tables (snd (f row w1))"
  shows "sound_tables (snd (with_pool env i f w))"
proof -
  obtain r w1 where l: "load_pool env QPool (trim i) w = (r, w1)" by force
  have "sound_tables w1" using stepsD [OF keeps.load_act(1) l] assms(1) by (simp add: keeps_def)
  then show ?thesis using assms(2) by (cases r) (simp_all add: with_pool_def l)
qed

lemma act_sound: "steps keeps m \<Longrightarrow> sound_tables w \<Longrightarrow> m w = (r, w') \<Longrightarrow> sound_tables w'"
  using stepsD [of keeps m w r w'] by (simp add: keeps_def)

lemma serve_sound:
  assumes "sound_tables w" shows "sound_tables (serve_pool env req w)"
proof (cases req)
  case PList
  obtain r w1 where l: "list_inputs env w = (r, w1)" by force
  have w1: "sound_tables w1" by (rule act_sound [OF keeps.inputs assms l])
  show ?thesis
  proof (cases r)
    case (Inr x)
    obtain pools storages where x: "x = (pools, storages)" by force
    obtain r2 w2 where b: "BuildResponses env pools w1 = (r2, w2)" by force
    have w2: "sound_tables w2" by (rule act_sound [OF keeps.responses w1 b])
    show ?thesis
      using w2 clouds_sound [OF w2] by (cases r2) (simp_all add: PList HandleListPools_def l Inr x b case_prod_unfold)
  qed (use w1 in \<open>simp add: PList HandleListPools_def l\<close>)
next
  case (PCreate body)
  then show ?thesis
    using act_sound [OF keeps_create assms] assms
    by (auto simp: HandleCreatePool_def split: option.split prod.split sum.split perr.split)
next
  case (PUpdate i body)
  then show ?thesis using assms
    by (auto simp: HandleUpdatePool_def split: option.split prod.split sum.split
        intro!: with_pool_sound intro: act_sound [OF keeps.update])
next
  case (PDelete i b body)
  then show ?thesis using assms
    by (auto simp: HandleDeletePool_def split: option.split prod.split sum.split
        intro!: with_pool_sound intro: act_sound [OF keeps_delete_pool])
next
  case (PFormat i body)
  then show ?thesis using assms
    by (auto simp: HandleFormatPool_def split: option.split prod.split sum.split
        intro!: with_pool_sound intro: act_sound [OF keeps_format])
next
  case (PReplace i body)
  then show ?thesis using assms
    by (auto simp: HandleReplaceDevice_def split: option.split prod.split sum.split
        intro!: with_pool_sound intro: act_sound [OF keeps_replace])
next
  case (PSnapList i)
  then show ?thesis using assms
    by (auto simp: HandleListSnapshots_def split: prod.split sum.split
        intro!: with_pool_sound intro: act_sound [OF keeps.snapshots(1)])
next
  case (PSnapCreate i body)
  then show ?thesis using assms
    by (auto simp: HandleCreateSnapshot_def split: option.split prod.split sum.split
        intro!: with_pool_sound intro: act_sound [OF keeps.snapshots(2)])
next
  case (PSnapDelete i s)
  then show ?thesis using assms
    by (auto simp: HandleDeleteSnapshot_def split: prod.split sum.split
        intro!: with_pool_sound intro: act_sound [OF keeps.snapshots(3)])
next
  case (PSnapRestore i s b body)
  then show ?thesis using assms
    by (auto simp: HandleRestoreSnapshot_def split: option.split prod.split sum.split
        intro!: with_pool_sound intro: act_sound [OF keeps.snapshots(4)])
qed

definition no_pools :: pworld where
  "no_pools = \<lparr>pw_storages = [], pw_pools = [], pw_devices = [], pw_snaps = [], pw_log = [], pw_audit = []\<rparr>"

text \<open>
  The tables of pools keep their type.  From empty tables, whatever requests on pools come, on
  whatever machines and with whatever statements failing: identifiers, storages, names and mount paths
  of pools, identifiers of storages, devices and snapshots, and the paths of a pool's devices and
  snapshots are unique, and the storage of every pool, and the pool of every device and snapshot, exist.
\<close>

theorem pool_tables_sound:
  "sound_tables (foldl (\<lambda>w (env, req). serve_pool env req w) no_pools reqs)"
proof -
  have "sound_tables w \<Longrightarrow> sound_tables (foldl (\<lambda>w (env, req). serve_pool env req w) w reqs)" for w
    by (induction reqs arbitrary: w) (auto simp: serve_sound)
  moreover have "sound_tables no_pools"
    by (simp add: no_pools_def sound_tables_def sound_storages_def sound_pools_def sound_devices_def sound_snaps_def)
  ultimately show ?thesis by blast
qed

end
