(* ===== verification/Pool_Props.thy ===== *)
theory Pool_Props
  imports Pool_Safety Pool_Tables
begin

text \<open>The properties of storage pools.\<close>

section \<open>What a request may destroy\<close>

definition own_device :: "pworld \<Rightarrow> string \<Rightarrow> string \<Rightarrow> bool" where
  "own_device w i p \<longleftrightarrow> (\<exists>d\<in>set (pw_devices w). pd_pool d = i \<and> (p = pd_path d \<or> p = trim (pd_path d)))"

lemma load_pool_result:
  assumes "load_pool env s i w = (r, w1)"
  shows "w1 = w" "r = Inr row \<Longrightarrow> fst row \<in> set (pw_pools w) \<and> sp_id (fst row) = i \<and>
    set (snd row) = {d \<in> set (pw_devices w). pd_pool d = i}"
  using assms tbl_get_Some [of sp_id i "pw_pools w"]
  by (auto simp: load_pool_def andthen_def query_def ret_def pool_Get_def sel_one_def listDevices_def sel_all_def
      split: option.splits if_splits sum.splits)

lemma fine_paudit [simp]: "pw_log (paudit a b c d e w) = pw_log w"
  by (simp add: paudit_def)

text \<open>A handler runs an action on the pool it loads, and notes an audit entry.\<close>

lemma with_pool_fine:
  assumes "\<And>row. fst row \<in> set (pw_pools w) \<Longrightarrow> set (snd row) = {d \<in> set (pw_devices w). pd_pool d = trim i} \<Longrightarrow>
    fine_log env D own (pw_log w) (pw_log (snd (f row w)))"
  shows "fine_log env D own (pw_log w) (pw_log (snd (with_pool env i f w)))"
proof -
  obtain r w1 where l: "load_pool env QPool (trim i) w = (r, w1)" by force
  show ?thesis
    using assms load_pool_result [OF l] l by (cases r) (auto simp: with_pool_def fine_refl)
qed

lemma act_log: "wp m (fine_end env D own log0) w \<Longrightarrow> m w = (r, w') \<Longrightarrow> fine_log env D own log0 (pw_log w')"
  by (simp add: wp_def fine_end_def)

lemma upsert_log: "UpsertCloudPoolRecord env p w = Inr w' \<Longrightarrow> pw_log w' = pw_log w"
  unfolding UpsertCloudPoolRecord_def
  by (simp only: sum.inject sum.distinct split: if_split_asm)
    (drule sym, erule ssubst, simp)+

lemma cloud_response_log: "pw_log (snd (cloud_response env item w)) = pw_log w"
proof (cases "UpsertCloudPoolRecord env (cloudStoragePool item) w")
  case (Inr w1)
  obtain r w2 where l: "load_pool env (QCloudGet (st_id item)) (st_id item) w1 = (r, w2)" by force
  have "pw_log w2 = pw_log w" using load_pool_result(1) [OF l] upsert_log [OF Inr] by simp
  then show ?thesis
    by (cases r) (simp_all add: cloud_response_def Inr l Let_def case_prod_unfold)
qed (simp add: cloud_response_def Let_def)

lemma cloud_log [simp]: "pw_log (snd (BuildCloudResponses env items w)) = pw_log w"
  by (induction items arbitrary: w) (simp_all add: Let_def case_prod_unfold cloud_response_log)

lemma serve_fine:
  assumes "D = pd_path ` set (pw_devices w)" "own = (\<lambda>p. \<exists>i. pool_of req = Some i \<and> own_device w i p)"
  shows "fine_log env D own (pw_log w) (pw_log (serve_pool env req w))"
proof -
  have good: "good env D own (pw_log w) w" using assms(1) by (simp add: good_def fine_refl)
  note quiet = act_log [OF quiet_end [OF _ good]]
  have mine: "\<forall>d\<in>set (snd row). own (pd_path d) \<and> own (trim (pd_path d))"
    if "set (snd row) = {d \<in> set (pw_devices w). pd_pool d = trim i}" "pool_of req = Some (trim i)" for row :: pool_row and i
    using that assms(2) by (auto simp: own_device_def)
  show ?thesis
  proof (cases req)
    case PList
    show ?thesis
    proof (cases "list_inputs env w")
      case (Pair r w1)
      have q: "quiet w w1" using quiet.inputs Pair by (rule stepsD)
      show ?thesis
      proof (cases r)
        case (Inr x)
        obtain pools storages where x: "x = (pools, storages)" by force
        obtain r2 w2 where b: "BuildResponses env pools w1 = (r2, w2)" by force
        have "quiet w w2" using q stepsD [OF quiet.responses b] quiet_rel(2) by (meson transpE)
        then have "good env D own (pw_log w) w2" by (rule quiet_keeps(1) [OF _ good])
        moreover have "pw_log (serve_pool env PList w) = pw_log w2"
          by (cases r2) (simp_all add: HandleListPools_def Pair Inr x b case_prod_unfold)
        ultimately show ?thesis by (simp add: PList good_def)
      qed (use PList Pair quiet_keeps(1) [OF q good] in \<open>simp add: HandleListPools_def good_def\<close>)
    qed
  next
    case (PCreate body)
    then show ?thesis
      using act_log [OF create_fine [OF good]] fine_refl
      by (auto simp: HandleCreatePool_def split: option.split prod.split sum.split perr.split)
  next
    case (PUpdate i body)
    show ?thesis unfolding PUpdate serve_pool.simps HandleUpdatePool_def
      by (rule with_pool_fine) (auto simp: fine_refl split: option.split prod.split sum.split intro: quiet [OF quiet.update])
  next
    case (PDelete i b body)
    show ?thesis unfolding PDelete serve_pool.simps HandleDeletePool_def
    proof (rule with_pool_fine)
      fix row :: pool_row assume "set (snd row) = {d \<in> set (pw_devices w). pd_pool d = trim i}"
      then have "steps (only (owned own)) (DeletePool env row wipe)" for wipe
        using mine PDelete by (intro delete_owned) auto
      note act_log [OF owned_end [OF this good]]
      then show "fine_log env D own (pw_log w) (pw_log (snd (case if b then body else Some False of
          None \<Rightarrow> (Fail 400 ''INVALID_BODY'', w)
        | Some wipe \<Rightarrow> (case DeletePool env row wipe w of
             (Inl _, w1) \<Rightarrow> (Fail 400 ''DELETE_STORAGE_POOL_FAILED'',
               paudit ''storage_pool_delete_failed'' ''delete'' False ''storage_pool'' (sp_id (fst row)) w1)
           | (Inr rep, w1) \<Rightarrow> (Reply 200 rep,
               paudit ''storage_pool_deleted'' ''delete'' True ''storage_pool'' (sp_id (fst row)) w1)))))"
        by (auto simp: fine_refl split: option.split prod.split sum.split)
    qed
  next
    case (PFormat i body)
    have "fine_log env D own (pw_log w) (pw_log w1)"
      if "set (snd row) = {d \<in> set (pw_devices w). pd_pool d = trim i}" "FormatPool env row pw w = (r, w1)" for row pw r w1
      using act_log [OF owned_end [OF format_owned good] that(2)] mine [OF that(1)] PFormat by auto
    then show ?thesis unfolding PFormat serve_pool.simps HandleFormatPool_def
      by (intro with_pool_fine) (auto simp: fine_refl split: option.split prod.split sum.split)
  next
    case (PReplace i body)
    show ?thesis unfolding PReplace serve_pool.simps HandleReplaceDevice_def
      by (rule with_pool_fine)
        (auto simp: fine_refl split: option.split prod.split sum.split intro: act_log [OF replace_fine [OF good]])
  next
    case (PSnapList i)
    show ?thesis unfolding PSnapList serve_pool.simps HandleListSnapshots_def
      by (rule with_pool_fine) (auto split: prod.split sum.split intro: quiet [OF quiet.snapshots(1)])
  next
    case (PSnapCreate i body)
    show ?thesis unfolding PSnapCreate serve_pool.simps HandleCreateSnapshot_def
      by (rule with_pool_fine) (auto simp: fine_refl split: option.split prod.split sum.split intro: quiet [OF quiet.snapshots(2)])
  next
    case (PSnapDelete i s)
    show ?thesis unfolding PSnapDelete serve_pool.simps HandleDeleteSnapshot_def
      by (rule with_pool_fine) (auto split: prod.split sum.split intro: quiet [OF quiet.snapshots(3)])
  next
    case (PSnapRestore i s b body)
    show ?thesis unfolding PSnapRestore serve_pool.simps HandleRestoreSnapshot_def
      by (rule with_pool_fine) (auto simp: fine_refl split: option.split prod.split sum.split intro: quiet [OF quiet.snapshots(4)])
  qed
qed

text \<open>
  C13: No request destroys a device it must not.  Whatever the machine answers, each \<open>wipefs\<close> or
  \<open>mkfs.btrfs\<close> that any request on pools issues is on a device of the pool the request names, or on a
  device that no pool has registered and that \<open>lsblk\<close> has shown before, in the same log, not to hold
  the root or boot file systems.
\<close>

theorem pool_requests_destroy_only_theirs:
  "\<exists>cs. pw_log (serve_pool env req w) = pw_log w @ cs \<and>
    (\<forall>k<length cs. \<forall>p. destroys (cs ! k) p \<longrightarrow>
       (\<exists>i. pool_of req = Some i \<and> own_device w i p) \<or>
       (p \<notin> pd_path ` set (pw_devices w) \<and> looked env (pw_log w @ take k cs) p))"
proof -
  have f: "fine_log env (pd_path ` set (pw_devices w)) (\<lambda>p. \<exists>i. pool_of req = Some i \<and> own_device w i p) (pw_log w)
      (pw_log (serve_pool env req w))" by (rule serve_fine) simp_all
  then obtain cs where cs: "pw_log (serve_pool env req w) = pw_log w @ cs" by (auto simp: fine_log_def prefix_def)
  have "(\<exists>i. pool_of req = Some i \<and> own_device w i p) \<or> (p \<notin> pd_path ` set (pw_devices w) \<and> looked env (pw_log w @ take k cs) p)"
    if "k < length cs" "destroys (cs ! k) p" for k p
    using f that unfolding fine_log_def cs by (auto dest!: spec [of _ "length (pw_log w) + k"] simp: nth_append)
  with cs show ?thesis by blast
qed

end
