(* ===== verification/Pool_Results.thy ===== *)
theory Pool_Results
  imports Pool_Tables
begin

text \<open>What a successful request on pools leaves in the tables and in the log of commands.\<close>

section \<open>Actions that succeed\<close>

named_theorems done_simps \<open>actions that end without an error\<close>

lemma done_ret [done_simps]: "ret x w = (Inr y, w') \<longleftrightarrow> y = x \<and> w' = w"
  by (auto simp: ret_def)

lemma done_fail [done_simps]: "fail e w = (Inr y, w') \<longleftrightarrow> False"
  by (simp add: fail_def)

lemma done_andthen [done_simps]: "andthen m f w = (Inr y, w') \<longleftrightarrow> (\<exists>x w1. m w = (Inr x, w1) \<and> f x w1 = (Inr y, w'))"
  by (auto simp: andthen_def split: prod.split sum.split)

lemma done_check [done_simps]: "check b what w = (Inr y, w') \<longleftrightarrow> b \<and> w' = w"
  by (auto simp: check_def done_simps)

lemma done_some_or [done_simps]: "some_or x e w = (Inr y, w') \<longleftrightarrow> x = Some y \<and> w' = w"
  by (auto simp: some_or_def done_simps split: option.split)

lemma done_reading [done_simps]: "reading f w = (Inr y, w') \<longleftrightarrow> y = f w \<and> w' = w"
  by (auto simp: reading_def)

lemma done_query [done_simps]: "query what q w = (Inr y, w') \<longleftrightarrow> q w = Inr y \<and> w' = w"
  by (auto simp: query_def split: sum.split)

lemma done_statement [done_simps]: "statement what q w = (Inr y, w') \<longleftrightarrow> q w = Inr w'"
  by (auto simp: statement_def split: sum.split)

lemma done_issue [done_simps]:
  "issue env c w = (Inr out, w') \<longleftrightarrow> out = m_run env (pw_log w) c \<and> w' = w\<lparr>pw_log := pw_log w @ [c]\<rparr>"
  by (auto simp: issue_def)

lemma done_must [done_simps]:
  "must env what c w = (Inr out, w') \<longleftrightarrow> m_run env (pw_log w) c = Some out \<and> w' = w\<lparr>pw_log := pw_log w @ [c]\<rparr>"
  by (auto simp: must_def done_simps)

lemma done_sh [done_simps]:
  "sh env what args w = (Inr y, w') \<longleftrightarrow>
    m_run env (pw_log w) (Cmd args []) \<noteq> None \<and> w' = w\<lparr>pw_log := pw_log w @ [Cmd args []]\<rparr>"
  by (auto simp: sh_def done_simps)

lemma done_if [done_simps]:
  "(if b then m else n) w = (Inr y, w') \<longleftrightarrow> (b \<longrightarrow> m w = (Inr y, w')) \<and> (\<not> b \<longrightarrow> n w = (Inr y, w'))"
  by simp

section \<open>Actions that only use the machine\<close>

text \<open>\<open>same_tables\<close>: only the log has grown.\<close>

definition same_tables :: "pworld \<Rightarrow> pworld \<Rightarrow> bool" where
  "same_tables w w' \<longleftrightarrow> (\<exists>cs. w' = w\<lparr>pw_log := pw_log w @ cs\<rparr>)"

lemma same_tables_rel: "reflp same_tables" "transp same_tables"
proof -
  have "same_tables w w" for w unfolding same_tables_def by (rule exI [of _ "[]"]) simp
  then show "reflp same_tables" by (simp add: reflp_def)
  show "transp same_tables" by (auto simp: same_tables_def transp_def)
qed

lemma same_tables_issue: "same_tables w (w\<lparr>pw_log := pw_log w @ [c]\<rparr>)"
  by (auto simp: same_tables_def)

interpretation same: log_relation same_tables
  by unfold_locales (simp_all add: same_tables_rel same_tables_issue)

lemma same_issue: "steps same_tables (issue env c)"
  by (simp add: steps_def wp_simps same_tables_issue)

lemma same_must: "steps same_tables (must env what c)"
  unfolding must_def by (intro steps_andthen same_issue steps_some_or same_tables_rel)

lemma same_sh: "steps same_tables (sh env what args)"
  unfolding sh_def by (intro steps_andthen same_must steps_ret same_tables_rel)

lemmas same_intros = steps_intros steps_if steps_option steps_fstat steps_fread steps_prod steps_list steps_sum steps_Let
  same_tables_rel same_must same_sh same_issue

lemma same_prepare: "steps same_tables (forcePreparePoolDevices env ps)"
proof -
  have one: "steps same_tables (prepare_one env p cache)" for p cache
    unfolding prepare_one_def release_device_def wipe_device_def by (intro same_intros same.pieces)
  have "steps same_tables (prepare_from env ps cache)" for cache
    by (induction ps arbitrary: cache) (simp_all, (intro same_intros one | assumption)+)
  then show ?thesis by (simp add: forcePreparePoolDevices_def)
qed

lemma same_make: "steps same_tables (make_filesystem env n raid ps m d)"
  unfolding make_filesystem_def by (intro same_intros same.mounts)

lemma sameD: "steps same_tables m \<Longrightarrow> m w = (r, w') \<Longrightarrow> \<exists>cs. w' = w\<lparr>pw_log := pw_log w @ cs\<rparr>"
  using stepsD [of same_tables m w r w'] by (simp add: same_tables_def)

text \<open>The metadata of a device is that of the requested path.\<close>

lemma resolve_paths:
  assumes "resolvePoolDevices env ps w = (Inr ds, w')" shows "map pd_path ds = ps"
proof -
  have one: "pd_path d = p" if "inspectPoolDevice env p cache w = (Inr (d, c'), w1)" for p cache w d c' w1
    using that by (auto simp: inspectPoolDevice_def done_simps pool_device_of_def Let_def split: prod.splits)
  have "\<forall>p d. result p = Some d \<longrightarrow> pd_path d = p \<Longrightarrow> load_devices env ps cache result w = (Inr res, w1) \<Longrightarrow>
      \<forall>p d. res p = Some d \<longrightarrow> pd_path d = p" for ps cache result w res w1
  proof (induction ps arbitrary: cache result w)
    case (Cons p ps)
    obtain d c' w2 where d: "inspectPoolDevice env p cache w = (Inr (d, c'), w2)"
      and rest: "load_devices env ps c' (result(p \<mapsto> d)) w2 = (Inr res, w1)"
      using Cons.prems(2) by (auto simp: done_simps)
    show ?case by (rule Cons.IH [OF _ rest]) (use Cons.prems(1) one [OF d] in auto)
  qed (simp add: done_simps)
  note loaded = this [of Map.empty]
  obtain res w1 where res: "load_devices env ps Map.empty Map.empty w = (Inr res, w1)"
    and rest: "(if \<exists>p\<in>set ps. res p = None then fail (PErr ''device metadata not found'') else ret (map (\<lambda>p. the (res p)) ps)) w1 = (Inr ds, w')"
    using assms by (auto simp: resolvePoolDevices_def loadPoolDeviceMetadata_def done_andthen)
  have all: "res p \<noteq> None" if "p \<in> set ps" for p using rest that by (auto simp: done_simps split: if_splits)
  have "ds = map (\<lambda>p. the (res p)) ps" using rest by (auto simp: done_simps split: if_splits)
  then show ?thesis using all loaded [OF _ res] by (auto simp: map_idI)
qed

section \<open>Creating a pool\<close>

lemma insert_devices_rows:
  "insert_devices env pid ds t = Inr t' \<Longrightarrow> \<exists>new. t' = t @ new \<and> map pd_path new = map pd_path ds \<and> (\<forall>d\<in>set new. pd_pool d = pid)"
proof (induction ds arbitrary: t)
  case (Cons d ds)
  let ?d = "d\<lparr>pd_id := (if pd_id d = [] then m_row_id env (pd_path d) else pd_id d), pd_pool := pid\<rparr>"
  have "insert_devices env pid ds (t @ [?d]) = Inr t'"
    using Cons.prems by (auto simp: Let_def insert_row_def split: sum.splits if_split_asm)
  from Cons.IH [OF this] obtain new where "t' = (t @ [?d]) @ new" "map pd_path new = map pd_path ds" "\<forall>d\<in>set new. pd_pool d = pid"
    by blast
  then show ?case by (intro exI [of _ "?d # new"]) simp
qed simp

lemma with_devices_rows: "with_devices env ps w = (Inr rows, w') \<Longrightarrow> map fst rows = ps \<and> w' = w"
  by (induction ps arbitrary: rows w) (auto simp: done_simps)

lemma list_pools_rows: "list_pools env w = (Inr rows, w') \<Longrightarrow> set (map fst rows) = set (pw_pools w) \<and> w' = w"
  using with_devices_rows [of env "order_desc sp_created (pw_pools w)" w rows w']
  by (simp add: list_pools_def done_simps pool_List_def sel_all_def split: if_splits del: set_map)

lemma add_storage_rows:
  assumes "add_storage env item w = (Inr i, w')"
  shows "\<exists>st. w' = w\<lparr>pw_storages := pw_storages w @ [st]\<rparr> \<and> st_id st = i \<and> st_mount st = st_mount item \<and> st_name st = st_name item"
proof -
  have "storage_Add (m_up env QInsStorage) (m_storage_id env) item (pw_storages w) = Inr (i, pw_storages w')"
    "w' = w\<lparr>pw_storages := pw_storages w'\<rparr>"
    using assms by (auto simp: add_storage_def split: sum.splits prod.splits)
  then show ?thesis
    by (intro exI [of _ "if st_id item = [] then item\<lparr>st_id := m_storage_id env\<rparr> else item"])
      (auto simp: storage_Add_def insert_row_def Let_def split: if_splits)
qed

lemma pool_Add_rows:
  assumes "pool_Add env p ds w = Inr w'"
  shows "\<exists>q new. w' = w\<lparr>pw_pools := pw_pools w @ [q], pw_devices := pw_devices w @ new\<rparr> \<and> map pd_path new = map pd_path ds \<and>
    (\<forall>d\<in>set new. pd_pool d = sp_id q) \<and> (q = p \<or> (\<exists>i. q = p\<lparr>sp_id := i\<rparr>)) \<and> (\<forall>r\<in>set (pw_pools w). \<not> pool_clash q r)"
proof -
  define q where "q = (if sp_id p = [] then p\<lparr>sp_id := m_pool_id env\<rparr> else p)"
  obtain dt where ins: "insert_row (m_up env QInsPool) pool_clash q (pw_pools w) = Inr (pw_pools w @ [q])"
    and dev: "insert_devices env (sp_id q) ds (pw_devices w) = Inr dt" and w': "w' = w\<lparr>pw_pools := pw_pools w @ [q], pw_devices := dt\<rparr>"
    using assms unfolding pool_Add_def q_def [symmetric] Let_def by (auto simp: insert_row_def split: sum.splits if_split_asm)
  have "\<forall>r\<in>set (pw_pools w). \<not> pool_clash q r" using ins by (auto simp: insert_row_def split: if_splits)
  moreover have "q = p \<or> (\<exists>i. q = p\<lparr>sp_id := i\<rparr>)" by (auto simp: q_def)
  ultimately show ?thesis using insert_devices_rows [OF dev] w' by blast
qed

text \<open>
  C15: What a created pool is.  When the creation of a pool is answered 201, its arguments were valid;
  the storage, pool and device tables have gained exactly the storage, the pool and the devices of the
  request: the pool is mounted at the hash of its name under the pool root, its data and its storage
  lie in \<open>data\<close> below, its devices are the clean paths of the request in their order, and no other row
  of any table has changed; a file system of the RAID level was made on exactly these devices.
\<close>

theorem create_pool_result:
  assumes "HandleCreatePool env (Some req) w = (Some (Reply n row), w')"
  shows "\<exists>schedule raid h st p ds.
    create_args req = Some (schedule, raid, map pd_path ds) \<and> stableNameHash (cq_name req) = Some h \<and>
    sp_mount p = Join [envOr (m_root env) defaultPoolRoot, h] \<and> sp_data p = Join [sp_mount p, ''data''] \<and>
    sp_name p = cq_name req \<and> sp_raid p = raid \<and> sp_storage p = st_id st \<and> st_mount st = sp_data p \<and>
    (\<forall>d\<in>set ds. pd_pool d = sp_id p) \<and> fst row = p \<and> n = 201 \<and>
    pw_storages w' = pw_storages w @ [st] \<and> pw_pools w' = pw_pools w @ [p] \<and> pw_devices w' = pw_devices w @ ds \<and>
    pw_snaps w' = pw_snaps w \<and>
    (\<exists>cs. pw_log w' = pw_log w @ cs \<and> mkfs_cmd (cq_name req) raid (map pd_path ds) \<in> set cs)"
proof -
  obtain w0 where c: "CreatePool env req w = (Inr row, w0)" and w0: "n = 201"
    "w' = paudit ''storage_pool_created'' ''create'' True ''storage_pool'' (sp_id (fst row)) w0"
    using assms by (auto simp: HandleCreatePool_def split: prod.splits sum.splits perr.splits)
  obtain schedule raid paths where args: "create_args req = Some (schedule, raid, paths)"
    using c by (cases "create_args req") (auto simp: CreatePool_def done_simps)
  let ?root = "envOr (m_root env) defaultPoolRoot"
  obtain h w1 where gen: "generatePoolPathName env ?root (cq_name req) w = (Inr h, w1)"
    using c by (auto simp: CreatePool_def done_andthen args done_some_or Let_def simp del: Join.simps)
  define mp where "mp = Join [?root, h]"
  define dp where "dp = Join [mp, ''data'']"
  obtain w2 w3 pds w4 w5 w6 sid w7 w8 pools where
    avail: "ensureCreateAvailable env (trim (cq_name req)) mp dp w1 = (Inr (), w2)" and
    w3: "w3 = w2\<lparr>pw_log := pw_log w2 @ [MkdirAll mp]\<rparr>" and
    res: "resolvePoolDevices env paths w3 = (Inr pds, w4)" and
    prep: "forcePreparePoolDevices env paths w4 = (Inr (), w5)" and
    make: "make_filesystem env (cq_name req) raid paths mp dp w5 = (Inr (), w6)" and
    st: "add_storage env (new_storage env (cq_name req) raid dp (statFilesystem env dp w6)) w6 = (Inr sid, w7)" and
    pool: "pool_Add env (new_pool env req schedule raid sid mp dp) pds w7 = Inr w8" and
    reload: "list_pools env w8 = (Inr pools, w0)" and found: "find (\<lambda>row. sp_storage (fst row) = sid) pools = Some row"
    using c by (auto simp: CreatePool_def args gen done_simps Let_def mp_def [symmetric] dp_def [symmetric] simp del: Join.simps)
  have hash: "stableNameHash (cq_name req) = Some h"
    using gen by (auto simp: generatePoolPathName_def done_simps Let_def simp del: Join.simps split: fstat.splits) (metis fstat.exhaust)
  obtain cs where cs: "w6 = w\<lparr>pw_log := pw_log w @ cs\<rparr>" "mkfs_cmd (cq_name req) raid paths \<in> set cs"
  proof -
    obtain cs1 cs2 cs4 cs5 where
      1: "w1 = w\<lparr>pw_log := pw_log w @ cs1\<rparr>" "w2 = w1\<lparr>pw_log := pw_log w1 @ cs2\<rparr>" "w4 = w3\<lparr>pw_log := pw_log w3 @ cs4\<rparr>"
      "w5 = w4\<lparr>pw_log := pw_log w4 @ cs5\<rparr>"
      using sameD [OF same.create_start(1) gen] sameD [OF same.create_start(2) avail] sameD [OF same.resolve res]
        sameD [OF same_prepare prep] by blast
    let ?w = "w5\<lparr>pw_log := pw_log w5 @ [mkfs_cmd (cq_name req) raid paths]\<rparr>"
    have "andthen (persistPoolMount env (hd paths) mp) (\<lambda>_. initializePoolLayout env mp dp) ?w = (Inr (), w6)"
      using make by (auto simp: make_filesystem_def done_simps)
    moreover have "steps same_tables (andthen (persistPoolMount env (hd paths) mp) (\<lambda>_. initializePoolLayout env mp dp))"
      by (intro same_intros same.mounts)
    ultimately obtain cs6 where "w6 = ?w\<lparr>pw_log := pw_log ?w @ cs6\<rparr>" using sameD by blast
    with 1 w3 that [of "cs1 @ cs2 @ [MkdirAll mp] @ cs4 @ cs5 @ [mkfs_cmd (cq_name req) raid paths] @ cs6"] show thesis by simp
  qed
  obtain item where item: "w7 = w6\<lparr>pw_storages := pw_storages w6 @ [item]\<rparr>" "st_id item = sid" "st_mount item = dp"
    using add_storage_rows [OF st] by (auto simp: new_storage_def)
  obtain q new where q: "w8 = w7\<lparr>pw_pools := pw_pools w7 @ [q], pw_devices := pw_devices w7 @ new\<rparr>" "map pd_path new = map pd_path pds"
    "\<forall>d\<in>set new. pd_pool d = sp_id q" "q = new_pool env req schedule raid sid mp dp \<or> (\<exists>i. q = (new_pool env req schedule raid sid mp dp)\<lparr>sp_id := i\<rparr>)"
    "\<forall>r\<in>set (pw_pools w7). \<not> pool_clash q r" using pool_Add_rows [OF pool] by blast
  have qf: "sp_storage q = sid" "sp_mount q = mp" "sp_data q = dp" "sp_name q = cq_name req" "sp_raid q = raid"
    using q(4) by (auto simp: new_pool_def)
  have list: "fst row \<in> set (pw_pools w8)" "w0 = w8" "sp_storage (fst row) = sid"
    using list_pools_rows [OF reload] found nth_mem [of _ pools] by (force simp: find_Some_iff)+
  have "fst row = q" using list(1,3) q(1,5) qf(1) by (auto simp: pool_clash_def)
  moreover have "pw_storages w' = pw_storages w @ [item]" "pw_pools w' = pw_pools w @ [q]" "pw_devices w' = pw_devices w @ new"
    "pw_snaps w' = pw_snaps w" "pw_log w' = pw_log w @ cs"
    using w0(2) list(2) cs(1) item(1) q(1) by (simp_all add: paudit_def)
  ultimately show ?thesis
    using args hash cs(2) item(2,3) q(2,3) qf resolve_paths [OF res] w0(1)
    by (intro exI [of _ schedule] exI [of _ raid] exI [of _ h] exI [of _ item] exI [of _ q] exI [of _ new])
      (simp add: mp_def dp_def del: Join.simps)
qed

lemma load_pool_same: "load_pool env s i w = (r, w1) \<Longrightarrow> w1 = w"
  by (auto simp: load_pool_def andthen_def query_def ret_def split: sum.splits)

lemma load_pool_rows:
  assumes "load_pool env s i w = (Inr (p, ds), w1)"
  shows "w1 = w" "p \<in> set (pw_pools w)" "sp_id p = i" "set ds = {d \<in> set (pw_devices w). pd_pool d = i}"
proof -
  have g: "tbl_get sp_id i (pw_pools w) = Some p" and d: "listDevices (m_up env (QDevices i)) (sp_id p) (pw_devices w) = Inr ds"
    and w: "w1 = w"
    using assms by (auto simp: load_pool_def done_simps pool_Get_def sel_one_Inr)
  show "w1 = w" "p \<in> set (pw_pools w)" "sp_id p = i" using w tbl_get_Some [OF g] by simp_all
  then show "set ds = {d \<in> set (pw_devices w). pd_pool d = i}"
    using d by (auto simp: listDevices_def sel_all_def split: if_splits)
qed

lemma with_pool_done:
  assumes "with_pool env i f w = (Reply n x, w')"
  shows "\<exists>p ds. load_pool env QPool (trim i) w = (Inr (p, ds), w) \<and> f (p, ds) w = (Reply n x, w')"
proof -
  obtain r w1 where l: "load_pool env QPool (trim i) w = (r, w1)" by force
  show ?thesis
    using assms l load_pool_rows(1) [of env QPool "trim i" w] by (cases r) (auto simp: with_pool_def)
qed

section \<open>Deleting a pool\<close>

definition delete_subvolume :: "string \<Rightarrow> cmd" where
  "delete_subvolume p = Cmd [''btrfs'', ''subvolume'', ''delete'', p] []"

definition wipefs :: "string \<Rightarrow> cmd" where
  "wipefs p = Cmd [''wipefs'', ''-af'', p] []"

lemma each_sh_log:
  "each (\<lambda>p. sh env what (f p)) ps w = (Inr y, w') \<Longrightarrow> w' = w\<lparr>pw_log := pw_log w @ map (\<lambda>p. Cmd (f p) []) ps\<rparr>"
proof (induction ps arbitrary: w)
  case (Cons p ps)
  then have "each (\<lambda>p. sh env what (f p)) ps (w\<lparr>pw_log := pw_log w @ [Cmd (f p) []]\<rparr>) = (Inr y, w')"
    by (auto simp: done_simps)
  from Cons.IH [OF this] show ?case by simp
qed (simp add: done_simps)

lemma each_wipe_log:
  "each (wipe_device env) ps w = (Inr y, w') \<Longrightarrow> \<exists>cs. w' = w\<lparr>pw_log := pw_log w @ cs\<rparr> \<and> wipefs ` set ps \<subseteq> set cs"
proof (induction ps arbitrary: w)
  case (Cons p ps)
  obtain w1 where one: "wipe_device env p w = (Inr (), w1)" and rest: "each (wipe_device env) ps w1 = (Inr y, w')"
    using Cons.prems by (auto simp: done_andthen)
  obtain cs where cs: "w' = w1\<lparr>pw_log := pw_log w1 @ cs\<rparr>" "wipefs ` set ps \<subseteq> set cs" using Cons.IH [OF rest] by blast
  have "w1 = w\<lparr>pw_log := pw_log w @ [Cmd [''mdadm'', ''--zero-superblock'', ''--force'', p] [], wipefs p]\<rparr>"
    using one by (auto simp: wipe_device_def done_simps wipefs_def)
  with cs show ?case
    by (intro exI [of _ "[Cmd [''mdadm'', ''--zero-superblock'', ''--force'', p] [], wipefs p] @ cs"]) auto
qed (auto simp: done_simps intro: exI [of _ "[]"])

lemma delete_subvolumes_log:
  assumes "delete_subvolumes env m w = (Inr paths, w')"
  shows "\<exists>cs items. w' = w\<lparr>pw_log := pw_log w @ cs @ map delete_subvolume paths\<rparr> \<and> paths = map ss_path (sortSubvolumesDeepestFirst items)"
proof -
  obtain items ws w1 where r: "readBtrfsSubvolumes env m w = (Inr (items, ws), w1)"
    and d: "each (\<lambda>p. sh env ''delete subvolume'' [''btrfs'', ''subvolume'', ''delete'', p]) paths w1 = (Inr (), w')"
    and p: "paths = map ss_path (sortSubvolumesDeepestFirst items)"
    using assms by (auto simp: delete_subvolumes_def done_simps Let_def)
  obtain cs where "w1 = w\<lparr>pw_log := pw_log w @ cs\<rparr>" using sameD [OF same.subvolumes(1) r] by blast
  with each_sh_log [OF d] p show ?thesis by (auto simp: delete_subvolume_def [abs_def])
qed

text \<open>Every subvolume before the ones it lies in.\<close>

definition inner_first :: "string list \<Rightarrow> bool" where
  "inner_first paths \<longleftrightarrow> sorted_wrt (\<lambda>a b. rooted a = rooted b \<and> segs a \<noteq> [] \<longrightarrow> \<not> strict_prefix (segs a) (segs b)) paths"

lemma inner_first_sorted: "inner_first (map ss_path (sortSubvolumesDeepestFirst items))"
  using deepest_first [of items] by (simp add: inner_first_def sorted_wrt_map)

lemma steps_wipes: "steps same_tables (each (wipe_device env) ps)"
  unfolding wipe_device_def by (intro same_intros)

text \<open>Over sound tables, both deletions together remove one pool.\<close>

lemma both_deletions:
  assumes "DeleteByID env (sp_id p) w = Inr w1" "delete_storage env (sp_storage p) w1 = Inr w2" "sound_tables w" "p \<in> set (pw_pools w)"
  shows "pw_pools w2 = tbl_del (\<lambda>q. sp_id q = sp_id p) (pw_pools w)" "pw_devices w2 = tbl_del (\<lambda>d. pd_pool d = sp_id p) (pw_devices w)"
    "pw_snaps w2 = tbl_del (\<lambda>r. sn_pool r = sp_id p) (pw_snaps w)" "pw_storages w2 = tbl_del (\<lambda>st. st_id st = sp_storage p) (pw_storages w)"
    "pw_log w2 = pw_log w"
proof -
  have w1: "w1 = drop_pools (\<lambda>q. sp_id q = sp_id p) w" using assms(1) by (auto simp: DeleteByID_def split: if_splits)
  have ids: "sp_id ` {q \<in> set (pw_pools w). sp_id q = sp_id p} = {sp_id p}" using assms(4) by auto
  have other: "sp_storage q \<noteq> sp_storage p" if "q \<in> set (pw_pools w)" "sp_id q \<noteq> sp_id p" for q
    using that assms(3,4) by (auto simp: sound_tables_def sound_pools_def dest: distinct_key_eq [of sp_storage])
  then have none: "{q \<in> set (pw_pools w1). sp_storage q = sp_storage p} = {}" by (auto simp: w1 drop_pools_def Let_def)
  have w2: "w2 = (drop_pools (\<lambda>q. sp_storage q = sp_storage p) w1)\<lparr>pw_storages := tbl_del (\<lambda>st. st_id st = sp_storage p) (pw_storages w1)\<rparr>"
    using assms(2) by (auto simp: delete_storage_def storage_Delete_def exec_def split: if_splits)
  have keep: "tbl_del P t = t" if "\<forall>r\<in>set t. \<not> P r" for P and t :: "pool list" using that by (simp add: tbl_del_def)
  have f1: "pw_pools w1 = tbl_del (\<lambda>q. sp_id q = sp_id p) (pw_pools w)" "pw_devices w1 = tbl_del (\<lambda>d. pd_pool d = sp_id p) (pw_devices w)"
    "pw_snaps w1 = tbl_del (\<lambda>r. sn_pool r = sp_id p) (pw_snaps w)" "pw_storages w1 = pw_storages w" "pw_log w1 = pw_log w"
    unfolding w1 drop_pools_def Let_def ids by simp_all
  have "tbl_del (\<lambda>q. sp_storage q = sp_storage p) (pw_pools w1) = pw_pools w1" using none by (intro keep) blast
  then have f2: "pw_pools w2 = pw_pools w1" "pw_devices w2 = pw_devices w1" "pw_snaps w2 = pw_snaps w1"
    "pw_storages w2 = tbl_del (\<lambda>st. st_id st = sp_storage p) (pw_storages w1)" "pw_log w2 = pw_log w1"
    unfolding w2 drop_pools_def Let_def none by (simp_all add: tbl_del_def)
  show "pw_pools w2 = tbl_del (\<lambda>q. sp_id q = sp_id p) (pw_pools w)" "pw_devices w2 = tbl_del (\<lambda>d. pd_pool d = sp_id p) (pw_devices w)"
    "pw_snaps w2 = tbl_del (\<lambda>r. sn_pool r = sp_id p) (pw_snaps w)" "pw_storages w2 = tbl_del (\<lambda>st. st_id st = sp_storage p) (pw_storages w)"
    "pw_log w2 = pw_log w" by (simp_all add: f1 f2)
qed

text \<open>
  C16: What a deleted pool leaves.  When the deletion of a pool is answered 200, over sound tables, the
  pool is gone with its storage, devices and snapshots, and no other row is.  If devices were to be
  wiped, the commands deleted the subvolumes named in the reply, each before the ones it lies in, and
  wiped every device of the pool.
\<close>

theorem delete_pool_result:
  assumes "HandleDeletePool env i has_body body w = (Reply n rep, w')" "sound_tables w"
  shows "\<exists>p cs1 cs2. p \<in> set (pw_pools w) \<and> sp_id p = trim i \<and>
    pw_pools w' = tbl_del (\<lambda>q. sp_id q = sp_id p) (pw_pools w) \<and>
    pw_storages w' = tbl_del (\<lambda>st. st_id st = sp_storage p) (pw_storages w) \<and>
    pw_devices w' = tbl_del (\<lambda>d. pd_pool d = sp_id p) (pw_devices w) \<and>
    pw_snaps w' = tbl_del (\<lambda>r. sn_pool r = sp_id p) (pw_snaps w) \<and>
    pw_log w' = pw_log w @ cs1 @ map delete_subvolume (dp_snapshots rep) @ cs2 \<and> inner_first (dp_snapshots rep) \<and>
    (dp_wiped rep \<longrightarrow> (\<forall>d\<in>set (pw_devices w). pd_pool d = sp_id p \<longrightarrow> wipefs (pd_path d) \<in> set cs2))"
proof -
  obtain p ds where l: "load_pool env QPool (trim i) w = (Inr (p, ds), w)"
    and h: "\<exists>wipe w9. DeletePool env (p, ds) wipe w = (Inr rep, w9) \<and>
      w' = paudit ''storage_pool_deleted'' ''delete'' True ''storage_pool'' (sp_id p) w9"
    using with_pool_done [OF assms(1) [unfolded HandleDeletePool_def]]
    by (force split: option.splits prod.splits sum.splits)
  note p = load_pool_rows(2-4) [OF l]
  obtain wipe w9 where d: "DeletePool env (p, ds) wipe w = (Inr rep, w9)"
    and w': "w' = paudit ''storage_pool_deleted'' ''delete'' True ''storage_pool'' (sp_id p) w9"
    using h by blast
  obtain st deleted w2 w3 w4 w5 w6 w7 u1 u2 u3 u4 where
    sub: "(if wipe then delete_subvolumes env (sp_mount p) else ret []) w = (Inr deleted, w2)" and
    cloud: "(if isCloudStorage st then andthen (must env ''cleanup cloud storage'' (CleanupCloud (st_id st))) (\<lambda>_. ret ()) else ret ()) w2 = (Inr u1, w3)" and
    umount: "unmount_pool env (sp_mount p) w3 = (Inr u2, w4)" and
    del: "DeleteByID env (sp_id p) w4 = Inr w5" "delete_storage env (sp_storage p) w5 = Inr w6" and
    clean: "cleanupPoolMountPath env (sp_mount p) w6 = (Inr u3, w7)" and
    wiped: "(if wipe then each (wipe_device env) (map pd_path ds) else ret ()) w7 = (Inr u4, w9)" and
    rep: "dp_snapshots rep = deleted" "dp_wiped rep = wipe"
    using d [unfolded DeletePool_def done_andthen done_query done_check done_statement done_ret fst_conv snd_conv]
    by clarify (rule that, (assumption | simp)+)
  have "\<exists>cs1. w2 = w\<lparr>pw_log := pw_log w @ cs1 @ map delete_subvolume deleted\<rparr> \<and> inner_first deleted"
  proof (cases wipe)
    case True
    then show ?thesis using sub delete_subvolumes_log [of env "sp_mount p" w deleted w2] inner_first_sorted by auto
  next
    case False
    then show ?thesis using sub by (intro exI [of _ "[]"]) (simp add: done_simps inner_first_def)
  qed
  then obtain cs1 where w2: "w2 = w\<lparr>pw_log := pw_log w @ cs1 @ map delete_subvolume deleted\<rparr>" "inner_first deleted" by blast
  have "steps same_tables (if b then andthen (must env ''cleanup cloud storage'' c) (\<lambda>_. ret ()) else ret ())" for b c
    by (intro same_intros)
  from sameD [OF this cloud] sameD [OF same.unmount umount]
  obtain cs3 cs4 where w4: "w4 = w2\<lparr>pw_log := pw_log w2 @ cs3 @ cs4\<rparr>" by auto
  obtain cs7 where w7: "w7 = w6\<lparr>pw_log := pw_log w6 @ cs7\<rparr>" using sameD [OF same.mounts(5) clean] by blast
  have "\<exists>cs9. w9 = w7\<lparr>pw_log := pw_log w7 @ cs9\<rparr> \<and> (wipe \<longrightarrow> wipefs ` set (map pd_path ds) \<subseteq> set cs9)"
    using wiped each_wipe_log [of env "map pd_path ds" w7 u4 w9] by (cases wipe) (auto simp: done_simps intro: exI [of _ "[]"])
  then obtain cs9 where w9: "w9 = w7\<lparr>pw_log := pw_log w7 @ cs9\<rparr>" "wipe \<longrightarrow> wipefs ` set (map pd_path ds) \<subseteq> set cs9" by blast
  have t4: "sound_tables w4" "p \<in> set (pw_pools w4)" using assms(2) p(1) by (simp_all add: w4 w2 sound_tables_def)
  note gone = both_deletions [OF del t4]
  have "wipefs (pd_path d) \<in> set (cs3 @ cs4 @ cs7 @ cs9)" if "wipe" "d \<in> set (pw_devices w)" "pd_pool d = sp_id p" for d
    using w9(2) that p(2,3) by auto
  moreover have "pw_log w' = pw_log w @ cs1 @ map delete_subvolume deleted @ cs3 @ cs4 @ cs7 @ cs9"
    by (simp add: w' paudit_def w9(1) w7 gone(5) w4 w2)
  ultimately show ?thesis
    using p(1,2) w2(2) gone
    by (intro exI [of _ p] exI [of _ cs1] exI [of _ "cs3 @ cs4 @ cs7 @ cs9"]) (simp add: rep w' paudit_def w9(1) w7 w4 w2(1))
qed

end
