(* ===== verification/Pool_Errors.thy ===== *)
theory Pool_Errors
  imports Pool_Results
begin

text \<open>
  Where pool requests go wrong: the panic in the hash of a name, the reach of snapshots, and a restore
  that loses the data.
\<close>

section \<open>Panics\<close>

definition steady :: "'a act \<Rightarrow> bool" where
  "steady m \<longleftrightarrow> (\<forall>w. fst (m w) \<noteq> Inl Panics)"

lemma steady_basic: "steady (ret x)" "steady (reading f)" "steady (check b what)" "steady (query what q)" "steady (statement what st)"
  "steady (issue env c)" "steady (fail (PErr what))" "steady (some_or y (PErr what))"
  by (auto simp: steady_def ret_def reading_def check_def fail_def query_def statement_def issue_def some_or_def
      split: sum.split option.split)

lemma steady_andthen: "steady m \<Longrightarrow> (\<And>x. steady (f x)) \<Longrightarrow> steady (andthen m f)"
proof -
  assume m: "steady m" and f: "\<And>x. steady (f x)"
  have "fst (andthen m f w) \<noteq> Inl Panics" for w
  proof -
    obtain r w1 where r: "m w = (r, w1)" by force
    moreover have "fst (m w) \<noteq> Inl Panics" "\<And>x. fst (f x w1) \<noteq> Inl Panics" using m f unfolding steady_def by blast+
    ultimately show ?thesis by (cases r) (simp_all add: andthen_def)
  qed
  then show ?thesis by (simp add: steady_def)
qed

lemma ret_then: "andthen (ret x) f w = f x w"
  by (simp add: andthen_def ret_def)

lemma steady_each: "(\<And>x. steady (f x)) \<Longrightarrow> steady (each f xs)"
  by (induction xs) (simp_all add: steady_basic steady_andthen)

lemma steady_must: "steady (must env what c)" "steady (sh env what args)"
  unfolding must_def sh_def must_def by (intro steady_andthen steady_basic)+

lemma steady_cases:
  "steady m \<Longrightarrow> steady n \<Longrightarrow> steady (if b then m else n)"
  "steady m \<Longrightarrow> (\<And>x. steady (f x)) \<Longrightarrow> steady (case opt of None \<Rightarrow> m | Some x \<Rightarrow> f x)"
  "(\<And>a b. steady (g a b)) \<Longrightarrow> steady (case pr of (a, b) \<Rightarrow> g a b)"
  "steady a1 \<Longrightarrow> steady a2 \<Longrightarrow> steady a3 \<Longrightarrow> steady a4 \<Longrightarrow>
    steady (case st of StMissing \<Rightarrow> a1 | StFile \<Rightarrow> a2 | StDir \<Rightarrow> a3 | StatError \<Rightarrow> a4)"
  "steady m \<Longrightarrow> (\<And>x xs. steady (k x xs)) \<Longrightarrow> steady (case l of [] \<Rightarrow> m | x # xs \<Rightarrow> k x xs)"
  by (auto split: option.split prod.split fstat.split list.split)

lemma steady_Let: "(\<And>y. steady (f y)) \<Longrightarrow> steady (let y = x in f y)"
  by simp

lemmas steady_intros = steady_andthen steady_basic steady_each steady_must steady_cases steady_Let

lemma steady_pieces: "steady (storage_at env p)" "steady (stat_at env p)" "steady (unit_name env m)" "steady (loadSinglePoolDevice env p cache)"
  unfolding storage_at_def stat_at_def unit_name_def loadSinglePoolDevice_def by (intro steady_intros)+

lemma steady_loads: "steady (load_by_name env n)" "steady (list_pools env)" "steady (with_devices env ps)"
proof -
  show d: "steady (with_devices env ps)" for ps
    by (induction ps) (simp_all, (intro steady_intros | assumption)+)
  show "steady (load_by_name env n)" "steady (list_pools env)"
    unfolding load_by_name_def list_pools_def by (intro steady_intros d)+
qed

lemma steady_resolve: "steady (resolvePoolDevices env ps)"
proof -
  have one: "steady (inspectPoolDevice env p cache)" for p cache
    unfolding inspectPoolDevice_def by (intro steady_intros steady_pieces)
  have "steady (load_devices env ps cache result)" for cache result
    by (induction ps arbitrary: cache result) (simp_all, (intro steady_intros one | assumption)+)
  then show ?thesis unfolding resolvePoolDevices_def loadPoolDeviceMetadata_def by (intro steady_intros)
qed

lemma steady_prepare: "steady (forcePreparePoolDevices env ps)"
proof -
  have one: "steady (prepare_one env p cache)" for p cache
    unfolding prepare_one_def release_device_def wipe_device_def by (intro steady_intros steady_pieces)
  have "steady (prepare_from env ps cache)" for cache
    by (induction ps arbitrary: cache) (simp_all, (intro steady_intros one | assumption)+)
  then show ?thesis by (simp add: forcePreparePoolDevices_def)
qed

lemma steady_create: "steady (cleanupStaleMountPath env m)" "steady (ensureCreateAvailable env n m d)"
  "steady (make_filesystem env n raid ps m d)" "steady (add_storage env item)"
proof -
  show "steady (cleanupStaleMountPath env m)" "steady (ensureCreateAvailable env n m d)" "steady (make_filesystem env n raid ps m d)"
    unfolding cleanupStaleMountPath_def ensureCreateAvailable_def make_filesystem_def persistPoolMount_def initializePoolLayout_def
    by (intro steady_intros steady_pieces steady_loads)+
  show "steady (add_storage env item)"
    by (auto simp: steady_def add_storage_def split: sum.split)
qed

lemma create_panics_iff:
  "fst (CreatePool env req w) = Inl Panics \<longleftrightarrow> create_args req \<noteq> None \<and> stableNameHash (cq_name req) = None"
proof (cases "create_args req")
  case None
  then show ?thesis by (simp add: CreatePool_def andthen_def some_or_def fail_def)
next
  case (Some args)
  obtain schedule raid paths where args: "create_args req = Some (schedule, raid, paths)" using Some by (cases args) auto
  let ?root = "envOr (m_root env) defaultPoolRoot"
  define rest where "rest = (\<lambda>h. let mountPath = Join [?root, h]; dataPath = Join [mountPath, ''data''] in
     andthen (ensureCreateAvailable env (trim (cq_name req)) mountPath dataPath) (\<lambda>_.
     andthen (must env ''create mount path'' (MkdirAll mountPath)) (\<lambda>_.
     andthen (resolvePoolDevices env paths) (\<lambda>poolDevices.
     andthen (forcePreparePoolDevices env paths) (\<lambda>_.
     andthen (make_filesystem env (cq_name req) raid paths mountPath dataPath) (\<lambda>_.
     andthen (reading (statFilesystem env dataPath)) (\<lambda>sizes.
     andthen (add_storage env (new_storage env (cq_name req) raid dataPath sizes)) (\<lambda>sid.
     andthen (statement ''create storage pool record''
                (pool_Add env (new_pool env req schedule raid sid mountPath dataPath) poolDevices)) (\<lambda>_.
     andthen (list_pools env) (\<lambda>pools.
     some_or (find (\<lambda>row. sp_storage (fst row) = sid) pools) (PErr ''created but failed to reload'')))))))))))"
  have create: "CreatePool env req w = andthen (generatePoolPathName env ?root (cq_name req)) rest w"
    unfolding CreatePool_def args some_or_def option.case ret_then prod.case Let_def [of ?root] rest_def by (rule refl)
  have "steady (rest h)" for h
    unfolding rest_def Let_def
    by (intro steady_intros steady_create steady_resolve steady_prepare steady_loads)
  moreover have "steady (generatePoolPathName env ?root (cq_name req))" if "stableNameHash (cq_name req) = Some h" for h
  proof -
    have "steady (some_or (Some h) Panics)" by (simp add: some_or_def steady_basic)
    then show ?thesis unfolding generatePoolPathName_def that
      by (intro steady_intros steady_create steady_pieces)
  qed
  ultimately have "steady (andthen (generatePoolPathName env ?root (cq_name req)) rest)" if "stableNameHash (cq_name req) = Some h" for h
    using that by (intro steady_andthen)
  then have "fst (CreatePool env req w) \<noteq> Inl Panics" if "stableNameHash (cq_name req) = Some h" for h
    using that by (simp add: create steady_def)
  moreover have "CreatePool env req w = (Inl Panics, w)" if "stableNameHash (cq_name req) = None"
    by (simp add: create andthen_def generatePoolPathName_def that some_or_def fail_def)
  ultimately show ?thesis using args by (cases "stableNameHash (cq_name req)") auto
qed

text \<open>
  C18: When the creation of a pool panics.  The handler ends without a reply exactly for a request with
  valid arguments whose name has an FNV-1a hash below 16 ^ 9: the hash is then printed with fewer than
  the ten hexadecimal digits that are cut from it.  The name \<open>abaokju\<close> is one.
\<close>

theorem create_panics:
  "(fst (HandleCreatePool env body w) = None \<longleftrightarrow>
     (\<exists>req. body = Some req \<and> create_args req \<noteq> None \<and> unat (fnv64a (trim (cq_name req))) < 16 ^ 9)) \<and>
   unat (fnv64a (trim ''abaokju'')) < 16 ^ 9"
proof
  show "fst (HandleCreatePool env body w) = None \<longleftrightarrow>
     (\<exists>req. body = Some req \<and> create_args req \<noteq> None \<and> unat (fnv64a (trim (cq_name req))) < 16 ^ 9)"
  proof (cases body)
    case (Some req)
    have "fst (HandleCreatePool env body w) = None \<longleftrightarrow> fst (CreatePool env req w) = Inl Panics"
      unfolding HandleCreatePool_def Some by (auto split: prod.split sum.split perr.split)
    then show ?thesis using create_panics_iff [of env req w] Some by (auto simp: stableNameHash_None)
  qed (simp add: HandleCreatePool_def)
  show "unat (fnv64a (trim ''abaokju'')) < 16 ^ 9"
    by (simp add: fnv64a_def trim_def is_space_def)
qed

section \<open>The reach of snapshots\<close>

text \<open>Source and target of a snapshot command.\<close>

definition snapshot_of :: "cmd \<Rightarrow> (string \<times> string) option" where
  "snapshot_of c =
     (case c of
        Cmd args _ \<Rightarrow>
          (if take 3 args = [''btrfs'', ''subvolume'', ''snapshot''] then
             (case rev args of target # source # _ \<Rightarrow> Some (source, target) | _ \<Rightarrow> None)
           else None)
      | _ \<Rightarrow> None)"

definition snapshot_inside :: "string \<Rightarrow> cmd \<Rightarrow> bool" where
  "snapshot_inside m c \<longleftrightarrow> (\<forall>source target. snapshot_of c = Some (source, target) \<longrightarrow>
     prefix (segs m) (segs source) \<and> (\<exists>name. plain_seg name \<and> segs target = segs m @ [''.snapshots'', name]))"

lemma wpI: "steps R m \<Longrightarrow> wp m (\<lambda>_. R w) w"
  by (simp add: steps_def)

lemma create_snapshot_inside:
  assumes m: "rooted (sp_mount p)" and stamp: "plain_seg (m_stamp env)"
  shows "only (snapshot_inside (sp_mount p)) w (snd (CreateSnapshot env p req w))"
proof -
  define name where "name = snapshot_path_name env (cs_name req)"
  define target where "target = Join [snapshots_dir (sp_mount p), name]"
  have name: "plain_seg name"
    using sanitized_plain stamp by (simp add: name_def snapshot_path_name_def)
  have dot: "plain_seg ''.snapshots''" by code_simp
  have dir: "rooted (snapshots_dir (sp_mount p))" "segs (snapshots_dir (sp_mount p)) = segs (sp_mount p) @ [''.snapshots'']"
    using Join_rooted(1) [OF m] segs_Join_plain [OF m dot] by (simp_all add: snapshots_dir_def del: Join.simps)
  have target: "segs target = segs (sp_mount p) @ [''.snapshots'', name]"
    using segs_Join_plain [OF dir(1) name] dir(2) by (simp add: target_def del: Join.simps)
  let ?P = "snapshot_inside (sp_mount p)"
  have plain: "?P (Cmd args [])" if "take 3 args \<noteq> [''btrfs'', ''subvolume'', ''snapshot'']" for args
    using that by (simp add: snapshot_inside_def snapshot_of_def)
  have read: "steps (only ?P) (readBtrfsSnapshots env (sp_mount p))"
    unfolding readBtrfsSnapshots_def readBtrfsSubvolumesWithArgs_def by (intro only_intros steps_prod) (simp add: plain)
  have merged: "steps (only ?P) (merged_snapshots env i n items)" for i n items
    by (auto simp: steps_def wp_def merged_snapshots_def only_def split: prod.split)
  have add: "steps (only ?P) (add_snapshot env what r)" for what r
    unfolding add_snapshot_def by (intro only_statement) (simp split: if_splits)
  have source: "prefix (segs (sp_mount p)) (segs s)"
    if "resolveSnapshotSourcePath is_dir (sp_mount p) (cs_source req) = Some s" for is_dir s
    by (rule snapshot_source_inside(2) [OF that m])
  have shot: "?P (Cmd ([''btrfs'', ''subvolume'', ''snapshot''] @ ro @ [s, target]) [])" if "prefix (segs (sp_mount p)) (segs s)" for ro s
    using that target name by (simp add: snapshot_inside_def snapshot_of_def)
  have "wp (CreateSnapshot env p req) (\<lambda>_ w'. only ?P w w') w"
    unfolding CreateSnapshot_def name_def [symmetric] Let_def [of name] target_def [symmetric] Let_def [of target] Let_def
      wp_andthen [of "reading _"] wp_reading sum.case wp_andthen [of "some_or _ _"] wp_some_or
    apply (split option.split, intro conjI impI allI)
    subgoal using only_rel(1) by (simp add: reflp_def)
    subgoal premises s for x
      unfolding stat_at_def
      by (rule wpI, intro only_intros steps_prod read merged add shot source [OF s]) (simp add: plain)
    done
  then show ?thesis by (simp add: wp_def split: prod.splits)
qed

text \<open>
  C17: Snapshots stay in their pool.  With clean names for the time stamps and absolute mount paths,
  every snapshot command that a request to create a snapshot issues takes a source inside the mount
  path of the pool the request names, and its target is a direct entry of \<open>.snapshots\<close> there, whatever
  name and source the request asks for.
\<close>

theorem snapshots_stay_inside:
  assumes "\<forall>p\<in>set (pw_pools w). rooted (sp_mount p)" "plain_seg (m_stamp env)"
  shows "\<exists>cs. pw_log (snd (HandleCreateSnapshot env i body w)) = pw_log w @ cs \<and>
    (\<forall>c\<in>set cs. \<exists>p\<in>set (pw_pools w). sp_id p = trim i \<and> snapshot_inside (sp_mount p) c)"
proof -
  obtain r w1 where l: "load_pool env QPool (trim i) w = (r, w1)" by force
  show ?thesis
  proof (cases r)
    case (Inl e)
    then show ?thesis
      using l load_pool_same [OF l] by (simp add: HandleCreateSnapshot_def with_pool_def)
  next
    case (Inr row)
    obtain p ds where row: "row = (p, ds)" by force
    have p: "w1 = w" "p \<in> set (pw_pools w)" "sp_id p = trim i" using load_pool_rows(1-3) [OF l [unfolded Inr row]] by simp_all
    have "only (snapshot_inside (sp_mount p)) w (snd (HandleCreateSnapshot env i body w))"
    proof (cases body)
      case None
      then show ?thesis using only_rel(1) by (simp add: HandleCreateSnapshot_def with_pool_def l Inr row p(1) reflp_def)
    next
      case (Some req)
      obtain s w2 where c: "CreateSnapshot env p (req\<lparr>cs_created_by := []\<rparr>) w = (s, w2)" by force
      have "only (snapshot_inside (sp_mount p)) w w2"
        using create_snapshot_inside [of p env w "req\<lparr>cs_created_by := []\<rparr>"] assms p(2) c by simp
      moreover have "pw_log (snd (HandleCreateSnapshot env i body w)) = pw_log w2"
        by (cases s) (simp_all add: HandleCreateSnapshot_def with_pool_def l Inr row p(1) Some c paudit_def)
      ultimately show ?thesis by (simp add: only_def)
    qed
    then show ?thesis using p(2,3) unfolding only_def by blast
  qed
qed

section \<open>Restoring\<close>

text \<open>
  A restore can lose the data.  The data subvolume is deleted before the snapshot is taken in its
  place: if no backup was asked for and the command that takes it fails, the request is answered 400
  and nothing follows the deletion in the log, and the tables are as they were.
\<close>

theorem restore_can_lose_data:
  assumes "load_pool env QPool (trim i) w = (Inr (p, ds), w)"
    "GetSnapshotRecord (m_up env QSnapGet) (sp_id p) (trim s) (pw_snaps w) = Inr meta"
    "isMountpointActive env (sp_mount p) w" "trim (sn_source meta) \<noteq> []" "Clean (sn_source meta) = Clean (pool_data_path p)"
    "m_run env (pw_log w) (delete_subvolume (pool_data_path p)) \<noteq> None"
    "m_run env (pw_log w @ [delete_subvolume (pool_data_path p)])
       (Cmd [''btrfs'', ''subvolume'', ''snapshot'', sn_path meta, pool_data_path p] []) = None"
  shows "\<exists>w'. HandleRestoreSnapshot env i s True (Some \<lparr>rs_password = ''123'', rs_backup = False\<rparr>) w =
      (Fail 400 ''RESTORE_STORAGE_POOL_SNAPSHOT_FAILED'', w') \<and>
    pw_log w' = pw_log w @ [delete_subvolume (pool_data_path p),
      Cmd [''btrfs'', ''subvolume'', ''snapshot'', sn_path meta, pool_data_path p] []] \<and>
    pw_storages w' = pw_storages w \<and> pw_pools w' = pw_pools w \<and> pw_snaps w' = pw_snaps w"
proof -
  let ?w = "w\<lparr>pw_log := pw_log w @ [delete_subvolume (pool_data_path p), Cmd [''btrfs'', ''subvolume'', ''snapshot'', sn_path meta, pool_data_path p] []]\<rparr>"
  obtain out where out: "m_run env (pw_log w) (Cmd [''btrfs'', ''subvolume'', ''delete'', pool_data_path p] []) = Some out"
    using assms(6) by (auto simp: delete_subvolume_def)
  have "RestoreSnapshot env p (trim s) \<lparr>rs_password = ''123'', rs_backup = False\<rparr> w = (Inl (PErr ''restore snapshot to data subvolume''), ?w)"
    using assms(2-5,7) out
    by (simp add: RestoreSnapshot_def andthen_def verifyFormatPassword_def ret_def query_def reading_def check_def sh_def must_def
        issue_def some_or_def fail_def delete_subvolume_cmd_def delete_subvolume_def Let_def)
  then have "HandleRestoreSnapshot env i s True (Some \<lparr>rs_password = ''123'', rs_backup = False\<rparr>) w =
     (Fail 400 ''RESTORE_STORAGE_POOL_SNAPSHOT_FAILED'',
      paudit ''snapshot_restore_failed'' ''restore'' False ''storage_pool_snapshot'' (trim s) ?w)"
    by (simp add: HandleRestoreSnapshot_def with_pool_def assms(1) password_reply_def)
  then show ?thesis by (simp add: paudit_def)
qed

end
