(* ===== verification/Pool_Witnesses.thy ===== *)
theory Pool_Witnesses
  imports Pool_Props Pool_Errors
begin

text \<open>
  The properties of pools at concrete inputs: a machine with one or two disks, and a database with at
  most one pool.
\<close>

section \<open>Evaluating with large numbers\<close>

function hex_int :: "int \<Rightarrow> string" where
  "hex_int n = (if n < 16 then [hex_digit (nat n)] else hex_int (n div 16) @ [hex_digit (nat (n mod 16))])"
  by pat_completeness auto
termination by (relation "measure nat") auto

declare hex_int.simps [simp del]

lemma hex_int_of_nat: "hex_text n = hex_int (int n)"
proof (induction n rule: hex_text.induct)
  case (1 n)
  have "nat (int n mod 16) = n mod 16" by (simp add: nat_mod_distrib)
  then show ?case using 1
    by (simp add: hex_text.simps [of n] hex_int.simps [of "int n"] zdiv_int)
qed

lemma stableNameHash_code [code]:
  "stableNameHash name = (let text = hex_int (uint (fnv64a (trim name))) in if length text < 10 then None else Some (take 10 text))"
  by (simp add: stableNameHash_def hex_int_of_nat)

lemma uint_from_code [code]:
  "uint_from n [] = (True, n)"
  "uint_from n (c # cs) =
     (if \<not> is_digit c then (False, 0)
      else if int (n * 10 + (of_char c - 48)) \<ge> 2 ^ 64 then (False, 2 ^ 64 - 1)
      else uint_from (n * 10 + (of_char c - 48)) cs)"
proof -
  have "int k \<ge> 2 ^ 64 \<longleftrightarrow> k \<ge> 2 ^ 64" for k using of_nat_le_iff [of "2 ^ 64" k, where 'a = int] by simp
  then show "uint_from n (c # cs) =
     (if \<not> is_digit c then (False, 0)
      else if int (n * 10 + (of_char c - 48)) \<ge> 2 ^ 64 then (False, 2 ^ 64 - 1)
      else uint_from (n * 10 + (of_char c - 48)) cs)" by simp
qed simp

lemma readBlockDeviceSizeBytes_code [code]:
  "readBlockDeviceSizeBytes env kernelName w =
     (case m_file env (pw_log w) (Join [''/sys/class/block'', kernelName, ''size'']) of
        FText t \<Rightarrow>
          (case ParseUint (trim t) of
             (True, v) \<Rightarrow> Some (nat (int v * int (readPoolSectorSize env kernelName w) mod 2 ^ 64))
           | _ \<Rightarrow> None)
      | _ \<Rightarrow> None)"
proof -
  have "int (v * s mod 2 ^ 64) = int v * int s mod 2 ^ 64" for v s by (simp add: zmod_int)
  then have "v * s mod 2 ^ 64 = nat (int v * int s mod 2 ^ 64)" for v s by (metis nat_int)
  then show ?thesis by (simp add: readBlockDeviceSizeBytes_def del: Join.simps split: fread.split prod.split bool.split)
qed

section \<open>A small machine\<close>

definition disk :: "string \<Rightarrow> lsblk" where
  "disk p = LSBLKDevice ''sdc'' ''sdc'' p [] ''disk'' ''1T'' [] [] [] [] None [] []"

text \<open>Two subvolumes, one inside the other; whatever else runs succeeds.\<close>

definition small_run :: "cmd list \<Rightarrow> cmd \<Rightarrow> string option" where
  "small_run log c = Some (if c = Cmd [''btrfs'', ''subvolume'', ''list'', ''/p''] []
     then ''ID 256 gen 7 top level 5 path data'' @ [newline] @ ''ID 257 gen 7 top level 256 path data/x'' else ''ok'')"

definition small_machine :: menv where
  "small_machine = \<lparr>m_run = small_run, m_stat = (\<lambda>_ _. StMissing),
     m_file = (\<lambda>log p. if p = ''/proc/mounts'' then
       FText (if Cmd [''umount'', ''/p''] [] \<in> set log then [] else ''/dev/sdb /p btrfs'') else if has_prefix ''/sys/'' p then FText ''2'' else FMissing),
     m_statfs = (\<lambda>_ _. None), m_lsblk = (\<lambda>_. Some [disk ''/dev/sdc'']), m_smart = (\<lambda>_. None), m_scanf = (\<lambda>_. 0), m_up = (\<lambda>_. True),
     m_now = 1000, m_zone = fixed_zone 0, m_stamp = ''20250101-000000'', m_storage_id = ''s2'', m_pool_id = ''p2'', m_row_id = (\<lambda>p. p),
     m_root = [], m_extra = (\<lambda>_ _ _. [])\<rparr>"

definition sdb_device :: pool_device where
  "sdb_device = \<lparr>pd_id = ''d1'', pd_pool = ''p1'', pd_path = ''/dev/sdb'', pd_name = ''sdb'', pd_kernel = ''sdb'', pd_parent = [],
     pd_size = 0, pd_human = ''1T'', pd_model = [], pd_serial = [], pd_vendor = [], pd_transport = [], pd_role = ''data''\<rparr>"

definition small_pool :: pool where
  "small_pool = \<lparr>sp_id = ''p1'', sp_storage = ''s1'', sp_name = ''media'', sp_fs = ''btrfs'', sp_raid = ''single'', sp_mount = ''/p'',
     sp_data = ''/p/data'', sp_auto = False, sp_schedule = [], sp_last = None, sp_next = None, sp_cache = [],
     sp_read_speed = 0, sp_write_speed = 0, sp_tested = None, sp_created = 0, sp_updated = None\<rparr>"

definition small_storage :: storage where
  "small_storage = \<lparr>st_id = ''s1'', st_name = ''media'', st_location = ''local'', st_mount = ''/p/data'', st_type = Local, st_provider = [],
     st_host = [], st_port = 0, st_url = [], st_username = [], st_password = [], st_token = [], st_domain = [], st_share = [],
     st_root = [], st_extra = [], st_status = Online, st_total = 0, st_free = 0, st_updated = 0\<rparr>"

definition data_snapshot :: snapshot_row where
  "data_snapshot = \<lparr>sn_id = ''n1'', sn_pool = ''p1'', sn_name = ''first'', sn_path = ''/p/.snapshots/first'', sn_source = ''/p/data'',
     sn_readonly = True, sn_description = [], sn_created_by = ''api'', sn_system = 0, sn_generation = 0, sn_created = 0, sn_updated = None\<rparr>"

definition small_pools :: pworld where
  "small_pools = \<lparr>pw_storages = [small_storage], pw_pools = [small_pool], pw_devices = [sdb_device], pw_snaps = [data_snapshot], pw_log = [], pw_audit = []\<rparr>"

definition sdb_by :: "string \<Rightarrow> replace_req" where
  "sdb_by new = \<lparr>rq_password = ''123'', rq_old = ''/dev/sdb'', rq_new = new\<rparr>"

definition sdc_pool :: create_pool_req where
  "sdc_pool = \<lparr>cq_name = ''films'', cq_raid = ''single'', cq_paths = [''/dev/./sdc''], cq_cache = [], cq_auto = False, cq_schedule = []\<rparr>"

definition answered :: "nat \<Rightarrow> 'a resp \<Rightarrow> bool" where
  "answered n r \<longleftrightarrow> (case r of Reply k _ \<Rightarrow> k = n | Fail _ _ \<Rightarrow> False)"

lemma answered_Reply: "answered n (fst x) \<Longrightarrow> \<exists>v. x = (Reply n v, snd x)"
  by (cases x) (auto simp: answered_def split: resp.splits)

section \<open>Witnesses\<close>

definition sdc_log :: "cmd list" where
  "sdc_log = [lsblk_cmd ''/dev/sdc'', Cmd [''mdadm'', ''--zero-superblock'', ''--force'', ''/dev/sdc''] [],
     Cmd [''wipefs'', ''-af'', ''/dev/sdc''] [], lsblk_cmd ''/dev/sdc'']"

lemma pool_requests_destroy_only_theirs_witness:
  "looked small_machine [lsblk_cmd ''/dev/sdc'', Cmd [''mdadm'', ''--zero-superblock'', ''--force'', ''/dev/sdc''] []] ''/dev/sdc''"
proof -
  let ?w = "serve_pool small_machine (PReplace ''p1'' (Some (sdb_by ''/dev/sdc''))) small_pools"
  have log: "take 4 (pw_log ?w) = sdc_log" by code_simp
  obtain cs where cs: "pw_log ?w = pw_log small_pools @ cs"
    and all: "\<forall>k<length cs. \<forall>p. destroys (cs ! k) p \<longrightarrow>
       (\<exists>i. pool_of (PReplace ''p1'' (Some (sdb_by ''/dev/sdc''))) = Some i \<and> own_device small_pools i p) \<or>
       (p \<notin> pd_path ` set (pw_devices small_pools) \<and> looked small_machine (pw_log small_pools @ take k cs) p)"
    using pool_requests_destroy_only_theirs [of small_machine "PReplace ''p1'' (Some (sdb_by ''/dev/sdc''))" small_pools] by blast
  have e: "pw_log small_pools = []" by (simp add: small_pools_def)
  have t: "take 4 cs = sdc_log" using log cs e by simp
  have "length (take 4 cs) = 4" unfolding t by (simp add: sdc_log_def)
  then have "length cs \<ge> 4" by (simp add: min_def split: if_splits)
  then have c2: "cs ! 2 = Cmd [''wipefs'', ''-af'', ''/dev/sdc''] []" "2 < length cs"
    using arg_cong [OF t, of "\<lambda>l. l ! 2"] by (simp_all add: sdc_log_def)
  have "take 2 cs = take 2 (take 4 cs)" by simp
  then have t2: "take 2 cs = [lsblk_cmd ''/dev/sdc'', Cmd [''mdadm'', ''--zero-superblock'', ''--force'', ''/dev/sdc''] []]"
    unfolding t by (simp add: sdc_log_def)
  have "\<not> own_device small_pools i ''/dev/sdc''" for i
    by (simp add: own_device_def small_pools_def sdb_device_def trim_def is_space_def)
  with all [rule_format, OF c2(2), of "''/dev/sdc''"] show ?thesis
    by (simp add: c2(1) destroys_def e t2)
qed

lemma create_pool_result_witness:
  "\<exists>st p. pw_pools (snd (HandleCreatePool small_machine (Some sdc_pool) small_pools)) = pw_pools small_pools @ [p] \<and>
    pw_storages (snd (HandleCreatePool small_machine (Some sdc_pool) small_pools)) = pw_storages small_pools @ [st] \<and>
    sp_storage p = st_id st \<and> sp_mount p = ''/srv/yesnas/pools/6a13108018''"
proof -
  let ?r = "HandleCreatePool small_machine (Some sdc_pool) small_pools"
  have "fst ?r \<noteq> None \<and> answered 201 (the (fst ?r))" by code_simp
  then obtain row w' where r: "?r = (Some (Reply 201 row), w')"
    by (cases ?r) (auto simp: answered_def split: resp.splits)
  have "Join [envOr (m_root small_machine) defaultPoolRoot, the (stableNameHash (cq_name sdc_pool))] = ''/srv/yesnas/pools/6a13108018''"
    by code_simp
  with create_pool_result [OF r] r show ?thesis by (auto simp del: Join.simps)
qed

lemma delete_pool_result_witness:
  "\<exists>p rep. p \<in> set (pw_pools small_pools) \<and> fst (HandleDeletePool small_machine ''p1'' True (Some True) small_pools) = Reply 200 rep \<and>
    pw_pools (snd (HandleDeletePool small_machine ''p1'' True (Some True) small_pools)) = tbl_del (\<lambda>q. sp_id q = sp_id p) (pw_pools small_pools) \<and>
    inner_first (dp_snapshots rep)"
proof -
  let ?r = "HandleDeletePool small_machine ''p1'' True (Some True) small_pools"
  have "answered 200 (fst ?r)" by code_simp
  then obtain rep where r: "?r = (Reply 200 rep, snd ?r)" using answered_Reply by blast
  have "sound_tables small_pools"
    by (simp add: sound_tables_def sound_storages_def sound_pools_def sound_devices_def sound_snaps_def small_pools_def
        small_storage_def small_pool_def sdb_device_def data_snapshot_def)
  from delete_pool_result [OF r this] r show ?thesis by (metis fst_conv)
qed

lemma snapshots_stay_inside_witness:
  "\<exists>p\<in>set (pw_pools small_pools). sp_id p = ''p1'' \<and>
    snapshot_inside (sp_mount p) (Cmd [''btrfs'', ''subvolume'', ''snapshot'', ''-r'', ''/p'', ''/p/.snapshots/before-update''] [])"
proof -
  let ?b = "Some \<lparr>cs_name = ''Before update!'', cs_source = [], cs_description = [], cs_readonly = None, cs_created_by = []\<rparr>"
  have "Cmd [''btrfs'', ''subvolume'', ''snapshot'', ''-r'', ''/p'', ''/p/.snapshots/before-update''] []
      \<in> set (pw_log (snd (HandleCreateSnapshot small_machine ''p1'' ?b small_pools)))" by code_simp
  moreover have "\<forall>p\<in>set (pw_pools small_pools). rooted (sp_mount p)" "plain_seg (m_stamp small_machine)" "trim ''p1'' = ''p1''" "pw_log small_pools = []"
    by code_simp+
  ultimately show ?thesis
    using snapshots_stay_inside [of small_pools small_machine "''p1''" ?b] by auto
qed

definition failing_machine :: menv where
  "failing_machine = small_machine\<lparr>m_run := (\<lambda>log c. if snapshot_of c = None then small_run log c else None)\<rparr>"

lemma restore_can_lose_data_witness:
  "\<exists>w'. HandleRestoreSnapshot failing_machine ''p1'' ''n1'' True (Some \<lparr>rs_password = ''123'', rs_backup = False\<rparr>) small_pools =
      (Fail 400 ''RESTORE_STORAGE_POOL_SNAPSHOT_FAILED'', w') \<and>
    pw_log w' = [delete_subvolume ''/p/data'', Cmd [''btrfs'', ''subvolume'', ''snapshot'', ''/p/.snapshots/first'', ''/p/data''] []]"
proof -
  have l: "load_pool failing_machine QPool (trim ''p1'') small_pools = (Inr (small_pool, [sdb_device]), small_pools)"
    "GetSnapshotRecord (m_up failing_machine QSnapGet) (sp_id small_pool) (trim ''n1'') (pw_snaps small_pools) = Inr data_snapshot"
    "isMountpointActive failing_machine (sp_mount small_pool) small_pools" "trim (sn_source data_snapshot) \<noteq> []"
    "Clean (sn_source data_snapshot) = Clean (pool_data_path small_pool)"
    "m_run failing_machine (pw_log small_pools) (delete_subvolume (pool_data_path small_pool)) \<noteq> None"
    "m_run failing_machine (pw_log small_pools @ [delete_subvolume (pool_data_path small_pool)])
       (Cmd [''btrfs'', ''subvolume'', ''snapshot'', sn_path data_snapshot, pool_data_path small_pool] []) = None"
    by code_simp+
  have "pool_data_path small_pool = ''/p/data''" "pw_log small_pools = []" "sn_path data_snapshot = ''/p/.snapshots/first''" by code_simp+
  with restore_can_lose_data [OF l] show ?thesis by auto
qed

section \<open>Two devices\<close>

text \<open>A device of the pool under another spelling of its path passes the check and is wiped.\<close>

lemma replace_wipes_alias:
  "Cmd [''wipefs'', ''-af'', ''/dev/./sdb''] []
    \<in> set (pw_log (snd (HandleReplaceDevice small_machine ''p1'' (Some (sdb_by ''/dev/./sdb'')) small_pools)))"
  by code_simp

text \<open>A pool of a free and a registered device is refused when the free one has been wiped.\<close>

lemma create_wipes_before_checking:
  "fst (HandleCreatePool small_machine (Some (sdc_pool\<lparr>cq_paths := [''/dev/sdc'', ''/dev/sdb'']\<rparr>)) small_pools)
      = Some (Fail 400 ''CREATE_STORAGE_POOL_FAILED'')"
  "Cmd [''wipefs'', ''-af'', ''/dev/sdc''] []
    \<in> set (pw_log (snd (HandleCreatePool small_machine (Some (sdc_pool\<lparr>cq_paths := [''/dev/sdc'', ''/dev/sdb'']\<rparr>)) small_pools)))"
  by code_simp+

end
