(* ===== verification/Json.thy ===== *)
theory Json
  imports Prelude
begin

text \<open>
  JSON values as \<open>encoding/json\<close> sees them, and the decoding of an object into a Go struct: a missing or
  null field is the zero value, a field of another kind is a decoding error.  Keys match exactly.
  Numbers keep their text.
\<close>

datatype json =
    JNull
  | JBool bool
  | JNumber string
  | JString string
  | JArray "json list"
  | JObject "(string \<times> json) list"

text \<open>The last of equal keys wins.\<close>

definition json_field :: "string \<Rightarrow> json \<Rightarrow> json" where
  "json_field k j =
     (case j of
        JObject fs \<Rightarrow> (case map_of (rev fs) k of None \<Rightarrow> JNull | Some v \<Rightarrow> v)
      | _ \<Rightarrow> JNull)"

definition is_struct :: "json \<Rightarrow> bool" where
  "is_struct j \<longleftrightarrow> (case j of JObject _ \<Rightarrow> True | JNull \<Rightarrow> True | _ \<Rightarrow> False)"

definition json_text :: "string \<Rightarrow> json \<Rightarrow> string option" where
  "json_text k j = (case json_field k j of JString s \<Rightarrow> Some s | JNull \<Rightarrow> Some [] | _ \<Rightarrow> None)"

definition is_int_text :: "string \<Rightarrow> bool" where
  "is_int_text s \<longleftrightarrow> (let ds = (if s \<noteq> [] \<and> hd s = CHR ''-'' then tl s else s) in ds \<noteq> [] \<and> list_all is_digit ds)"

definition int_of_text :: "string \<Rightarrow> int" where
  "int_of_text s = (if s \<noteq> [] \<and> hd s = CHR ''-'' then - int (nat_of_digits (tl s)) else int (nat_of_digits s))"

definition json_int :: "string \<Rightarrow> json \<Rightarrow> int option" where
  "json_int k j =
     (case json_field k j of
        JNumber s \<Rightarrow> if is_int_text s \<and> - (2 ^ 63) \<le> int_of_text s \<and> int_of_text s < 2 ^ 63 then Some (int_of_text s) else None
      | JNull \<Rightarrow> Some 0
      | _ \<Rightarrow> None)"

text \<open>\<open>strconv.Itoa\<close>.\<close>

definition int_text :: "int \<Rightarrow> string" where
  "int_text i = (if i < 0 then CHR ''-'' # decimal (nat (- i)) else decimal (nat i))"

text \<open>The fields of an object that \<open>v, _ := raw[k].(string)\<close> reads, blanks cut.\<close>

definition stringFromAny :: "json \<Rightarrow> string" where
  "stringFromAny v = (case v of JString s \<Rightarrow> trim s | _ \<Rightarrow> [])"

lemma json_fields [simp]: "json_field k JNull = JNull" "json_field k (JObject []) = JNull"
  by (simp_all add: json_field_def)

end
