(* ===== verification/Audit_Log.thy ===== *)
theory Audit_Log
  imports Json Jobs_List Auth Networks Snapshot_Names
begin

text \<open>
  The audit log (internal/audit): what an entry becomes when it is recorded, the metadata a request
  gives it, where an address is, the listing with its filters and pages, the heat map and the
  completion of old rows.  JSON encoding, the text of IPv6 addresses, the GeoLite2 database and
  SQLite's \<open>strftime\<close> are parameters; the database is the list of rows, oldest first.
\<close>

section \<open>Records\<close>

record audit_actor =
  aa_id :: string
  aa_name :: string
  aa_display :: string

definition no_actor :: audit_actor where
  "no_actor = \<lparr>aa_id = [], aa_name = [], aa_display = []\<rparr>"

record audit_entry =
  en_category :: string
  en_severity :: string
  en_source :: string
  en_event :: string
  en_action :: string
  en_success :: bool
  en_actor :: audit_actor
  en_ip :: string
  en_iptype :: string
  en_code :: string
  en_country :: string
  en_city :: string
  en_agent :: string
  en_method :: string
  en_path :: string
  en_rtype :: string
  en_rid :: string
  en_rname :: string
  en_keyword :: string
  en_content :: string
  en_keydata :: "json option"
  en_message :: string
  en_details :: "json option"
  en_at :: string

definition blank_entry :: audit_entry where
  "blank_entry = \<lparr>en_category = [], en_severity = [], en_source = [], en_event = [], en_action = [], en_success = False,
     en_actor = no_actor, en_ip = [], en_iptype = [], en_code = [], en_country = [], en_city = [], en_agent = [], en_method = [],
     en_path = [], en_rtype = [], en_rid = [], en_rname = [], en_keyword = [], en_content = [], en_keydata = None,
     en_message = [], en_details = None, en_at = []\<rparr>"

record audit_row =
  al_id :: string
  al_category :: string
  al_severity :: string
  al_source :: string
  al_event :: string
  al_action :: string
  al_success :: bool
  al_actor :: audit_actor
  al_ip :: string
  al_iptype :: string
  al_code :: string
  al_country :: string
  al_city :: string
  al_agent :: string
  al_method :: string
  al_path :: string
  al_rtype :: string
  al_rid :: string
  al_rname :: string
  al_keyword :: string
  al_content :: string
  al_keydata :: string
  al_message :: string
  al_details :: string
  al_at :: string

record geo_location =
  gl_iptype :: string
  gl_code :: string
  gl_country :: string
  gl_city :: string

text \<open>A record of the GeoLite2 database; names by language, in the order a range over the map gives.\<close>

record geo_record =
  gr_code :: string
  gr_names :: "(string \<times> string) list"
  gr_registered_code :: string
  gr_registered_names :: "(string \<times> string) list"
  gr_city :: "(string \<times> string) list"

text \<open>What \<open>netip.ParseAddr\<close> makes of a text with a colon, unmapped: IPv4, or IPv6 with its class.\<close>

datatype ip_addr = V4 ip4 | V6 bool bool

record aenv =
  ae_up :: "string \<Rightarrow> bool"
  ae_marshal :: "json \<Rightarrow> string option"
  ae_unmarshal :: "string \<Rightarrow> json option"
  ae_addr6 :: "string \<Rightarrow> ip_addr option"
  ae_reader :: bool
  ae_geo :: "ip_addr \<Rightarrow> geo_record option"
  ae_numeric :: "string \<Rightarrow> bool"
  ae_since :: "string \<Rightarrow> string"
  ae_strftime :: "string \<Rightarrow> string \<Rightarrow> string option"
  ae_id :: string
  ae_now :: string

section \<open>Addresses (geoip.go)\<close>

definition v4_local :: "ip4 \<Rightarrow> bool" where
  "v4_local a \<longleftrightarrow> unat (hd a) = 127 \<or> a = [0, 0, 0, 0]"

definition v4_private :: "ip4 \<Rightarrow> bool" where
  "v4_private a \<longleftrightarrow>
     (let x = unat (a ! 0); y = unat (a ! 1); z = unat (a ! 2) in
      x = 10 \<or> (x = 172 \<and> 16 \<le> y \<and> y \<le> 31) \<or> (x = 192 \<and> y = 168) \<or> (x = 169 \<and> y = 254) \<or> (x = 224 \<and> y = 0 \<and> z = 0))"

definition parse_addr :: "aenv \<Rightarrow> string \<Rightarrow> ip_addr option" where
  "parse_addr env s = (if CHR '':'' \<in> set s then ae_addr6 env s else map_option V4 (parse_ip4 s))"

fun addr_local :: "ip_addr \<Rightarrow> bool" where
  "addr_local (V4 a) = v4_local a"
| "addr_local (V6 l p) = l"

fun addr_private :: "ip_addr \<Rightarrow> bool" where
  "addr_private (V4 a) = v4_private a"
| "addr_private (V6 l p) = p"

definition localizedGeoName :: "(string \<times> string) list \<Rightarrow> string" where
  "localizedGeoName names =
     (let named = (\<lambda>l. trim (case map_of names l of None \<Rightarrow> [] | Some v \<Rightarrow> v)) in
      if named ''zh-CN'' \<noteq> [] then named ''zh-CN''
      else if named ''en'' \<noteq> [] then named ''en''
      else (case find (\<lambda>v. v \<noteq> []) (map (trim \<circ> snd) names) of None \<Rightarrow> [] | Some v \<Rightarrow> v))"

definition located :: "string \<Rightarrow> geo_location" where
  "located t = \<lparr>gl_iptype = t, gl_code = [], gl_country = [], gl_city = []\<rparr>"

definition lookupGeoIP :: "aenv \<Rightarrow> string \<Rightarrow> geo_location" where
  "lookupGeoIP env rawIP =
     (case parse_addr env (trim rawIP) of
        None \<Rightarrow> located ''unknown''
      | Some ip \<Rightarrow>
          if addr_local ip then located ''local''
          else if addr_private ip then located ''private''
          else if \<not> ae_reader env then located ''public''
          else (case ae_geo env ip of
                  None \<Rightarrow> located ''public''
                | Some r \<Rightarrow>
                    (let (c, names) = (if trim (gr_code r) = [] then (trim (gr_registered_code r), gr_registered_names r)
                                       else (trim (gr_code r), gr_names r)) in
                     \<lparr>gl_iptype = ''public'', gl_code = c, gl_country = localizedGeoName names,
                      gl_city = localizedGeoName (gr_city r)\<rparr>)))"

section \<open>What is filled in\<close>

text \<open>\<open>strings.ToUpper\<close> of a single byte; a byte outside ASCII becomes the replacement character.\<close>

definition upper_first :: "char \<Rightarrow> string" where
  "upper_first c =
     (let n = of_char c :: nat in
      if n \<ge> 128 then [CHR 0xEF, CHR 0xBF, CHR 0xBD]
      else if 97 \<le> n \<and> n \<le> 122 then [char_of (n - 32)] else [c])"

definition upper_ascii :: "string \<Rightarrow> string" where
  "upper_ascii s = map (\<lambda>c. let n = of_char c :: nat in if 97 \<le> n \<and> n \<le> 122 then char_of (n - 32) else c) s"

definition defaultKeyword :: "audit_entry \<Rightarrow> string" where
  "defaultKeyword e =
     (let event = trim (en_event e); message = trim (en_message e) in
      if message \<noteq> [] \<and> \<not> has_suffix ''_failed'' event then message
      else join_with '' ''
        (case Fields (map (\<lambda>c. if c = CHR ''_'' then CHR '' '' else c) event) of
           [] \<Rightarrow> []
         | (c # cs) # ws \<Rightarrow> (upper_first c @ cs) # ws
         | [] # ws \<Rightarrow> [] # ws))"

definition middle_dot :: string where "middle_dot = [CHR '' '', CHR 0xC2, CHR 0xB7, CHR '' '']"

definition defaultContent :: "audit_entry \<Rightarrow> string \<Rightarrow> string" where
  "defaultContent e keyword =
     (let message = trim (en_message e) in
      join_with middle_dot
        ((if message \<noteq> [] then [message] else if keyword \<noteq> [] then [keyword] else []) @
         (if trim (en_rname e) \<noteq> [] then [trim (en_rname e)] else []) @
         (if trim (aa_name (en_actor e)) \<noteq> [] then [''by '' @ trim (aa_name (en_actor e))] else [])))"

text \<open>A Go map encodes with its keys in order.\<close>

definition defaultKeyData :: "audit_entry \<Rightarrow> json option" where
  "defaultKeyData e =
     (let pairs = filter (\<lambda>(k, v). v \<noteq> [])
        [(''action'', trim (en_action e)), (''resourceId'', trim (en_rid e)), (''resourceName'', trim (en_rname e)),
         (''resourceType'', trim (en_rtype e))] in
      if pairs = [] then None else Some (JObject (map (\<lambda>(k, v). (k, JString v)) pairs)))"

section \<open>Recording\<close>

definition or_default :: "string \<Rightarrow> string \<Rightarrow> string" where
  "or_default s d = (if trim s = [] then d else trim s)"

text \<open>The row of an entry, with its encoded key data and details.\<close>

definition row_of :: "aenv \<Rightarrow> audit_entry \<Rightarrow> string \<Rightarrow> string \<Rightarrow> audit_row" where
  "row_of env e details keydata =
     (let keyword = or_default (en_keyword e) (defaultKeyword e) in
      \<lparr>al_id = ae_id env, al_category = or_default (en_category e) ''user'',
       al_severity = or_default (en_severity e) (if en_success e then ''info'' else ''error''),
       al_source = or_default (en_source e) ''api'', al_event = trim (en_event e), al_action = trim (en_action e),
       al_success = en_success e,
       al_actor = \<lparr>aa_id = trim (aa_id (en_actor e)), aa_name = trim (aa_name (en_actor e)),
                   aa_display = trim (aa_display (en_actor e))\<rparr>,
       al_ip = trim (en_ip e), al_iptype = trim (en_iptype e), al_code = trim (en_code e), al_country = trim (en_country e),
       al_city = trim (en_city e), al_agent = trim (en_agent e), al_method = trim (en_method e), al_path = trim (en_path e),
       al_rtype = trim (en_rtype e), al_rid = trim (en_rid e), al_rname = trim (en_rname e), al_keyword = keyword,
       al_content = or_default (en_content e) (defaultContent e keyword), al_keydata = keydata, al_message = trim (en_message e),
       al_details = details, al_at = or_default (en_at e) (ae_now env)\<rparr>)"

definition encoded :: "aenv \<Rightarrow> json option \<Rightarrow> string option" where
  "encoded env v = (case v of None \<Rightarrow> Some [] | Some j \<Rightarrow> ae_marshal env j)"

definition Record :: "aenv \<Rightarrow> audit_entry \<Rightarrow> audit_row list \<Rightarrow> string + audit_row list" where
  "Record env e t =
     (if trim (en_event e) = [] then Inl ''audit event is required''
      else if trim (en_action e) = [] then Inl ''audit action is required''
      else (case encoded env (en_details e) of
              None \<Rightarrow> Inl ''marshal audit details''
            | Some details \<Rightarrow>
                (case encoded env (case en_keydata e of None \<Rightarrow> defaultKeyData e | Some k \<Rightarrow> Some k) of
                   None \<Rightarrow> Inl ''marshal audit key data''
                 | Some keydata \<Rightarrow>
                     (case insert_row (ae_up env ''insert'') (\<lambda>a b. al_id a = al_id b) (row_of env e details keydata) t of
                        Inl _ \<Rightarrow> Inl ''insert''
                      | Inr t' \<Rightarrow> Inr t'))))"

definition MustRecord :: "aenv \<Rightarrow> audit_entry \<Rightarrow> audit_row list \<Rightarrow> audit_row list" where
  "MustRecord env e t = (case Record env e t of Inl _ \<Rightarrow> t | Inr t' \<Rightarrow> t')"

section \<open>The context of a request\<close>

record metadata =
  md_ip :: string
  md_agent :: string
  md_method :: string
  md_path :: string
  md_source :: string

record acontext =
  cx_meta :: "metadata option"
  cx_actor :: "actor option"

definition audit_requestIP :: "request \<Rightarrow> string" where
  "audit_requestIP r =
     (if trim (rq_forwarded r) \<noteq> [] then trim (hd (split_on (CHR '','') (trim (rq_forwarded r))))
      else if trim (rq_realip r) \<noteq> [] then trim (rq_realip r)
      else (case SplitHost (trim (rq_remote r)) of Some host \<Rightarrow> host | None \<Rightarrow> trim (rq_remote r)))"

definition audit_Middleware :: "request \<Rightarrow> acontext \<Rightarrow> acontext" where
  "audit_Middleware r ctx =
     ctx\<lparr>cx_meta := Some \<lparr>md_ip = audit_requestIP r, md_agent = trim (rq_agent r), md_method = rq_method r, md_path = rq_path r,
        md_source = ''api''\<rparr>\<rparr>"

definition metadataFromContext :: "acontext \<Rightarrow> metadata" where
  "metadataFromContext ctx =
     (case cx_meta ctx of
        None \<Rightarrow> \<lparr>md_ip = [], md_agent = [], md_method = [], md_path = [], md_source = ''api''\<rparr>
      | Some m \<Rightarrow> if trim (md_source m) = [] then m\<lparr>md_source := ''api''\<rparr> else m)"

definition WithSource :: "acontext \<Rightarrow> string \<Rightarrow> acontext" where
  "WithSource ctx source = ctx\<lparr>cx_meta := Some ((metadataFromContext ctx)\<lparr>md_source := or_default source ''api''\<rparr>)\<rparr>"

definition actorFromContext :: "acontext \<Rightarrow> audit_actor" where
  "actorFromContext ctx =
     (case cx_actor ctx of None \<Rightarrow> no_actor | Some a \<Rightarrow> \<lparr>aa_id = ac_id a, aa_name = ac_name a, aa_display = ac_display a\<rparr>)"

definition completed :: "aenv \<Rightarrow> acontext \<Rightarrow> audit_entry \<Rightarrow> audit_entry" where
  "completed env ctx e0 =
     (let meta = metadataFromContext ctx;
          e1 = e0\<lparr>en_actor := (if en_actor e0 = no_actor then actorFromContext ctx else en_actor e0),
                  en_ip := (if trim (en_ip e0) = [] then md_ip meta else en_ip e0)\<rparr>;
          loc = lookupGeoIP env (en_ip e1);
          e2 = (if trim (en_iptype e1) = [] \<or> (trim (en_code e1) = [] \<and> trim (en_country e1) = [] \<and> trim (en_city e1) = [])
                then e1\<lparr>en_iptype := (if trim (en_iptype e1) = [] then gl_iptype loc else en_iptype e1),
                        en_code := gl_code loc, en_country := gl_country loc, en_city := gl_city loc\<rparr>
                else e1) in
      e2\<lparr>en_agent := (if trim (en_agent e2) = [] then md_agent meta else en_agent e2),
         en_method := (if trim (en_method e2) = [] then md_method meta else en_method e2),
         en_path := (if trim (en_path e2) = [] then md_path meta else en_path e2),
         en_source := (if trim (en_source e2) = [] then md_source meta else en_source e2)\<rparr>)"

definition Emit :: "aenv \<Rightarrow> acontext \<Rightarrow> audit_entry \<Rightarrow> audit_row list \<Rightarrow> audit_row list" where
  "Emit env ctx e t = MustRecord env (completed env ctx e) t"

section \<open>The entries the program writes\<close>

definition UserAction ::
  "aenv \<Rightarrow> acontext \<Rightarrow> string \<Rightarrow> string \<Rightarrow> bool \<Rightarrow> string \<Rightarrow> string \<Rightarrow> string \<Rightarrow> string \<Rightarrow> json option \<Rightarrow> audit_row list \<Rightarrow> audit_row list" where
  "UserAction env ctx event action success rtype rid rname message details =
     Emit env ctx (blank_entry\<lparr>en_category := ''user'', en_event := event, en_action := action, en_success := success,
       en_rtype := rtype, en_rid := rid, en_rname := rname, en_message := message, en_details := details\<rparr>)"

definition SystemAction ::
  "aenv \<Rightarrow> acontext \<Rightarrow> string \<Rightarrow> string \<Rightarrow> bool \<Rightarrow> string \<Rightarrow> string \<Rightarrow> string \<Rightarrow> string \<Rightarrow> json option \<Rightarrow> audit_row list \<Rightarrow> audit_row list" where
  "SystemAction env ctx event action success rtype rid rname message details =
     Emit env (WithSource ctx ''system'') (blank_entry\<lparr>en_category := ''system'', en_event := event, en_action := action,
       en_success := success, en_rtype := rtype, en_rid := rid, en_rname := rname, en_message := message, en_details := details\<rparr>)"

definition LoginFailed :: "aenv \<Rightarrow> acontext \<Rightarrow> string \<Rightarrow> string \<Rightarrow> audit_row list \<Rightarrow> audit_row list" where
  "LoginFailed env ctx username message =
     Emit env ctx (blank_entry\<lparr>en_category := ''user'', en_severity := ''warn'', en_event := ''login_failed'', en_action := ''login'',
       en_success := False, en_message := message, en_details := Some (JObject [(''username'', JString (trim username))])\<rparr>)"

definition LoginSucceeded :: "aenv \<Rightarrow> acontext \<Rightarrow> audit_actor \<Rightarrow> string \<Rightarrow> string \<Rightarrow> audit_row list \<Rightarrow> audit_row list" where
  "LoginSucceeded env ctx a userID username =
     Emit env ctx (blank_entry\<lparr>en_category := ''user'', en_event := ''login_success'', en_action := ''login'', en_success := True,
       en_actor := a, en_rtype := ''user'', en_rid := trim userID, en_rname := trim username,
       en_message := ''User login succeeded''\<rparr>)"

definition LogoutSucceeded :: "aenv \<Rightarrow> acontext \<Rightarrow> audit_actor \<Rightarrow> string \<Rightarrow> string \<Rightarrow> audit_row list \<Rightarrow> audit_row list" where
  "LogoutSucceeded env ctx a sessionID username =
     Emit env ctx (blank_entry\<lparr>en_category := ''user'', en_event := ''logout'', en_action := ''logout'', en_success := True,
       en_actor := a, en_rtype := ''session'', en_rid := trim sessionID, en_rname := trim username,
       en_message := ''User logged out''\<rparr>)"

definition UserDeleteBlocked :: "aenv \<Rightarrow> acontext \<Rightarrow> string \<Rightarrow> string \<Rightarrow> string \<Rightarrow> audit_row list \<Rightarrow> audit_row list" where
  "UserDeleteBlocked env ctx userID username message =
     Emit env ctx (blank_entry\<lparr>en_category := ''user'', en_severity := ''warn'', en_event := ''user_delete_blocked'',
       en_action := ''delete'', en_success := False, en_rtype := ''user'', en_rid := trim userID, en_rname := trim username,
       en_message := trim message\<rparr>)"

definition AutoSnapshotScheduled :: "aenv \<Rightarrow> acontext \<Rightarrow> string \<Rightarrow> string \<Rightarrow> json option \<Rightarrow> audit_row list \<Rightarrow> audit_row list" where
  "AutoSnapshotScheduled env ctx poolID poolName details =
     SystemAction env ctx ''auto_snapshot_scheduled'' ''schedule'' True ''storage_pool'' poolID poolName
       ''Automatic snapshot job scheduled'' details"

definition AutoSnapshotFailed ::
  "aenv \<Rightarrow> acontext \<Rightarrow> string \<Rightarrow> string \<Rightarrow> string \<Rightarrow> string \<Rightarrow> json option \<Rightarrow> audit_row list \<Rightarrow> audit_row list" where
  "AutoSnapshotFailed env ctx rtype rid rname message details =
     Emit env (WithSource ctx ''system'') (blank_entry\<lparr>en_category := ''system'', en_severity := ''error'',
       en_event := ''auto_snapshot_failed'', en_action := ''run'', en_success := False, en_rtype := trim rtype, en_rid := trim rid,
       en_rname := trim rname, en_message := trim message, en_details := details\<rparr>)"

definition AutoSnapshotCompleted :: "aenv \<Rightarrow> acontext \<Rightarrow> string \<Rightarrow> string \<Rightarrow> json option \<Rightarrow> audit_row list \<Rightarrow> audit_row list" where
  "AutoSnapshotCompleted env ctx poolID poolName details =
     SystemAction env ctx ''auto_snapshot_completed'' ''run'' True ''storage_pool'' poolID poolName
       ''Automatic snapshot completed'' details"

section \<open>Completing old rows\<close>

definition legacy :: "audit_row \<Rightarrow> bool" where
  "legacy r \<longleftrightarrow> al_keyword r = [] \<or> al_content r = [] \<or> al_keydata r = [] \<or> al_iptype r = []"

definition legacy_entry :: "audit_row \<Rightarrow> audit_entry" where
  "legacy_entry r = blank_entry\<lparr>en_event := al_event r, en_action := al_action r,
     en_actor := no_actor\<lparr>aa_name := aa_name (al_actor r)\<rparr>, en_rtype := al_rtype r, en_rid := al_rid r, en_rname := al_rname r,
     en_message := al_message r\<rparr>"

definition completion :: "aenv \<Rightarrow> audit_row \<Rightarrow> string \<Rightarrow> audit_row" where
  "completion env r keydata =
     (let e = legacy_entry r; keyword = or_default (al_keyword r) (defaultKeyword e);
          loc = lookupGeoIP env (al_ip r);
          iptype = trim (al_iptype r); c = trim (al_code r); country = trim (al_country r); city = trim (al_city r);
          lost = (iptype = [] \<or> (c = [] \<and> country = [] \<and> city = [])) in
      r\<lparr>al_keyword := keyword, al_content := or_default (al_content r) (defaultContent e keyword), al_keydata := keydata,
        al_iptype := (if lost \<and> iptype = [] then gl_iptype loc else iptype),
        al_code := (if lost then gl_code loc else c), al_country := (if lost then gl_country loc else country),
        al_city := (if lost then gl_city loc else city)\<rparr>)"

definition backfilled :: "aenv \<Rightarrow> audit_row \<Rightarrow> audit_row option" where
  "backfilled env r =
     map_option (completion env r)
       (if trim (al_keydata r) \<noteq> [] then Some (trim (al_keydata r)) else encoded env (defaultKeyData (legacy_entry r)))"

text \<open>An \<open>UPDATE\<close> of the row with the item's id, for each selected item.\<close>

definition complete_row :: "audit_row \<Rightarrow> audit_row \<Rightarrow> audit_row" where
  "complete_row v r = r\<lparr>al_keyword := al_keyword v, al_content := al_content v, al_keydata := al_keydata v, al_iptype := al_iptype v,
     al_code := al_code v, al_country := al_country v, al_city := al_city v\<rparr>"

fun backfill_items :: "aenv \<Rightarrow> audit_row list \<Rightarrow> audit_row list \<Rightarrow> bool \<times> audit_row list" where
  "backfill_items env [] t = (True, t)"
| "backfill_items env (item # items) t =
     (case backfilled env item of
        None \<Rightarrow> (False, t)
      | Some v \<Rightarrow>
          if \<not> ae_up env (''update'' @ al_id item) then (False, t)
          else backfill_items env items (tbl_upd (\<lambda>r. al_id r = al_id item) (complete_row v) t))"

definition BackfillLegacyLogs :: "aenv \<Rightarrow> audit_row list \<Rightarrow> bool \<times> audit_row list" where
  "BackfillLegacyLogs env t = (if \<not> ae_up env ''legacy'' then (False, t) else backfill_items env (filter legacy t) t)"

section \<open>The listing\<close>

record audit_query =
  aq_page :: int
  aq_size :: int
  aq_category :: string
  aq_severity :: string
  aq_source :: string
  aq_event :: string
  aq_actor :: string
  aq_ip :: string
  aq_country :: string
  aq_city :: string
  aq_keyword :: string
  aq_success :: "bool option"
  aq_search :: string
  aq_from :: string
  aq_to :: string

definition like_any :: "string \<Rightarrow> string \<Rightarrow> bool" where
  "like_any value s \<longleftrightarrow> like (''%'' @ value @ ''%'') s"

text \<open>
  \<open>occurred_at\<close> has numeric affinity: a bound that reads as a number is compared as one, and every
  text is greater than every number.
\<close>

definition at_least :: "aenv \<Rightarrow> string \<Rightarrow> string \<Rightarrow> bool" where
  "at_least env stored bound \<longleftrightarrow> ae_numeric env bound \<or> bound \<le> stored"

definition at_most :: "aenv \<Rightarrow> string \<Rightarrow> string \<Rightarrow> bool" where
  "at_most env stored bound \<longleftrightarrow> \<not> ae_numeric env bound \<and> stored \<le> bound"

definition search_fields :: "audit_row \<Rightarrow> string list" where
  "search_fields r = [al_event r, al_action r, aa_name (al_actor r), aa_display (al_actor r), al_rname r, al_keyword r, al_content r,
     al_message r, al_keydata r, al_ip r, al_country r, al_city r]"

definition audit_matches :: "aenv \<Rightarrow> audit_query \<Rightarrow> audit_row \<Rightarrow> bool" where
  "audit_matches env q r \<longleftrightarrow>
     (let is_or_all = (\<lambda>v x. trim v = [] \<or> trim v = ''all'' \<or> x = trim v);
          is_or_blank = (\<lambda>v x. trim v = [] \<or> x = trim v);
          has = (\<lambda>v x. trim v = [] \<or> like_any (trim v) x) in
      is_or_all (aq_category q) (al_category r) \<and> is_or_all (aq_severity q) (al_severity r) \<and>
      is_or_all (aq_source q) (al_source r) \<and> is_or_blank (aq_event q) (al_event r) \<and>
      is_or_blank (aq_actor q) (aa_id (al_actor r)) \<and> has (aq_ip q) (al_ip r) \<and>
      (trim (aq_country q) = [] \<or> al_code r = upper_ascii (trim (aq_country q)) \<or> like_any (trim (aq_country q)) (al_country r)) \<and>
      has (aq_city q) (al_city r) \<and> has (aq_keyword q) (al_keyword r) \<and>
      (case aq_success q of None \<Rightarrow> True | Some b \<Rightarrow> al_success r = b) \<and>
      (trim (aq_search q) = [] \<or> (\<exists>s\<in>set (search_fields r). like_any (trim (aq_search q)) s)) \<and>
      (trim (aq_from q) = [] \<or> at_least env (al_at r) (trim (aq_from q))) \<and>
      (trim (aq_to q) = [] \<or> at_most env (al_at r) (trim (aq_to q))))"

definition newest_first :: "audit_row list \<Rightarrow> audit_row list" where
  "newest_first t = rev (sort_key al_at (rev t))"

record audit_item =
  ai_row :: audit_row
  ai_keydata :: "json option"
  ai_details :: "json option"

definition normalizeLog :: "aenv \<Rightarrow> audit_row \<Rightarrow> audit_item" where
  "normalizeLog env r =
     \<lparr>ai_row = r, ai_keydata = (if trim (al_keydata r) \<noteq> [] then ae_unmarshal env (al_keydata r) else None),
      ai_details = (if trim (al_details r) = [] then None else ae_unmarshal env (al_details r))\<rparr>"

record audit_reply =
  ar_items :: "audit_item list"
  ar_page :: int
  ar_size :: int
  ar_total :: int
  ar_pages :: int

definition audit_size :: "int \<Rightarrow> int" where
  "audit_size s = (let s1 = (if s \<le> 0 then 20 else s) in if s1 > 200 then 200 else s1)"

definition audit_List :: "aenv \<Rightarrow> audit_query \<Rightarrow> audit_row list \<Rightarrow> db_err + audit_reply" where
  "audit_List env q t =
     (let page = list_page (aq_page q); pageSize = audit_size (aq_size q);
          rows = filter (audit_matches env q) t; tot = int (length rows);
          offset = int64 (int64 (page - 1) * pageSize) in
      if \<not> ae_up env ''count'' \<or> \<not> ae_up env ''list'' then Inl DbFail
      else Inr \<lparr>ar_items = map (normalizeLog env) (take (nat pageSize) (drop (nat offset) (newest_first rows))),
        ar_page = page, ar_size = pageSize, ar_total = tot,
        ar_pages = (if tot > 0 then int64 (tot + pageSize - 1) div pageSize else 0)\<rparr>)"

section \<open>The heat map\<close>

definition normalizeRangeKey :: "string \<Rightarrow> string" where
  "normalizeRangeKey v =
     (if trim (to_lower v) \<in> {''24h'', ''7d'', ''30d'', ''90d'', ''1y''} then trim (to_lower v) else ''30d'')"

text \<open>The format of the bucket and its name; the start is a function of the range and the clock.\<close>

definition heatmapRange :: "aenv \<Rightarrow> string \<Rightarrow> string \<times> string \<times> string" where
  "heatmapRange env rangeKey =
     (let key = normalizeRangeKey rangeKey in
      if key = ''24h'' then (ae_since env key, ''%Y-%m-%dT%H:00:00'', ''hour'')
      else if key = ''1y'' then (ae_since env key, ''%Y-%m'', ''month'')
      else (ae_since env key, ''%Y-%m-%d'', ''day''))"

record heatmap =
  hm_range :: string
  hm_bucket :: string
  hm_buckets :: "(string \<times> nat) list"

text \<open>A row whose time SQLite cannot read gives a \<open>NULL\<close> bucket, which does not scan into a string.\<close>

definition Heatmap :: "aenv \<Rightarrow> string \<Rightarrow> audit_row list \<Rightarrow> db_err + heatmap" where
  "Heatmap env rangeKey t =
     (let (start, format, bucket) = heatmapRange env rangeKey;
          times = map (\<lambda>r. ae_strftime env format (al_at r)) (filter (\<lambda>r. at_least env (al_at r) start) t) in
      if \<not> ae_up env ''heatmap'' \<or> None \<in> set times then Inl DbFail
      else (let keys = map the times in
            Inr \<lparr>hm_range = normalizeRangeKey rangeKey, hm_bucket = bucket,
              hm_buckets = map (\<lambda>k. (k, count_list keys k)) (sort (remdups keys))\<rparr>))"

section \<open>Handlers\<close>

definition audit_positive :: "string \<Rightarrow> int \<Rightarrow> int" where
  "audit_positive raw fallback = (case Atoi (trim raw) of Some v \<Rightarrow> if v \<le> 0 then fallback else v | None \<Rightarrow> fallback)"

text \<open>\<open>arg\<close> gives the query parameters of the request, the empty text for a missing one.\<close>

definition query_of :: "(string \<Rightarrow> string) \<Rightarrow> audit_query" where
  "query_of arg =
     \<lparr>aq_page = audit_positive (arg ''page'') 1, aq_size = audit_positive (arg ''pageSize'') 20, aq_category = arg ''category'',
      aq_severity = arg ''severity'', aq_source = arg ''source'', aq_event = arg ''event'', aq_actor = arg ''actorUserId'',
      aq_ip = arg ''ipAddress'', aq_country = arg ''country'', aq_city = arg ''city'', aq_keyword = arg ''keyword'',
      aq_success = (let raw = trim (arg ''success'') in
        if raw = [] then None else Some (raw = ''1'' \<or> equal_fold raw ''true'')),
      aq_search = arg ''q'', aq_from = arg ''from'', aq_to = arg ''to''\<rparr>"

definition audit_HandleList :: "aenv \<Rightarrow> (string \<Rightarrow> string) \<Rightarrow> audit_row list \<Rightarrow> audit_reply resp" where
  "audit_HandleList env arg t =
     (case audit_List env (query_of arg) t of
        Inl _ \<Rightarrow> Fail 500 ''AUDIT_LOG_LIST_FAILED''
      | Inr r \<Rightarrow> Reply 200 r)"

definition HandleHeatmap :: "aenv \<Rightarrow> (string \<Rightarrow> string) \<Rightarrow> audit_row list \<Rightarrow> heatmap resp" where
  "HandleHeatmap env arg t =
     (case Heatmap env (arg ''range'') t of
        Inl _ \<Rightarrow> Fail 500 ''AUDIT_LOG_HEATMAP_FAILED''
      | Inr r \<Rightarrow> Reply 200 r)"

end
