(* ===== verification/Audit_Props.thy ===== *)
theory Audit_Props
  imports Audit_Log
begin

text \<open>The properties of the audit log.\<close>

section \<open>Search\<close>

lemma like_percent: "like (CHR ''%'' # p) s \<longleftrightarrow> (\<exists>a b. s = a @ b \<and> like p b)"
proof (induction s)
  case (Cons c s)
  have "(\<exists>a b. c # s = a @ b \<and> like p b) \<longleftrightarrow> like p (c # s) \<or> (\<exists>a b. s = a @ b \<and> like p b)"
    by (auto simp: Cons_eq_append_conv)
  then show ?case using Cons by simp
qed simp

lemma like_tail: "like [CHR ''%''] s"
  by (subst like_percent) (auto intro: exI [of _ s])

lemma like_plain:
  "CHR ''%'' \<notin> set v \<Longrightarrow> CHR ''_'' \<notin> set v \<Longrightarrow>
    like (v @ [CHR ''%'']) s \<longleftrightarrow> (\<exists>m b. s = m @ b \<and> to_lower m = to_lower v)"
proof (induction v arbitrary: s)
  case Nil
  then show ?case by (simp add: like_tail to_lower_def)
next
  case (Cons p v)
  show ?case
  proof (cases s)
    case Nil
    then show ?thesis using Cons.prems by (auto simp: to_lower_def)
  next
    case (Cons c s')
    have "(\<exists>m b. c # s' = m @ b \<and> to_lower m = to_lower (p # v)) \<longleftrightarrow>
        lower_char p = lower_char c \<and> (\<exists>m b. s' = m @ b \<and> to_lower m = to_lower v)"
    proof
      assume "\<exists>m b. c # s' = m @ b \<and> to_lower m = to_lower (p # v)"
      then show "lower_char p = lower_char c \<and> (\<exists>m b. s' = m @ b \<and> to_lower m = to_lower v)"
        by (auto simp: to_lower_def Cons_eq_append_conv)
    next
      assume "lower_char p = lower_char c \<and> (\<exists>m b. s' = m @ b \<and> to_lower m = to_lower v)"
      then obtain m b where "c # s' = (c # m) @ b" "to_lower (c # m) = to_lower (p # v)" by (auto simp: to_lower_def)
      then show "\<exists>m b. c # s' = m @ b \<and> to_lower m = to_lower (p # v)" by blast
    qed
    then show ?thesis using Cons Cons.IH [of s'] Cons.prems by auto
  qed
qed

text \<open>
  Searching the audit log finds what contains the term.  For a term without the wildcards of
  \<open>LIKE\<close>, a text matches if and only if it contains the term up to the case of ASCII letters.
\<close>

theorem search_finds_substrings:
  assumes "CHR ''%'' \<notin> set value" "CHR ''_'' \<notin> set value"
  shows "like_any value s \<longleftrightarrow> (\<exists>a m b. s = a @ m @ b \<and> to_lower m = to_lower value)"
proof -
  have "like_any value s \<longleftrightarrow> (\<exists>a r. s = a @ r \<and> like (value @ [CHR ''%'']) r)"
    by (simp add: like_any_def like_percent)
  then show ?thesis using like_plain [OF assms] by auto
qed

lemma search_finds_substrings_witness:
  "like_any ''LoGin'' ''user login succeeded'' \<and> (\<exists>a m b. ''user login succeeded'' = a @ m @ b \<and> to_lower m = to_lower ''LoGin'')"
proof -
  have "like_any ''LoGin'' ''user login succeeded''" by code_simp
  then show ?thesis using search_finds_substrings [of "''LoGin''" "''user login succeeded''"] by simp
qed

section \<open>Rows\<close>

text \<open>Joins of texts without blanks at their ends.\<close>

lemma trimmed_join: "ws \<noteq> [] \<Longrightarrow> \<forall>w\<in>set ws. trimmed w \<Longrightarrow> trimmed (join_with sep ws)"
proof (induction sep ws rule: join_with.induct)
  case (3 sep x y ys)
  then have "trimmed x" "trimmed (join_with sep (y # ys))" by simp_all
  then show ?case by (simp add: trimmed_def)
qed (simp_all)

lemma Fields_trimmed: "w \<in> set (Fields s) \<Longrightarrow> trimmed w"
proof -
  assume w: "w \<in> set (Fields s)"
  let ?s = "map (\<lambda>c. if is_space c then CHR '' '' else c) s"
  have ne: "w \<noteq> []" and part: "w \<in> set (split_on (CHR '' '') ?s)" using w by (simp_all add: Fields_def)
  have chars: "set p \<subseteq> set t" if "p \<in> set (split_on c t)" for p c t
    using that
  proof (induction c t arbitrary: p rule: split_on.induct)
    case (2 c x xs)
    then show ?case by (cases "split_on c xs") (fastforce split: if_splits)+
  qed simp
  have "\<not> is_space c" if "c \<in> set w" for c
  proof -
    have "c \<noteq> CHR '' ''" using split_on_parts [of "CHR '' ''" ?s] part that by blast
    moreover have "c \<in> set ?s" using chars [OF part] that by blast
    ultimately show ?thesis by auto
  qed
  then show ?thesis using ne by (simp add: trimmed_def)
qed

lemma upper_first_space: "\<not> is_space c \<Longrightarrow> \<not> is_space (hd (upper_first c)) \<and> upper_first c \<noteq> [] \<and> \<not> is_space (last (upper_first c))"
proof -
  assume c: "\<not> is_space c"
  have all: "\<forall>n\<in>set [97..<123]. \<not> is_space (char_of (n - 32 :: nat))" by code_simp
  then have "\<not> is_space (char_of ((of_char c :: nat) - 32))" if "97 \<le> (of_char c :: nat)" "(of_char c :: nat) \<le> 122"
    using bspec [OF all [unfolded set_upt], of "of_char c"] that by simp
  moreover have "\<not> is_space (CHR 0xEF)" "\<not> is_space (CHR 0xBD)" by code_simp+
  ultimately show ?thesis using c by (simp add: upper_first_def Let_def)
qed

lemma defaultKeyword_trim: "trim (defaultKeyword e) = defaultKeyword e"
proof -
  have "trim (join_with '' '' (case Fields t of [] \<Rightarrow> [] | (c # cs) # ws \<Rightarrow> (upper_first c @ cs) # ws | [] # ws \<Rightarrow> [] # ws)) =
      join_with '' '' (case Fields t of [] \<Rightarrow> [] | (c # cs) # ws \<Rightarrow> (upper_first c @ cs) # ws | [] # ws \<Rightarrow> [] # ws)" for t
  proof (cases "Fields t")
    case (Cons w ws)
    have all: "\<forall>w\<in>set (w # ws). trimmed w" using Fields_trimmed [of _ t] Cons by simp
    then obtain c cs where w: "w = c # cs" "\<not> is_space c" by (cases w) (auto simp: trimmed_def)
    have "trimmed (upper_first c @ cs)"
      using upper_first_space [OF w(2)] all w(1) by (cases cs) (auto simp: trimmed_def)
    then have "trimmed (join_with '' '' ((upper_first c @ cs) # ws))" using all by (intro trimmed_join) simp_all
    then show ?thesis by (simp add: Cons w(1) trimmed_trim)
  qed simp
  then show ?thesis by (simp add: defaultKeyword_def Let_def)
qed

lemma defaultContent_trim:
  assumes "trim k = k" shows "trim (defaultContent e k) = defaultContent e k"
proof -
  let ?ps = "(if trim (en_message e) \<noteq> [] then [trim (en_message e)] else if k \<noteq> [] then [k] else []) @
         (if trim (en_rname e) \<noteq> [] then [trim (en_rname e)] else []) @
         (if trim (aa_name (en_actor e)) \<noteq> [] then [''by '' @ trim (aa_name (en_actor e))] else [])"
  have k: "k \<noteq> [] \<Longrightarrow> trimmed k" using trimmed_of_trim [of k] assms by simp
  have "trimmed (''by '' @ trim n)" if "trim n \<noteq> []" for n
    using trim_last [OF that] that by (simp add: trimmed_def is_space_def)
  then have "\<forall>p\<in>set ?ps. trimmed p" using k trimmed_of_trim by auto
  note all = this
  have "trim (join_with middle_dot ?ps) = join_with middle_dot ?ps"
  proof (cases "?ps = []")
    case True
    show ?thesis unfolding True by simp
  qed (rule trimmed_trim [OF trimmed_join [OF _ all]])
  then show ?thesis by (simp add: defaultContent_def Let_def)
qed

definition normal_text :: "string \<Rightarrow> bool" where "normal_text s \<longleftrightarrow> trim s = s"

definition normal_row :: "audit_row \<Rightarrow> bool" where
  "normal_row r \<longleftrightarrow>
     al_event r \<noteq> [] \<and> al_action r \<noteq> [] \<and> al_category r \<noteq> [] \<and> al_severity r \<noteq> [] \<and> al_source r \<noteq> [] \<and> al_iptype r \<noteq> [] \<and>
     (\<forall>s\<in>set [al_event r, al_action r, al_category r, al_severity r, al_source r, al_iptype r, al_ip r, al_code r, al_country r,
        al_city r, al_agent r, al_method r, al_path r, al_rtype r, al_rid r, al_rname r, al_message r,
        al_keyword r, al_content r, al_at r, aa_id (al_actor r), aa_name (al_actor r), aa_display (al_actor r)]. normal_text s)"

lemma or_default_normal: "trim d = d \<Longrightarrow> d \<noteq> [] \<Longrightarrow> or_default s d \<noteq> [] \<and> trim (or_default s d) = or_default s d"
  by (simp add: or_default_def)

lemma located_type: "trim (gl_iptype (lookupGeoIP env ip)) \<noteq> []"
proof -
  have "gl_iptype (lookupGeoIP env ip) \<in> {''unknown'', ''local'', ''private'', ''public''}"
    by (auto simp: lookupGeoIP_def located_def Let_def split: option.split prod.split)
  moreover have "\<forall>s\<in>set [''unknown'', ''local'', ''private'', ''public'']. trim s \<noteq> []" by code_simp
  ultimately show ?thesis by auto
qed

lemma completed_iptype: "trim (en_iptype (completed env ctx e)) \<noteq> []"
  using located_type by (auto simp: completed_def Let_def)

lemma Record_rows:
  assumes "Record env e t = Inr t'"
  shows "\<exists>details keydata. t' = t @ [row_of env e details keydata] \<and> ae_id env \<notin> al_id ` set t \<and>
    trim (en_event e) \<noteq> [] \<and> trim (en_action e) \<noteq> []"
  using assms by (auto simp: Record_def insert_row_def row_of_def Let_def split: if_splits option.splits sum.splits)

lemma row_of_normal:
  assumes "trim (en_event e) \<noteq> []" "trim (en_action e) \<noteq> []" "trim (en_iptype e) \<noteq> []" "trim (ae_now env) = ae_now env"
  shows "normal_row (row_of env e details keydata)"
proof -
  have "trim ''user'' = ''user''" "trim ''info'' = ''info''" "trim ''error'' = ''error''" "trim ''api'' = ''api''" by code_simp+
  note words = this
  let ?k = "or_default (en_keyword e) (defaultKeyword e)"
  have k: "trim ?k = ?k" by (simp add: or_default_def defaultKeyword_trim)
  have c: "trim (or_default (en_content e) (defaultContent e ?k)) = or_default (en_content e) (defaultContent e ?k)"
    using defaultContent_trim [OF k] by (simp add: or_default_def [of "en_content e"])
  have at: "trim (or_default (en_at e) (ae_now env)) = or_default (en_at e) (ae_now env)"
    using assms(4) by (simp add: or_default_def)
  have "normal_text (al_keyword (row_of env e details keydata))" "normal_text (al_content (row_of env e details keydata))"
    "normal_text (al_at (row_of env e details keydata))"
    using k c at by (simp_all add: row_of_def Let_def normal_text_def)
  moreover have "or_default s ''user'' \<noteq> []" "or_default s ''api'' \<noteq> []" "or_default s (if q then ''info'' else ''error'') \<noteq> []"
    "trim (or_default s ''user'') = or_default s ''user''" "trim (or_default s ''api'') = or_default s ''api''"
    "trim (or_default s (if q then ''info'' else ''error'')) = or_default s (if q then ''info'' else ''error'')" for s q
    using words by (simp_all add: or_default_def)
  ultimately show ?thesis
    using assms(1-3) by (simp add: normal_row_def) (simp add: row_of_def Let_def normal_text_def)
qed

text \<open>
  C30: Every row of the audit log is normal.  Whatever entries are emitted, in whatever contexts and
  whichever of them fail: identifiers are unique, event, action, category, severity, source and the
  class of the address are never blank, and no text column that is filled from the entry (keyword,
  content and time included; the encoded details and key data are the encoder's) keeps blanks at its
  ends, nor do the defaults that fill an empty keyword, content or time.  The clock's text is assumed
  to have no blanks at its ends, as RFC 3339 times have none.
\<close>

theorem audit_rows_normal:
  assumes "\<forall>(env, ctx, e)\<in>set es. trim (ae_now env) = ae_now env"
  shows "(\<forall>r\<in>set (foldl (\<lambda>t (env, ctx, e). Emit env ctx e t) [] es). normal_row r) \<and>
   distinct (map al_id (foldl (\<lambda>t (env, ctx, e). Emit env ctx e t) [] es))"
proof -
  have emit: "(\<forall>r\<in>set (Emit env ctx e t). normal_row r) \<and> distinct (map al_id (Emit env ctx e t))"
    if t: "\<forall>r\<in>set t. normal_row r" "distinct (map al_id t)" "trim (ae_now env) = ae_now env" for env ctx e t
  proof (cases "Record env (completed env ctx e) t")
    case (Inr t')
    obtain details keydata where t': "t' = t @ [row_of env (completed env ctx e) details keydata]" "ae_id env \<notin> al_id ` set t"
      "trim (en_event (completed env ctx e)) \<noteq> []" "trim (en_action (completed env ctx e)) \<noteq> []"
      using Record_rows [OF Inr] by blast
    have "normal_row (row_of env (completed env ctx e) details keydata)"
      by (rule row_of_normal [OF t'(3,4) completed_iptype t(3)])
    moreover have "al_id (row_of env (completed env ctx e) details keydata) = ae_id env" by (simp add: row_of_def Let_def)
    ultimately show ?thesis using t t'(1,2) by (simp add: Emit_def MustRecord_def Inr)
  qed (use t in \<open>simp add: Emit_def MustRecord_def\<close>)
  have "(\<forall>r\<in>set (foldl (\<lambda>t (env, ctx, e). Emit env ctx e t) t es). normal_row r) \<and>
     distinct (map al_id (foldl (\<lambda>t (env, ctx, e). Emit env ctx e t) t es))"
    if "\<forall>r\<in>set t. normal_row r" "distinct (map al_id t)" for t
    using that assms
  proof (induction es arbitrary: t)
    case (Cons x es)
    obtain env ctx e where x: "x = (env, ctx, e)" by (cases x) auto
    have "trim (ae_now env) = ae_now env" using Cons.prems(3) by (simp add: x)
    with Cons.IH [of "Emit env ctx e t"] emit [OF Cons.prems(1,2)] Cons.prems(3) show ?case by (simp add: x)
  qed simp
  from this [of "[]"] show ?thesis by simp
qed

section \<open>The heat map\<close>

lemma count_list_length: "(\<Sum>k\<leftarrow>sort (remdups ks). count_list ks k) = length ks"
proof -
  have "(\<Sum>k\<leftarrow>sort (remdups ks). count_list ks k) = (\<Sum>k\<in>set ks. count_list ks k)"
    by (subst sum_list_distinct_conv_sum_set) simp_all
  then show ?thesis by (simp add: sum_count_set)
qed

text \<open>
  The heat map counts every row once: its buckets are in order, no two have the same time, and
  their counts sum up to the number of rows since its start.
\<close>

theorem heatmap_counts:
  assumes "Heatmap env rangeKey t = Inr h"
  shows "sum_list (map snd (hm_buckets h)) = length (filter (\<lambda>r. at_least env (al_at r) (fst (heatmapRange env rangeKey))) t) \<and>
    sorted (map fst (hm_buckets h)) \<and> distinct (map fst (hm_buckets h))"
proof -
  obtain start format bucket where r: "heatmapRange env rangeKey = (start, format, bucket)" by (cases "heatmapRange env rangeKey")
  define times where "times = map (\<lambda>r. ae_strftime env format (al_at r)) (filter (\<lambda>r. at_least env (al_at r) start) t)"
  define keys where "keys = map the times"
  have h: "hm_buckets h = map (\<lambda>k. (k, count_list keys k)) (sort (remdups keys))"
    using assms by (auto simp: Heatmap_def r times_def [symmetric] keys_def Let_def split: if_splits)
  have "sum_list (map snd (hm_buckets h)) = (\<Sum>k\<leftarrow>sort (remdups keys). count_list keys k)" by (simp add: h comp_def)
  also have "\<dots> = length keys" by (rule count_list_length)
  finally have "sum_list (map snd (hm_buckets h)) = length keys" .
  then show ?thesis by (simp add: h comp_def keys_def times_def r)
qed

definition plain_env :: aenv where
  "plain_env = \<lparr>ae_up = (\<lambda>s. True), ae_marshal = (\<lambda>j. Some ''{}''), ae_unmarshal = (\<lambda>s. None), ae_addr6 = (\<lambda>s. None),
     ae_reader = False, ae_geo = (\<lambda>a. None), ae_numeric = (\<lambda>s. False), ae_since = (\<lambda>s. ''2024-01-01''),
     ae_strftime = (\<lambda>f s. Some (take 10 s)), ae_id = ''log-2'', ae_now = ''2024-05-02T08:00:00Z''\<rparr>"

definition old_row :: audit_row where
  "old_row = \<lparr>al_id = ''log-1'', al_category = ''user'', al_severity = ''info'', al_source = ''api'', al_event = ''login_success'',
     al_action = ''login'', al_success = True, al_actor = no_actor\<lparr>aa_name := ''ada''\<rparr>, al_ip = ''10.0.0.7'', al_iptype = [],
     al_code = [], al_country = [], al_city = [], al_agent = [], al_method = ''POST'', al_path = ''/login'', al_rtype = ''user'',
     al_rid = ''u1'', al_rname = ''ada'', al_keyword = [], al_content = [], al_keydata = [], al_message = [], al_details = [],
     al_at = ''2024-05-01T08:00:00Z''\<rparr>"

definition login_entry :: audit_entry where
  "login_entry = blank_entry\<lparr>en_event := ''logout'', en_action := ''logout'', en_success := True, en_ip := '' 10.0.0.7 ''\<rparr>"

lemma heatmap_counts_witness:
  "(case Heatmap plain_env ''week'' (Emit plain_env \<lparr>cx_meta = None, cx_actor = None\<rparr> login_entry [old_row]) of
      Inl _ \<Rightarrow> False | Inr h \<Rightarrow> sum_list (map snd (hm_buckets h)) = 2 \<and> sorted (map fst (hm_buckets h)))"
proof -
  let ?t = "Emit plain_env \<lparr>cx_meta = None, cx_actor = None\<rparr> login_entry [old_row]"
  have "length (filter (\<lambda>r. at_least plain_env (al_at r) (fst (heatmapRange plain_env ''week''))) ?t) = 2" by code_simp
  moreover have "\<not> isl (Heatmap plain_env ''week'' ?t)" by code_simp
  ultimately show ?thesis using heatmap_counts [of plain_env "''week''" ?t]
    by (cases "Heatmap plain_env ''week'' ?t") simp_all
qed

definition one_login :: "audit_row list" where
  "one_login = foldl (\<lambda>t (env, ctx, e). Emit env ctx e t) [] [(plain_env, \<lparr>cx_meta = None, cx_actor = None\<rparr>, login_entry)]"

lemma audit_rows_normal_witness: "list_all normal_row one_login \<and> length one_login = 1"
proof (rule conjI)
  have "(\<forall>r\<in>set one_login. normal_row r) \<and> distinct (map al_id one_login)" unfolding one_login_def
    by (rule audit_rows_normal) (simp add: plain_env_def, code_simp)
  then show "list_all normal_row one_login" unfolding list_all_iff by (rule conjunct1)
  have "length (Emit plain_env \<lparr>cx_meta = None, cx_actor = None\<rparr> login_entry []) = 1" by code_simp
  then show "length one_login = 1" by (simp only: one_login_def foldl.simps prod.case)
qed

section \<open>Completing old rows\<close>

definition fill :: "aenv \<Rightarrow> audit_row \<Rightarrow> audit_row" where
  "fill env r = (if legacy r then (case backfilled env r of None \<Rightarrow> r | Some v \<Rightarrow> v) else r)"

lemma backfilled_frame:
  assumes "backfilled env r = Some v"
  shows "complete_row v r = v" "al_id v = al_id r"
  using assms by (auto simp: backfilled_def completion_def complete_row_def Let_def)

lemma complete_row_id [simp]: "al_id (complete_row v r) = al_id r"
  by (simp add: complete_row_def)

text \<open>With unique identifiers, the updates replace the selected rows by their completions.\<close>

lemma backfill_items_result:
  assumes "backfill_items env items t = (True, t')" "distinct (map al_id t)" "set items \<subseteq> set t" "distinct items"
  shows "t' = map (\<lambda>r. if r \<in> set items then the (backfilled env r) else r) t \<and> (\<forall>r\<in>set items. backfilled env r \<noteq> None)"
  using assms
proof (induction items arbitrary: t)
  case (Cons item items)
  obtain v where v: "backfilled env item = Some v" using Cons.prems(1) by (cases "backfilled env item") auto
  let ?t = "tbl_upd (\<lambda>r. al_id r = al_id item) (complete_row v) t"
  have rest: "backfill_items env items ?t = (True, t')" using Cons.prems(1) by (simp add: v split: if_splits)
  have item: "item \<in> set t" "items \<noteq> [] \<longrightarrow> True" using Cons.prems(3) by simp_all
  have upd: "?t = map (\<lambda>r. if r = item then v else r) t"
    unfolding tbl_upd_def
  proof (rule map_cong)
    fix r assume r: "r \<in> set t"
    have "al_id r = al_id item \<longleftrightarrow> r = item"
      using Cons.prems(2) r item(1) by (auto simp: distinct_map inj_on_def)
    then show "(if al_id r = al_id item then complete_row v r else r) = (if r = item then v else r)"
      using backfilled_frame(1) [OF v] by simp
  qed simp
  have ids: "map al_id ?t = map al_id t" using backfilled_frame(2) [OF v] by (simp add: upd)
  have sub: "set items \<subseteq> set ?t" using Cons.prems(3,4) by (auto simp: upd)
  have "v \<notin> set items"
  proof
    assume "v \<in> set items"
    then have "v \<in> set t" using Cons.prems(3) by auto
    then have "v = item" using Cons.prems(2) item(1) backfilled_frame(2) [OF v] by (auto simp: distinct_map inj_on_def)
    then show False using \<open>v \<in> set items\<close> Cons.prems(4) by simp
  qed
  from Cons.IH [OF rest] ids Cons.prems(2,4) sub
  have "t' = map (\<lambda>r. if r \<in> set items then the (backfilled env r) else r) ?t \<and> (\<forall>r\<in>set items. backfilled env r \<noteq> None)" by simp
  then show ?case using v \<open>v \<notin> set items\<close> Cons.prems(4) by (auto simp: upd)
qed simp

lemma BackfillLegacyLogs_result:
  assumes "BackfillLegacyLogs env t = (True, t')" "distinct (map al_id t)"
  shows "t' = map (fill env) t"
proof -
  have "backfill_items env (filter legacy t) t = (True, t')" using assms(1) by (simp add: BackfillLegacyLogs_def split: if_splits)
  moreover have "distinct t" using assms(2) by (simp add: distinct_map)
  ultimately have "t' = map (\<lambda>r. if r \<in> set (filter legacy t) then the (backfilled env r) else r) t"
    "\<forall>r\<in>set (filter legacy t). backfilled env r \<noteq> None"
    using backfill_items_result [of env "filter legacy t" t t'] assms(2) by auto
  then show ?thesis by (auto simp: fill_def split: option.splits)
qed

lemma lookup_trim:
  "trim (gl_iptype (lookupGeoIP env ip)) = gl_iptype (lookupGeoIP env ip)" "trim (gl_code (lookupGeoIP env ip)) = gl_code (lookupGeoIP env ip)"
  "trim (gl_country (lookupGeoIP env ip)) = gl_country (lookupGeoIP env ip)" "trim (gl_city (lookupGeoIP env ip)) = gl_city (lookupGeoIP env ip)"
proof -
  have name: "trim (localizedGeoName ns) = localizedGeoName ns" for ns
    by (auto simp: localizedGeoName_def Let_def split: option.split dest!: find_Some_iff [THEN iffD1])
  have "\<forall>s\<in>set [''unknown'', ''local'', ''private'', ''public'', []]. trim s = s" by code_simp
  then show "trim (gl_iptype (lookupGeoIP env ip)) = gl_iptype (lookupGeoIP env ip)" "trim (gl_code (lookupGeoIP env ip)) = gl_code (lookupGeoIP env ip)"
    "trim (gl_country (lookupGeoIP env ip)) = gl_country (lookupGeoIP env ip)" "trim (gl_city (lookupGeoIP env ip)) = gl_city (lookupGeoIP env ip)"
    by (auto simp: lookupGeoIP_def located_def Let_def name split: option.split prod.split)
qed

lemma or_default_again: "trim d = d \<Longrightarrow> or_default (or_default s d) d = or_default s d"
  by (simp add: or_default_def)

text \<open>A completed row is complete.\<close>

lemma completion_again:
  "completion env (completion env r kd) kd = completion env r kd"
proof -
  define e where "e = legacy_entry r"
  define kw where "kw = or_default (al_keyword r) (defaultKeyword e)"
  define loc where "loc = lookupGeoIP env (al_ip r)"
  define lost where "lost = (trim (al_iptype r) = [] \<or> (trim (al_code r) = [] \<and> trim (al_country r) = [] \<and> trim (al_city r) = []))"
  define v where "v = completion env r kd"
  have v: "al_keyword v = kw" "al_content v = or_default (al_content r) (defaultContent e kw)" "al_keydata v = kd"
    "al_iptype v = (if lost \<and> trim (al_iptype r) = [] then gl_iptype loc else trim (al_iptype r))"
    "al_code v = (if lost then gl_code loc else trim (al_code r))" "al_country v = (if lost then gl_country loc else trim (al_country r))"
    "al_city v = (if lost then gl_city loc else trim (al_city r))" "al_ip v = al_ip r" "legacy_entry v = e"
    by (simp_all add: v_def completion_def Let_def kw_def e_def loc_def lost_def legacy_entry_def)
  have kw: "trim kw = kw" by (simp add: kw_def or_default_def defaultKeyword_trim)
  have kw2: "or_default kw (defaultKeyword e) = kw"
    unfolding kw_def by (rule or_default_again) (rule defaultKeyword_trim)
  have ct2: "or_default (al_content v) (defaultContent e kw) = al_content v"
    unfolding v(2) by (rule or_default_again) (rule defaultContent_trim [OF kw])
  have loc: "trim (gl_iptype loc) = gl_iptype loc" "trim (gl_code loc) = gl_code loc" "trim (gl_country loc) = gl_country loc"
    "trim (gl_city loc) = gl_city loc" "gl_iptype loc \<noteq> []"
    using lookup_trim [of env "al_ip r"] located_type [of env "al_ip r"] by (auto simp: loc_def)
  let ?lost = "trim (al_iptype v) = [] \<or> (trim (al_code v) = [] \<and> trim (al_country v) = [] \<and> trim (al_city v) = [])"
  have place: "trim (al_iptype v) = al_iptype v" "al_iptype v \<noteq> []" "trim (al_code v) = al_code v" "trim (al_country v) = al_country v"
    "trim (al_city v) = al_city v" using loc by (auto simp: v lost_def)
  have again: "?lost \<Longrightarrow> gl_code loc = al_code v \<and> gl_country loc = al_country v \<and> gl_city loc = al_city v"
    using loc by (auto simp: v lost_def split: if_splits)
  have "completion env v kd = v"
    unfolding completion_def Let_def v(8,9) loc_def [symmetric]
    by (rule audit_row.equality) (use kw2 ct2 v(1,3) place again in auto)
  then show ?thesis by (simp add: v_def)
qed

lemma backfilled_again:
  assumes "backfilled env r = Some v" "\<forall>j s. ae_marshal env j = Some s \<longrightarrow> trim s = s"
  shows "backfilled env v = Some v"
proof -
  obtain kd where kd: "(if trim (al_keydata r) \<noteq> [] then Some (trim (al_keydata r)) else encoded env (defaultKeyData (legacy_entry r))) = Some kd"
    and v: "v = completion env r kd" using assms(1) unfolding backfilled_def map_option_eq_Some by blast
  have f: "al_keydata v = kd" "legacy_entry v = legacy_entry r" by (simp_all add: v completion_def Let_def legacy_entry_def)
  have "trim kd = kd" using kd assms(2) by (auto simp: encoded_def split: if_splits option.splits)
  then have "(if trim kd \<noteq> [] then Some (trim kd) else encoded env (defaultKeyData (legacy_entry r))) = Some kd"
    using kd by (auto split: if_splits)
  note again = this
  have "backfilled env v = Some (completion env v kd)" unfolding backfilled_def f again by (simp only: option.map)
  then show ?thesis by (simp add: v completion_again)
qed

text \<open>
  C31: Completing old rows at every start is harmless.  When the completion has gone through all rows,
  no row has been added or removed, rows that were complete are as before, and going through them once
  more, with the database up, changes nothing.
\<close>

theorem backfill_idempotent:
  assumes "BackfillLegacyLogs env t = (True, t')" "distinct (map al_id t)"
    "\<forall>j s. ae_marshal env j = Some s \<longrightarrow> trim s = s" "\<forall>site. ae_up env site"
  shows "map al_id t' = map al_id t \<and> (\<forall>r\<in>set t. \<not> legacy r \<longrightarrow> r \<in> set t') \<and> BackfillLegacyLogs env t' = (True, t')"
proof -
  have t': "t' = map (fill env) t" by (rule BackfillLegacyLogs_result [OF assms(1,2)])
  have ids: "al_id (fill env r) = al_id r" for r
    using backfilled_frame(2) by (auto simp: fill_def split: option.split)
  then have d': "map al_id t' = map al_id t" by (simp add: t')
  have again: "backfilled env (fill env r) = Some (fill env r)" if r: "legacy (fill env r)" "r \<in> set t" for r
  proof (cases "legacy r")
    case True
    have "\<forall>r\<in>set (filter legacy t). backfilled env r \<noteq> None"
      using backfill_items_result [of env "filter legacy t" t t'] assms(1,2)
      by (simp add: BackfillLegacyLogs_def distinct_map split: if_splits)
    then obtain v where "backfilled env r = Some v" using True r(2) by auto
    then show ?thesis using backfilled_again [OF _ assms(3)] True by (simp add: fill_def)
  qed (use r in \<open>simp add: fill_def\<close>)
  have "backfill_items env items u = (True, u)"
    if "set items \<subseteq> set u" "distinct (map al_id u)" "\<forall>r\<in>set items. backfilled env r = Some r" for items u
    using that
  proof (induction items)
    case (Cons item items)
    have "tbl_upd (\<lambda>r. al_id r = al_id item) (complete_row item) u = u"
      unfolding tbl_upd_def
    proof (rule map_idI)
      fix r assume "r \<in> set u"
      then have "al_id r = al_id item \<longrightarrow> r = item" using Cons.prems(1,2) by (auto simp: distinct_map inj_on_def)
      then show "(if al_id r = al_id item then complete_row item r else r) = r" by (auto simp: complete_row_def)
    qed
    then show ?case using Cons assms(4) by simp
  qed simp
  note run = this [of "filter legacy t'" t']
  have "\<forall>r\<in>set (filter legacy t'). backfilled env r = Some r" using again by (auto simp: t')
  then have "BackfillLegacyLogs env t' = (True, t')"
    using run assms(2,4) d' by (simp add: BackfillLegacyLogs_def)
  moreover have "\<forall>r\<in>set t. \<not> legacy r \<longrightarrow> r \<in> set t'" by (force simp: t' fill_def)
  ultimately show ?thesis using d' by blast
qed

lemma backfill_idempotent_witness:
  "BackfillLegacyLogs plain_env (snd (BackfillLegacyLogs plain_env [old_row])) = (True, snd (BackfillLegacyLogs plain_env [old_row])) \<and>
   map (\<lambda>r. (al_keyword r, al_content r, al_keydata r, al_iptype r)) (snd (BackfillLegacyLogs plain_env [old_row])) =
     [(''Login success'', ''Login success'' @ middle_dot @ ''ada'' @ middle_dot @ ''by ada'', ''{}'', ''private'')]"
proof -
  let ?r = "BackfillLegacyLogs plain_env [old_row]"
  have run: "fst ?r" by code_simp
  have ids: "distinct (map al_id [old_row])" by simp
  have marshal: "\<forall>j s. ae_marshal plain_env j = Some s \<longrightarrow> trim s = s"
  proof -
    have "trim ''{}'' = ''{}''" by code_simp
    then show ?thesis by (simp add: plain_env_def)
  qed
  have up: "\<forall>site. ae_up plain_env site" by (simp add: plain_env_def)
  have "?r = (True, snd ?r)" using run by (cases ?r) simp
  then have "BackfillLegacyLogs plain_env (snd ?r) = (True, snd ?r)" using backfill_idempotent [OF _ ids marshal up] by blast
  moreover have "map (\<lambda>r. (al_keyword r, al_content r, al_keydata r, al_iptype r)) (snd ?r) =
     [(''Login success'', ''Login success'' @ middle_dot @ ''ada'' @ middle_dot @ ''by ada'', ''{}'', ''private'')]" by code_simp
  ultimately show ?thesis by simp
qed

end
