(* ===== verification/Files_List.thy ===== *)
theory Files_List
  imports File_Ops Jobs_List
begin

text \<open>
  What the file handlers show: internal/files/files.go (pages), list.go (the listing of a folder, of
  the trash and of the tagged files of a storage), the global listings of trash.go, content.go and the
  cache of pkg/thumbnail/thumbnail.go.

  Parameters are the MIME table, the modification times, the MD5 sum, and the programs that draw a
  thumbnail.  A file system is a function, so a listing also has the finite list of the locations in
  use.  A handler that panics replies \<open>None\<close>.
\<close>

record lenv = oenv +
  le_paths :: "loc list"
  le_info :: "loc \<Rightarrow> bool"
  le_mtime :: "loc \<Rightarrow> int"
  le_mime :: "string \<Rightarrow> string"
  le_read :: bool

section \<open>Pages (files.go)\<close>

text \<open>\<open>fmt.Sscanf(raw, "%d", ...)\<close>: white space but no newline, a sign, the longest run of digits.\<close>

definition scan_int :: "string \<Rightarrow> int option" where
  "scan_int raw =
     (let s = dropWhile (\<lambda>c. is_space c \<and> c \<noteq> CHR 0x0A) raw;
          neg = (s \<noteq> [] \<and> hd s = CHR ''-'');
          rest = (if s \<noteq> [] \<and> (hd s = CHR ''-'' \<or> hd s = CHR ''+'') then tl s else s);
          ds = takeWhile is_digit rest;
          v = (if neg then - digits_value ds else digits_value ds) in
      if ds = [] \<or> int64 v \<noteq> v then None else Some v)"

definition parsePagination :: "string \<Rightarrow> string \<Rightarrow> int \<times> int" where
  "parsePagination limitRaw offsetRaw =
     ((if limitRaw = [] then 100
       else case scan_int limitRaw of None \<Rightarrow> 100 | Some v \<Rightarrow> if v \<le> 0 then 100 else v),
      (if offsetRaw = [] then 0
       else case scan_int offsetRaw of None \<Rightarrow> 0 | Some v \<Rightarrow> if v < 0 then 0 else v))"

text \<open>A slice whose bounds are out of order panics.\<close>

definition paginate :: "'a list \<Rightarrow> int \<Rightarrow> int \<Rightarrow> 'a list option" where
  "paginate items limit offset =
     (if offset \<ge> int (length items) then Some []
      else (let end0 = int64 (offset + limit); end1 = (if end0 > int (length items) then int (length items) else end0) in
            if end1 < offset then None
            else Some (take (nat (end1 - offset)) (drop (nat offset) items))))"

section \<open>Nodes\<close>

record file_node =
  fn_id :: string
  fn_name :: string
  fn_dir :: bool
  fn_parent :: string
  fn_updated :: string
  fn_size :: int
  fn_ext :: string
  fn_hidden :: bool
  fn_mime :: string
  fn_media :: string
  fn_colors :: "string list"

record crumb =
  bc_id :: string
  bc_name :: string

record trash_node =
  tn_id :: string
  tn_storage :: string
  tn_name :: string
  tn_dir :: bool
  tn_parent :: string
  tn_orig :: string
  tn_path :: string
  tn_deleted :: string
  tn_expires :: string
  tn_size :: int
  tn_ext :: string
  tn_hidden :: bool
  tn_mime :: string
  tn_media :: string
  tn_colors :: "string list"

text \<open>\<open>time.RFC3339\<close> of a time in UTC, in whole seconds since 1970.\<close>

definition rfc3339 :: "int \<Rightarrow> string" where
  "rfc3339 t =
     (case civil (t div 86400) of (y, m, d) \<Rightarrow>
        (let s = t mod 86400 in
         padded 4 y @ ''-'' @ padded 2 m @ ''-'' @ padded 2 d @ ''T'' @
         padded 2 (s div 3600) @ '':'' @ padded 2 (s div 60 mod 60) @ '':'' @ padded 2 (s mod 60) @ ''Z''))"

definition detectMediaType :: "string \<Rightarrow> string \<Rightarrow> string" where
  "detectMediaType fileName mimeType =
     (if to_lower (Ext fileName) \<in> {''.psd'', ''.ai'', ''.tiff''} then ''file''
      else if has_prefix ''image/'' mimeType then ''image''
      else if has_prefix ''video/'' mimeType then ''video''
      else ''file'')"

definition octet_stream :: "string \<Rightarrow> string" where
  "octet_stream m = (if m = [] then ''application/octet-stream'' else m)"

fun crumbs_from :: "string \<Rightarrow> string list \<Rightarrow> crumb list" where
  "crumbs_from current [] = []"
| "crumbs_from current (part # parts) =
     (if part = ''.'' \<or> part = [] then crumbs_from current parts
      else (let c = Join [current, part] in \<lparr>bc_id = encodeFilePath c, bc_name = part\<rparr> # crumbs_from c parts))"

definition buildBreadcrumbs :: "string \<Rightarrow> string \<Rightarrow> crumb list" where
  "buildBreadcrumbs p0 root0 =
     (let p = Clean p0; root = Clean root0; top = \<lparr>bc_id = encodeFilePath root, bc_name = ''Root''\<rparr> in
      if \<not> has_prefix root p then [top]
      else top # crumbs_from root (split_on slash (rel_or_empty root p)))"

text \<open>A later favorite of the list overwrites an earlier one with the same path, of any storage.\<close>

definition getFavoriteMap :: "oenv \<Rightarrow> fworld \<Rightarrow> string \<rightharpoonup> string list" where
  "getFavoriteMap env w =
     (case ListFavorites env w of
        Inl _ \<Rightarrow> Map.empty
      | Inr favs \<Rightarrow> foldl (\<lambda>m f. m(fv_path f \<mapsto> fv_colors f)) Map.empty favs)"

definition buildFileNode :: "lenv \<Rightarrow> fsys \<Rightarrow> string \<Rightarrow> string \<Rightarrow> string list \<Rightarrow> file_node option" where
  "buildFileNode env fs name dir colors =
     (let fullPath = Join [dir, name]; l = segs fullPath; ext = Ext name; mimeType = octet_stream (le_mime env ext) in
      case fs l of
        None \<Rightarrow> None
      | Some n \<Rightarrow>
          if \<not> le_info env l then None
          else Some \<lparr>fn_id = encodeFilePath fullPath, fn_name = name, fn_dir = (n = DirN), fn_parent = encodeFilePath dir,
                 fn_updated = rfc3339 (le_mtime env l), fn_size = (case n of DirN \<Rightarrow> 0 | FileN c \<Rightarrow> int (length c)), fn_ext = ext,
                 fn_hidden = has_prefix ''.'' name, fn_mime = mimeType, fn_media = detectMediaType name mimeType,
                 fn_colors = colors\<rparr>)"

text \<open>\<open>os.ReadDir\<close>: the names in a directory.\<close>

definition os_ReadDir :: "lenv \<Rightarrow> fsys \<Rightarrow> string \<Rightarrow> string list option" where
  "os_ReadDir env fs dir =
     (if \<not> is_dir fs (segs dir) \<or> \<not> le_read env then None
      else Some (sort (remdups (map last (filter (\<lambda>l. l \<noteq> [] \<and> parent l = segs dir \<and> fs l \<noteq> None) (le_paths env))))))"

definition scanDirectory :: "lenv \<Rightarrow> fsys \<Rightarrow> string \<Rightarrow> string \<Rightarrow> (string \<rightharpoonup> string list) \<Rightarrow> file_node list option" where
  "scanDirectory env fs targetDir storageRoot favMap =
     map_option
       (\<lambda>entries. sort_key fn_name
          (List.map_filter
             (\<lambda>name. buildFileNode env fs name targetDir
                (case favMap (rel_or_empty storageRoot (Join [targetDir, name])) of None \<Rightarrow> [] | Some cs \<Rightarrow> cs)) entries))
       (os_ReadDir env fs targetDir)"

definition buildTrashNode :: "lenv \<Rightarrow> recycle_item \<Rightarrow> string \<Rightarrow> trash_node" where
  "buildTrashNode env item storageRoot =
     (let mimeType = octet_stream (le_mime env (Ext (rb_name item))) in
      \<lparr>tn_id = rb_id item, tn_storage = rb_storage item, tn_name = rb_name item, tn_dir = rb_dir item,
       tn_parent = encodeFilePath (Dir (Join [storageRoot, rb_path item])), tn_orig = rb_orig item, tn_path = rb_path item,
       tn_deleted = rfc3339 (rb_deleted item),
       tn_expires = (case rb_expires item of None \<Rightarrow> [] | Some t \<Rightarrow> rfc3339 t), tn_size = rb_size item,
       tn_ext = Ext (rb_name item), tn_hidden = has_prefix ''.'' (rb_name item), tn_mime = mimeType,
       tn_media = detectMediaType (rb_name item) mimeType, tn_colors = []\<rparr>)"

section \<open>Tagged files and trash\<close>

text \<open>The node of a favorite in its storage; none when its file is not there.\<close>

definition favorite_node :: "lenv \<Rightarrow> fsys \<Rightarrow> storage \<Rightarrow> favorite \<Rightarrow> file_node option" where
  "favorite_node env fs st fav =
     (let fullPath = Join [st_mount st, fv_path fav]; mimeType = le_mime env (Ext (fv_name fav)) in
      case os_stat (oenv.truncate env) fs fullPath of
        Inl _ \<Rightarrow> None
      | Inr n \<Rightarrow>
          Some \<lparr>fn_id = fv_id fav, fn_name = fv_name fav, fn_dir = (n = DirN), fn_parent = encodeFilePath (Dir fullPath),
             fn_updated = rfc3339 (le_mtime env (segs fullPath)), fn_size = node_size (oenv.truncate env) n,
             fn_ext = Ext (fv_name fav), fn_hidden = False, fn_mime = mimeType,
             fn_media = detectMediaType (fv_name fav) mimeType, fn_colors = fv_colors fav\<rparr>)"

definition tag_node :: "lenv \<Rightarrow> fworld \<Rightarrow> favorite \<Rightarrow> file_node option" where
  "tag_node env w fav =
     (case storage_Get (o_up env FStorage) (fv_storage fav) (f_storages w) of
        Inl _ \<Rightarrow> None
      | Inr st \<Rightarrow> favorite_node env (f_fs w) st fav)"

definition HandleGlobalTagList :: "lenv \<Rightarrow> fworld \<Rightarrow> file_node list resp" where
  "HandleGlobalTagList env w =
     (case ListFavorites (oenv.truncate env) w of
        Inl _ \<Rightarrow> Fail 500 ''GLOBAL_TAG_LIST_FAILED''
      | Inr favs \<Rightarrow> Reply 200 (List.map_filter (tag_node env w) favs))"

definition HandleGlobalTrashList :: "lenv \<Rightarrow> fworld \<Rightarrow> trash_node list resp" where
  "HandleGlobalTrashList env w =
     (case ListAllRecycleBinItems (oenv.truncate env) w of
        Inl _ \<Rightarrow> Fail 500 ''GLOBAL_TRASH_LIST_FAILED''
      | Inr items \<Rightarrow>
          Reply 200 (List.map_filter
            (\<lambda>item. case storage_Get (o_up env FStorage) (rb_storage item) (f_storages w) of
               Inl _ \<Rightarrow> None
             | Inr st \<Rightarrow> Some (buildTrashNode env item (st_mount st))) items))"

section \<open>The listing (list.go)\<close>

datatype listing =
    Listed "file_node list" "crumb list"
  | TrashListed "trash_node list" "crumb list"

definition files_HandleList :: "lenv \<Rightarrow> string \<Rightarrow> (string \<Rightarrow> string) \<Rightarrow> fworld \<Rightarrow> listing resp option" where
  "files_HandleList env storageID arg w =
     (case storage_Get (o_up env FStorage) storageID (f_storages w) of
        Inl _ \<Rightarrow> Some (Fail 404 ''STORAGE_NOT_FOUND'')
      | Inr st \<Rightarrow>
          (let root = st_mount st; (limit, offset) = parsePagination (arg ''limit'') (arg ''offset'');
               favMap = getFavoriteMap (oenv.truncate env) w in
           if arg ''type'' = ''trash'' then
             (case ListRecycleBinItemsByStorage (oenv.truncate env) storageID w of
                Inl _ \<Rightarrow> Some (Fail 500 ''TRASH_LIST_FAILED'')
              | Inr items \<Rightarrow>
                  map_option
                    (\<lambda>page. Reply 200 (TrashListed page [\<lparr>bc_id = encodeFilePath (Join [root, ''.trash'']), bc_name = ''Trash''\<rparr>]))
                    (paginate (map (\<lambda>item. buildTrashNode env item root) items) limit offset))
           else if arg ''type'' = ''tag'' then
             (case ListFavorites (oenv.truncate env) w of
                Inl _ \<Rightarrow> Some (Fail 500 ''TAG_LIST_FAILED'')
              | Inr favs \<Rightarrow>
                  map_option (\<lambda>page. Reply 200 (Listed page (buildBreadcrumbs root root)))
                    (paginate (List.map_filter (tag_node env w) (filter (\<lambda>f. fv_storage f = storageID) favs)) limit offset))
           else
             (let targetPath = (if arg ''parentId'' \<noteq> []
                                then (case decodeFileID (arg ''parentId'') of None \<Rightarrow> root | Some p \<Rightarrow> p) else root) in
              case scanDirectory env (f_fs w) targetPath root favMap of
                None \<Rightarrow> Some (Fail 500 ''SCAN_DIRECTORY_FAILED'')
              | Some nodes \<Rightarrow>
                  map_option (\<lambda>page. Reply 200 (Listed page (buildBreadcrumbs targetPath root)))
                    (paginate nodes limit offset))))"

end
