(* ===== verification/Files_Content.thy ===== *)
theory Files_Content
  imports Files_List
begin

text \<open>
  The bytes of a file and its thumbnail: internal/files/content.go and the cache of
  pkg/thumbnail/thumbnail.go.  The MD5 sum and the programs that draw a picture (an image library,
  \<open>ffmpeg\<close>) are parameters; drawing may leave anything in the file system.  A request has no
  conditional and no range header; the limit on concurrent drawings is left out.
\<close>

record cenv = oenv +
  ce_open :: "loc \<Rightarrow> bool"
  ce_md5 :: "string \<Rightarrow> string"
  ce_image :: "string \<Rightarrow> string \<Rightarrow> fsys \<Rightarrow> bool \<times> fsys"
  ce_video :: "string \<Rightarrow> string \<Rightarrow> fsys \<Rightarrow> bool \<times> fsys"

section \<open>Serving a file\<close>

datatype served = Content string | Redirected | Refused nat

text \<open>
  \<open>http.ServeFile\<close> for a request path that does not end in a slash: the directory and the name of
  the path are taken apart and joined again, a directory is answered by a redirection.
\<close>

definition served_path :: "string \<Rightarrow> string" where
  "served_path p =
     (let d = rev (dropWhile (\<lambda>c. c \<noteq> slash) (rev p)); f = after_slash p in
      Join [if d = [] then ''.'' else d, Clean (slash # f)])"

definition ServeFile :: "cenv \<Rightarrow> fsys \<Rightarrow> string \<Rightarrow> served" where
  "ServeFile env fs p =
     (let l = segs (served_path p) in
      if \<not> ce_open env l then Refused 403
      else if l = [] then Redirected
      else (case fs l of
              None \<Rightarrow> Refused 404
            | Some DirN \<Rightarrow> Redirected
            | Some (FileN c) \<Rightarrow> Content c))"

definition HandleContent :: "cenv \<Rightarrow> string \<Rightarrow> fworld \<Rightarrow> served resp" where
  "HandleContent env fileID w =
     (case decodeFileID fileID of
        None \<Rightarrow> Fail 400 ''INVALID_FILE_ID''
      | Some p \<Rightarrow> Reply 200 (ServeFile env (f_fs w) p))"

section \<open>Thumbnails\<close>

definition DefaultCacheDir :: string where "DefaultCacheDir = ''./data/thumbnails''"

definition imgExtensions :: "string list" where
  "imgExtensions = [''.jpg'', ''.jpeg'', ''.png'', ''.gif'', ''.bmp'', ''.webp'']"

definition videoExtensions :: "string list" where
  "videoExtensions = [''.mp4'', ''.mov'', ''.avi'', ''.mkv'', ''.webm'', ''.flv'']"

definition GetCachePath :: "cenv \<Rightarrow> string \<Rightarrow> string \<Rightarrow> string" where
  "GetCachePath env filePath cacheDir = Join [cacheDir, ce_md5 env filePath @ ''.jpg'']"

definition GetOrCreateThumbnail :: "cenv \<Rightarrow> string \<Rightarrow> string \<Rightarrow> fsys \<Rightarrow> string option \<times> fsys" where
  "GetOrCreateThumbnail env filePath cacheDir fs =
     (let finalCacheDir = (if cacheDir = [] then DefaultCacheDir else cacheDir);
          ext = to_lower (Ext filePath); isImg = (ext \<in> set imgExtensions); isVideo = (ext \<in> set videoExtensions);
          cachePath = GetCachePath env filePath finalCacheDir in
      if \<not> isImg \<and> \<not> isVideo then (None, fs)
      else if \<not> isl (os_stat (oenv.truncate env) fs cachePath) then (Some cachePath, fs)
      else (case os_MkdirAll (oenv.truncate env) finalCacheDir fs of
              (False, fs1) \<Rightarrow> (None, fs1)
            | (True, fs1) \<Rightarrow>
                (case (if isVideo then ce_video env filePath cachePath fs1 else ce_image env filePath cachePath fs1) of
                   (ok, fs2) \<Rightarrow> (if ok then Some cachePath else None, fs2))))"

definition HandleThumbnail :: "cenv \<Rightarrow> string \<Rightarrow> fworld \<Rightarrow> served resp \<times> fworld" where
  "HandleThumbnail env fileID w =
     (case decodeFileID fileID of
        None \<Rightarrow> (Fail 400 ''INVALID_FILE_ID'', w)
      | Some p \<Rightarrow>
          (case GetOrCreateThumbnail env p [] (f_fs w) of
             (None, fs) \<Rightarrow> (Reply 404 (Refused 404), set_fs fs w)
           | (Some cachePath, fs) \<Rightarrow> (Reply 200 (ServeFile env fs cachePath), set_fs fs w)))"

end
