(* ===== verification/Files_List_Props.thy ===== *)
theory Files_List_Props
  imports Files_Trash Files_Content
begin

text \<open>The properties of the listings, of the bytes of a file and of thumbnails.\<close>

declare Join.simps [simp del]

section \<open>Pages\<close>

lemma int64_bounds: "- (2 ^ 63) \<le> int64 i \<and> int64 i < 2 ^ 63"
  using sint_greater_eq [of "word_of_int i :: 64 word"] sint_less [of "word_of_int i :: 64 word"] by (simp add: int64_def)

lemma int64_carry: "2 ^ 63 \<le> i \<Longrightarrow> i < 2 ^ 64 \<Longrightarrow> int64 i = i - 2 ^ 64"
proof -
  assume i: "2 ^ 63 \<le> i" "i < 2 ^ 64"
  have "word_of_int (i - 2 ^ 64) = (word_of_int i - word_of_int (2 ^ 64) :: 64 word)" by (simp only: of_int_diff)
  also have "word_of_int (2 ^ 64) = (0 :: 64 word)" by simp
  finally have "word_of_int i = (word_of_int (i - 2 ^ 64) :: 64 word)" by simp
  then have "int64 i = int64 (i - 2 ^ 64)" unfolding int64_def by (rule arg_cong)
  also have "\<dots> = i - 2 ^ 64" using i by (intro int64_id) simp_all
  finally show ?thesis .
qed

lemma scan_int_bounds: "scan_int raw = Some v \<Longrightarrow> - (2 ^ 63) \<le> v \<and> v < 2 ^ 63"
proof -
  assume "scan_int raw = Some v"
  then have "int64 v = v" by (auto simp: scan_int_def Let_def split: if_splits)
  then show ?thesis using int64_bounds [of v] by simp
qed

lemma page_bounds:
  assumes "parsePagination l s = (limit, offset)"
  shows "0 < limit \<and> limit < 2 ^ 63 \<and> 0 \<le> offset \<and> offset < 2 ^ 63"
  using assms scan_int_bounds [of l] scan_int_bounds [of s]
  by (auto simp: parsePagination_def split: option.splits if_splits)

lemma paginate_page:
  assumes "0 < limit" "0 \<le> offset" "limit + offset < 2 ^ 63"
  shows "paginate items limit offset = Some (take (nat limit) (drop (nat offset) items))"
proof -
  have i: "int64 (offset + limit) = offset + limit" using assms by (intro int64_id) simp_all
  have "take (length items - nat offset) (drop (nat offset) items) = drop (nat offset) items" by simp
  moreover have "take (nat limit) (drop (nat offset) items) = drop (nat offset) items" if "int (length items) < offset + limit"
    using that assms(1,2) by (intro take_all) simp
  moreover have "nat (int (length items) - offset) = length items - nat offset" using assms(2) by linarith
  ultimately show ?thesis using assms by (simp add: paginate_def i Let_def)
qed

text \<open>
  Pages of a listing, for any text of the parameters limit and offset: the page is the next limit
  items from the offset on, except that the request panics when the offset is inside the list and the
  sum of both is beyond 64 bits, as for the largest limit with offset 1.
\<close>

theorem page_of_listing:
  assumes "int (length items) < 2 ^ 63"
  shows "case parsePagination l s of (limit, offset) \<Rightarrow>
    paginate items limit offset =
      (if offset < int (length items) \<and> 2 ^ 63 \<le> limit + offset then None
       else Some (take (nat limit) (drop (nat offset) items)))"
proof -
  obtain limit offset where p: "parsePagination l s = (limit, offset)" by (cases "parsePagination l s")
  note b = page_bounds [OF p]
  have "paginate items limit offset =
      (if offset < int (length items) \<and> 2 ^ 63 \<le> limit + offset then None
       else Some (take (nat limit) (drop (nat offset) items)))"
  proof (cases "2 ^ 63 \<le> limit + offset")
    case True
    then have "int64 (offset + limit) < 0" using b int64_carry [of "offset + limit"] by simp
    then show ?thesis using True b by (auto simp: paginate_def Let_def)
  next
    case False
    then show ?thesis using paginate_page [of limit offset items] b by simp
  qed
  then show ?thesis by (simp add: p)
qed

section \<open>Breadcrumbs\<close>

lemma encode_segs: "rooted p \<Longrightarrow> encodeFilePath p = encodeFilePath (render (True, segs p))"
  by (metis Clean_def Clean_idem encodeFilePath_def segs_rooted)

lemma crumbs_below:
  assumes "rooted current" "\<forall>s\<in>set parts. plain_seg s"
  shows "map bc_name (crumbs_from current parts) = parts \<and>
    map bc_id (crumbs_from current parts) =
      map (\<lambda>n. encodeFilePath (render (True, take n (segs current @ parts)))) [Suc (length (segs current))..<Suc (length (segs current @ parts))]"
  using assms
proof (induction parts arbitrary: current)
  case (Cons part parts)
  have part: "plain_seg part" and rest: "\<forall>s\<in>set parts. plain_seg s" using Cons.prems by simp_all
  let ?c = "Join [current, part]"
  have c: "rooted ?c" "segs ?c = segs current @ [part]"
    using Join_rooted(1) [OF Cons.prems(1)] segs_Join_plain [OF Cons.prems(1) part] by simp_all
  have up: "[Suc (length (segs current))..<Suc (length (segs current @ part # parts))] =
      Suc (length (segs current)) # [Suc (length (segs ?c))..<Suc (length (segs ?c @ parts))]"
    by (subst upt_conv_Cons) (simp_all add: c(2) del: upt_Suc)
  have "encodeFilePath ?c = encodeFilePath (render (True, take (Suc (length (segs current))) (segs current @ part # parts)))"
    using encode_segs [OF c(1)] by (simp add: c(2))
  moreover have "crumbs_from current (part # parts) = \<lparr>bc_id = encodeFilePath ?c, bc_name = part\<rparr> # crumbs_from ?c parts"
    using part by (simp add: plain_seg_def Let_def)
  moreover have "segs ?c @ parts = segs current @ part # parts" by (simp add: c(2))
  ultimately show ?case using Cons.IH [OF c(1) rest]
    unfolding up by (simp del: upt_Suc crumbs_from.simps)
qed simp

text \<open>
  C2: Breadcrumbs lead from the root of the storage to the folder: for a folder in it they are the
  storage and then every folder on the way, each under its own name and with the id of its path.
\<close>

theorem breadcrumbs_lead_down:
  assumes "rooted root" "isPathWithinRoot root p"
  shows "map bc_id (buildBreadcrumbs p root) =
      map (\<lambda>n. encodeFilePath (render (True, take n (segs p)))) [length (segs root)..<Suc (length (segs p))] \<and>
    map bc_name (buildBreadcrumbs p root) = ''Root'' # drop (length (segs root)) (segs p)"
proof -
  have p: "rooted p" "prefix (segs root) (segs p)" using within_iff [OF assms(1)] assms(2) by simp_all
  obtain rest where rest: "segs p = segs root @ rest" using p(2) by (auto simp: prefix_def)
  have pl: "\<forall>s\<in>set rest. plain_seg s" using segs_plain [OF p(1)] rest by simp
  have "\<forall>s\<in>set rest. slash \<notin> set s" using pl by (simp add: plain_seg_def)
  then have sp: "rest \<noteq> [] \<Longrightarrow> split_on slash (join_with [slash] rest) = rest" using split_join [of rest slash] by simp
  have hp: "has_prefix (Clean root) (Clean p)"
  proof -
    have "join_with [slash] (xs @ ys) = join_with [slash] xs @ (if xs \<noteq> [] \<and> ys \<noteq> [] then [slash] else []) @ join_with [slash] ys" for xs ys
      by (induction "[slash]" xs rule: join_with.induct) (cases ys; auto)+
    then show ?thesis using assms(1) p(1) rest by (simp add: Clean_def render_def norm_segs has_prefix_iff)
  qed
  have rel: "rel_or_empty (Clean root) (Clean p) = (if rest = [] then ''.'' else join_with [slash] rest)"
  proof (cases "rest = []")
    case True
    then have "Clean root = Clean p" using segs_eq_Clean [OF assms(1) p(1)] rest by simp
    then show ?thesis using True by (simp add: rel_or_empty_def Rel_def)
  next
    case False
    then show ?thesis using Rel_below [of "Clean root" "Clean p" rest] assms(1) p(1) rest by (simp add: rel_or_empty_def)
  qed
  have dot: "split_on slash ''.'' = [''.'']" by (rule split_on_notin [OF slash_dot])
  have "crumbs_from (Clean root) (split_on slash (rel_or_empty (Clean root) (Clean p))) = crumbs_from (Clean root) rest"
    using sp by (cases "rest = []") (simp_all add: rel dot)
  then have b: "buildBreadcrumbs p root =
      \<lparr>bc_id = encodeFilePath (Clean root), bc_name = ''Root''\<rparr> # crumbs_from (Clean root) rest"
    using hp by (simp add: buildBreadcrumbs_def Let_def)
  have up: "[length (segs root)..<Suc (length (segs p))] = length (segs root) # [Suc (length (segs root))..<Suc (length (segs root @ rest))]"
    by (subst upt_conv_Cons) (simp_all add: rest del: upt_Suc)
  have "encodeFilePath (Clean root) = encodeFilePath (render (True, segs root))"
    using encode_segs [OF assms(1)] by (simp add: encodeFilePath_def)
  then show ?thesis using crumbs_below [of "Clean root" rest] assms(1) pl
    unfolding b up by (simp add: rest del: upt_Suc)
qed

section \<open>The listing of a folder\<close>

definition usable :: "lenv \<Rightarrow> fsys \<Rightarrow> bool" where
  \<comment> \<open>The environment knows the locations in use, names have no slash, and reading works.\<close>
  "usable env fs \<longleftrightarrow> dom fs \<subseteq> set (le_paths env) \<and> (\<forall>l\<in>dom fs. \<forall>s\<in>set l. plain_seg s) \<and> le_read env \<and> (\<forall>l. le_info env l)"

lemma ReadDir_names:
  assumes "usable env fs" "is_dir fs (segs dir)"
  obtains names where "os_ReadDir env fs dir = Some names" "sorted names" "distinct names"
    "set names = {n. fs (segs dir @ [n]) \<noteq> None}"
proof -
  let ?ls = "filter (\<lambda>l. l \<noteq> [] \<and> parent l = segs dir \<and> fs l \<noteq> None) (le_paths env)"
  have "n \<in> last ` set ?ls \<longleftrightarrow> fs (segs dir @ [n]) \<noteq> None" for n
  proof
    assume "n \<in> last ` set ?ls"
    then obtain l where "l \<in> set ?ls" and n: "n = last l" by blast
    then have l: "l \<noteq> []" "butlast l = segs dir" "fs l \<noteq> None" by (simp_all add: parent_def)
    then have "l = segs dir @ [n]" using append_butlast_last_id [of l] by (simp add: n)
    then show "fs (segs dir @ [n]) \<noteq> None" using l(3) by simp
  next
    assume n: "fs (segs dir @ [n]) \<noteq> None"
    then have "segs dir @ [n] \<in> set (le_paths env)" using assms(1) unfolding usable_def by blast
    then have "segs dir @ [n] \<in> set ?ls" using n by (simp add: parent_def)
    then have "last (segs dir @ [n]) \<in> last ` set ?ls" by (rule imageI)
    then show "n \<in> last ` set ?ls" by simp
  qed
  then have set: "set (sort (remdups (map last ?ls))) = {n. fs (segs dir @ [n]) \<noteq> None}" by (simp only: set_sort set_remdups set_map) blast
  have "os_ReadDir env fs dir = Some (sort (remdups (map last ?ls)))" using assms by (simp add: os_ReadDir_def usable_def)
  then show ?thesis by (rule that [OF _ _ _ set]) simp_all
qed

lemma buildFileNode_fields:
  assumes "usable env fs" "rooted dir" "fs (segs dir @ [name]) \<noteq> None"
  shows "\<exists>n. buildFileNode env fs name dir colors = Some n \<and> fn_name n = name \<and> fn_id n = encodeFilePath (Join [dir, name]) \<and>
    (fn_dir n \<longleftrightarrow> fs (segs dir @ [name]) = Some DirN)"
proof -
  have "plain_seg name" using assms(1,3) by (force simp: usable_def)
  then have "segs (Join [dir, name]) = segs dir @ [name]" by (rule segs_Join_plain [OF assms(2)])
  then show ?thesis using assms(1,3) by (auto simp: buildFileNode_def Let_def usable_def)
qed

lemma scanDirectory_nodes:
  assumes "usable env fs" "rooted dir" "is_dir fs (segs dir)"
  shows "\<exists>nodes. scanDirectory env fs dir root favs = Some nodes \<and> sorted (map fn_name nodes) \<and> distinct (map fn_name nodes) \<and>
    fn_name ` set nodes = {n. fs (segs dir @ [n]) \<noteq> None} \<and>
    (\<forall>n\<in>set nodes. fn_id n = encodeFilePath (Join [dir, fn_name n]) \<and> (fn_dir n \<longleftrightarrow> fs (segs dir @ [fn_name n]) = Some DirN))"
proof -
  obtain names where names: "os_ReadDir env fs dir = Some names" "sorted names" "distinct names"
    "set names = {n. fs (segs dir @ [n]) \<noteq> None}" using ReadDir_names [OF assms(1,3)] .
  define build where "build name = buildFileNode env fs name dir
    (case favs (rel_or_empty root (Join [dir, name])) of None \<Rightarrow> [] | Some cs \<Rightarrow> cs)" for name
  have b: "\<exists>n. build name = Some n \<and> fn_name n = name \<and> fn_id n = encodeFilePath (Join [dir, name]) \<and>
      (fn_dir n \<longleftrightarrow> fs (segs dir @ [name]) = Some DirN)" if "name \<in> set names" for name
    using buildFileNode_fields [OF assms(1,2)] that names(4) by (simp add: build_def)
  have mf: "List.map_filter build xs = map (the \<circ> build) xs" if "set xs \<subseteq> set names" for xs
    using that
  proof (induction xs)
    case (Cons x xs)
    then show ?case using b [of x] by (auto simp: List.map_filter_simps)
  qed (simp add: List.map_filter_simps)
  have nm: "map fn_name (map (the \<circ> build) names) = names"
    unfolding map_map comp_def by (rule map_idI) (use b in force)
  have srt: "sort_key fn_name (map (the \<circ> build) names) = map (the \<circ> build) names"
    using names(2) nm by (intro sort_key_id_if_sorted) simp
  have "scanDirectory env fs dir root favs = Some (map (the \<circ> build) names)"
    using mf [of names] srt by (simp add: scanDirectory_def names(1) build_def [abs_def] fun_eq_iff)
  moreover have "\<forall>n\<in>set (map (the \<circ> build) names). fn_id n = encodeFilePath (Join [dir, fn_name n]) \<and>
      (fn_dir n \<longleftrightarrow> fs (segs dir @ [fn_name n]) = Some DirN)" using b by force
  moreover have "fn_name ` set (map (the \<circ> build) names) = set names" using nm by (metis list.set_map)
  ultimately show ?thesis using names nm by (intro exI [of _ "map (the \<circ> build) names"]) (simp only: simp_thms)
qed

text \<open>
  C22: A folder is listed completely, in order and page by page: there is one list of nodes, sorted by
  name and without repetition, with exactly the names in the directory, the kind of each and an id that
  leads to it, and every request for a page of the folder (no type filter, limit and offset together
  below 2^63; from there on the server panics) gets that part of it.  It is assumed that the directory
  and the information of its entries can be read and that names are plain names without a slash.  The
  folder need not be in the storage of the request: the id may be of any directory of the machine.
\<close>

theorem folder_listed:
  assumes "storage_Get (o_up env FStorage) sid (f_storages w) = Inr st" "usable env (f_fs w)" "rooted dir"
    "is_dir (f_fs w) (segs dir)"
  shows "\<exists>nodes. sorted (map fn_name nodes) \<and> distinct (map fn_name nodes) \<and>
    fn_name ` set nodes = {n. f_fs w (segs dir @ [n]) \<noteq> None} \<and>
    (\<forall>n\<in>set nodes. decodeFileID (fn_id n) = Some (Join [dir, fn_name n]) \<and>
       (fn_dir n \<longleftrightarrow> f_fs w (segs dir @ [fn_name n]) = Some DirN)) \<and>
    (\<forall>arg limit offset. arg ''type'' = [] \<and> arg ''parentId'' = encodeFilePath dir \<and>
       parsePagination (arg ''limit'') (arg ''offset'') = (limit, offset) \<and> limit + offset < 2 ^ 63 \<longrightarrow>
       files_HandleList env sid arg w =
         Some (Reply 200 (Listed (take (nat limit) (drop (nat offset) nodes)) (buildBreadcrumbs dir (st_mount st)))))"
proof -
  have id: "decodeFileID (encodeFilePath p) = Some (Clean p)" for p
    using b64_dec_enc [OF alphabets_ok(2)] by (simp add: decodeFileID_def encodeFilePath_def)
  have enc: "encodeFilePath dir \<noteq> []"
  proof
    assume "encodeFilePath dir = []"
    then have "b64_dec url_alphabet True [] = Some (Clean dir)"
      using b64_dec_enc [OF alphabets_ok(2), of True "Clean dir"] unfolding encodeFilePath_def by (rule subst)
    moreover have "b64_dec url_alphabet True [] = Some []" by code_simp
    ultimately have "Clean dir = []" by simp
    then show False using assms(3) rooted_Clean [of dir] by (simp add: rooted_def)
  qed
  have cd: "rooted (Clean dir)" "is_dir (f_fs w) (segs (Clean dir))" using assms(3,4) by simp_all
  obtain nodes where nodes: "scanDirectory env (f_fs w) (Clean dir) (st_mount st) (getFavoriteMap (oenv.truncate env) w) = Some nodes"
    "sorted (map fn_name nodes)" "distinct (map fn_name nodes)" "fn_name ` set nodes = {n. f_fs w (segs dir @ [n]) \<noteq> None}"
    "\<forall>n\<in>set nodes. fn_id n = encodeFilePath (Join [Clean dir, fn_name n]) \<and> (fn_dir n \<longleftrightarrow> f_fs w (segs dir @ [fn_name n]) = Some DirN)"
    using scanDirectory_nodes [OF assms(2) cd, of "st_mount st" "getFavoriteMap (oenv.truncate env) w"] unfolding segs_Clean by blast
  have same: "Join [Clean dir, x] = Join [dir, x]" for x
    using Join_rooted [OF assms(3), of x] Join_rooted [OF cd(1), of x] by (metis segs_Clean segs_eq_Clean)
  have ids: "\<forall>n\<in>set nodes. decodeFileID (fn_id n) = Some (Join [dir, fn_name n]) \<and>
       (fn_dir n \<longleftrightarrow> f_fs w (segs dir @ [fn_name n]) = Some DirN)"
    using nodes(5) Join_rooted(3) [OF assms(3)] by (simp add: id same)
  have crumbs: "buildBreadcrumbs (Clean dir) r = buildBreadcrumbs dir r" for r by (simp add: buildBreadcrumbs_def)
  have "files_HandleList env sid arg w =
         Some (Reply 200 (Listed (take (nat limit) (drop (nat offset) nodes)) (buildBreadcrumbs dir (st_mount st))))"
    if a: "arg ''type'' = []" "arg ''parentId'' = encodeFilePath dir"
      "parsePagination (arg ''limit'') (arg ''offset'') = (limit, offset)" "limit + offset < 2 ^ 63" for arg limit offset
    using page_bounds [OF a(3)] paginate_page [of limit offset nodes] a(4) enc
    by (simp add: files_HandleList_def assms(1) a(1,2,3) id nodes(1) crumbs Let_def)
  then show ?thesis using nodes(2-4) ids by blast
qed

section \<open>Bytes\<close>

text \<open>A clean absolute path is served as it is.\<close>

lemma served_path_segs:
  assumes "rooted p" "Clean p = p" "segs p \<noteq> []"
  shows "segs (served_path p) = segs p"
proof -
  obtain ss b where ss: "segs p = ss @ [b]" using assms(3) by (metis rev_exhaust)
  have b: "plain_seg b" using segs_plain [OF assms(1)] ss by simp
  have Base: "Base p = b" "segs (Dir p) = ss" "rooted (Dir p)" using segs_Dir [OF assms] ss by simp_all
  define d where "d = rev (dropWhile (\<lambda>c. c \<noteq> slash) (rev p))"
  have D: "Dir p = Clean d" by (simp add: Dir_def d_def)
  have d: "rooted d" "segs d = ss" using Base(2,3) unfolding D by simp_all
  have dn: "d \<noteq> []" using d(1) by (rule rooted_nonempty)
  have pj: "p = slash # join_with [slash] (segs p)" using assms(1,2) by (simp add: Clean_def render_def norm_segs)
  have f: "after_slash p = b"
  proof -
    have "\<exists>a. p = a @ slash # b"
    proof (cases "ss = []")
      case False
      have "join_with [slash] (ss @ [b]) = join_with [slash] ss @ slash # b"
        using False by (induction "[slash]" ss rule: join_with.induct) auto
      then show ?thesis using pj ss by (metis append_Cons)
    qed (use pj ss in simp)
    then obtain a where a: "p = a @ slash # b" ..
    have "slash \<notin> set b" using b by (simp add: plain_seg_def)
    then have "takeWhile (\<lambda>c. c \<noteq> slash) (rev b @ slash # rev a) = rev b" by (subst takeWhile_append2) auto
    then show ?thesis by (simp add: after_slash_def a)
  qed
  have cb: "Clean (slash # b) = slash # b"
  proof -
    have "norm (render (True, [b])) = (True, [b])" by (rule norm_render) (use b in \<open>auto simp: canon_def intro: exI [of _ 0]\<close>)
    then show ?thesis by (simp add: Clean_def render_def)
  qed
  have "segs (Join [d, slash # b]) = segs d @ [b]"
  proof -
    have "split_on slash (slash # b) = [[], b]" using plain_split [OF b] by simp
    then show ?thesis using Join_rooted(2) [OF d(1), of "slash # b"] b by (simp add: plain_seg_def)
  qed
  then show ?thesis by (simp add: served_path_def d_def [symmetric] f cb dn d(2) ss)
qed

text \<open>
  C4: Any file of the machine is served: for the id of any clean absolute path of a file the process can
  open, in a storage or not, the handler replies with its bytes.
\<close>

theorem content_of_any_file:
  assumes "rooted p" "Clean p = p" "f_fs w (segs p) = Some (FileN c)" "segs p \<noteq> []" "ce_open env (segs p)"
  shows "HandleContent env (encodeFilePath p) w = Reply 200 (Content c)"
proof -
  have "decodeFileID (encodeFilePath p) = Some p"
    using b64_dec_enc [OF alphabets_ok(2)] assms(2) by (simp add: decodeFileID_def encodeFilePath_def)
  then show ?thesis using served_path_segs [OF assms(1,2,4)] assms(3-5) by (simp add: HandleContent_def ServeFile_def)
qed

section \<open>Thumbnails\<close>

lemma jpg_plain: "slash \<notin> set h \<Longrightarrow> plain_seg (h @ ''.jpg'')"
  by (cases h) (auto simp: plain_seg_def slash_def dotdot_def append_eq_Cons_conv)

lemma cache_location:
  assumes "slash \<notin> set (ce_md5 env p)"
  shows "segs (served_path (GetCachePath env p DefaultCacheDir)) = segs (GetCachePath env p DefaultCacheDir)"
proof -
  define b where "b = ce_md5 env p @ ''.jpg''"
  have b: "plain_seg b" using jpg_plain [OF assms] by (simp add: b_def)
  then have nb: "slash \<notin> set b" "b \<noteq> []" "b \<noteq> ''.''" "b \<noteq> dotdot" by (simp_all add: plain_seg_def)
  have dir: "split_on slash DefaultCacheDir = [''.'', ''data'', ''thumbnails'']" "split_on slash ''data/thumbnails/'' = [''data'', ''thumbnails'', []]"
    "\<not> rooted DefaultCacheDir" "DefaultCacheDir \<noteq> []" by code_simp+
  have ra: "a \<noteq> [] \<Longrightarrow> rooted (a @ r) = rooted a" for a r by (cases a) (simp_all add: rooted_def)
  have seg: "plain_seg ''data''" "plain_seg ''thumbnails''" by code_simp+
  have n: "norm (DefaultCacheDir @ slash # b) = (False, [''data'', ''thumbnails'', b])"
    using nb seg ra [OF dir(4)] dir(3) by (simp add: norm_def split_on_app_sep dir(1) plain_split [OF b] plain_seg_def)
  have cp: "GetCachePath env p DefaultCacheDir = ''data/thumbnails/'' @ b"
  proof -
    have "GetCachePath env p DefaultCacheDir = render (norm (DefaultCacheDir @ slash # b))"
      using dir(4) nb(2) by (simp add: GetCachePath_def b_def [symmetric] Join.simps Clean_def)
    also have "\<dots> = ''data'' @ slash # ''thumbnails'' @ slash # b" unfolding n by (simp add: render_def)
    finally show ?thesis by (simp add: slash_def)
  qed
  have tw: "takeWhile (\<lambda>c. c \<noteq> slash) (rev b @ rev ''data/thumbnails/'') = rev b"
    "dropWhile (\<lambda>c. c \<noteq> slash) (rev b @ rev ''data/thumbnails/'') = rev ''data/thumbnails/''"
    using nb(1) by (subst takeWhile_append2 dropWhile_append2; auto simp: slash_def)+
  have cb: "Clean (slash # b) = slash # b"
  proof -
    have "norm (render (True, [b])) = (True, [b])" by (rule norm_render) (use b in \<open>auto simp: canon_def intro: exI [of _ 0]\<close>)
    then show ?thesis by (simp add: Clean_def render_def)
  qed
  have "served_path (''data/thumbnails/'' @ b) = Join [''data/thumbnails/'', slash # b]"
    using tw by (simp only: served_path_def rev_append after_slash_def Let_def cb rev_rev_ident) (simp add: cb)
  also have "\<dots> = Clean (''data/thumbnails/'' @ slash # slash # b)" by (simp add: Join.simps)
  finally have "segs (served_path (''data/thumbnails/'' @ b)) = snd (norm (''data/thumbnails/'' @ slash # slash # b))"
    by (simp add: segs_def)
  also have "\<dots> = [''data'', ''thumbnails'', b]"
  proof -
    have "split_on slash (slash # b) = [[], b]" using plain_split [OF b] by simp
    then have "split_on slash (''data/thumbnails/'' @ slash # slash # b) = [''data'', ''thumbnails'', [], [], b]"
      by (simp only: split_on_app_sep dir(2)) simp
    then show ?thesis using nb seg by (simp add: norm_def rooted_def slash_def [symmetric] plain_seg_def)
  qed
  also have "\<dots> = segs (''data/thumbnails/'' @ b)"
    using n cp norm_Clean [of "DefaultCacheDir @ slash # b"] dir(4) nb
    by (simp add: segs_def GetCachePath_def b_def [symmetric] Join.simps)
  finally show ?thesis by (simp only: cp)
qed

text \<open>
  A thumbnail is drawn once: after a request for a picture got its thumbnail, every later request
  gets the same bytes and changes nothing, whatever the picture has become in the meantime.
\<close>

theorem thumbnail_never_refreshed:
  assumes "HandleThumbnail env fid w = (Reply 200 (Content t), w1)" "decodeFileID fid = Some p"
    "slash \<notin> set (ce_md5 env p)" "o_ok env (CStat (segs (GetCachePath env p DefaultCacheDir)))"
    "f_fs w2 (segs (GetCachePath env p DefaultCacheDir)) = f_fs w1 (segs (GetCachePath env p DefaultCacheDir))"
  shows "HandleThumbnail env fid w2 = (Reply 200 (Content t), w2)"
proof -
  let ?cp = "GetCachePath env p DefaultCacheDir"
  obtain cp fs where g: "GetOrCreateThumbnail env p [] (f_fs w) = (Some cp, fs)" "ServeFile env fs cp = Content t" "w1 = set_fs fs w"
    using assms(1,2) by (auto simp: HandleThumbnail_def split: prod.splits option.splits)
  have ext: "to_lower (Ext p) \<in> set imgExtensions \<or> to_lower (Ext p) \<in> set videoExtensions" and cp: "cp = ?cp"
    using g(1) by (auto simp: GetOrCreateThumbnail_def Let_def split: if_splits prod.splits bool.splits)
  have opened: "ce_open env (segs ?cp)" "segs ?cp \<noteq> []" "fs (segs ?cp) = Some (FileN t)"
    using g(2) cache_location [OF assms(3)]
    by (auto simp: ServeFile_def cp Let_def split: if_splits option.splits node.splits)
  have fs2: "f_fs w2 (segs ?cp) = Some (FileN t)" using assms(5) opened(3) by (simp add: g(3) set_fs_def)
  have "GetOrCreateThumbnail env p [] (f_fs w2) = (Some ?cp, f_fs w2)"
    using ext fs2 assms(4) by (auto simp: GetOrCreateThumbnail_def Let_def os_stat_def oenv.defs)
  moreover have "ServeFile env (f_fs w2) ?cp = Content t"
    using opened fs2 cache_location [OF assms(3)] by (simp add: ServeFile_def)
  moreover have "set_fs (f_fs w2) w2 = w2" by (simp add: set_fs_def)
  ultimately show ?thesis by (simp add: HandleThumbnail_def assms(2))
qed

end
