(* ===== verification/Files_List_Witnesses.thy ===== *)
theory Files_List_Witnesses
  imports Files_Witnesses Files_List_Props
begin

text \<open>The properties of the listings and of thumbnails on the storage \<open>/m\<close> with a folder \<open>a\<close> that holds \<open>f\<close>.\<close>

declare Join.simps [simp del]

theorem page_of_listing_witness:
  "paginate [''a'', ''b''] (fst (parsePagination ''9223372036854775807'' ''1'')) (snd (parsePagination ''9223372036854775807'' ''1'')) = None \<and>
   paginate [''a'', ''b''] (fst (parsePagination '' 1x'' ''-2'')) (snd (parsePagination '' 1x'' ''-2'')) = Some [''a'']"
proof -
  have p: "parsePagination ''9223372036854775807'' ''1'' = (9223372036854775807, 1)" "parsePagination '' 1x'' ''-2'' = (1, 0)" by code_simp+
  have len: "int (length [''a'', ''b'']) < 2 ^ 63" by simp
  show ?thesis
    using page_of_listing [OF len, of "''9223372036854775807''" "''1''"] page_of_listing [OF len, of "'' 1x''" "''-2''"] by (simp add: p)
qed

theorem breadcrumbs_lead_down_witness:
  "map bc_name (buildBreadcrumbs ''/m/./a/b/../f'' ''/m/'') = [''Root'', ''a'', ''f''] \<and>
   map bc_id (buildBreadcrumbs ''/m/./a/b/../f'' ''/m/'') = map encodeFilePath [''/m'', ''/m/a'', ''/m/a/f'']"
proof -
  have r: "rooted ''/m/''" by code_simp
  have i: "isPathWithinRoot ''/m/'' ''/m/./a/b/../f''" by code_simp
  have s: "segs ''/m/'' = [''m'']" "segs ''/m/./a/b/../f'' = [''m'', ''a'', ''f'']" by code_simp+
  have u: "[Suc 0..<4] = [1, 2, 3]" by (simp add: upt_rec)
  have c: "render (True, [''m'']) = ''/m''" "render (True, [''m'', ''a'']) = ''/m/a''" "render (True, [''m'', ''a'', ''f'']) = ''/m/a/f''" by code_simp+
  show ?thesis using breadcrumbs_lead_down [OF r i] by (simp add: s u c)
qed

definition demo_lenv :: lenv where
  "demo_lenv = oenv.extend demo_oenv
     \<lparr>le_paths = [[''m'', ''a'', ''f''], [''m''], [''m'', ''a'']], le_info = (\<lambda>_. True), le_mtime = (\<lambda>_. 0), le_mime = (\<lambda>_. []),
      le_read = True\<rparr>"

definition first_page :: "string \<Rightarrow> string" where
  "first_page k = (if k = ''parentId'' then encodeFilePath ''/m/a'' else [])"

lemma demo_usable: "usable demo_lenv demo_fs"
proof -
  have "\<forall>s\<in>set [''m'', ''a'', ''f'']. plain_seg s" by code_simp
  then show ?thesis by (auto simp: usable_def demo_lenv_def oenv.defs demo_fs_def demo_oenv_def split: if_splits)
qed

theorem folder_listed_witness:
  "\<exists>nodes. map fn_name nodes = [''f''] \<and> files_HandleList demo_lenv ''s'' first_page demo_files =
     Some (Reply 200 (Listed nodes (buildBreadcrumbs ''/m/a'' ''/m'')))"
proof -
  have g: "storage_Get (o_up demo_lenv FStorage) ''s'' (f_storages demo_files) = Inr demo_storage" by code_simp
  have u: "usable demo_lenv (f_fs demo_files)" by (simp add: demo_files_def demo_usable)
  have r: "rooted ''/m/a''" "segs ''/m/a'' = [''m'', ''a'']" by code_simp+
  have d: "is_dir (f_fs demo_files) (segs ''/m/a'')" by (simp add: r is_dir_def demo_files_def demo_fs_def)
  obtain nodes where n: "sorted (map fn_name nodes)" "distinct (map fn_name nodes)"
    "fn_name ` set nodes = {n. f_fs demo_files (segs ''/m/a'' @ [n]) \<noteq> None}"
    "\<forall>arg limit offset. arg ''type'' = [] \<and> arg ''parentId'' = encodeFilePath ''/m/a'' \<and>
       parsePagination (arg ''limit'') (arg ''offset'') = (limit, offset) \<and> limit + offset < 2 ^ 63 \<longrightarrow>
       files_HandleList demo_lenv ''s'' arg demo_files =
         Some (Reply 200 (Listed (take (nat limit) (drop (nat offset) nodes)) (buildBreadcrumbs ''/m/a'' (st_mount demo_storage))))"
    using folder_listed [OF g u r(1) d] by blast
  have "set (map fn_name nodes) = {''f''}" using n(3) by (auto simp: r demo_files_def demo_fs_def split: if_splits)
  then have names: "map fn_name nodes = [''f'']" using n(1,2) sorted_distinct_set_unique [of "map fn_name nodes" "[''f'']"] by simp
  then have "length nodes = 1" by (metis length_map length_Cons list.size(3) One_nat_def)
  moreover have "parsePagination (first_page ''limit'') (first_page ''offset'') = (100, 0)" by (simp add: parsePagination_def first_page_def)
  ultimately have "files_HandleList demo_lenv ''s'' first_page demo_files =
     Some (Reply 200 (Listed nodes (buildBreadcrumbs ''/m/a'' (st_mount demo_storage))))"
    using n(4) [rule_format, of first_page 100 0] by (simp add: first_page_def)
  then show ?thesis using names by (auto simp: demo_storage_def)
qed

definition demo_cenv :: cenv where
  "demo_cenv = oenv.extend demo_oenv
     \<lparr>ce_open = (\<lambda>_. True), ce_md5 = (\<lambda>_. ''0f''), ce_image = (\<lambda>src dst fs. (True, fs(segs dst \<mapsto> (case fs (segs src) of None \<Rightarrow> FileN [] | Some n \<Rightarrow> n)))),
      ce_video = (\<lambda>src dst fs. (False, fs))\<rparr>"

theorem content_of_any_file_witness:
  "HandleContent demo_cenv (encodeFilePath ''/m/a/f'') demo_files = Reply 200 (Content ''x'')"
proof (rule content_of_any_file)
  have s: "segs ''/m/a/f'' = [''m'', ''a'', ''f'']" by code_simp
  show "rooted ''/m/a/f''" "Clean ''/m/a/f'' = ''/m/a/f''" by code_simp+
  show "f_fs demo_files (segs ''/m/a/f'') = Some (FileN ''x'')" "segs ''/m/a/f'' \<noteq> []" by (simp_all add: s demo_files_def demo_fs_def)
  show "ce_open demo_cenv (segs ''/m/a/f'')" by (simp add: demo_cenv_def oenv.defs)
qed

text \<open>The same storage with a picture, and after the picture was replaced.\<close>

definition with_picture :: "string \<Rightarrow> fworld \<Rightarrow> fworld" where
  "with_picture v w = set_fs ((f_fs w)([''m'', ''p.jpg''] \<mapsto> FileN v)) w"

theorem thumbnail_never_refreshed_witness:
  "fst (HandleThumbnail demo_cenv (encodeFilePath ''/m/p.jpg'') (with_picture ''new''
     (snd (HandleThumbnail demo_cenv (encodeFilePath ''/m/p.jpg'') (with_picture ''old'' demo_files))))) = Reply 200 (Content ''old'')"
proof -
  let ?id = "encodeFilePath ''/m/p.jpg''"
  obtain r w1 where run: "HandleThumbnail demo_cenv ?id (with_picture ''old'' demo_files) = (r, w1)" by force
  have "fst (HandleThumbnail demo_cenv ?id (with_picture ''old'' demo_files)) = Reply 200 (Content ''old'')" by code_simp
  then have r: "r = Reply 200 (Content ''old'')" by (simp add: run)
  have d: "decodeFileID ?id = Some ''/m/p.jpg''" by code_simp
  have h: "slash \<notin> set (ce_md5 demo_cenv ''/m/p.jpg'')" by code_simp
  have o: "o_ok demo_cenv (CStat (segs (GetCachePath demo_cenv ''/m/p.jpg'' DefaultCacheDir)))" by code_simp
  have c: "segs (GetCachePath demo_cenv ''/m/p.jpg'' DefaultCacheDir) = [''data'', ''thumbnails'', ''0f.jpg'']" by code_simp
  have "f_fs (with_picture ''new'' w1) (segs (GetCachePath demo_cenv ''/m/p.jpg'' DefaultCacheDir)) =
      f_fs w1 (segs (GetCachePath demo_cenv ''/m/p.jpg'' DefaultCacheDir))" by (simp add: c with_picture_def set_fs_def)
  from thumbnail_never_refreshed [OF run [unfolded r] d h o this] show ?thesis by (simp add: run)
qed

end
