(* ===== verification/Cloud_Names.thy ===== *)
theory Cloud_Names
  imports Json Go_Path Jobs_Data Snapshot_Names
begin

text \<open>
  The pure parts of internal/storage/oauth_broker.go and google_drive.go: providers and the names made
  of them, the sections of \<open>rclone.conf\<close>, values in a query of Google Drive, and what the log shows
  of requests and replies.
\<close>

section \<open>Providers\<close>

record broker_provider =
  op_slug :: string
  op_broker :: string
  op_storage :: string
  op_name :: string
  op_prefix :: string
  op_api :: string

definition normalizeOAuthBrokerProviderSlug :: "string \<Rightarrow> string" where
  "normalizeOAuthBrokerProviderSlug v = to_lower (trim v)"

definition oauthBrokerProviderInfo :: "string \<Rightarrow> broker_provider option" where
  "oauthBrokerProviderInfo providerSlug =
     (let s = normalizeOAuthBrokerProviderSlug providerSlug in
      if s \<in> {''google'', ''google-drive'', ''google_drive'', ''gdrive''} then
        Some \<lparr>op_slug = ''google-drive'', op_broker = ''google'', op_storage = ''google_drive'', op_name = ''Google Drive'',
          op_prefix = ''gdrive'', op_api = ''https://www.googleapis.com/drive/v3''\<rparr>
      else if s \<in> {''onedrive'', ''one-drive'', ''one_drive''} then
        Some \<lparr>op_slug = ''onedrive'', op_broker = ''onedrive'', op_storage = ''onedrive'', op_name = ''OneDrive'',
          op_prefix = ''onedrive'', op_api = ''https://graph.microsoft.com/v1.0/me/drive''\<rparr>
      else if s = ''dropbox'' then
        Some \<lparr>op_slug = ''dropbox'', op_broker = ''dropbox'', op_storage = ''dropbox'', op_name = ''Dropbox'',
          op_prefix = ''dropbox'', op_api = ''https://api.dropboxapi.com/2''\<rparr>
      else None)"

definition cloudRemoteName :: "string \<Rightarrow> string \<Rightarrow> string" where
  "cloudRemoteName provider storageID =
     (case oauthBrokerProviderInfo provider of
        None \<Rightarrow> ''cloud_'' @ storageID
      | Some info \<Rightarrow> op_prefix info @ ''_'' @ storageID)"

definition defaultGoogleDriveMountRoot :: string where "defaultGoogleDriveMountRoot = ''/srv/yesnas/cloud''"

definition cloudMountPath :: "string \<Rightarrow> string \<Rightarrow> string" where
  "cloudMountPath provider storageID = Join [defaultGoogleDriveMountRoot, cloudRemoteName provider storageID]"

definition normalizeGoogleDriveRootPath :: "string \<Rightarrow> string" where
  "normalizeGoogleDriveRootPath v = (if trim v = [] then ''root'' else trim v)"

definition isOAuthBrokerCloudProvider :: "string \<Rightarrow> bool" where
  "isOAuthBrokerCloudProvider p \<longleftrightarrow> trim p \<in> {''google_drive'', ''onedrive'', ''dropbox''}"

text \<open>The first value that is not blank, as it is.\<close>

definition firstNonEmpty_of :: "string list \<Rightarrow> string" where
  "firstNonEmpty_of values = (case find (\<lambda>v. trim v \<noteq> []) values of None \<Rightarrow> [] | Some v \<Rightarrow> v)"

definition stringPtr :: "string \<Rightarrow> string option" where
  "stringPtr v = (if trim v = [] then None else Some v)"

definition derefString :: "string option \<Rightarrow> string" where
  "derefString v = (case v of None \<Rightarrow> [] | Some s \<Rightarrow> s)"

definition quote1 :: char where "quote1 = CHR 0x27"

definition escapeGoogleDriveQueryValue :: "string \<Rightarrow> string" where
  "escapeGoogleDriveQueryValue v =
     replace_all [quote1] [backslash, quote1] (replace_all [backslash] [backslash, backslash] v)"

section \<open>The sections of rclone.conf\<close>

definition is_section :: "string \<Rightarrow> bool" where
  "is_section line \<longleftrightarrow> has_prefix ''['' (trim line) \<and> has_suffix '']'' (trim line)"

text \<open>The loop: the last line that is the header, and the first line of another section after it.\<close>

fun find_section :: "string \<Rightarrow> nat \<Rightarrow> string list \<Rightarrow> nat option \<Rightarrow> nat \<Rightarrow> nat option \<times> nat" where
  "find_section header i [] start e = (start, e)"
| "find_section header i (line # ls) start e =
     (if trim line = header then find_section header (Suc i) ls (Some i) e
      else if start \<noteq> None \<and> is_section line then (start, i)
      else find_section header (Suc i) ls start e)"

definition header_of :: "string \<Rightarrow> string" where
  "header_of name = ''['' @ name @ '']''"

definition upsertINISection :: "string \<Rightarrow> string \<Rightarrow> string \<Rightarrow> string" where
  "upsertINISection content name replacement =
     (if trim content = [] then replacement @ [newline]
      else
        (let ls = split_on newline content in
         case find_section (header_of name) 0 ls None (length ls) of
           (None, _) \<Rightarrow> rev (dropWhile (\<lambda>c. c = newline) (rev content)) @ [newline, newline] @ replacement @ [newline]
         | (Some start, e) \<Rightarrow>
             trim (join_with [newline] (take start ls @ split_on newline replacement @ drop e ls)) @ [newline]))"

definition removeINISection :: "string \<Rightarrow> string \<Rightarrow> string" where
  "removeINISection content name =
     (if trim content = [] then []
      else
        (let ls = split_on newline content in
         case find_section (header_of name) 0 ls None (length ls) of
           (None, _) \<Rightarrow> trim content @ [newline]
         | (Some start, e) \<Rightarrow>
             (let trimmed = trim (join_with [newline] (take start ls @ drop e ls)) in
              if trimmed = [] then [] else trimmed @ [newline])))"

section \<open>What the log shows\<close>

definition masked :: json where "masked = JString ''***''"

definition isOAuthBrokerSensitiveKey :: "string \<Rightarrow> bool" where
  "isOAuthBrokerSensitiveKey key \<longleftrightarrow>
     to_lower (trim key) \<in> {''access_token'', ''refresh_token'', ''signature'', ''private_key_pem'', ''public_key_pem'',
       ''client_secret'', ''authorization''}"

fun sanitizeOAuthBrokerJSON :: "json \<Rightarrow> json" where
  "sanitizeOAuthBrokerJSON (JObject fs) =
     JObject (map (\<lambda>p. (fst p, if isOAuthBrokerSensitiveKey (fst p) then masked else sanitizeOAuthBrokerJSON (snd p))) fs)"
| "sanitizeOAuthBrokerJSON (JArray vs) = JArray (map sanitizeOAuthBrokerJSON vs)"
| "sanitizeOAuthBrokerJSON v = v"

definition sanitizeOAuthBrokerHeaders :: "(string \<times> string list) list \<Rightarrow> (string \<times> string list) list" where
  "sanitizeOAuthBrokerHeaders headers =
     map (\<lambda>(key, values). (key, if to_lower key \<in> {''authorization'', ''x-registration-secret''} then [''***''] else values)) headers"

text \<open>The text of a body in the log; \<open>parse\<close> and \<open>pretty\<close> are those of \<open>encoding/json\<close>.\<close>

definition sanitizeOAuthBrokerBody :: "(string \<Rightarrow> json option) \<Rightarrow> (json \<Rightarrow> string) \<Rightarrow> string \<Rightarrow> string" where
  "sanitizeOAuthBrokerBody parse pretty body =
     (if trim body = [] then []
      else (case parse body of
              None \<Rightarrow> trim body
            | Some payload \<Rightarrow> pretty (sanitizeOAuthBrokerJSON payload)))"

definition indentOAuthBrokerLog :: "string \<Rightarrow> string" where
  "indentOAuthBrokerLog value =
     (if trim value = [] then ''  <empty>''
      else join_with [newline] (map (\<lambda>line. ''  '' @ line) (split_on newline (trim value))))"

end
