(* ===== verification/Cloud_Conf.thy ===== *)
theory Cloud_Conf
  imports Cloud_Names
begin

text \<open>
  What the pure parts of the cloud storages promise: \<open>rclone.conf\<close> behaves as a map from section names
  to lines, and the log shows nothing of a secret.
\<close>

section \<open>rclone.conf as a map\<close>

text \<open>The lines that count, and the lines of a section.\<close>

definition norm_list :: "string list \<Rightarrow> string list" where
  "norm_list ls = filter (\<lambda>l. l \<noteq> []) (map trim ls)"

definition norm_lines :: "string \<Rightarrow> string list" where
  "norm_lines s = norm_list (split_on newline s)"

definition section_in :: "string \<Rightarrow> string list \<Rightarrow> string list option" where
  "section_in h ls = (if h \<in> set ls then Some (takeWhile (\<lambda>l. \<not> is_section l) (tl (dropWhile (\<lambda>l. l \<noteq> h) ls))) else None)"

definition section_of :: "string \<Rightarrow> string \<Rightarrow> string list option" where
  "section_of name content = section_in (header_of name) (norm_lines content)"

subsection \<open>Lines\<close>

lemma norm_list_simps [simp]:
  "norm_list [] = []" "norm_list (a @ b) = norm_list a @ norm_list b"
  "norm_list (l # ls) = (if trim l = [] then [] else [trim l]) @ norm_list ls"
  by (simp_all add: norm_list_def)

lemma nl_space: "is_space newline"
  by (simp add: is_space_def newline_def)

lemma trim_space_left: "is_space c \<Longrightarrow> trim (c # s) = trim s"
  by (simp add: trim_def)

lemma dropWhile_append_not: "\<exists>x\<in>set a. \<not> P x \<Longrightarrow> dropWhile P (a @ b) = dropWhile P a @ b"
  by (induction a) auto

lemma strip_commute:
  "rev (dropWhile P (rev (dropWhile P s))) = dropWhile P (rev (dropWhile P (rev s)))"
proof (cases "\<forall>x\<in>set s. P x")
  case True
  then have e: "dropWhile P s = []" "dropWhile P (rev s) = []" by simp_all
  show ?thesis unfolding e by simp
next
  case False
  then show ?thesis
  proof (induction s)
    case (Cons x s)
    show ?case
    proof (cases "P x")
      case True
      then have ex: "\<exists>y\<in>set s. \<not> P y" using Cons.prems by auto
      then have "dropWhile P (rev s @ [x]) = dropWhile P (rev s) @ [x]" by (intro dropWhile_append_not) auto
      then show ?thesis using Cons.IH True ex by simp
    next
      case False
      then have "dropWhile P (rev s @ [x]) = dropWhile P (rev s) @ [x]"
        by (cases "\<forall>y\<in>set s. P y") (simp_all add: dropWhile_append3 dropWhile_append_not)
      then show ?thesis using False by simp
    qed
  qed simp
qed

lemma trim_rev: "trim (rev s) = rev (trim s)"
  unfolding trim_def by (simp add: strip_commute [of is_space s, symmetric])

lemma trim_space_right: "is_space c \<Longrightarrow> trim (s @ [c]) = trim s"
  using trim_rev [of "s @ [c]"] trim_rev [of s] by (simp add: trim_space_left)

lemma norm_lines_app: "norm_lines (a @ newline # b) = norm_lines a @ norm_lines b"
  by (simp add: norm_lines_def split_on_app_sep)

lemma norm_lines_Nil [simp]: "norm_lines [] = []"
  by (simp add: norm_lines_def trim_def)

lemma norm_lines_end: "norm_lines (a @ [newline]) = norm_lines a"
  using norm_lines_app [of a "[]"] by simp

lemma norm_lines_left: "is_space c \<Longrightarrow> norm_lines (c # s) = norm_lines s"
proof (cases "c = newline")
  case True
  then show ?thesis using norm_lines_app [of "[]" s] by simp
next
  case False
  assume "is_space c"
  then show ?thesis using False by (cases "split_on newline s") (simp_all add: norm_lines_def trim_space_left)
qed

lemma split_on_snoc: "c \<noteq> d \<Longrightarrow> split_on d (s @ [c]) = butlast (split_on d s) @ [last (split_on d s) @ [c]]"
proof (induction s)
  case (Cons x s)
  then show ?case using length_split_on [of d s] by (cases "split_on d s") auto
qed simp

lemma norm_lines_right: "is_space c \<Longrightarrow> norm_lines (s @ [c]) = norm_lines s"
proof (cases "c = newline")
  case False
  assume c: "is_space c"
  have ls: "split_on newline s = butlast (split_on newline s) @ [last (split_on newline s)]"
    using length_split_on [of newline s] by simp
  have "norm_lines s = norm_list (butlast (split_on newline s)) @ norm_list [last (split_on newline s)]"
    unfolding norm_lines_def by (subst ls) (simp only: norm_list_simps)
  then show ?thesis using c False by (simp add: norm_lines_def split_on_snoc trim_space_right)
qed (simp add: norm_lines_end)

lemma norm_lines_dropWhile: "\<forall>c. P c \<longrightarrow> is_space c \<Longrightarrow> norm_lines (dropWhile P s) = norm_lines s"
  by (induction s) (simp_all add: norm_lines_left)

lemma norm_lines_dropWhile_rev: "\<forall>c. P c \<longrightarrow> is_space c \<Longrightarrow> norm_lines (rev (dropWhile P (rev s))) = norm_lines s"
  by (induction s rule: rev_induct) (simp_all add: norm_lines_right)

lemma norm_lines_trim: "norm_lines (trim s) = norm_lines s"
  unfolding trim_def by (simp add: norm_lines_dropWhile norm_lines_dropWhile_rev)

lemma norm_lines_join:
  "\<forall>l\<in>set ls. newline \<notin> set l \<Longrightarrow> norm_lines (join_with [newline] ls) = norm_list ls"
  by (cases "ls = []") (simp_all add: norm_lines_def split_join trim_def)

subsection \<open>Sections\<close>

lemma is_section_trim [simp]: "is_section (trim l) = is_section l"
  by (simp add: is_section_def)

lemma header_section: "is_section (header_of name)" "trim (header_of name) = header_of name"
proof -
  have sp: "\<not> is_space (CHR ''['')" "\<not> is_space (CHR '']'')" by code_simp+
  show t: "trim (header_of name) = header_of name" using sp by (simp add: trim_def header_of_def)
  show "is_section (header_of name)" by (simp add: is_section_def t) (simp add: header_of_def has_prefix_def has_suffix_def)
qed

lemma header_inj [simp]: "header_of m = header_of name \<longleftrightarrow> m = name"
  by (simp add: header_of_def)

lemma section_in_skip: "g \<notin> set y \<Longrightarrow> section_in g (y @ x) = section_in g x"
proof -
  assume "g \<notin> set y"
  then have "dropWhile (\<lambda>l. l \<noteq> g) (y @ x) = dropWhile (\<lambda>l. l \<noteq> g) x" by (induction y) auto
  then show ?thesis using \<open>g \<notin> set y\<close> by (simp add: section_in_def)
qed

definition stops :: "string list \<Rightarrow> bool" where
  "stops x \<longleftrightarrow> x = [] \<or> is_section (hd x)"

lemma section_in_first: "g \<in> set y \<Longrightarrow> stops x \<Longrightarrow> section_in g (y @ x) = section_in g y"
proof -
  assume g: "g \<in> set y" and x: "stops x"
  obtain a b where y: "y = a @ g # b" "g \<notin> set a" using split_list_first [OF g] by blast
  have drop: "dropWhile (\<lambda>l. l \<noteq> g) (a @ g # r) = g # r" for r using y(2) by (induction a) auto
  have "takeWhile (\<lambda>l. \<not> is_section l) (b @ x) = takeWhile (\<lambda>l. \<not> is_section l) b"
  proof (cases "\<forall>l\<in>set b. \<not> is_section l")
    case True
    then have "takeWhile (\<lambda>l. \<not> is_section l) b = b" by simp
    moreover have "takeWhile (\<lambda>l. \<not> is_section l) x = []" using x by (cases x) (auto simp: stops_def)
    ultimately show ?thesis using True takeWhile_append2 [of b "\<lambda>l. \<not> is_section l" x] by (metis (no_types, lifting) append_Nil2)
  qed (auto simp: takeWhile_append)
  then show ?thesis using drop [of "b @ x"] drop [of b] by (simp add: section_in_def y(1))
qed

text \<open>A block without other sections can be put between two parts of a file.\<close>

definition block_of :: "string \<Rightarrow> string list \<Rightarrow> bool" where
  "block_of name ls \<longleftrightarrow> (\<exists>body. ls = header_of name # body \<and> list_all (\<lambda>b. \<not> is_section b) body)"

lemma section_in_other:
  assumes "m \<noteq> name" "block_of name blk \<or> blk = []" "stops d"
  shows "section_in (header_of m) (a @ blk @ d) = section_in (header_of m) (a @ d)"
proof (cases "header_of m \<in> set a")
  case True
  moreover have "stops (blk @ d)" using assms(2,3) header_section by (auto simp: block_of_def stops_def)
  ultimately show ?thesis using assms(3) by (simp add: section_in_first)
next
  case False
  have "header_of m \<notin> set blk" using assms(1,2) header_section(1) [of m] by (auto simp: block_of_def list_all_iff)
  then show ?thesis using False by (simp add: section_in_skip)
qed

lemma section_in_same:
  assumes "list_all (\<lambda>b. \<not> is_section b) body" "header_of name \<notin> set a" "stops d"
  shows "section_in (header_of name) (a @ (header_of name # body) @ d) = Some body"
proof -
  have "takeWhile (\<lambda>l. \<not> is_section l) (body @ d) = body"
    using assms(1,3) by (cases d) (auto simp: stops_def takeWhile_append list_all_iff)
  then show ?thesis using assms(2) by (simp add: section_in_skip) (simp add: section_in_def)
qed

subsection \<open>The loop\<close>

lemma find_section_before:
  "\<forall>l\<in>set a. trim l \<noteq> h \<Longrightarrow> find_section h i (a @ r) None e = find_section h (i + length a) r None e"
  by (induction a arbitrary: i) simp_all

lemma find_section_body:
  "\<forall>l\<in>set b. trim l \<noteq> h \<and> \<not> is_section l \<Longrightarrow>
    find_section h i (b @ r) (Some s) e = find_section h (i + length b) r (Some s) e"
  by (induction b arbitrary: i) simp_all

lemma find_section_none: "\<forall>l\<in>set ls. trim l \<noteq> h \<Longrightarrow> find_section h i ls None e = (None, e)"
  using find_section_before [of ls h i "[]" e] by simp

lemma norm_list_mem: "h \<noteq> [] \<Longrightarrow> h \<in> set (norm_list ls) \<longleftrightarrow> (\<exists>l\<in>set ls. trim l = h)"
  by (auto simp: norm_list_def)

lemma norm_list_stops: "d = [] \<or> is_section (hd d) \<Longrightarrow> stops (norm_list d)"
proof (cases d)
  case (Cons l ls)
  assume "d = [] \<or> is_section (hd d)"
  then have "is_section l" using Cons by simp
  moreover have "trim l \<noteq> []" using calculation by (auto simp: is_section_def has_prefix_def)
  ultimately show ?thesis by (simp add: Cons stops_def)
qed (simp add: stops_def)

text \<open>What the loop finds, when the header is there once: the file is cut into three.\<close>

lemma find_section_parts:
  assumes "count_list (norm_list ls) (header_of name) \<le> 1" "header_of name \<in> set (norm_list ls)"
  obtains a blk d where "ls = a @ blk @ d"
    "find_section (header_of name) 0 ls None (length ls) = (Some (length a), length a + length blk)"
    "header_of name \<notin> set (norm_list a)" "block_of name (norm_list blk)" "stops (norm_list d)"
proof -
  let ?h = "header_of name"
  have h: "?h \<noteq> []" by (simp add: header_of_def)
  have "\<exists>l\<in>set ls. trim l = ?h" using assms(2) norm_list_mem [OF h] by blast
  then obtain a l r where ls: "ls = a @ l # r" "trim l = ?h" "\<forall>x\<in>set a. trim x \<noteq> ?h"
    using split_list_first_prop [of ls "\<lambda>l. trim l = ?h"] by blast
  let ?b = "takeWhile (\<lambda>x. \<not> is_section x) r" and ?d = "dropWhile (\<lambda>x. \<not> is_section x) r"
  have r: "\<forall>x\<in>set r. trim x \<noteq> ?h"
  proof -
    have "count_list (norm_list r) ?h = 0" using assms(1) h by (simp add: ls)
    then show ?thesis using norm_list_mem [OF h, of r] count_list_0_iff by metis
  qed
  have b: "\<forall>x\<in>set ?b. trim x \<noteq> ?h \<and> \<not> is_section x" using r by (auto dest: set_takeWhileD)
  have d: "?d = [] \<or> is_section (hd ?d)" using hd_dropWhile [of "\<lambda>x. \<not> is_section x" r] by auto
  have dh: "?d \<noteq> [] \<Longrightarrow> trim (hd ?d) \<noteq> ?h" using r set_dropWhileD [of "hd ?d" "\<lambda>x. \<not> is_section x" r] by fastforce
  have "find_section ?h 0 ls None (length ls) = find_section ?h (Suc (length a)) r (Some (length a)) (length ls)"
    using find_section_before [OF ls(3), of 0 "l # r" "length ls"] ls(2) by (simp add: ls(1))
  also have "\<dots> = find_section ?h (Suc (length a) + length ?b) ?d (Some (length a)) (length ls)"
    using find_section_body [OF b, of "Suc (length a)" ?d "length a" "length ls"] by simp
  also have "\<dots> = (Some (length a), length a + length (l # ?b))"
  proof (cases "?d = []")
    case True
    then have "length r = length ?b" using takeWhile_dropWhile_id [of "\<lambda>x. \<not> is_section x" r] by (metis append_Nil2)
    then show ?thesis unfolding True by (simp add: ls(1))
  next
    case False
    then obtain x xs where x: "?d = x # xs" by (cases ?d) auto
    then show ?thesis using d dh by simp
  qed
  finally have "find_section ?h 0 ls None (length ls) = (Some (length a), length a + length (l # ?b))" .
  moreover have "ls = a @ (l # ?b) @ ?d" by (simp add: ls(1))
  moreover have "?h \<notin> set (norm_list a)" using ls(3) norm_list_mem [OF h] by blast
  moreover have "block_of name (norm_list (l # ?b))"
  proof -
    have "list_all (\<lambda>b. \<not> is_section b) (norm_list ?b)" using b by (auto simp: list_all_iff norm_list_def)
    then show ?thesis using ls(2) h by (simp add: block_of_def)
  qed
  ultimately show ?thesis using that norm_list_stops [OF d] by blast
qed

lemma blank_lines: "trim s = [] \<Longrightarrow> norm_lines s = []"
  using norm_lines_trim [of s] by simp

lemma no_nl_parts: "\<forall>l\<in>set (split_on newline s). newline \<notin> set l"
  using split_on_parts by blast

lemma removeINISection_lines:
  assumes "count_list (norm_lines c) (header_of name) \<le> 1"
  shows "(header_of name \<notin> set (norm_lines c) \<and> norm_lines (removeINISection c name) = norm_lines c) \<or>
    (\<exists>a blk d. norm_lines c = a @ blk @ d \<and> norm_lines (removeINISection c name) = a @ d \<and>
       header_of name \<notin> set a \<and> block_of name blk \<and> stops d)"
proof (cases "header_of name \<in> set (norm_lines c)")
  case True
  then have ne: "trim c \<noteq> []" using blank_lines by fastforce
  obtain a blk d where p: "split_on newline c = a @ blk @ d"
    "find_section (header_of name) 0 (split_on newline c) None (length (split_on newline c)) = (Some (length a), length a + length blk)"
    "header_of name \<notin> set (norm_list a)" "block_of name (norm_list blk)" "stops (norm_list d)"
    using find_section_parts [OF assms [unfolded norm_lines_def] True [unfolded norm_lines_def]] .
  let ?j = "trim (join_with [newline] (a @ d))"
  have "removeINISection c name = (if ?j = [] then [] else ?j @ [newline])"
    unfolding removeINISection_def Let_def p(2) using ne by (simp add: p(1))
  then have "norm_lines (removeINISection c name) = norm_lines ?j" by (simp add: norm_lines_end)
  also have "\<dots> = norm_list (a @ d)"
    unfolding norm_lines_trim using no_nl_parts [of c] by (intro norm_lines_join) (auto simp: p(1))
  finally show ?thesis using p by (auto simp: norm_lines_def)
next
  case False
  have "norm_lines (removeINISection c name) = norm_lines c"
  proof (cases "trim c = []")
    case False
    have "find_section (header_of name) 0 (split_on newline c) None (length (split_on newline c)) = (None, length (split_on newline c))"
      using \<open>header_of name \<notin> _\<close> norm_list_mem [of "header_of name" "split_on newline c"]
      by (intro find_section_none) (auto simp: norm_lines_def header_of_def)
    then show ?thesis using False by (simp add: removeINISection_def norm_lines_end norm_lines_trim)
  qed (simp add: removeINISection_def blank_lines)
  then show ?thesis using False by blast
qed

lemma upsertINISection_lines:
  assumes "count_list (norm_lines c) (header_of name) \<le> 1"
  shows "(header_of name \<notin> set (norm_lines c) \<and> norm_lines (upsertINISection c name r) = norm_lines c @ norm_lines r) \<or>
    (\<exists>a blk d. norm_lines c = a @ blk @ d \<and> norm_lines (upsertINISection c name r) = a @ norm_lines r @ d \<and>
       header_of name \<notin> set a \<and> block_of name blk \<and> stops d)"
proof (cases "header_of name \<in> set (norm_lines c)")
  case True
  then have ne: "trim c \<noteq> []" using blank_lines by fastforce
  obtain a blk d where p: "split_on newline c = a @ blk @ d"
    "find_section (header_of name) 0 (split_on newline c) None (length (split_on newline c)) = (Some (length a), length a + length blk)"
    "header_of name \<notin> set (norm_list a)" "block_of name (norm_list blk)" "stops (norm_list d)"
    using find_section_parts [OF assms [unfolded norm_lines_def] True [unfolded norm_lines_def]] .
  let ?j = "join_with [newline] (a @ split_on newline r @ d)"
  have "upsertINISection c name r = trim ?j @ [newline]"
    unfolding upsertINISection_def Let_def p(2) using ne by (simp add: p(1))
  then have "norm_lines (upsertINISection c name r) = norm_lines ?j" by (simp add: norm_lines_end norm_lines_trim)
  also have "\<dots> = norm_list (a @ split_on newline r @ d)"
    using no_nl_parts [of c] no_nl_parts [of r] by (intro norm_lines_join) (auto simp: p(1))
  finally show ?thesis using p by (auto simp: norm_lines_def)
next
  case False
  have "norm_lines (upsertINISection c name r) = norm_lines c @ norm_lines r"
  proof (cases "trim c = []")
    case False
    let ?t = "rev (dropWhile (\<lambda>c. c = newline) (rev c))"
    have "find_section (header_of name) 0 (split_on newline c) None (length (split_on newline c)) = (None, length (split_on newline c))"
      using \<open>header_of name \<notin> _\<close> norm_list_mem [of "header_of name" "split_on newline c"]
      by (intro find_section_none) (auto simp: norm_lines_def header_of_def)
    then have "upsertINISection c name r = (?t @ newline # (newline # r)) @ [newline]" using False by (simp add: upsertINISection_def)
    then have "norm_lines (upsertINISection c name r) = norm_lines ?t @ norm_lines r"
      by (simp only: norm_lines_app norm_lines_Nil norm_lines_left [OF nl_space] append_Nil2)
    then show ?thesis using norm_lines_dropWhile_rev [of "\<lambda>c. c = newline" c] nl_space by simp
  qed (simp add: upsertINISection_def blank_lines norm_lines_end)
  then show ?thesis using False by blast
qed

lemma norm_lines_stops: "block_of name b \<Longrightarrow> stops b"
  using header_section by (auto simp: block_of_def stops_def)

lemma conf_upsert:
  assumes "count_list (norm_lines c) (header_of name) \<le> 1"
    "norm_lines r = header_of name # body" "list_all (\<lambda>b. \<not> is_section b) body"
  shows "section_of m (upsertINISection c name r) = (if m = name then Some body else section_of m c)"
proof -
  have r: "block_of name (norm_lines r)" using assms(2,3) by (simp add: block_of_def)
  show ?thesis
    using upsertINISection_lines [OF assms(1), of r]
  proof (elim disjE exE conjE)
    assume c: "header_of name \<notin> set (norm_lines c)" "norm_lines (upsertINISection c name r) = norm_lines c @ norm_lines r"
    show ?thesis
      using section_in_same [OF assms(3) c(1), of "[]"] section_in_other [of m name "norm_lines r" "[]" "norm_lines c"] r
      by (auto simp: section_of_def c(2) assms(2) stops_def)
  next
    fix a blk d
    assume c: "norm_lines c = a @ blk @ d" "norm_lines (upsertINISection c name r) = a @ norm_lines r @ d"
      "header_of name \<notin> set a" "block_of name blk" "stops d"
    show ?thesis
      using section_in_same [OF assms(3) c(3,5)] section_in_other [OF _ disjI1 [OF r] c(5), of m a]
        section_in_other [OF _ disjI1 [OF c(4)] c(5), of m a]
      by (auto simp: section_of_def c(1,2) assms(2))
  qed
qed

lemma conf_remove:
  assumes "count_list (norm_lines c) (header_of name) \<le> 1"
  shows "section_of m (removeINISection c name) = (if m = name then None else section_of m c)"
  using removeINISection_lines [OF assms]
proof (elim disjE exE conjE)
  assume "header_of name \<notin> set (norm_lines c)" "norm_lines (removeINISection c name) = norm_lines c"
  then show ?thesis by (auto simp: section_of_def section_in_def)
next
  fix a blk d
  assume c: "norm_lines c = a @ blk @ d" "norm_lines (removeINISection c name) = a @ d"
    "header_of name \<notin> set a" "block_of name blk" "stops d"
  have "header_of name \<notin> set d"
    using assms c(3,4) by (auto simp: c(1) block_of_def count_list_0_iff)
  then show ?thesis
    using section_in_other [OF _ disjI1 [OF c(4)] c(5), of m a] c(3) by (auto simp: section_of_def c(1,2) section_in_def)
qed

text \<open>
  C38: The file \<open>rclone.conf\<close> is a map from section names to lines: writing a section whose
  header is there at most once makes its lines the section, removing it makes the section disappear, and
  every other section, wherever it is, keeps its lines.
\<close>

theorem conf_is_a_map:
  assumes "count_list (norm_lines c) (header_of name) \<le> 1"
    "norm_lines r = header_of name # body" "list_all (\<lambda>b. \<not> is_section b) body"
  shows "section_of m (upsertINISection c name r) = (if m = name then Some body else section_of m c) \<and>
    section_of m (removeINISection c name) = (if m = name then None else section_of m c)"
  using conf_upsert [OF assms] conf_remove [OF assms(1)] by blast

section \<open>What the log shows\<close>

text \<open>
  What is secret, independently of the code: a key that is one of these names but for case and for
  blanks at its ends.
\<close>

definition secret_names :: "string list" where
  "secret_names = [''access_token'', ''refresh_token'', ''client_secret'', ''signature'', ''private_key_pem'',
     ''public_key_pem'', ''authorization'']"

definition secret_key :: "string \<Rightarrow> bool" where
  "secret_key k \<longleftrightarrow> list_ex (equal_fold (trim k)) secret_names"

lemma sensitive_is_secret: "isOAuthBrokerSensitiveKey k = secret_key k"
proof -
  have "map to_lower secret_names = secret_names" by code_simp
  then show ?thesis
    by (auto simp: secret_key_def secret_names_def isOAuthBrokerSensitiveKey_def equal_fold_def)
qed

text \<open>Two values that differ only where a key is secret.\<close>

inductive same_but_secrets :: "json \<Rightarrow> json \<Rightarrow> bool" where
  atom: "same_but_secrets v v"
| arrays: "list_all2 same_but_secrets vs ws \<Longrightarrow> same_but_secrets (JArray vs) (JArray ws)"
| objects: "list_all2 (\<lambda>p q. fst p = fst q \<and> (secret_key (fst p) \<or> same_but_secrets (snd p) (snd q))) fs gs \<Longrightarrow>
    same_but_secrets (JObject fs) (JObject gs)"
  monos list.rel_mono_strong

lemma shown_of_same: "same_but_secrets j k \<Longrightarrow> sanitizeOAuthBrokerJSON j = sanitizeOAuthBrokerJSON k"
proof (induction rule: same_but_secrets.induct)
  case (arrays vs ws)
  then show ?case by (induction rule: list_all2_induct) simp_all
next
  case (objects fs gs)
  then show ?case by (induction rule: list_all2_induct) (auto simp: sensitive_is_secret)
qed simp

lemma map_eq_all2: "map f xs = map g ys \<longleftrightarrow> list_all2 (\<lambda>x y. f x = g y) xs ys"
  by (auto simp: list_all2_conv_all_nth list_eq_iff_nth_eq)

lemma same_of_shown: "sanitizeOAuthBrokerJSON j = sanitizeOAuthBrokerJSON k \<Longrightarrow> same_but_secrets j k"
proof (induction j arbitrary: k)
  case (JArray vs)
  then obtain ws where k: "k = JArray ws" "map sanitizeOAuthBrokerJSON vs = map sanitizeOAuthBrokerJSON ws"
    using JArray.prems by (cases k rule: json.exhaust) simp_all
  have "list_all2 same_but_secrets vs ws"
    using k(2) [unfolded map_eq_all2] by (rule list.rel_mono_strong) (use JArray.IH in blast)
  then show ?case unfolding k(1) by (rule same_but_secrets.arrays)
next
  case (JObject fs)
  let ?f = "\<lambda>p. (fst p, if secret_key (fst p) then masked else sanitizeOAuthBrokerJSON (snd p))"
  obtain gs where k: "k = JObject gs" "map ?f fs = map ?f gs" 
    using JObject.prems by (cases k rule: json.exhaust) (simp_all add: sensitive_is_secret)
  have "list_all2 (\<lambda>p q. fst p = fst q \<and> (secret_key (fst p) \<or> same_but_secrets (snd p) (snd q))) fs gs"
    using k(2) [unfolded map_eq_all2]
  proof (rule list.rel_mono_strong)
    fix p q assume pq: "p \<in> set fs" "q \<in> set gs" "?f p = ?f q"
    then show "fst p = fst q \<and> (secret_key (fst p) \<or> same_but_secrets (snd p) (snd q))"
      using JObject.IH [of p "snd p" "snd q"] by (auto simp: snds.simps split: if_splits)
  qed
  then show ?case unfolding k(1) by (rule same_but_secrets.objects)
next
  case (JNumber x)
  then show ?case by (cases k) (auto intro: same_but_secrets.atom)
next
  case (JString x)
  then show ?case by (cases k) (auto intro: same_but_secrets.atom)
next
  case (JBool x)
  then show ?case by (cases k) (auto intro: same_but_secrets.atom)
next
  case JNull
  then show ?case by (cases k) (auto intro: same_but_secrets.atom)
qed

text \<open>
  C39: What the log shows of a JSON body is exactly what is not secret: two JSON values look the same
  after masking if and only if they differ only in what stands, at any depth, under a key that is one of
  seven names (tokens, client secret, keys, signature, authorization), whatever its case and the blanks
  around it.  Values are as the model has them: fields in their order, duplicates kept, numbers as text.
  Bodies that are no JSON, and URLs, are not masked and not covered.
\<close>

theorem log_shows_no_secret:
  "sanitizeOAuthBrokerJSON j = sanitizeOAuthBrokerJSON k \<longleftrightarrow> same_but_secrets j k"
  using shown_of_same same_of_shown by blast

end
