(* ===== verification/Cloud_World.thy ===== *)
theory Cloud_World
  imports Cloud_Names Stores Actions
begin

text \<open>
  The state of cloud and network storages and what acts on it: the tables \<open>storage\<close>,
  \<open>storage_token\<close> (internal/storage/tokens.go) and the three tables of the OAuth broker
  (oauth_broker.go) over the constraints of database/init.sql, the text of \<open>rclone.conf\<close>, the
  temporary credential files, how far the content of an upload has been read, and the log of commands
  and HTTP requests, oldest first.

  What a command prints is a function of the files it can read (\<open>rclone.conf\<close> and the temporary files)
  and of that log, what a service replies is a function of the log: parameters, so a service may change
  its answers with every request.  JSON and form encoding, keys and signatures, and URL
  escaping are parameters too.  A statement, a file access or a call that may fail has a flag.
\<close>

section \<open>State\<close>

record token =
  tk_id :: string
  tk_storage :: string
  tk_type :: string
  tk_access :: string
  tk_refresh :: string
  tk_expiry :: "string option"
  tk_scope :: string
  tk_raw :: string

record broker_connection =
  bn_id :: string
  bn_base :: string
  bn_device :: string
  bn_name :: string
  bn_public :: string
  bn_private :: string
  bn_registered :: "int option"
  bn_auth :: "int option"

record broker_session =
  bs_id :: string
  bs_base :: string
  bs_provider :: string
  bs_storage :: string
  bs_name :: string
  bs_root :: string
  bs_status :: string
  bs_url :: string
  bs_expires :: "string option"

record broker_token =
  bt_id :: string
  bt_storage :: string
  bt_base :: string
  bt_provider :: string
  bt_refresh :: string
  bt_url :: string
  bt_config :: string

datatype hbody = NoBody | JsonBody json | FormBody "(string \<times> string) list" | Multipart json string string

record hreq =
  hq_method :: string
  hq_url :: string
  hq_headers :: "(string \<times> string) list"
  hq_body :: hbody

text \<open>A command with its \<open>sudo\<close> flag and further environment, or a request.\<close>

datatype xcall = XCmd bool "string list" "string list" | XHttp hreq

record cmd_result =
  cr_ok :: bool
  cr_out :: string
  cr_err :: string

datatype xsite =
    XGet | XList | XAdd | XRuntime | XIdentity | XToken | XUpsert | XDelToken
  | XConn | XSaveConn | XRegistered | XAuthed | XSession | XSaveSession | XStatus string
  | XBroker | XSaveBroker | XDelBroker | XDelSessions
  | XMkdir | XReadConf | XWriteConf | XMissingConf | XTemp | XTempWrite | XTempClose | XTempMode | XTempRemove

text \<open>The files a command can read: \<open>rclone.conf\<close>, and the temporary files with their content.\<close>

type_synonym xfiles = "string option \<times> (string \<times> string) list"

record xenv =
  x_run :: "xfiles \<Rightarrow> xcall list \<Rightarrow> xcall \<Rightarrow> cmd_result"
  x_http :: "xcall list \<Rightarrow> hreq \<Rightarrow> (nat \<times> string) option"
  x_drained :: "xcall list \<Rightarrow> hreq \<Rightarrow> bool"
  x_up :: "xsite \<Rightarrow> bool"
  x_json :: "string \<Rightarrow> json option"
  x_marshal :: "json \<Rightarrow> string"
  x_url_ok :: "string \<Rightarrow> bool"
  x_request_ok :: "string \<Rightarrow> bool"
  x_escape :: "string \<Rightarrow> string"
  x_query :: "(string \<times> string) list \<Rightarrow> string"
  x_boundary :: string
  x_sign :: "string \<Rightarrow> string \<Rightarrow> string option"
  x_keys :: "(string \<times> string) option"
  x_getenv :: "string \<Rightarrow> string"
  x_host :: string
  x_id :: "string \<Rightarrow> string"
  x_now :: int
  x_after :: "int \<Rightarrow> string"
  x_statfs :: "xcall list \<Rightarrow> string \<Rightarrow> (nat \<times> nat \<times> nat) option"
  x_uid :: int
  x_gid :: int
  x_conf_path :: string
  x_temp_path :: string
  x_client :: bool

record xworld =
  xw_storages :: "storage list"
  xw_tokens :: "token list"
  xw_conns :: "broker_connection list"
  xw_sessions :: "broker_session list"
  xw_brokers :: "broker_token list"
  xw_conf :: "string option"
  xw_temp :: "(string \<times> string) list"
  xw_read :: nat
  xw_log :: "xcall list"

text \<open>What the output of a failed mount, or of a failed list of shares, is explained as.\<close>

datatype reason =
    AuthFailed | GuestNotAllowed | NoShare bool | NoHost | Refused | Unreachable | BadVersion | OtherFailure

text \<open>An error is its text up to the part that comes from outside, or the reply of Google Drive.\<close>

datatype xerr = XErr string | DriveApi string nat | Explained reason

type_synonym 'a xact = "(xerr, xworld, 'a) action"

section \<open>Actions\<close>

definition must_be :: "bool \<Rightarrow> string \<Rightarrow> unit xact" where
  "must_be b what = (if b then ret () else fail (XErr what))"

definition files_of :: "xworld \<Rightarrow> xfiles" where "files_of w = (xw_conf w, xw_temp w)"

definition issue_call :: "xenv \<Rightarrow> xcall \<Rightarrow> cmd_result xact" where
  "issue_call env c w = (Inr (x_run env (files_of w) (xw_log w) c), w\<lparr>xw_log := xw_log w @ [c]\<rparr>)"

definition command :: "xenv \<Rightarrow> string \<Rightarrow> bool \<Rightarrow> string list \<Rightarrow> string xact" where
  "command env what sudo args =
     andthen (issue_call env (XCmd sudo args [])) (\<lambda>r. if cr_ok r then ret (cr_out r) else fail (XErr what))"

definition http :: "xenv \<Rightarrow> string \<Rightarrow> hreq \<Rightarrow> (nat \<times> string) xact" where
  "http env what q w =
     (if \<not> x_request_ok env (hq_url q) then (Inl (XErr what), w)
      else case x_http env (xw_log w) q of
        None \<Rightarrow> (Inl (XErr what), w\<lparr>xw_log := xw_log w @ [XHttp q]\<rparr>)
      | Some r \<Rightarrow> (Inr r, w\<lparr>xw_log := xw_log w @ [XHttp q]\<rparr>))"

definition ok_status :: "nat \<Rightarrow> bool" where
  "ok_status s \<longleftrightarrow> 200 \<le> s \<and> s < 300"

text \<open>A query and a statement of the database.\<close>

definition ask :: "string \<Rightarrow> (xworld \<Rightarrow> db_err + 'a) \<Rightarrow> 'a xact" where
  "ask what q w = (case q w of Inl _ \<Rightarrow> (Inl (XErr what), w) | Inr x \<Rightarrow> (Inr x, w))"

definition put :: "string \<Rightarrow> (xworld \<Rightarrow> db_err + xworld) \<Rightarrow> unit xact" where
  "put what q w = (case q w of Inl _ \<Rightarrow> (Inl (XErr what), w) | Inr w' \<Rightarrow> (Inr (), w'))"

definition on_rows :: "(storage list \<Rightarrow> db_err + storage list) \<Rightarrow> xworld \<Rightarrow> db_err + xworld" where
  "on_rows f w = (case f (xw_storages w) of Inl e \<Rightarrow> Inl e | Inr t \<Rightarrow> Inr (w\<lparr>xw_storages := t\<rparr>))"

definition UpdateRuntime :: "xenv \<Rightarrow> storage \<Rightarrow> string \<Rightarrow> storage_status \<Rightarrow> int \<Rightarrow> int \<Rightarrow> unit xact" where
  "UpdateRuntime env item m s tot fre =
     put ''update runtime'' (on_rows (storage_UpdateRuntime (x_up env XRuntime) (x_now env) (st_id item) m s tot fre (st_extra item)))"

lemma wp_must_be [wp_simps]: "wp (must_be b e) Q w = (if b then Q (Inr ()) w else Q (Inl (XErr e)) w)"
  by (simp add: must_be_def wp_simps)

lemma wp_run [wp_simps]: "wp (issue_call env c) Q w = Q (Inr (x_run env (files_of w) (xw_log w) c)) (w\<lparr>xw_log := xw_log w @ [c]\<rparr>)"
  by (simp add: wp_def issue_call_def)

lemma wp_command [wp_simps]:
  "wp (command env e s args) Q w = (case x_run env (files_of w) (xw_log w) (XCmd s args []) of r \<Rightarrow>
     Q (if cr_ok r then Inr (cr_out r) else Inl (XErr e)) (w\<lparr>xw_log := xw_log w @ [XCmd s args []]\<rparr>))"
  by (simp add: command_def wp_simps Let_def)

lemma wp_http [wp_simps]:
  "wp (http env e q) Q w =
     (if \<not> x_request_ok env (hq_url q) then Q (Inl (XErr e)) w
      else Q (case x_http env (xw_log w) q of None \<Rightarrow> Inl (XErr e) | Some r \<Rightarrow> Inr r) (w\<lparr>xw_log := xw_log w @ [XHttp q]\<rparr>))"
  by (simp add: wp_def http_def split: option.split)

lemma wp_ask [wp_simps]: "wp (ask e q) Q w = Q (case q w of Inl _ \<Rightarrow> Inl (XErr e) | Inr x \<Rightarrow> Inr x) w"
  by (simp add: wp_def ask_def split: sum.split)

lemma wp_put [wp_simps]: "wp (put e q) Q w = (case q w of Inl _ \<Rightarrow> Q (Inl (XErr e)) w | Inr w' \<Rightarrow> Q (Inr ()) w')"
  by (simp add: wp_def put_def split: sum.split)

section \<open>Tokens (tokens.go)\<close>

definition select_row :: "bool \<Rightarrow> ('r \<Rightarrow> bool) \<Rightarrow> 'r list \<Rightarrow> db_err + 'r option" where
  \<comment> \<open>\<open>sql.ErrNoRows\<close> is no error.\<close>
  "select_row up p t = (if up then Inr (find p t) else Inl DbFail)"

definition GetTokenByStorageID :: "xenv \<Rightarrow> string \<Rightarrow> token option xact" where
  "GetTokenByStorageID env storageID =
     ask ''token'' (\<lambda>w. select_row (x_up env XToken) (\<lambda>t. tk_storage t = storageID) (xw_tokens w))"

text \<open>The insertion with \<open>ON CONFLICT(storage_id) DO UPDATE\<close>: the id of the row stays.\<close>

definition insert_token :: "bool \<Rightarrow> token \<Rightarrow> xworld \<Rightarrow> db_err + xworld" where
  "insert_token up item w =
     (if \<not> up then Inl DbFail
      else if \<exists>t\<in>set (xw_tokens w). tk_storage t = tk_storage item then
        Inr (w\<lparr>xw_tokens := tbl_upd (\<lambda>t. tk_storage t = tk_storage item) (\<lambda>t. item\<lparr>tk_id := tk_id t\<rparr>) (xw_tokens w)\<rparr>)
      else if tk_storage item \<notin> st_id ` set (xw_storages w) \<or> tk_id item \<in> tk_id ` set (xw_tokens w) then Inl Constraint
      else Inr (w\<lparr>xw_tokens := xw_tokens w @ [item]\<rparr>))"

definition UpsertToken :: "xenv \<Rightarrow> token \<Rightarrow> string xact" where
  "UpsertToken env item0 =
     andthen
       (if tk_id item0 = [] then
          andthen (GetTokenByStorageID env (tk_storage item0)) (\<lambda>existing.
            ret (case existing of None \<Rightarrow> item0\<lparr>tk_id := x_id env ''token''\<rparr> | Some t \<Rightarrow> item0\<lparr>tk_id := tk_id t\<rparr>))
        else ret item0)
       (\<lambda>item. andthen (put ''upsert token'' (insert_token (x_up env XUpsert) item)) (\<lambda>_. ret (tk_id item)))"

definition DeleteTokenByStorageID :: "xenv \<Rightarrow> string \<Rightarrow> unit xact" where
  "DeleteTokenByStorageID env storageID =
     put ''delete storage token'' (\<lambda>w. if x_up env XDelToken then Inr (w\<lparr>xw_tokens := tbl_del (\<lambda>t. tk_storage t = storageID) (xw_tokens w)\<rparr>)
       else Inl DbFail)"

section \<open>The tables of the broker (oauth_broker.go)\<close>

definition getOAuthBrokerConnection :: "xenv \<Rightarrow> string \<Rightarrow> broker_connection option xact" where
  "getOAuthBrokerConnection env baseURL =
     ask ''connection'' (\<lambda>w. select_row (x_up env XConn) (\<lambda>c. bn_base c = strip_slashes baseURL) (xw_conns w))"

definition saveOAuthBrokerConnection :: "xenv \<Rightarrow> broker_connection \<Rightarrow> unit xact" where
  "saveOAuthBrokerConnection env item =
     put ''save connection'' (\<lambda>w. case insert_row (x_up env XSaveConn) (\<lambda>a b. bn_id a = bn_id b \<or> bn_base a = bn_base b)
         (item\<lparr>bn_registered := None, bn_auth := None\<rparr>) (xw_conns w) of
       Inl e \<Rightarrow> Inl e | Inr t \<Rightarrow> Inr (w\<lparr>xw_conns := t\<rparr>))"

definition saveOAuthBrokerSession :: "xenv \<Rightarrow> broker_session \<Rightarrow> unit xact" where
  "saveOAuthBrokerSession env item =
     put ''save oauth broker session'' (\<lambda>w.
       if \<not> x_up env XSaveSession then Inl DbFail
       else if \<exists>s\<in>set (xw_sessions w). bs_id s = bs_id item then
         Inr (w\<lparr>xw_sessions := tbl_upd (\<lambda>s. bs_id s = bs_id item)
           (\<lambda>s. s\<lparr>bs_status := bs_status item, bs_url := bs_url item, bs_expires := bs_expires item\<rparr>) (xw_sessions w)\<rparr>)
       else Inr (w\<lparr>xw_sessions := xw_sessions w @ [item]\<rparr>))"

definition getOAuthBrokerSession :: "xenv \<Rightarrow> string \<Rightarrow> broker_session xact" where
  "getOAuthBrokerSession env sessionID =
     andthen (ask ''session'' (\<lambda>w. select_row (x_up env XSession) (\<lambda>s. bs_id s = trim sessionID) (xw_sessions w)))
       (\<lambda>s. some_or s (XErr ''oauth session not found''))"

definition updateOAuthBrokerSessionStatus :: "xenv \<Rightarrow> string \<Rightarrow> string \<Rightarrow> unit xact" where
  "updateOAuthBrokerSessionStatus env sessionID status =
     put ''update session'' (\<lambda>w. if x_up env (XStatus status)
       then Inr (w\<lparr>xw_sessions := tbl_upd (\<lambda>s. bs_id s = trim sessionID) (\<lambda>s. s\<lparr>bs_status := trim status\<rparr>) (xw_sessions w)\<rparr>)
       else Inl DbFail)"

definition getOAuthBrokerStorageToken :: "xenv \<Rightarrow> string \<Rightarrow> broker_token option xact" where
  "getOAuthBrokerStorageToken env storageID =
     ask ''broker token'' (\<lambda>w. select_row (x_up env XBroker) (\<lambda>t. bt_storage t = storageID) (xw_brokers w))"

definition deleteOAuthBrokerStorageToken :: "xenv \<Rightarrow> string \<Rightarrow> unit xact" where
  "deleteOAuthBrokerStorageToken env storageID =
     put ''delete oauth broker storage token'' (\<lambda>w. if x_up env XDelBroker
       then Inr (w\<lparr>xw_brokers := tbl_del (\<lambda>t. bt_storage t = trim storageID) (xw_brokers w)\<rparr>) else Inl DbFail)"

definition deleteOAuthBrokerSessionsByStorageID :: "xenv \<Rightarrow> string \<Rightarrow> unit xact" where
  "deleteOAuthBrokerSessionsByStorageID env storageID =
     put ''delete oauth broker sessions'' (\<lambda>w. if x_up env XDelSessions
       then Inr (w\<lparr>xw_sessions := tbl_del (\<lambda>s. bs_storage s = trim storageID) (xw_sessions w)\<rparr>) else Inl DbFail)"

end
