(* ===== verification/Cloud_Drive.thy ===== *)
theory Cloud_Drive
  imports Cloud_World Pool_List
begin

text \<open>
  internal/storage/google_drive.go: \<open>rclone.conf\<close>, mounts, tokens that expire, uploads and the end of a
  cloud storage.  Left out: the benchmark and its progress.
\<close>

section \<open>rclone.conf\<close>

definition write_conf :: "xenv \<Rightarrow> string \<Rightarrow> unit xact" where
  "write_conf env text = andthen (must_be (x_up env XWriteConf) ''write config'') (\<lambda>_ w. (Inr (), w\<lparr>xw_conf := Some text\<rparr>))"

definition read_conf :: "xenv \<Rightarrow> string option xact" where
  "read_conf env = andthen (must_be (x_up env XReadConf) ''read config'') (\<lambda>_. reading xw_conf)"

text \<open>What the token of a storage and the broker's row say of the remote.\<close>

record remote_config =
  rm_type :: string
  rm_scope :: string
  rm_client :: string
  rm_secret :: string
  rm_url :: string

definition raw_config :: "xenv \<Rightarrow> token \<Rightarrow> remote_config" where
  "raw_config env tok =
     (let none = \<lparr>rm_type = ''drive'', rm_scope = ''drive'', rm_client = [], rm_secret = [], rm_url = []\<rparr> in
      if trim (tk_raw tok) = [] then none
      else (case x_json env (tk_raw tok) of
              Some (JObject fs) \<Rightarrow>
                (let raw = JObject fs; get = (\<lambda>k. stringFromAny (json_field k raw)) in
                 \<lparr>rm_type = firstNonEmpty_of [get ''type'', ''drive''], rm_scope = firstNonEmpty_of [get ''scope'', ''drive''],
                  rm_client = get ''client_id'', rm_secret = get ''client_secret'', rm_url = get ''token_url''\<rparr>)
            | _ \<Rightarrow> none))"

definition config_line :: "string \<Rightarrow> string \<Rightarrow> string" where
  "config_line key value = key @ '' = '' @ value @ [newline]"

definition config_section :: "xenv \<Rightarrow> storage \<Rightarrow> token \<Rightarrow> remote_config \<Rightarrow> string" where
  "config_section env item tok c =
     header_of (cloudRemoteName (st_provider item) (st_id item)) @ [newline] @
     config_line ''type'' (rm_type c) @ config_line ''scope'' (rm_scope c) @
     (if rm_client c \<noteq> [] then config_line ''client_id'' (rm_client c) else []) @
     (if rm_secret c \<noteq> [] then config_line ''client_secret'' (rm_secret c) else []) @
     config_line ''token_url'' (rm_url c) @
     config_line ''token'' (x_marshal env (JObject
       [(''access_token'', JString (tk_access tok)), (''expiry'', JString (derefString (tk_expiry tok))),
        (''refresh_token'', JString (tk_refresh tok)), (''token_type'', JString (tk_type tok))])) @
     (let rootPath = trim (st_root item) in
      if st_provider item = ''google_drive'' \<and> rootPath \<noteq> [] \<and> rootPath \<noteq> ''root''
      then config_line ''root_folder_id'' rootPath else [])"

definition upsertGoogleDriveRcloneConfig :: "xenv \<Rightarrow> storage \<Rightarrow> token \<Rightarrow> unit xact" where
  "upsertGoogleDriveRcloneConfig env item tok =
     andthen (must_be (x_up env XMkdir) ''config directory'') (\<lambda>_.
     andthen (attempt (getOAuthBrokerStorageToken env (st_id item))) (\<lambda>broker.
       let c0 = raw_config env tok;
           c = (case broker of Inr (Some b) \<Rightarrow> c0\<lparr>rm_url := firstNonEmpty_of [bt_url b, rm_url c0]\<rparr> | _ \<Rightarrow> c0) in
       andthen (must_be (rm_url c \<noteq> []) ''oauth broker rclone token_url is missing'') (\<lambda>_.
       andthen (read_conf env) (\<lambda>content.
       write_conf env (upsertINISection (case content of None \<Rightarrow> [] | Some s \<Rightarrow> s)
         (cloudRemoteName (st_provider item) (st_id item)) (trim (config_section env item tok c)))))))"

definition removeGoogleDriveRcloneConfig :: "xenv \<Rightarrow> string \<Rightarrow> string \<Rightarrow> unit xact" where
  "removeGoogleDriveRcloneConfig env provider storageID =
     andthen (read_conf env) (\<lambda>content.
       case content of
         None \<Rightarrow> ret ()
       | Some s \<Rightarrow> write_conf env (removeINISection s (cloudRemoteName provider storageID)))"

section \<open>Mounts\<close>

definition ensureGoogleDriveMountRoot :: "xenv \<Rightarrow> unit xact" where
  "ensureGoogleDriveMountRoot env =
     andthen (command env ''create google drive mount root'' True [''mkdir'', ''-p'', defaultGoogleDriveMountRoot]) (\<lambda>_.
     andthen (command env ''chmod google drive mount root'' True [''chmod'', ''0777'', defaultGoogleDriveMountRoot]) (\<lambda>_. ret ()))"

definition ensureGoogleDriveMountPath :: "xenv \<Rightarrow> string \<Rightarrow> unit xact" where
  "ensureGoogleDriveMountPath env m =
     andthen (must_be (trim m \<noteq> []) ''mount path is required'') (\<lambda>_.
     andthen (ensureGoogleDriveMountRoot env) (\<lambda>_.
     andthen (command env ''create google drive mount path'' True [''mkdir'', ''-p'', m]) (\<lambda>_.
     andthen (command env ''chmod google drive mount path'' True [''chmod'', ''0777'', m]) (\<lambda>_. ret ()))))"

text \<open>The first line of the mount table with the path: is it there, and may others use it?\<close>

definition googleDriveMountStatus :: "xenv \<Rightarrow> string \<Rightarrow> (bool \<times> bool) xact" where
  "googleDriveMountStatus env m =
     andthen (issue_call env (XCmd False [''mount''] [])) (\<lambda>r.
       if \<not> cr_ok r then ret (False, False)
       else ret (case find (contains_sub ('' on '' @ m @ '' '')) (split_on newline (cr_out r)) of
                   None \<Rightarrow> (False, False)
                 | Some line \<Rightarrow> (True, contains_sub ''allow_other'' line)))"

definition isGoogleDriveMounted :: "xenv \<Rightarrow> string \<Rightarrow> bool xact" where
  "isGoogleDriveMounted env m = andthen (googleDriveMountStatus env m) (\<lambda>s. ret (fst s))"

definition unmountGoogleDrive :: "xenv \<Rightarrow> string \<Rightarrow> unit xact" where
  "unmountGoogleDrive env m =
     andthen (must_be (trim m \<noteq> []) ''mount path is required'') (\<lambda>_.
     andthen (command env ''unmount google drive'' True [''umount'', m]) (\<lambda>_. ret ()))"

definition mountGoogleDrive :: "xenv \<Rightarrow> string \<Rightarrow> string \<Rightarrow> unit xact" where
  "mountGoogleDrive env remote m =
     andthen (command env ''mount'' False [''rclone'', ''mount'', remote, m, ''--config'', x_conf_path env, ''--daemon'',
       ''--daemon-timeout'', ''15s'', ''--allow-other'', ''--umask'', ''000'', ''--vfs-cache-mode'', ''writes'',
       ''--dir-cache-time'', ''1m'', ''--poll-interval'', ''30s'']) (\<lambda>_. ret ())"

text \<open>
  The storage as the caller has it afterwards, and the error.  \<open>broken\<close> is what each failure does: the
  row gets the status error (whether or not that works).
\<close>

definition broken :: "xenv \<Rightarrow> storage \<Rightarrow> string \<Rightarrow> (storage \<times> xerr option) xact" where
  "broken env item what =
     andthen (ignoring (UpdateRuntime env item (st_mount item) StError (st_total item) (st_free item))) (\<lambda>_.
     ret (item\<lparr>st_status := StError\<rparr>, Some (XErr what)))"

text \<open>The rest of an operation after a step whose failure breaks the storage.\<close>

definition or_broken :: "xenv \<Rightarrow> storage \<Rightarrow> string \<Rightarrow> unit xact \<Rightarrow> (storage \<times> xerr option) xact \<Rightarrow> (storage \<times> xerr option) xact" where
  "or_broken env item what step rest =
     andthen (attempt step) (\<lambda>r. case r of Inl _ \<Rightarrow> broken env item what | Inr _ \<Rightarrow> rest)"

definition mount_again :: "xenv \<Rightarrow> storage \<Rightarrow> string \<Rightarrow> (storage \<times> xerr option) xact" where
  "mount_again env item desired =
     or_broken env item ''prepare google drive mount path'' (ensureGoogleDriveMountPath env (st_mount item))
     (or_broken env item ''mount google drive'' (mountGoogleDrive env (cloudRemoteName (st_provider item) (st_id item) @ '':'') (st_mount item))
     (andthen (attempt (UpdateRuntime env item desired Online (st_total item) (st_free item))) (\<lambda>r.
        case r of
          Inl _ \<Rightarrow> ret (item, Some (XErr ''update google drive runtime after mount''))
        | Inr _ \<Rightarrow> ret (item\<lparr>st_mount := desired, st_status := Online\<rparr>, None))))"

definition EnsureGoogleDriveMounted :: "xenv \<Rightarrow> storage \<Rightarrow> token \<Rightarrow> (storage \<times> xerr option) xact" where
  "EnsureGoogleDriveMounted env item0 tok =
     (if \<not> isOAuthBrokerCloudProvider (st_provider item0) then ret (item0, None)
      else
        (let desired = cloudMountPath (st_provider item0) (st_id item0);
             item = (if \<not> has_prefix ''/'' (trim (st_mount item0)) then item0\<lparr>st_mount := desired\<rparr> else item0) in
         or_broken env item ''prepare google drive mount root'' (ensureGoogleDriveMountRoot env)
         (or_broken env item ''write google drive rclone config'' (upsertGoogleDriveRcloneConfig env item tok)
         (andthen (googleDriveMountStatus env (st_mount item)) (\<lambda>(mounted, shareable).
            if mounted \<and> shareable then
              (if st_mount item \<noteq> desired \<or> st_status item \<noteq> Online then
                 andthen (attempt (UpdateRuntime env item desired Online (st_total item) (st_free item))) (\<lambda>r.
                   ret (case r of Inl _ \<Rightarrow> item | Inr _ \<Rightarrow> item\<lparr>st_mount := desired, st_status := Online\<rparr>, None))
               else ret (item, None))
            else if mounted then
              or_broken env item ''remount google drive with smb access'' (unmountGoogleDrive env (st_mount item)) (mount_again env item desired)
            else mount_again env item desired)))))"

section \<open>Tokens\<close>

definition unauthorized :: "xerr \<Rightarrow> bool" where
  "unauthorized e \<longleftrightarrow> (case e of DriveApi _ s \<Rightarrow> s = 401 | _ \<Rightarrow> False)"

definition bearer_of :: "string \<Rightarrow> string \<times> string" where
  "bearer_of access = (''Authorization'', ''Bearer '' @ trim access)"

text \<open>A request to Google Drive: the body of a reply with a good status.\<close>

definition drive_call :: "xenv \<Rightarrow> string \<Rightarrow> hreq \<Rightarrow> string xact" where
  "drive_call env what q =
     andthen (http env what q) (\<lambda>(s, body). if ok_status s then ret body else fail (DriveApi what s))"

definition decoded :: "xenv \<Rightarrow> string \<Rightarrow> (json \<Rightarrow> 'a option) \<Rightarrow> string \<Rightarrow> 'a xact" where
  "decoded env what f body =
     (case x_json env body of
        None \<Rightarrow> fail (XErr what)
      | Some j \<Rightarrow> if is_struct j then some_or (f j) (XErr what) else fail (XErr what))"

definition user_email :: "json \<Rightarrow> string option" where
  "user_email j = (let u = json_field ''user'' j in if is_struct u then json_text ''emailAddress'' u else None)"

definition fetchGoogleDriveAccountEmail :: "xenv \<Rightarrow> string \<Rightarrow> string xact" where
  "fetchGoogleDriveAccountEmail env access =
     andthen (must_be (trim access \<noteq> []) ''google drive access token is missing'') (\<lambda>_.
     andthen (drive_call env ''google drive about''
       \<lparr>hq_method = ''GET'', hq_url = ''https://www.googleapis.com/drive/v3/about?fields=user(emailAddress)'',
        hq_headers = [bearer_of access], hq_body = NoBody\<rparr>) (\<lambda>body.
     andthen (decoded env ''decode google drive about'' user_email body) (\<lambda>email.
     andthen (must_be (trim email \<noteq> []) ''google drive about does not include email'') (\<lambda>_. ret (trim email)))))"

definition refresh_url :: "xenv \<Rightarrow> token \<Rightarrow> xerr + broker_token option \<Rightarrow> string" where
  "refresh_url env tok broker =
     (let u = (case broker of Inr (Some b) \<Rightarrow> bt_url b | _ \<Rightarrow> []) in
      if u = [] \<and> trim (tk_raw tok) \<noteq> [] then
        (case x_json env (tk_raw tok) of Some (JObject fs) \<Rightarrow> stringFromAny (json_field ''token_url'' (JObject fs)) | _ \<Rightarrow> [])
      else u)"

record token_reply =
  tr_access :: string
  tr_refresh :: string
  tr_scope :: string
  tr_type :: string
  tr_expires :: int

definition token_reply_of :: "json \<Rightarrow> token_reply option" where
  "token_reply_of j =
     (case (json_text ''access_token'' j, json_text ''refresh_token'' j, json_text ''scope'' j, json_text ''token_type'' j,
            json_int ''expires_in'' j) of
        (Some a, Some r, Some s, Some t, Some e) \<Rightarrow>
          Some \<lparr>tr_access = a, tr_refresh = r, tr_scope = s, tr_type = t, tr_expires = e\<rparr>
      | _ \<Rightarrow> None)"

definition tokenExpiryString :: "xenv \<Rightarrow> token_reply \<Rightarrow> string" where
  "tokenExpiryString env r = (if tr_expires r \<le> 0 then [] else x_after env (tr_expires r))"

definition refreshed_token :: "xenv \<Rightarrow> string \<Rightarrow> token \<Rightarrow> string \<Rightarrow> token_reply \<Rightarrow> token" where
  "refreshed_token env storageID tok refreshURL r =
     (let access = trim (tr_access r); refresh = (if trim (tr_refresh r) \<noteq> [] then trim (tr_refresh r) else tk_refresh tok);
          kind = firstNonEmpty_of [trim (tr_type r), trim (tk_type tok), ''Bearer'']; scope = firstNonEmpty_of [trim (tr_scope r), trim (tk_scope tok)];
          expiry = tokenExpiryString env r in
      tok\<lparr>tk_storage := storageID, tk_access := access, tk_refresh := refresh, tk_type := kind, tk_scope := scope,
        tk_expiry := stringPtr expiry,
        tk_raw := x_marshal env (JObject [(''access_token'', JString access), (''expiry'', JString expiry),
          (''refresh_token'', JString refresh), (''scope'', JString scope), (''token_type'', JString kind),
          (''token_url'', JString refreshURL)])\<rparr>)"

definition refreshGoogleDriveToken :: "xenv \<Rightarrow> string \<Rightarrow> token \<Rightarrow> token xact" where
  "refreshGoogleDriveToken env storageID tok =
     (let refreshToken = trim (tk_refresh tok) in
      andthen (must_be (refreshToken \<noteq> []) ''google drive refresh token is missing'') (\<lambda>_.
      andthen (attempt (getOAuthBrokerStorageToken env storageID)) (\<lambda>broker.
        let refreshURL = refresh_url env tok broker in
        andthen (must_be (refreshURL \<noteq> []) ''oauth broker rclone token_url is missing'') (\<lambda>_.
        andthen (http env ''refresh google drive token''
          \<lparr>hq_method = ''POST'', hq_url = refreshURL, hq_headers = [(''Content-Type'', ''application/x-www-form-urlencoded'')],
           hq_body = FormBody [(''grant_type'', ''refresh_token''), (''refresh_token'', refreshToken)]\<rparr>) (\<lambda>(s, body).
        andthen (must_be (ok_status s) ''google drive token refresh failed'') (\<lambda>_.
        andthen (decoded env ''decode google drive refresh response'' token_reply_of body) (\<lambda>r.
        andthen (must_be (trim (tr_access r) \<noteq> []) ''google drive refresh response missing access_token'') (\<lambda>_.
          let updated = refreshed_token env storageID tok refreshURL r in
          andthen (UpsertToken env updated) (\<lambda>_. ret updated)))))))))"

definition BackfillGoogleDriveAccountEmail :: "xenv \<Rightarrow> storage \<Rightarrow> storage xact" where
  "BackfillGoogleDriveAccountEmail env item =
     (if st_provider item \<noteq> ''google_drive'' \<or> trim (st_username item) \<noteq> [] then ret item
      else
        (let found = (\<lambda>r. case r of
                Inr email \<Rightarrow>
                  if trim email = [] then ret item
                  else andthen (ignoring (put ''identity'' (on_rows (storage_UpdateIdentity (x_up env XIdentity) (x_now env) (st_id item) email))))
                    (\<lambda>_. ret (item\<lparr>st_username := email\<rparr>))
              | Inl _ \<Rightarrow> ret item) in
         andthen (attempt (GetTokenByStorageID env (st_id item))) (\<lambda>t.
           case t of
             Inr (Some tok) \<Rightarrow>
               if trim (tk_access tok) = [] then ret item
               else andthen (attempt (fetchGoogleDriveAccountEmail env (tk_access tok))) (\<lambda>r.
                 case r of
                   Inl e \<Rightarrow>
                     if unauthorized e then
                       andthen (attempt (refreshGoogleDriveToken env (st_id item) tok)) (\<lambda>u.
                         case u of
                           Inl _ \<Rightarrow> ret item
                         | Inr tok2 \<Rightarrow> andthen (attempt (fetchGoogleDriveAccountEmail env (tk_access tok2))) found)
                     else ret item
                 | Inr email \<Rightarrow> found (Inr email))
           | _ \<Rightarrow> ret item)))"

section \<open>Usage\<close>

record usage =
  us_total :: int
  us_used :: int
  us_free :: int

definition about_of :: "json \<Rightarrow> usage option" where
  "about_of j =
     (case (json_int ''total'' j, json_int ''used'' j, json_int ''free'' j, json_int ''trashed'' j, json_int ''other'' j) of
        (Some t, Some u, Some f, Some _, Some _) \<Rightarrow> Some \<lparr>us_total = t, us_used = u, us_free = f\<rparr>
      | _ \<Rightarrow> None)"

definition filled_usage :: "usage \<Rightarrow> usage" where
  "filled_usage u0 =
     (let u = (if us_total u0 \<le> 0 \<and> us_used u0 > 0 \<and> us_free u0 > 0 then u0\<lparr>us_total := int64 (us_used u0 + us_free u0)\<rparr> else u0) in
      if us_free u \<le> 0 \<and> us_total u > us_used u then u\<lparr>us_free := int64 (us_total u - us_used u)\<rparr> else u)"

definition RefreshGoogleDriveUsage :: "xenv \<Rightarrow> storage \<Rightarrow> (storage \<times> xerr option) xact" where
  "RefreshGoogleDriveUsage env item =
     (if \<not> isOAuthBrokerCloudProvider (st_provider item) then ret (item, Some (XErr ''cloud storage is required''))
      else
        andthen (attempt
          (andthen (command env ''rclone about cloud storage'' False [''rclone'', ''about'',
             cloudRemoteName (st_provider item) (st_id item) @ '':'', ''--json'', ''--config'', x_conf_path env]) (\<lambda>out.
           decoded env ''decode rclone about cloud storage'' about_of out))) (\<lambda>r.
        case r of
          Inl e \<Rightarrow> ret (item, Some e)
        | Inr about \<Rightarrow>
            (let u = filled_usage about; item' = item\<lparr>st_total := us_total u, st_free := us_free u, st_status := Online\<rparr> in
             andthen (attempt (UpdateRuntime env item' (st_mount item') Online (us_total u) (us_free u))) (\<lambda>s.
               ret (item', case s of Inl _ \<Rightarrow> Some (XErr ''update google drive usage'') | Inr _ \<Rightarrow> None)))))"

section \<open>The end of a cloud storage\<close>

definition CleanupOAuthBrokerCloudStorage :: "xenv \<Rightarrow> storage \<Rightarrow> unit xact" where
  "CleanupOAuthBrokerCloudStorage env item =
     (if \<not> isOAuthBrokerCloudProvider (st_provider item) then ret ()
      else
        (let m = trim (st_mount item) in
         andthen (if m = [] then ret ()
                  else andthen (googleDriveMountStatus env m) (\<lambda>(mounted, _). if mounted then unmountGoogleDrive env m else ret ())) (\<lambda>_.
         andthen (removeGoogleDriveRcloneConfig env (st_provider item) (st_id item)) (\<lambda>_.
         andthen (DeleteTokenByStorageID env (st_id item)) (\<lambda>_.
         andthen (deleteOAuthBrokerStorageToken env (st_id item)) (\<lambda>_.
         deleteOAuthBrokerSessionsByStorageID env (st_id item)))))))"

end
