(* ===== verification/Cloud_Upload.thy ===== *)
theory Cloud_Upload
  imports Cloud_Drive
begin

text \<open>
  Uploads to Google Drive (internal/storage/google_drive.go): the folder of the target, the check for a
  file of that name, the multipart request, and one retry with a new token.  A request carries what is
  left of its source: reading moves the position (\<open>xw_read\<close>), and only \<open>Seek\<close> brings it back.  A request
  whose source cannot be read is cut off before the service has all of it, and is not in the log.
\<close>

record source =
  sr_content :: string
  sr_readable :: bool
  sr_seek :: "bool option"

definition folder_type :: string where "folder_type = ''application/vnd.google-apps.folder''"

definition files_url :: string where "files_url = ''https://www.googleapis.com/drive/v3/files''"

text \<open>The id of the first file of a reply.\<close>

definition file_id :: "json \<Rightarrow> string option" where
  "file_id v = (if is_struct v then (case json_text ''name'' v of None \<Rightarrow> None | Some _ \<Rightarrow> json_text ''id'' v) else None)"

definition first_file :: "json \<Rightarrow> string option" where
  "first_file j =
     (case json_field ''files'' j of
        JNull \<Rightarrow> Some []
      | JArray vs \<Rightarrow> if None \<in> set (map file_id vs) then None else Some (case vs of [] \<Rightarrow> [] | v # _ \<Rightarrow> trim (the (file_id v)))
      | _ \<Rightarrow> None)"

definition child_query :: "string \<Rightarrow> string \<Rightarrow> string \<Rightarrow> string" where
  "child_query parentID name mimeType =
     ''name = '' @ [quote1] @ escapeGoogleDriveQueryValue name @ [quote1] @ '' and '' @ [quote1] @ escapeGoogleDriveQueryValue parentID @
     [quote1] @ '' in parents and trashed = false'' @
     (if trim mimeType \<noteq> [] then '' and mimeType = '' @ [quote1] @ escapeGoogleDriveQueryValue mimeType @ [quote1] else [])"

definition findGoogleDriveChild :: "xenv \<Rightarrow> token \<Rightarrow> string \<Rightarrow> string \<Rightarrow> string \<Rightarrow> string xact" where
  "findGoogleDriveChild env tok parentID name mimeType =
     andthen (drive_call env ''google drive child lookup''
       \<lparr>hq_method = ''GET'',
        hq_url = files_url @ ''?'' @ x_query env [(''fields'', ''files(id,name)''), (''pageSize'', ''1''), (''q'', child_query parentID name mimeType)],
        hq_headers = [bearer_of (tk_access tok)], hq_body = NoBody\<rparr>) (\<lambda>body.
     decoded env ''decode google drive child lookup'' first_file body)"

definition createGoogleDriveFolder :: "xenv \<Rightarrow> token \<Rightarrow> string \<Rightarrow> string \<Rightarrow> string xact" where
  "createGoogleDriveFolder env tok parentID name =
     andthen (drive_call env ''google drive folder create''
       \<lparr>hq_method = ''POST'', hq_url = files_url,
        hq_headers = [bearer_of (tk_access tok), (''Content-Type'', ''application/json'')],
        hq_body = JsonBody (JObject [(''mimeType'', JString folder_type), (''name'', JString name), (''parents'', JArray [JString parentID])])\<rparr>) (\<lambda>body.
     andthen (decoded env ''decode google drive folder create response'' file_id body) (\<lambda>i.
     andthen (must_be (trim i \<noteq> []) ''google drive folder create response missing id'') (\<lambda>_. ret (trim i))))"

fun ensure_folders :: "xenv \<Rightarrow> token \<Rightarrow> string \<Rightarrow> string list \<Rightarrow> string xact" where
  "ensure_folders env tok parentID [] = ret parentID"
| "ensure_folders env tok parentID (segment # segments) =
     (let name = trim segment in
      if name = [] \<or> name = ''.'' then ensure_folders env tok parentID segments
      else andthen (findGoogleDriveChild env tok parentID name folder_type) (\<lambda>existing.
           andthen (if existing = [] then createGoogleDriveFolder env tok parentID name else ret existing) (\<lambda>next_id.
           ensure_folders env tok next_id segments)))"

definition ensureGoogleDriveParentPath :: "xenv \<Rightarrow> storage \<Rightarrow> token \<Rightarrow> string \<Rightarrow> string xact" where
  "ensureGoogleDriveParentPath env item tok relativeDir =
     (let parentID = normalizeGoogleDriveRootPath (st_root item); dir = Clean (trim relativeDir) in
      if dir = ''.'' then ret parentID else ensure_folders env tok parentID (split_on slash dir))"

definition upload_url :: string where "upload_url = ''https://www.googleapis.com/upload/drive/v3/files?uploadType=multipart''"

definition upload_request :: "xenv \<Rightarrow> token \<Rightarrow> string \<Rightarrow> string \<Rightarrow> string \<Rightarrow> string \<Rightarrow> hreq" where
  "upload_request env tok parentID name contentType content =
     \<lparr>hq_method = ''POST'', hq_url = upload_url,
      hq_headers = [bearer_of (tk_access tok), (''Content-Type'', ''multipart/form-data; boundary='' @ x_boundary env)],
      hq_body = Multipart (JObject [(''name'', JString name), (''parents'', JArray [JString parentID])]) contentType content\<rparr>"

definition seek_to :: "nat \<Rightarrow> unit xact" where
  "seek_to n w = (Inr (), w\<lparr>xw_read := n\<rparr>)"

lemma wp_seek_to [wp_simps]: "wp (seek_to n) Q w = Q (Inr ()) (w\<lparr>xw_read := n\<rparr>)"
  by (simp add: wp_def seek_to_def)

text \<open>
  Writing the body runs beside the request.  When the service replies before it has read all of it, the
  writer fails, and its error hides the reply.  The source then is not at its end, but it is not read
  again either: only a reply to the whole request can lead to a second round.
\<close>

definition uploadGoogleDriveMultipartReader ::
  "xenv \<Rightarrow> token \<Rightarrow> string \<Rightarrow> string \<Rightarrow> string \<Rightarrow> source \<Rightarrow> unit xact" where
  "uploadGoogleDriveMultipartReader env tok parentID name contentType src =
     andthen (must_be (sr_readable src) ''write google drive file part'') (\<lambda>_.
     andthen (reading (\<lambda>w. drop (xw_read w) (sr_content src))) (\<lambda>content.
     andthen (seek_to (length (sr_content src))) (\<lambda>_.
      let q = upload_request env tok parentID name contentType content in
      andthen (reading (\<lambda>w. x_drained env (xw_log w) q)) (\<lambda>drained.
      andthen (http env ''upload file to google drive'' q) (\<lambda>(s, body).
      andthen (must_be drained ''write google drive file part'') (\<lambda>_.
      if ok_status s then ret () else fail (DriveApi ''google drive upload'' s)))))))"

text \<open>One round of the loop, after the source is at its start.\<close>

definition upload_once :: "xenv \<Rightarrow> storage \<Rightarrow> token \<Rightarrow> string \<Rightarrow> string \<Rightarrow> source \<Rightarrow> unit xact" where
  "upload_once env item tok relativePath contentType src =
     andthen (ensureGoogleDriveParentPath env item tok (Dir relativePath)) (\<lambda>parentID.
     andthen (findGoogleDriveChild env tok parentID (Base relativePath) []) (\<lambda>existing.
     andthen (must_be (trim existing = []) ''target file already exists'') (\<lambda>_.
     uploadGoogleDriveMultipartReader env tok parentID (Base relativePath) contentType src)))"

definition rewound :: "source \<Rightarrow> bool \<Rightarrow> unit xact" where
  "rewound src first =
     (case sr_seek src of
        Some ok \<Rightarrow> andthen (must_be ok ''reset upload stream'') (\<lambda>_. seek_to 0)
      | None \<Rightarrow> must_be first ''google drive upload failed and upload stream cannot be retried'')"

definition UploadGoogleDriveReader :: "xenv \<Rightarrow> storage \<Rightarrow> string \<Rightarrow> source \<Rightarrow> string \<Rightarrow> unit xact" where
  "UploadGoogleDriveReader env item targetPath src ctype =
     andthen (must_be (st_provider item = ''google_drive'') ''google drive storage is required'') (\<lambda>_.
     andthen (GetTokenByStorageID env (st_id item)) (\<lambda>found.
     andthen (some_or found (XErr ''google drive token is missing'')) (\<lambda>tok.
     andthen (must_be (trim (tk_access tok) \<noteq> []) ''google drive token is missing'') (\<lambda>_.
     andthen (some_or (Rel (st_mount item) targetPath) (XErr ''resolve target path'')) (\<lambda>rel0.
       let rel = Clean rel0; contentType = (if trim ctype = [] then ''application/octet-stream'' else trim ctype) in
       andthen (must_be (\<not> (rel = ''.'' \<or> has_prefix dotdot rel \<or> IsAbs rel)) ''target path out of storage root'') (\<lambda>_.
       andthen (rewound src True) (\<lambda>_.
       andthen (attempt (upload_once env item tok rel contentType src)) (\<lambda>r.
         case r of
           Inr _ \<Rightarrow> ret ()
         | Inl e \<Rightarrow>
             if \<not> unauthorized e then fail e
             else andthen (refreshGoogleDriveToken env (st_id item) tok) (\<lambda>tok2.
                  andthen (rewound src False) (\<lambda>_.
                  upload_once env item tok2 rel contentType src))))))))))"

end
