(* ===== verification/Cloud_Broker.thy ===== *)
theory Cloud_Broker
  imports Cloud_Drive
begin

text \<open>
  The OAuth broker (internal/storage/oauth_broker.go) and its handlers (internal/system/cloud_oauth.go):
  the device of a broker, tokens for it, and the three requests of a connection: start, status,
  complete.
\<close>

section \<open>Replies of the broker\<close>

record session_reply =
  sy_id :: string
  sy_provider :: string
  sy_status :: string
  sy_url :: string
  sy_expires :: string

record rclone_config =
  rc_type :: string
  rc_client :: string
  rc_secret :: string
  rc_scope :: string
  rc_url :: string
  rc_access :: string
  rc_refresh :: string
  rc_token_type :: string
  rc_expiry :: string
  rc_expires_at :: string
  rc_expires_in :: int

record exchange_reply =
  xr_provider :: string
  xr_rclone :: rclone_config

text \<open>Fields that are all there and texts.\<close>

definition texts :: "json \<Rightarrow> string list \<Rightarrow> string list option" where
  "texts j ks = those (map (\<lambda>k. json_text k j) ks)"

definition jwt_of :: "json \<Rightarrow> string option" where
  "jwt_of j =
     (case (texts j [''access_token'', ''token_type'', ''expires_at''], json_int ''expires_in'' j) of
        (Some (a # _), Some _) \<Rightarrow> Some a
      | _ \<Rightarrow> None)"

definition created_of :: "json \<Rightarrow> session_reply option" where
  "created_of j =
     (case texts j [''session_id'', ''provider'', ''status'', ''authorize_url'', ''expires_at''] of
        Some [i, p, s, u, e] \<Rightarrow> Some \<lparr>sy_id = i, sy_provider = p, sy_status = s, sy_url = u, sy_expires = e\<rparr>
      | _ \<Rightarrow> None)"

definition status_of :: "json \<Rightarrow> session_reply option" where
  "status_of j =
     (case texts j [''session_id'', ''provider'', ''status'', ''expires_at''] of
        Some [i, p, s, e] \<Rightarrow>
          if is_struct (json_field ''error'' j) then Some \<lparr>sy_id = i, sy_provider = p, sy_status = s, sy_url = [], sy_expires = e\<rparr>
          else None
      | _ \<Rightarrow> None)"

definition rclone_of :: "json \<Rightarrow> rclone_config option" where
  "rclone_of j =
     (let t = json_field ''token'' j in
      case (texts j [''type'', ''client_id'', ''client_secret'', ''scope'', ''token_url''],
            texts t [''access_token'', ''refresh_token'', ''token_type'', ''expiry'', ''expires_at''], json_int ''expires_in'' t) of
        (Some [ty, ci, cs, sc, u], Some [a, r, tt, ex, ea], Some n) \<Rightarrow>
          if is_struct j \<and> is_struct t then
            Some \<lparr>rc_type = ty, rc_client = ci, rc_secret = cs, rc_scope = sc, rc_url = u, rc_access = a, rc_refresh = r,
              rc_token_type = tt, rc_expiry = ex, rc_expires_at = ea, rc_expires_in = n\<rparr>
          else None
      | _ \<Rightarrow> None)"

definition exchange_of :: "json \<Rightarrow> exchange_reply option" where
  "exchange_of j =
     (case (json_text ''provider'' j, rclone_of (json_field ''rclone'' j)) of
        (Some p, Some c) \<Rightarrow> Some \<lparr>xr_provider = p, xr_rclone = c\<rparr>
      | _ \<Rightarrow> None)"

text \<open>\<open>json.Marshal\<close> of the configuration, fields in the order of the struct.\<close>

definition json_of_int :: "int \<Rightarrow> json" where
  "json_of_int i = JNumber (int_text i)"

definition rclone_json :: "rclone_config \<Rightarrow> json" where
  "rclone_json c = JObject
     [(''type'', JString (rc_type c)), (''client_id'', JString (rc_client c)), (''client_secret'', JString (rc_secret c)),
      (''scope'', JString (rc_scope c)), (''token_url'', JString (rc_url c)),
      (''token'', JObject [(''access_token'', JString (rc_access c)), (''refresh_token'', JString (rc_refresh c)),
         (''token_type'', JString (rc_token_type c)), (''expires_in'', json_of_int (rc_expires_in c)),
         (''expiry'', JString (rc_expiry c)), (''expires_at'', JString (rc_expires_at c))])]"

section \<open>The client\<close>

definition oauthBrokerBaseURL :: "xenv \<Rightarrow> string" where
  "oauthBrokerBaseURL env = strip_slashes (firstNonEmpty_of [trim (x_getenv env ''OAUTH_BROKER_BASE_URL''), ''https://oauth.yesnas.com''])"

definition default_secret :: string where
  "default_secret = ''affc5ba6555a784cf0accf2ba8788e3cae4699a15b167ad4d4bb2fd892516bed''"

definition oauthBrokerRegistrationSecret :: "xenv \<Rightarrow> string" where
  "oauthBrokerRegistrationSecret env =
     trim (firstNonEmpty_of [x_getenv env ''OAUTH_BROKER_REGISTRATION_SECRET'', x_getenv env ''DEVICE_REGISTRATION_SECRET'', default_secret])"

definition newOAuthBrokerClient :: "xenv \<Rightarrow> string \<Rightarrow> string" where
  "newOAuthBrokerClient env baseURL = strip_slashes (firstNonEmpty_of [baseURL, oauthBrokerBaseURL env])"

text \<open>The body of a reply with a good status.\<close>

definition doJSON :: "xenv \<Rightarrow> string \<Rightarrow> hreq \<Rightarrow> string xact" where
  "doJSON env what q = andthen (http env what q) (\<lambda>(s, body). andthen (must_be (ok_status s) what) (\<lambda>_. ret body))"

definition json_header :: "string \<times> string" where
  "json_header = (''Content-Type'', ''application/json'')"

definition newOAuthBrokerConnection :: "xenv \<Rightarrow> string \<Rightarrow> broker_connection option" where
  "newOAuthBrokerConnection env baseURL =
     (case x_keys env of
        None \<Rightarrow> None
      | Some (public, private) \<Rightarrow>
          Some \<lparr>bn_id = x_id env ''connection'', bn_base = baseURL, bn_device = ''yesnas-'' @ x_id env ''device'',
            bn_name = firstNonEmpty_of [trim (x_getenv env ''OAUTH_BROKER_DEVICE_NAME''), x_host env, ''YesNAS''],
            bn_public = public, bn_private = private, bn_registered = None, bn_auth = None\<rparr>)"

definition stamped :: "string \<Rightarrow> xenv \<Rightarrow> xsite \<Rightarrow> string \<Rightarrow> (broker_connection \<Rightarrow> broker_connection) \<Rightarrow> unit xact" where
  "stamped what env site base f =
     put what (\<lambda>w. if x_up env site then Inr (w\<lparr>xw_conns := tbl_upd (\<lambda>c. bn_base c = base) f (xw_conns w)\<rparr>) else Inl DbFail)"

text \<open>A connection that is gone is a nil pointer: the request panics.\<close>

definition registerDevice :: "xenv \<Rightarrow> string \<Rightarrow> unit xact" where
  "registerDevice env base =
     andthen (getOAuthBrokerConnection env base) (\<lambda>c.
     andthen (some_or c (XErr ''panic'')) (\<lambda>conn.
     andthen (doJSON env ''register oauth broker device''
       \<lparr>hq_method = ''PUT'', hq_url = base @ ''/api/devices/'' @ x_escape env (bn_device conn),
        hq_headers = json_header # (if oauthBrokerRegistrationSecret env \<noteq> []
          then [(''X-Registration-Secret'', oauthBrokerRegistrationSecret env)] else []),
        hq_body = JsonBody (JObject [(''name'', JString (bn_name conn)), (''public_key_pem'', JString (bn_public conn))])\<rparr>) (\<lambda>_.
     stamped ''register'' env XRegistered base (\<lambda>c. c\<lparr>bn_registered := Some (x_now env)\<rparr>))))"

definition ensureConnection :: "xenv \<Rightarrow> string \<Rightarrow> broker_connection option xact" where
  "ensureConnection env base =
     andthen (getOAuthBrokerConnection env base) (\<lambda>existing.
     case existing of
       Some c \<Rightarrow>
         if bn_registered c \<noteq> None then ret (Some c)
         else andthen (registerDevice env base) (\<lambda>_. getOAuthBrokerConnection env base)
     | None \<Rightarrow>
         andthen (some_or (newOAuthBrokerConnection env base) (XErr ''new connection'')) (\<lambda>conn.
         andthen (saveOAuthBrokerConnection env conn) (\<lambda>_.
         andthen (registerDevice env base) (\<lambda>_. getOAuthBrokerConnection env base))))"

definition auth_payload :: "xenv \<Rightarrow> broker_connection \<Rightarrow> string" where
  "auth_payload env conn = bn_device conn @ [newline] @ x_id env ''nonce'' @ [newline] @ int_text (x_now env)"

definition issueJWT :: "xenv \<Rightarrow> string \<Rightarrow> string xact" where
  "issueJWT env base =
     andthen (getOAuthBrokerConnection env base) (\<lambda>c.
     andthen (some_or c (XErr ''panic'')) (\<lambda>conn.
     andthen (some_or (x_sign env (bn_private conn) (auth_payload env conn)) (XErr ''sign'')) (\<lambda>signature.
     andthen (doJSON env ''issue oauth broker token''
       \<lparr>hq_method = ''POST'', hq_url = base @ ''/api/auth/token'', hq_headers = [json_header],
        hq_body = JsonBody (JObject [(''device_id'', JString (bn_device conn)), (''nonce'', JString (x_id env ''nonce'')),
          (''signature'', JString signature), (''timestamp'', json_of_int (x_now env))])\<rparr>) (\<lambda>body.
     andthen (decoded env ''issue oauth broker token'' jwt_of body) (\<lambda>jwt.
     andthen (ignoring (stamped ''auth'' env XAuthed base (\<lambda>c. c\<lparr>bn_auth := Some (x_now env)\<rparr>))) (\<lambda>_. ret jwt))))))"

definition createSession :: "xenv \<Rightarrow> string \<Rightarrow> string \<Rightarrow> string \<Rightarrow> session_reply xact" where
  "createSession env base jwt provider =
     andthen (doJSON env ''create oauth broker session''
       \<lparr>hq_method = ''POST'', hq_url = base @ ''/api/oauth/'' @ x_escape env provider @ ''/session'',
        hq_headers = [(''Authorization'', ''Bearer '' @ jwt), json_header], hq_body = JsonBody (JObject [])\<rparr>)
       (decoded env ''create oauth broker session'' created_of)"

definition status_call :: "xenv \<Rightarrow> string \<Rightarrow> string \<Rightarrow> string \<Rightarrow> session_reply xact" where
  "status_call env base jwt sessionID =
     andthen (doJSON env ''get oauth broker status''
       \<lparr>hq_method = ''GET'', hq_url = base @ ''/api/oauth/status/'' @ x_escape env sessionID,
        hq_headers = [(''Authorization'', ''Bearer '' @ jwt)], hq_body = NoBody\<rparr>)
       (decoded env ''get oauth broker status'' status_of)"

definition exchange :: "xenv \<Rightarrow> string \<Rightarrow> string \<Rightarrow> string \<Rightarrow> exchange_reply xact" where
  "exchange env base jwt sessionID =
     andthen (doJSON env ''exchange oauth broker session''
       \<lparr>hq_method = ''POST'', hq_url = base @ ''/api/oauth/exchange'',
        hq_headers = [(''Authorization'', ''Bearer '' @ jwt), json_header],
        hq_body = JsonBody (JObject [(''session_id'', JString sessionID)])\<rparr>)
       (decoded env ''exchange oauth broker session'' exchange_of)"

section \<open>Start and status\<close>

record connect_req =
  cc_storage :: string
  cc_name :: string
  cc_root :: string

record connect_reply =
  cp_provider :: string
  cp_url :: string
  cp_state :: string
  cp_expires :: string

definition StartCloudOAuthViaBroker :: "xenv \<Rightarrow> string \<Rightarrow> connect_req \<Rightarrow> connect_reply xact" where
  "StartCloudOAuthViaBroker env providerSlug req =
     andthen (some_or (oauthBrokerProviderInfo providerSlug) (XErr ''unsupported oauth provider'')) (\<lambda>info.
       let base = newOAuthBrokerClient env (oauthBrokerBaseURL env) in
       andthen (ensureConnection env base) (\<lambda>_.
       andthen (issueJWT env base) (\<lambda>jwt.
       andthen (createSession env base jwt (op_broker info)) (\<lambda>s.
       andthen (saveOAuthBrokerSession env
         \<lparr>bs_id = sy_id s, bs_base = oauthBrokerBaseURL env, bs_provider = op_broker info, bs_storage = trim (cc_storage req),
          bs_name = trim (cc_name req), bs_root = normalizeGoogleDriveRootPath (cc_root req), bs_status = sy_status s,
          bs_url = sy_url s, bs_expires = stringPtr (sy_expires s)\<rparr>) (\<lambda>_.
       ret \<lparr>cp_provider = op_storage info, cp_url = sy_url s, cp_state = sy_id s, cp_expires = sy_expires s\<rparr>)))))"

definition GetCloudOAuthBrokerStatus :: "xenv \<Rightarrow> string \<Rightarrow> session_reply xact" where
  "GetCloudOAuthBrokerStatus env sessionID =
     andthen (getOAuthBrokerSession env sessionID) (\<lambda>local.
       let base = newOAuthBrokerClient env (bs_base local) in
       andthen (issueJWT env base) (\<lambda>jwt.
       andthen (status_call env base jwt sessionID) (\<lambda>s.
       andthen (ignoring (updateOAuthBrokerSessionStatus env sessionID (sy_status s))) (\<lambda>_. ret s))))"

section \<open>Completion\<close>

definition tokenFromBrokerExchange :: "xenv \<Rightarrow> string \<Rightarrow> exchange_reply \<Rightarrow> token" where
  "tokenFromBrokerExchange env storageID ex =
     (let c = xr_rclone ex in
      \<lparr>tk_id = [], tk_storage = storageID, tk_type = firstNonEmpty_of [rc_token_type c, ''Bearer''], tk_access = trim (rc_access c),
       tk_refresh = trim (rc_refresh c), tk_expiry = stringPtr (firstNonEmpty_of [rc_expiry c, rc_expires_at c]),
       tk_scope = trim (rc_scope c), tk_raw = x_marshal env (rclone_json c)\<rparr>)"

definition saveOAuthBrokerStorageToken :: "xenv \<Rightarrow> string \<Rightarrow> string \<Rightarrow> exchange_reply \<Rightarrow> unit xact" where
  "saveOAuthBrokerStorageToken env storageID base ex =
     andthen (getOAuthBrokerStorageToken env storageID) (\<lambda>existing.
       let c = xr_rclone ex;
           item = \<lparr>bt_id = (case existing of None \<Rightarrow> x_id env ''broker token'' | Some t \<Rightarrow> bt_id t), bt_storage = storageID, bt_base = base,
             bt_provider = xr_provider ex, bt_refresh = rc_refresh c, bt_url = rc_url c, bt_config = x_marshal env (rclone_json c)\<rparr> in
       put ''save broker token'' (\<lambda>w.
         if \<not> x_up env XSaveBroker then Inl DbFail
         else if \<exists>t\<in>set (xw_brokers w). bt_storage t = storageID then
           Inr (w\<lparr>xw_brokers := tbl_upd (\<lambda>t. bt_storage t = storageID) (\<lambda>t. item\<lparr>bt_id := bt_id t\<rparr>) (xw_brokers w)\<rparr>)
         else if storageID \<notin> st_id ` set (xw_storages w) \<or> bt_id item \<in> bt_id ` set (xw_brokers w) then Inl Constraint
         else Inr (w\<lparr>xw_brokers := xw_brokers w @ [item]\<rparr>)))"

definition broker_extra :: "xenv \<Rightarrow> broker_provider \<Rightarrow> broker_session \<Rightarrow> exchange_reply \<Rightarrow> string \<Rightarrow> string \<Rightarrow> string" where
  "broker_extra env info s ex storageID root =
     x_marshal env (JObject
       [(''backend'', JString (rc_type (xr_rclone ex))), (''brokerBaseURL'', JString (bs_base s)), (''brokerProvider'', JString (xr_provider ex)),
        (''oauthBroker'', JBool True), (''provider'', JString (op_storage info)),
        (''rcloneRemoteName'', JString (cloudRemoteName (op_storage info) storageID)), (''rootPath'', JString root),
        (''scope'', JString (rc_scope (xr_rclone ex)))])"

definition account_of :: "xenv \<Rightarrow> broker_provider \<Rightarrow> token \<Rightarrow> string option xact" where
  "account_of env info tok =
     (if op_storage info = ''google_drive'' then
        andthen (attempt (fetchGoogleDriveAccountEmail env (tk_access tok))) (\<lambda>r. ret (case r of Inl _ \<Rightarrow> None | Inr e \<Rightarrow> Some e))
      else ret None)"

definition new_cloud_storage :: "xenv \<Rightarrow> broker_provider \<Rightarrow> broker_session \<Rightarrow> exchange_reply \<Rightarrow> string \<Rightarrow> string \<Rightarrow> storage" where
  "new_cloud_storage env info s ex storageID user =
     (let name = (if trim (bs_name s) = [] then op_name info else trim (bs_name s)); root = normalizeGoogleDriveRootPath (bs_root s) in
      \<lparr>st_id = storageID, st_name = name, st_location = ''cloud'', st_mount = cloudMountPath (op_storage info) storageID, st_type = Cloud,
       st_provider = op_storage info, st_host = [], st_port = 0, st_url = op_api info, st_username = user, st_password = [],
       st_token = [], st_domain = [], st_share = [], st_root = root, st_extra = broker_extra env info s ex storageID root,
       st_status = Online, st_total = 0, st_free = 0, st_updated = x_now env\<rparr>)"

definition create_storage :: "xenv \<Rightarrow> broker_provider \<Rightarrow> broker_session \<Rightarrow> exchange_reply \<Rightarrow> (storage \<times> token) xact" where
  "create_storage env info s ex =
     (let storageID = x_id env ''storage''; tok = tokenFromBrokerExchange env storageID ex in
      andthen (account_of env info tok) (\<lambda>email.
        let user = (case email of Some e \<Rightarrow> e | None \<Rightarrow> if op_storage info \<noteq> ''google_drive'' then xr_provider ex else []);
            item = new_cloud_storage env info s ex storageID user in
        andthen (put ''create storage'' (on_rows (\<lambda>t. map_sum id snd (storage_Add (x_up env XAdd) storageID item t)))) (\<lambda>_. ret (item, tok))))"

definition reconnect_storage :: "xenv \<Rightarrow> broker_provider \<Rightarrow> broker_session \<Rightarrow> exchange_reply \<Rightarrow> string \<Rightarrow> (storage \<times> token) xact" where
  "reconnect_storage env info s ex storageID =
     (let tok = tokenFromBrokerExchange env storageID ex in
      andthen (ask ''load storage'' (\<lambda>w. storage_Get (x_up env XGet) storageID (xw_storages w))) (\<lambda>loaded.
      andthen (must_be (st_provider loaded = op_storage info) ''storage not found'') (\<lambda>_.
        let item1 = loaded\<lparr>st_root := (if st_root loaded = [] then normalizeGoogleDriveRootPath (bs_root s) else st_root loaded),
              st_mount := (if st_mount loaded = [] then cloudMountPath (op_storage info) storageID else st_mount loaded)\<rparr> in
        andthen (account_of env info tok) (\<lambda>email.
        andthen (case email of None \<Rightarrow> ret () | Some e \<Rightarrow>
          ignoring (put ''identity'' (on_rows (storage_UpdateIdentity (x_up env XIdentity) (x_now env) storageID e)))) (\<lambda>_.
          let item = item1\<lparr>st_username := (case email of None \<Rightarrow> st_username item1 | Some e \<Rightarrow> e), st_status := Online,
                st_extra := broker_extra env info s ex storageID (st_root item1)\<rparr> in
          andthen (UpdateRuntime env item (st_mount item) Online (st_total item) (st_free item)) (\<lambda>_. ret (item, tok)))))))"

definition createOrReconnectCloudStorageFromBroker ::
  "xenv \<Rightarrow> broker_provider \<Rightarrow> broker_session \<Rightarrow> exchange_reply \<Rightarrow> (storage \<times> token) xact" where
  "createOrReconnectCloudStorageFromBroker env info s ex =
     andthen (if trim (bs_storage s) = [] then create_storage env info s ex else reconnect_storage env info s ex (trim (bs_storage s))) (\<lambda>(item, tok).
     andthen (UpsertToken env tok) (\<lambda>_. ret (item, tok)))"

record complete_reply =
  cm_provider :: string
  cm_storage :: storage
  cm_remote :: string
  cm_warning :: bool

definition CompleteCloudOAuthViaBroker :: "xenv \<Rightarrow> string \<Rightarrow> string \<Rightarrow> complete_reply xact" where
  "CompleteCloudOAuthViaBroker env providerSlug sessionID =
     andthen (some_or (oauthBrokerProviderInfo providerSlug) (XErr ''unsupported oauth provider'')) (\<lambda>info.
     andthen (getOAuthBrokerSession env sessionID) (\<lambda>local.
     andthen (must_be (bs_provider local = op_broker info) ''oauth session provider mismatch'') (\<lambda>_.
       let base = newOAuthBrokerClient env (bs_base local) in
       andthen (issueJWT env base) (\<lambda>jwt.
       andthen (status_call env base jwt sessionID) (\<lambda>s.
       andthen (ignoring (updateOAuthBrokerSessionStatus env sessionID (sy_status s))) (\<lambda>_.
       andthen (must_be (sy_status s = ''success'') ''oauth session is not successful'') (\<lambda>_.
       andthen (exchange env base jwt sessionID) (\<lambda>ex.
       andthen (createOrReconnectCloudStorageFromBroker env info local ex) (\<lambda>(item, tok).
       andthen (saveOAuthBrokerStorageToken env (st_id item) (bs_base local) ex) (\<lambda>_.
       andthen (EnsureGoogleDriveMounted env item tok) (\<lambda>(mounted, err).
       case err of
         Some e \<Rightarrow> fail e
       | None \<Rightarrow>
           andthen (RefreshGoogleDriveUsage env mounted) (\<lambda>(refreshed, warning).
           andthen (ignoring (updateOAuthBrokerSessionStatus env sessionID ''used'')) (\<lambda>_.
           ret \<lparr>cm_provider = op_storage info, cm_storage = refreshed, cm_remote = cloudRemoteName (op_storage info) (st_id item),
             cm_warning = (warning \<noteq> None)\<rparr>)))))))))))))"

section \<open>Handlers (cloud_oauth.go)\<close>

text \<open>A nil connection is dereferenced: \<open>None\<close> is a panic.\<close>

definition served_by :: "string \<Rightarrow> nat \<Rightarrow> 'a xact \<Rightarrow> xworld \<Rightarrow> 'a resp option \<times> xworld" where
  "served_by err ok m w =
     (case m w of
        (Inr x, w') \<Rightarrow> (Some (Reply ok x), w')
      | (Inl e, w') \<Rightarrow> (if e = XErr ''panic'' then None else Some (Fail 400 err), w'))"

definition HandleStartCloudConnect :: "xenv \<Rightarrow> string \<Rightarrow> connect_req option \<Rightarrow> xworld \<Rightarrow> connect_reply resp option \<times> xworld" where
  "HandleStartCloudConnect env provider body w =
     (case body of
        None \<Rightarrow> (Some (Fail 400 ''INVALID_BODY''), w)
      | Some req \<Rightarrow> served_by ''CLOUD_CONNECT_FAILED'' 201 (StartCloudOAuthViaBroker env (trim provider) req) w)"

definition HandleCloudOAuthStatus :: "xenv \<Rightarrow> string \<Rightarrow> xworld \<Rightarrow> session_reply resp option \<times> xworld" where
  "HandleCloudOAuthStatus env rawID w =
     (if trim rawID = [] then (Some (Fail 400 ''INVALID_SESSION_ID''), w)
      else served_by ''CLOUD_OAUTH_STATUS_FAILED'' 200 (GetCloudOAuthBrokerStatus env (trim rawID)) w)"

definition HandleCompleteCloudConnect :: "xenv \<Rightarrow> string \<Rightarrow> string option \<Rightarrow> xworld \<Rightarrow> complete_reply resp option \<times> xworld" where
  "HandleCompleteCloudConnect env provider body w =
     (case body of
        None \<Rightarrow> (Some (Fail 400 ''INVALID_BODY''), w)
      | Some sessionID \<Rightarrow> served_by ''CLOUD_COMPLETE_FAILED'' 200 (CompleteCloudOAuthViaBroker env (trim provider) (trim sessionID)) w)"

definition HandleStartCloudConnectRedirect :: "xenv \<Rightarrow> string \<Rightarrow> connect_req \<Rightarrow> xworld \<Rightarrow> string resp option \<times> xworld" where
  "HandleStartCloudConnectRedirect env provider args w =
     (case served_by ''CLOUD_CONNECT_FAILED'' 302 (StartCloudOAuthViaBroker env (trim provider)
        \<lparr>cc_storage = trim (cc_storage args), cc_name = trim (cc_name args), cc_root = trim (cc_root args)\<rparr>) w of
        (r, w') \<Rightarrow> (map_option (\<lambda>x. case x of Reply s rep \<Rightarrow> Reply s (cp_url rep) | Fail s c \<Rightarrow> Fail s c) r, w'))"

end
