(* ===== verification/Network_Storage.thy ===== *)
theory Network_Storage
  imports Cloud_World Pool_List
begin

text \<open>
  Network storages (internal/storage/network.go, internal/system/network_storage.go): a request becomes
  a storage that is mounted by \<open>mount\<close> or by rclone, and a row of the table only if that worked.
\<close>

section \<open>Requests\<close>

record network_req =
  nr_name :: string
  nr_protocol :: string
  nr_host :: string
  nr_port :: int
  nr_url :: string
  nr_user :: string
  nr_password :: string
  nr_domain :: string
  nr_share :: string
  nr_root :: string

definition validateNetworkRequest :: "xenv \<Rightarrow> network_req \<Rightarrow> string option" where
  "validateNetworkRequest env req =
     (if trim (nr_name req) = [] then Some ''storage name is required''
      else if nr_protocol req \<notin> {''ftp'', ''webdav'', ''smb'', ''nfs''} then Some ''unsupported network storage protocol''
      else if nr_protocol req = ''webdav'' then
        (if trim (nr_url req) = [] then Some ''WebDAV URL is required''
         else if \<not> x_url_ok env (trim (nr_url req)) then Some ''invalid WebDAV URL''
         else None)
      else if trim (nr_host req) = [] then Some ''host is required''
      else if nr_protocol req = ''smb'' \<and> trim (nr_share req) = [] then Some ''SMB share name is required''
      else if nr_protocol req = ''nfs'' \<and> trim (nr_share req) = [] then Some ''NFS export path is required''
      else None)"

definition normalizeNetworkRootPath :: "string \<Rightarrow> string" where
  "normalizeNetworkRootPath v = (if trim v = [] then ''/'' else trim v)"

definition defaultNetworkMountRoot :: string where "defaultNetworkMountRoot = ''/srv/yesnas/network''"

definition networkMountPath :: "string \<Rightarrow> string \<Rightarrow> string" where
  "networkMountPath provider storageID = Join [defaultNetworkMountRoot, provider @ ''_'' @ storageID]"

definition protocol_type :: "string \<Rightarrow> storage_type" where
  "protocol_type p = (if p = ''ftp'' then FTP else if p = ''webdav'' then WebDAV else if p = ''smb'' then SMB else NFS)"

definition network_item :: "xenv \<Rightarrow> network_req \<Rightarrow> storage" where
  "network_item env req =
     (let i = x_id env ''storage'' in
      \<lparr>st_id = i, st_name = trim (nr_name req), st_location = ''network'', st_mount = networkMountPath (nr_protocol req) i,
       st_type = protocol_type (nr_protocol req), st_provider = nr_protocol req, st_host = trim (nr_host req), st_port = nr_port req,
       st_url = trim (nr_url req), st_username = trim (nr_user req), st_password = nr_password req, st_token = [],
       st_domain = trim (nr_domain req), st_share = trim (nr_share req), st_root = normalizeNetworkRootPath (nr_root req),
       st_extra = x_marshal env (JObject [(''protocol'', JString (nr_protocol req))]), st_status = Offline, st_total = 0,
       st_free = 0, st_updated = x_now env\<rparr>)"

section \<open>Mount points\<close>

definition isMountpoint :: "xenv \<Rightarrow> string \<Rightarrow> bool xact" where
  "isMountpoint env m =
     andthen (issue_call env (XCmd False [''mount''] [])) (\<lambda>r.
       ret (cr_ok r \<and> list_ex (contains_sub ('' on '' @ m @ '' '')) (split_on newline (cr_out r))))"

definition ensureMountPath :: "xenv \<Rightarrow> string \<Rightarrow> unit xact" where
  "ensureMountPath env m =
     andthen (must_be (trim m \<noteq> []) ''mount path is required'') (\<lambda>_.
     andthen (command env ''prepare mount path'' True [''mkdir'', ''-p'', m]) (\<lambda>_.
     andthen (command env ''prepare mount path permissions'' True [''chmod'', ''0777'', m]) (\<lambda>_. ret ())))"

definition cleanupGeneratedNetworkMountPath :: "xenv \<Rightarrow> string \<Rightarrow> unit xact" where
  "cleanupGeneratedNetworkMountPath env m0 =
     (let m = Clean (trim m0); root = Clean defaultNetworkMountRoot in
      if m = ''.'' \<or> m = root \<or> \<not> has_prefix (root @ [slash]) m then ret ()
      else
        andthen (isMountpoint env m) (\<lambda>mounted.
        andthen (if mounted then ignoring (issue_call env (XCmd True [''umount'', m] [])) else ret ()) (\<lambda>_.
        ignoring (issue_call env (XCmd True [''rm'', ''-rf'', m] [])))))"

section \<open>SMB\<close>

text \<open>The temporary file of credentials: its path, or the empty text for a guest.\<close>

definition create_credentials :: "string \<Rightarrow> unit xact" where
  "create_credentials path w = (Inr (), w\<lparr>xw_temp := (path, []) # xw_temp w\<rparr>)"

definition remove_credentials :: "xenv \<Rightarrow> string \<Rightarrow> unit xact" where
  "remove_credentials env path w = (Inr (), if x_up env XTempRemove then w\<lparr>xw_temp := filter (\<lambda>f. fst f \<noteq> path) (xw_temp w)\<rparr> else w)"

definition write_credentials :: "string \<Rightarrow> string \<Rightarrow> unit xact" where
  "write_credentials path content w = (Inr (), w\<lparr>xw_temp := map (\<lambda>f. if fst f = path then (path, content) else f) (xw_temp w)\<rparr>)"

definition credential_lines :: "storage \<Rightarrow> string" where
  "credential_lines item =
     join_with [newline] ([''username='' @ st_username item, ''password='' @ st_password item] @
       (if st_domain item \<noteq> [] then [''domain='' @ st_domain item] else [])) @ [newline]"

text \<open>A step after which the file is removed when it fails.\<close>

definition or_removed :: "xenv \<Rightarrow> string \<Rightarrow> bool \<Rightarrow> string \<Rightarrow> 'a xact \<Rightarrow> 'a xact" where
  "or_removed env path ok what rest = (if ok then rest else andthen (remove_credentials env path) (\<lambda>_. fail (XErr what)))"

definition smbCredentialsFile :: "xenv \<Rightarrow> storage \<Rightarrow> string xact" where
  "smbCredentialsFile env item =
     (if trim (st_username item) = [] \<and> st_password item = [] \<and> trim (st_domain item) = [] then ret []
      else
        (let path = x_temp_path env in
         andthen (must_be (x_up env XTemp) ''create smb credentials file'') (\<lambda>_.
         andthen (create_credentials path) (\<lambda>_.
         or_removed env path (x_up env XTempWrite) ''write smb credentials file''
        (andthen (write_credentials path (credential_lines item)) (\<lambda>_.
         or_removed env path (x_up env XTempClose) ''close smb credentials file''
        (or_removed env path (x_up env XTempMode) ''protect smb credentials file'' (ret path))))))))"

definition has_any :: "string list \<Rightarrow> string \<Rightarrow> bool" where
  "has_any ps s = list_ex (\<lambda>p. contains_sub p s) ps"

definition explainSMBMountError :: "string \<Rightarrow> bool \<Rightarrow> reason" where
  "explainSMBMountError stderr guest =
     (let s = to_lower stderr in
      if has_any [''permission denied''] s then AuthFailed
      else if has_any [''no such file'', ''object name not found''] s then NoShare guest
      else if has_any [''could not resolve address'', ''name or service not known''] s then NoHost
      else if has_any [''connection refused''] s then Refused
      else if has_any [''host is down'', ''no route to host''] s then Unreachable
      else if has_any [''operation not supported''] s then BadVersion
      else OtherFailure)"

definition smb_source :: "storage \<Rightarrow> string" where
  "smb_source item = ''//'' @ trim_chars ''/'' (trim (st_host item)) @ ''/'' @ trim_chars ''/'' (trim (st_share item))"

definition smb_options :: "xenv \<Rightarrow> storage \<Rightarrow> string \<Rightarrow> string list" where
  "smb_options env item cred =
     [''iocharset=utf8'', ''rw'', ''uid='' @ int_text (x_uid env), ''gid='' @ int_text (x_gid env), ''file_mode=0664'', ''dir_mode=0775''] @
     [if cred \<noteq> [] then ''credentials='' @ cred else ''guest''] @
     (if st_root item \<noteq> [] \<and> st_root item \<noteq> ''/'' then [''prefixpath='' @ trim_chars ''/'' (st_root item)] else [])"

definition mountSMB :: "xenv \<Rightarrow> storage \<Rightarrow> unit xact" where
  "mountSMB env item =
     andthen (smbCredentialsFile env item) (\<lambda>cred.
     andthen (issue_call env (XCmd True [''mount'', ''-t'', ''cifs'', smb_source item, st_mount item, ''-o'',
       join_with '','' (smb_options env item cred)] [])) (\<lambda>r.
     andthen (if cred \<noteq> [] then remove_credentials env cred else ret ()) (\<lambda>_.
     if cr_ok r then ret () else fail (Explained (explainSMBMountError (cr_err r) (cred = []))))))"

section \<open>NFS\<close>

definition explainNFSMountError :: "string \<Rightarrow> reason" where
  "explainNFSMountError stderr =
     (let s = to_lower stderr in
      if has_any [''access denied'', ''permission denied''] s then AuthFailed
      else if has_any [''no such file''] s then NoShare False
      else if has_any [''connection refused''] s then Refused
      else if has_any [''no route to host'', ''host is down''] s then Unreachable
      else OtherFailure)"

definition mountNFS :: "xenv \<Rightarrow> storage \<Rightarrow> unit xact" where
  "mountNFS env item =
     (let share = trim (st_share item); exportPath = (if has_prefix ''/'' share then share else CHR ''/'' # share) in
      andthen (issue_call env (XCmd True [''mount'', ''-t'', ''nfs'', trim (st_host item) @ '':'' @ exportPath, st_mount item] [])) (\<lambda>r.
      if cr_ok r then ret () else fail (Explained (explainNFSMountError (cr_err r)))))"

section \<open>FTP and WebDAV\<close>

definition rcloneRemotePath :: "string \<Rightarrow> string" where
  "rcloneRemotePath rootPath0 =
     (let rootPath = trim rootPath0 in
      if rootPath = [] \<or> rootPath = ''/'' \<or> rootPath = ''root'' then []
      else if has_prefix ''/'' rootPath then rootPath
      else CHR ''/'' # rootPath)"

definition obscureRclonePassword :: "xenv \<Rightarrow> string \<Rightarrow> string xact" where
  "obscureRclonePassword env password =
     andthen (command env ''prepare rclone password'' False [''rclone'', ''obscure'', password]) (\<lambda>out.
     andthen (must_be (trim out \<noteq> []) ''prepare rclone password: empty result'') (\<lambda>_. ret (trim out)))"

definition password_flag :: "xenv \<Rightarrow> string \<Rightarrow> string \<Rightarrow> string list xact" where
  "password_flag env flag password =
     (if password = [] then ret []
      else andthen (obscureRclonePassword env password) (\<lambda>obscured. ret [flag, obscured]))"

definition mountRcloneNetwork :: "xenv \<Rightarrow> storage \<Rightarrow> unit xact" where
  "mountRcloneNetwork env item =
     (let remotePath = rcloneRemotePath (st_root item);
          finish = (\<lambda>args. andthen (command env ''mount storage'' False
            ([''rclone'', ''mount''] @ args @ [''--daemon'', ''--daemon-timeout'', ''15s'', ''--allow-other'', ''--umask'', ''000'',
              ''--vfs-cache-mode'', ''writes''])) (\<lambda>_. ret ())) in
      if st_provider item = ''ftp'' then
        andthen (password_flag env ''--ftp-pass'' (st_password item)) (\<lambda>pass.
        finish (['':ftp:'' @ remotePath, st_mount item, ''--ftp-host'', st_host item] @
          (if st_port item > 0 then [''--ftp-port'', int_text (st_port item)] else []) @
          (if st_username item \<noteq> [] then [''--ftp-user'', st_username item] else []) @ pass))
      else if st_provider item = ''webdav'' then
        andthen (password_flag env ''--webdav-pass'' (st_password item)) (\<lambda>pass.
        finish (['':webdav:'' @ remotePath, st_mount item, ''--webdav-url'', st_url item, ''--webdav-vendor'', ''other''] @
          (if st_username item \<noteq> [] then [''--webdav-user'', st_username item] else []) @ pass))
      else fail (XErr ''unsupported rclone network protocol''))"

section \<open>Storages\<close>

definition with_mount_path :: "storage \<Rightarrow> storage" where
  "with_mount_path item = (if trim (st_mount item) = [] then item\<lparr>st_mount := networkMountPath (st_provider item) (st_id item)\<rparr> else item)"

definition EnsureNetworkStorageMounted :: "xenv \<Rightarrow> storage \<Rightarrow> unit xact" where
  \<comment> \<open>The caller's storage is \<open>with_mount_path\<close> of it afterwards.\<close>
  "EnsureNetworkStorageMounted env item0 =
     (if \<not> IsNetworkProvider (st_provider item0) then ret ()
      else
        (let item = with_mount_path item0 in
         andthen (isMountpoint env (st_mount item)) (\<lambda>mounted.
         if mounted then ret ()
         else
           andthen (ensureMountPath env (st_mount item)) (\<lambda>_.
           if st_provider item = ''smb'' then mountSMB env item
           else if st_provider item = ''nfs'' then mountNFS env item
           else if st_provider item = ''ftp'' \<or> st_provider item = ''webdav'' then mountRcloneNetwork env item
           else fail (XErr ''unsupported network storage protocol'')))))"

definition mountedFilesystemUsage :: "xenv \<Rightarrow> string \<Rightarrow> (int \<times> int) xact" where
  "mountedFilesystemUsage env m =
     andthen (reading (\<lambda>w. x_statfs env (xw_log w) m)) (\<lambda>s.
       ret (case s of None \<Rightarrow> (0, 0) | Some (blocks, avail, bsize) \<Rightarrow>
         (int64 (int64 (int blocks) * int bsize), int64 (int64 (int avail) * int bsize))))"

text \<open>Whatever fails, the mount path is cleaned up before the error is returned.\<close>

definition or_cleaned :: "xenv \<Rightarrow> string \<Rightarrow> 'a xact \<Rightarrow> 'a xact" where
  "or_cleaned env m step =
     andthen (attempt step) (\<lambda>r. case r of Inl e \<Rightarrow> andthen (cleanupGeneratedNetworkMountPath env m) (\<lambda>_. fail e) | Inr x \<Rightarrow> ret x)"

definition record_storage :: "xenv \<Rightarrow> storage \<Rightarrow> int \<times> int \<Rightarrow> storage xact" where
  "record_storage env item0 sizes =
     (let item = item0\<lparr>st_total := fst sizes, st_free := snd sizes, st_status := Online\<rparr> in
      andthen (or_cleaned env (st_mount item)
        (put ''create network storage record'' (on_rows (\<lambda>t. map_sum id snd (storage_Add (x_up env XAdd) (st_id item) item t))))) (\<lambda>_.
      ret item))"

definition CreateNetworkStorage :: "xenv \<Rightarrow> network_req \<Rightarrow> storage xact" where
  "CreateNetworkStorage env req =
     (case validateNetworkRequest env req of
        Some e \<Rightarrow> fail (XErr e)
      | None \<Rightarrow>
          (let item = network_item env req in
           andthen (or_cleaned env (st_mount item) (EnsureNetworkStorageMounted env item)) (\<lambda>_.
           andthen (mountedFilesystemUsage env (st_mount item)) (record_storage env item))))"

definition RefreshNetworkStorageUsage :: "xenv \<Rightarrow> storage \<Rightarrow> (storage \<times> xerr option) xact" where
  "RefreshNetworkStorageUsage env item0 =
     (if \<not> IsNetworkProvider (st_provider item0) then ret (item0, None)
      else
        (let item = with_mount_path item0 in
         andthen (attempt (EnsureNetworkStorageMounted env item0)) (\<lambda>r.
         case r of
           Inl e \<Rightarrow>
             andthen (ignoring (UpdateRuntime env item (st_mount item) StError (st_total item) (st_free item))) (\<lambda>_. ret (item, Some e))
         | Inr _ \<Rightarrow>
             andthen (mountedFilesystemUsage env (st_mount item)) (\<lambda>(tot, fre).
               let item' = item\<lparr>st_total := tot, st_free := fre, st_status := Online\<rparr> in
               andthen (attempt (UpdateRuntime env item' (st_mount item') Online tot fre)) (\<lambda>s.
               ret (item', case s of Inl e \<Rightarrow> Some e | Inr _ \<Rightarrow> None))))))"

section \<open>The shares of an SMB server\<close>

record smb_req =
  sq_host :: string
  sq_user :: string
  sq_password :: string
  sq_domain :: string

text \<open>\<open>strings.SplitN(s, "|", 3)\<close>.\<close>

definition split_n3 :: "char \<Rightarrow> string \<Rightarrow> string list" where
  "split_n3 c s = (case split_on c s of a # b # d # rest \<Rightarrow> [a, b, join_with [c] (d # rest)] | parts \<Rightarrow> parts)"

definition share_of_line :: "string \<Rightarrow> (string \<times> string) option" where
  "share_of_line line =
     (case split_n3 (CHR ''|'') (trim line) of
        kind # raw # rest \<Rightarrow>
          (let name = trim raw in
           if \<not> equal_fold kind ''Disk'' \<or> name = [] \<or> equal_fold name ''IPC$'' \<or> equal_fold name ''print$'' then None
           else Some (name, case rest of comment # _ \<Rightarrow> trim comment | [] \<Rightarrow> []))
      | _ \<Rightarrow> None)"

definition parseSMBClientShares :: "string \<Rightarrow> (string \<times> string) list" where
  "parseSMBClientShares output = List.map_filter share_of_line (split_on newline output)"

definition explainSMBListError :: "string \<Rightarrow> bool \<Rightarrow> reason" where
  "explainSMBListError output guest =
     (let s = to_lower output in
      if has_any [''logon failure'', ''access denied'', ''permission denied''] s then (if guest then GuestNotAllowed else AuthFailed)
      else if has_any [''connection refused''] s then Refused
      else if has_any [''name or service not known'', ''could not resolve''] s then NoHost
      else if has_any [''no route to host'', ''host is down''] s then Unreachable
      else OtherFailure)"

definition smbclient_call :: "smb_req \<Rightarrow> xcall" where
  "smbclient_call req =
     (let host = trim_chars ''/'' (trim (sq_host req)); user = trim (sq_user req) in
      XCmd False
        ([''smbclient'', ''-L'', ''//'' @ host, ''-g''] @
         (if user = [] then [''-N'']
          else [''-U'', user] @ (if trim (sq_domain req) \<noteq> [] then [''-W'', trim (sq_domain req)] else [])))
        (if user \<noteq> [] then [''PASSWD='' @ sq_password req] else []))"

definition listSMBSharesWithAuth :: "xenv \<Rightarrow> smb_req \<Rightarrow> (string \<times> string) list xact" where
  "listSMBSharesWithAuth env req =
     andthen (must_be (x_client env) ''smbclient is missing'') (\<lambda>_.
     andthen (issue_call env (smbclient_call req)) (\<lambda>r.
     if \<not> cr_ok r then fail (Explained (explainSMBListError (cr_out r) (trim (sq_user req) = [])))
     else
       (let shares = parseSMBClientShares (cr_out r) in
        andthen (must_be (shares \<noteq> []) ''no shares'') (\<lambda>_. ret shares))))"

definition ListSMBShares :: "xenv \<Rightarrow> smb_req \<Rightarrow> (string \<times> string) list xact" where
  "ListSMBShares env req =
     andthen (must_be (trim_chars ''/'' (trim (sq_host req)) \<noteq> []) ''SMB server address is required'') (\<lambda>_.
     listSMBSharesWithAuth env req)"

section \<open>Handlers\<close>

definition answered :: "string \<Rightarrow> 'a xact \<Rightarrow> xworld \<Rightarrow> 'a resp \<times> xworld" where
  "answered err m w = (case m w of (Inr x, w') \<Rightarrow> (Reply 200 x, w') | (Inl _, w') \<Rightarrow> (Fail 400 err, w'))"

definition HandleCreateNetworkStorage :: "xenv \<Rightarrow> network_req option \<Rightarrow> xworld \<Rightarrow> storage resp \<times> xworld" where
  "HandleCreateNetworkStorage env body w =
     (case body of
        None \<Rightarrow> (Fail 400 ''INVALID_BODY'', w)
      | Some req \<Rightarrow> answered ''NETWORK_STORAGE_CREATE_FAILED'' (CreateNetworkStorage env req) w)"

definition HandleListSMBShares :: "xenv \<Rightarrow> smb_req option \<Rightarrow> xworld \<Rightarrow> (string \<times> string) list resp \<times> xworld" where
  "HandleListSMBShares env body w =
     (case body of
        None \<Rightarrow> (Fail 400 ''INVALID_BODY'', w)
      | Some req \<Rightarrow> answered ''SMB_SHARES_LIST_FAILED'' (ListSMBShares env req) w)"

end
