(* ===== verification/Cloud_Monitor.thy ===== *)
theory Cloud_Monitor
  imports Cloud_Drive Network_Storage
begin

text \<open>
  The monitor of remote storages (internal/cloudmonitor/worker.go): one run goes through the table and
  mounts and measures what it finds; a run that starts while another is active does nothing.  The
  timers, and the time limits of the calls (a call that runs into one fails), are left out.
\<close>

definition isSupportedCloud :: "storage \<Rightarrow> bool" where
  "isSupportedCloud item \<longleftrightarrow> trim (st_provider item) = ''google_drive''"

definition checkGoogleDrive :: "xenv \<Rightarrow> storage \<Rightarrow> unit xact" where
  "checkGoogleDrive env item0 =
     andthen (attempt (GetTokenByStorageID env (st_id item0))) (\<lambda>t.
     case t of
       Inr (Some tok) \<Rightarrow>
         andthen (BackfillGoogleDriveAccountEmail env item0) (\<lambda>item1.
         andthen (EnsureGoogleDriveMounted env item1 tok) (\<lambda>(item2, _).
         andthen (RefreshGoogleDriveUsage env item2) (\<lambda>_. ret ())))
     | _ \<Rightarrow> ret ())"

definition checkNetworkStorage :: "xenv \<Rightarrow> storage \<Rightarrow> unit xact" where
  "checkNetworkStorage env item = andthen (RefreshNetworkStorageUsage env item) (\<lambda>_. ret ())"

definition check_item :: "xenv \<Rightarrow> storage \<Rightarrow> unit xact" where
  "check_item env item =
     (if IsNetworkProvider (st_provider item) then checkNetworkStorage env item
      else if isSupportedCloud item then checkGoogleDrive env item
      else ret ())"

definition checkAll :: "xenv \<Rightarrow> bool \<Rightarrow> unit xact" where
  \<comment> \<open>The flag says whether another run is active (\<open>runMu.TryLock\<close>).\<close>
  "checkAll env busy =
     (if busy then ret ()
      else
        andthen (attempt (ask ''list'' (\<lambda>w. storage_List (x_up env XList) (xw_storages w)))) (\<lambda>r.
        case r of Inl _ \<Rightarrow> ret () | Inr items \<Rightarrow> each (check_item env) items))"

end
