(* ===== verification/Cloud_Frames.thy ===== *)
theory Cloud_Frames
  imports Cloud_Upload Cloud_Broker Cloud_Monitor
begin

text \<open>
  What the operations on cloud and network storages leave alone, as locales of relations between states,
  with the relations the properties use.
\<close>

section \<open>What actions keep\<close>

text \<open>
  A relation between states that the log does not count in; one that the configuration and the status of
  a storage do not count in either; and one that tokens do not count in.
\<close>

lemma wp_rows: "wp (put e (on_rows f)) Q w =
    (case f (xw_storages w) of Inl _ \<Rightarrow> Q (Inl (XErr e)) w | Inr t \<Rightarrow> Q (Inr ()) (w\<lparr>xw_storages := t\<rparr>))"
  by (simp add: wp_simps on_rows_def split: sum.split)

lemma wp_any: "(\<And>r w'. Q r w') \<Longrightarrow> wp m Q w"
  by (simp add: wp_def split: prod.split)

text \<open>What an action hands on, when it does not fail.\<close>

definition gives :: "('a \<Rightarrow> bool) \<Rightarrow> 'a xact \<Rightarrow> bool" where
  "gives P m \<longleftrightarrow> (\<forall>w. wp m (\<lambda>r _. case r of Inl _ \<Rightarrow> True | Inr x \<Rightarrow> P x) w)"

lemma gives_intros:
  "P x \<Longrightarrow> gives P (ret x)" "(\<And>x. gives P (f x)) \<Longrightarrow> gives P (andthen m f)"
  "gives P m1 \<Longrightarrow> gives P m2 \<Longrightarrow> gives P (if b then m1 else m2)"
  "(\<And>e. gives P (g e)) \<Longrightarrow> (\<And>x. gives P (h x)) \<Longrightarrow> gives P (case s of Inl e \<Rightarrow> g e | Inr x \<Rightarrow> h x)"
  "gives P m3 \<Longrightarrow> (\<And>x. gives P (h' x)) \<Longrightarrow> gives P (case v of None \<Rightarrow> m3 | Some x \<Rightarrow> h' x)"
  "(\<And>x y. gives P (k x y)) \<Longrightarrow> gives P (case p of (x, y) \<Rightarrow> k x y)"
  by (auto simp: gives_def wp_simps intro!: wp_any split: sum.split prod.split option.split)

locale world_frame =
  fixes R :: "xworld \<Rightarrow> xworld \<Rightarrow> bool"
  assumes refl: "reflp R" and trans: "transp R" and logged: "R w (w\<lparr>xw_log := l\<rparr>)"
begin

lemma same: "R w w"
  using refl by (simp add: reflp_def)

lemma flow:
  "steps R m \<Longrightarrow> (\<And>x. steps R (f x)) \<Longrightarrow> steps R (andthen m f)" "steps R (ret y)" "steps R (fail e)" "steps R (some_or z e)"
  "steps R m \<Longrightarrow> steps R (attempt m)" "steps R m \<Longrightarrow> steps R (ignoring m)"
  using steps_andthen [OF trans] steps_ret [OF refl] steps_fail [OF refl] steps_some_or [OF refl] steps_attempt steps_ignoring
  by metis+

lemma calls: "steps R (issue_call env c)" "steps R (command env e s args)" "steps R (http env e q)" "steps R (must_be b e)" "steps R (ask e f)"
  "steps R (reading g)"
  using logged same by (auto simp: steps_def wp_simps split: option.split sum.split)

lemmas basic = flow calls steps_cases

lemma requests: "steps R (googleDriveMountStatus env m)" "steps R (doJSON env e q)" "steps R (drive_call env e q)" "steps R (decoded env e f body)"
  "steps R (unmountGoogleDrive env m)" "steps R (mountGoogleDrive env remote m)" "steps R (ensureGoogleDriveMountPath env m)"
  "steps R (ensureGoogleDriveMountRoot env)"
  unfolding googleDriveMountStatus_def doJSON_def drive_call_def decoded_def unmountGoogleDrive_def mountGoogleDrive_def
    ensureGoogleDriveMountPath_def ensureGoogleDriveMountRoot_def
  by (intro basic)+

lemma email: "steps R (fetchGoogleDriveAccountEmail env access)"
  unfolding fetchGoogleDriveAccountEmail_def by (intro basic requests)

end

text \<open>
  The storages the monitor looks at.  \<open>own\<close> are the storages whose rows may be written, with what is in memory of them: the runtime
  of such a storage, the path a cloud storage belongs to, the account of a drive that has none.
\<close>

definition monitored :: "storage \<Rightarrow> bool" where
  "monitored item \<longleftrightarrow> IsNetworkProvider (st_provider item) \<or> isSupportedCloud item"

definition nameless :: "storage \<Rightarrow> bool" where
  "nameless item \<longleftrightarrow> st_provider item = ''google_drive'' \<and> trim (st_username item) = []"

definition at_cloud_path :: "storage \<Rightarrow> storage" where
  "at_cloud_path item = item\<lparr>st_mount := cloudMountPath (st_provider item) (st_id item)\<rparr>"

locale row_frame = world_frame R for R +
  fixes own :: "storage \<Rightarrow> bool"
  assumes conf: "R w (w\<lparr>xw_conf := c\<rparr>)"
    and measured: "own item \<Longrightarrow> own (item\<lparr>st_status := s\<rparr>)" "own item \<Longrightarrow> own (item\<lparr>st_total := tot\<rparr>)" "own item \<Longrightarrow> own (item\<lparr>st_free := fre\<rparr>)"
    and placed: "own item \<Longrightarrow> isOAuthBrokerCloudProvider (st_provider item) \<Longrightarrow> own (at_cloud_path item)"
    and named: "own item \<Longrightarrow> nameless item \<Longrightarrow> own (item\<lparr>st_username := user\<rparr>)"
    and runtime: "own item \<Longrightarrow>
      storage_UpdateRuntime up now (st_id item) (st_mount item) s tot fre (st_extra item) (xw_storages w) = Inr t \<Longrightarrow> R w (w\<lparr>xw_storages := t\<rparr>)"
    and identity: "own item \<Longrightarrow> nameless item \<Longrightarrow>
      storage_UpdateIdentity up now (st_id item) user (xw_storages w) = Inr t \<Longrightarrow> R w (w\<lparr>xw_storages := t\<rparr>)"
begin

lemma files: "steps R (write_conf env text)" "steps R (read_conf env)"
  unfolding write_conf_def read_conf_def using conf same by (simp_all add: steps_def wp_simps) (simp add: wp_def)

lemma row: "own item \<Longrightarrow> steps R (UpdateRuntime env item (st_mount item) s tot fre)"
  unfolding UpdateRuntime_def using runtime same by (simp add: steps_def wp_rows split: sum.split)

lemma row_placed:
  assumes "own item" "isOAuthBrokerCloudProvider (st_provider item)" "d = cloudMountPath (st_provider item) (st_id item)"
  shows "steps R (UpdateRuntime env item d s tot fre)"
proof -
  have "own (at_cloud_path item)" using assms placed by simp
  from row [OF this, of env s tot fre] assms(3) show ?thesis by (simp add: UpdateRuntime_def at_cloud_path_def)
qed

lemma naming: "own item \<Longrightarrow> nameless item \<Longrightarrow> steps R (put e (on_rows (storage_UpdateIdentity up now (st_id item) user)))"
  using identity same by (simp add: steps_def wp_rows split: sum.split)

lemma config: "steps R (upsertGoogleDriveRcloneConfig env item tok)"
  unfolding upsertGoogleDriveRcloneConfig_def getOAuthBrokerStorageToken_def Let_def by (intro basic files)

lemma or_broken: "own item \<Longrightarrow> steps R step \<Longrightarrow> steps R rest \<Longrightarrow> steps R (or_broken env item what step rest)"
  unfolding or_broken_def broken_def by (intro basic row)

lemma mount_again:
  assumes "own item" "isOAuthBrokerCloudProvider (st_provider item)" "d = cloudMountPath (st_provider item) (st_id item)"
  shows "steps R (mount_again env item d)"
  unfolding mount_again_def by (intro or_broken basic requests row_placed assms)

lemma mounted:
  assumes "own item" shows "steps R (EnsureGoogleDriveMounted env item tok)"
proof (cases "isOAuthBrokerCloudProvider (st_provider item)")
  case True
  let ?d = "cloudMountPath (st_provider item) (st_id item)"
  define it where "it = (if \<not> has_prefix ''/'' (trim (st_mount item)) then item\<lparr>st_mount := ?d\<rparr> else item)"
  have it: "own it" "isOAuthBrokerCloudProvider (st_provider it)" "?d = cloudMountPath (st_provider it) (st_id it)"
    using assms True placed by (simp_all add: it_def at_cloud_path_def)
  show ?thesis
    unfolding EnsureGoogleDriveMounted_def Let_def it_def [symmetric]
    by (intro or_broken basic requests row_placed mount_again config it)
qed (simp add: EnsureGoogleDriveMounted_def flow)

lemma used:
  assumes "own item" shows "steps R (RefreshGoogleDriveUsage env item)"
proof -
  have "own (item\<lparr>st_total := a, st_free := b, st_status := s\<rparr>)" for a b s
    by (rule measured(1) [OF measured(3) [OF measured(2) [OF assms]]])
  then show ?thesis unfolding RefreshGoogleDriveUsage_def Let_def by (intro basic requests row)
qed

text \<open>The storages that are handed on are still among those whose rows may be written.\<close>

lemma and_then:
  assumes "steps R m" "gives P m" "\<And>x. P x \<Longrightarrow> steps R (f x)"
  shows "steps R (andthen m f)"
proof -
  have "R w w'" if "andthen m f w = (r, w')" for w r w'
    using that assms(2) [unfolded gives_def, rule_format, of w] stepsD [OF assms(1)] stepsD [OF assms(3)] trans
    by (auto simp: andthen_def wp_def transp_def split: prod.splits sum.splits) blast
  then show ?thesis by (simp add: steps_def wp_def split: prod.split)
qed

lemma mounted_own:
  assumes "own item"
  shows "gives (\<lambda>(it, _). own it) (EnsureGoogleDriveMounted env item tok)"
proof (cases "isOAuthBrokerCloudProvider (st_provider item)")
  case True
  let ?d = "cloudMountPath (st_provider item) (st_id item)"
  define it where "it = (if \<not> has_prefix ''/'' (trim (st_mount item)) then item\<lparr>st_mount := ?d\<rparr> else item)"
  have p: "own (item\<lparr>st_mount := ?d\<rparr>)" using assms True placed by (simp add: at_cloud_path_def)
  have it: "own it" "own (it\<lparr>st_mount := ?d\<rparr>)" using assms p by (simp_all add: it_def)
  note all = it measured(1) [OF it(1)] measured(1) [OF it(2)]
  show ?thesis
    unfolding EnsureGoogleDriveMounted_def Let_def it_def [symmetric] mount_again_def or_broken_def broken_def
    by (intro gives_intros) (simp_all add: assms all split: sum.split)
qed (use assms in \<open>simp add: EnsureGoogleDriveMounted_def gives_intros\<close>)

end

locale token_frame = row_frame +
  assumes tokens: "R w (w\<lparr>xw_tokens := t\<rparr>)"
begin

lemma upsert: "steps R (UpsertToken env tok)"
proof -
  have "steps R (put e (insert_token up item))" for e up item
    using tokens same by (auto simp: steps_def wp_simps insert_token_def)
  then show ?thesis unfolding UpsertToken_def GetTokenByStorageID_def by (intro basic)
qed

lemma refreshed: "steps R (refreshGoogleDriveToken env i tok)"
  unfolding refreshGoogleDriveToken_def getOAuthBrokerStorageToken_def Let_def by (intro basic requests upsert)

lemma backfilled:
  assumes "own item" shows "steps R (BackfillGoogleDriveAccountEmail env item)"
proof (cases "nameless item")
  case True
  show ?thesis
    unfolding BackfillGoogleDriveAccountEmail_def GetTokenByStorageID_def Let_def
    by (intro basic naming [OF assms True] email refreshed)
qed (simp add: BackfillGoogleDriveAccountEmail_def nameless_def flow)

lemma backfilled_own:
  assumes "own item"
  shows "gives own (BackfillGoogleDriveAccountEmail env item)"
proof (cases "nameless item")
  case True
  show ?thesis
    unfolding BackfillGoogleDriveAccountEmail_def Let_def
    by (intro gives_intros assms named [OF assms True])
qed (use assms in \<open>simp add: BackfillGoogleDriveAccountEmail_def nameless_def gives_intros\<close>)

lemma checked:
  assumes "own item" shows "steps R (checkGoogleDrive env item)"
proof -
  have use: "steps R (andthen (RefreshGoogleDriveUsage env it) (\<lambda>_. ret ()))" if "own it" for it
    by (intro basic used that)
  have mount: "steps R (andthen (EnsureGoogleDriveMounted env it tok) (\<lambda>(it2, _). andthen (RefreshGoogleDriveUsage env it2) (\<lambda>_. ret ())))"
    if "own it" for it tok
    by (rule and_then [OF mounted [OF that] mounted_own [OF that]]) (use use in auto)
  have "steps R (andthen (BackfillGoogleDriveAccountEmail env item) (\<lambda>it.
      andthen (EnsureGoogleDriveMounted env it tok) (\<lambda>(it2, _). andthen (RefreshGoogleDriveUsage env it2) (\<lambda>_. ret ()))))" for tok
    by (rule and_then [OF backfilled [OF assms] backfilled_own [OF assms]]) (use mount in simp)
  note go = this
  show ?thesis
    unfolding checkGoogleDrive_def GetTokenByStorageID_def
    by (intro flow(1,2,5) calls(5) steps_sum steps_option go)
qed

end

section \<open>The relations\<close>

text \<open>The storages there are, with their tokens.\<close>

definition keeps_tokens :: "xworld \<Rightarrow> xworld \<Rightarrow> bool" where
  "keeps_tokens w w' \<longleftrightarrow> map st_id (xw_storages w') = map st_id (xw_storages w) \<and> xw_tokens w' = xw_tokens w \<and> xw_brokers w' = xw_brokers w"

interpretation conn: row_frame keeps_tokens "\<lambda>_. True"
  by unfold_locales
    (auto simp: keeps_tokens_def reflp_def transp_def storage_UpdateRuntime_def storage_UpdateIdentity_def exec_def map_tbl_upd split: if_splits)

lemma keeps_rows: "steps keeps_tokens (UpdateRuntime env item m s tot fre)"
  "steps keeps_tokens (put e (on_rows (storage_UpdateIdentity up now i user)))"
  by (auto simp: UpdateRuntime_def steps_def wp_rows keeps_tokens_def storage_UpdateRuntime_def storage_UpdateIdentity_def exec_def map_tbl_upd
      split: sum.split)

text \<open>
  What a run of the monitor may make of a row: nothing, or, where it looks at the storage, other values
  of the six columns it writes, and of these the mount path only as the path that belongs to the storage
  (for a network storage, only where it was blank) and the account only of a drive that has none.
\<close>

definition may_mount :: "storage \<Rightarrow> string \<Rightarrow> bool" where
  "may_mount r m \<longleftrightarrow> m = st_mount r \<or>
     (isOAuthBrokerCloudProvider (st_provider r) \<and> m = cloudMountPath (st_provider r) (st_id r)) \<or>
     (IsNetworkProvider (st_provider r) \<and> trim (st_mount r) = [] \<and> m = networkMountPath (st_provider r) (st_id r))"

definition watched :: "storage \<Rightarrow> storage \<Rightarrow> bool" where
  "watched r r' \<longleftrightarrow> r' = r \<or>
     (monitored r \<and> may_mount r (st_mount r') \<and> (st_username r' = st_username r \<or> nameless r) \<and>
      r' = r\<lparr>st_mount := st_mount r', st_username := st_username r', st_status := st_status r', st_total := st_total r',
        st_free := st_free r', st_updated := st_updated r'\<rparr>)"

lemma watched_refl [simp]: "watched r r"
  by (simp add: watched_def)

lemma watched_iff:
  assumes "monitored r"
  shows "watched r r' \<longleftrightarrow> (\<exists>m u s tot fre now. may_mount r m \<and> (u = st_username r \<or> nameless r) \<and>
    r' = r\<lparr>st_mount := m, st_username := u, st_status := s, st_total := tot, st_free := fre, st_updated := now\<rparr>)"
proof
  assume "watched r r'"
  then show "\<exists>m u s tot fre now. may_mount r m \<and> (u = st_username r \<or> nameless r) \<and>
    r' = r\<lparr>st_mount := m, st_username := u, st_status := s, st_total := tot, st_free := fre, st_updated := now\<rparr>"
    unfolding watched_def
  proof (elim disjE)
    assume "r' = r"
    then show ?thesis
      by (intro exI [of _ "st_mount r"] exI [of _ "st_username r"] exI [of _ "st_status r"] exI [of _ "st_total r"]
          exI [of _ "st_free r"] exI [of _ "st_updated r"]) (simp add: may_mount_def)
  qed blast
qed (use assms in \<open>auto simp: watched_def\<close>)

lemma watchedE:
  assumes "watched r r'" "monitored r"
  obtains m u s tot fre now where "may_mount r m" "u = st_username r \<or> nameless r"
    "r' = r\<lparr>st_mount := m, st_username := u, st_status := s, st_total := tot, st_free := fre, st_updated := now\<rparr>"
proof -
  have "\<exists>m u s tot fre now. may_mount r m \<and> (u = st_username r \<or> nameless r) \<and>
    r' = r\<lparr>st_mount := m, st_username := u, st_status := s, st_total := tot, st_free := fre, st_updated := now\<rparr>"
    using assms(1) by (simp only: watched_iff [OF assms(2)])
  then show thesis by (elim exE conjE) (rule that)
qed

lemma watched_only: "\<not> monitored r \<Longrightarrow> watched r r' \<longleftrightarrow> r' = r"
  by (auto simp: watched_def)

lemma watched_fields:
  assumes "watched r r'"
  shows "st_id r' = st_id r" "st_provider r' = st_provider r" "st_extra r' = st_extra r" "monitored r' = monitored r"
  using assms by (cases "monitored r"; auto simp: watched_iff watched_only monitored_def isSupportedCloud_def)+

text \<open>Writing some of these columns from a copy of the row into what has become of it.\<close>

lemma nameless_monitored: "nameless item \<Longrightarrow> monitored item"
  unfolding monitored_def nameless_def isSupportedCloud_def
  using trim_id [of "''google_drive''"] by (simp add: is_space_def)

lemma one_kind: "IsNetworkProvider p \<Longrightarrow> isOAuthBrokerCloudProvider p \<Longrightarrow> False"
  by (auto simp: IsNetworkProvider_def isOAuthBrokerCloudProvider_def)

lemma watched_write:
  assumes "watched r item" "monitored r"
  shows "watched r r' \<Longrightarrow> watched r (r'\<lparr>st_mount := st_mount item, st_status := s, st_total := tot, st_free := fre, st_extra := st_extra item, st_updated := now\<rparr>)"
    "watched r r' \<Longrightarrow> nameless item \<Longrightarrow> watched r (r'\<lparr>st_username := user, st_updated := now\<rparr>)"
    "watched r (item\<lparr>st_status := s\<rparr>)" "watched r (item\<lparr>st_total := tot\<rparr>)" "watched r (item\<lparr>st_free := fre\<rparr>)"
    "isOAuthBrokerCloudProvider (st_provider item) \<Longrightarrow> watched r (at_cloud_path item)"
    "nameless item \<Longrightarrow> watched r (item\<lparr>st_username := user\<rparr>)"
    "IsNetworkProvider (st_provider item) \<Longrightarrow> watched r (with_mount_path item)"
proof -
  obtain m u s0 t0 f0 n0 where i: "may_mount r m" "u = st_username r \<or> nameless r"
    "item = r\<lparr>st_mount := m, st_username := u, st_status := s0, st_total := t0, st_free := f0, st_updated := n0\<rparr>"
    by (rule watchedE [OF assms])
  have net: "IsNetworkProvider (st_provider r) \<Longrightarrow> trim m = [] \<Longrightarrow> may_mount r (networkMountPath (st_provider r) (st_id r))"
    using i(1) by (auto simp: may_mount_def dest: one_kind)
  have nm: "nameless item \<Longrightarrow> nameless r" using i(2,3) by (auto simp: nameless_def)
  have mk: "watched r (r\<lparr>st_mount := m2, st_username := u2, st_status := v, st_total := t2, st_free := f2, st_updated := n2\<rparr>)"
    if "may_mount r m2" "u2 = st_username r \<or> nameless r" for m2 u2 v t2 f2 n2
    using that assms(2) by (simp add: watched_def)
  show "watched r (r'\<lparr>st_mount := st_mount item, st_status := s, st_total := tot, st_free := fre, st_extra := st_extra item, st_updated := now\<rparr>)"
    if w: "watched r r'"
  proof -
    obtain m1 u1 s1 t1 f1 n1 where "may_mount r m1" "u1 = st_username r \<or> nameless r"
      "r' = r\<lparr>st_mount := m1, st_username := u1, st_status := s1, st_total := t1, st_free := f1, st_updated := n1\<rparr>"
      by (rule watchedE [OF w assms(2)])
    then show ?thesis using mk [OF i(1), where ?u2.0 = u1 and v = s and ?t2.0 = tot and ?f2.0 = fre and ?n2.0 = now] by (cases r) (simp add: i(3))
  qed
  show "watched r (r'\<lparr>st_username := user, st_updated := now\<rparr>)" if w: "watched r r'" and none: "nameless item"
  proof -
    obtain m1 u1 s1 t1 f1 n1 where "may_mount r m1" "u1 = st_username r \<or> nameless r"
      "r' = r\<lparr>st_mount := m1, st_username := u1, st_status := s1, st_total := t1, st_free := f1, st_updated := n1\<rparr>"
      by (rule watchedE [OF w assms(2)])
    then show ?thesis using mk [where ?m2.0 = m1 and ?u2.0 = user and v = s1 and ?t2.0 = t1 and ?f2.0 = f1 and ?n2.0 = now] nm [OF none] by (cases r) simp
  qed
  show "watched r (item\<lparr>st_status := s\<rparr>)" "watched r (item\<lparr>st_total := tot\<rparr>)" "watched r (item\<lparr>st_free := fre\<rparr>)"
    using mk [OF i(1,2)] by (cases r; simp add: i(3))+
  show "watched r (at_cloud_path item)" if "isOAuthBrokerCloudProvider (st_provider item)"
  proof -
    have "may_mount r (cloudMountPath (st_provider r) (st_id r))" using that by (simp add: i(3) may_mount_def)
    then show ?thesis
      using mk [OF _ i(2), where ?m2.0 = "cloudMountPath (st_provider r) (st_id r)" and v = s0 and ?t2.0 = t0 and ?f2.0 = f0 and ?n2.0 = n0]
      by (cases r) (simp add: i(3) at_cloud_path_def)
  qed
  show "watched r (item\<lparr>st_username := user\<rparr>)" if "nameless item"
    using mk [OF i(1), where ?u2.0 = user and v = s0 and ?t2.0 = t0 and ?f2.0 = f0 and ?n2.0 = n0] nm [OF that]
    by (cases r) (simp add: i(3))
  show "watched r (with_mount_path item)" if "IsNetworkProvider (st_provider item)"
    using mk [OF _ i(2), where ?m2.0 = "networkMountPath (st_provider r) (st_id r)" and v = s0 and ?t2.0 = t0 and ?f2.0 = f0 and ?n2.0 = n0]
      mk [OF i(1,2), where v = s0 and ?t2.0 = t0 and ?f2.0 = f0 and ?n2.0 = n0] net that
    by (cases r) (auto simp: i(3) with_mount_path_def)
qed

definition keyed :: "storage list \<Rightarrow> bool" where
  "keyed t \<longleftrightarrow> distinct (map st_id t) \<and> distinct (map st_mount t)"

lemma keyed_upd:
  assumes "keyed t" "i \<in> st_id ` set t \<longrightarrow> (\<forall>q\<in>set t. st_id q \<noteq> i \<longrightarrow> st_mount q \<noteq> m)" "\<And>r. st_id (g r) = st_id r" "\<And>r. st_mount (g r) = m"
  shows "keyed (tbl_upd (\<lambda>r. st_id r = i) g t)"
  using assms by (induction t) (auto simp: keyed_def tbl_upd_def image_iff)

lemma keyed_upd_same:
  assumes "keyed t" "\<And>r. st_id (g r) = st_id r" "\<And>r. st_mount (g r) = st_mount r"
  shows "keyed (tbl_upd p g t)"
  using assms by (simp add: keyed_def map_tbl_upd)

text \<open>The state a run of the monitor has reached from \<open>w0\<close>, and the storages it works on.\<close>

definition reached :: "xworld \<Rightarrow> xworld \<Rightarrow> bool" where
  "reached w0 w \<longleftrightarrow> list_all2 watched (xw_storages w0) (xw_storages w) \<and> keyed (xw_storages w) \<and>
     xw_sessions w = xw_sessions w0 \<and> xw_conns w = xw_conns w0 \<and> xw_brokers w = xw_brokers w0"

definition goes_on :: "xworld \<Rightarrow> xworld \<Rightarrow> xworld \<Rightarrow> bool" where
  "goes_on w0 w w' \<longleftrightarrow> (reached w0 w \<longrightarrow> reached w0 w')"

definition of_row :: "xworld \<Rightarrow> storage \<Rightarrow> bool" where
  "of_row w0 item \<longleftrightarrow> monitored item \<and> (\<exists>r\<in>set (xw_storages w0). watched r item)"

lemma of_row_write:
  assumes "of_row w0 item" "\<And>r. watched r item \<Longrightarrow> monitored r \<Longrightarrow> watched r item'"
  shows "of_row w0 item'"
proof -
  obtain r where r: "r \<in> set (xw_storages w0)" "watched r item" "monitored item" using assms(1) by (auto simp: of_row_def)
  then have "monitored r" using watched_fields(4) by simp
  then have "watched r item'" "monitored item'" using assms(2) [OF r(2)] watched_fields(4) by auto
  then show ?thesis using r(1) by (auto simp: of_row_def)
qed

lemma reached_upd:
  assumes "reached w0 w" "of_row w0 item" "keyed (tbl_upd (\<lambda>r. st_id r = st_id item) g (xw_storages w))"
    "\<And>r r'. monitored r \<Longrightarrow> watched r item \<Longrightarrow> watched r r' \<Longrightarrow> watched r (g r')"
  shows "reached w0 (w\<lparr>xw_storages := tbl_upd (\<lambda>r. st_id r = st_id item) g (xw_storages w)\<rparr>)"
proof -
  have all: "list_all2 watched (xw_storages w0) (xw_storages w)" "keyed (xw_storages w)" using assms(1) by (simp_all add: reached_def)
  have "map st_id t' = map st_id t" if "list_all2 watched t t'" for t t'
    using that by induction (simp_all add: watched_fields(1))
  then have "map st_id (xw_storages w) = map st_id (xw_storages w0)" using all(1) by blast
  then have ids: "distinct (map st_id (xw_storages w0))" using all(2) by (simp add: keyed_def)
  obtain o1 where o1: "o1 \<in> set (xw_storages w0)" "watched o1 item" "monitored item" using assms(2) by (auto simp: of_row_def)
  then have m: "monitored o1" using watched_fields(4) by simp
  have "list_all2 watched (xw_storages w0) (map (\<lambda>r. if st_id r = st_id item then g r else r) (xw_storages w))"
    unfolding list_all2_map2
  proof (rule list.rel_mono_strong [OF all(1)])
    fix r r' assume r: "r \<in> set (xw_storages w0)" "watched r r'"
    have "r = o1" if "st_id r' = st_id item"
      using that ids r(1) o1(1) watched_fields(1) [OF r(2)] watched_fields(1) [OF o1(2)] by (auto simp: distinct_map inj_on_def)
    then show "watched r (if st_id r' = st_id item then g r' else r')" using r(2) assms(4) [OF m o1(2)] by auto
  qed
  then show ?thesis using assms(1,3) by (simp add: reached_def tbl_upd_def)
qed

interpretation mon: token_frame "goes_on w0" "of_row w0" for w0
proof unfold_locales
  show "reflp (goes_on w0)" "transp (goes_on w0)" by (auto simp: goes_on_def reflp_def transp_def)
  show "goes_on w0 w (w\<lparr>xw_log := l\<rparr>)" "goes_on w0 w (w\<lparr>xw_conf := c\<rparr>)" "goes_on w0 w (w\<lparr>xw_tokens := tk\<rparr>)" for w l c tk
    by (simp_all add: goes_on_def reached_def)
  show "goes_on w0 w (w\<lparr>xw_storages := t\<rparr>)"
    if o: "of_row w0 item"
      and u: "storage_UpdateRuntime up now (st_id item) (st_mount item) s tot fre (st_extra item) (xw_storages w) = Inr t"
    for up now item s tot fre w t
  proof -
    let ?g = "\<lambda>r. r\<lparr>st_mount := st_mount item, st_status := s, st_total := tot, st_free := fre, st_extra := st_extra item, st_updated := now\<rparr>"
    have t: "t = tbl_upd (\<lambda>r. st_id r = st_id item) ?g (xw_storages w)"
      "st_id item \<in> st_id ` set (xw_storages w) \<longrightarrow> (\<forall>q\<in>set (xw_storages w). st_id q \<noteq> st_id item \<longrightarrow> st_mount q \<noteq> st_mount item)"
      using u by (auto simp: storage_UpdateRuntime_def split: if_splits)
    have "keyed (tbl_upd (\<lambda>r. st_id r = st_id item) ?g (xw_storages w))" if "reached w0 w"
      by (rule keyed_upd [OF _ t(2)]) (use that in \<open>simp_all add: reached_def\<close>)
    then show ?thesis
      unfolding goes_on_def t(1) using reached_upd [OF _ o, of w ?g] watched_write(1) by blast
  qed
  show "goes_on w0 w (w\<lparr>xw_storages := t\<rparr>)"
    if o: "of_row w0 item" "nameless item" and u: "storage_UpdateIdentity up now (st_id item) user (xw_storages w) = Inr t"
    for up now item user w t
  proof -
    let ?g = "\<lambda>r. r\<lparr>st_username := user, st_updated := now\<rparr>"
    have t: "t = tbl_upd (\<lambda>r. st_id r = st_id item) ?g (xw_storages w)"
      using u by (auto simp: storage_UpdateIdentity_def exec_def split: if_splits)
    have "keyed (tbl_upd (\<lambda>r. st_id r = st_id item) ?g (xw_storages w))" if "reached w0 w"
      by (rule keyed_upd_same) (use that in \<open>simp_all add: reached_def\<close>)
    then show ?thesis
      unfolding goes_on_def t(1) using reached_upd [OF _ o(1), of w ?g] watched_write(2) [OF _ _ _ o(2)] by blast
  qed
  show "of_row w0 (item\<lparr>st_status := s\<rparr>)" "of_row w0 (item\<lparr>st_total := tot\<rparr>)" "of_row w0 (item\<lparr>st_free := fre\<rparr>)"
    if "of_row w0 item" for item s tot fre
    by (rule of_row_write [OF that], erule (1) watched_write(3-5))+
  show "of_row w0 (at_cloud_path item)" if "of_row w0 item" "isOAuthBrokerCloudProvider (st_provider item)" for item
    using that watched_write(6) by (intro of_row_write [OF that(1)]) simp
  show "of_row w0 (item\<lparr>st_username := user\<rparr>)" if "of_row w0 item" "nameless item" for item user
    using watched_write(7) that(2) by (intro of_row_write [OF that(1)])
qed

end
