(* ===== verification/Network_Props.thy ===== *)
theory Network_Props
  imports Network_Storage
begin

text \<open>What network storages promise: where commands act, what a failed creation leaves, and who sees the password.\<close>

section \<open>The mount path\<close>

definition network_root_segs :: "string list" where
  "network_root_segs = [''srv'', ''yesnas'', ''network'']"

text \<open>A canonical absolute path strictly below the root of the network mounts.\<close>

definition inside_network :: "string \<Rightarrow> bool" where
  "inside_network m \<longleftrightarrow> rooted m \<and> Clean m = m \<and> length (segs m) > 3 \<and> take 3 (segs m) = network_root_segs"

lemma root_clean: "Clean defaultNetworkMountRoot = defaultNetworkMountRoot"
  by code_simp

lemma inside_networkI:
  assumes "has_prefix (defaultNetworkMountRoot @ [slash]) (Clean p)"
  shows "inside_network (Clean p)"
proof -
  obtain r where r: "Clean p = defaultNetworkMountRoot @ slash # r" using assms by (auto simp: has_prefix_iff)
  have ro: "rooted (Clean p)" unfolding r by (simp add: rooted_def defaultNetworkMountRoot_def slash_def)
  then have "Clean p = slash # join_with [slash] (segs p)"
    unfolding rooted_Clean by (simp add: Clean_def render_def norm_segs)
  then have j: "join_with [slash] (segs p) = ''srv/yesnas/network'' @ slash # r"
    unfolding r by (simp add: defaultNetworkMountRoot_def slash_def)
  then have ne: "segs p \<noteq> []" by auto
  have "\<forall>s\<in>set (segs p). slash \<notin> set s" using segs_plain [of p] ro by (auto simp: plain_seg_def)
  then have "split_on slash (join_with [slash] (segs p)) = segs p" by (rule split_join [OF ne])
  then have "segs p = split_on slash (''srv/yesnas/network'' @ slash # r)" unfolding j by (rule sym)
  also have "\<dots> = network_root_segs @ split_on slash r"
    by (simp add: split_on_app_sep network_root_segs_def) (simp add: slash_def)
  finally show ?thesis using ro length_split_on [of slash r] by (simp add: inside_network_def network_root_segs_def)
qed

text \<open>The commands of the cleaning, in terms of the paths they touch.\<close>

definition cleaning_call :: "xcall \<Rightarrow> bool" where
  "cleaning_call c \<longleftrightarrow> c = XCmd False [''mount''] [] \<or>
     (case c of XCmd True (op1 # args) [] \<Rightarrow>
        (op1 = ''umount'' \<and> length args = 1 \<and> inside_network (last args)) \<or>
        (op1 = ''rm'' \<and> length args = 2 \<and> hd args = ''-rf'' \<and> inside_network (last args))
      | _ \<Rightarrow> False)"

definition only_log :: "(xcall \<Rightarrow> bool) \<Rightarrow> xworld \<Rightarrow> xworld \<Rightarrow> bool" where
  "only_log P w w' \<longleftrightarrow> (\<exists>cs. w' = w\<lparr>xw_log := xw_log w @ cs\<rparr> \<and> list_all P cs)"

lemma only_log_refl [simp]: "only_log P w w"
  unfolding only_log_def by (intro exI [of _ "[]"]) simp

lemma only_log_trans: "only_log P w w' \<Longrightarrow> only_log P w' w'' \<Longrightarrow> only_log P w w''"
  by (fastforce simp: only_log_def)

lemma only_log_rel: "reflp (only_log P)" "transp (only_log P)"
  by (auto simp: reflp_def transp_def intro: only_log_trans)

lemma steps_run: "P c \<Longrightarrow> steps (only_log P) (issue_call env c)"
  unfolding steps_def wp_def issue_call_def only_log_def by (auto intro!: exI [of _ "[c]"])

lemma steps_must [steps_intros]: "reflp R \<Longrightarrow> steps R (must_be b e)"
  by (simp add: must_be_def steps_ret steps_fail)

lemma steps_command: "P (XCmd s args []) \<Longrightarrow> steps (only_log P) (command env e s args)"
  unfolding command_def by (intro steps_andthen only_log_rel steps_run steps_if steps_ret steps_fail)

lemma steps_isMountpoint: "P (XCmd False [''mount''] []) \<Longrightarrow> steps (only_log P) (isMountpoint env m)"
  unfolding isMountpoint_def by (intro steps_andthen only_log_rel steps_run steps_ret)

lemma steps_cleanup: "steps (only_log cleaning_call) (cleanupGeneratedNetworkMountPath env m)"
proof (cases "has_prefix (defaultNetworkMountRoot @ [slash]) (Clean (trim m))")
  case True
  then have "inside_network (Clean (trim m))" by (rule inside_networkI)
  then have c: "cleaning_call (XCmd False [''mount''] [])" "cleaning_call (XCmd True [''umount'', Clean (trim m)] [])"
    "cleaning_call (XCmd True [''rm'', ''-rf'', Clean (trim m)] [])"
    by (simp_all add: cleaning_call_def)
  show ?thesis
    unfolding cleanupGeneratedNetworkMountPath_def Let_def
    by (intro steps_if steps_andthen only_log_rel steps_ret steps_ignoring steps_run steps_isMountpoint c)
next
  case False
  then show ?thesis by (simp add: cleanupGeneratedNetworkMountPath_def root_clean steps_ret only_log_rel)
qed

text \<open>
  C37: Cleaning up after a failed mount stays inside: whatever path it is given, it only looks at
  the mount table, and unmounts and deletes canonical paths strictly below /srv/yesnas/network.  It
  changes nothing else of the state.
\<close>

theorem cleanup_stays_inside:
  "case cleanupGeneratedNetworkMountPath env m w of (r, w') \<Rightarrow>
     \<exists>cs. w' = w\<lparr>xw_log := xw_log w @ cs\<rparr> \<and> list_all cleaning_call cs"
  using steps_cleanup [of env m] by (auto simp: steps_def wp_def only_log_def split: prod.splits)

section \<open>Creation\<close>

text \<open>States that agree on everything but the log and, when its removal works, the temporary file.\<close>

definition apart_log :: "xenv \<Rightarrow> xworld \<Rightarrow> xworld \<Rightarrow> bool" where
  "apart_log env w w' \<longleftrightarrow> w'\<lparr>xw_log := [], xw_temp := []\<rparr> = w\<lparr>xw_log := [], xw_temp := []\<rparr> \<and>
     (x_up env XTempRemove \<longrightarrow> x_temp_path env \<noteq> [] \<longrightarrow> x_temp_path env \<notin> fst ` set (xw_temp w) \<longrightarrow> xw_temp w' = xw_temp w)"

lemma apart_log_rel: "reflp (apart_log env)" "transp (apart_log env)"
  by (auto simp: reflp_def transp_def apart_log_def)

lemma only_log_apart: "only_log P w w' \<Longrightarrow> apart_log env w w'"
  by (auto simp: only_log_def apart_log_def)

lemma steps_mono: "steps R m \<Longrightarrow> (\<And>w w'. R w w' \<Longrightarrow> S w w') \<Longrightarrow> steps S m"
  by (auto simp: steps_def wp_def split: prod.splits)

lemma steps_apart: "steps (only_log P) m \<Longrightarrow> steps (apart_log env) m"
  by (erule steps_mono) (rule only_log_apart)

lemma steps_calls: "steps (apart_log env) (issue_call env' c)" "steps (apart_log env) (command env' e s args)"
  "steps (apart_log env) (isMountpoint env' m)" "steps (apart_log env) (cleanupGeneratedNetworkMountPath env' m)"
  by (rule steps_apart [OF steps_run [of "\<lambda>_. True"]], rule TrueI)
    (rule steps_apart [OF steps_command [of "\<lambda>_. True"]], rule TrueI,
     rule steps_apart [OF steps_isMountpoint [of "\<lambda>_. True"]], rule TrueI,
     rule steps_apart [OF steps_cleanup])

lemma wp_temp [wp_simps]:
  "wp (create_credentials path) Q w = Q (Inr ()) (w\<lparr>xw_temp := (path, []) # xw_temp w\<rparr>)"
  "wp (write_credentials path content) Q w = Q (Inr ()) (w\<lparr>xw_temp := map (\<lambda>f. if fst f = path then (path, content) else f) (xw_temp w)\<rparr>)"
  "wp (remove_credentials env path) Q w =
     Q (Inr ()) (if x_up env XTempRemove then w\<lparr>xw_temp := filter (\<lambda>f. fst f \<noteq> path) (xw_temp w)\<rparr> else w)"
  by (simp_all add: wp_def create_credentials_def write_credentials_def remove_credentials_def)

lemma mountSMB_steps: "steps (apart_log env) (mountSMB env item)"
  unfolding steps_def
proof (intro allI)
  fix w :: xworld
  have fresh: "fst x \<noteq> x_temp_path env" if "x_temp_path env \<notin> fst ` set (xw_temp w)" "x \<in> set (xw_temp w)" for x
    using that by force
  then show "wp (mountSMB env item) (\<lambda>_ w'. apart_log env w w') w"
    by (auto simp: mountSMB_def smbCredentialsFile_def or_removed_def wp_simps Let_def apart_log_def filter_map comp_def intro!: filter_True map_idI)
qed

lemma steps_obscure: "steps (apart_log env) (password_flag env flag p)"
  unfolding password_flag_def obscureRclonePassword_def
  by (intro steps_if steps_andthen apart_log_rel steps_ret steps_must steps_calls)

lemma Ensure_steps: "steps (apart_log env) (EnsureNetworkStorageMounted env item)"
  unfolding EnsureNetworkStorageMounted_def mountNFS_def mountRcloneNetwork_def ensureMountPath_def Let_def
  by (intro steps_if steps_andthen apart_log_rel steps_ret steps_fail steps_must steps_calls mountSMB_steps steps_obscure)

lemma wp_steps: "steps R m \<Longrightarrow> (\<And>r w'. R w w' \<Longrightarrow> Q r w') \<Longrightarrow> wp m Q w"
  unfolding steps_def by (drule spec [of _ w]) (erule wp_mono, simp)

section \<open>What a creation leaves\<close>

definition cleaned :: "string \<Rightarrow> xworld \<Rightarrow> bool" where
  "cleaned m w \<longleftrightarrow> xw_log w \<noteq> [] \<and> last (xw_log w) = XCmd True [''rm'', ''-rf'', m] []"

lemma cleanup_last:
  assumes "Clean (trim m) = m" "has_prefix (defaultNetworkMountRoot @ [slash]) m"
  shows "wp (cleanupGeneratedNetworkMountPath env m) (\<lambda>_ w'. apart_log env w w' \<and> cleaned m w') w"
proof -
  obtain r where m: "m = defaultNetworkMountRoot @ slash # r" using assms(2) by (auto simp: has_prefix_iff)
  have ne: "m \<noteq> ''.''" "m \<noteq> defaultNetworkMountRoot" unfolding m by (simp_all add: defaultNetworkMountRoot_def)
  have "wp (cleanupGeneratedNetworkMountPath env m) (\<lambda>_ w'. cleaned m w') w"
    using assms ne by (simp add: cleanupGeneratedNetworkMountPath_def isMountpoint_def wp_simps root_clean cleaned_def Let_def)
  moreover have "wp (cleanupGeneratedNetworkMountPath env m) (\<lambda>_ w'. apart_log env w w') w"
    using steps_calls(4) by (simp add: steps_def)
  ultimately show ?thesis by (simp add: wp_def split: prod.splits)
qed

lemma network_path:
  assumes "plain_seg (p @ ''_'' @ i)" "i \<noteq> []" "trim i = i"
  shows "networkMountPath p i = defaultNetworkMountRoot @ slash # p @ ''_'' @ i"
    "Clean (trim (networkMountPath p i)) = networkMountPath p i"
    "has_prefix (defaultNetworkMountRoot @ [slash]) (networkMountPath p i)"
proof -
  have ro: "rooted defaultNetworkMountRoot" by code_simp
  have root: "segs defaultNetworkMountRoot = network_root_segs" by code_simp
  have c: "Clean (networkMountPath p i) = networkMountPath p i" "rooted (networkMountPath p i)"
    "segs (networkMountPath p i) = network_root_segs @ [p @ ''_'' @ i]"
    unfolding networkMountPath_def root [symmetric] using Join_rooted(3,1) [OF ro] segs_Join_plain [OF ro assms(1)] by simp_all
  have "networkMountPath p i = slash # join_with [slash] (segs (networkMountPath p i))"
    using c(1,2) norm_segs [of "networkMountPath p i"] by (simp add: Clean_def render_def)
  then show path: "networkMountPath p i = defaultNetworkMountRoot @ slash # p @ ''_'' @ i"
    unfolding c(3) by (simp add: network_root_segs_def defaultNetworkMountRoot_def slash_def)
  then show "has_prefix (defaultNetworkMountRoot @ [slash]) (networkMountPath p i)" by (simp add: has_prefix_iff)
  have "\<not> is_space (last i)" using trim_last [of i] assms(2,3) by simp
  then have "trimmed (networkMountPath p i)" using assms(2) by (simp add: path trimmed_def) (code_simp)
  then show "Clean (trim (networkMountPath p i)) = networkMountPath p i" using c(1) by (simp add: trimmed_trim)
qed

lemma wp_or_cleaned:
  assumes "wp m (\<lambda>r w'. case r of Inl e \<Rightarrow> apart_log env w w' | Inr x \<Rightarrow> Q (Inr x) w') w"
    "Clean (trim p) = p" "has_prefix (defaultNetworkMountRoot @ [slash]) p"
    "\<And>e w'. apart_log env w w' \<Longrightarrow> cleaned p w' \<Longrightarrow> Q (Inl e) w'"
  shows "wp (or_cleaned env p m) Q w"
proof -
  have clean: "wp (cleanupGeneratedNetworkMountPath env p) (\<lambda>r w2. case r of Inl e' \<Rightarrow> Q (Inl e') w2 | Inr x \<Rightarrow> Q (Inl e) w2) w1"
    if "apart_log env w w1" for e w1
    using that apart_log_rel(2) [of env] assms(4)
    by (intro wp_mono [OF cleanup_last [OF assms(2,3), of env w1]]) (auto dest: transpD split: sum.split)
  show ?thesis
    unfolding or_cleaned_def wp_simps
    by (intro wp_mono [OF assms(1)]) (auto simp: wp_simps split: sum.splits intro!: wp_mono [OF clean])
qed

lemma storage_Add_rows:
  "st_id item \<noteq> [] \<Longrightarrow> map_sum id snd (storage_Add up i item t) =
     (if \<not> up then Inl DbFail
      else if st_id item \<in> st_id ` set t \<or> st_mount item \<in> st_mount ` set t then Inl Constraint
      else Inr (t @ [item]))"
  by (auto simp: storage_Add_def insert_row_def Let_def)

text \<open>
  C32: Creating a network storage is all or nothing.  If it fails, the tables and the configuration
  are as before, and the last command has deleted the mount path of a valid request; if it succeeds,
  exactly the new row is added, online, at a mount path of its own.  Either way nothing else changes but
  the temporary files, and these are as before too unless removing the file with the credentials fails,
  an error the code ignores.  The new id is assumed to be one the file system takes as a name, and the
  path of the temporary file to be new.
\<close>

theorem network_creation_all_or_nothing:
  assumes "x_id env ''storage'' \<noteq> []" "trim (x_id env ''storage'') = x_id env ''storage''" "plain_seg (x_id env ''storage'')"
    "x_temp_path env \<noteq> []" "x_temp_path env \<notin> fst ` set (xw_temp w)"
    "CreateNetworkStorage env req w = (r, w')"
  shows "(case r of
      Inl e \<Rightarrow> w'\<lparr>xw_log := [], xw_temp := []\<rparr> = w\<lparr>xw_log := [], xw_temp := []\<rparr> \<and>
        (validateNetworkRequest env req = None \<longrightarrow> cleaned (networkMountPath (nr_protocol req) (x_id env ''storage'')) w')
    | Inr item \<Rightarrow> w'\<lparr>xw_log := [], xw_temp := []\<rparr> = w\<lparr>xw_log := [], xw_temp := [], xw_storages := xw_storages w @ [item]\<rparr> \<and>
        st_status item = Online \<and>
        st_mount item \<notin> st_mount ` set (xw_storages w) \<and> st_id item \<notin> st_id ` set (xw_storages w)) \<and>
    (x_up env XTempRemove \<longrightarrow> xw_temp w' = xw_temp w)"
proof (cases "validateNetworkRequest env req")
  case None
  let ?Q = "\<lambda>r w'. (case r of
      Inl e \<Rightarrow> w'\<lparr>xw_log := [], xw_temp := []\<rparr> = w\<lparr>xw_log := [], xw_temp := []\<rparr> \<and>
        cleaned (networkMountPath (nr_protocol req) (x_id env ''storage'')) w'
    | Inr item \<Rightarrow> w'\<lparr>xw_log := [], xw_temp := []\<rparr> = w\<lparr>xw_log := [], xw_temp := [], xw_storages := xw_storages w @ [item]\<rparr> \<and>
        st_status item = Online \<and>
        st_mount item \<notin> st_mount ` set (xw_storages w) \<and> st_id item \<notin> st_id ` set (xw_storages w)) \<and>
    (x_up env XTempRemove \<longrightarrow> xw_temp w' = xw_temp w)"
  have proto: "nr_protocol req \<in> {''ftp'', ''webdav'', ''smb'', ''nfs''}"
    using None by (auto simp: validateNetworkRequest_def split: if_splits)
  have "plain_seg (nr_protocol req @ ''_'' @ x_id env ''storage'')"
    using proto assms(3) by (auto simp: plain_seg_def dotdot_def slash_def)
  note path = network_path [OF this assms(1,2)]
  have same: "w1\<lparr>xw_log := [], xw_temp := []\<rparr> = w\<lparr>xw_log := [], xw_temp := []\<rparr> \<and> (x_up env XTempRemove \<longrightarrow> xw_temp w1 = xw_temp w)"
    if "apart_log env w w1" for w1
    using that assms(4,5) by (simp add: apart_log_def)
  have mount: "st_mount (network_item env req) = networkMountPath (nr_protocol req) (x_id env ''storage'')"
    "st_id (network_item env req) = x_id env ''storage''"
    by (simp_all add: network_item_def Let_def)
  have online: "st_mount (network_item env req\<lparr>st_total := t, st_free := f, st_status := Online\<rparr>) =
      networkMountPath (nr_protocol req) (x_id env ''storage'')"
    "st_id (network_item env req\<lparr>st_total := t, st_free := f, st_status := Online\<rparr>) = x_id env ''storage''" for t f
    by (simp_all add: mount)
  have later: "wp (record_storage env (network_item env req) sizes) ?Q w1" if "apart_log env w w1" for sizes w1
    unfolding record_storage_def Let_def wp_simps online
  proof (rule wp_or_cleaned [OF _ path(2,3)], goal_cases)
    case 1
    have rows: "xw_storages w1 = xw_storages w"
      using same [OF that] by (cases w1; cases w) simp
    show ?case using same [OF that] rows assms(1) that
      by (cases w1; cases w) (auto simp: wp_simps on_rows_def storage_Add_rows online None apart_log_rel(1) [THEN reflpD] split: sum.splits)
  next
    case (2 e w2)
    then show ?case using same apart_log_rel(2) [of env] that None by (auto dest: transpD)
  qed
  have "wp (CreateNetworkStorage env req) ?Q w"
    unfolding CreateNetworkStorage_def None option.case Let_def mountedFilesystemUsage_def wp_simps mount
  proof (rule wp_or_cleaned [OF wp_steps [OF Ensure_steps] path(2,3)], goal_cases)
    case (1 r w1)
    then show ?case using later [of w1] by (cases r) simp_all
  next
    case (2 e w2)
    then show ?case using same by auto
  qed
  then show ?thesis using assms(6) by (cases r) (auto dest: wpD)
qed (use assms in \<open>auto simp: CreateNetworkStorage_def fail_def\<close>)

section \<open>Who sees the password\<close>

text \<open>
  Until the file with the credentials is written, two storages that differ only in their password lead
  through the same states; after the command that is given the file, no other command follows.
\<close>

definition same_commands :: "'a xact \<Rightarrow> 'b xact \<Rightarrow> bool" where
  "same_commands m n \<longleftrightarrow> (\<forall>w. xw_log (snd (m w)) = xw_log (snd (n w)))"

lemma same_commands_refl: "same_commands m m"
  by (simp add: same_commands_def)

lemma same_commands_andthen: "(\<And>x. same_commands (f x) (g x)) \<Longrightarrow> same_commands (andthen m f) (andthen m g)"
  by (simp add: same_commands_def andthen_def split: prod.split sum.split)

lemma same_commands_if: "same_commands m n \<Longrightarrow> same_commands m' n' \<Longrightarrow> same_commands (if b then m else m') (if b then n else n')"
  by simp

text \<open>The credentials of a storage with a password: whether the file is written, and no command.\<close>

lemma credentials_run:
  assumes "st_password item \<noteq> []"
  shows "wp (smbCredentialsFile env item) (\<lambda>r w'. xw_log w' = xw_log w \<and>
    r = (if x_up env XTemp \<and> x_up env XTempWrite \<and> x_up env XTempClose \<and> x_up env XTempMode then Inr (x_temp_path env)
         else Inl (XErr (if \<not> x_up env XTemp then ''create smb credentials file'' else if \<not> x_up env XTempWrite then ''write smb credentials file''
           else if \<not> x_up env XTempClose then ''close smb credentials file'' else ''protect smb credentials file'')))) w"
  using assms by (simp add: smbCredentialsFile_def or_removed_def wp_simps Let_def)

lemma mountSMB_commands:
  assumes "st_password item \<noteq> []"
  shows "wp (mountSMB env item) (\<lambda>_ w'. xw_log w' = xw_log w @
    (if x_up env XTemp \<and> x_up env XTempWrite \<and> x_up env XTempClose \<and> x_up env XTempMode
     then [XCmd True [''mount'', ''-t'', ''cifs'', smb_source item, st_mount item, ''-o'',
       join_with '','' (smb_options env item (x_temp_path env))] []] else [])) w"
  unfolding mountSMB_def
  by (subst wp_andthen, rule wp_mono [OF credentials_run [OF assms]]) (auto simp: wp_simps split: sum.splits)

lemma same_mountSMB:
  assumes "p \<noteq> []" "q \<noteq> []"
  shows "same_commands (mountSMB env (item\<lparr>st_password := p\<rparr>)) (mountSMB env (item\<lparr>st_password := q\<rparr>))"
proof -
  have same: "smb_source (item\<lparr>st_password := x\<rparr>) = smb_source item" "st_mount (item\<lparr>st_password := x\<rparr>) = st_mount item"
    "smb_options env (item\<lparr>st_password := x\<rparr>) c = smb_options env item c" for x c
    by (simp_all add: smb_source_def smb_options_def)
  have log: "xw_log (snd (mountSMB env (item\<lparr>st_password := x\<rparr>) w)) = xw_log w @
    (if x_up env XTemp \<and> x_up env XTempWrite \<and> x_up env XTempClose \<and> x_up env XTempMode
     then [XCmd True [''mount'', ''-t'', ''cifs'', smb_source item, st_mount item, ''-o'',
       join_with '','' (smb_options env item (x_temp_path env))] []] else [])" if "x \<noteq> []" for x w
    using mountSMB_commands [of "item\<lparr>st_password := x\<rparr>" env w] that
    by (cases "mountSMB env (item\<lparr>st_password := x\<rparr>) w") (simp add: wp_def same)
  show ?thesis unfolding same_commands_def log [OF assms(1)] log [OF assms(2)] by simp
qed

lemma same_Ensure:
  assumes "p \<noteq> []" "q \<noteq> []" "st_provider item = ''smb''"
  shows "same_commands (EnsureNetworkStorageMounted env (item\<lparr>st_password := p\<rparr>)) (EnsureNetworkStorageMounted env (item\<lparr>st_password := q\<rparr>))"
proof -
  have m: "with_mount_path (item\<lparr>st_password := x\<rparr>) = (with_mount_path item)\<lparr>st_password := x\<rparr>"
    "st_provider (with_mount_path item) = ''smb''" "st_provider (item\<lparr>st_password := x\<rparr>) = ''smb''"
    "st_mount (i\<lparr>st_password := x\<rparr>) = st_mount i" "st_provider (i\<lparr>st_password := x\<rparr>) = st_provider i" for x i
    using assms(3) by (simp_all add: with_mount_path_def)
  show ?thesis
    unfolding EnsureNetworkStorageMounted_def Let_def m
    by (simp only: if_True refl)
      (intro same_commands_if same_commands_andthen same_commands_refl same_mountSMB assms(1,2))
qed

text \<open>
  C36: The password of an SMB storage, or of a server whose shares are listed, is on no command
  line.  Two storages that differ only in it (neither being empty) are mounted by the same commands,
  whatever the programs make of the files they are given, and two requests for shares that differ only
  in it run the same program with the same arguments.  Whether the mount works depends on the password,
  which the mounting program reads from a file.
\<close>

theorem smb_password_unseen:
  assumes "p \<noteq> []" "q \<noteq> []" "st_provider item = ''smb''"
  shows "xw_log (snd (EnsureNetworkStorageMounted env (item\<lparr>st_password := p\<rparr>) w)) =
      xw_log (snd (EnsureNetworkStorageMounted env (item\<lparr>st_password := q\<rparr>) w)) \<and>
    (case smbclient_call (req\<lparr>sq_password := p\<rparr>) of XCmd s args envs \<Rightarrow> Some (s, args) | _ \<Rightarrow> None) =
      (case smbclient_call (req\<lparr>sq_password := q\<rparr>) of XCmd s args envs \<Rightarrow> Some (s, args) | _ \<Rightarrow> None)"
  using same_Ensure [OF assms, of env] by (simp add: same_commands_def smbclient_call_def Let_def)

end
