(* ===== verification/Cloud_Props.thy ===== *)
theory Cloud_Props
  imports Cloud_Conf Cloud_Frames Network_Props
begin

text \<open>
  The properties of cloud storages: how a connection and a storage end, how often an upload is sent,
  and what the monitor does.
\<close>

section \<open>The end of a storage\<close>

lemma wp_conf: "wp (\<lambda>w. (Inr (), w\<lparr>xw_conf := Some text\<rparr>)) Q w = Q (Inr ()) (w\<lparr>xw_conf := Some text\<rparr>)"
  by (simp add: wp_def)

text \<open>
  C34: When cleaning up after a cloud storage succeeds, nothing of it is left: no token, no token of the
  broker, no session and no section of \<open>rclone.conf\<close>; the rows, and the sections of the other
  storages, are as before, and a missing \<open>rclone.conf\<close> stays missing.  This holds for an id without
  blanks at its ends when the header of the storage's section is at most once in the file; a root path
  with a line break can put it there a second time, and then a section is left.
\<close>

theorem cleanup_leaves_no_trace:
  assumes "CleanupOAuthBrokerCloudStorage env item w = (Inr (), w')" "isOAuthBrokerCloudProvider (st_provider item)"
    "trim (st_id item) = st_id item"
    "case xw_conf w of None \<Rightarrow> True
     | Some c \<Rightarrow> count_list (norm_lines c) (header_of (cloudRemoteName (st_provider item) (st_id item))) \<le> 1"
  shows "xw_tokens w' = filter (\<lambda>t. tk_storage t \<noteq> st_id item) (xw_tokens w) \<and>
    xw_brokers w' = filter (\<lambda>t. bt_storage t \<noteq> st_id item) (xw_brokers w) \<and>
    xw_sessions w' = filter (\<lambda>s. bs_storage s \<noteq> st_id item) (xw_sessions w) \<and>
    xw_storages w' = xw_storages w \<and>
    map_option (section_of m) (xw_conf w') =
      map_option (\<lambda>c. if m = cloudRemoteName (st_provider item) (st_id item) then None else section_of m c) (xw_conf w)"
proof -
  let ?name = "cloudRemoteName (st_provider item) (st_id item)"
  let ?rest = "\<lambda>w1. xw_conf w1 = xw_conf w \<and> xw_tokens w1 = xw_tokens w \<and> xw_brokers w1 = xw_brokers w \<and>
    xw_sessions w1 = xw_sessions w \<and> xw_storages w1 = xw_storages w"
  have umount: "wp (if trim (st_mount item) = [] then ret ()
      else andthen (googleDriveMountStatus env (trim (st_mount item))) (\<lambda>(mounted, _). if mounted then unmountGoogleDrive env (trim (st_mount item)) else ret ()))
      (\<lambda>_ w1. ?rest w1) w"
    by (simp add: googleDriveMountStatus_def unmountGoogleDrive_def wp_simps Let_def split: option.split)
  have "wp (CleanupOAuthBrokerCloudStorage env item) (\<lambda>r w'. r = Inr () \<longrightarrow>
      xw_tokens w' = tbl_del (\<lambda>t. tk_storage t = st_id item) (xw_tokens w) \<and>
      xw_brokers w' = tbl_del (\<lambda>t. bt_storage t = st_id item) (xw_brokers w) \<and>
      xw_sessions w' = tbl_del (\<lambda>s. bs_storage s = st_id item) (xw_sessions w) \<and>
      xw_storages w' = xw_storages w \<and> xw_conf w' = map_option (\<lambda>c. removeINISection c ?name) (xw_conf w)) w"
    unfolding CleanupOAuthBrokerCloudStorage_def if_not_P [OF not_not [THEN iffD2, OF assms(2)]] Let_def
    by (subst wp_andthen, rule wp_mono [OF umount])
      (auto simp: removeGoogleDriveRcloneConfig_def read_conf_def write_conf_def DeleteTokenByStorageID_def deleteOAuthBrokerStorageToken_def
        deleteOAuthBrokerSessionsByStorageID_def wp_simps wp_conf assms(3) split: sum.splits if_splits option.splits)
  then show ?thesis
    using conf_remove [of _ ?name m] assms(1,4) by (cases "xw_conf w") (auto simp: tbl_del_def dest!: wpD)
qed

section \<open>Uploads\<close>

definition is_upload :: "xcall \<Rightarrow> bool" where
  "is_upload c \<longleftrightarrow> (case c of XHttp q \<Rightarrow> (case hq_body q of Multipart _ _ _ \<Rightarrow> True | _ \<Rightarrow> False) | _ \<Rightarrow> False)"

text \<open>The log sends, by so many uploads at most.\<close>

definition sends :: "nat \<Rightarrow> xworld \<Rightarrow> xworld \<Rightarrow> bool" where
  "sends n w w' \<longleftrightarrow> (\<exists>cs. xw_log w' = xw_log w @ cs \<and> length (filter is_upload cs) \<le> n)"

lemma sends_trans: "sends n w w1 \<Longrightarrow> sends k w1 w2 \<Longrightarrow> sends (n + k) w w2"
  by (fastforce simp: sends_def)

lemma sends_same [simp]: "sends n w w"
  unfolding sends_def by (intro exI [of _ "[]"]) simp

lemma sends_call: "\<not> is_upload c \<Longrightarrow> sends 0 w (w\<lparr>xw_log := xw_log w @ [c]\<rparr>)"
  unfolding sends_def by (intro exI [of _ "[c]"]) simp

text \<open>Nothing of the file is sent, and nothing of it is read.\<close>

definition quiet :: "xworld \<Rightarrow> xworld \<Rightarrow> bool" where
  "quiet w w' \<longleftrightarrow> sends 0 w w' \<and> xw_read w' = xw_read w"

lemma quiet_order: "reflp quiet" "transp quiet"
  using sends_trans [of 0 _ _ 0] by (auto simp: quiet_def reflp_def transp_def)

lemma steps_quiet:
  "steps quiet (must_be b e)" "steps quiet (ask e f)" "\<not> is_upload (XHttp q) \<Longrightarrow> steps quiet (http env e q)"
  "(\<And>w w1. g w = Inr w1 \<Longrightarrow> xw_log w1 = xw_log w \<and> xw_read w1 = xw_read w) \<Longrightarrow> steps quiet (put e g)"
  by (auto simp: steps_def wp_simps quiet_def sends_call split: sum.split) (simp_all add: sends_def)

lemmas quiet_flow = steps_andthen [OF quiet_order(2)] steps_ret [OF quiet_order(1)] steps_fail [OF quiet_order(1)] steps_some_or [OF quiet_order(1)]
  steps_attempt steps_ignoring steps_cases steps_quiet

lemma decoded_quiet: "steps quiet (decoded env e f body)"
  unfolding decoded_def by (intro quiet_flow)

lemma drive_quiet: "\<not> is_upload (XHttp q) \<Longrightarrow> steps quiet (drive_call env e q)"
  unfolding drive_call_def by (intro quiet_flow)

lemma find_quiet: "steps quiet (findGoogleDriveChild env tok p n mt)"
  unfolding findGoogleDriveChild_def by (intro quiet_flow decoded_quiet drive_quiet) (simp add: is_upload_def)

lemma create_quiet: "steps quiet (createGoogleDriveFolder env tok p n)"
  unfolding createGoogleDriveFolder_def by (intro quiet_flow decoded_quiet drive_quiet) (simp add: is_upload_def)

lemma ensure_quiet: "steps quiet (ensure_folders env tok p ss)"
  by (induction ss arbitrary: p) (simp add: quiet_flow, simp only: ensure_folders.simps Let_def, intro quiet_flow find_quiet create_quiet)

lemma parent_quiet: "steps quiet (ensureGoogleDriveParentPath env item tok d)"
  unfolding ensureGoogleDriveParentPath_def Let_def by (intro quiet_flow ensure_quiet)

lemma refresh_quiet: "steps quiet (refreshGoogleDriveToken env i tok)"
proof -
  have "xw_log w1 = xw_log w \<and> xw_read w1 = xw_read w" if "insert_token up item w = Inr w1" for up item w w1
    using that by (auto simp: insert_token_def split: if_splits)
  then have up: "steps quiet (UpsertToken env t)" for t
    unfolding UpsertToken_def GetTokenByStorageID_def by (intro quiet_flow)
  show ?thesis
    unfolding refreshGoogleDriveToken_def getOAuthBrokerStorageToken_def Let_def
    by (intro quiet_flow up decoded_quiet) (simp add: is_upload_def)
qed

text \<open>One round sends at most one upload; if it succeeds, its last call is an upload that was accepted.\<close>

definition accepted :: "xenv \<Rightarrow> string \<Rightarrow> string \<Rightarrow> string \<Rightarrow> xworld \<Rightarrow> bool" where
  "accepted env name contentType content w \<longleftrightarrow>
     (\<exists>l tok p s b. xw_log w = l @ [XHttp (upload_request env tok p name contentType content)] \<and>
        x_http env l (upload_request env tok p name contentType content) = Some (s, b) \<and> ok_status s)"

text \<open>What is left of the source when the upload starts, and what an upload of it should carry.\<close>

definition unread :: "source \<Rightarrow> xworld \<Rightarrow> string" where
  "unread src w = drop (xw_read w) (sr_content src)"

definition whole :: "source \<Rightarrow> xworld \<Rightarrow> string" where
  "whole src w = (if sr_seek src = None then unread src w else sr_content src)"

lemma send_round:
  "wp (uploadGoogleDriveMultipartReader env tok p name ctype src)
     (\<lambda>r w'. sends 1 w w' \<and> (r = Inr () \<longrightarrow> accepted env name ctype (unread src w) w')) w"
proof -
  have "sends 1 w (w\<lparr>xw_read := k, xw_log := xw_log w @ [XHttp q]\<rparr>)" for k q
    unfolding sends_def by (intro exI [of _ "[XHttp q]"]) simp
  moreover have "accepted env name ctype (unread src w)
      (w\<lparr>xw_read := k, xw_log := xw_log w @ [XHttp (upload_request env tok p name ctype (unread src w))]\<rparr>)"
    if "x_http env (xw_log w) (upload_request env tok p name ctype (unread src w)) = Some (s, b)" "ok_status s" for k s b
    unfolding accepted_def using that by auto
  ultimately show ?thesis
    unfolding uploadGoogleDriveMultipartReader_def Let_def
    by (auto simp: wp_simps unread_def sends_def split: option.splits prod.splits)
qed

lemma quiet_then:
  assumes "quiet w w1"
  shows "sends n w1 w' \<Longrightarrow> sends n w w'" "unread src w1 = unread src w"
  using assms sends_trans [of 0 w w1 n w'] by (simp_all add: quiet_def unread_def)

lemma upload_round:
  "wp (upload_once env item tok rel ctype src)
     (\<lambda>r w'. sends 1 w w' \<and> (r = Inr () \<longrightarrow> accepted env (Base rel) ctype (unread src w) w')) w"
proof -
  let ?Q = "\<lambda>r w'. sends 1 w w' \<and> (r = Inr () \<longrightarrow> accepted env (Base rel) ctype (unread src w) w')"
  have last: "wp (andthen (must_be b e) (\<lambda>_. uploadGoogleDriveMultipartReader env tok p (Base rel) ctype src)) ?Q w2"
    if q: "quiet w w2" for b e p w2
  proof -
    have "wp (uploadGoogleDriveMultipartReader env tok p (Base rel) ctype src) ?Q w2"
      by (rule wp_mono [OF send_round]) (use quiet_then [OF q] in auto)
    then show ?thesis using quiet_then(1) [OF q sends_same] by (simp add: wp_simps)
  qed
  have found: "wp (andthen (findGoogleDriveChild env tok p (Base rel) [])
      (\<lambda>existing. andthen (must_be (trim existing = []) e) (\<lambda>_. uploadGoogleDriveMultipartReader env tok p (Base rel) ctype src))) ?Q w1"
    if q: "quiet w w1" for e p w1
  proof (subst wp_andthen, rule wp_steps [OF find_quiet])
    fix r :: "xerr + string" and w2 assume "quiet w1 w2"
    then have "quiet w w2" using q quiet_order(2) by (auto dest: transpD)
    then show "case r of Inl e \<Rightarrow> ?Q (Inl e) w2 | Inr existing \<Rightarrow>
        wp (andthen (must_be (trim existing = []) e) (\<lambda>_. uploadGoogleDriveMultipartReader env tok p (Base rel) ctype src)) ?Q w2"
      using last quiet_then(1) [OF \<open>quiet w w2\<close> sends_same] by (cases r) auto
  qed
  show ?thesis
    unfolding upload_once_def
  proof (subst wp_andthen, rule wp_steps [OF parent_quiet])
    fix r :: "xerr + string" and w1 assume q: "quiet w w1"
    show "case r of Inl e \<Rightarrow> ?Q (Inl e) w1 | Inr p \<Rightarrow> wp (andthen (findGoogleDriveChild env tok p (Base rel) [])
      (\<lambda>existing. andthen (must_be (trim existing = []) ''target file already exists'')
        (\<lambda>_. uploadGoogleDriveMultipartReader env tok p (Base rel) ctype src))) ?Q w1"
      using found [OF q] quiet_then(1) [OF q sends_same] by (cases r) auto
  qed
qed

text \<open>
  C35: An upload to Google Drive is sent at most twice, and only once if its reader cannot seek; and
  it is only reported as done if its last request carried the whole content under the name of the target
  and was accepted by the service.  The whole content of a reader that can seek is all of it, even when a
  first request has already read it; of one that cannot, what was left to read at the start.
\<close>

theorem upload_at_most_twice:
  "case UploadGoogleDriveReader env item targetPath src ctype w of (r, w') \<Rightarrow>
     (\<exists>cs. xw_log w' = xw_log w @ cs \<and> length (filter is_upload cs) \<le> (if sr_seek src = None then 1 else 2)) \<and>
     (isl r \<or> accepted env (Base (Clean (the (Rel (st_mount item) targetPath))))
        (if trim ctype = [] then ''application/octet-stream'' else trim ctype)
        (if sr_seek src = None then drop (xw_read w) (sr_content src) else sr_content src) w')"
proof -
  let ?n = "if sr_seek src = None then 1 else 2 :: nat"
  let ?Q = "\<lambda>rel ct r w'. sends ?n w w' \<and> (r = Inr () \<longrightarrow> accepted env (Base rel) ct (whole src w) w')"
  have more: "sends k w w' \<Longrightarrow> k \<le> ?n \<Longrightarrow> sends ?n w w'" for k w' by (fastforce simp: sends_def)
  have sought: "sends k a (b\<lparr>xw_read := 0\<rparr>) \<longleftrightarrow> sends k a b" "sends k (a\<lparr>xw_read := 0\<rparr>) b \<longleftrightarrow> sends k a b" for k a b
    by (simp_all add: sends_def)
  have all: "unread src (a\<lparr>xw_read := 0\<rparr>) = sr_content src" for a by (simp add: unread_def)
  have retry: "wp (andthen (refreshGoogleDriveToken env (st_id item) tok) (\<lambda>tok2. andthen (rewound src False) (\<lambda>_. upload_once env item tok2 rel ct src)))
      (?Q rel ct) w1" if g: "sends 1 w w1" for tok rel ct w1
  proof (subst wp_andthen, rule wp_steps [OF refresh_quiet])
    fix r :: "xerr + token" and w2 assume "quiet w1 w2"
    then have g2: "sends 1 w w2" using sends_trans [OF g, of 0 w2] by (simp add: quiet_def)
    then have g3: "sends ?n w w2" by (rule more) simp
    have "wp (upload_once env item tok2 rel ct src) (?Q rel ct) (w2\<lparr>xw_read := 0\<rparr>)" if "sr_seek src \<noteq> None" for tok2
      by (rule wp_mono [OF upload_round])
        (use sends_trans [OF g2, of 1] that in \<open>auto simp: numeral_2_eq_2 whole_def sought all\<close>)
    then show "case r of Inl e \<Rightarrow> ?Q rel ct (Inl e) w2
      | Inr tok2 \<Rightarrow> wp (andthen (rewound src False) (\<lambda>_. upload_once env item tok2 rel ct src)) (?Q rel ct) w2"
      using g3 by (cases r; cases "sr_seek src") (simp_all add: rewound_def wp_simps)
  qed
  have first: "wp (upload_once env item tok rel ct src)
      (\<lambda>r. wp (case r of
          Inr x \<Rightarrow> ret x
        | Inl e \<Rightarrow> if \<not> unauthorized e then fail e
             else andthen (refreshGoogleDriveToken env (st_id item) tok) (\<lambda>tok2. andthen (rewound src False) (\<lambda>_. upload_once env item tok2 rel ct src)))
        (?Q rel ct)) w0" if w0: "w0 = (if sr_seek src = None then w else w\<lparr>xw_read := 0\<rparr>)" for tok rel ct w0
  proof (rule wp_mono [OF upload_round])
    fix r :: "xerr + unit" and w1
    assume r: "sends 1 w0 w1 \<and> (r = Inr () \<longrightarrow> accepted env (Base rel) ct (unread src w0) w1)"
    then have "sends 1 w w1" "unread src w0 = whole src w" using w0 by (simp_all add: sought all whole_def split: if_splits)
    then show "wp (case r of
          Inr x \<Rightarrow> ret x
        | Inl e \<Rightarrow> if \<not> unauthorized e then fail e
             else andthen (refreshGoogleDriveToken env (st_id item) tok) (\<lambda>tok2. andthen (rewound src False) (\<lambda>_. upload_once env item tok2 rel ct src)))
        (?Q rel ct) w1"
      using r retry [of w1] more [of 1 w1] by (cases r) (simp_all add: wp_simps(1,2))
  qed
  have "wp (UploadGoogleDriveReader env item targetPath src ctype)
      (?Q (Clean (the (Rel (st_mount item) targetPath))) (if trim ctype = [] then ''application/octet-stream'' else trim ctype)) w"
    unfolding UploadGoogleDriveReader_def GetTokenByStorageID_def Let_def
    using first [OF refl] by (cases "sr_seek src") (simp_all add: wp_simps rewound_def split: option.split sum.split del: if_split)
  then show ?thesis
    unfolding wp_def sends_def [symmetric] whole_def unread_def
    by (cases "UploadGoogleDriveReader env item targetPath src ctype w"; cases "fst (UploadGoogleDriveReader env item targetPath src ctype w)") simp_all
qed

section \<open>The end of a connection\<close>

lemma account_keeps: "steps keeps_tokens (account_of env info tok)"
  unfolding account_of_def by (intro conn.basic conn.email)

definition there :: "string \<Rightarrow> xworld \<Rightarrow> bool" where
  "there i w \<longleftrightarrow> i \<in> set (map st_id (xw_storages w))"

lemma keeps_there: "keeps_tokens w w' \<Longrightarrow> there i w' = there i w"
  by (simp add: keeps_tokens_def there_def)

lemma create_there:
  "wp (create_storage env info s ex) (\<lambda>r w'. case r of Inl _ \<Rightarrow> True | Inr (item, tok) \<Rightarrow> there (st_id item) w' \<and> tk_storage tok = st_id item) w"
  unfolding create_storage_def Let_def
  by (subst wp_andthen, rule wp_steps [OF account_keeps])
    (auto simp: wp_simps on_rows_def storage_Add_def insert_row_def there_def tokenFromBrokerExchange_def new_cloud_storage_def Let_def split: sum.split)

lemma reconnect_keeps: "steps keeps_tokens (reconnect_storage env info s ex i)"
  unfolding reconnect_storage_def Let_def by (intro conn.basic keeps_rows account_keeps)

lemma reconnect_result:
  "wp (reconnect_storage env info s ex i)
     (\<lambda>r _. case r of Inl _ \<Rightarrow> True | Inr (item, tok) \<Rightarrow> there (st_id item) w \<and> tk_storage tok = st_id item) w"
proof -
  have found: "i \<in> st_id ` set (xw_storages w) \<and> st_id x = i" if "storage_Get up i (xw_storages w) = Inr x" for up x
    using storage_tbl.get_found [OF that] by force
  show ?thesis
    unfolding reconnect_storage_def Let_def
    by (auto simp: wp_simps there_def tokenFromBrokerExchange_def Let_def dest: found split: sum.split option.split intro!: wp_any)
qed

lemma wp_conj: "wp m P w \<Longrightarrow> wp m Q w \<Longrightarrow> wp m (\<lambda>r w'. P r w' \<and> Q r w') w"
  by (simp add: wp_def split: prod.splits)

lemma reconnect_there:
  "wp (reconnect_storage env info s ex i) (\<lambda>r w'. case r of Inl _ \<Rightarrow> True | Inr (item, tok) \<Rightarrow> there (st_id item) w' \<and> tk_storage tok = st_id item) w"
proof -
  have "wp (reconnect_storage env info s ex i) (\<lambda>_ w'. keeps_tokens w w') w" by (rule wp_steps [OF reconnect_keeps])
  then show ?thesis
    by (rule wp_mono [OF wp_conj [OF reconnect_result]]) (auto simp: keeps_there [of w] split: sum.splits)
qed

text \<open>After a token is written, it is in the table.\<close>

definition has_token :: "string \<Rightarrow> xworld \<Rightarrow> bool" where
  "has_token i w \<longleftrightarrow> i \<in> set (map tk_storage (xw_tokens w))"

definition has_broker :: "string \<Rightarrow> string \<Rightarrow> xworld \<Rightarrow> bool" where
  "has_broker i base w \<longleftrightarrow> (i, base) \<in> set (map (\<lambda>b. (bt_storage b, bt_base b)) (xw_brokers w))"

lemma upd_there: "\<exists>r\<in>set t. p r \<Longrightarrow> (\<And>r. p r \<Longrightarrow> f (g r) = k) \<Longrightarrow> k \<in> set (map f (tbl_upd p g t))"
  by (induction t) (auto simp: tbl_upd_def)

lemma insert_token_has: "insert_token up item w = Inr w' \<Longrightarrow> has_token (tk_storage item) w' \<and> xw_storages w' = xw_storages w"
  using upd_there [of "xw_tokens w" "\<lambda>t. tk_storage t = tk_storage item" tk_storage]
  by (auto simp: insert_token_def has_token_def simp del: set_map split: if_splits)

lemma upsert_has:
  "wp (UpsertToken env tok) (\<lambda>r w'. xw_storages w' = xw_storages w \<and> (\<not> isl r \<longrightarrow> has_token (tk_storage tok) w')) w"
  unfolding UpsertToken_def GetTokenByStorageID_def
  by (auto simp: wp_simps dest: insert_token_has split: sum.split option.split if_split)

lemma connected:
  "wp (createOrReconnectCloudStorageFromBroker env info s ex)
     (\<lambda>r w'. case r of Inl _ \<Rightarrow> True | Inr (item, tok) \<Rightarrow> there (st_id item) w' \<and> has_token (st_id item) w') w"
proof -
  have kept: "wp (UpsertToken env tok) (\<lambda>r w'. \<not> isl r \<longrightarrow> there i w' \<and> has_token i w') w1"
    if "there i w1" "tk_storage tok = i" for tok i w1
    by (rule wp_mono [OF upsert_has]) (use that in \<open>auto simp: there_def\<close>)
  have first: "wp (if b then create_storage env info s ex else reconnect_storage env info s ex i)
      (\<lambda>r w'. case r of Inl _ \<Rightarrow> True | Inr (item, tok) \<Rightarrow> there (st_id item) w' \<and> tk_storage tok = st_id item) w" for b i
    using create_there reconnect_there by simp
  show ?thesis
    unfolding createOrReconnectCloudStorageFromBroker_def
    by (subst wp_andthen, rule wp_mono [OF first])
      (auto simp: wp_simps split: sum.splits intro!: wp_mono [OF kept])
qed

lemma saved_broker:
  "wp (saveOAuthBrokerStorageToken env i base ex)
     (\<lambda>r w'. xw_storages w' = xw_storages w \<and> xw_tokens w' = xw_tokens w \<and> (\<not> isl r \<longrightarrow> has_broker i base w')) w"
  unfolding saveOAuthBrokerStorageToken_def getOAuthBrokerStorageToken_def Let_def
  by (auto simp: wp_simps has_broker_def simp del: set_map intro!: upd_there split: sum.split option.split if_splits)

lemma issue_keeps: "steps keeps_tokens (issueJWT env base)"
proof -
  have "steps keeps_tokens (stamped what env site base f)" for what site f
    by (auto simp: stamped_def steps_def wp_simps keeps_tokens_def split: sum.split)
  then show ?thesis
    unfolding issueJWT_def getOAuthBrokerConnection_def Let_def by (intro conn.basic conn.requests)
qed

lemma status_keeps: "steps keeps_tokens (updateOAuthBrokerSessionStatus env i s)"
  by (auto simp: updateOAuthBrokerSessionStatus_def steps_def wp_simps keeps_tokens_def split: sum.split)

lemma broker_keeps: "steps keeps_tokens (status_call env base jwt i)" "steps keeps_tokens (exchange env base jwt i)"
  unfolding status_call_def exchange_def by (intro conn.basic conn.requests)+

definition connected_to :: "string \<Rightarrow> string \<Rightarrow> xworld \<Rightarrow> bool" where
  "connected_to i base w \<longleftrightarrow> there i w \<and> has_token i w \<and> has_broker i base w"

lemma connected_keeps: "steps keeps_tokens m \<Longrightarrow> connected_to i base w \<Longrightarrow> (\<And>r w'. connected_to i base w' \<Longrightarrow> Q r w') \<Longrightarrow> wp m Q w"
  by (erule wp_steps) (simp add: keeps_tokens_def connected_to_def there_def has_token_def has_broker_def del: set_map)

text \<open>The storage that the mounting and the measuring hand back is the one they were given.\<close>

lemma mounted_hands: "gives (\<lambda>(it, _). st_id it = st_id item) (EnsureGoogleDriveMounted env item tok)"
  unfolding EnsureGoogleDriveMounted_def mount_again_def or_broken_def broken_def Let_def
  by (intro gives_intros) (simp_all split: sum.split)

lemma used_hands: "gives (\<lambda>(it, _). st_id it = st_id item) (RefreshGoogleDriveUsage env item)"
  unfolding RefreshGoogleDriveUsage_def Let_def by (intro gives_intros) simp_all

lemma connected_hands:
  assumes "steps keeps_tokens m" "gives (\<lambda>(it, _). st_id it = i) m" "connected_to i base w"
    "\<And>item e w'. st_id item = i \<Longrightarrow> connected_to i base w' \<Longrightarrow> Q (Inr (item, e)) w'" "\<And>e w'. Q (Inl e) w'"
  shows "wp m Q w"
proof -
  have "wp m (\<lambda>r _. case r of Inl _ \<Rightarrow> True | Inr (item, _) \<Rightarrow> st_id item = i) w" using assms(2) by (simp add: gives_def)
  moreover have "wp m (\<lambda>_ w'. connected_to i base w') w" by (rule connected_keeps [OF assms(1,3)])
  ultimately show ?thesis by (rule wp_mono [OF wp_conj]) (auto split: sum.splits intro: assms(4,5))
qed

definition replied :: "string \<Rightarrow> xerr + complete_reply \<Rightarrow> xworld \<Rightarrow> bool" where
  "replied base r w \<longleftrightarrow> (case r of Inl _ \<Rightarrow> True | Inr reply \<Rightarrow> connected_to (st_id (cm_storage reply)) base w)"

lemma completion_ends:
  assumes "connected_to (st_id item) base w"
  shows "wp (andthen (EnsureGoogleDriveMounted env item tok) (\<lambda>(mounted, err).
       case err of
         Some e \<Rightarrow> fail e
       | None \<Rightarrow>
           andthen (RefreshGoogleDriveUsage env mounted) (\<lambda>(refreshed, warning).
           andthen (ignoring (updateOAuthBrokerSessionStatus env sessionID ''used'')) (\<lambda>_.
           ret \<lparr>cm_provider = p, cm_storage = refreshed, cm_remote = remote, cm_warning = (warning \<noteq> None)\<rparr>))))
     (replied base) w"
proof (subst wp_andthen, rule connected_hands [OF conn.mounted [OF TrueI] mounted_hands assms])
  fix mounted :: storage and err :: "xerr option" and w1 :: xworld assume m: "st_id mounted = st_id item" "connected_to (st_id item) base w1"
  have "wp (andthen (RefreshGoogleDriveUsage env mounted) (\<lambda>(refreshed, warning).
           andthen (ignoring (updateOAuthBrokerSessionStatus env sessionID ''used'')) (\<lambda>_.
           ret \<lparr>cm_provider = p, cm_storage = refreshed, cm_remote = remote, cm_warning = (warning \<noteq> None)\<rparr>)))
     (replied base) w1"
  proof (subst wp_andthen, rule connected_hands [OF conn.used [OF TrueI] used_hands])
    show "connected_to (st_id mounted) base w1" using m by simp
  next
    fix refreshed :: storage and warning :: "xerr option" and w2 :: xworld assume u: "st_id refreshed = st_id mounted" "connected_to (st_id mounted) base w2"
    have "wp (ignoring (updateOAuthBrokerSessionStatus env sessionID ''used'')) (\<lambda>r w'. connected_to (st_id refreshed) base w') w2"
      by (rule connected_keeps [OF conn.flow(6) [OF status_keeps]]) (use u in simp_all)
    then show "case Inr (refreshed, warning) of Inl e \<Rightarrow> replied base (Inl e) w2
      | Inr x \<Rightarrow> wp (case x of (refreshed, warning) \<Rightarrow>
          andthen (ignoring (updateOAuthBrokerSessionStatus env sessionID ''used'')) (\<lambda>_.
           ret \<lparr>cm_provider = p, cm_storage = refreshed, cm_remote = remote, cm_warning = (warning \<noteq> None)\<rparr>)) (replied base) w2"
      unfolding sum.case prod.case wp_andthen by (rule wp_mono) (auto simp: wp_simps replied_def split: sum.split)
  qed (simp add: replied_def)
  then show "case Inr (mounted, err) of Inl e \<Rightarrow> replied base (Inl e) w1
    | Inr x \<Rightarrow> wp (case x of (mounted, err) \<Rightarrow> case err of
         Some e \<Rightarrow> fail e
       | None \<Rightarrow>
           andthen (RefreshGoogleDriveUsage env mounted) (\<lambda>(refreshed, warning).
           andthen (ignoring (updateOAuthBrokerSessionStatus env sessionID ''used'')) (\<lambda>_.
           ret \<lparr>cm_provider = p, cm_storage = refreshed, cm_remote = remote, cm_warning = (warning \<noteq> None)\<rparr>))) (replied base) w1"
    by (cases err) (simp_all add: wp_simps(2) replied_def)
qed (simp add: replied_def)

lemma completion_saves:
  "wp (andthen (createOrReconnectCloudStorageFromBroker env info s ex) (\<lambda>(item, tok).
       andthen (saveOAuthBrokerStorageToken env (st_id item) base ex) (\<lambda>_. f item tok))) (replied base) w"
  if f: "\<And>item tok w. connected_to (st_id item) base w \<Longrightarrow> wp (f item tok) (replied base) w"
proof (subst wp_andthen, rule wp_mono [OF connected])
  fix r :: "xerr + storage \<times> token" and w1
  assume r: "case r of Inl _ \<Rightarrow> True | Inr (item, tok) \<Rightarrow> there (st_id item) w1 \<and> has_token (st_id item) w1"
  show "case r of Inl e \<Rightarrow> replied base (Inl e) w1
    | Inr x \<Rightarrow> wp (case x of (item, tok) \<Rightarrow> andthen (saveOAuthBrokerStorageToken env (st_id item) base ex) (\<lambda>_. f item tok)) (replied base) w1"
  proof (cases r)
    case (Inr x)
    then obtain item tok where x: "r = Inr (item, tok)" by (cases x) simp
    have "wp (andthen (saveOAuthBrokerStorageToken env (st_id item) base ex) (\<lambda>_. f item tok)) (replied base) w1"
      by (subst wp_andthen, rule wp_mono [OF saved_broker])
        (use r x f in \<open>auto simp: replied_def connected_to_def there_def has_token_def simp del: set_map split: sum.splits\<close>)
    then show ?thesis by (simp add: x)
  qed (simp add: replied_def)
qed

lemma replied_Inl [simp]: "replied base (Inl e) w"
  by (simp add: replied_def)

lemma skip: "(\<And>x w'. wp (f x) (replied base) w') \<Longrightarrow> wp (andthen m f) (replied base) w"
  by (auto simp: wp_simps intro!: wp_any split: sum.split)

lemma session_wp:
  "find (\<lambda>s. bs_id s = trim sessionID) (xw_sessions w) = Some s \<Longrightarrow> (\<And>w'. wp (f s) (replied base) w') \<Longrightarrow>
    wp (andthen (getOAuthBrokerSession env sessionID) f) (replied base) w"
  by (simp add: getOAuthBrokerSession_def wp_simps select_row_def)

lemma completed_wp:
  assumes "oauthBrokerProviderInfo provider = Some info" "find (\<lambda>s. bs_id s = trim sessionID) (xw_sessions w) = Some s"
  shows "wp (CompleteCloudOAuthViaBroker env provider sessionID) (replied (bs_base s)) w"
proof -
  have known: "wp (andthen (some_or (Some info) e) f) (replied base) w" if "wp (f info) (replied base) w" for e f base
    using that by (simp add: wp_simps)
  show ?thesis
    unfolding CompleteCloudOAuthViaBroker_def Let_def assms(1)
    by (rule known, rule session_wp [OF assms(2)]) (rule completion_saves, erule completion_ends | rule skip)+
qed

text \<open>
  C33: Completing a connection connects.  If it succeeds, there was a session of this server for
  that provider under the given id, and the storage of the reply has its row, a token, and a token of
  the broker the session was opened at.
\<close>

theorem completion_connects:
  assumes "CompleteCloudOAuthViaBroker env provider sessionID w = (Inr reply, w')"
  shows "case (oauthBrokerProviderInfo provider, find (\<lambda>s. bs_id s = trim sessionID) (xw_sessions w)) of
      (Some info, Some s) \<Rightarrow> bs_provider s = op_broker info \<and> connected_to (st_id (cm_storage reply)) (bs_base s) w'
    | _ \<Rightarrow> False"
proof -
  have ok: "wp (CompleteCloudOAuthViaBroker env provider sessionID) (\<lambda>r _. \<not> isl r \<longrightarrow>
      (case (oauthBrokerProviderInfo provider, find (\<lambda>s. bs_id s = trim sessionID) (xw_sessions w)) of
        (Some info, Some s) \<Rightarrow> bs_provider s = op_broker info | _ \<Rightarrow> False)) w"
    unfolding CompleteCloudOAuthViaBroker_def getOAuthBrokerSession_def
    by (auto simp: wp_simps select_row_def Let_def intro!: wp_any split: option.split sum.split)
  then obtain info s where s: "oauthBrokerProviderInfo provider = Some info" "find (\<lambda>s. bs_id s = trim sessionID) (xw_sessions w) = Some s"
    "bs_provider s = op_broker info"
    using wpD [OF ok assms] by (auto split: option.splits)
  then show ?thesis using wpD [OF completed_wp [OF s(1,2)] assms] by (simp add: replied_def)
qed

section \<open>The monitor\<close>

lemma apart_goes_on: "steps (apart_log env) m \<Longrightarrow> steps (goes_on w0) m"
proof (erule steps_mono)
  fix w w' :: xworld assume "apart_log env w w'"
  then show "goes_on w0 w w'" by (cases w; cases w') (simp add: apart_log_def goes_on_def reached_def)
qed

lemma network_goes_on:
  assumes "of_row w0 item"
  shows "steps (goes_on w0) (RefreshNetworkStorageUsage env item)"
proof (cases "IsNetworkProvider (st_provider item)")
  case True
  let ?it = "with_mount_path item"
  have it: "of_row w0 ?it" using watched_write(8) True by (intro of_row_write [OF assms])
  have "of_row w0 (?it\<lparr>st_total := t, st_free := f, st_status := s\<rparr>)" for t f s
    by (rule mon.measured(1) [OF mon.measured(3) [OF mon.measured(2) [OF it]]])
  note own = it this
  show ?thesis
    unfolding RefreshNetworkStorageUsage_def mountedFilesystemUsage_def Let_def
    by (intro mon.basic mon.row own apart_goes_on [OF Ensure_steps])
qed (simp add: RefreshNetworkStorageUsage_def mon.flow)

lemma item_goes_on:
  assumes "item \<in> set (xw_storages w0)"
  shows "steps (goes_on w0) (check_item env item)"
proof (cases "monitored item")
  case True
  then have "of_row w0 item" unfolding of_row_def using assms by (intro conjI bexI [of _ item]) simp_all
  then show ?thesis unfolding check_item_def checkNetworkStorage_def by (intro mon.basic network_goes_on mon.checked)
qed (simp add: check_item_def monitored_def mon.flow)

text \<open>Actions that report no error.\<close>

definition never_fails :: "'a xact \<Rightarrow> bool" where
  "never_fails m \<longleftrightarrow> (\<forall>w. wp m (\<lambda>r _. \<not> isl r) w)"

lemma never_fails_basic: "never_fails (ret x)" "never_fails (attempt n)" "never_fails (ignoring k)" "never_fails (reading g)" "never_fails (issue_call env c)"
  by (auto simp: never_fails_def wp_simps intro: wp_any)

lemma never_fails_andthen: "never_fails m \<Longrightarrow> (\<And>x. never_fails (f x)) \<Longrightarrow> never_fails (andthen m f)"
  unfolding never_fails_def wp_andthen by (intro allI, drule spec, erule wp_mono) (auto split: sum.split)

lemma never_fails_cases:
  "never_fails m1 \<Longrightarrow> never_fails m2 \<Longrightarrow> never_fails (if b then m1 else m2)"
  "(\<And>e. never_fails (h e)) \<Longrightarrow> (\<And>x. never_fails (k x)) \<Longrightarrow> never_fails (case s of Inl e \<Rightarrow> h e | Inr x \<Rightarrow> k x)"
  "never_fails m3 \<Longrightarrow> (\<And>x. never_fails (f x)) \<Longrightarrow> never_fails (case v of None \<Rightarrow> m3 | Some x \<Rightarrow> f x)"
  "(\<And>x y. never_fails (l x y)) \<Longrightarrow> never_fails (case p of (x, y) \<Rightarrow> l x y)"
  by (auto split: sum.split option.split prod.split)

lemmas never_fails_intros = never_fails_basic never_fails_andthen never_fails_cases

lemma never_fails_each: "(\<And>x. never_fails (f x)) \<Longrightarrow> never_fails (each f xs)"
  by (induction xs) (auto intro: never_fails_intros)

lemma item_never_fails: "never_fails (check_item env item)"
  unfolding check_item_def checkNetworkStorage_def RefreshNetworkStorageUsage_def checkGoogleDrive_def BackfillGoogleDriveAccountEmail_def
    EnsureGoogleDriveMounted_def mount_again_def or_broken_def broken_def googleDriveMountStatus_def RefreshGoogleDriveUsage_def
    mountedFilesystemUsage_def Let_def
  by (intro never_fails_intros)

text \<open>
  C40: The monitor watches, it does not change what storages are.  A run always comes to its end,
  whatever fails on the way.  No storage is added or removed, sessions, connections and broker tokens
  stay, and ids and mount paths stay distinct.  A storage that is neither on Google Drive nor a network
  storage keeps its row as it is.  Of the others a run only writes the mount path, the account, the status, the
  sizes and the time: the mount path becomes at most the one that belongs to the storage (for a network
  storage, only where it was blank), and an account is only written for a drive that has none.
\<close>

theorem monitor_keeps_storages:
  assumes "keyed (xw_storages w)"
  shows "case checkAll env busy w of (r, w') \<Rightarrow>
    r = Inr () \<and> list_all2 watched (xw_storages w) (xw_storages w') \<and> keyed (xw_storages w') \<and>
    xw_sessions w' = xw_sessions w \<and> xw_conns w' = xw_conns w \<and> xw_brokers w' = xw_brokers w"
proof -
  have start: "reached w w" using assms by (simp add: reached_def list.rel_refl)
  have "steps (goes_on w) (each (check_item env) (xw_storages w))"
    by (intro steps_each [OF mon.refl mon.trans] item_goes_on)
  then have "wp (each (check_item env) (xw_storages w)) (\<lambda>_ w'. reached w w') w"
    using start by (intro wp_steps [where R = "goes_on w"]) (simp_all add: goes_on_def)
  then have "wp (checkAll env busy) (\<lambda>_ w'. reached w w') w"
    using start by (simp add: checkAll_def wp_simps storage_List_def sel_all_def split: sum.split)
  moreover have "never_fails (checkAll env busy)"
    unfolding checkAll_def by (intro never_fails_intros never_fails_each item_never_fails)
  ultimately show ?thesis
    by (auto simp: never_fails_def wp_def reached_def split: prod.splits dest!: spec [of _ w])
      (metis isl_def old.sum.exhaust old.unit.exhaust)
qed

end
