(* ===== verification/Cloud_Witnesses.thy ===== *)
theory Cloud_Witnesses
  imports Cloud_Props
begin

text \<open>The properties of cloud and network storages at concrete inputs.\<close>

section \<open>An environment\<close>

text \<open>Replies by what the address contains.\<close>

definition cloud_demo_replies :: "(string \<times> string) list" where
  "cloud_demo_replies = [(''/auth/token'', ''jwt''), (''/oauth/status/'', ''status''), (''/oauth/exchange'', ''exchange''), (''/about?'', ''user''),
     (''/upload/'', ''done''), (''/files?'', ''files''), (''/files'', ''folder'')]"

definition cloud_demo_json :: "(string \<times> json) list" where
  "cloud_demo_json =
     [(''jwt'', JObject [(''access_token'', JString ''j'')]),
      (''status'', JObject [(''status'', JString ''success'')]),
      (''exchange'', JObject [(''provider'', JString ''google''), (''rclone'', JObject [(''type'', JString ''drive''),
         (''token_url'', JString ''https://b/t''), (''token'', JObject [(''access_token'', JString ''a''), (''refresh_token'', JString ''r'')])])]),
      (''user'', JObject [(''user'', JObject [(''emailAddress'', JString ''ada@x'')])]),
      (''files'', JObject []), (''folder'', JObject [(''id'', JString ''f1'')]),
      (''usage'', JObject [(''total'', JNumber ''9''), (''used'', JNumber ''4'')])]"

definition cloud_demo_http :: "xcall list \<Rightarrow> hreq \<Rightarrow> (nat \<times> string) option" where
  "cloud_demo_http l q = map_option (\<lambda>r. (200, snd r)) (find (\<lambda>r. contains_sub (fst r) (hq_url q)) cloud_demo_replies)"

definition cloud_demo_run :: "xfiles \<Rightarrow> xcall list \<Rightarrow> xcall \<Rightarrow> cmd_result" where
  "cloud_demo_run fs l c =
     \<lparr>cr_ok = True, cr_out = (case c of XCmd _ args _ \<Rightarrow> if take 2 args = [''rclone'', ''about''] then ''usage'' else [] | _ \<Rightarrow> []), cr_err = []\<rparr>"

definition demo :: xenv where
  "demo =
     \<lparr>x_run = cloud_demo_run, x_http = cloud_demo_http, x_drained = (\<lambda>l q. True), x_up = (\<lambda>s. True), x_json = map_of cloud_demo_json,
      x_marshal = (\<lambda>j. ''j''), x_url_ok = (\<lambda>u. True), x_request_ok = (\<lambda>u. True), x_escape = (\<lambda>s. s), x_query = (\<lambda>q. ''q''),
      x_boundary = ''b'', x_sign = (\<lambda>k p. Some ''s''), x_keys = Some (''p'', ''k''), x_getenv = (\<lambda>s. []), x_host = ''nas'',
      x_id = (\<lambda>s. ''i1''), x_now = 7, x_after = (\<lambda>n. ''later''), x_statfs = (\<lambda>l m. Some (10, 5, 4)), x_uid = 0, x_gid = 0,
      x_conf_path = ''/c'', x_temp_path = ''/tmp/c1'', x_client = True\<rparr>"

definition cloud_demo_drive :: storage where
  "cloud_demo_drive =
     \<lparr>st_id = ''d1'', st_name = ''Drive'', st_location = ''cloud'', st_mount = ''/srv/yesnas/cloud/gdrive_d1'', st_type = Cloud,
      st_provider = ''google_drive'', st_host = [], st_port = 0, st_url = [], st_username = ''ada@x'', st_password = [], st_token = [],
      st_domain = [], st_share = [], st_root = ''root'', st_extra = [], st_status = Offline, st_total = 0, st_free = 0, st_updated = 1\<rparr>"

definition cloud_demo_share :: storage where
  "cloud_demo_share = cloud_demo_drive\<lparr>st_id := ''n1'', st_name := ''Share'', st_location := ''network'', st_mount := ''/srv/yesnas/network/smb_n1'',
     st_type := SMB, st_provider := ''smb'', st_host := ''h'', st_username := ''ada'', st_password := ''pw'', st_share := ''s''\<rparr>"

definition cloud_demo_token :: token where
  "cloud_demo_token = \<lparr>tk_id = ''t1'', tk_storage = ''d1'', tk_type = ''Bearer'', tk_access = ''a'', tk_refresh = ''r'', tk_expiry = None, tk_scope = [], tk_raw = []\<rparr>"

definition cloud_demo_broker :: broker_token where
  "cloud_demo_broker = \<lparr>bt_id = ''b1'', bt_storage = ''d1'', bt_base = ''https://b'', bt_provider = ''google'', bt_refresh = ''r'', bt_url = ''https://b/t'', bt_config = []\<rparr>"

definition cloud_demo_session :: broker_session where
  "cloud_demo_session = \<lparr>bs_id = ''s1'', bs_base = ''https://b'', bs_provider = ''google'', bs_storage = [], bs_name = ''Mine'', bs_root = ''root'',
     bs_status = ''pending'', bs_url = [], bs_expires = None\<rparr>"

definition cloud_demo_conn :: broker_connection where
  "cloud_demo_conn = \<lparr>bn_id = ''c1'', bn_base = ''https://b'', bn_device = ''yesnas-1'', bn_name = ''nas'', bn_public = ''p'', bn_private = ''k'',
     bn_registered = Some 1, bn_auth = None\<rparr>"

definition cloud_demo_conf :: string where
  "cloud_demo_conf = join_with [newline] [''[other]'', ''type = x'', ''[gdrive_d1]'', ''type = drive'', []]"

definition cloud_demo_world :: xworld where
  "cloud_demo_world = \<lparr>xw_storages = [cloud_demo_share, cloud_demo_drive], xw_tokens = [cloud_demo_token], xw_conns = [cloud_demo_conn], xw_sessions = [cloud_demo_session],
     xw_brokers = [cloud_demo_broker], xw_conf = Some cloud_demo_conf, xw_temp = [], xw_read = 0, xw_log = []\<rparr>"

section \<open>rclone.conf\<close>

lemma conf_is_a_map_witness:
  "section_of ''other'' (upsertINISection cloud_demo_conf ''gdrive_d1'' (join_with [newline] [''[gdrive_d1]'', ''type = y''])) = Some [''type = x''] \<and>
   section_of ''gdrive_d1'' (removeINISection cloud_demo_conf ''gdrive_d1'') = None"
proof -
  have 1: "count_list (norm_lines cloud_demo_conf) (header_of ''gdrive_d1'') \<le> 1" by code_simp
  have 2: "norm_lines (join_with [newline] [''[gdrive_d1]'', ''type = y'']) = header_of ''gdrive_d1'' # [''type = y'']" by code_simp
  have 3: "list_all (\<lambda>b. \<not> is_section b) [''type = y'']" by code_simp
  have 4: "section_of ''other'' cloud_demo_conf = Some [''type = x'']" by code_simp
  show ?thesis using conf_is_a_map [OF 1 2 3, of "''other''"] conf_is_a_map [OF 1 2 3, of "''gdrive_d1''"] 4 by simp
qed

lemma cleanup_leaves_no_trace_witness:
  "(case CleanupOAuthBrokerCloudStorage demo cloud_demo_drive cloud_demo_world of (r, w') \<Rightarrow>
      r = Inr () \<and> xw_tokens w' = [] \<and> xw_brokers w' = [] \<and> map_option (section_of ''other'') (xw_conf w') = Some (Some [''type = x'']))"
proof -
  let ?r = "CleanupOAuthBrokerCloudStorage demo cloud_demo_drive cloud_demo_world"
  have done_ok: "fst ?r = Inr ()" by code_simp
  have p: "isOAuthBrokerCloudProvider (st_provider cloud_demo_drive)" "trim (st_id cloud_demo_drive) = st_id cloud_demo_drive" by code_simp+
  have conf: "xw_conf cloud_demo_world = Some cloud_demo_conf" by (simp add: cloud_demo_world_def)
  have 1: "count_list (norm_lines cloud_demo_conf) (header_of (cloudRemoteName (st_provider cloud_demo_drive) (st_id cloud_demo_drive))) \<le> 1" by code_simp
  have c: "case xw_conf cloud_demo_world of None \<Rightarrow> True
     | Some c \<Rightarrow> count_list (norm_lines c) (header_of (cloudRemoteName (st_provider cloud_demo_drive) (st_id cloud_demo_drive))) \<le> 1"
    using 1 by (simp add: conf)
  have 2: "section_of ''other'' cloud_demo_conf = Some [''type = x'']" "''other'' \<noteq> cloudRemoteName (st_provider cloud_demo_drive) (st_id cloud_demo_drive)" by code_simp+
  have "?r = (Inr (), snd ?r)" using done_ok by (cases ?r) simp
  then show ?thesis
    using cleanup_leaves_no_trace [OF _ p c, of demo "snd ?r" "''other''"] 2 done_ok
    by (cases ?r) (auto simp: conf, simp_all add: cloud_demo_world_def cloud_demo_token_def cloud_demo_broker_def cloud_demo_drive_def split: option.splits)
qed

section \<open>Network storages\<close>

definition cloud_demo_request :: network_req where
  "cloud_demo_request = \<lparr>nr_name = ''Files'', nr_protocol = ''smb'', nr_host = ''h2'', nr_port = 0, nr_url = [], nr_user = ''ada'', nr_password = ''pw'',
     nr_domain = [], nr_share = ''s'', nr_root = []\<rparr>"

lemma network_creation_all_or_nothing_witness:
  "(case CreateNetworkStorage demo cloud_demo_request cloud_demo_world of (r, w') \<Rightarrow>
      (case r of Inl _ \<Rightarrow> False | Inr item \<Rightarrow> xw_storages w' = xw_storages cloud_demo_world @ [item] \<and> xw_temp w' = [] \<and> st_status item = Online))"
proof -
  let ?r = "CreateNetworkStorage demo cloud_demo_request cloud_demo_world"
  have ok: "\<not> isl (fst ?r)" by code_simp
  have h: "x_id demo ''storage'' \<noteq> []" "trim (x_id demo ''storage'') = x_id demo ''storage''" "plain_seg (x_id demo ''storage'')"
    "x_temp_path demo \<noteq> []" "x_temp_path demo \<notin> fst ` set (xw_temp cloud_demo_world)" by code_simp+
  obtain item w' where r: "?r = (Inr item, w')" using ok by (cases ?r; cases "fst ?r") auto
  have "x_up demo XTempRemove" by code_simp
  then have "w'\<lparr>xw_log := [], xw_temp := []\<rparr> =
      cloud_demo_world\<lparr>xw_log := [], xw_temp := [], xw_storages := xw_storages cloud_demo_world @ [item]\<rparr>" "st_status item = Online"
    "xw_temp w' = xw_temp cloud_demo_world"
    using network_creation_all_or_nothing [OF h r] by auto
  then show ?thesis unfolding r by (cases w') (simp add: cloud_demo_world_def)
qed

text \<open>A server that checks the password: the mount fails with another one, and yet the commands are the same.\<close>

definition picky :: xenv where
  "picky = demo\<lparr>x_run := (\<lambda>fs l c. \<lparr>cr_ok = (case c of XCmd _ args _ \<Rightarrow> take 3 args \<noteq> [''mount'', ''-t'', ''cifs''] \<or>
     list_ex (\<lambda>f. contains_sub ''password=one'' (snd f)) (snd fs) | _ \<Rightarrow> True), cr_out = [], cr_err = []\<rparr>)\<rparr>"

lemma smb_password_unseen_witness:
  "xw_log (snd (EnsureNetworkStorageMounted picky (cloud_demo_share\<lparr>st_password := ''one''\<rparr>) cloud_demo_world)) =
     xw_log (snd (EnsureNetworkStorageMounted picky (cloud_demo_share\<lparr>st_password := ''two''\<rparr>) cloud_demo_world)) \<and>
   fst (EnsureNetworkStorageMounted picky (cloud_demo_share\<lparr>st_password := ''one''\<rparr>) cloud_demo_world) = Inr () \<and>
   isl (fst (EnsureNetworkStorageMounted picky (cloud_demo_share\<lparr>st_password := ''two''\<rparr>) cloud_demo_world))"
proof (intro conjI)
  have "''one'' \<noteq> []" "''two'' \<noteq> []" "st_provider cloud_demo_share = ''smb''" by (simp_all add: cloud_demo_share_def)
  from smb_password_unseen [OF this, of picky cloud_demo_world]
  show "xw_log (snd (EnsureNetworkStorageMounted picky (cloud_demo_share\<lparr>st_password := ''one''\<rparr>) cloud_demo_world)) =
     xw_log (snd (EnsureNetworkStorageMounted picky (cloud_demo_share\<lparr>st_password := ''two''\<rparr>) cloud_demo_world))" by blast
  show "fst (EnsureNetworkStorageMounted picky (cloud_demo_share\<lparr>st_password := ''one''\<rparr>) cloud_demo_world) = Inr ()" by code_simp
  show "isl (fst (EnsureNetworkStorageMounted picky (cloud_demo_share\<lparr>st_password := ''two''\<rparr>) cloud_demo_world))" by code_simp
qed

section \<open>Cloud storages\<close>

lemma completion_connects_witness:
  "(case CompleteCloudOAuthViaBroker demo ''google'' ''s1'' cloud_demo_world of
      (Inl _, w') \<Rightarrow> False
    | (Inr reply, w') \<Rightarrow> connected_to (st_id (cm_storage reply)) ''https://b'' w' \<and> cm_remote reply = ''gdrive_i1'')"
proof -
  let ?r = "CompleteCloudOAuthViaBroker demo ''google'' ''s1'' cloud_demo_world"
  have ok: "(case fst ?r of Inl _ \<Rightarrow> False | Inr reply \<Rightarrow> cm_remote reply = ''gdrive_i1'')" by code_simp
  have f: "map_option bs_base (find (\<lambda>s. bs_id s = trim ''s1'') (xw_sessions cloud_demo_world)) = Some ''https://b''" by code_simp
  obtain reply w' where r: "?r = (Inr reply, w')" "cm_remote reply = ''gdrive_i1''" using ok by (cases ?r; cases "fst ?r") auto
  show ?thesis using completion_connects [OF r(1)] f unfolding r by (auto simp: r(2) split: option.splits)
qed

lemma upload_succeeds:
  "(case UploadGoogleDriveReader demo cloud_demo_drive ''/srv/yesnas/cloud/gdrive_d1/a/x.txt'' \<lparr>sr_content = ''data'', sr_readable = True, sr_seek = None\<rparr> [] cloud_demo_world of
      (r, w') \<Rightarrow> r = Inr () \<and> length (filter is_upload (xw_log w')) = 1)"
  by code_simp

text \<open>A drive without an account gets it, and both storages come online; nothing else of them changes.\<close>

definition cloud_demo_nameless :: xworld where
  "cloud_demo_nameless = cloud_demo_world\<lparr>xw_storages := [cloud_demo_share, cloud_demo_drive\<lparr>st_username := []\<rparr>]\<rparr>"

lemma monitor_keeps_storages_witness:
  "(case checkAll demo False cloud_demo_nameless of (r, w') \<Rightarrow>
      r = Inr () \<and> list_all2 watched (xw_storages cloud_demo_nameless) (xw_storages w') \<and> map st_status (xw_storages w') = [Online, Online] \<and>
      map st_username (xw_storages w') = [''ada'', ''ada@x''])"
proof -
  let ?r = "checkAll demo False cloud_demo_nameless"
  have "keyed (xw_storages cloud_demo_nameless)" by code_simp
  from monitor_keeps_storages [OF this, of demo False]
  have "fst ?r = Inr ()" "list_all2 watched (xw_storages cloud_demo_nameless) (xw_storages (snd ?r))" by (auto split: prod.splits)
  moreover have "map st_status (xw_storages (snd ?r)) = [Online, Online]" "map st_username (xw_storages (snd ?r)) = [''ada'', ''ada@x'']" by code_simp+
  ultimately show ?thesis by (cases ?r) simp
qed

end
