(* ===== verification/Spec2Isabelle.thy ===== *)
theory Spec2Isabelle
  imports Prelude Go_Path Base64 Schedule Stores Jobs_Witnesses Users_Witnesses Files_Witnesses
    Paths_Props Calendar_Props Networks Sharing_Witnesses Uploads_Witnesses Pool_Witnesses Audit_Props Files_List_Witnesses
    Cloud_Witnesses
begin

text \<open>
  A model of the YesNAS server (the Go program under src/) and the theorems that make it correct.

  \<^bold>\<open>The program.\<close>  The server is an HTTP service over one SQLite database (database/init.sql), the
  file systems of its storages, a set of privileged commands and a few HTTP services.  Its parts, and the theories that
  model them:

  \<^item> Storages and storage pools.  The tables \<open>storage\<close>, \<open>storage_pool\<close>, \<open>storage_pool_device\<close>,
    \<open>storage_pool_snapshot\<close> with every statement of internal/storage/store.go and
    internal/storagepool/store.go: \<open>Stores\<close>.  The weekly calendar of automatic snapshots
    (create.go): \<open>Schedule\<close>, \<open>Calendar_Props\<close>.  The requests on pools are sequences of privileged
    commands between statements: \<open>Actions\<close> has what it means to stop at the first error, \<open>Commands\<close>
    the state (the tables and the log of commands), \<open>Pool_Names\<close> and \<open>Snapshot_Names\<close> the names a
    pool and its snapshots get, \<open>Pool_Devices\<close> block devices (devices.go), \<open>Pool_Runtime\<close> what is
    reported of pools (runtime.go), \<open>Pools\<close> creation, settings, deletion, formatting and replacement
    (create.go, update.go, delete.go, format.go, replace.go, mount_unit.go), \<open>Pool_List\<close> and
    \<open>Pool_Snapshots\<close> list.go and snapshots.go.
  \<^item> Cloud and network storages (internal/storage/google_drive.go, oauth_broker.go, tokens.go,
    network.go; internal/system/cloud_oauth.go, network_storage.go; internal/cloudmonitor).
    \<open>Cloud_World\<close> has the state (tables, \<open>rclone.conf\<close>, temporary files, the position of the reader of
    an upload, the log of commands and HTTP requests) and tokens.go; \<open>Cloud_Names\<close> the pure parts; \<open>Cloud_Drive\<close> configuration, mounts,
    tokens and clean-up; \<open>Cloud_Upload\<close> uploads; \<open>Cloud_Broker\<close> the connection through the broker;
    \<open>Network_Storage\<close> network.go; \<open>Cloud_Monitor\<close> the periodic check of both.
  \<^item> Jobs (internal/jobs/jobs.go).  Uploads to a cloud and automatic snapshots run as rows of the
    table \<open>jobs\<close>; a worker claims the oldest pending row, requests pause, resume, cancel or delete
    it.  \<open>Jobs_Data\<close> has the rows and the updates, \<open>Jobs\<close> the worker pass and the scheduler,
    \<open>Jobs_List\<close> the listing, \<open>Jobs_Machine\<close> the handlers and the step relation of all of them.  A run
    of a job is split where it leaves the process (the upload, the snapshot), so that requests can
    fall between its halves; a handler that reads and later writes is a read and an act.
  \<^item> Users, groups and sessions (internal/users, internal/auth, internal/identity): \<open>Passwords\<close>
    (PBKDF2 over a given HMAC, the stored form), \<open>Users\<close> (the tables), \<open>Users_Http\<close> (the handlers),
    \<open>Auth\<close> (login, logout, the middleware).
  \<^item> Files (internal/files): paths as the Go library normalises them in \<open>Go_Path\<close> and \<open>Base64\<close>
    (file identifiers); a file system as a map from lists of names to directories and files, without
    symbolic links, with the system calls and their failures, in \<open>File_System\<close>; the handlers in \<open>File_Ops\<close>; resumable
    uploads (uploads.go) in \<open>Uploads\<close>; listings, trash, tags, contents and thumbnails in
    \<open>Files_List\<close> and \<open>Files_Content\<close>.
  \<^item> Shares (internal/sharing): \<open>Networks\<close> (client addresses) and \<open>Sharing\<close>.
  \<^item> The audit log (internal/audit): \<open>Audit_Log\<close>.
  \<^item> Shared: \<open>Prelude\<close> (texts, tables, replies), \<open>Go_Int\<close> (64-bit integers), \<open>Json\<close> (JSON values and
    how they decode into structs).

  \<^bold>\<open>How code and model correspond.\<close>  A function of the source is a definition of its name; where
  two packages use one name, or HOL has it, a prefix tells them apart (\<open>users_Create\<close>,
  \<open>share_HandleList\<close>).  A struct is a record, an enumeration a datatype.  A string is the list of
  its bytes; letter case and white space are those of ASCII.  An instant is an integer of seconds,
  an \<open>int\<close> of the source an integer, with the wrap-around written out where a sum can exceed it
  (\<open>page_offset_wraps\<close>, word types for addresses and hashes).  A handler maps the state to a reply
  (\<open>Reply\<close> status body or \<open>Fail\<close> status code) and the new state; messages for humans are dropped
  where nothing tests them.  An error is \<open>Inl\<close> or \<open>None\<close>, so every early return is a branch.

  What the process finds around it is a record \<open>env\<close> of each theory, a parameter of the definitions:
  the clock, the time zone, fresh identifiers, which statement reaches the database (a function of
  its place in the code), which system call is refused.  Nothing is assumed of it except what a
  theorem names.  SHA-256, HMAC, MD5, signatures and keys, the parsing of IPv6 and of JSON, \<open>fmt.Sscanf\<close>, MIME
  types, the GeoLite2 database, SQLite's \<open>strftime\<close>, the programs that draw thumbnails, the output of
  commands (\<open>lsblk\<close>, \<open>smartctl\<close>, \<open>btrfs\<close>, \<open>mount\<close>, \<open>rclone\<close>, \<open>smbclient\<close>) and the replies of the
  HTTP services are such parameters too.  Output and replies are functions of the log so far, so a
  command given twice may answer differently; the output of a command on cloud and network storages
  also depends on the files it can read (\<open>rclone.conf\<close>, the file with the credentials).  A time zone
  (\<open>zone\<close>) tells the day and the clock of an instant and the instant of a day and a clock, as
  \<open>time.Date\<close> does; \<open>local_zone\<close> says what is assumed of it.

  \<^bold>\<open>What the lemmas show.\<close>
  \<^item> \<open>Jobs_Props\<close>: only the edges of the job state machine are taken, and at most one job runs, over
    all interleavings.  \<open>Jobs_Queue\<close>: the order of claims, which jobs a restart marks interrupted, the
    scheduler serves every due pool and never enqueues twice.  \<open>Jobs_Races\<close>: pages partition the list;
    what cancel promises; four races that lose an update or leave a file.
  \<^item> \<open>Users_Http\<close>, \<open>Auth\<close>: foreign keys, unique names and roles survive every request; which request
    creates a user, and what it leaves if it does not; who may change what; deletion cascades; a changed password authenticates; sessions are opened by a login and
    closed by a logout and by nothing else.
  \<^item> \<open>Paths_Props\<close>, \<open>Files_Safety\<close>, \<open>Files_Trash\<close>: the path guard is exactly containment; requests stay
    in their storage; moves and copies never overwrite unless asked; deleted files are in the trash.
  \<^item> \<open>Uploads_Props\<close>: the chunks arrive byte for byte; two ways they do not.
  \<^item> \<open>Sharing_Props\<close>, \<open>Networks\<close>: stored shares are in normal form, the summary counts what is enabled.
  \<^item> \<open>Pool_Props\<close>, \<open>Pool_Safety\<close>: a pool request destroys only devices it was given or that the
    pool owns; \<open>Pool_Tables\<close>: keys and references of the tables survive; \<open>Pool_Results\<close>: what creating
    and deleting a pool leaves; \<open>Pool_Errors\<close>: the reach of snapshots, a panic, a restore that loses data.
  \<^item> \<open>Files_List_Props\<close>: a listing has the visible entries of its folder in order; two pages that go wrong.
  \<^item> \<open>Audit_Props\<close>: recorded rows are in normal form, the completion of old rows changes nothing the
    second time, a search finds substrings.
  \<^item> \<open>Cloud_Conf\<close>: \<open>rclone.conf\<close> is a map from sections to lines, the log shows what is not secret;
    \<open>Cloud_Props\<close>: connecting, cleaning up, uploading, monitoring; \<open>Network_Props\<close>: creation is all or
    nothing, clean-up stays below its root, passwords of SMB are on no command line.
  \<^item> \<open>Calendar_Props\<close>: normal form of a schedule, the next run is on the first allowed day, and
    catching up after a pause ends, but for one kind of time zone.

  \<^bold>\<open>Bounds and fuel.\<close>  \<open>nextAvailablePath\<close> tries the 10000 names of the source.  \<open>catch_up\<close> is a
  \<open>partial_function\<close> (a loop without a bound in the source); \<open>catching_up_ends\<close> proves that it returns.
  Every other recursion is structural or has its measure.

  \<^bold>\<open>Interfaces.\<close>  \<open>keyed_table\<close> (look-up and deletion of rows), \<open>snapshot_clock\<close> and \<open>local_zone\<close> (the
  calendar), \<open>path_guard\<close> (containment of paths) and \<open>session_store\<close> state what their clients use.
  \<open>log_relation\<close> and \<open>action_relation\<close> (\<open>Pool_Actions\<close>) say which relations between states the pool
  operations respect, \<open>world_frame\<close>, \<open>row_frame\<close> and \<open>token_frame\<close> (\<open>Cloud_Frames\<close>) which the operations on
  remote storages respect, \<open>row_frame\<close> for the storages whose rows may be written: each operation is
  proved once there, and a property interprets the locale
  with its own relation.  Every locale is interpreted on the model's own definitions.

  \<^bold>\<open>Not modelled.\<close>
  \<^item> The benchmarks of pools (benchmark.go) and of clouds (in google_drive.go): they time transfers and
    stream the progress.
  \<^item> internal/docker: forwards requests to the client library of the Docker daemon.
  \<^item> internal/system but for the two handlers above, internal/events, platform and pkg: readings of the
    machine, sampled on timers and written to open connections.
  \<^item> internal/files/transcode.go: drives \<open>ffmpeg\<close>.
  \<^item> database/db.go, main.go, common.go, router.go: they open the database, run the schema and list the routes.
  \<^item> The making of RSA keys, the text of the logs, and the wording of messages for humans.
\<close>

end
